(* ===== verification/Prelude.thy ===== *)
theory Prelude
  imports Main "HOL-Library.Word" "HOL-Library.Multiset"
begin

text \<open>
  Shared vocabulary of the development: the agent's return codes (\<^verbatim>\<open>src/inc/common/Types.h\<close>,
  \<^verbatim>\<open>src/inc/common/ErrorCode.h\<close>), its machine integers, the list operations that stand for
  the \<^verbatim>\<open>vector\<close> loops of the code (search the first match, update it in place, erase it),
  C-string helpers, and the lemmas about them that every component theory uses.
\<close>

section \<open>Integers and return codes\<close>

text \<open>
  \<^verbatim>\<open>mp_int32\<close> and \<^verbatim>\<open>mp_int64\<close> are read as \<^typ>\<open>int\<close> where the code only compares or
  forwards them; time stamps and loop times, where wrap-around matters, are words of their width.
\<close>

type_synonym u32 = "32 word"
type_synonym u64 = "64 word"

abbreviation MP_SUCCESS :: int where "MP_SUCCESS \<equiv> 0"
abbreviation MP_FAILED :: int where "MP_FAILED \<equiv> - 1"

text \<open>
  The codes of \<^verbatim>\<open>ErrorCode.h\<close> that the modelled functions return. \<^verbatim>\<open>ERROR_COMMON_OPER_FAILED\<close>
  is the literal \<^verbatim>\<open>0xFFFFFFFF\<close>, which is \<open>-1\<close> once returned as an \<^verbatim>\<open>mp_int32\<close>.
\<close>

abbreviation ERROR_COMMON_OPER_FAILED :: int where "ERROR_COMMON_OPER_FAILED \<equiv> - 1"
abbreviation ERROR_COMMON_INVALID_PARAM :: int where "ERROR_COMMON_INVALID_PARAM \<equiv> 0x4003291A"
abbreviation ERROR_COMMON_DB_USERPWD_WRONG :: int where "ERROR_COMMON_DB_USERPWD_WRONG \<equiv> 0x4003291D"
abbreviation ERROR_COMMON_READ_CONFIG_FAILED :: int where "ERROR_COMMON_READ_CONFIG_FAILED \<equiv> 0x40032921"
abbreviation ERROR_COMMON_DLL_LOAD_FAILED :: int where "ERROR_COMMON_DLL_LOAD_FAILED \<equiv> 0x40032924"
abbreviation ERROR_COMMON_CLIENT_IS_LOCKED :: int where "ERROR_COMMON_CLIENT_IS_LOCKED \<equiv> 0x40032926"
abbreviation ERROR_COMMON_SCRIPT_FILE_NOT_EXIST :: int where "ERROR_COMMON_SCRIPT_FILE_NOT_EXIST \<equiv> 0x40032927"
abbreviation ERROR_COMMON_PLUGIN_LOAD_FAILED :: int where "ERROR_COMMON_PLUGIN_LOAD_FAILED \<equiv> 0x40032929"
abbreviation ERROR_COMMON_USER_OR_PASSWD_IS_WRONG :: int where "ERROR_COMMON_USER_OR_PASSWD_IS_WRONG \<equiv> 0x4003292C"
abbreviation ERROR_COMMON_PROC_REQUEST_BUSY :: int where "ERROR_COMMON_PROC_REQUEST_BUSY \<equiv> 0x40032936"

section \<open>Collections of simplification rules\<close>

named_theorems op_simps \<open>equations of operations, unfolded in the component proofs\<close>
named_theorems frame_simps \<open>fields an operation leaves unchanged\<close>

section \<open>Loops over a vector\<close>

text \<open>
  The code searches its vectors from the front and acts on the first element that matches.
  \<open>List.find\<close> is the search; the two functions below are the in-place update and the
  \<^verbatim>\<open>erase\<close> of the found element.
\<close>

fun update_first :: "('a \<Rightarrow> bool) \<Rightarrow> ('a \<Rightarrow> 'a) \<Rightarrow> 'a list \<Rightarrow> 'a list" where
  "update_first P f [] = []"
| "update_first P f (x # xs) = (if P x then f x # xs else x # update_first P f xs)"

fun erase_first :: "('a \<Rightarrow> bool) \<Rightarrow> 'a list \<Rightarrow> 'a list" where
  "erase_first P [] = []"
| "erase_first P (x # xs) = (if P x then xs else x # erase_first P xs)"

lemma find_eq_None: "List.find P xs = None \<longleftrightarrow> (\<forall>x\<in>set xs. \<not> P x)"
  by (induction xs) auto

lemma find_SomeD: "List.find P xs = Some x \<Longrightarrow> x \<in> set xs \<and> P x"
  by (induction xs) (auto split: if_splits)

lemma find_append: "List.find P (xs @ ys) = (case List.find P xs of None \<Rightarrow> List.find P ys | r \<Rightarrow> r)"
  by (induction xs) auto

lemma erase_first_id: "(\<forall>x\<in>set xs. \<not> P x) \<Longrightarrow> erase_first P xs = xs"
  by (induction xs) auto

lemma set_erase_first: "set (erase_first P xs) \<subseteq> set xs"
  by (induction xs) auto

lemma in_erase_first: "x \<in> set (erase_first P xs) \<Longrightarrow> x \<in> set xs"
  using set_erase_first by fast

lemma erase_first_keeps: "x \<in> set xs \<Longrightarrow> \<not> P x \<Longrightarrow> x \<in> set (erase_first P xs)"
  by (induction xs) auto

lemma mset_erase_first: "List.find P xs = Some x \<Longrightarrow> mset xs = add_mset x (mset (erase_first P xs))"
  by (induction xs) (auto split: if_splits)

lemma length_erase_first: "List.find P xs = Some x \<Longrightarrow> length xs = Suc (length (erase_first P xs))"
  by (induction xs) (auto split: if_splits)

lemma distinct_map_erase_first: "distinct (map f xs) \<Longrightarrow> distinct (map f (erase_first P xs))"
  by (induction xs) (auto dest: in_erase_first)

lemma filter_erase_first_other: "(\<And>x. P x \<Longrightarrow> \<not> Q x) \<Longrightarrow> filter Q (erase_first P xs) = filter Q xs"
  by (induction xs) auto

lemma filter_erase_first_same:
  "filter P (erase_first P xs) = tl (filter P xs)"
  by (induction xs) auto

lemma find_eq_hd_filter: "List.find P xs = (case filter P xs of [] \<Rightarrow> None | x # _ \<Rightarrow> Some x)"
  by (induction xs) auto

lemma length_update_first [simp]: "length (update_first P f xs) = length xs"
  by (induction xs) auto

lemma update_first_id: "(\<forall>x\<in>set xs. \<not> P x) \<Longrightarrow> update_first P f xs = xs"
  by (induction xs) auto

lemma map_update_first: "(\<And>x. g (f x) = g x) \<Longrightarrow> map g (update_first P f xs) = map g xs"
  by (induction xs) auto

lemma in_update_first: "y \<in> set (update_first P f xs) \<Longrightarrow> y \<in> set xs \<or> (\<exists>x\<in>set xs. P x \<and> y = f x)"
  by (induction xs) (auto split: if_splits)

lemma find_update_first: "(\<And>x. P x \<Longrightarrow> P (f x)) \<Longrightarrow> List.find P (update_first P f xs) = map_option f (List.find P xs)"
  by (induction xs) auto

lemma find_update_first_other:
  "(\<And>x. P x \<Longrightarrow> \<not> Q x \<and> \<not> Q (f x)) \<Longrightarrow> List.find Q (update_first P f xs) = List.find Q xs"
  by (induction xs) auto

lemma find_erase_first_other: "(\<And>x. P x \<Longrightarrow> \<not> Q x) \<Longrightarrow> List.find Q (erase_first P xs) = List.find Q xs"
  by (induction xs) auto

text \<open>The same with the match given as "the key equals \<open>a\<close>".\<close>

lemma find_key_update_other:
  "x \<noteq> a \<Longrightarrow> (\<And>e. k (f e) = k e) \<Longrightarrow>
   List.find (\<lambda>e. k e = x) (update_first (\<lambda>e. k e = a) f xs) = List.find (\<lambda>e. k e = x) xs"
  by (induction xs) auto

lemma find_key_update_same:
  "(\<And>e. k (f e) = k e) \<Longrightarrow>
   List.find (\<lambda>e. k e = a) (update_first (\<lambda>e. k e = a) f xs) = map_option f (List.find (\<lambda>e. k e = a) xs)"
  by (induction xs) auto

lemma find_key_erase_other:
  "x \<noteq> a \<Longrightarrow> List.find (\<lambda>e. k e = x) (erase_first (\<lambda>e. k e = a) xs) = List.find (\<lambda>e. k e = x) xs"
  by (induction xs) auto

text \<open>With distinct keys, erasing the first element of a key erases the key.\<close>

lemma find_erase_first_key:
  assumes "distinct (map k xs)"
  shows "List.find (\<lambda>x. k x = a) (erase_first (\<lambda>x. k x = a) xs) = None"
  using assms by (induction xs) (auto simp: find_eq_None intro: rev_image_eqI dest: in_erase_first)

lemma erase_first_key_filter:
  assumes "distinct (map k xs)"
  shows "erase_first (\<lambda>x. k x = a) xs = filter (\<lambda>x. k x \<noteq> a) xs"
  using assms
proof (induction xs)
  case Nil
  then show ?case by simp
next
  case (Cons x xs)
  then have "k x = a \<Longrightarrow> filter (\<lambda>y. k y \<noteq> a) xs = xs"
    by (fastforce simp: filter_id_conv intro: rev_image_eqI)
  with Cons show ?case by auto
qed

text \<open>The position of the first match, for loops that keep a pointer to the element they found.\<close>

fun find_index :: "('a \<Rightarrow> bool) \<Rightarrow> 'a list \<Rightarrow> nat option" where
  "find_index P [] = None"
| "find_index P (x # xs) = (if P x then Some 0 else map_option Suc (find_index P xs))"

lemma find_index_None: "find_index P xs = None \<longleftrightarrow> (\<forall>x\<in>set xs. \<not> P x)"
  by (induction xs) auto

lemma find_index_Some:
  "find_index P xs = Some i \<Longrightarrow> i < length xs \<and> P (xs ! i) \<and> List.find P xs = Some (xs ! i) \<and>
   update_first P f xs = xs[i := f (xs ! i)]"
  by (induction xs arbitrary: i) (auto split: if_splits)

section \<open>Strings\<close>

text \<open>
  \<^verbatim>\<open>std::string::find\<close>: the position of the first occurrence, \<^const>\<open>None\<close> for \<^verbatim>\<open>npos\<close>.
  \<^verbatim>\<open>tolower\<close> and \<^verbatim>\<open>isalnum\<close> are those of the C locale, on bytes.
\<close>

fun str_find :: "string \<Rightarrow> string \<Rightarrow> nat option" where
  "str_find pat [] = (if pat = [] then Some 0 else None)"
| "str_find pat (c # s) = (if take (length pat) (c # s) = pat then Some 0 else map_option Suc (str_find pat s))"

definition char_code :: "char \<Rightarrow> nat" where
  "char_code c = of_char c"

definition c_tolower :: "char \<Rightarrow> char" where
  "c_tolower c = (if 65 \<le> char_code c \<and> char_code c \<le> 90 then char_of (char_code c + 32) else c)"

definition c_toupper :: "char \<Rightarrow> char" where
  "c_toupper c = (if 97 \<le> char_code c \<and> char_code c \<le> 122 then char_of (char_code c - 32) else c)"

definition c_isdigit :: "char \<Rightarrow> bool" where
  "c_isdigit c \<longleftrightarrow> 48 \<le> char_code c \<and> char_code c \<le> 57"

definition c_isalnum :: "char \<Rightarrow> bool" where
  "c_isalnum c \<longleftrightarrow> c_isdigit c \<or> 65 \<le> char_code c \<and> char_code c \<le> 90 \<or> 97 \<le> char_code c \<and> char_code c \<le> 122"

text \<open>The byte that ends a C string, and the C string that starts at the head of a buffer.\<close>

definition NUL :: char where "NUL = char_of (0::nat)"

definition c_str :: "string \<Rightarrow> string" where
  "c_str buf = takeWhile (\<lambda>c. c \<noteq> NUL) buf"

lemma NUL_literal: "NUL = CHR 0x00"
  by code_simp

lemma drop_length_append: "drop (length xs) (xs @ ys) = ys"
  by simp

lemma c_str_id: "NUL \<notin> set s \<Longrightarrow> c_str s = s"
  by (auto simp: c_str_def takeWhile_eq_all_conv)

lemma char_code_less [simp]: "char_code c < 256"
  by (simp add: char_code_def)

lemma char_code_of: "n < 256 \<Longrightarrow> char_code (char_of n) = n"
  by (simp add: char_code_def)

lemma char_of_code [simp]: "char_of (char_code c) = c"
  by (simp add: char_code_def)

lemma char_code_inj: "char_code c = char_code d \<longleftrightarrow> c = d"
  by (metis char_of_code)

lemma str_find_char: "str_find [c] s = None \<longleftrightarrow> c \<notin> set s"
  by (induction s) auto

lemma str_find_char_append: "c \<notin> set s \<Longrightarrow> str_find [c] (s @ c # t) = Some (length s)"
  by (induction s) auto

lemma str_find_bound: "str_find pat s = Some i \<Longrightarrow> i + length pat \<le> length s"
proof (induction s arbitrary: i)
  case Nil
  then show ?case by (simp split: if_splits)
next
  case (Cons c s)
  show ?case
  proof (cases "take (length pat) (c # s) = pat")
    case True
    then have "length pat \<le> length (c # s)"
      by (metis length_take min.cobounded1 nat_le_linear take_all_iff)
    with Cons.prems True show ?thesis by simp
  next
    case False
    with Cons show ?thesis by auto
  qed
qed

lemma str_find_Some: "str_find pat s = Some i \<Longrightarrow> take (length pat) (drop i s) = pat"
  by (induction s arbitrary: i) (auto split: if_splits)

end
