(* ===== verification/Urls.thy ===== *)
theory Urls
  imports Prelude
begin

text \<open>
  Request URLs: \<^verbatim>\<open>CRequestURL\<close> and \<^verbatim>\<open>CUrlUtils\<close> of \<^verbatim>\<open>src/src/rest/MessageProcess.cpp\<close> and
  \<^verbatim>\<open>src/inc/rest/MessageProcess.h\<close>. Pointers into a C string become positions in a list; a read
  at the terminator gives \<^const>\<open>NUL\<close>.
\<close>

section \<open>URL decoding and encoding\<close>

definition IsHex :: "char \<Rightarrow> bool" where
  "IsHex c \<longleftrightarrow> c_isdigit c \<or> 97 \<le> char_code c \<and> char_code c \<le> 102 \<or> 65 \<le> char_code c \<and> char_code c \<le> 70"

text \<open>
  \<^verbatim>\<open>GetNum\<close>: the digits of base \<open>b\<close> (at most 16), looked up in the table of the code after
  \<^verbatim>\<open>tolower\<close>; the value is accumulated in an unsigned 64-bit integer.
\<close>

definition digit_table :: "(char \<times> nat) list" where
  "digit_table = [(CHR ''0'', 0), (CHR ''1'', 1), (CHR ''2'', 2), (CHR ''3'', 3), (CHR ''4'', 4),
    (CHR ''5'', 5), (CHR ''6'', 6), (CHR ''7'', 7), (CHR ''8'', 8), (CHR ''9'', 9), (CHR ''a'', 10),
    (CHR ''b'', 11), (CHR ''c'', 12), (CHR ''d'', 13), (CHR ''e'', 14), (CHR ''f'', 15)]"

fun getnum_loop :: "nat \<Rightarrow> string \<Rightarrow> u64 \<Rightarrow> u64 option" where
  "getnum_loop b [] ret = Some ret"
| "getnum_loop b (c # s) ret =
     (case map_of (take b digit_table) (c_tolower c) of
        None \<Rightarrow> None
      | Some cv \<Rightarrow> getnum_loop b s (ret * of_nat b + of_nat cv))"

definition GetNum :: "string \<Rightarrow> nat \<Rightarrow> nat \<Rightarrow> u64 option" where
  "GetNum s len b = (if len > 16 \<or> b > 16 \<or> len = 0 then None else getnum_loop b (take len s) 0)"

text \<open>
  \<^verbatim>\<open>Urldecode2\<close>: decode \<open>len\<close> bytes at \<open>s\<close>. An escape that is not two hex digits ends the output
  there with an error; the two digits are read even past \<open>len\<close>, at the terminator as \<^const>\<open>NUL\<close>. The
  result is the bytes written before the terminator and the return value.
\<close>

definition byte_at :: "string \<Rightarrow> nat \<Rightarrow> char" where
  "byte_at s i = (if i < length s then s ! i else NUL)"

function urldecode_loop :: "string \<Rightarrow> nat \<Rightarrow> string \<times> bool" where
  "urldecode_loop s len =
     (if len = 0 then ([], True)
      else
        (let c = byte_at s 0 in
         if c = CHR ''+'' then (let (out, ok) = urldecode_loop (drop 1 s) (len - 1) in (CHR '' '' # out, ok))
         else if c = CHR ''%'' then
           (if \<not> IsHex (byte_at s 1) \<or> \<not> IsHex (byte_at s 2) then ([], False)
            else (case GetNum (drop 1 s) 2 16 of
                    None \<Rightarrow> ([], False)
                  | Some v \<Rightarrow> (let (out, ok) = urldecode_loop (drop 3 s) (len - 3)
                               in (char_of (unat v) # out, ok))))
         else (let (out, ok) = urldecode_loop (drop 1 s) (len - 1) in (c # out, ok))))"
  by pat_completeness auto
termination by (relation "measure snd") auto

declare urldecode_loop.simps [simp del]

definition Urldecode2 :: "string \<Rightarrow> nat \<Rightarrow> string \<times> int" where
  "Urldecode2 s len =
     (case urldecode_loop s len of
        (out, True) \<Rightarrow> (out, int (length out) + 1)
      | (out, False) \<Rightarrow> (out, ERROR_COMMON_INVALID_PARAM))"

text \<open>
  \<^verbatim>\<open>GetBetweenValue(eqp, p)\<close>: the decoded bytes between the equals sign and \<open>p\<close>, here the text
  after the equals sign and its length; the C string stops at a decoded \<^const>\<open>NUL\<close>.
\<close>

definition GetBetweenValue :: "string \<Rightarrow> nat \<Rightarrow> string" where
  "GetBetweenValue s n = (if n = 0 then [] else c_str (fst (Urldecode2 s n)))"

text \<open>
  \<^verbatim>\<open>Initrfc3986tb\<close> and \<^verbatim>\<open>Urlencode2\<close>: unreserved bytes are copied, all others escaped in upper-case
  hex. The bounded print fails when the destination is too short for one item.
\<close>

definition rfc3986 :: "char \<Rightarrow> bool" where
  "rfc3986 c \<longleftrightarrow> c_isalnum c \<or> c = CHR ''~'' \<or> c = CHR ''-'' \<or> c = CHR ''.'' \<or> c = CHR ''_''"

definition hex_char :: "nat \<Rightarrow> char" where
  "hex_char n = ''0123456789ABCDEF'' ! n"

definition enc_char :: "char \<Rightarrow> string" where
  "enc_char c = (if rfc3986 c then [c] else [CHR ''%'', hex_char (char_code c div 16), hex_char (char_code c mod 16)])"

fun Urlencode2 :: "nat \<Rightarrow> string \<Rightarrow> string option" where
  "Urlencode2 destlen [] = Some []"
| "Urlencode2 destlen (c # s) =
     (if length (enc_char c) < destlen then map_option ((@) (enc_char c)) (Urlencode2 destlen s) else None)"

section \<open>The request URL\<close>

record request_url =
  m_procURL :: string
  m_oriURL :: string
  m_queryParam :: "string \<rightharpoonup> string"

abbreviation REST_TAG :: string where "REST_TAG \<equiv> ''/agent/''"

definition empty_url :: request_url where
  "empty_url = \<lparr>m_procURL = [], m_oriURL = [], m_queryParam = Map.empty\<rparr>"

definition ParseURL :: "request_url \<Rightarrow> request_url" where
  "ParseURL u = (case str_find REST_TAG (m_oriURL u) of
       None \<Rightarrow> u\<lparr>m_procURL := []\<rparr>
     | Some pos \<Rightarrow> u\<lparr>m_procURL := CHR ''/'' # drop (pos + length REST_TAG) (m_oriURL u)\<rparr>)"

definition SetOriURL :: "string \<Rightarrow> request_url \<Rightarrow> request_url" where
  "SetOriURL s u = ParseURL (u\<lparr>m_oriURL := map c_tolower s\<rparr>)"

definition SetProcURL :: "string \<Rightarrow> request_url \<Rightarrow> request_url" where
  "SetProcURL s u = u\<lparr>m_procURL := s\<rparr>"

text \<open>
  \<^verbatim>\<open>SetQueryParam\<close>: one pass over the text with the start \<open>nm\<close> of the current name and the last
  equals sign \<open>eqp\<close> seen; a pair is stored at each ampersand and at the end. (The conversion from
  UTF-8 is for Windows only.)
\<close>

definition store_param :: "string \<Rightarrow> nat \<Rightarrow> nat option \<Rightarrow> nat \<Rightarrow> (string \<rightharpoonup> string) \<Rightarrow> (string \<rightharpoonup> string)" where
  "store_param str nm eqp p m =
     (case eqp of
        None \<Rightarrow> m
      | Some e \<Rightarrow> m(take (e - nm) (drop nm str) \<mapsto> GetBetweenValue (drop (e + 1) str) (p - (e + 1))))"

fun query_loop :: "string \<Rightarrow> string \<Rightarrow> nat \<Rightarrow> nat \<Rightarrow> nat option \<Rightarrow> (string \<rightharpoonup> string) \<Rightarrow> (string \<rightharpoonup> string)" where
  "query_loop str [] p nm eqp m = store_param str nm eqp p m"
| "query_loop str (c # rest) p nm eqp m =
     (if c = CHR ''='' then query_loop str rest (p + 1) nm (Some p) m
      else if c = CHR ''&'' then query_loop str rest (p + 1) (p + 1) None (store_param str nm eqp p m)
      else query_loop str rest (p + 1) nm eqp m)"

definition SetQueryParam :: "string \<Rightarrow> request_url \<Rightarrow> request_url" where
  "SetQueryParam str u = u\<lparr>m_queryParam := query_loop str str 0 0 None (m_queryParam u)\<rparr>"

definition GetSpecialQueryParam :: "string \<Rightarrow> request_url \<Rightarrow> string" where
  "GetSpecialQueryParam k u = (case m_queryParam u k of None \<Rightarrow> [] | Some v \<Rightarrow> v)"

text \<open>\<^verbatim>\<open>GetServiceName\<close>: the first segment of the processed URL.\<close>

definition GetServiceName :: "request_url \<Rightarrow> string" where
  "GetServiceName u =
     (if m_procURL u = [] then []
      else (let strTmp = drop 1 (m_procURL u) in
            case str_find ''/'' strTmp of Some pos \<Rightarrow> take pos strTmp | None \<Rightarrow> strTmp))"

text \<open>
  \<^verbatim>\<open>GetCutURL\<close>: the loop cuts the text at each slash found and counts to \<open>index\<close>; \<^const>\<open>None\<close> is a
  loop that does not end.
\<close>

partial_function (option) cut_loop :: "int \<Rightarrow> int \<Rightarrow> string \<Rightarrow> (string \<times> nat option) option" where
  "cut_loop index iNum strTmp =
     (case str_find ''/'' strTmp of
        None \<Rightarrow> Some (strTmp, None)
      | Some pos \<Rightarrow>
          (if iNum + 1 = index then Some (strTmp, Some pos)
           else cut_loop index (iNum + 1) (drop pos strTmp)))"

definition GetCutURL :: "int \<Rightarrow> request_url \<Rightarrow> string option" where
  "GetCutURL index u =
     (if m_procURL u = [] then Some []
      else (case cut_loop index 0 (m_procURL u) of
              None \<Rightarrow> None
            | Some (strTmp, Some _) \<Rightarrow> Some []
            | Some (strTmp, None) \<Rightarrow>
                (case str_find ''/'' (drop 1 strTmp) of
                   Some pos \<Rightarrow> Some (take pos (drop 1 strTmp))
                 | None \<Rightarrow> Some (drop 1 strTmp))))"

section \<open>Decoding\<close>

lemma decode_length: "length (fst (urldecode_loop s len)) \<le> len"
proof (induction len arbitrary: s rule: less_induct)
  case (less len)
  show ?case
  proof (cases "len = 0")
    case True
    then show ?thesis by (subst urldecode_loop.simps) simp
  next
    case False
    then have IH: "length (fst (urldecode_loop (drop 1 s) (len - 1))) \<le> len - 1"
      "length (fst (urldecode_loop (drop 3 s) (len - 3))) \<le> len - 3"
      by (simp_all add: less.IH)
    then have "Suc (length (fst (urldecode_loop (drop 1 s) (len - 1)))) \<le> len"
      "Suc (length (fst (urldecode_loop (drop 3 s) (len - 3)))) \<le> len"
      using IH False by simp_all
    with False show ?thesis
      by (subst urldecode_loop.simps) (simp add: Let_def case_prod_unfold split: option.split)
  qed
qed

lemma hex_digits:
  "\<forall>n\<in>set [0, 1, 2, 3, 4, 5, 6, 7, 8, 9, 10, 11, 12, 13, 14, 15 :: nat].
     IsHex (hex_char n) \<and> map_of (take 16 digit_table) (c_tolower (hex_char n)) = Some n \<and>
     hex_char n \<noteq> CHR ''='' \<and> hex_char n \<noteq> CHR ''&''"
  by code_simp

lemma hex_range: "n < 16 \<Longrightarrow> n \<in> set [0, 1, 2, 3, 4, 5, 6, 7, 8, 9, 10, 11, 12, 13, 14, 15 :: nat]"
  by simp arith

lemma hex_char_props:
  assumes "n < 16"
  shows "IsHex (hex_char n)" "map_of (take 16 digit_table) (c_tolower (hex_char n)) = Some n"
  using bspec [OF hex_digits hex_range [OF assms]] by blast+

lemma rfc_plain: "rfc3986 c \<Longrightarrow> c \<noteq> CHR ''+'' \<and> c \<noteq> CHR ''%'' \<and> c \<noteq> CHR ''='' \<and> c \<noteq> CHR ''&''"
  by (auto simp: rfc3986_def c_isalnum_def c_isdigit_def char_code_def)

lemma decode_step_plain:
  "c \<noteq> CHR ''+'' \<Longrightarrow> c \<noteq> CHR ''%'' \<Longrightarrow>
   urldecode_loop (c # s) (Suc n) = (c # fst (urldecode_loop s n), snd (urldecode_loop s n))"
  by (subst urldecode_loop.simps) (simp add: byte_at_def case_prod_unfold Let_def)

lemma decode_empty: "urldecode_loop s 0 = ([], True)"
  by (subst urldecode_loop.simps) simp

lemma decode_step_hex:
  assumes "a < 16" "b < 16"
  shows "urldecode_loop (CHR ''%'' # hex_char a # hex_char b # s) (Suc (Suc (Suc n))) =
    (char_of (16 * a + b) # fst (urldecode_loop s n), snd (urldecode_loop s n))"
proof -
  have "16 * a + b < 256" using assms by simp
  then have v: "unat (of_nat a * 16 + of_nat b :: u64) = 16 * a + b"
    by (simp add: unat_word_ariths unat_of_nat mult.commute)
  have "GetNum (hex_char a # hex_char b # s) 2 16 = Some (of_nat a * 16 + of_nat b)"
    using assms by (simp add: GetNum_def hex_char_props numeral_2_eq_2)
  with v assms show ?thesis
    by (subst urldecode_loop.simps) (simp add: byte_at_def hex_char_props case_prod_unfold Let_def)
qed

lemma decode_enc_char:
  "urldecode_loop (enc_char c @ s) (length (enc_char c) + n) = (c # fst (urldecode_loop s n), snd (urldecode_loop s n))"
proof (cases "rfc3986 c")
  case True
  then show ?thesis using rfc_plain [of c] by (simp add: enc_char_def decode_step_plain)
next
  case False
  have "char_code c div 16 < 16" "char_code c mod 16 < 16"
    using char_code_less [of c] by (simp_all add: less_mult_imp_div_less)
  with False show ?thesis by (simp add: enc_char_def decode_step_hex)
qed

lemma decode_encode:
  "Urlencode2 d s = Some e \<Longrightarrow> urldecode_loop (e @ t) (length e) = (s, True)"
proof (induction s arbitrary: e)
  case Nil
  then show ?case by (simp add: decode_empty)
next
  case (Cons c s)
  then obtain e' where e: "Urlencode2 d s = Some e'" "e = enc_char c @ e'"
    by (auto split: if_splits)
  have "urldecode_loop (e @ t) (length e) = urldecode_loop (enc_char c @ (e' @ t)) (length (enc_char c) + length e')"
    by (simp add: e(2))
  also have "\<dots> = (c # s, True)" by (simp add: decode_enc_char Cons.IH [OF e(1)] del: append_assoc)
  finally show ?case .
qed

lemma encode_total: "4 \<le> d \<Longrightarrow> \<exists>e. Urlencode2 d s = Some e"
  by (induction s) (auto simp: enc_char_def)

text \<open>Text that decoding leaves alone.\<close>

definition plain_text :: "string \<Rightarrow> bool" where
  "plain_text s \<longleftrightarrow> (\<forall>c\<in>set s. c \<noteq> CHR ''+'' \<and> c \<noteq> CHR ''%'' \<and> c \<noteq> CHR ''='' \<and> c \<noteq> CHR ''&'' \<and> c \<noteq> NUL)"

lemma decode_plain: "plain_text s \<Longrightarrow> urldecode_loop (s @ t) (length s) = (s, True)"
  by (induction s) (auto simp: decode_empty decode_step_plain plain_text_def)

lemma plain_NUL: "plain_text s \<Longrightarrow> NUL \<notin> set s"
  by (auto simp: plain_text_def)

lemma GetBetweenValue_decoded:
  assumes "urldecode_loop r n = (s, True)" "NUL \<notin> set s"
  shows "GetBetweenValue r n = s"
  using assms by (auto simp: GetBetweenValue_def Urldecode2_def c_str_id decode_empty)

lemma GetBetweenValue_plain: "plain_text s \<Longrightarrow> GetBetweenValue (s @ t) (length s) = s"
  by (intro GetBetweenValue_decoded decode_plain plain_NUL)

lemma GetBetweenValue_encoded:
  "Urlencode2 d s = Some e \<Longrightarrow> NUL \<notin> set s \<Longrightarrow> GetBetweenValue (e @ t) (length e) = s"
  by (intro GetBetweenValue_decoded decode_encode)

section \<open>Query strings\<close>

lemma query_loop_skip:
  "(\<forall>c\<in>set a. c \<noteq> CHR ''='' \<and> c \<noteq> CHR ''&'') \<Longrightarrow>
   query_loop str (a @ r) p nm eqp m = query_loop str r (p + length a) nm eqp m"
  by (induction a arbitrary: p) auto

lemma enc_char_safe: "c \<in> set (enc_char d) \<Longrightarrow> c \<noteq> CHR ''='' \<and> c \<noteq> CHR ''&''"
proof -
  have *: "n < 16 \<Longrightarrow> hex_char n \<noteq> CHR ''='' \<and> hex_char n \<noteq> CHR ''&''" for n
    using bspec [OF hex_digits hex_range [of n]] by blast
  assume "c \<in> set (enc_char d)"
  moreover have "char_code d div 16 < 16" "char_code d mod 16 < 16"
    using char_code_less [of d] by (simp_all add: less_mult_imp_div_less)
  ultimately show ?thesis using * rfc_plain [of d] by (auto simp: enc_char_def split: if_splits)
qed

lemma encode_safe: "Urlencode2 d s = Some e \<Longrightarrow> c \<in> set e \<Longrightarrow> c \<noteq> CHR ''='' \<and> c \<noteq> CHR ''&''"
  by (induction s arbitrary: e) (auto dest: enc_char_safe split: if_splits)

text \<open>
  A query of two pairs whose names and values hold no separator: each name is bound to what
  \<^const>\<open>GetBetweenValue\<close> makes of its value.
\<close>

lemma query_two:
  assumes "\<forall>c\<in>set k1 \<union> set v1 \<union> set k2 \<union> set v2. c \<noteq> CHR ''='' \<and> c \<noteq> CHR ''&''"
    and str: "str = k1 @ ''='' @ v1 @ ''&'' @ k2 @ ''='' @ v2"
  shows "query_loop str str 0 0 None m =
    m(k1 \<mapsto> GetBetweenValue (v1 @ ''&'' @ k2 @ ''='' @ v2) (length v1), k2 \<mapsto> GetBetweenValue v2 (length v2))"
proof -
  have safe: "\<forall>c\<in>set k1. c \<noteq> CHR ''='' \<and> c \<noteq> CHR ''&''" "\<forall>c\<in>set v1. c \<noteq> CHR ''='' \<and> c \<noteq> CHR ''&''"
    "\<forall>c\<in>set k2. c \<noteq> CHR ''='' \<and> c \<noteq> CHR ''&''" "\<forall>c\<in>set v2. c \<noteq> CHR ''='' \<and> c \<noteq> CHR ''&''"
    using assms(1) by auto
  let ?m = "store_param str 0 (Some (length k1)) (length k1 + 1 + length v1) m"
  have "query_loop str str 0 0 None m =
    query_loop str (k1 @ CHR ''='' # v1 @ CHR ''&'' # k2 @ CHR ''='' # v2) 0 0 None m"
    by (simp add: str)
  also have "\<dots> = query_loop str (k2 @ CHR ''='' # v2 @ []) (length k1 + 1 + length v1 + 1) (length k1 + 1 + length v1 + 1) None ?m"
    by (simp add: query_loop_skip [OF safe(1)] query_loop_skip [OF safe(2)])
  also have "\<dots> = store_param str (length k1 + 1 + length v1 + 1) (Some (length k1 + 1 + length v1 + 1 + length k2))
      (length k1 + 1 + length v1 + 1 + length k2 + 1 + length v2) ?m"
    by (simp only: query_loop_skip [OF safe(3)] query_loop.simps if_True query_loop_skip [OF safe(4)])
       (simp add: ac_simps)
  also have "\<dots> = m(k1 \<mapsto> GetBetweenValue (v1 @ ''&'' @ k2 @ ''='' @ v2) (length v1), k2 \<mapsto> GetBetweenValue v2 (length v2))"
  proof -
    have "drop (length (k1 @ ''='' @ v1 @ ''&'' @ k2 @ ''='')) ((k1 @ ''='' @ v1 @ ''&'' @ k2 @ ''='') @ v2) = v2"
      by (rule drop_length_append)
    then have "drop (length k1 + 1 + length v1 + 1 + length k2 + 1) str = v2"
      by (simp add: str ac_simps)
    moreover have "drop (length (k1 @ ''='' @ v1 @ ''&'')) ((k1 @ ''='' @ v1 @ ''&'') @ k2 @ ''='' @ v2) = k2 @ ''='' @ v2"
      by (rule drop_length_append)
    then have "take (length k2) (drop (length k1 + 1 + length v1 + 1) str) = k2"
      by (simp add: str ac_simps)
    moreover have "drop (length k1 + 1) str = v1 @ ''&'' @ k2 @ ''='' @ v2" "take (length k1) str = k1"
      by (simp_all add: str)
    ultimately show ?thesis by (simp only: store_param_def option.case) simp
  qed
  finally show ?thesis .
qed

section \<open>Cutting a URL\<close>

lemma cut_loop_slash:
  "cut_loop index iNum (CHR ''/'' # s) =
     (if iNum + 1 = index then Some (CHR ''/'' # s, Some 0) else cut_loop index (iNum + 1) (CHR ''/'' # s))"
  by (subst cut_loop.simps) simp

lemma cut_loop_slash_ends:
  "iNum < index \<Longrightarrow> cut_loop index iNum (CHR ''/'' # s) = Some (CHR ''/'' # s, Some 0)"
proof (induction "nat (index - iNum)" arbitrary: iNum)
  case 0
  then show ?case by simp
next
  case (Suc n)
  then show ?case by (cases "iNum + 1 = index") (simp_all add: cut_loop_slash [of _ iNum])
qed

lemma str_find_slash: "CHR ''/'' \<in> set s \<Longrightarrow> \<exists>pos. str_find ''/'' s = Some pos \<and> (\<exists>t. drop pos s = CHR ''/'' # t)"
  by (induction s) (auto split: if_splits)

lemma GetCutURL_slash:
  assumes "CHR ''/'' \<in> set (m_procURL u)" "1 \<le> index"
  shows "GetCutURL index u = Some []"
proof -
  from str_find_slash [OF assms(1)] obtain pos t where
    f: "str_find ''/'' (m_procURL u) = Some pos" "drop pos (m_procURL u) = CHR ''/'' # t" by blast
  have "\<exists>s p. cut_loop index 0 (m_procURL u) = Some (s, Some p)"
  proof (cases "index = 1")
    case True
    then show ?thesis by (subst cut_loop.simps) (simp add: f)
  next
    case False
    with assms(2) show ?thesis
      by (subst cut_loop.simps) (simp add: f cut_loop_slash_ends)
  qed
  then show ?thesis using assms(1) by (auto simp: GetCutURL_def)
qed

lemma ParseURL_slash: "m_procURL (ParseURL u) \<noteq> [] \<Longrightarrow> CHR ''/'' \<in> set (m_procURL (ParseURL u))"
  by (auto simp: ParseURL_def split: option.splits)

end
