(* ===== verification/Json.thy ===== *)
theory Json
  imports Prelude
begin

text \<open>
  Access to message bodies: \<^verbatim>\<open>CJsonUtils\<close> of \<^verbatim>\<open>src/src/rest/MessageProcess.cpp\<close>. JsonCpp is not
  part of the repository: its value type is the type variable \<open>'j\<close> and the queries the code makes
  are a record of functions. An out parameter becomes a second result that starts from its old
  value.
\<close>

record 'j json_api =
  isArray :: "'j \<Rightarrow> bool"
  isObject :: "'j \<Rightarrow> bool"
  isString :: "'j \<Rightarrow> bool"
  isInt :: "'j \<Rightarrow> bool"
  isMember :: "'j \<Rightarrow> string \<Rightarrow> bool"
  member :: "'j \<Rightarrow> string \<Rightarrow> 'j"
  asString :: "'j \<Rightarrow> string"
  asInt :: "'j \<Rightarrow> int"
  asInt64 :: "'j \<Rightarrow> int"
  arr_size :: "'j \<Rightarrow> nat"
  arr_at :: "'j \<Rightarrow> nat \<Rightarrow> 'j"

definition elems :: "'j json_api \<Rightarrow> 'j \<Rightarrow> 'j list" where
  "elems J v = map (arr_at J v) [0..<arr_size J v]"

section \<open>Members of an object\<close>

definition GetJsonString :: "'j json_api \<Rightarrow> 'j \<Rightarrow> string \<Rightarrow> string \<Rightarrow> int \<times> string" where
  "GetJsonString J jsValue strKey strValue =
     (if isArray J jsValue then (ERROR_COMMON_INVALID_PARAM, strValue)
      else if isMember J jsValue strKey then
        (if isString J (member J jsValue strKey) then (MP_SUCCESS, asString J (member J jsValue strKey))
         else (ERROR_COMMON_INVALID_PARAM, strValue))
      else (ERROR_COMMON_INVALID_PARAM, []))"

definition GetJsonInt32 :: "'j json_api \<Rightarrow> 'j \<Rightarrow> string \<Rightarrow> int \<Rightarrow> int \<times> int" where
  "GetJsonInt32 J jsValue strKey iValue =
     (if isArray J jsValue then (ERROR_COMMON_INVALID_PARAM, iValue)
      else if isMember J jsValue strKey then
        (if isInt J (member J jsValue strKey) then (MP_SUCCESS, asInt J (member J jsValue strKey))
         else (ERROR_COMMON_INVALID_PARAM, iValue))
      else (ERROR_COMMON_INVALID_PARAM, MP_FAILED))"

definition GetJsonInt64 :: "'j json_api \<Rightarrow> 'j \<Rightarrow> string \<Rightarrow> int \<Rightarrow> int \<times> int" where
  "GetJsonInt64 J jsValue strKey lValue =
     (if isArray J jsValue then (ERROR_COMMON_INVALID_PARAM, lValue)
      else if isMember J jsValue strKey then
        (if isInt J (member J jsValue strKey) then (MP_SUCCESS, asInt64 J (member J jsValue strKey))
         else (ERROR_COMMON_INVALID_PARAM, lValue))
      else (ERROR_COMMON_INVALID_PARAM, MP_FAILED))"

section \<open>Arrays\<close>

text \<open>
  The loop of the \<^verbatim>\<open>GetJsonArray*\<close> functions appends each element that passes the test and, at the
  first that does not, clears the whole vector and fails. The loop of the \<^verbatim>\<open>GetArray*\<close> functions
  fails too, but keeps what it has read.
\<close>

fun array_loop_clear :: "('j \<Rightarrow> bool) \<Rightarrow> ('j \<Rightarrow> 'a) \<Rightarrow> 'j list \<Rightarrow> 'a list \<Rightarrow> int \<times> 'a list" where
  "array_loop_clear ok conv [] vec = (MP_SUCCESS, vec)"
| "array_loop_clear ok conv (v # vs) vec =
     (if ok v then array_loop_clear ok conv vs (vec @ [conv v]) else (ERROR_COMMON_INVALID_PARAM, []))"

fun array_loop_keep :: "('j \<Rightarrow> bool) \<Rightarrow> ('j \<Rightarrow> 'a) \<Rightarrow> 'j list \<Rightarrow> 'a list \<Rightarrow> int \<times> 'a list" where
  "array_loop_keep ok conv [] vec = (MP_SUCCESS, vec)"
| "array_loop_keep ok conv (v # vs) vec =
     (if ok v then array_loop_keep ok conv vs (vec @ [conv v]) else (ERROR_COMMON_INVALID_PARAM, vec))"

definition GetJsonArrayInt32 :: "'j json_api \<Rightarrow> 'j \<Rightarrow> string \<Rightarrow> int list \<Rightarrow> int \<times> int list" where
  "GetJsonArrayInt32 J jsValue strKey vecValue =
     (if isArray J jsValue then (ERROR_COMMON_INVALID_PARAM, vecValue)
      else if isMember J jsValue strKey \<and> isArray J (member J jsValue strKey) then
        array_loop_clear (\<lambda>v. \<not> isObject J v \<and> \<not> isArray J v \<and> isInt J v) (asInt J)
          (elems J (member J jsValue strKey)) vecValue
      else (ERROR_COMMON_INVALID_PARAM, vecValue))"

definition GetJsonArrayInt64 :: "'j json_api \<Rightarrow> 'j \<Rightarrow> string \<Rightarrow> int list \<Rightarrow> int \<times> int list" where
  "GetJsonArrayInt64 J jsValue strKey vecValue =
     (if isArray J jsValue then (ERROR_COMMON_INVALID_PARAM, vecValue)
      else if isMember J jsValue strKey \<and> isArray J (member J jsValue strKey) then
        array_loop_clear (\<lambda>v. \<not> isObject J v \<and> \<not> isArray J v \<and> isInt J v) (asInt64 J)
          (elems J (member J jsValue strKey)) vecValue
      else (ERROR_COMMON_INVALID_PARAM, vecValue))"

definition GetJsonArrayString :: "'j json_api \<Rightarrow> 'j \<Rightarrow> string \<Rightarrow> string list \<Rightarrow> int \<times> string list" where
  "GetJsonArrayString J jsValue strKey vecValue =
     (if isArray J jsValue then (ERROR_COMMON_INVALID_PARAM, vecValue)
      else if isMember J jsValue strKey \<and> isArray J (member J jsValue strKey) then
        array_loop_clear (\<lambda>v. \<not> isObject J v \<and> \<not> isArray J v \<and> isString J v) (asString J)
          (elems J (member J jsValue strKey)) vecValue
      else (ERROR_COMMON_INVALID_PARAM, vecValue))"

definition GetJsonArrayJson :: "'j json_api \<Rightarrow> 'j \<Rightarrow> string \<Rightarrow> 'j list \<Rightarrow> int \<times> 'j list" where
  "GetJsonArrayJson J jsValue strKey vecValue =
     (if isArray J jsValue then (ERROR_COMMON_INVALID_PARAM, vecValue)
      else if isMember J jsValue strKey \<and> isArray J (member J jsValue strKey) then
        array_loop_clear (\<lambda>v. isObject J v \<and> \<not> isArray J v) (\<lambda>v. v)
          (elems J (member J jsValue strKey)) vecValue
      else (ERROR_COMMON_INVALID_PARAM, vecValue))"

text \<open>
  The \<^verbatim>\<open>GetArray*\<close> functions convert without asking for the type: on a value that JsonCpp cannot
  convert the real \<^verbatim>\<open>asInt\<close> or \<^verbatim>\<open>asString\<close> throws, which the total functions of the record do not
  show.
\<close>

definition GetArrayInt32 :: "'j json_api \<Rightarrow> 'j \<Rightarrow> int list \<Rightarrow> int \<times> int list" where
  "GetArrayInt32 J jsValue vecValue =
     (if \<not> isArray J jsValue then (ERROR_COMMON_INVALID_PARAM, vecValue)
      else array_loop_keep (\<lambda>v. \<not> isObject J v \<and> \<not> isArray J v) (asInt J) (elems J jsValue) vecValue)"

definition GetArrayInt64 :: "'j json_api \<Rightarrow> 'j \<Rightarrow> int list \<Rightarrow> int \<times> int list" where
  "GetArrayInt64 J jsValue vecValue =
     (if \<not> isArray J jsValue then (ERROR_COMMON_INVALID_PARAM, vecValue)
      else array_loop_keep (\<lambda>v. \<not> isObject J v \<and> \<not> isArray J v) (asInt64 J) (elems J jsValue) vecValue)"

definition GetArrayString :: "'j json_api \<Rightarrow> 'j \<Rightarrow> string list \<Rightarrow> int \<times> string list" where
  "GetArrayString J jsValue vecValue =
     (if \<not> isArray J jsValue then (ERROR_COMMON_INVALID_PARAM, vecValue)
      else array_loop_keep (\<lambda>v. \<not> isObject J v \<and> \<not> isArray J v) (asString J) (elems J jsValue) vecValue)"

definition GetArrayJson :: "'j json_api \<Rightarrow> 'j \<Rightarrow> 'j list \<Rightarrow> int \<times> 'j list" where
  "GetArrayJson J jsValue vecValue =
     (if \<not> isArray J jsValue then (ERROR_COMMON_INVALID_PARAM, vecValue)
      else array_loop_keep (\<lambda>v. isObject J v \<and> \<not> isArray J v) (\<lambda>v. v) (elems J jsValue) vecValue)"

section \<open>What the accessors return\<close>

lemma GetJsonString_ok_iff:
  "fst (GetJsonString J v k s) = MP_SUCCESS \<longleftrightarrow>
     \<not> isArray J v \<and> isMember J v k \<and> isString J (member J v k)"
  by (simp add: GetJsonString_def)

lemma GetJsonString_err: "fst (GetJsonString J v k s) \<in> {MP_SUCCESS, ERROR_COMMON_INVALID_PARAM}"
  by (simp add: GetJsonString_def)

lemma GetJsonString_old: "fst (GetJsonString J v k s) = fst (GetJsonString J v k s')"
  by (simp add: GetJsonString_def)

lemma GetJsonString_ok_old:
  "fst (GetJsonString J v k s) = MP_SUCCESS \<Longrightarrow> snd (GetJsonString J v k s) = snd (GetJsonString J v k s')"
  by (simp add: GetJsonString_def split: if_splits)

lemma array_loop_clear_eq:
  "array_loop_clear ok conv vs vec =
     (if list_all ok vs then (MP_SUCCESS, vec @ map conv vs) else (ERROR_COMMON_INVALID_PARAM, []))"
  by (induction vs arbitrary: vec) auto

lemma array_loop_keep_eq:
  "array_loop_keep ok conv vs vec =
     (if list_all ok vs then MP_SUCCESS else ERROR_COMMON_INVALID_PARAM, vec @ map conv (takeWhile ok vs))"
  by (induction vs arbitrary: vec) auto

text \<open>
  A key access of the code is all or nothing: success exactly when the member is an array of
  strings, with its elements in order; otherwise an error.
\<close>

lemma GetJsonArrayString_eq:
  "GetJsonArrayString J v k vec =
     (if \<not> isArray J v \<and> isMember J v k \<and> isArray J (member J v k) then
        (if list_all (\<lambda>v. \<not> isObject J v \<and> \<not> isArray J v \<and> isString J v) (elems J (member J v k))
         then (MP_SUCCESS, vec @ map (asString J) (elems J (member J v k)))
         else (ERROR_COMMON_INVALID_PARAM, []))
      else (ERROR_COMMON_INVALID_PARAM, vec))"
  by (simp add: GetJsonArrayString_def array_loop_clear_eq)

end
