(* ===== verification/Messages.thy ===== *)
theory Messages
  imports Urls Json
begin

text \<open>
  Requests and responses: \<^verbatim>\<open>CHttpRequest\<close>, \<^verbatim>\<open>CRequestMsg\<close> and \<^verbatim>\<open>CResponseMsg\<close>
  (\<^verbatim>\<open>src/src/rest/HttpCGI.cpp\<close>, \<^verbatim>\<open>src/src/rest/MessageProcess.cpp\<close> and their headers). The
  FastCGI request object a message points to is shared between messages, so it is an address into
  a heap that holds the environment strings of each live object.
\<close>

section \<open>FastCGI objects\<close>

type_synonym addr = nat
type_synonym fcgx_heap = "addr \<rightharpoonup> string list"

text \<open>\<^verbatim>\<open>FCGX_GetParam\<close> of the FastCGI library: the value of a name in an environment.\<close>

type_synonym get_param = "string \<Rightarrow> string list \<Rightarrow> string option"

abbreviation UNKNOWN :: string where "UNKNOWN \<equiv> ''Unknown''"
abbreviation REMOTE_ADDR :: string where "REMOTE_ADDR \<equiv> ''REMOTE_ADDR''"
abbreviation REQUEST_URI :: string where "REQUEST_URI \<equiv> ''REQUEST_URI''"
abbreviation REQUEST_METHOD :: string where "REQUEST_METHOD \<equiv> ''REQUEST_METHOD''"
abbreviation UNAME :: string where "UNAME \<equiv> ''HTTP_X_AUTH_USER''"
abbreviation PW :: string where "PW \<equiv> ''HTTP_X_AUTH_KEY''"
abbreviation HTTPPARAM_DBUSERNAME :: string where "HTTPPARAM_DBUSERNAME \<equiv> ''HTTP_DBUSERNAME''"
abbreviation HTTPPARAM_DBPASSWORD :: string where "HTTPPARAM_DBPASSWORD \<equiv> ''HTTP_DBPASSWORD''"

record http_request =
  m_strURL :: string
  m_strQueryParam :: string
  m_strMethod :: string
  m_pFcgRequest :: "addr option"

text \<open>
  The constructor splits the request line at the first question mark; a missing variable of the
  environment reads as \<^verbatim>\<open>Unknown\<close>.
\<close>

definition CHttpRequest :: "get_param \<Rightarrow> addr \<Rightarrow> string list \<Rightarrow> http_request" where
  "CHttpRequest gp a envp =
     (let (u, q) = (case gp REQUEST_URI envp of
            None \<Rightarrow> (UNKNOWN, [])
          | Some uri \<Rightarrow>
              (case str_find ''?'' uri of
                 Some pos \<Rightarrow> (take pos uri, drop (pos + 1) uri)
               | None \<Rightarrow> (uri, [])))
      in \<lparr>m_strURL = u, m_strQueryParam = q,
          m_strMethod = (case gp REQUEST_METHOD envp of None \<Rightarrow> UNKNOWN | Some m \<Rightarrow> m),
          m_pFcgRequest = Some a\<rparr>)"

text \<open>
  \<^verbatim>\<open>GetHead\<close> follows the pointer of the message: \<^const>\<open>None\<close> where it is null or points to an object
  that has been freed.
\<close>

definition GetHead :: "get_param \<Rightarrow> fcgx_heap \<Rightarrow> string \<Rightarrow> http_request \<Rightarrow> string option" where
  "GetHead gp h name r =
     (case m_pFcgRequest r of
        None \<Rightarrow> None
      | Some a \<Rightarrow> (case h a of
          None \<Rightarrow> None
        | Some envp \<Rightarrow> Some (case gp name envp of None \<Rightarrow> UNKNOWN | Some v \<Rightarrow> v)))"

section \<open>Messages\<close>

record 'j request_msg =
  m_url :: request_url
  m_msgBody :: 'j
  m_httpReq :: http_request

datatype rsp_type = RSP_JSON_TYPE | RSP_ATTACHMENT_TYPE

abbreviation SC_OK :: int where "SC_OK \<equiv> 200"
abbreviation SC_UNAUTHORIZED :: int where "SC_UNAUTHORIZED \<equiv> 401"
abbreviation SC_NOT_ACCEPTABLE :: int where "SC_NOT_ACCEPTABLE \<equiv> 406"

record 'j response_msg =
  m_msgJsonData :: 'j
  m_httpType :: rsp_type
  m_lRetCode :: int
  m_iHttpStatus :: int
  m_httpRsp :: "addr option"
  m_bInternalMsg :: bool

type_synonym 'j message_pair = "'j request_msg \<times> 'j response_msg"

text \<open>
  A request built from a FastCGI object (the body is read later, until then it is the null value
  \<open>jnull\<close>), the response of an external request, and the response of an internal one.
\<close>

definition CRequestMsg :: "get_param \<Rightarrow> 'j \<Rightarrow> addr \<Rightarrow> string list \<Rightarrow> 'j request_msg" where
  "CRequestMsg gp jnull a envp =
     (let r = CHttpRequest gp a envp
      in \<lparr>m_url = SetQueryParam (m_strQueryParam r) (SetOriURL (m_strURL r) empty_url),
          m_msgBody = jnull, m_httpReq = r\<rparr>)"

definition CResponseMsg :: "'j \<Rightarrow> addr \<Rightarrow> 'j response_msg" where
  "CResponseMsg jnull a = \<lparr>m_msgJsonData = jnull, m_httpType = RSP_JSON_TYPE, m_lRetCode = MP_SUCCESS,
     m_iHttpStatus = SC_OK, m_httpRsp = Some a, m_bInternalMsg = False\<rparr>"

definition CResponseMsg_internal :: "'j \<Rightarrow> 'j response_msg" where
  "CResponseMsg_internal jnull = \<lparr>m_msgJsonData = jnull, m_httpType = RSP_JSON_TYPE, m_lRetCode = MP_SUCCESS,
     m_iHttpStatus = SC_OK, m_httpRsp = None, m_bInternalMsg = True\<rparr>"

abbreviation is_internal :: "'j message_pair \<Rightarrow> bool" where
  "is_internal p \<equiv> m_bInternalMsg (snd p)"

abbreviation GetProcURL :: "'j request_msg \<Rightarrow> string" where
  "GetProcURL r \<equiv> m_procURL (m_url r)"

definition SetRetCode :: "int \<Rightarrow> 'j message_pair \<Rightarrow> 'j message_pair" where
  "SetRetCode rc p = (fst p, (snd p)\<lparr>m_lRetCode := rc\<rparr>)"

lemma SetRetCode_sel [simp]:
  "fst (SetRetCode rc p) = fst p" "is_internal (SetRetCode rc p) = is_internal p"
  "m_lRetCode (snd (SetRetCode rc p)) = rc"
  by (simp_all add: SetRetCode_def)

text \<open>
  \<^verbatim>\<open>PackageReponse\<close>: what is sent back. A failed request with an untouched status becomes
  \<^verbatim>\<open>SC_NOT_ACCEPTABLE\<close>; the body is the payload, or an object with the error code and the payload.
\<close>

datatype 'j reply_body = Payload 'j | ErrorReply int 'j

definition PackageReponse :: "'j response_msg \<Rightarrow> 'j response_msg \<times> 'j reply_body" where
  "PackageReponse r =
     (if m_lRetCode r = MP_SUCCESS then (r, Payload (m_msgJsonData r))
      else ((if m_iHttpStatus r = SC_OK then r\<lparr>m_iHttpStatus := SC_NOT_ACCEPTABLE\<rparr> else r),
            ErrorReply (m_lRetCode r) (m_msgJsonData r)))"

lemma PackageReponse_failure_visible:
  "m_lRetCode r \<noteq> MP_SUCCESS \<Longrightarrow> m_iHttpStatus (fst (PackageReponse r)) \<noteq> SC_OK"
  by (simp add: PackageReponse_def)

end
