(* ===== verification/FreezeRequests.thy ===== *)
theory FreezeRequests
  imports Messages
begin

text \<open>
  The requests the freeze monitor knows (\<^verbatim>\<open>src/src/agent/FTExceptionHandle.cpp\<close>,
  \<^verbatim>\<open>src/inc/rest/Interfaces.h\<close>): their URLs, their kinds, and the application type, instance name
  and database name of a request.
\<close>

section \<open>URLs and keys\<close>

abbreviation REST_HOST_FREEZE_SCRIPT :: string where "REST_HOST_FREEZE_SCRIPT \<equiv> ''/host/thirdparty/action/freeze''"
abbreviation REST_HOST_UNFREEZE_SCRIPT :: string where "REST_HOST_UNFREEZE_SCRIPT \<equiv> ''/host/thirdparty/action/unfreeze''"
abbreviation REST_HOST_QUERY_STATUS_SCRIPT :: string where "REST_HOST_QUERY_STATUS_SCRIPT \<equiv> ''/host/thirdparty/freezestate''"
abbreviation REST_DEVICE_FILESYS_FREEZE :: string where "REST_DEVICE_FILESYS_FREEZE \<equiv> ''/device/filesystems/action/freeze''"
abbreviation REST_DEVICE_FILESYS_UNFREEZE :: string where "REST_DEVICE_FILESYS_UNFREEZE \<equiv> ''/device/filesystems/action/unfreeze''"
abbreviation REST_DEVICE_FILESYS_FREEZESTATUS :: string where "REST_DEVICE_FILESYS_FREEZESTATUS \<equiv> ''/device/filesystems/freezestate''"
abbreviation REST_DB2_FREEZE :: string where "REST_DB2_FREEZE \<equiv> ''/db2/databases/action/freeze''"
abbreviation REST_DB2_UNFREEZE :: string where "REST_DB2_UNFREEZE \<equiv> ''/db2/databases/action/unfreeze''"
abbreviation REST_DB2_FREEZESTATE :: string where "REST_DB2_FREEZESTATE \<equiv> ''/db2/databases/freezestate''"
abbreviation REST_ORACLE_FREEZE :: string where "REST_ORACLE_FREEZE \<equiv> ''/oracle/databases/action/freeze''"
abbreviation REST_ORACLE_UNFREEZE :: string where "REST_ORACLE_UNFREEZE \<equiv> ''/oracle/databases/action/unfreeze''"
abbreviation REST_ORACLE_FREEZESTATE :: string where "REST_ORACLE_FREEZESTATE \<equiv> ''/oracle/databases/freezestate''"
abbreviation REST_EXCHANGE_FREEZE_DB :: string where "REST_EXCHANGE_FREEZE_DB \<equiv> ''/exchange/databases/action/freeze''"
abbreviation REST_EXCHANGE_UNFREEZE_DB :: string where "REST_EXCHANGE_UNFREEZE_DB \<equiv> ''/exchange/databases/action/unfreeze''"
abbreviation REST_EXCHANGE_GET_FREEZE_STAT :: string where "REST_EXCHANGE_GET_FREEZE_STAT \<equiv> ''/exchange/databases/freezestate''"
abbreviation REST_SQLSERVER_FREEZE_DB :: string where "REST_SQLSERVER_FREEZE_DB \<equiv> ''/sqlserver/databases/action/freeze''"
abbreviation REST_SQLSERVER_UNFREEZE_DB :: string where "REST_SQLSERVER_UNFREEZE_DB \<equiv> ''/sqlserver/databases/action/unfreeze''"
abbreviation REST_SQLSERVER_GET_FREEZE_STAT :: string where "REST_SQLSERVER_GET_FREEZE_STAT \<equiv> ''/sqlserver/databases/freezestate''"
abbreviation REST_APP_FREEZE :: string where "REST_APP_FREEZE \<equiv> ''/app/action/freezeall''"
abbreviation REST_APP_UNFREEZE :: string where "REST_APP_UNFREEZE \<equiv> ''/app/action/unfreezeall''"
abbreviation REST_APP_QUERY_DB_FREEZESTATE :: string where "REST_APP_QUERY_DB_FREEZESTATE \<equiv> ''/app/freezestate''"
abbreviation REST_APP_UNFREEZEEX :: string where "REST_APP_UNFREEZEEX \<equiv> ''/app/action/unfreezeex''"
abbreviation REST_SYBASE_FREEZE :: string where "REST_SYBASE_FREEZE \<equiv> ''/sybase/databases/action/freeze''"
abbreviation REST_SYBASE_THAW :: string where "REST_SYBASE_THAW \<equiv> ''/sybase/databases/action/unfreeze''"
abbreviation REST_SYBASE_GET_FREEZE_STATE :: string where "REST_SYBASE_GET_FREEZE_STATE \<equiv> ''/sybase/databases/freezestate''"
abbreviation REST_HANA_FREEZE :: string where "REST_HANA_FREEZE \<equiv> ''/hana/databases/action/freeze''"
abbreviation REST_HANA_THAW :: string where "REST_HANA_THAW \<equiv> ''/hana/databases/action/unfreeze''"
abbreviation REST_HANA_GET_FREEZE_STATE :: string where "REST_HANA_GET_FREEZE_STATE \<equiv> ''/hana/databases/freezestate''"

abbreviation REST_URL_METHOD_PUT :: string where "REST_URL_METHOD_PUT \<equiv> ''PUT''"
abbreviation REST_URL_METHOD_GET :: string where "REST_URL_METHOD_GET \<equiv> ''GET''"

abbreviation REST_PARAM_HOST_FREEZE_SCRIPT_FILENAME :: string where "REST_PARAM_HOST_FREEZE_SCRIPT_FILENAME \<equiv> ''freezeFile''"
abbreviation REST_PARAM_HOST_FREEZE_SCRIPT_PARAM :: string where "REST_PARAM_HOST_FREEZE_SCRIPT_PARAM \<equiv> ''freezeParams''"
abbreviation REST_PARAM_HOST_QUERY_SCRIPT_FILENAME :: string where "REST_PARAM_HOST_QUERY_SCRIPT_FILENAME \<equiv> ''queryFile''"
abbreviation REST_PARAM_HOST_QUERY_SCRIPT_PARAM :: string where "REST_PARAM_HOST_QUERY_SCRIPT_PARAM \<equiv> ''queryParam''"
abbreviation REST_PARAM_HOST_FREEZE_TIMEOUT :: string where "REST_PARAM_HOST_FREEZE_TIMEOUT \<equiv> ''freezeTimeOut''"

abbreviation INST_NAME :: string where "INST_NAME \<equiv> ''instName''"
abbreviation INST_NUM :: string where "INST_NUM \<equiv> ''instNum''"
abbreviation VSS_INSTANCE_NAME :: string where "VSS_INSTANCE_NAME \<equiv> ''VSSinstName''"
abbreviation DBNAME :: string where "DBNAME \<equiv> ''dbName''"
abbreviation VSS_DB_NAME :: string where "VSS_DB_NAME \<equiv> ''VSSdbName''"
abbreviation FILESYTEM_DB_NAME :: string where "FILESYTEM_DB_NAME \<equiv> ''FiledbName''"
abbreviation DISKNAMES :: string where "DISKNAMES \<equiv> ''diskNames''"
abbreviation LOOP_TIME :: string where "LOOP_TIME \<equiv> ''loop_time''"
abbreviation DB_FREEZE_STATUS :: string where "DB_FREEZE_STATUS \<equiv> ''state''"
abbreviation APPDBNAME :: string where "APPDBNAME \<equiv> ''AppdbName''"
abbreviation APPINSTNAME :: string where "APPINSTNAME \<equiv> ''AppInstName''"

text \<open>\<^verbatim>\<open>APP_TYPE_E\<close>. Application types are stored as \<^verbatim>\<open>mp_int32\<close> and read back from the database.\<close>

abbreviation TYPE_APP_DB2 :: int where "TYPE_APP_DB2 \<equiv> 0"
abbreviation TYPE_APP_ORACLE :: int where "TYPE_APP_ORACLE \<equiv> 1"
abbreviation TYPE_APP_SQL :: int where "TYPE_APP_SQL \<equiv> 2"
abbreviation TYPE_APP_EXCHANGE :: int where "TYPE_APP_EXCHANGE \<equiv> 3"
abbreviation TYPE_APP_FILESYSTEM :: int where "TYPE_APP_FILESYSTEM \<equiv> 4"
abbreviation TYPE_APP_THIRDPARTY :: int where "TYPE_APP_THIRDPARTY \<equiv> 5"
abbreviation TYPE_APP_APP :: int where "TYPE_APP_APP \<equiv> 6"
abbreviation TYPE_APP_SYBASE :: int where "TYPE_APP_SYBASE \<equiv> 7"
abbreviation TYPE_APP_HANA :: int where "TYPE_APP_HANA \<equiv> 8"
abbreviation TYPE_APP_UNKNOWN :: int where "TYPE_APP_UNKNOWN \<equiv> 9"

section \<open>Kinds of requests\<close>

definition IsFreezeRequest :: "'j request_msg \<Rightarrow> bool" where
  "IsFreezeRequest r \<longleftrightarrow> GetProcURL r \<in> {REST_ORACLE_FREEZE, REST_DB2_FREEZE, REST_SQLSERVER_FREEZE_DB,
     REST_EXCHANGE_FREEZE_DB, REST_DEVICE_FILESYS_FREEZE, REST_HOST_FREEZE_SCRIPT, REST_APP_FREEZE,
     REST_SYBASE_FREEZE, REST_HANA_FREEZE}"

definition IsUnFreezeRequest :: "'j request_msg \<Rightarrow> bool" where
  "IsUnFreezeRequest r \<longleftrightarrow> GetProcURL r \<in> {REST_ORACLE_UNFREEZE, REST_DB2_UNFREEZE, REST_SQLSERVER_UNFREEZE_DB,
     REST_EXCHANGE_UNFREEZE_DB, REST_DEVICE_FILESYS_UNFREEZE, REST_HOST_UNFREEZE_SCRIPT, REST_APP_UNFREEZE,
     REST_APP_UNFREEZEEX, REST_SYBASE_THAW, REST_HANA_THAW}"

definition IsQueryStatusRequest :: "'j request_msg \<Rightarrow> bool" where
  "IsQueryStatusRequest r \<longleftrightarrow> GetProcURL r \<in> {REST_ORACLE_FREEZESTATE, REST_DB2_FREEZESTATE,
     REST_SQLSERVER_GET_FREEZE_STAT, REST_EXCHANGE_GET_FREEZE_STAT, REST_DEVICE_FILESYS_FREEZESTATUS,
     REST_HOST_QUERY_STATUS_SCRIPT, REST_APP_QUERY_DB_FREEZESTATE, REST_SYBASE_GET_FREEZE_STATE,
     REST_HANA_GET_FREEZE_STATE}"

definition IsVSSRequest :: "'j request_msg \<Rightarrow> bool" where
  "IsVSSRequest r \<longleftrightarrow> GetProcURL r \<in> {REST_SQLSERVER_FREEZE_DB, REST_SQLSERVER_UNFREEZE_DB,
     REST_EXCHANGE_FREEZE_DB, REST_EXCHANGE_UNFREEZE_DB, REST_SQLSERVER_GET_FREEZE_STAT,
     REST_EXCHANGE_GET_FREEZE_STAT}"

definition IsDB2OrOracleRequest :: "'j request_msg \<Rightarrow> bool" where
  "IsDB2OrOracleRequest r \<longleftrightarrow> GetProcURL r \<in> {REST_ORACLE_FREEZE, REST_ORACLE_UNFREEZE, REST_DB2_FREEZE,
     REST_DB2_UNFREEZE, REST_DB2_FREEZESTATE, REST_ORACLE_FREEZESTATE, REST_SYBASE_FREEZE, REST_SYBASE_THAW,
     REST_SYBASE_GET_FREEZE_STATE, REST_HANA_FREEZE, REST_HANA_THAW, REST_HANA_GET_FREEZE_STATE}"

definition IsFSRequest :: "'j request_msg \<Rightarrow> bool" where
  "IsFSRequest r \<longleftrightarrow> GetProcURL r \<in> {REST_DEVICE_FILESYS_FREEZE, REST_DEVICE_FILESYS_UNFREEZE,
     REST_DEVICE_FILESYS_FREEZESTATUS}"

definition IsThirdPartyRequest :: "'j request_msg \<Rightarrow> bool" where
  "IsThirdPartyRequest r \<longleftrightarrow> GetProcURL r \<in> {REST_HOST_FREEZE_SCRIPT, REST_HOST_UNFREEZE_SCRIPT,
     REST_HOST_QUERY_STATUS_SCRIPT}"

definition IsAppRequest :: "'j request_msg \<Rightarrow> bool" where
  "IsAppRequest r \<longleftrightarrow> GetProcURL r \<in> {REST_APP_FREEZE, REST_APP_UNFREEZE, REST_APP_QUERY_DB_FREEZESTATE,
     REST_APP_UNFREEZEEX}"

text \<open>The application type is read off the URL: the first of these words that occurs in it.\<close>

definition contains :: "string \<Rightarrow> string \<Rightarrow> bool" where
  "contains pat s \<longleftrightarrow> str_find pat s \<noteq> None"

definition url_app_type :: "string \<Rightarrow> int" where
  "url_app_type strUrl =
     (if contains ''oracle'' strUrl then TYPE_APP_ORACLE
      else if contains ''db2'' strUrl then TYPE_APP_DB2
      else if contains ''sql'' strUrl then TYPE_APP_SQL
      else if contains ''exchange'' strUrl then TYPE_APP_EXCHANGE
      else if contains ''filesystems'' strUrl then TYPE_APP_FILESYSTEM
      else if contains ''thirdparty'' strUrl then TYPE_APP_THIRDPARTY
      else if contains ''app'' strUrl then TYPE_APP_APP
      else if contains ''sybase'' strUrl then TYPE_APP_SYBASE
      else if contains ''hana'' strUrl then TYPE_APP_HANA
      else TYPE_APP_UNKNOWN)"

definition GetRequestAppType :: "'j request_msg \<Rightarrow> int" where
  "GetRequestAppType r = url_app_type (GetProcURL r)"

definition GetQueryStatusUrl :: "int \<Rightarrow> string" where
  "GetQueryStatusUrl iAppType =
     (if iAppType = TYPE_APP_DB2 then REST_DB2_FREEZESTATE
      else if iAppType = TYPE_APP_ORACLE then REST_ORACLE_FREEZESTATE
      else if iAppType = TYPE_APP_SQL then REST_SQLSERVER_GET_FREEZE_STAT
      else if iAppType = TYPE_APP_EXCHANGE then REST_EXCHANGE_GET_FREEZE_STAT
      else if iAppType = TYPE_APP_FILESYSTEM then REST_DEVICE_FILESYS_FREEZESTATUS
      else if iAppType = TYPE_APP_THIRDPARTY then REST_HOST_QUERY_STATUS_SCRIPT
      else if iAppType = TYPE_APP_APP then REST_APP_QUERY_DB_FREEZESTATE
      else if iAppType = TYPE_APP_SYBASE then REST_SYBASE_GET_FREEZE_STATE
      else if iAppType = TYPE_APP_HANA then REST_HANA_GET_FREEZE_STATE
      else [])"

definition GetUnFreezeUrl :: "int \<Rightarrow> string" where
  "GetUnFreezeUrl iAppType =
     (if iAppType = TYPE_APP_DB2 then REST_DB2_UNFREEZE
      else if iAppType = TYPE_APP_ORACLE then REST_ORACLE_UNFREEZE
      else if iAppType = TYPE_APP_SQL then REST_SQLSERVER_UNFREEZE_DB
      else if iAppType = TYPE_APP_EXCHANGE then REST_EXCHANGE_UNFREEZE_DB
      else if iAppType = TYPE_APP_FILESYSTEM then REST_DEVICE_FILESYS_UNFREEZE
      else if iAppType = TYPE_APP_THIRDPARTY then REST_HOST_UNFREEZE_SCRIPT
      else if iAppType = TYPE_APP_APP then REST_APP_UNFREEZEEX
      else if iAppType = TYPE_APP_SYBASE then REST_SYBASE_THAW
      else if iAppType = TYPE_APP_HANA then REST_HANA_THAW
      else [])"

section \<open>Instance and database of a request\<close>

text \<open>
  The two functions write their result into a reference argument, whose old value is passed in:
  \<^verbatim>\<open>GetJsonString\<close> leaves it as it was on some errors.
\<close>

definition GetRequestInstanceName :: "'j json_api \<Rightarrow> 'j request_msg \<Rightarrow> string \<Rightarrow> int \<times> string" where
  "GetRequestInstanceName J r strInstanceName =
     (if IsDB2OrOracleRequest r then
        (case GetJsonString J (m_msgBody r) INST_NAME [] of
           (iRet, other) \<Rightarrow>
             (case GetJsonString J (m_msgBody r) INST_NUM [] of
                (iRetGetNum, num) \<Rightarrow>
                  (if iRet \<noteq> MP_SUCCESS \<and> iRetGetNum \<noteq> MP_SUCCESS then (iRet, strInstanceName)
                   else (MP_SUCCESS, if iRet = MP_SUCCESS then other else num))))
      else if IsVSSRequest r then (MP_SUCCESS, VSS_INSTANCE_NAME)
      else if IsFSRequest r then
        (case GetJsonArrayString J (m_msgBody r) DISKNAMES [] of
           (iRet, vecDisks) \<Rightarrow>
             (if iRet \<noteq> MP_SUCCESS then (iRet, strInstanceName)
              else (MP_SUCCESS, foldl (\<lambda>acc d. acc @ d @ '':'') [] vecDisks)))
      else if IsThirdPartyRequest r then
        GetJsonString J (m_msgBody r) REST_PARAM_HOST_FREEZE_SCRIPT_FILENAME strInstanceName
      else if IsAppRequest r then (MP_SUCCESS, APPINSTNAME)
      else (MP_FAILED, strInstanceName))"

definition GetRequestDbName :: "'j json_api \<Rightarrow> 'j request_msg \<Rightarrow> string \<Rightarrow> int \<times> string" where
  "GetRequestDbName J r strDbName =
     (if IsDB2OrOracleRequest r then GetJsonString J (m_msgBody r) DBNAME strDbName
      else if IsVSSRequest r then (MP_SUCCESS, VSS_DB_NAME)
      else if IsFSRequest r then (MP_SUCCESS, FILESYTEM_DB_NAME)
      else if IsThirdPartyRequest r then
        (if isMember J (m_msgBody r) REST_PARAM_HOST_FREEZE_SCRIPT_PARAM
         then GetJsonString J (m_msgBody r) REST_PARAM_HOST_FREEZE_SCRIPT_PARAM strDbName
         else (MP_SUCCESS, []))
      else if IsAppRequest r then (MP_SUCCESS, APPDBNAME)
      else (MP_FAILED, strDbName))"

section \<open>The URLs and the types fit together\<close>

text \<open>
  For each supported type the unfreeze URL and the query URL are of the right kind, of the same
  kind as the freeze request, and are read back as that type.
\<close>

lemma foldl_disks: "foldl (\<lambda>acc d. acc @ d @ '':'') a ds = a @ concat (map (\<lambda>d. d @ '':'') ds)"
  by (induction ds arbitrary: a) auto

definition supported :: "int list" where
  "supported = [TYPE_APP_DB2, TYPE_APP_ORACLE, TYPE_APP_SQL, TYPE_APP_EXCHANGE, TYPE_APP_FILESYSTEM,
     TYPE_APP_THIRDPARTY, TYPE_APP_APP, TYPE_APP_SYBASE, TYPE_APP_HANA]"

text \<open>The family of a request: which of the five kinds of monitors it belongs to.\<close>

datatype family = DBs | VSS | FS | ThirdParty | App

definition url_req :: "string \<Rightarrow> unit request_msg" where
  "url_req u = \<lparr>m_url = empty_url\<lparr>m_procURL := u\<rparr>, m_msgBody = (),
     m_httpReq = \<lparr>m_strURL = [], m_strQueryParam = [], m_strMethod = [], m_pFcgRequest = None\<rparr>\<rparr>"

definition families :: "'j request_msg \<Rightarrow> family list" where
  "families r = (if IsDB2OrOracleRequest r then [DBs] else []) @ (if IsVSSRequest r then [VSS] else []) @
     (if IsFSRequest r then [FS] else []) @ (if IsThirdPartyRequest r then [ThirdParty] else []) @
     (if IsAppRequest r then [App] else [])"

definition type_family :: "int \<Rightarrow> family" where
  "type_family t =
     (if t \<in> {TYPE_APP_SQL, TYPE_APP_EXCHANGE} then VSS else if t = TYPE_APP_FILESYSTEM then FS
      else if t = TYPE_APP_THIRDPARTY then ThirdParty else if t = TYPE_APP_APP then App else DBs)"

lemma families_url: "families r = families (url_req (GetProcURL r))"
  by (simp add: families_def IsDB2OrOracleRequest_def IsVSSRequest_def IsFSRequest_def IsThirdPartyRequest_def
      IsAppRequest_def url_req_def)

definition freeze_urls :: "string list" where
  "freeze_urls = [REST_ORACLE_FREEZE, REST_DB2_FREEZE, REST_SQLSERVER_FREEZE_DB, REST_EXCHANGE_FREEZE_DB,
     REST_DEVICE_FILESYS_FREEZE, REST_HOST_FREEZE_SCRIPT, REST_APP_FREEZE, REST_SYBASE_FREEZE, REST_HANA_FREEZE]"

lemma supported_urls:
  "\<forall>t\<in>set supported. url_app_type (GetQueryStatusUrl t) = t \<and> url_app_type (GetUnFreezeUrl t) = t \<and>
     families (url_req (GetQueryStatusUrl t)) = [type_family t] \<and>
     families (url_req (GetUnFreezeUrl t)) = [type_family t] \<and>
     IsQueryStatusRequest (url_req (GetQueryStatusUrl t)) \<and> \<not> IsUnFreezeRequest (url_req (GetQueryStatusUrl t)) \<and>
     IsUnFreezeRequest (url_req (GetUnFreezeUrl t)) \<and> \<not> IsQueryStatusRequest (url_req (GetUnFreezeUrl t)) \<and>
     \<not> IsFreezeRequest (url_req (GetQueryStatusUrl t)) \<and> \<not> IsFreezeRequest (url_req (GetUnFreezeUrl t)) \<and>
     GetQueryStatusUrl t \<noteq> [] \<and> GetUnFreezeUrl t \<noteq> []"
  by code_simp

lemma freeze_urls_types:
  "\<forall>u\<in>set freeze_urls. url_app_type u \<in> set supported \<and> families (url_req u) = [type_family (url_app_type u)]"
  by code_simp

end
