(* ===== verification/Fifo.thy ===== *)
theory Fifo
  imports Prelude
begin

text \<open>
  The interface of the agent's message queues: a push at the end, and a pop that takes the first
  message of a class. Its laws give, once, what every client relies on: nothing is lost or
  duplicated, and each class is served in the order of arrival.
\<close>

datatype 'm qop = Push 'm | Pop

text \<open>A run of operations: the queue left behind and the messages popped, in order.\<close>

fun qrun :: "('m \<Rightarrow> 's \<Rightarrow> 's) \<Rightarrow> ('s \<Rightarrow> 's \<times> 'm option) \<Rightarrow> 'm qop list \<Rightarrow> 's \<Rightarrow> 's \<times> 'm list" where
  "qrun push pop [] s = (s, [])"
| "qrun push pop (Push m # ops) s = qrun push pop ops (push m s)"
| "qrun push pop (Pop # ops) s =
     (let (s1, r) = pop s; (s2, out) = qrun push pop ops s1
      in (s2, (case r of None \<Rightarrow> out | Some m \<Rightarrow> m # out)))"

fun pushed :: "'m qop list \<Rightarrow> 'm list" where
  "pushed [] = []"
| "pushed (Push m # ops) = m # pushed ops"
| "pushed (Pop # ops) = pushed ops"

text \<open>The generic queue on a list with a class of messages to serve.\<close>

definition pop_class :: "('m \<Rightarrow> bool) \<Rightarrow> 'm list \<Rightarrow> 'm list \<times> 'm option" where
  "pop_class sel q =
     (case List.find sel q of None \<Rightarrow> (q, None) | Some m \<Rightarrow> (erase_first sel q, Some m))"

locale fifo =
  fixes push :: "'m \<Rightarrow> 's \<Rightarrow> 's"
    and pop :: "'s \<Rightarrow> 's \<times> 'm option"
    and content :: "'s \<Rightarrow> 'm list"
    and sel :: "'m \<Rightarrow> bool"
  assumes push_content: "content (push m s) = content s @ [m]"
    and pop_content: "(content (fst (pop s)), snd (pop s)) = pop_class sel (content s)"
begin

lemma pop_mset:
  "mset (content s) = mset (content (fst (pop s))) + (case snd (pop s) of None \<Rightarrow> {#} | Some m \<Rightarrow> {#m#})"
  using pop_content [of s]
  by (auto simp: pop_class_def mset_erase_first split: option.splits)

lemma pop_order:
  "filter sel (content s) = (case snd (pop s) of None \<Rightarrow> [] | Some m \<Rightarrow> [m]) @ filter sel (content (fst (pop s)))"
  using pop_content [of s]
  by (auto simp: pop_class_def find_eq_hd_filter filter_erase_first_same split: option.splits list.splits)

lemma pop_others:
  "filter (\<lambda>m. \<not> sel m) (content (fst (pop s))) = filter (\<lambda>m. \<not> sel m) (content s)"
  using pop_content [of s]
  by (auto simp: pop_class_def filter_erase_first_other split: option.splits)

lemma pop_sel: "snd (pop s) = Some m \<Longrightarrow> sel m \<and> m \<in> set (content s)"
  using pop_content [of s] by (auto simp: pop_class_def dest: find_SomeD split: option.splits)

lemma pop_None_iff: "snd (pop s) = None \<longleftrightarrow> (\<forall>m\<in>set (content s). \<not> sel m)"
  using pop_content [of s] by (auto simp: pop_class_def find_eq_None dest: find_SomeD split: option.splits)

lemma run_conservation:
  "mset (content s) + mset (pushed ops) =
     mset (content (fst (qrun push pop ops s))) + mset (snd (qrun push pop ops s))"
proof (induction ops arbitrary: s rule: pushed.induct)
  case 1
  then show ?case by simp
next
  case (2 m ops)
  from 2 [of "push m s"] show ?case by (simp add: push_content ac_simps)
next
  case (3 ops)
  from 3 [of "fst (pop s)"] pop_mset [of s] show ?case
    by (cases "snd (pop s)") (simp_all add: Let_def case_prod_unfold ac_simps)
qed

lemma run_order:
  "filter sel (content s) @ filter sel (pushed ops) =
     snd (qrun push pop ops s) @ filter sel (content (fst (qrun push pop ops s)))"
proof (induction ops arbitrary: s rule: pushed.induct)
  case 1
  then show ?case by simp
next
  case (2 m ops)
  from 2 [of "push m s"] show ?case by (simp add: push_content split: if_splits)
next
  case (3 ops)
  from 3 [of "fst (pop s)"] pop_order [of s] show ?case
    by (cases "snd (pop s)") (simp_all add: Let_def case_prod_unfold)
qed

lemma run_others:
  "filter (\<lambda>m. \<not> sel m) (content (fst (qrun push pop ops s))) =
     filter (\<lambda>m. \<not> sel m) (content s) @ filter (\<lambda>m. \<not> sel m) (pushed ops)"
proof (induction ops arbitrary: s rule: pushed.induct)
  case 1
  then show ?case by simp
next
  case (2 m ops)
  from 2 [of "push m s"] show ?case by (simp add: push_content split: if_splits)
next
  case (3 ops)
  from 3 [of "fst (pop s)"] show ?case
    by (simp add: Let_def case_prod_unfold pop_others)
qed

end

end
