(* ===== verification/Communication.thy ===== *)
theory Communication
  imports Messages Fifo
begin

text \<open>
  \<^verbatim>\<open>CCommunication\<close> (\<^verbatim>\<open>src/src/agent/Communication.cpp\<close>): the table of preallocated FastCGI
  requests, the request queue and the response queue. Every operation runs under its mutex, so it
  is one atomic function on the state. The receive and send threads, which also call the freeze
  monitor, are in theory AgentLoop.
\<close>

section \<open>State\<close>

abbreviation MAX_REQUEST_HANDLER :: nat where "MAX_REQUEST_HANDLER \<equiv> 100"

record request_handler_info =
  pFcgxReq :: "addr option"
  isUsed :: bool

record 'j comm =
  m_ReqHandlerTable :: "request_handler_info list"
  m_reqMsgQueue :: "'j message_pair list"
  m_rspMsgQueue :: "'j message_pair list"

section \<open>The table of request handlers\<close>

text \<open>
  \<^verbatim>\<open>InitRequest\<close>: append the free handlers, then give every handler of the table an object. An
  allocation that fails (\<^const>\<open>None\<close> in the list of allocation results) drops all of them.
\<close>

fun alloc_handlers :: "request_handler_info list \<Rightarrow> addr option list \<Rightarrow> request_handler_info list \<times> bool" where
  "alloc_handlers [] allocs = ([], True)"
| "alloc_handlers (r # rs) [] = (r # rs, False)"
| "alloc_handlers (r # rs) (None # allocs) = (r # rs, False)"
| "alloc_handlers (r # rs) (Some a # allocs) =
     (let (rs', ok) = alloc_handlers rs allocs in (r\<lparr>pFcgxReq := Some a\<rparr> # rs', ok))"

definition DeleteRequest :: "'j comm \<Rightarrow> 'j comm" where
  "DeleteRequest c = c\<lparr>m_ReqHandlerTable := map (\<lambda>r. r\<lparr>pFcgxReq := None\<rparr>) (m_ReqHandlerTable c)\<rparr>"

definition InitRequest :: "addr option list \<Rightarrow> 'j comm \<Rightarrow> 'j comm \<times> int" where
  "InitRequest allocs c =
     (let table = m_ReqHandlerTable c @ replicate MAX_REQUEST_HANDLER \<lparr>pFcgxReq = None, isUsed = False\<rparr>;
          (table, ok) = alloc_handlers table allocs;
          c = c\<lparr>m_ReqHandlerTable := table\<rparr>
      in if ok then (c, MP_SUCCESS) else (DeleteRequest c, ERROR_COMMON_OPER_FAILED))"

definition GetFcgxReq :: "'j comm \<Rightarrow> 'j comm \<times> addr option" where
  "GetFcgxReq c =
     (case List.find (\<lambda>r. \<not> isUsed r) (m_ReqHandlerTable c) of
        None \<Rightarrow> (c, None)
      | Some r \<Rightarrow> (c\<lparr>m_ReqHandlerTable := update_first (\<lambda>r. \<not> isUsed r) (\<lambda>r. r\<lparr>isUsed := True\<rparr>) (m_ReqHandlerTable c)\<rparr>,
                   pFcgxReq r))"

definition ReleaseRequest :: "addr option \<Rightarrow> 'j comm \<Rightarrow> 'j comm" where
  "ReleaseRequest p c =
     c\<lparr>m_ReqHandlerTable := update_first (\<lambda>r. pFcgxReq r = p) (\<lambda>r. r\<lparr>isUsed := False\<rparr>) (m_ReqHandlerTable c)\<rparr>"

section \<open>The queues\<close>

definition PushReqMsgQueue :: "'j message_pair \<Rightarrow> 'j comm \<Rightarrow> 'j comm" where
  "PushReqMsgQueue m c = c\<lparr>m_reqMsgQueue := m_reqMsgQueue c @ [m]\<rparr>"

text \<open>\<^verbatim>\<open>PopReqMsgQueue\<close>: \<^const>\<open>None\<close> is the code's \<^verbatim>\<open>MP_FAILED\<close>, the empty queue.\<close>

definition PopReqMsgQueue :: "'j comm \<Rightarrow> 'j comm \<times> 'j message_pair option" where
  "PopReqMsgQueue c =
     (case m_reqMsgQueue c of
        [] \<Rightarrow> (c, None)
      | m # q \<Rightarrow> (c\<lparr>m_reqMsgQueue := q\<rparr>, Some m))"

definition PushRspMsgQueue :: "'j message_pair \<Rightarrow> 'j comm \<Rightarrow> 'j comm" where
  "PushRspMsgQueue m c = c\<lparr>m_rspMsgQueue := m_rspMsgQueue c @ [m]\<rparr>"

text \<open>
  \<^verbatim>\<open>PopRspMsgQueue\<close> and \<^verbatim>\<open>PopRspInternalMsgQueue\<close> walk an iterator over the messages of the other
  class and erase the one they stop at.
\<close>

fun skip_erase :: "('m \<Rightarrow> bool) \<Rightarrow> 'm list \<Rightarrow> 'm list \<times> 'm option" where
  "skip_erase skip [] = ([], None)"
| "skip_erase skip (m # q) =
     (if skip m then (let (q', r) = skip_erase skip q in (m # q', r)) else (q, Some m))"

definition PopRspMsgQueue :: "'j comm \<Rightarrow> 'j comm \<times> 'j message_pair option" where
  "PopRspMsgQueue c =
     (let (q, r) = skip_erase is_internal (m_rspMsgQueue c) in (c\<lparr>m_rspMsgQueue := q\<rparr>, r))"

definition PopRspInternalMsgQueue :: "'j comm \<Rightarrow> 'j comm \<times> 'j message_pair option" where
  "PopRspInternalMsgQueue c =
     (let (q, r) = skip_erase (\<lambda>m. \<not> is_internal m) (m_rspMsgQueue c) in (c\<lparr>m_rspMsgQueue := q\<rparr>, r))"

lemma skip_erase_pop_class: "skip_erase (\<lambda>m. \<not> sel m) q = pop_class sel q"
  by (induction q) (auto simp: pop_class_def Let_def split: option.splits)

lemma skip_erase_pop_class': "skip_erase skip q = pop_class (\<lambda>m. \<not> skip m) q"
  using skip_erase_pop_class [of "\<lambda>m. \<not> skip m" q] by simp

interpretation req_queue: fifo PushReqMsgQueue PopReqMsgQueue m_reqMsgQueue "\<lambda>_. True"
  by unfold_locales (auto simp: PushReqMsgQueue_def PopReqMsgQueue_def pop_class_def split: list.split)

interpretation rsp_queue: fifo PushRspMsgQueue PopRspMsgQueue m_rspMsgQueue "\<lambda>m. \<not> is_internal m"
  by unfold_locales (auto simp: PushRspMsgQueue_def PopRspMsgQueue_def skip_erase_pop_class' Let_def case_prod_unfold)

interpretation int_queue: fifo PushRspMsgQueue PopRspInternalMsgQueue m_rspMsgQueue is_internal
  by unfold_locales
    (auto simp: PushRspMsgQueue_def PopRspInternalMsgQueue_def skip_erase_pop_class' Let_def case_prod_unfold)

section \<open>Frame facts\<close>

lemma comm_frames [frame_simps, simp]:
  "m_ReqHandlerTable (PushReqMsgQueue m c) = m_ReqHandlerTable c"
  "m_rspMsgQueue (PushReqMsgQueue m c) = m_rspMsgQueue c"
  "m_ReqHandlerTable (PushRspMsgQueue m c) = m_ReqHandlerTable c"
  "m_reqMsgQueue (PushRspMsgQueue m c) = m_reqMsgQueue c"
  "m_ReqHandlerTable (fst (PopReqMsgQueue c)) = m_ReqHandlerTable c"
  "m_rspMsgQueue (fst (PopReqMsgQueue c)) = m_rspMsgQueue c"
  "m_ReqHandlerTable (fst (PopRspMsgQueue c)) = m_ReqHandlerTable c"
  "m_reqMsgQueue (fst (PopRspMsgQueue c)) = m_reqMsgQueue c"
  "m_ReqHandlerTable (fst (PopRspInternalMsgQueue c)) = m_ReqHandlerTable c"
  "m_reqMsgQueue (fst (PopRspInternalMsgQueue c)) = m_reqMsgQueue c"
  "m_reqMsgQueue (fst (GetFcgxReq c)) = m_reqMsgQueue c"
  "m_rspMsgQueue (fst (GetFcgxReq c)) = m_rspMsgQueue c"
  "m_reqMsgQueue (ReleaseRequest p c) = m_reqMsgQueue c"
  "m_rspMsgQueue (ReleaseRequest p c) = m_rspMsgQueue c"
  by (simp_all add: PushReqMsgQueue_def PushRspMsgQueue_def PopReqMsgQueue_def PopRspMsgQueue_def
      PopRspInternalMsgQueue_def GetFcgxReq_def ReleaseRequest_def Let_def case_prod_unfold split: list.split option.split)

section \<open>The table as a set of used objects\<close>

text \<open>
  A well formed table: every handler has an object and no object occurs twice. The used objects,
  as a multiset, are what the threads hold.
\<close>

definition table_ok :: "'j comm \<Rightarrow> bool" where
  "table_ok c \<longleftrightarrow> distinct (map pFcgxReq (m_ReqHandlerTable c)) \<and> None \<notin> set (map pFcgxReq (m_ReqHandlerTable c))"

definition used :: "'j comm \<Rightarrow> addr option multiset" where
  "used c = mset (map pFcgxReq (filter isUsed (m_ReqHandlerTable c)))"

lemma map_set_used [simp]:
  "map pFcgxReq (update_first P (\<lambda>r. r\<lparr>isUsed := b\<rparr>) rs) = map pFcgxReq rs"
  by (rule map_update_first) simp

lemma image_set_used [simp]:
  "pFcgxReq ` set (update_first P (\<lambda>r. r\<lparr>isUsed := b\<rparr>) rs) = pFcgxReq ` set rs"
  by (metis map_set_used set_map)

lemma table_ok_GetFcgxReq [simp]: "table_ok (fst (GetFcgxReq c)) = table_ok c"
  by (simp add: table_ok_def GetFcgxReq_def split: option.split)

lemma table_ok_Release [simp]: "table_ok (ReleaseRequest p c) = table_ok c"
  by (simp add: table_ok_def ReleaseRequest_def)

lemma used_update_free:
  "List.find (\<lambda>r. \<not> isUsed r) rs = Some r \<Longrightarrow>
   mset (map pFcgxReq (filter isUsed (update_first (\<lambda>r. \<not> isUsed r) (\<lambda>r. r\<lparr>isUsed := True\<rparr>) rs))) =
   add_mset (pFcgxReq r) (mset (map pFcgxReq (filter isUsed rs)))"
  by (induction rs) (auto split: if_splits)

text \<open>Taking a handler: it was free, and it is the one object that becomes used.\<close>

lemma GetFcgxReq_used:
  assumes "table_ok c"
  shows "case snd (GetFcgxReq c) of
      None \<Rightarrow> fst (GetFcgxReq c) = c \<and> (\<forall>r\<in>set (m_ReqHandlerTable c). isUsed r)
    | Some a \<Rightarrow> used (fst (GetFcgxReq c)) = add_mset (Some a) (used c) \<and> Some a \<notin># used c"
proof (cases "List.find (\<lambda>r. \<not> isUsed r) (m_ReqHandlerTable c)")
  case None
  then have "\<forall>r\<in>set (m_ReqHandlerTable c). isUsed r" by (simp add: find_eq_None)
  with None show ?thesis by (simp add: GetFcgxReq_def)
next
  case (Some r)
  from find_SomeD [OF this] have r: "r \<in> set (m_ReqHandlerTable c)" "\<not> isUsed r" by auto
  with assms obtain a where a: "pFcgxReq r = Some a"
    by (cases "pFcgxReq r") (force simp: table_ok_def)+
  have only: "r' = r" if "r' \<in> set (m_ReqHandlerTable c)" "pFcgxReq r' = Some a" for r'
    using assms r(1) a that unfolding table_ok_def distinct_map by (metis inj_onD)
  have "Some a \<notin># used c"
    using only r(2) by (fastforce simp: used_def)
  moreover have "used (fst (GetFcgxReq c)) = add_mset (Some a) (used c)"
    using Some a used_update_free [OF Some] by (simp add: GetFcgxReq_def used_def del: mset_map)
  moreover have "snd (GetFcgxReq c) = Some a"
    using Some a by (simp add: GetFcgxReq_def)
  ultimately show ?thesis by simp
qed

lemma used_release_key:
  assumes "distinct (map pFcgxReq rs)"
  shows "mset (map pFcgxReq (filter isUsed (update_first (\<lambda>r. pFcgxReq r = p) (\<lambda>r. r\<lparr>isUsed := False\<rparr>) rs))) =
         mset (map pFcgxReq (filter isUsed rs)) - {#p#}"
  using assms
proof (induction rs)
  case Nil
  then show ?case by simp
next
  case (Cons r rs)
  show ?case
  proof (cases "pFcgxReq r = p")
    case True
    then have "p \<notin># mset (map pFcgxReq (filter isUsed rs))" using Cons.prems by auto
    then show ?thesis using True by (auto simp: diff_single_trivial)
  next
    case False
    with Cons show ?thesis by auto
  qed
qed

lemma used_Release: "table_ok c \<Longrightarrow> used (ReleaseRequest p c) = used c - {#p#}"
  using used_release_key [of "m_ReqHandlerTable c" p]
  by (simp add: table_ok_def used_def ReleaseRequest_def del: mset_map)

text \<open>Initialisation from an empty table with distinct addresses gives a well formed, unused table.\<close>

lemma alloc_handlers_ok:
  "snd (alloc_handlers rs allocs) \<Longrightarrow>
   map pFcgxReq (fst (alloc_handlers rs allocs)) = take (length rs) allocs \<and>
   map isUsed (fst (alloc_handlers rs allocs)) = map isUsed rs \<and> None \<notin> set (take (length rs) allocs)"
  by (induction rs allocs rule: alloc_handlers.induct) (auto simp: Let_def case_prod_unfold)

lemma InitRequest_ok:
  assumes "m_ReqHandlerTable c = []" "snd (InitRequest allocs c) = MP_SUCCESS" "distinct allocs"
  shows "table_ok (fst (InitRequest allocs c)) \<and> used (fst (InitRequest allocs c)) = {#} \<and>
         length (m_ReqHandlerTable (fst (InitRequest allocs c))) = MAX_REQUEST_HANDLER"
proof -
  let ?rs = "replicate MAX_REQUEST_HANDLER \<lparr>pFcgxReq = None, isUsed = False\<rparr>"
  let ?t = "fst (alloc_handlers ?rs allocs)"
  have ok: "snd (alloc_handlers ?rs allocs)" and t: "m_ReqHandlerTable (fst (InitRequest allocs c)) = ?t"
    using assms(1,2) by (auto simp: InitRequest_def Let_def case_prod_unfold split: if_splits)
  note facts = alloc_handlers_ok [OF ok]
  have "length ?t = MAX_REQUEST_HANDLER"
    using facts by (metis length_map length_replicate)
  moreover have "\<forall>r\<in>set ?t. \<not> isUsed r"
  proof
    fix r assume "r \<in> set ?t"
    then have "isUsed r \<in> set (map isUsed ?t)" by simp
    then show "\<not> isUsed r" using facts by (auto simp: set_replicate_conv_if)
  qed
  ultimately show ?thesis
    using facts assms(3) by (auto simp: table_ok_def used_def t distinct_take)
qed

end
