(* ===== verification/Db.thy ===== *)
theory Db
  imports Prelude
begin

text \<open>
  The agent's database access: \<^verbatim>\<open>CDB\<close>, \<^verbatim>\<open>DBReader\<close>, \<^verbatim>\<open>DbParam\<close> and \<^verbatim>\<open>DbParamStream\<close>
  (\<^verbatim>\<open>src/src/alarm/Db.cpp\<close>, \<^verbatim>\<open>src/inc/alarm/Db.h\<close>). SQLite is a third-party library: a record of
  functions on the state \<^typ>\<open>'d\<close> of the database file and on prepared statements \<^typ>\<open>'s\<close>.
\<close>

section \<open>Numbers as text\<close>

text \<open>
  \<^verbatim>\<open>IntToString\<close> prints in decimal. \<^verbatim>\<open>atol\<close> skips white space, reads a sign and digits, and saturates
  at the bounds of a 64-bit \<^verbatim>\<open>long\<close>; \<^verbatim>\<open>atoi\<close> is its low 32 bits, as in the C library the agent
  runs on.
\<close>

definition digit_char :: "nat \<Rightarrow> char" where
  "digit_char n = char_of (48 + n)"

fun show_nat :: "nat \<Rightarrow> string" where
  "show_nat n = (if n < 10 then [digit_char n] else show_nat (n div 10) @ [digit_char (n mod 10)])"

declare show_nat.simps [simp del]

definition IntToString :: "int \<Rightarrow> string" where
  "IntToString i = (if i < 0 then CHR ''-'' # show_nat (nat (- i)) else show_nat (nat i))"

fun digits_value :: "nat \<Rightarrow> string \<Rightarrow> nat" where
  "digits_value v [] = v"
| "digits_value v (c # s) = (if c_isdigit c then digits_value (10 * v + (char_code c - 48)) s else v)"

definition c_isspace :: "char \<Rightarrow> bool" where
  "c_isspace c \<longleftrightarrow> c = CHR '' '' \<or> 9 \<le> char_code c \<and> char_code c \<le> 13"

definition LONG_MAX :: int where "LONG_MAX = 2 ^ 63 - 1"
definition LONG_MIN :: int where "LONG_MIN = - (2 ^ 63)"

definition atol :: "string \<Rightarrow> int" where
  "atol s =
     (let t = dropWhile c_isspace s;
          v = (case t of
                 c # r \<Rightarrow> (if c = CHR ''-'' then - int (digits_value 0 r)
                          else if c = CHR ''+'' then int (digits_value 0 r)
                          else int (digits_value 0 t))
               | [] \<Rightarrow> 0)
      in max LONG_MIN (min LONG_MAX v))"

definition atoi :: "string \<Rightarrow> int" where
  "atoi s = sint (word_of_int (atol s) :: 32 word)"

section \<open>Parameters and results\<close>

datatype db_param_type =
    DB_PARAM_TYPE_INT32 | DB_PARAM_TYPE_INT64 | DB_PARAM_TYPE_UINT32 | DB_PARAM_TYPE_UINT64 | DB_PARAM_TYPE_STRING

record db_param =
  m_type :: db_param_type
  m_value :: string

definition DbParam_string :: "string \<Rightarrow> db_param" where
  "DbParam_string v = \<lparr>m_type = DB_PARAM_TYPE_STRING, m_value = v\<rparr>"
definition DbParam_int32 :: "int \<Rightarrow> db_param" where
  "DbParam_int32 v = \<lparr>m_type = DB_PARAM_TYPE_INT32, m_value = IntToString v\<rparr>"
definition DbParam_int64 :: "int \<Rightarrow> db_param" where
  "DbParam_int64 v = \<lparr>m_type = DB_PARAM_TYPE_INT64, m_value = IntToString v\<rparr>"
definition DbParam_uint32 :: "u32 \<Rightarrow> db_param" where
  "DbParam_uint32 v = \<lparr>m_type = DB_PARAM_TYPE_UINT32, m_value = IntToString (uint v)\<rparr>"
definition DbParam_uint64 :: "u64 \<Rightarrow> db_param" where
  "DbParam_uint64 v = \<lparr>m_type = DB_PARAM_TYPE_UINT64, m_value = IntToString (uint v)\<rparr>"

text \<open>
  \<^verbatim>\<open>DBReader\<close> is a queue of texts; reading from the empty one leaves the target as it was.
\<close>

definition reader_put :: "string \<Rightarrow> string list \<Rightarrow> string list" where
  "reader_put s r = r @ [s]"

definition reader_get :: "string list \<Rightarrow> string \<Rightarrow> string list \<times> string" where
  "reader_get r old = (case r of [] \<Rightarrow> ([], old) | s # r' \<Rightarrow> (r', s))"

section \<open>SQLite\<close>

text \<open>
  The calls the code makes. \<^verbatim>\<open>sq_run\<close> stands for stepping a statement to its end: the rows it
  returns, each a list of column texts with \<^const>\<open>None\<close> for a null, and the code of the last step.
  A row set is finite.
\<close>

abbreviation SQLITE_OK :: int where "SQLITE_OK \<equiv> 0"
abbreviation SQLITE_ERROR :: int where "SQLITE_ERROR \<equiv> 1"
abbreviation SQLITE_ROW :: int where "SQLITE_ROW \<equiv> 100"
abbreviation SQLITE_DONE :: int where "SQLITE_DONE \<equiv> 101"

record ('d, 's) sqlite_api =
  sqlite3_open :: "string \<Rightarrow> 'd \<Rightarrow> 'd \<times> nat option \<times> int"
  sqlite3_close :: "nat \<Rightarrow> 'd \<Rightarrow> 'd \<times> int"
  sqlite3_prepare_v2 :: "nat option \<Rightarrow> string \<Rightarrow> 'd \<Rightarrow> 's option \<times> int"
  sqlite3_bind_int :: "'s \<Rightarrow> nat \<Rightarrow> int \<Rightarrow> 's \<times> int"
  sqlite3_bind_int64 :: "'s \<Rightarrow> nat \<Rightarrow> int \<Rightarrow> 's \<times> int"
  sqlite3_bind_text :: "'s \<Rightarrow> nat \<Rightarrow> string \<Rightarrow> 's \<times> int"
  sqlite3_column_count :: "'s \<Rightarrow> int"
  sq_run :: "'s \<Rightarrow> 'd \<Rightarrow> 'd \<times> string option list list \<times> int"

text \<open>The singleton \<^verbatim>\<open>CDB\<close>: the open connection, the texts kept for the bindings, the database.\<close>

record 'd cdb =
  m_pDB :: "nat option"
  m_stringList :: "string list"
  dbfile :: 'd

section \<open>Operations\<close>

definition Disconnect :: "('d, 's) sqlite_api \<Rightarrow> 'd cdb \<Rightarrow> 'd cdb \<times> int" where
  "Disconnect S c =
     (case m_pDB c of
        None \<Rightarrow> (c, MP_SUCCESS)
      | Some h \<Rightarrow>
          (case sqlite3_close S h (dbfile c) of
             (d, rc) \<Rightarrow> (if rc \<noteq> SQLITE_OK then (c\<lparr>dbfile := d\<rparr>, MP_FAILED)
                        else (c\<lparr>dbfile := d, m_pDB := None\<rparr>, MP_SUCCESS))))"

definition Connect :: "('d, 's) sqlite_api \<Rightarrow> string \<Rightarrow> 'd cdb \<Rightarrow> 'd cdb \<times> int" where
  "Connect S path c =
     (case Disconnect S c of
        (c, rc) \<Rightarrow>
          (if rc \<noteq> MP_SUCCESS then (c, MP_FAILED)
           else (case sqlite3_open S path (dbfile c) of
                   (d, h, rc) \<Rightarrow> (c\<lparr>dbfile := d, m_pDB := h\<rparr>, if rc \<noteq> SQLITE_OK then MP_FAILED else MP_SUCCESS))))"

definition SqlPrepare :: "('d, 's) sqlite_api \<Rightarrow> string \<Rightarrow> 'd cdb \<Rightarrow> 'd cdb \<times> 's option" where
  "SqlPrepare S sql c =
     (case sqlite3_prepare_v2 S (m_pDB c) sql (dbfile c) of
        (stmt, rc) \<Rightarrow> (if rc \<noteq> SQLITE_OK then (fst (Disconnect S c), None) else (c, stmt)))"

text \<open>
  \<^verbatim>\<open>SqlBind\<close>: the loop takes the parameters off the stream and binds them from index 1; a text is
  kept at the front of \<^const>\<open>m_stringList\<close>. On an error the statement is finalised and the connection
  closed, so no statement is left (\<^const>\<open>None\<close>).
\<close>

fun bind_loop :: "('d, 's) sqlite_api \<Rightarrow> nat \<Rightarrow> db_param list \<Rightarrow> 's \<Rightarrow> string list \<Rightarrow> string list \<times> 's option" where
  "bind_loop S i [] stmt strs = (strs, Some stmt)"
| "bind_loop S i (dp # dps) stmt strs =
     (case (case m_type dp of
              DB_PARAM_TYPE_INT32 \<Rightarrow> (strs, sqlite3_bind_int S stmt i (atoi (m_value dp)))
            | DB_PARAM_TYPE_UINT32 \<Rightarrow> (strs, sqlite3_bind_int S stmt i (atoi (m_value dp)))
            | DB_PARAM_TYPE_INT64 \<Rightarrow> (strs, sqlite3_bind_int64 S stmt i (atol (m_value dp)))
            | DB_PARAM_TYPE_UINT64 \<Rightarrow> (strs, sqlite3_bind_int64 S stmt i (atol (m_value dp)))
            | DB_PARAM_TYPE_STRING \<Rightarrow> (m_value dp # strs, sqlite3_bind_text S stmt i (m_value dp))) of
        (strs, stmt, rc) \<Rightarrow> (if rc \<noteq> SQLITE_OK then (strs, None) else bind_loop S (i + 1) dps stmt strs))"

definition SqlBind :: "('d, 's) sqlite_api \<Rightarrow> 's \<Rightarrow> db_param list \<Rightarrow> 'd cdb \<Rightarrow> 'd cdb \<times> 's option" where
  "SqlBind S stmt dps c =
     (case bind_loop S 1 dps stmt [] of
        (strs, None) \<Rightarrow> (fst (Disconnect S (c\<lparr>m_stringList := strs\<rparr>)), None)
      | (strs, Some stmt) \<Rightarrow> (c\<lparr>m_stringList := strs\<rparr>, Some stmt))"

text \<open>
  \<^verbatim>\<open>SqlExecute\<close>: one step, which must be the last. A statement with rows returns \<^const>\<open>SQLITE_ROW\<close>
  from its first step.
\<close>

definition SqlExecute :: "('d, 's) sqlite_api \<Rightarrow> 's \<Rightarrow> 'd cdb \<Rightarrow> 'd cdb \<times> int" where
  "SqlExecute S stmt c =
     (case sq_run S stmt (dbfile c) of
        (d, rows, rc) \<Rightarrow>
          (let c = c\<lparr>dbfile := d\<rparr>; rc = (if rows = [] then rc else SQLITE_ROW)
           in if rc \<noteq> SQLITE_DONE then (fst (Disconnect S c), MP_FAILED)
              else (c\<lparr>m_stringList := []\<rparr>, MP_SUCCESS)))"

definition ExecSql :: "('d, 's) sqlite_api \<Rightarrow> string \<Rightarrow> string \<Rightarrow> db_param list \<Rightarrow> 'd cdb \<Rightarrow> 'd cdb \<times> int" where
  "ExecSql S path strSql dps c =
     (case Connect S path c of
        (c, rc) \<Rightarrow>
          if rc \<noteq> MP_SUCCESS then (c, MP_FAILED)
          else (case SqlPrepare S strSql c of
                  (c, None) \<Rightarrow> (c, MP_FAILED)
                | (c, Some stmt) \<Rightarrow>
                    (case SqlBind S stmt dps c of
                       (c, None) \<Rightarrow> (c, MP_FAILED)
                     | (c, Some stmt) \<Rightarrow>
                         (case SqlExecute S stmt c of
                            (c, rc) \<Rightarrow>
                              if rc = MP_FAILED then (c, MP_FAILED)
                              else (case Disconnect S c of
                                      (c, rc) \<Rightarrow> (c, if rc \<noteq> MP_SUCCESS then MP_FAILED else MP_SUCCESS))))))"

text \<open>
  \<^verbatim>\<open>SqlQuery\<close>: the columns of each row are appended to the reader; a null column is an error that
  leaves the texts read so far in the reader.
\<close>

fun read_columns :: "string option list \<Rightarrow> string list \<Rightarrow> string list \<times> bool" where
  "read_columns [] r = (r, True)"
| "read_columns (None # cs) r = (r, False)"
| "read_columns (Some t # cs) r = read_columns cs (reader_put t r)"

fun read_rows :: "nat \<Rightarrow> string option list list \<Rightarrow> string list \<Rightarrow> int \<Rightarrow> string list \<times> int option" where
  "read_rows cols [] r n = (r, Some n)"
| "read_rows cols (row # rows) r n =
     (case read_columns (take cols row) r of
        (r, False) \<Rightarrow> (r, None)
      | (r, True) \<Rightarrow> read_rows cols rows r (n + 1))"

record query_result =
  q_reader :: "string list"
  q_rows :: int
  q_cols :: int

definition SqlQuery :: "('d, 's) sqlite_api \<Rightarrow> 's \<Rightarrow> query_result \<Rightarrow> 'd cdb \<Rightarrow> 'd cdb \<times> query_result \<times> int" where
  "SqlQuery S stmt q c =
     (if sqlite3_column_count S stmt \<le> 0 then (fst (Disconnect S c), q, MP_FAILED)
      else (case sq_run S stmt (dbfile c) of
              (d, rows, rc) \<Rightarrow>
                (let c = c\<lparr>dbfile := d\<rparr>
                 in case read_rows (nat (sqlite3_column_count S stmt)) rows (q_reader q) 0 of
                      (r, None) \<Rightarrow> (fst (Disconnect S c), q\<lparr>q_reader := r\<rparr>, MP_FAILED)
                    | (r, Some n) \<Rightarrow>
                        (if rc \<noteq> SQLITE_DONE then (fst (Disconnect S c), q\<lparr>q_reader := r\<rparr>, MP_FAILED)
                         else (c\<lparr>m_stringList := []\<rparr>,
                               \<lparr>q_reader = r, q_rows = n, q_cols = sqlite3_column_count S stmt\<rparr>, MP_SUCCESS)))))"

definition QueryTable :: "('d, 's) sqlite_api \<Rightarrow> string \<Rightarrow> string \<Rightarrow> db_param list \<Rightarrow> query_result \<Rightarrow> 'd cdb
    \<Rightarrow> 'd cdb \<times> query_result \<times> int" where
  "QueryTable S path strSql dps q c =
     (case Connect S path c of
        (c, rc) \<Rightarrow>
          if rc \<noteq> MP_SUCCESS then (c, q, MP_FAILED)
          else (case SqlPrepare S strSql c of
                  (c, None) \<Rightarrow> (c, q, MP_FAILED)
                | (c, Some stmt) \<Rightarrow>
                    (case SqlBind S stmt dps c of
                       (c, None) \<Rightarrow> (c, q, MP_FAILED)
                     | (c, Some stmt) \<Rightarrow>
                         (case SqlQuery S stmt q c of
                            (c, q, rc) \<Rightarrow>
                              if rc = MP_FAILED then (c, q, MP_FAILED)
                              else (case Disconnect S c of
                                      (c, rc) \<Rightarrow> (c, q, if rc \<noteq> MP_SUCCESS then MP_FAILED else MP_SUCCESS))))))"

definition empty_query :: query_result where
  "empty_query = \<lparr>q_reader = [], q_rows = 0, q_cols = 0\<rparr>"

section \<open>Numbers survive the text\<close>

lemma digit_char_props: "n < 10 \<Longrightarrow> c_isdigit (digit_char n) \<and> char_code (digit_char n) = 48 + n"
  by (simp add: digit_char_def c_isdigit_def char_code_of)

lemma digits_value_append:
  "(\<forall>c\<in>set s. c_isdigit c) \<Longrightarrow> digits_value v (s @ t) = digits_value (digits_value v s) t"
  by (induction s arbitrary: v) auto

lemma show_nat_digits: "\<forall>c\<in>set (show_nat n). c_isdigit c"
proof (induction n rule: show_nat.induct)
  case (1 n)
  then show ?case by (subst show_nat.simps) (auto simp: digit_char_props)
qed

lemma digits_show_nat: "digits_value 0 (show_nat n) = n"
proof (induction n rule: show_nat.induct)
  case (1 n)
  show ?case
  proof (cases "n < 10")
    case True
    then show ?thesis by (subst show_nat.simps) (simp add: digit_char_props)
  next
    case False
    then have "digits_value 0 (show_nat n) = digits_value (digits_value 0 (show_nat (n div 10))) [digit_char (n mod 10)]"
      by (subst show_nat.simps) (simp add: digits_value_append show_nat_digits)
    with 1 False show ?thesis by (simp add: digit_char_props)
  qed
qed

lemma show_nat_nonempty: "show_nat n \<noteq> []"
  by (subst show_nat.simps) simp

lemma digit_not_space: "c_isdigit c \<Longrightarrow> \<not> c_isspace c \<and> c \<noteq> CHR ''-'' \<and> c \<noteq> CHR ''+''"
  by (auto simp: c_isdigit_def c_isspace_def char_code_def)

lemma show_nat_hd:
  obtains c s where "show_nat n = c # s" "c_isdigit c"
  using show_nat_nonempty [of n] show_nat_digits [of n] by (cases "show_nat n") auto

text \<open>What is written with \<^const>\<open>IntToString\<close> is read back, within the range of the type.\<close>

lemma atol_IntToString:
  assumes "LONG_MIN \<le> i" "i \<le> LONG_MAX"
  shows "atol (IntToString i) = i"
proof (cases "i < 0")
  case True
  have "\<not> c_isspace (CHR ''-'')" by (simp add: c_isspace_def char_code_def)
  with True assms show ?thesis by (simp add: atol_def IntToString_def digits_show_nat)
next
  case False
  obtain c s where cs: "show_nat (nat i) = c # s" "c_isdigit c" by (rule show_nat_hd)
  then have "digits_value 0 (c # s) = nat i" using digits_show_nat [of "nat i"] by simp
  with cs False assms digit_not_space [OF cs(2)] show ?thesis
    by (simp add: atol_def IntToString_def del: digits_value.simps)
qed

lemma atoi_IntToString: "- (2 ^ 31) \<le> i \<Longrightarrow> i < 2 ^ 31 \<Longrightarrow> atoi (IntToString i) = i"
  by (simp add: atoi_def atol_IntToString LONG_MIN_def LONG_MAX_def sint_sbintrunc' signed_take_bit_int_eq_self)

text \<open>An unsigned 32-bit value bound as an \<^verbatim>\<open>int\<close> keeps its bits.\<close>

lemma atoi_uint32: "word_of_int (atoi (IntToString (uint v))) = (v :: u32)"
proof -
  have "uint v < 2 ^ 32" using uint_bounded [of v] by simp
  then have "atol (IntToString (uint v)) = uint v"
    by (intro atol_IntToString) (simp_all add: LONG_MIN_def LONG_MAX_def order_trans [OF _ uint_ge_0])
  then show ?thesis by (simp add: atoi_def)
qed

lemma atol_uint64: "uint v \<le> LONG_MAX \<Longrightarrow> word_of_int (atol (IntToString (uint v))) = (v :: u64)"
  by (subst atol_IntToString) (simp_all add: LONG_MIN_def order_trans [OF _ uint_ge_0])

section \<open>A well behaved SQLite\<close>

text \<open>
  The documented behaviour the agent relies on, for the statements \<open>known\<close>: opening and closing
  succeed, a statement with all its \<open>nparams\<close> parameters bound runs to its end, and its effect and
  its rows are those of \<open>sem\<close>.
\<close>

datatype sql_value = SInt int | SText string

definition bound_value :: "db_param \<Rightarrow> sql_value" where
  "bound_value dp =
     (case m_type dp of
        DB_PARAM_TYPE_INT32 \<Rightarrow> SInt (atoi (m_value dp))
      | DB_PARAM_TYPE_UINT32 \<Rightarrow> SInt (atoi (m_value dp))
      | DB_PARAM_TYPE_INT64 \<Rightarrow> SInt (atol (m_value dp))
      | DB_PARAM_TYPE_UINT64 \<Rightarrow> SInt (atol (m_value dp))
      | DB_PARAM_TYPE_STRING \<Rightarrow> SText (m_value dp))"

type_synonym 'd sql_sem = "string \<Rightarrow> sql_value list \<Rightarrow> 'd \<Rightarrow> 'd \<times> string list list"

definition sqlite_ok :: "('d, 's) sqlite_api \<Rightarrow> string \<Rightarrow> (string \<Rightarrow> sql_value list \<Rightarrow> 's) \<Rightarrow> (string \<rightharpoonup> nat \<times> nat)
    \<Rightarrow> 'd sql_sem \<Rightarrow> bool" where
  "sqlite_ok S path prep known sem \<longleftrightarrow>
     (\<forall>d. \<exists>h. sqlite3_open S path d = (d, Some h, SQLITE_OK)) \<and>
     (\<forall>h d. sqlite3_close S h d = (d, SQLITE_OK)) \<and>
     (\<forall>sql n k. known sql = Some (n, k) \<longrightarrow>
        (\<forall>h d. sqlite3_prepare_v2 S (Some h) sql d = (Some (prep sql []), SQLITE_OK)) \<and>
        (\<forall>vs i. length vs < n \<longrightarrow>
           sqlite3_bind_int S (prep sql vs) (length vs + 1) i = (prep sql (vs @ [SInt i]), SQLITE_OK) \<and>
           sqlite3_bind_int64 S (prep sql vs) (length vs + 1) i = (prep sql (vs @ [SInt i]), SQLITE_OK)) \<and>
        (\<forall>vs t. length vs < n \<longrightarrow>
           sqlite3_bind_text S (prep sql vs) (length vs + 1) t = (prep sql (vs @ [SText t]), SQLITE_OK)) \<and>
        (\<forall>vs d. length vs = n \<longrightarrow>
           sqlite3_column_count S (prep sql vs) = int k \<and>
           sq_run S (prep sql vs) d = (fst (sem sql vs d), map (map Some) (snd (sem sql vs d)), SQLITE_DONE)))"

lemma sqlite_okD:
  assumes "sqlite_ok S path prep known sem"
  shows "\<exists>h. sqlite3_open S path d = (d, Some h, SQLITE_OK)"
    and "sqlite3_close S h d = (d, SQLITE_OK)"
    and "known sql = Some (n, k) \<Longrightarrow> sqlite3_prepare_v2 S (Some h) sql d = (Some (prep sql []), SQLITE_OK)"
    and "known sql = Some (n, k) \<Longrightarrow> length vs < n \<Longrightarrow>
      sqlite3_bind_int S (prep sql vs) (Suc (length vs)) i = (prep sql (vs @ [SInt i]), SQLITE_OK)"
    and "known sql = Some (n, k) \<Longrightarrow> length vs < n \<Longrightarrow>
      sqlite3_bind_int64 S (prep sql vs) (Suc (length vs)) i = (prep sql (vs @ [SInt i]), SQLITE_OK)"
    and "known sql = Some (n, k) \<Longrightarrow> length vs < n \<Longrightarrow>
      sqlite3_bind_text S (prep sql vs) (Suc (length vs)) t = (prep sql (vs @ [SText t]), SQLITE_OK)"
    and "known sql = Some (n, k) \<Longrightarrow> length vs = n \<Longrightarrow> sqlite3_column_count S (prep sql vs) = int k"
    and "known sql = Some (n, k) \<Longrightarrow> length vs = n \<Longrightarrow>
      sq_run S (prep sql vs) d = (fst (sem sql vs d), map (map Some) (snd (sem sql vs d)), SQLITE_DONE)"
  using assms by (simp_all add: sqlite_ok_def)

lemma bind_loop_ok:
  assumes "sqlite_ok S path prep known sem" "known sql = Some (n, k)" "length vs + length dps \<le> n"
  shows "snd (bind_loop S (Suc (length vs)) dps (prep sql vs) strs) = Some (prep sql (vs @ map bound_value dps))"
  using assms(3)
proof (induction dps arbitrary: vs strs)
  case Nil
  then show ?case by simp
next
  case (Cons dp dps)
  then have len: "length vs < n" by simp
  note bind = sqlite_okD(4-6) [OF assms(1,2) len]
  have IH: "snd (bind_loop S (Suc (Suc (length vs))) dps (prep sql (vs @ [v])) strs) =
      Some (prep sql (vs @ v # map bound_value dps))" for v strs
    using Cons.IH [of "vs @ [v]"] Cons.prems by simp
  show ?case by (cases "m_type dp") (simp_all add: bind IH bound_value_def [of dp])
qed

text \<open>An SQLite that behaves so: a statement is its text with the values bound so far.\<close>

definition simple_sqlite :: "(string \<rightharpoonup> nat \<times> nat) \<Rightarrow> 'd sql_sem \<Rightarrow> ('d, string \<times> sql_value list) sqlite_api" where
  "simple_sqlite known sem =
     \<lparr>sqlite3_open = (\<lambda>path d. (d, Some 1, SQLITE_OK)),
      sqlite3_close = (\<lambda>h d. (d, SQLITE_OK)),
      sqlite3_prepare_v2 = (\<lambda>h sql d. if known sql = None then (None, SQLITE_ERROR) else (Some (sql, []), SQLITE_OK)),
      sqlite3_bind_int = (\<lambda>(sql, vs) i v. ((sql, vs @ [SInt v]), SQLITE_OK)),
      sqlite3_bind_int64 = (\<lambda>(sql, vs) i v. ((sql, vs @ [SInt v]), SQLITE_OK)),
      sqlite3_bind_text = (\<lambda>(sql, vs) i v. ((sql, vs @ [SText v]), SQLITE_OK)),
      sqlite3_column_count = (\<lambda>(sql, vs). case known sql of None \<Rightarrow> 0 | Some (n, k) \<Rightarrow> int k),
      sq_run = (\<lambda>(sql, vs) d. (fst (sem sql vs d), map (map Some) (snd (sem sql vs d)), SQLITE_DONE))\<rparr>"

lemma simple_sqlite_ok: "sqlite_ok (simple_sqlite known sem) path Pair known sem"
  by (simp add: sqlite_ok_def simple_sqlite_def)

text \<open>The two operations of \<^verbatim>\<open>CDB\<close> then run the statement and leave no connection open.\<close>

lemma Disconnect_ok:
  assumes "sqlite_ok S path prep known sem"
  shows "Disconnect S c = (c\<lparr>m_pDB := None\<rparr>, MP_SUCCESS)"
  by (cases "m_pDB c") (simp_all add: Disconnect_def sqlite_okD(2) [OF assms])

lemma Connect_ok:
  assumes "sqlite_ok S path prep known sem"
  shows "\<exists>h. Connect S path c = (c\<lparr>m_pDB := Some h\<rparr>, MP_SUCCESS)"
  using sqlite_okD(1) [OF assms, of "dbfile c"] by (auto simp: Connect_def Disconnect_ok [OF assms])

definition db_after :: "'d \<Rightarrow> 'd cdb \<Rightarrow> 'd cdb" where
  "db_after d c = c\<lparr>m_pDB := None, m_stringList := [], dbfile := d\<rparr>"

lemma SqlBind_ok:
  assumes "sqlite_ok S path prep known sem" "known sql = Some (length dps, k)"
  shows "\<exists>strs. SqlBind S (prep sql []) dps c = (c\<lparr>m_stringList := strs\<rparr>, Some (prep sql (map bound_value dps)))"
proof -
  obtain strs st where b: "bind_loop S 1 dps (prep sql []) [] = (strs, st)" by force
  with bind_loop_ok [OF assms, of "[]" dps "[]"] have "st = Some (prep sql (map bound_value dps))" by simp
  with b show ?thesis by (auto simp: SqlBind_def)
qed

lemma ExecSql_ok:
  assumes "sqlite_ok S path prep known sem" "known sql = Some (length dps, k)"
    and "snd (sem sql (map bound_value dps) (dbfile c)) = []"
  shows "ExecSql S path sql dps c = (db_after (fst (sem sql (map bound_value dps) (dbfile c))) c, MP_SUCCESS)"
proof -
  obtain h where h: "Connect S path c = (c\<lparr>m_pDB := Some h\<rparr>, MP_SUCCESS)" using Connect_ok [OF assms(1)] by blast
  obtain strs where b: "SqlBind S (prep sql []) dps (c\<lparr>m_pDB := Some h\<rparr>) =
      (c\<lparr>m_pDB := Some h, m_stringList := strs\<rparr>, Some (prep sql (map bound_value dps)))"
    using SqlBind_ok [OF assms(1,2)] by force
  show ?thesis
    using assms(3) by (simp add: ExecSql_def h b SqlPrepare_def SqlExecute_def sqlite_okD(3,8) [OF assms(1,2)]
        Disconnect_ok [OF assms(1)] db_after_def)
qed

lemma read_columns_all: "read_columns (map Some ts) r = (r @ ts, True)"
  by (induction ts arbitrary: r) (auto simp: reader_put_def)

lemma read_rows_all:
  "\<forall>row\<in>set rows. length row = k \<Longrightarrow>
   read_rows k (map (map Some) rows) r n = (r @ concat rows, Some (n + int (length rows)))"
  by (induction rows arbitrary: r n) (auto simp: read_columns_all)

lemma QueryTable_ok:
  assumes "sqlite_ok S path prep known sem" "known sql = Some (length dps, k)" "0 < k"
    and "\<forall>row\<in>set (snd (sem sql (map bound_value dps) (dbfile c))). length row = k"
  shows "QueryTable S path sql dps q c =
    (db_after (fst (sem sql (map bound_value dps) (dbfile c))) c,
     \<lparr>q_reader = q_reader q @ concat (snd (sem sql (map bound_value dps) (dbfile c))),
      q_rows = int (length (snd (sem sql (map bound_value dps) (dbfile c)))), q_cols = int k\<rparr>, MP_SUCCESS)"
proof -
  obtain h where h: "Connect S path c = (c\<lparr>m_pDB := Some h\<rparr>, MP_SUCCESS)" using Connect_ok [OF assms(1)] by blast
  obtain strs where b: "SqlBind S (prep sql []) dps (c\<lparr>m_pDB := Some h\<rparr>) =
      (c\<lparr>m_pDB := Some h, m_stringList := strs\<rparr>, Some (prep sql (map bound_value dps)))"
    using SqlBind_ok [OF assms(1,2)] by force
  let ?rows = "snd (sem sql (map bound_value dps) (dbfile c))"
  have r: "read_rows k (map (map Some) ?rows) r 0 = (r @ concat ?rows, Some (int (length ?rows)))" for r
    by (rule read_rows_all [of ?rows k r 0, simplified]) (use assms(4) in simp)
  show ?thesis
    using assms(3) by (simp add: QueryTable_def h b SqlPrepare_def SqlQuery_def r sqlite_okD(3,7,8) [OF assms(1,2)]
        Disconnect_ok [OF assms(1)] db_after_def)
qed

section \<open>Connections are not leaked\<close>

text \<open>
  Whatever SQLite answers to the other calls: if closing succeeds and a failed open leaves no
  handle, no operation returns with a connection open.
\<close>

definition closes :: "('d, 's) sqlite_api \<Rightarrow> bool" where
  "closes S \<longleftrightarrow> (\<forall>h d. snd (sqlite3_close S h d) = SQLITE_OK) \<and>
     (\<forall>p d. snd (snd (sqlite3_open S p d)) \<noteq> SQLITE_OK \<longrightarrow> fst (snd (sqlite3_open S p d)) = None)"

lemma closes_Disconnect: "closes S \<Longrightarrow> m_pDB (fst (Disconnect S c)) = None \<and> snd (Disconnect S c) = MP_SUCCESS"
  by (auto simp: closes_def Disconnect_def split: option.splits prod.splits) (metis snd_conv)+

lemma closesD:
  assumes "closes S"
  shows "Disconnect S c = (c1, rc) \<Longrightarrow> m_pDB c1 = None"
    and "Connect S path c = (c1, rc) \<Longrightarrow> rc \<noteq> MP_SUCCESS \<Longrightarrow> m_pDB c1 = None"
    and "SqlPrepare S sql c = (c1, None) \<Longrightarrow> (\<forall>h d. sqlite3_prepare_v2 S h sql d \<noteq> (None, SQLITE_OK)) \<Longrightarrow> m_pDB c1 = None"
    and "SqlBind S stmt dps c = (c1, None) \<Longrightarrow> m_pDB c1 = None"
    and "SqlExecute S stmt c = (c1, MP_FAILED) \<Longrightarrow> m_pDB c1 = None"
    and "SqlQuery S stmt q c = (c1, q1, MP_FAILED) \<Longrightarrow> m_pDB c1 = None"
proof -
  have d: "m_pDB (fst (Disconnect S c)) = None" "snd (Disconnect S c) = MP_SUCCESS" for c
    using closes_Disconnect [OF assms] by blast+
  show "Disconnect S c = (c1, rc) \<Longrightarrow> m_pDB c1 = None" using d [of c] by simp
  show "Connect S path c = (c1, rc) \<Longrightarrow> rc \<noteq> MP_SUCCESS \<Longrightarrow> m_pDB c1 = None"
    using d [of c] assms by (auto simp: Connect_def closes_def split: prod.splits if_splits) (metis fst_conv snd_conv)
  show "SqlPrepare S sql c = (c1, None) \<Longrightarrow> (\<forall>h d. sqlite3_prepare_v2 S h sql d \<noteq> (None, SQLITE_OK)) \<Longrightarrow> m_pDB c1 = None"
    by (auto simp: SqlPrepare_def d split: prod.splits if_splits)
  show "SqlBind S stmt dps c = (c1, None) \<Longrightarrow> m_pDB c1 = None"
    by (auto simp: SqlBind_def d split: prod.splits option.splits)
  show "SqlExecute S stmt c = (c1, MP_FAILED) \<Longrightarrow> m_pDB c1 = None"
    by (auto simp: SqlExecute_def Let_def d split: prod.splits if_splits)
  show "SqlQuery S stmt q c = (c1, q1, MP_FAILED) \<Longrightarrow> m_pDB c1 = None"
    by (auto simp: SqlQuery_def Let_def d split: prod.splits if_splits option.splits)
qed

lemma ExecSql_closed:
  assumes "closes S" "\<forall>h d. sqlite3_prepare_v2 S h sql d \<noteq> (None, SQLITE_OK)"
  shows "m_pDB (fst (ExecSql S path sql dps c)) = None"
  using assms(2) by (auto simp: ExecSql_def split: prod.split option.split dest: closesD [OF assms(1)])

lemma QueryTable_closed:
  assumes "closes S" "\<forall>h d. sqlite3_prepare_v2 S h sql d \<noteq> (None, SQLITE_OK)"
  shows "m_pDB (fst (QueryTable S path sql dps q c)) = None"
  using assms(2) by (auto simp: QueryTable_def split: prod.split option.split dest: closesD [OF assms(1)])

end
