(* ===== verification/FreezeWorld.thy ===== *)
theory FreezeWorld
  imports FreezeRequests Communication Db
begin

text \<open>
  The state the freeze monitor works on and its dealings with memory and the database
  (\<^verbatim>\<open>src/src/agent/FTExceptionHandle.cpp\<close>, \<^verbatim>\<open>src/inc/agent/FTExceptionHandle.h\<close>).
\<close>

section \<open>State and environment\<close>

text \<open>
  \<^verbatim>\<open>MONITOR_OBJ\<close>. The request it owns is never null once the object is built: a failed
  construction returns no object.
\<close>

record 'j monitor_obj =
  pReqMsg :: "'j request_msg"
  uiStatus :: u32
  ulBeginTime :: u64
  strInstanceName :: string
  strDBName :: string
  iAppType :: int
  uiLoopTime :: u32

abbreviation MONITOR_STATUS_FREEZED :: u32 where "MONITOR_STATUS_FREEZED \<equiv> 0"
abbreviation MONITOR_STATUS_UNFREEZING :: u32 where "MONITOR_STATUS_UNFREEZING \<equiv> 1"
abbreviation MONITOR_STATUS_GETSTATUSING :: u32 where "MONITOR_STATUS_GETSTATUSING \<equiv> 2"
abbreviation MAX_MONITOR_TIME :: nat where "MAX_MONITOR_TIME \<equiv> 21600"
abbreviation THAW_WAIT_TIME :: u32 where "THAW_WAIT_TIME \<equiv> 60"
abbreviation DELAY_UNFREEZE_TIME :: u64 where "DELAY_UNFREEZE_TIME \<equiv> 600"
abbreviation DB_FREEZE :: int where "DB_FREEZE \<equiv> 0"
abbreviation DB_UNFREEZE :: int where "DB_UNFREEZE \<equiv> 1"
abbreviation DB_UNKNOWN :: int where "DB_UNKNOWN \<equiv> 2"
abbreviation ALARM_ID_THAWFAILED :: int where "ALARM_ID_THAWFAILED \<equiv> 0x3230019"

text \<open>
  What the code calls and this development does not define: JsonCpp, the FastCGI library, SQLite,
  the cryptographic library, the file system and the clock, whose successive readings are
  \<open>env_clock 0, env_clock 1, \<dots>\<close>.
\<close>

record ('j, 'd, 's) ft_env =
  env_json :: "'j json_api"
  env_parse :: "string \<Rightarrow> 'j option"
  env_write :: "'j \<Rightarrow> string"
  env_null :: 'j
  env_getparam :: get_param
  env_sql :: "('d, 's) sqlite_api"
  env_dbpath :: string
  env_encrypt :: "string \<Rightarrow> string"
  env_decrypt :: "string \<Rightarrow> string"
  env_file_exists :: "string \<Rightarrow> bool"
  env_binpath :: string
  env_clock :: "nat \<Rightarrow> u64"

text \<open>
  The monitor with what it shares with the rest of the agent: the queues, the FastCGI objects of
  the heap, the outcome of the coming allocations (an exhausted list means success), the database,
  the alarms sent. \<^verbatim>\<open>w_ub\<close> records that a freed or null FastCGI object has been used.
\<close>

record ('j, 'd) ft_world =
  w_comm :: "'j comm"
  w_heap :: fcgx_heap
  w_next :: addr
  w_new :: "bool list"
  w_db :: "'d cdb"
  w_reads :: nat
  w_alarms :: "(int \<times> string) list"
  w_ub :: bool
  m_vecMonitors :: "'j monitor_obj list"
  m_iCurrIndex :: nat

section \<open>Memory and the clock\<close>

text \<open>\<open>n\<close> allocations in a row: the first that fails stops the sequence.\<close>

fun try_new :: "nat \<Rightarrow> bool list \<Rightarrow> bool list \<times> bool" where
  "try_new 0 bs = (bs, True)"
| "try_new (Suc n) [] = ([], True)"
| "try_new (Suc n) (b # bs) = (if b then try_new n bs else (bs, False))"

definition alloc :: "nat \<Rightarrow> ('j, 'd) ft_world \<Rightarrow> ('j, 'd) ft_world \<times> bool" where
  "alloc n w = (case try_new n (w_new w) of (bs, ok) \<Rightarrow> (w\<lparr>w_new := bs\<rparr>, ok))"

definition GetTimeSec :: "('j, 'd, 's) ft_env \<Rightarrow> ('j, 'd) ft_world \<Rightarrow> ('j, 'd) ft_world \<times> u64" where
  "GetTimeSec E w = (w\<lparr>w_reads := Suc (w_reads w)\<rparr>, env_clock E (w_reads w))"

definition read_head :: "('j, 'd, 's) ft_env \<Rightarrow> string \<Rightarrow> 'j request_msg \<Rightarrow> ('j, 'd) ft_world \<Rightarrow> ('j, 'd) ft_world \<times> string" where
  "read_head E name r w =
     (case GetHead (env_getparam E) (w_heap w) name (m_httpReq r) of
        None \<Rightarrow> (w\<lparr>w_ub := True\<rparr>, UNKNOWN)
      | Some v \<Rightarrow> (w, v))"

text \<open>
  \<^verbatim>\<open>DuplicateHead\<close> allocates an array and two C strings; \<^verbatim>\<open>CreateReqMsg\<close> allocates the request
  before and the FastCGI object after it, and releases everything when one allocation fails.
\<close>

definition DuplicateHead :: "string \<Rightarrow> string \<Rightarrow> ('j, 'd) ft_world \<Rightarrow> ('j, 'd) ft_world \<times> string list option" where
  "DuplicateHead strDbUser strDbPp w =
     (case alloc 3 w of
        (w, ok) \<Rightarrow> (w, if ok then Some [c_str (HTTPPARAM_DBUSERNAME @ ''='' @ strDbUser),
                                       c_str (HTTPPARAM_DBPASSWORD @ ''='' @ strDbPp)]
                      else None))"

definition new_request :: "'j \<Rightarrow> addr \<Rightarrow> 'j request_msg" where
  "new_request body a = \<lparr>m_url = empty_url, m_msgBody = body,
     m_httpReq = \<lparr>m_strURL = [], m_strQueryParam = [], m_strMethod = [], m_pFcgRequest = Some a\<rparr>\<rparr>"

definition CreateReqMsg :: "string \<Rightarrow> string \<Rightarrow> 'j \<Rightarrow> ('j, 'd) ft_world \<Rightarrow> ('j, 'd) ft_world \<times> 'j request_msg option" where
  "CreateReqMsg strDbUser strDbPp jvJsonData w =
     (case alloc 1 w of
        (w, ok) \<Rightarrow>
          if \<not> ok then (w, None)
          else (case DuplicateHead strDbUser strDbPp w of
                  (w, None) \<Rightarrow> (w, None)
                | (w, Some envp) \<Rightarrow>
                    (case alloc 1 w of
                       (w, ok) \<Rightarrow>
                         if \<not> ok then (w, None)
                         else (w\<lparr>w_heap := (w_heap w)(w_next w \<mapsto> envp), w_next := Suc (w_next w)\<rparr>,
                               Some (new_request jvJsonData (w_next w))))))"

text \<open>The overload that starts from the encrypted credentials and the text of the body.\<close>

definition CreateReqMsg_text :: "('j, 'd, 's) ft_env \<Rightarrow> string \<Rightarrow> string \<Rightarrow> string \<Rightarrow> ('j, 'd) ft_world
    \<Rightarrow> ('j, 'd) ft_world \<times> 'j request_msg option" where
  "CreateReqMsg_text E strEncryptDbUser strEncryptDbPp strJsonData w =
     (case env_parse E strJsonData of
        None \<Rightarrow> (w, None)
      | Some jsonValue \<Rightarrow> CreateReqMsg (env_decrypt E strEncryptDbUser) (env_decrypt E strEncryptDbPp) jsonValue w)"

definition FreeReqMsg :: "'j request_msg \<Rightarrow> ('j, 'd) ft_world \<Rightarrow> ('j, 'd) ft_world" where
  "FreeReqMsg r w =
     (case m_pFcgRequest (m_httpReq r) of
        None \<Rightarrow> w\<lparr>w_ub := True\<rparr>
      | Some a \<Rightarrow> (if w_heap w a = None then w\<lparr>w_ub := True\<rparr> else w\<lparr>w_heap := (w_heap w)(a := None)\<rparr>))"

definition FreeMonitorObj :: "'j monitor_obj \<Rightarrow> ('j, 'd) ft_world \<Rightarrow> ('j, 'd) ft_world" where
  "FreeMonitorObj m w = FreeReqMsg (pReqMsg m) w"

section \<open>The table of frozen objects\<close>

text \<open>The statements, as the code builds them, over \<^verbatim>\<open>FreezeObjTable\<close>.\<close>

definition sql_exists :: string where
  "sql_exists = ''select InstanceName,DBName from FreezeObjTable where InstanceName == ? and DBName == ?''"
definition sql_insert :: string where
  "sql_insert = ''insert into FreezeObjTable(InstanceName,DBName,BeginStatus,LoopTime,User,MP,JsonData,AppType,BeginTime) values(?, ?, ?, ?, ?, ?, ?, ?, ?);''"
definition sql_delete :: string where
  "sql_delete = ''delete from FreezeObjTable where InstanceName== ? and DBName == ?''"
definition sql_load :: string where
  "sql_load = ''select InstanceName,DBName,BeginStatus,LoopTime,User,MP,JsonData,AppType,BeginTime from FreezeObjTable''"

definition IsExistInDB :: "('j, 'd, 's) ft_env \<Rightarrow> 'j monitor_obj \<Rightarrow> ('j, 'd) ft_world \<Rightarrow> ('j, 'd) ft_world \<times> bool" where
  "IsExistInDB E m w =
     (case QueryTable (env_sql E) (env_dbpath E) sql_exists
             [DbParam_string (strInstanceName m), DbParam_string (strDBName m)] empty_query (w_db w) of
        (c, q, iRet) \<Rightarrow> (w\<lparr>w_db := c\<rparr>, iRet = MP_SUCCESS \<and> 0 < q_rows q))"

definition SaveToDB :: "('j, 'd, 's) ft_env \<Rightarrow> 'j monitor_obj \<Rightarrow> ('j, 'd) ft_world \<Rightarrow> ('j, 'd) ft_world \<times> int" where
  "SaveToDB E m w =
     (case IsExistInDB E m w of
        (w, exists) \<Rightarrow>
          if exists then (w, MP_SUCCESS)
          else (case read_head E HTTPPARAM_DBUSERNAME (pReqMsg m) w of
                  (w, strDbUser) \<Rightarrow>
                    (case read_head E HTTPPARAM_DBPASSWORD (pReqMsg m) w of
                       (w, strDbPp) \<Rightarrow>
                         (case ExecSql (env_sql E) (env_dbpath E) sql_insert
                                 [DbParam_string (strInstanceName m), DbParam_string (strDBName m),
                                  DbParam_uint32 (uiStatus m), DbParam_uint32 (uiLoopTime m),
                                  DbParam_string (env_encrypt E strDbUser), DbParam_string (env_encrypt E strDbPp),
                                  DbParam_string (env_write E (m_msgBody (pReqMsg m))),
                                  DbParam_int32 (iAppType m), DbParam_uint64 (ulBeginTime m)] (w_db w) of
                            (c, iRet) \<Rightarrow> (w\<lparr>w_db := c\<rparr>, iRet)))))"

definition RemoveFromDB :: "('j, 'd, 's) ft_env \<Rightarrow> 'j monitor_obj \<Rightarrow> ('j, 'd) ft_world \<Rightarrow> ('j, 'd) ft_world \<times> int" where
  "RemoveFromDB E m w =
     (case ExecSql (env_sql E) (env_dbpath E) sql_delete
             [DbParam_string (strInstanceName m), DbParam_string (strDBName m)] (w_db w) of
        (c, iRet) \<Rightarrow> (w\<lparr>w_db := c\<rparr>, iRet))"

text \<open>
  \<^verbatim>\<open>LoadFromDB\<close>: nine reads per row. A row whose request cannot be rebuilt is skipped.
\<close>

fun read_fields :: "nat \<Rightarrow> string list \<Rightarrow> string list \<times> string list" where
  "read_fields 0 r = (r, [])"
| "read_fields (Suc n) r =
     (case reader_get r [] of (r, s) \<Rightarrow> (case read_fields n r of (r, ss) \<Rightarrow> (r, s # ss)))"

fun load_rows :: "('j, 'd, 's) ft_env \<Rightarrow> nat \<Rightarrow> string list \<Rightarrow> ('j, 'd) ft_world \<Rightarrow> 'j monitor_obj list
    \<Rightarrow> ('j, 'd) ft_world \<times> 'j monitor_obj list" where
  "load_rows E 0 r w vecObj = (w, vecObj)"
| "load_rows E (Suc n) r w vecObj =
     (case read_fields 9 r of
        (r, f) \<Rightarrow>
          (case CreateReqMsg_text E (f ! 4) (f ! 5) (f ! 6) w of
             (w, None) \<Rightarrow> load_rows E n r w vecObj
           | (w, Some req) \<Rightarrow>
               load_rows E n r w (vecObj @ [\<lparr>pReqMsg = req, uiStatus = word_of_int (atoi (f ! 2)),
                 ulBeginTime = word_of_int (atol (f ! 8)), strInstanceName = f ! 0, strDBName = f ! 1,
                 iAppType = atoi (f ! 7), uiLoopTime = word_of_int (atoi (f ! 3))\<rparr>])))"

definition LoadFromDB :: "('j, 'd, 's) ft_env \<Rightarrow> ('j, 'd) ft_world \<Rightarrow> 'j monitor_obj list
    \<Rightarrow> ('j, 'd) ft_world \<times> 'j monitor_obj list \<times> int" where
  "LoadFromDB E w vecObj =
     (case QueryTable (env_sql E) (env_dbpath E) sql_load [] empty_query (w_db w) of
        (c, q, iRet) \<Rightarrow>
          (let w = w\<lparr>w_db := c\<rparr>
           in if iRet \<noteq> MP_SUCCESS then (w, vecObj, iRet)
              else (case load_rows E (nat (q_rows q)) (q_reader q) w vecObj of
                      (w, vecObj) \<Rightarrow> (w, vecObj, MP_SUCCESS))))"

section \<open>The list of monitored objects\<close>

text \<open>
  Two objects are the same when type, instance and database agree, the names compared as C
  strings. A pointer to an object of the vector is its index.
\<close>

definition mkey :: "'j monitor_obj \<Rightarrow> int \<times> string \<times> string" where
  "mkey m = (iAppType m, c_str (strInstanceName m), c_str (strDBName m))"

definition IsSame :: "'j monitor_obj \<Rightarrow> 'j monitor_obj \<Rightarrow> bool" where
  "IsSame m1 m2 \<longleftrightarrow> iAppType m1 = iAppType m2 \<and> c_str (strInstanceName m1) = c_str (strInstanceName m2) \<and>
     c_str (strDBName m1) = c_str (strDBName m2)"

definition IsExistInList :: "'j monitor_obj \<Rightarrow> ('j, 'd) ft_world \<Rightarrow> bool" where
  "IsExistInList m w \<longleftrightarrow> list_ex (IsSame m) (m_vecMonitors w)"

definition GetMonitorObj :: "int \<Rightarrow> string \<Rightarrow> string \<Rightarrow> ('j, 'd) ft_world \<Rightarrow> nat option" where
  "GetMonitorObj t inst db w =
     find_index (\<lambda>m. t = iAppType m \<and> c_str inst = c_str (strInstanceName m) \<and> c_str db = c_str (strDBName m))
       (m_vecMonitors w)"

definition set_obj :: "nat \<Rightarrow> ('j monitor_obj \<Rightarrow> 'j monitor_obj) \<Rightarrow> ('j, 'd) ft_world \<Rightarrow> ('j, 'd) ft_world" where
  "set_obj i f w = w\<lparr>m_vecMonitors := (m_vecMonitors w)[i := f (m_vecMonitors w ! i)]\<rparr>"

definition AddMonitorObj :: "'j monitor_obj \<Rightarrow> ('j, 'd) ft_world \<Rightarrow> ('j, 'd) ft_world \<times> int" where
  "AddMonitorObj m w =
     (let m = m\<lparr>ulBeginTime := ulBeginTime m + DELAY_UNFREEZE_TIME\<rparr>
      in if IsExistInList m w then
           ((case GetMonitorObj (iAppType m) (strInstanceName m) (strDBName m) w of
               None \<Rightarrow> w
             | Some i \<Rightarrow> set_obj i (\<lambda>ob. ob\<lparr>uiStatus := uiStatus m, ulBeginTime := ulBeginTime m,
                 uiLoopTime := uiLoopTime m\<rparr>) w), MP_FAILED)
         else (w\<lparr>m_vecMonitors := m_vecMonitors w @ [m]\<rparr>, MP_SUCCESS))"

definition AddMonitorObjs :: "'j monitor_obj list \<Rightarrow> ('j, 'd) ft_world \<Rightarrow> ('j, 'd) ft_world" where
  "AddMonitorObjs vec w = w\<lparr>m_vecMonitors := m_vecMonitors w @ vec\<rparr>"

definition DelMonitorObj :: "nat \<Rightarrow> ('j, 'd) ft_world \<Rightarrow> ('j, 'd) ft_world" where
  "DelMonitorObj i w =
     (let m = m_vecMonitors w ! i
      in case List.find (IsSame m) (m_vecMonitors w) of
           None \<Rightarrow> w
         | Some m' \<Rightarrow> (FreeMonitorObj m' w)\<lparr>m_vecMonitors := erase_first (IsSame m) (m_vecMonitors w)\<rparr>)"

definition GetHandleMonitorObj :: "('j, 'd) ft_world \<Rightarrow> ('j, 'd) ft_world \<times> nat option" where
  "GetHandleMonitorObj w =
     (if 0 < length (m_vecMonitors w) \<and> m_iCurrIndex w < length (m_vecMonitors w)
      then (w\<lparr>m_iCurrIndex := Suc (m_iCurrIndex w)\<rparr>, Some (m_iCurrIndex w))
      else (w\<lparr>m_iCurrIndex := 0\<rparr>, None))"

end
