(* ===== verification/FreezeMonitor.thy ===== *)
theory FreezeMonitor
  imports FreezeWorld
begin

text \<open>
  The operations of \<^verbatim>\<open>CFTExceptionHandle\<close> (\<^verbatim>\<open>src/src/agent/FTExceptionHandle.cpp\<close>): building a
  monitored object from a freeze request, the messages the monitor sends itself, the handlers of
  each state, and the two entry points of the send and receive threads.
\<close>

section \<open>Building a monitored object\<close>

definition InitMonitorObj :: "('j, 'd, 's) ft_env \<Rightarrow> string \<Rightarrow> string \<Rightarrow> 'j request_msg \<Rightarrow> string \<Rightarrow> ('j, 'd) ft_world
    \<Rightarrow> ('j, 'd) ft_world \<times> (int + 'j monitor_obj)" where
  "InitMonitorObj E inst db r LoopTimeKey w =
     (case GetTimeSec E w of
        (w, now) \<Rightarrow>
          (let loop = (case GetJsonInt32 (env_json E) (m_msgBody r) LoopTimeKey 0 of
                         (iRet, iLoopTime) \<Rightarrow> if iRet = MP_SUCCESS then word_of_int iLoopTime else THAW_WAIT_TIME)
           in case read_head E HTTPPARAM_DBUSERNAME r w of
                (w, strDbUser) \<Rightarrow>
                  (case read_head E HTTPPARAM_DBPASSWORD r w of
                     (w, strDbPp) \<Rightarrow>
                       (case CreateReqMsg strDbUser strDbPp (m_msgBody r) w of
                          (w, None) \<Rightarrow> (w, Inl ERROR_COMMON_INVALID_PARAM)
                        | (w, Some req) \<Rightarrow>
                            (w, Inr \<lparr>pReqMsg = req, uiStatus = MONITOR_STATUS_FREEZED, ulBeginTime = now,
                                     strInstanceName = inst, strDBName = db,
                                     iAppType = GetRequestAppType r, uiLoopTime = loop\<rparr>)))))"

definition CreateVSSMonitorObj :: "('j, 'd, 's) ft_env \<Rightarrow> 'j request_msg \<Rightarrow> ('j, 'd) ft_world
    \<Rightarrow> ('j, 'd) ft_world \<times> (int + 'j monitor_obj)" where
  "CreateVSSMonitorObj E r w = InitMonitorObj E VSS_INSTANCE_NAME VSS_DB_NAME r LOOP_TIME w"

definition CreateDBMonitorObj :: "('j, 'd, 's) ft_env \<Rightarrow> 'j request_msg \<Rightarrow> ('j, 'd) ft_world
    \<Rightarrow> ('j, 'd) ft_world \<times> (int + 'j monitor_obj)" where
  "CreateDBMonitorObj E r w =
     (case GetJsonString (env_json E) (m_msgBody r) INST_NAME [] of
        (iRet, other) \<Rightarrow>
          (case GetJsonString (env_json E) (m_msgBody r) INST_NUM [] of
             (iRetGetNum, num) \<Rightarrow>
               (if iRet \<noteq> MP_SUCCESS \<and> iRetGetNum \<noteq> MP_SUCCESS then (w, Inl iRet)
                else (case GetJsonString (env_json E) (m_msgBody r) DBNAME [] of
                        (iRet', db) \<Rightarrow>
                          (if iRet' \<noteq> MP_SUCCESS then (w, Inl iRet')
                           else InitMonitorObj E (if iRet = MP_SUCCESS then other else num) db r LOOP_TIME w)))))"

definition CreateFSMonitorObj :: "('j, 'd, 's) ft_env \<Rightarrow> 'j request_msg \<Rightarrow> ('j, 'd) ft_world
    \<Rightarrow> ('j, 'd) ft_world \<times> (int + 'j monitor_obj)" where
  "CreateFSMonitorObj E r w =
     (case GetJsonArrayString (env_json E) (m_msgBody r) DISKNAMES [] of
        (iRet, vecDisks) \<Rightarrow>
          (if iRet \<noteq> MP_SUCCESS then (w, Inl iRet)
           else InitMonitorObj E (foldl (\<lambda>acc d. acc @ d @ '':'') [] vecDisks) FILESYTEM_DB_NAME r LOOP_TIME w))"

definition CreateThirdPartyMonitorObj :: "('j, 'd, 's) ft_env \<Rightarrow> 'j request_msg \<Rightarrow> ('j, 'd) ft_world
    \<Rightarrow> ('j, 'd) ft_world \<times> (int + 'j monitor_obj)" where
  "CreateThirdPartyMonitorObj E r w =
     (case GetJsonString (env_json E) (m_msgBody r) REST_PARAM_HOST_FREEZE_SCRIPT_FILENAME [] of
        (iRet, strFileName) \<Rightarrow>
          (if iRet \<noteq> MP_SUCCESS then (w, Inl iRet)
           else (case (if isMember (env_json E) (m_msgBody r) REST_PARAM_HOST_FREEZE_SCRIPT_PARAM
                       then GetJsonString (env_json E) (m_msgBody r) REST_PARAM_HOST_FREEZE_SCRIPT_PARAM []
                       else (MP_SUCCESS, [])) of
                   (iRet, strParam) \<Rightarrow>
                     (if iRet \<noteq> MP_SUCCESS then (w, Inl iRet)
                      else InitMonitorObj E strFileName strParam r REST_PARAM_HOST_FREEZE_TIMEOUT w))))"

definition CreateAppMonitorObj :: "('j, 'd, 's) ft_env \<Rightarrow> 'j request_msg \<Rightarrow> ('j, 'd) ft_world
    \<Rightarrow> ('j, 'd) ft_world \<times> (int + 'j monitor_obj)" where
  "CreateAppMonitorObj E r w = InitMonitorObj E APPINSTNAME APPDBNAME r LOOP_TIME w"

definition CreateMonitorObj :: "('j, 'd, 's) ft_env \<Rightarrow> 'j request_msg \<Rightarrow> ('j, 'd) ft_world
    \<Rightarrow> ('j, 'd) ft_world \<times> (int + 'j monitor_obj)" where
  "CreateMonitorObj E r w =
     (if IsDB2OrOracleRequest r then CreateDBMonitorObj E r w
      else if IsVSSRequest r then CreateVSSMonitorObj E r w
      else if IsFSRequest r then CreateFSMonitorObj E r w
      else if IsThirdPartyRequest r then CreateThirdPartyMonitorObj E r w
      else if IsAppRequest r then CreateAppMonitorObj E r w
      else (w, Inl MP_FAILED))"

section \<open>Messages the monitor sends itself\<close>

text \<open>
  The new message is a copy of the object's request, FastCGI pointer included, with the URL and
  the method replaced, and an internal response.
\<close>

definition retarget :: "string \<Rightarrow> string \<Rightarrow> 'j request_msg \<Rightarrow> 'j request_msg" where
  "retarget url method r =
     r\<lparr>m_url := SetProcURL url (m_url r), m_httpReq := (m_httpReq r)\<lparr>m_strMethod := method\<rparr>\<rparr>"

definition PushUnFreezeReq :: "('j, 'd, 's) ft_env \<Rightarrow> nat \<Rightarrow> ('j, 'd) ft_world \<Rightarrow> ('j, 'd) ft_world \<times> int" where
  "PushUnFreezeReq E i w =
     (let m = m_vecMonitors w ! i; strUrl = GetUnFreezeUrl (iAppType m)
      in if strUrl = [] then (w, MP_FAILED)
         else (case alloc 2 w of
                 (w, ok) \<Rightarrow>
                   (if \<not> ok then (w, MP_FAILED)
                    else (w\<lparr>w_comm := PushReqMsgQueue
                              (retarget strUrl REST_URL_METHOD_PUT (pReqMsg m), CResponseMsg_internal (env_null E))
                              (w_comm w)\<rparr>, MP_SUCCESS))))"

definition query_msg :: "string \<Rightarrow> string \<Rightarrow> 'j monitor_obj \<Rightarrow> 'j request_msg" where
  "query_msg strQueryUrl strQueryParam m =
     (let r = retarget strQueryUrl REST_URL_METHOD_GET (pReqMsg m)
      in if iAppType m \<noteq> TYPE_APP_APP then r\<lparr>m_url := SetQueryParam strQueryParam (m_url r)\<rparr> else r)"

text \<open>
  The parameters of the status query: an error of the body, a status script that is missing, or
  the text.
\<close>

datatype query_plan = QueryError int | ScriptMissing | QueryText string

definition query_param :: "('j, 'd, 's) ft_env \<Rightarrow> 'j monitor_obj \<Rightarrow> query_plan" where
  "query_param E m =
     (let J = env_json E; jv = m_msgBody (pReqMsg m)
      in if iAppType m = TYPE_APP_FILESYSTEM then QueryText (DISKNAMES @ ''='' @ strInstanceName m)
         else if iAppType m = TYPE_APP_THIRDPARTY then
           (case GetJsonString J jv REST_PARAM_HOST_QUERY_SCRIPT_FILENAME [] of
              (iRet, strStatusScript) \<Rightarrow>
                (if iRet \<noteq> MP_SUCCESS then QueryError iRet
                 else (case (if isMember J jv REST_PARAM_HOST_QUERY_SCRIPT_PARAM
                             then GetJsonString J jv REST_PARAM_HOST_QUERY_SCRIPT_PARAM [] else (MP_SUCCESS, [])) of
                         (iRet, strParm) \<Rightarrow>
                           (if iRet \<noteq> MP_SUCCESS then QueryError iRet
                            else if \<not> env_file_exists E (c_str (env_binpath E @ ''/thirdparty/'' @ strStatusScript))
                              then ScriptMissing
                            else QueryText (REST_PARAM_HOST_QUERY_SCRIPT_FILENAME @ ''='' @ strStatusScript @ ''&'' @
                                   REST_PARAM_HOST_QUERY_SCRIPT_PARAM @ ''='' @ strParm)))))
         else if iAppType m = TYPE_APP_HANA then
           QueryText (INST_NUM @ ''='' @ strInstanceName m @ ''&'' @ DBNAME @ ''='' @ strDBName m)
         else QueryText (INST_NAME @ ''='' @ strInstanceName m @ ''&'' @ DBNAME @ ''='' @ strDBName m))"

definition PushQueryStatusReq :: "('j, 'd, 's) ft_env \<Rightarrow> nat \<Rightarrow> ('j, 'd) ft_world \<Rightarrow> ('j, 'd) ft_world \<times> int" where
  "PushQueryStatusReq E i w =
     (let m = m_vecMonitors w ! i; strQueryUrl = GetQueryStatusUrl (iAppType m)
      in if strQueryUrl = [] then (w, MP_FAILED)
         else (case query_param E m of
                 QueryError iRet \<Rightarrow> (w, iRet)
               | ScriptMissing \<Rightarrow>
                   (DelMonitorObj i (fst (RemoveFromDB E m w)), ERROR_COMMON_SCRIPT_FILE_NOT_EXIST)
               | QueryText strQueryParam \<Rightarrow>
                   (case alloc 2 w of
                      (w, ok) \<Rightarrow>
                        (if \<not> ok then (w, MP_FAILED)
                         else (w\<lparr>w_comm := PushReqMsgQueue
                                   (query_msg strQueryUrl strQueryParam m, CResponseMsg_internal (env_null E))
                                   (w_comm w)\<rparr>, MP_SUCCESS)))))"

section \<open>Alarms\<close>

text \<open>
  \<^verbatim>\<open>GetDBNameFromObj\<close>; the test of the request pointer in its condition is true by construction.
  The loop stops at the first element without a name, with what it has.
\<close>

fun join_db_names :: "'j json_api \<Rightarrow> 'j list \<Rightarrow> string \<Rightarrow> string" where
  "join_db_names J [] acc = acc"
| "join_db_names J (v # vs) acc =
     (case GetJsonString J v DBNAME [] of
        (iRet, name) \<Rightarrow> (if iRet \<noteq> MP_SUCCESS then acc else join_db_names J vs (acc @ name @ '':'')))"

definition GetDBNameFromObj :: "'j json_api \<Rightarrow> 'j monitor_obj \<Rightarrow> string" where
  "GetDBNameFromObj J m =
     (if iAppType m = TYPE_APP_SQL \<or> iAppType m = TYPE_APP_EXCHANGE then
        (case GetArrayJson J (m_msgBody (pReqMsg m)) [] of
           (iRet, vecJson) \<Rightarrow> (if iRet \<noteq> MP_SUCCESS then strDBName m else join_db_names J vecJson []))
      else if iAppType m = TYPE_APP_FILESYSTEM then strInstanceName m
      else strDBName m)"

definition SendHandleFailedAlarm :: "('j, 'd, 's) ft_env \<Rightarrow> 'j monitor_obj \<Rightarrow> ('j, 'd) ft_world \<Rightarrow> ('j, 'd) ft_world" where
  "SendHandleFailedAlarm E m w =
     w\<lparr>w_alarms := w_alarms w @ [(ALARM_ID_THAWFAILED,
         IntToString (iAppType m) @ '','' @ GetDBNameFromObj (env_json E) m)]\<rparr>"

section \<open>The handlers of each state\<close>

definition HandleUnFreezingMonitorObj :: "('j, 'd, 's) ft_env \<Rightarrow> nat \<Rightarrow> bool \<Rightarrow> ('j, 'd) ft_world \<Rightarrow> ('j, 'd) ft_world \<times> int" where
  "HandleUnFreezingMonitorObj E i bIsUnFreezeSucc w =
     (let m = m_vecMonitors w ! i
      in if uiStatus m = MONITOR_STATUS_FREEZED then (w, MP_SUCCESS)
         else if \<not> bIsUnFreezeSucc then
           (set_obj i (\<lambda>ob. ob\<lparr>uiLoopTime := (if uiLoopTime ob \<le> of_nat MAX_MONITOR_TIME then uiLoopTime ob * 2 else uiLoopTime ob),
                               uiStatus := MONITOR_STATUS_FREEZED\<rparr>)
              (SendHandleFailedAlarm E m w), MP_FAILED)
         else (DelMonitorObj i (fst (RemoveFromDB E m w)), MP_SUCCESS))"

definition HandleQueryStatusMonitorObj :: "('j, 'd, 's) ft_env \<Rightarrow> nat \<Rightarrow> int \<Rightarrow> ('j, 'd) ft_world \<Rightarrow> ('j, 'd) ft_world \<times> int" where
  "HandleQueryStatusMonitorObj E i iQueryStatus w =
     (let m = m_vecMonitors w ! i
      in if uiStatus m = MONITOR_STATUS_FREEZED then (w, MP_SUCCESS)
         else if iQueryStatus = DB_UNFREEZE then (DelMonitorObj i (fst (RemoveFromDB E m w)), MP_SUCCESS)
         else if iQueryStatus = DB_FREEZE then
           (case PushUnFreezeReq E i w of
              (w, iRet) \<Rightarrow>
                (if iRet \<noteq> MP_SUCCESS then (set_obj i (\<lambda>ob. ob\<lparr>uiStatus := MONITOR_STATUS_FREEZED\<rparr>) w, iRet)
                 else (set_obj i (\<lambda>ob. ob\<lparr>uiStatus := MONITOR_STATUS_UNFREEZING\<rparr>) w, MP_SUCCESS)))
         else (set_obj i (\<lambda>ob. ob\<lparr>uiStatus := MONITOR_STATUS_FREEZED\<rparr>) w, MP_SUCCESS))"

definition HandleFreezedMonitorObj :: "('j, 'd, 's) ft_env \<Rightarrow> nat \<Rightarrow> ('j, 'd) ft_world \<Rightarrow> ('j, 'd) ft_world \<times> int" where
  "HandleFreezedMonitorObj E i w =
     (let m = m_vecMonitors w ! i
      in case GetTimeSec E w of
           (w, ulCurrentTime) \<Rightarrow>
             (if ulCurrentTime \<le> ulBeginTime m then (w, MP_SUCCESS)
              else if of_nat MAX_MONITOR_TIME \<le> ulCurrentTime - ulBeginTime m then
                (DelMonitorObj i (fst (RemoveFromDB E m w)), MP_SUCCESS)
              else if ulCurrentTime - ulBeginTime m < ucast (uiLoopTime m) then (w, MP_SUCCESS)
              else (case PushQueryStatusReq E i w of
                      (w, iRet) \<Rightarrow>
                        (if iRet \<noteq> MP_SUCCESS then (w, iRet)
                         else (set_obj i (\<lambda>ob. ob\<lparr>uiStatus := MONITOR_STATUS_GETSTATUSING\<rparr>) w, MP_SUCCESS)))))"

section \<open>Responses to the monitor's own messages\<close>

definition ProccessUnFreezeRsp :: "('j, 'd, 's) ft_env \<Rightarrow> 'j message_pair \<Rightarrow> ('j, 'd) ft_world \<Rightarrow> ('j, 'd) ft_world \<times> int" where
  "ProccessUnFreezeRsp E p w =
     (case GetRequestInstanceName (env_json E) (fst p) [] of
        (iRet, inst) \<Rightarrow>
          (if iRet \<noteq> MP_SUCCESS then (w, iRet)
           else (case GetRequestDbName (env_json E) (fst p) [] of
                   (iRet, db) \<Rightarrow>
                     (if iRet \<noteq> MP_SUCCESS then (w, iRet)
                      else (case GetMonitorObj (GetRequestAppType (fst p)) inst db w of
                              None \<Rightarrow> (w, MP_SUCCESS)
                            | Some i \<Rightarrow> HandleUnFreezingMonitorObj E i
                                 (sint (word_of_int (m_lRetCode (snd p)) :: u32) = MP_SUCCESS) w)))))"

definition ProcessQueryStatusRsp :: "('j, 'd, 's) ft_env \<Rightarrow> 'j message_pair \<Rightarrow> ('j, 'd) ft_world \<Rightarrow> ('j, 'd) ft_world \<times> int" where
  "ProcessQueryStatusRsp E p w =
     (case GetRequestInstanceName (env_json E) (fst p) [] of
        (iRet, inst) \<Rightarrow>
          (if iRet \<noteq> MP_SUCCESS then (w, iRet)
           else (case GetRequestDbName (env_json E) (fst p) [] of
                   (iRet, db) \<Rightarrow>
                     (if iRet \<noteq> MP_SUCCESS then (w, iRet)
                      else (case GetMonitorObj (GetRequestAppType (fst p)) inst db w of
                              None \<Rightarrow> (w, MP_SUCCESS)
                            | Some i \<Rightarrow> HandleQueryStatusMonitorObj E i
                                 (if m_lRetCode (snd p) = MP_SUCCESS then
                                    (case GetJsonInt32 (env_json E) (m_msgJsonData (snd p)) DB_FREEZE_STATUS DB_UNKNOWN of
                                       (iRet, iTmpStatus) \<Rightarrow> if iRet = MP_SUCCESS then iTmpStatus else DB_UNKNOWN)
                                  else DB_UNKNOWN) w)))))"

text \<open>One response, and the loop that empties the queue of internal responses.\<close>

definition process_rsp :: "('j, 'd, 's) ft_env \<Rightarrow> 'j message_pair \<Rightarrow> ('j, 'd) ft_world \<Rightarrow> ('j, 'd) ft_world" where
  "process_rsp E p w =
     (if IsUnFreezeRequest (fst p) then fst (ProccessUnFreezeRsp E p w)
      else if IsQueryStatusRequest (fst p) then fst (ProcessQueryStatusRsp E p w)
      else w)"

section \<open>What the handlers leave alone\<close>

text \<open>
  \<open>quiet\<close>: only memory, clock and database may have changed. \<open>tame\<close>: the cursor, the responses and
  the table of handlers are as before, and no object has been added.
\<close>

definition quiet :: "('j, 'd) ft_world \<Rightarrow> ('j, 'd) ft_world \<Rightarrow> bool" where
  "quiet w w' \<longleftrightarrow> m_vecMonitors w' = m_vecMonitors w \<and> m_iCurrIndex w' = m_iCurrIndex w \<and>
     w_comm w' = w_comm w \<and> w_alarms w' = w_alarms w"

definition tame :: "('j, 'd) ft_world \<Rightarrow> ('j, 'd) ft_world \<Rightarrow> bool" where
  "tame w w' \<longleftrightarrow> m_iCurrIndex w' = m_iCurrIndex w \<and> length (m_vecMonitors w') \<le> length (m_vecMonitors w) \<and>
     m_rspMsgQueue (w_comm w') = m_rspMsgQueue (w_comm w) \<and>
     m_ReqHandlerTable (w_comm w') = m_ReqHandlerTable (w_comm w)"

lemma quiet_refl [simp]: "quiet w w" by (simp add: quiet_def)
lemma quiet_trans: "quiet w w' \<Longrightarrow> quiet w' w'' \<Longrightarrow> quiet w w''" by (simp add: quiet_def)
lemma tame_refl [simp]: "tame w w" by (simp add: tame_def)
lemma tame_trans: "tame w w' \<Longrightarrow> tame w' w'' \<Longrightarrow> tame w w''" by (simp add: tame_def)
lemma quiet_tame: "quiet w w' \<Longrightarrow> tame w w'" by (simp add: quiet_def tame_def)

lemma quiet_ops [simp]:
  "quiet w (fst (alloc n w))" "quiet w (fst (GetTimeSec E w))" "quiet w (fst (read_head E k r w))"
  "quiet w (FreeReqMsg r w)" "quiet w (FreeMonitorObj m w)" "quiet w (fst (RemoveFromDB E m w))"
  "quiet w (fst (IsExistInDB E m w))"
  by (auto simp: quiet_def alloc_def GetTimeSec_def read_head_def FreeReqMsg_def FreeMonitorObj_def RemoveFromDB_def
      IsExistInDB_def split: prod.split option.split)

lemma quietD:
  "quiet w w' \<Longrightarrow> m_vecMonitors w' = m_vecMonitors w" "quiet w w' \<Longrightarrow> m_iCurrIndex w' = m_iCurrIndex w"
  "quiet w w' \<Longrightarrow> w_comm w' = w_comm w" "quiet w w' \<Longrightarrow> w_alarms w' = w_alarms w"
  by (simp_all add: quiet_def)

lemmas quiet_sel [simp] = quiet_ops [THEN quietD(1)] quiet_ops [THEN quietD(2)] quiet_ops [THEN quietD(3)]
  quiet_ops [THEN quietD(4)]

lemma quiet_DuplicateHead [simp]: "quiet w (fst (DuplicateHead u p w))"
  by (simp add: DuplicateHead_def case_prod_unfold)

lemma quiet_CreateReqMsg [simp]: "quiet w (fst (CreateReqMsg u p j w))"
  by (auto simp: quiet_def CreateReqMsg_def DuplicateHead_def case_prod_unfold split: option.splits)

lemmas quiet_sel_req [simp] = quiet_CreateReqMsg [THEN quietD(1)] quiet_CreateReqMsg [THEN quietD(2)]
  quiet_CreateReqMsg [THEN quietD(3)] quiet_CreateReqMsg [THEN quietD(4)]

lemma quiet_InitMonitorObj [simp]: "quiet w (fst (InitMonitorObj E i d r k w))"
  by (auto simp: quiet_def InitMonitorObj_def Let_def case_prod_unfold split: option.split)

lemma quiet_CreateMonitorObj [simp]: "quiet w (fst (CreateMonitorObj E r w))"
  by (auto simp: CreateMonitorObj_def CreateDBMonitorObj_def CreateVSSMonitorObj_def CreateFSMonitorObj_def
      CreateThirdPartyMonitorObj_def CreateAppMonitorObj_def split: prod.split)

lemma quiet_SaveToDB [simp]: "quiet w (fst (SaveToDB E m w))"
  by (auto simp: quiet_def SaveToDB_def case_prod_unfold)

end
