(* ===== verification/FreezeLoop.thy ===== *)
theory FreezeLoop
  imports FreezeMonitor
begin

text \<open>
  The loops of the freeze monitor and its entry points (\<^verbatim>\<open>src/src/agent/FTExceptionHandle.cpp\<close>):
  emptying the queue of internal responses, the pass over the monitored objects, the calls made by
  the receive thread before and by the send thread after a freeze request, and the start.
\<close>

section \<open>The handlers are tame\<close>

lemma length_erase_first_le: "length (erase_first P xs) \<le> length xs"
  by (induction xs) auto

lemma tame_intros:
  "tame w w' \<Longrightarrow> tame w (set_obj i f w')"
  "tame w w' \<Longrightarrow> tame w (SendHandleFailedAlarm E m w')"
  "tame w w' \<Longrightarrow> tame w (w'\<lparr>w_comm := PushReqMsgQueue p (w_comm w')\<rparr>)"
  "tame w w' \<Longrightarrow> quiet w' w'' \<Longrightarrow> tame w (w''\<lparr>w_comm := PushReqMsgQueue p (w_comm w')\<rparr>)"
  by (simp_all add: tame_def quiet_def set_obj_def SendHandleFailedAlarm_def)

lemma tame_DelMonitorObj: "tame w w' \<Longrightarrow> tame w (DelMonitorObj i w')"
  by (auto simp: tame_def DelMonitorObj_def Let_def intro: order_trans [OF length_erase_first_le] split: option.split)

lemma tame_quiet: "tame w w' \<Longrightarrow> quiet w' w'' \<Longrightarrow> tame w w''"
  by (blast intro: tame_trans quiet_tame)

lemmas tame_rules = tame_intros tame_DelMonitorObj tame_refl quiet_ops [THEN tame_quiet [rotated]]

lemma tame_PushUnFreezeReq: "tame w w' \<Longrightarrow> tame w (fst (PushUnFreezeReq E i w'))"
  by (simp add: PushUnFreezeReq_def Let_def tame_def case_prod_unfold)

lemma tame_PushQueryStatusReq: "tame w w' \<Longrightarrow> tame w (fst (PushQueryStatusReq E i w'))"
  unfolding PushQueryStatusReq_def Let_def case_prod_unfold
  by (auto intro!: tame_rules split: query_plan.split)

lemma tame_HandleUnFreezing: "tame w w' \<Longrightarrow> tame w (fst (HandleUnFreezingMonitorObj E i b w'))"
  unfolding HandleUnFreezingMonitorObj_def Let_def by (auto intro!: tame_rules)

lemma tame_HandleQueryStatus: "tame w w' \<Longrightarrow> tame w (fst (HandleQueryStatusMonitorObj E i q w'))"
  unfolding HandleQueryStatusMonitorObj_def Let_def case_prod_unfold
  by (auto intro!: tame_rules tame_PushUnFreezeReq)

lemma tame_HandleFreezed: "tame w w' \<Longrightarrow> tame w (fst (HandleFreezedMonitorObj E i w'))"
  unfolding HandleFreezedMonitorObj_def Let_def case_prod_unfold
  by (auto intro!: tame_rules tame_PushQueryStatusReq)

lemma tame_process_rsp: "tame w (process_rsp E p w)"
  unfolding process_rsp_def ProccessUnFreezeRsp_def ProcessQueryStatusRsp_def
  by (auto intro!: tame_rules tame_HandleUnFreezing tame_HandleQueryStatus split: prod.split option.split)

section \<open>The loops\<close>

lemma pop_internal_shorter:
  assumes "(c', Some p) = PopRspInternalMsgQueue c"
  shows "length (m_rspMsgQueue c') < length (m_rspMsgQueue c)"
  using arg_cong [OF int_queue.pop_mset [of c], of size] by (simp flip: assms)

lemma tame_rsp: "tame w w' \<Longrightarrow> m_rspMsgQueue (w_comm w') = m_rspMsgQueue (w_comm w)"
  by (simp add: tame_def)

function ProcessInternalRsps :: "('j, 'd, 's) ft_env \<Rightarrow> ('j, 'd) ft_world \<Rightarrow> ('j, 'd) ft_world" where
  "ProcessInternalRsps E w =
     (case PopRspInternalMsgQueue (w_comm w) of
        (c, None) \<Rightarrow> w\<lparr>w_comm := c\<rparr>
      | (c, Some p) \<Rightarrow> ProcessInternalRsps E (process_rsp E p (w\<lparr>w_comm := c\<rparr>)))"
  by pat_completeness auto
termination
  by (relation "measure (\<lambda>(E, w). length (m_rspMsgQueue (w_comm w)))")
    (auto simp: tame_rsp [OF tame_process_rsp] dest: pop_internal_shorter)

declare ProcessInternalRsps.simps [simp del]

lemma GetHandle_Some:
  "GetHandleMonitorObj w = (w1, Some i) \<Longrightarrow>
   i = m_iCurrIndex w \<and> i < length (m_vecMonitors w) \<and> w1 = w\<lparr>m_iCurrIndex := Suc i\<rparr>"
  by (auto simp: GetHandleMonitorObj_def split: if_splits)

lemma GetHandle_None:
  "GetHandleMonitorObj w = (w1, None) \<Longrightarrow> length (m_vecMonitors w) \<le> m_iCurrIndex w \<and> w1 = w\<lparr>m_iCurrIndex := 0\<rparr>"
  by (auto simp: GetHandleMonitorObj_def split: if_splits)

lemma handle_progress:
  assumes "(w1, Some i) = GetHandleMonitorObj w" "tame w1 w2"
  shows "length (m_vecMonitors w2) - m_iCurrIndex w2 < length (m_vecMonitors w) - m_iCurrIndex w"
  using GetHandle_Some [OF assms(1) [symmetric]] assms(2) by (auto simp: tame_def)

text \<open>
  The pass of \<^verbatim>\<open>HandleMonitorObjs\<close>. The cursor \<^const>\<open>m_iCurrIndex\<close> moves before the object is handled, and
  is reset at the end of the vector.
\<close>

function handle_loop :: "('j, 'd, 's) ft_env \<Rightarrow> ('j, 'd) ft_world \<Rightarrow> ('j, 'd) ft_world" where
  "handle_loop E w =
     (case GetHandleMonitorObj w of
        (w1, None) \<Rightarrow> w1
      | (w1, Some i) \<Rightarrow>
          handle_loop E (if uiStatus (m_vecMonitors w1 ! i) = MONITOR_STATUS_FREEZED
                         then fst (HandleFreezedMonitorObj E i w1) else w1))"
  by pat_completeness auto
termination
  by (relation "measure (\<lambda>(E, w). length (m_vecMonitors w) - m_iCurrIndex w)")
    (auto intro!: handle_progress tame_HandleFreezed tame_refl)

declare handle_loop.simps [simp del]

definition HandleMonitorObjs :: "('j, 'd, 's) ft_env \<Rightarrow> ('j, 'd) ft_world \<Rightarrow> ('j, 'd) ft_world" where
  "HandleMonitorObjs E w = handle_loop E (ProcessInternalRsps E w)"

section \<open>Entry points\<close>

definition MonitorSingleFreezeOper :: "('j, 'd, 's) ft_env \<Rightarrow> 'j request_msg \<Rightarrow> ('j, 'd) ft_world \<Rightarrow> ('j, 'd) ft_world" where
  "MonitorSingleFreezeOper E r w =
     (if \<not> IsFreezeRequest r \<and> \<not> IsUnFreezeRequest r then w
      else if IsFreezeRequest r then
        (case CreateMonitorObj E r w of
           (w, Inl _) \<Rightarrow> w
         | (w, Inr m) \<Rightarrow>
             (case AddMonitorObj m (fst (SaveToDB E m w)) of
                (w, iRet) \<Rightarrow> (if iRet \<noteq> MP_SUCCESS then FreeMonitorObj m w else w)))
      else w)"

text \<open>
  For a file system request the code works on one disk at a time, with the body of the request
  replaced by a text it pastes together and parses; a text that does not parse ends the operation
  with that body left in the request.
\<close>

definition disk_json :: "string \<Rightarrow> string" where
  "disk_json d = CHR ''{'' # CHR 0x22 # ''diskNames'' @ CHR 0x22 # '':['' @ CHR 0x22 # d @ CHR 0x22 # '']}''"

fun per_disk :: "('j, 'd, 's) ft_env \<Rightarrow> ('j request_msg \<Rightarrow> ('j, 'd) ft_world \<Rightarrow> ('j, 'd) ft_world) \<Rightarrow> string list
    \<Rightarrow> 'j request_msg \<Rightarrow> ('j, 'd) ft_world \<Rightarrow> ('j, 'd) ft_world \<times> 'j request_msg \<times> bool" where
  "per_disk E oper [] r w = (w, r, True)"
| "per_disk E oper (d # ds) r w =
     (case env_parse E (c_str (disk_json d)) of
        None \<Rightarrow> (w, r, False)
      | Some jsValue \<Rightarrow>
          (let r = r\<lparr>m_msgBody := jsValue\<rparr> in per_disk E oper ds r (oper r w)))"

definition freeze_oper :: "('j, 'd, 's) ft_env \<Rightarrow> ('j request_msg \<Rightarrow> ('j, 'd) ft_world \<Rightarrow> ('j, 'd) ft_world)
    \<Rightarrow> 'j request_msg \<Rightarrow> ('j, 'd) ft_world \<Rightarrow> ('j, 'd) ft_world \<times> 'j request_msg" where
  "freeze_oper E oper r w =
     (if IsFSRequest r then
        (case GetJsonArrayString (env_json E) (m_msgBody r) DISKNAMES [] of
           (iRet, vecDisks) \<Rightarrow>
             (if iRet \<noteq> MP_SUCCESS then (w, r)
              else (case per_disk E oper vecDisks r w of
                      (w, r', ok) \<Rightarrow> (w, if ok then r'\<lparr>m_msgBody := m_msgBody r\<rparr> else r'))))
      else (oper r w, r))"

definition MonitorFreezeOper :: "('j, 'd, 's) ft_env \<Rightarrow> 'j request_msg \<Rightarrow> ('j, 'd) ft_world \<Rightarrow> ('j, 'd) ft_world \<times> 'j request_msg" where
  "MonitorFreezeOper E r w = freeze_oper E (MonitorSingleFreezeOper E) r w"

definition UpdateSingleFreezeOper :: "('j, 'd, 's) ft_env \<Rightarrow> 'j response_msg \<Rightarrow> 'j request_msg \<Rightarrow> ('j, 'd) ft_world
    \<Rightarrow> ('j, 'd) ft_world" where
  "UpdateSingleFreezeOper E rsp r w =
     (if \<not> IsFreezeRequest r \<and> \<not> IsUnFreezeRequest r then w
      else (case CreateMonitorObj E r w of
              (w, Inl _) \<Rightarrow> w
            | (w, Inr objCond) \<Rightarrow>
                (case GetMonitorObj (iAppType objCond) (strInstanceName objCond) (strDBName objCond) w of
                   None \<Rightarrow> FreeMonitorObj objCond w
                 | Some i \<Rightarrow>
                     FreeMonitorObj objCond
                       (let m = m_vecMonitors w ! i
                        in if IsFreezeRequest r then
                             (if m_lRetCode rsp = ERROR_COMMON_DB_USERPWD_WRONG then DelMonitorObj i (fst (RemoveFromDB E m w))
                              else (case GetTimeSec E w of (w, now) \<Rightarrow> set_obj i (\<lambda>ob. ob\<lparr>ulBeginTime := now\<rparr>) w))
                           else if m_lRetCode rsp = MP_SUCCESS then DelMonitorObj i (fst (RemoveFromDB E m w))
                           else w))))"

definition UpdateFreezeOper :: "('j, 'd, 's) ft_env \<Rightarrow> 'j response_msg \<Rightarrow> 'j request_msg \<Rightarrow> ('j, 'd) ft_world
    \<Rightarrow> ('j, 'd) ft_world \<times> 'j request_msg" where
  "UpdateFreezeOper E rsp r w = freeze_oper E (UpdateSingleFreezeOper E rsp) r w"

text \<open>\<^verbatim>\<open>Init\<close>; the result of creating the thread is an argument.\<close>

definition FT_Init :: "('j, 'd, 's) ft_env \<Rightarrow> int \<Rightarrow> ('j, 'd) ft_world \<Rightarrow> ('j, 'd) ft_world \<times> int" where
  "FT_Init E thread_rc w =
     (case LoadFromDB E w (m_vecMonitors w) of
        (w, vec, iRet) \<Rightarrow>
          (let w = w\<lparr>m_vecMonitors := vec\<rparr>
           in if iRet \<noteq> MP_SUCCESS then (w, iRet)
              else if thread_rc \<noteq> MP_SUCCESS then (w, thread_rc) else (w, MP_SUCCESS)))"

end
