(* ===== verification/FreezeSafe.thy ===== *)
theory FreezeSafe
  imports FreezeLoop
begin

text \<open>
  The memory and list invariant of the freeze monitor: no two objects of the list have the same
  key, each owns a live FastCGI object of its own, and none of the receive thread's objects is
  touched. Every operation keeps it and uses no freed object.
\<close>

section \<open>The invariant\<close>

definition fcgx_of :: "'j request_msg \<Rightarrow> addr option" where
  "fcgx_of r = m_pFcgRequest (m_httpReq r)"

definition owned :: "('j, 'd) ft_world \<Rightarrow> addr option list" where
  "owned w = map (\<lambda>m. fcgx_of (pReqMsg m)) (m_vecMonitors w)"

definition live :: "addr option \<Rightarrow> ('j, 'd) ft_world \<Rightarrow> bool" where
  "live p w \<longleftrightarrow> (case p of None \<Rightarrow> False | Some a \<Rightarrow> w_heap w a \<noteq> None \<and> a < w_next w)"

definition handlers :: "('j, 'd) ft_world \<Rightarrow> addr option set" where
  "handlers w = set (map pFcgxReq (m_ReqHandlerTable (w_comm w)))"

definition heap_ok :: "('j, 'd) ft_world \<Rightarrow> bool" where
  "heap_ok w \<longleftrightarrow> distinct (owned w) \<and> (\<forall>p\<in>set (owned w). live p w) \<and>
     (\<forall>p\<in>handlers w. live p w) \<and> set (owned w) \<inter> handlers w = {}"

definition monitors_ok :: "('j, 'd) ft_world \<Rightarrow> bool" where
  "monitors_ok w \<longleftrightarrow> distinct (map mkey (m_vecMonitors w)) \<and> heap_ok w \<and> \<not> w_ub w"

text \<open>Steps that leave the heap, the list and the flag alone.\<close>

definition same_heap :: "('j, 'd) ft_world \<Rightarrow> ('j, 'd) ft_world \<Rightarrow> bool" where
  "same_heap w w' \<longleftrightarrow> w_heap w' = w_heap w \<and> w_next w' = w_next w \<and> w_ub w' = w_ub w \<and>
     m_vecMonitors w' = m_vecMonitors w \<and> m_ReqHandlerTable (w_comm w') = m_ReqHandlerTable (w_comm w)"

lemma same_heap_ok: "same_heap w w' \<Longrightarrow> monitors_ok w' = monitors_ok w"
  by (simp add: same_heap_def monitors_ok_def heap_ok_def owned_def live_def handlers_def cong: option.case_cong)

lemma same_heap_live: "same_heap w w' \<Longrightarrow> live p w' = live p w"
  by (simp add: same_heap_def live_def cong: option.case_cong)

lemma same_heap_refl [simp]: "same_heap w w" by (simp add: same_heap_def)
lemma same_heap_trans: "same_heap w w' \<Longrightarrow> same_heap w' w'' \<Longrightarrow> same_heap w w''" by (simp add: same_heap_def)

lemma same_heap_ops [simp]:
  "same_heap w (fst (alloc n w))" "same_heap w (fst (GetTimeSec E w))" "same_heap w (fst (RemoveFromDB E m w))"
  "same_heap w (fst (IsExistInDB E m w))" "same_heap w (SendHandleFailedAlarm E m w)"
  "same_heap w (w\<lparr>w_comm := PushReqMsgQueue p (w_comm w)\<rparr>)" "same_heap w (w\<lparr>m_iCurrIndex := i\<rparr>)"
  "same_heap w (w\<lparr>w_db := c\<rparr>)"
  "same_heap w (w\<lparr>w_comm := fst (PopRspInternalMsgQueue (w_comm w))\<rparr>)"
  by (auto simp: same_heap_def alloc_def GetTimeSec_def RemoveFromDB_def IsExistInDB_def SendHandleFailedAlarm_def
      split: prod.split)

lemmas ok_same [simp] = same_heap_ops [THEN same_heap_ok]
lemmas live_same [simp] = same_heap_ops [THEN same_heap_live]

lemma read_head_live: "live (fcgx_of r) w \<Longrightarrow> fst (read_head E k r w) = w"
  by (auto simp: live_def read_head_def GetHead_def fcgx_of_def split: option.splits)

section \<open>Creating and freeing requests\<close>

text \<open>A request that has been created is live, and its object is neither owned nor a handler's.\<close>

definition fresh_req :: "'j request_msg \<Rightarrow> ('j, 'd) ft_world \<Rightarrow> bool" where
  "fresh_req r w \<longleftrightarrow> live (fcgx_of r) w \<and> fcgx_of r \<notin> set (owned w) \<and> fcgx_of r \<notin> handlers w"

lemma same_heap_fresh: "same_heap w w' \<Longrightarrow> fresh_req r w' = fresh_req r w"
  by (simp add: same_heap_def fresh_req_def live_def owned_def handlers_def cong: option.case_cong)

lemmas fresh_same [simp] = same_heap_ops [THEN same_heap_fresh]

lemma CreateReqMsg_ok:
  assumes "monitors_ok w"
  shows "monitors_ok (fst (CreateReqMsg u p j w)) \<and> (\<forall>q. live q w \<longrightarrow> live q (fst (CreateReqMsg u p j w))) \<and>
    (\<forall>r. snd (CreateReqMsg u p j w) = Some r \<longrightarrow> fresh_req r (fst (CreateReqMsg u p j w)) \<and> m_msgBody r = j \<and> \<not> live (fcgx_of r) w)"
proof (cases "snd (CreateReqMsg u p j w)")
  case None
  then have "same_heap w (fst (CreateReqMsg u p j w))"
    by (auto simp: CreateReqMsg_def DuplicateHead_def same_heap_def alloc_def case_prod_unfold split: if_splits)
  with assms None show ?thesis by (simp add: same_heap_ok same_heap_live)
next
  case (Some r)
  then obtain bs e where eq: "CreateReqMsg u p j w =
      (w\<lparr>w_new := bs, w_heap := (w_heap w)(w_next w \<mapsto> e), w_next := Suc (w_next w)\<rparr>, Some (new_request j (w_next w)))"
    by (auto simp: CreateReqMsg_def DuplicateHead_def alloc_def case_prod_unfold split: if_splits)
  have old: "q \<noteq> Some (w_next w)" if "live q w" for q
    using that by (auto simp: live_def split: option.splits)
  then have "Some (w_next w) \<notin> set (owned w)" "Some (w_next w) \<notin> handlers w"
    using assms by (auto simp: monitors_ok_def heap_ok_def)
  then show ?thesis
    using assms unfolding eq
    by (auto simp: monitors_ok_def heap_ok_def fresh_req_def fcgx_of_def new_request_def live_def owned_def handlers_def
        split: option.splits)
qed

text \<open>Freeing an object that is not in the list changes nothing the list relies on.\<close>

lemma FreeMonitorObj_fresh:
  assumes "monitors_ok w" "fresh_req (pReqMsg m) w"
  shows "monitors_ok (FreeMonitorObj m w) \<and> (\<forall>q. live q w \<longrightarrow> q \<noteq> fcgx_of (pReqMsg m) \<longrightarrow> live q (FreeMonitorObj m w))"
proof -
  obtain a where a: "fcgx_of (pReqMsg m) = Some a" "w_heap w a \<noteq> None"
    using assms(2) by (auto simp: fresh_req_def live_def split: option.splits)
  then have eq: "FreeMonitorObj m w = w\<lparr>w_heap := (w_heap w)(a := None)\<rparr>"
    by (auto simp: FreeMonitorObj_def FreeReqMsg_def fcgx_of_def)
  have "q \<noteq> Some a" if "q \<in> set (owned w) \<or> q \<in> handlers w" for q
    using assms(2) a that by (auto simp: fresh_req_def)
  then show ?thesis
    using assms(1) unfolding eq a
    by (fastforce simp: monitors_ok_def heap_ok_def live_def owned_def handlers_def split: option.splits)
qed

section \<open>Updating and removing objects\<close>

lemma set_obj_ok:
  assumes "\<And>m. mkey (f m) = mkey m" "\<And>m. pReqMsg (f m) = pReqMsg m"
  shows "monitors_ok (set_obj i f w) = monitors_ok w" "live q (set_obj i f w) = live q w"
    "handlers (set_obj i f w) = handlers w" "owned (set_obj i f w) = owned w"
proof -
  let ?ms = "m_vecMonitors w"
  have k: "map g (?ms[i := f (?ms ! i)]) = map g ?ms" if "\<And>m. g (f m) = g m" for g :: "'a monitor_obj \<Rightarrow> 'c"
    by (cases "i < length ?ms") (simp_all add: that map_update list_update_same_conv list_update_beyond)
  show o: "owned (set_obj i f w) = owned w" by (simp add: owned_def set_obj_def k assms)
  show l: "live q (set_obj i f w) = live q w" for q by (simp add: live_def set_obj_def cong: option.case_cong)
  show h: "handlers (set_obj i f w) = handlers w" by (simp add: handlers_def set_obj_def)
  have "map mkey (m_vecMonitors (set_obj i f w)) = map mkey ?ms" by (simp add: set_obj_def k assms)
  then show "monitors_ok (set_obj i f w) = monitors_ok w"
    by (simp add: monitors_ok_def heap_ok_def o l h) (simp add: set_obj_def)
qed

lemma erase_first_nth:
  assumes "distinct (map k xs)" "i < length xs"
  shows "erase_first (\<lambda>y. k y = k (xs ! i)) xs = take i xs @ drop (Suc i) xs \<and>
    List.find (\<lambda>y. k y = k (xs ! i)) xs = Some (xs ! i)"
  using assms
proof (induction xs arbitrary: i)
  case Nil
  then show ?case by simp
next
  case (Cons x xs)
  show ?case
  proof (cases i)
    case 0
    then show ?thesis by simp
  next
    case (Suc j)
    with Cons.prems have "k x \<noteq> k (xs ! j)" by auto
    with Suc Cons show ?thesis by simp
  qed
qed

lemma IsSame_mkey: "IsSame m = (\<lambda>y. mkey y = mkey m)"
  by (auto simp: IsSame_def mkey_def)

lemma DelMonitorObj_eq:
  assumes "monitors_ok w" "i < length (m_vecMonitors w)"
  shows "DelMonitorObj i w = (FreeMonitorObj (m_vecMonitors w ! i) w)
    \<lparr>m_vecMonitors := take i (m_vecMonitors w) @ drop (Suc i) (m_vecMonitors w)\<rparr>"
  using erase_first_nth [of mkey "m_vecMonitors w" i] assms
  by (simp add: DelMonitorObj_def Let_def IsSame_mkey monitors_ok_def)

lemma distinct_delete_nth:
  assumes "distinct xs" "i < length xs"
  shows "distinct (take i xs @ drop (Suc i) xs)" "xs ! i \<notin> set (take i xs @ drop (Suc i) xs)"
    "set (take i xs @ drop (Suc i) xs) \<subseteq> set xs"
proof -
  have "distinct (take i xs @ xs ! i # drop (Suc i) xs)" using assms by (simp flip: id_take_nth_drop)
  then show "distinct (take i xs @ drop (Suc i) xs)" "xs ! i \<notin> set (take i xs @ drop (Suc i) xs)" by auto
  show "set (take i xs @ drop (Suc i) xs) \<subseteq> set xs" by (auto dest: in_set_takeD in_set_dropD)
qed

lemma DelMonitorObj_ok:
  assumes "monitors_ok w" "i < length (m_vecMonitors w)"
  shows "monitors_ok (DelMonitorObj i w) \<and> (\<forall>q. live q w \<longrightarrow> q \<notin> set (owned w) \<longrightarrow> live q (DelMonitorObj i w)) \<and>
    set (owned (DelMonitorObj i w)) \<subseteq> set (owned w)"
proof -
  let ?ms = "m_vecMonitors w" and ?p = "fcgx_of (pReqMsg (m_vecMonitors w ! i))"
  have i: "i < length (owned w)" "owned w ! i = ?p" using assms(2) by (simp_all add: owned_def)
  then have "?p \<in> set (owned w)" by (metis nth_mem)
  with assms(1) have "live ?p w" "?p \<notin> handlers w" by (auto simp: monitors_ok_def heap_ok_def)
  then obtain a where a: "?p = Some a" "w_heap w a \<noteq> None" "Some a \<notin> handlers w"
    by (cases ?p) (simp_all add: live_def)
  have eq: "DelMonitorObj i w = w\<lparr>w_heap := (w_heap w)(a := None), m_vecMonitors := take i ?ms @ drop (Suc i) ?ms\<rparr>"
    using a by (auto simp: DelMonitorObj_eq [OF assms] FreeMonitorObj_def FreeReqMsg_def fcgx_of_def)
  have own: "owned (DelMonitorObj i w) = take i (owned w) @ drop (Suc i) (owned w)"
    by (simp add: eq owned_def take_map drop_map)
  have keys: "distinct (map mkey (take i ?ms @ drop (Suc i) ?ms))"
    using distinct_delete_nth(1) [of "map mkey ?ms" i] assms by (simp add: monitors_ok_def take_map drop_map)
  have d: "distinct (owned w)" using assms(1) by (simp add: monitors_ok_def heap_ok_def)
  note o = distinct_delete_nth [OF d i(1), folded own, unfolded i(2) a(1)]
  have live: "live q (DelMonitorObj i w) = live q w" if "q \<noteq> Some a" for q
    using that by (auto simp: eq live_def split: option.split)
  have h: "handlers (DelMonitorObj i w) = handlers w" by (simp add: eq handlers_def)
  have "heap_ok (DelMonitorObj i w)"
    using assms(1) o a(3) unfolding heap_ok_def h monitors_ok_def by (metis disjoint_iff live subset_iff)
  moreover have "\<not> w_ub (DelMonitorObj i w)" "map mkey (m_vecMonitors (DelMonitorObj i w)) = map mkey (take i ?ms @ drop (Suc i) ?ms)"
    using assms(1) by (simp_all add: eq monitors_ok_def)
  moreover have "Some a \<in> set (owned w)" using \<open>?p \<in> set (owned w)\<close> a(1) by simp
  moreover have "live q (DelMonitorObj i w)" if "live q w" "q \<notin> set (owned w)" for q
    using live [of q] that \<open>Some a \<in> set (owned w)\<close> by metis
  ultimately show ?thesis
    using keys o(3) by (simp add: monitors_ok_def)
qed

section \<open>The handlers\<close>

text \<open>
  \<open>keeps w w'\<close>: from a good state the step leads to a good state, every object that was live and not
  owned by the list is live still, the handlers' table is the same.
\<close>

definition keeps :: "('j, 'd) ft_world \<Rightarrow> ('j, 'd) ft_world \<Rightarrow> bool" where
  "keeps w w' \<longleftrightarrow> (monitors_ok w \<longrightarrow> monitors_ok w' \<and> handlers w' = handlers w \<and> set (owned w') \<subseteq> set (owned w) \<and>
     (\<forall>q. live q w \<longrightarrow> q \<notin> set (owned w) \<longrightarrow> live q w'))"

lemma keeps_refl [simp]: "keeps w w" by (simp add: keeps_def)

lemma keepsD:
  assumes "keeps w w'" "monitors_ok w"
  shows "monitors_ok w'" "handlers w' = handlers w" "q \<in> set (owned w') \<Longrightarrow> q \<in> set (owned w)"
    "live q w \<Longrightarrow> q \<notin> set (owned w) \<Longrightarrow> live q w'"
  using assms by (auto simp: keeps_def)

lemma keeps_trans:
  assumes "keeps w w'" "keeps w' w''"
  shows "keeps w w''"
  unfolding keeps_def
proof (intro impI conjI allI subsetI)
  assume ok: "monitors_ok w"
  note a = keepsD [OF assms(1) ok]
  note b = keepsD [OF assms(2) a(1)]
  show "monitors_ok w''" "handlers w'' = handlers w" using a b by simp_all
  show "q \<in> set (owned w)" if "q \<in> set (owned w'')" for q using a(3) b(3) that by blast
  show "live q w''" if "live q w" "q \<notin> set (owned w)" for q using a(3,4) b(4) that by blast
qed

lemma same_heap_keeps: "same_heap w w' \<Longrightarrow> keeps w w'"
  by (simp add: keeps_def same_heap_ok same_heap_live) (simp add: same_heap_def owned_def handlers_def)

lemma set_obj_keeps:
  assumes "\<And>m. mkey (f m) = mkey m" "\<And>m. pReqMsg (f m) = pReqMsg m"
  shows "keeps w (set_obj i f w)"
  by (simp add: keeps_def set_obj_ok assms)

lemma DelMonitorObj_keeps: "i < length (m_vecMonitors w) \<Longrightarrow> keeps w (DelMonitorObj i w)"
  using DelMonitorObj_ok [of w i] tame_DelMonitorObj [OF tame_refl, of w i]
  by (simp add: keeps_def handlers_def tame_def)

lemma Remove_Del_keeps: "i < length (m_vecMonitors w) \<Longrightarrow> keeps w (DelMonitorObj i (fst (RemoveFromDB E m w)))"
  by (rule keeps_trans [OF same_heap_keeps [OF same_heap_ops(3)] DelMonitorObj_keeps]) simp

lemma PushUnFreezeReq_same: "same_heap w (fst (PushUnFreezeReq E i w))"
  by (auto simp: PushUnFreezeReq_def Let_def alloc_def same_heap_def case_prod_unfold)

lemma alloc_push_same: "same_heap w (fst (alloc n w)\<lparr>w_comm := PushReqMsgQueue p (w_comm w)\<rparr>)"
  by (simp add: same_heap_def alloc_def case_prod_unfold)

lemma PushQueryStatusReq_keeps: "i < length (m_vecMonitors w) \<Longrightarrow> keeps w (fst (PushQueryStatusReq E i w))"
  by (auto simp: PushQueryStatusReq_def Let_def case_prod_unfold Remove_Del_keeps
      intro: same_heap_keeps alloc_push_same split: query_plan.split)

lemma HandleUnFreezing_keeps:
  "i < length (m_vecMonitors w) \<Longrightarrow> keeps w (fst (HandleUnFreezingMonitorObj E i b w))"
  by (auto simp: HandleUnFreezingMonitorObj_def Let_def Remove_Del_keeps mkey_def
      intro!: keeps_trans [OF same_heap_keeps [OF same_heap_ops(5)] set_obj_keeps])

lemma HandleQueryStatus_keeps:
  "i < length (m_vecMonitors w) \<Longrightarrow> keeps w (fst (HandleQueryStatusMonitorObj E i q w))"
  by (auto simp: HandleQueryStatusMonitorObj_def Let_def case_prod_unfold Remove_Del_keeps mkey_def
      intro!: keeps_trans [OF same_heap_keeps [OF PushUnFreezeReq_same] set_obj_keeps] set_obj_keeps)

lemma HandleFreezed_keeps:
  assumes "i < length (m_vecMonitors w)"
  shows "keeps w (fst (HandleFreezedMonitorObj E i w))"
proof -
  let ?w = "fst (GetTimeSec E w)"
  have t: "keeps w ?w" by (simp add: same_heap_keeps)
  have p: "keeps w (fst (PushQueryStatusReq E i ?w))"
    using keeps_trans [OF t PushQueryStatusReq_keeps] assms by simp
  have "keeps w (set_obj i (\<lambda>ob. ob\<lparr>uiStatus := MONITOR_STATUS_GETSTATUSING\<rparr>) (fst (PushQueryStatusReq E i ?w)))"
    by (rule keeps_trans [OF p set_obj_keeps]) (simp_all add: mkey_def)
  moreover have "keeps w (DelMonitorObj i (fst (RemoveFromDB E m ?w)))" for m
    using keeps_trans [OF t Remove_Del_keeps] assms by simp
  ultimately show ?thesis
    using t p by (auto simp: HandleFreezedMonitorObj_def Let_def case_prod_unfold)
qed

lemma GetMonitorObj_bound: "GetMonitorObj t inst db w = Some i \<Longrightarrow> i < length (m_vecMonitors w)"
  using find_index_Some by (fastforce simp: GetMonitorObj_def)

lemma process_rsp_keeps: "keeps w (process_rsp E p w)"
  by (auto simp: process_rsp_def ProccessUnFreezeRsp_def ProcessQueryStatusRsp_def
      intro!: HandleUnFreezing_keeps HandleQueryStatus_keeps dest: GetMonitorObj_bound split: prod.split option.split)

section \<open>The loops and the entry points\<close>

lemma ProcessInternalRsps_keeps: "keeps w (ProcessInternalRsps E w)"
proof (induction E w rule: ProcessInternalRsps.induct)
  case (1 E w)
  obtain c r where pop: "PopRspInternalMsgQueue (w_comm w) = (c, r)" by force
  then have pop_c: "keeps w (w\<lparr>w_comm := c\<rparr>)"
    using same_heap_keeps [OF same_heap_ops(9) [of w]] by simp
  show ?case
  proof (cases r)
    case None
    with pop pop_c show ?thesis by (subst ProcessInternalRsps.simps) simp
  next
    case (Some p)
    have "keeps w (ProcessInternalRsps E (process_rsp E p (w\<lparr>w_comm := c\<rparr>)))"
      by (rule keeps_trans [OF keeps_trans [OF pop_c process_rsp_keeps] 1 [OF pop [symmetric] Some]])
    with pop Some show ?thesis by (subst ProcessInternalRsps.simps) simp
  qed
qed

lemma handle_loop_keeps: "keeps w (handle_loop E w)"
proof (induction E w rule: handle_loop.induct)
  case (1 E w)
  obtain w1 r where g: "GetHandleMonitorObj w = (w1, r)" by force
  then have w1: "keeps w w1"
    by (auto simp: GetHandleMonitorObj_def intro: same_heap_keeps split: if_splits)
  show ?case
  proof (cases r)
    case None
    with g w1 show ?thesis by (subst handle_loop.simps) simp
  next
    case (Some i)
    have "i < length (m_vecMonitors w1)" using GetHandle_Some g Some by fastforce
    then have "keeps w1 (if uiStatus (m_vecMonitors w1 ! i) = MONITOR_STATUS_FREEZED
        then fst (HandleFreezedMonitorObj E i w1) else w1)"
      by (simp add: HandleFreezed_keeps)
    from keeps_trans [OF keeps_trans [OF w1 this] 1 [OF g [symmetric] Some]] g Some
    show ?thesis by (subst handle_loop.simps) simp
  qed
qed

lemma HandleMonitorObjs_keeps: "keeps w (HandleMonitorObjs E w)"
  unfolding HandleMonitorObjs_def by (rule keeps_trans [OF ProcessInternalRsps_keeps handle_loop_keeps])

text \<open>
  The entry points may add an object. \<open>guards w w'\<close> is the relation they share with the handlers: a
  live object of somebody else stays live and stays somebody else's.
\<close>

definition guards :: "('j, 'd) ft_world \<Rightarrow> ('j, 'd) ft_world \<Rightarrow> bool" where
  "guards w w' \<longleftrightarrow> (monitors_ok w \<longrightarrow> monitors_ok w' \<and> handlers w' = handlers w \<and>
     (\<forall>q. live q w \<longrightarrow> q \<notin> set (owned w) \<longrightarrow> live q w' \<and> q \<notin> set (owned w')))"

lemma guardsD:
  assumes "guards w w'" "monitors_ok w"
  shows "monitors_ok w'" "handlers w' = handlers w"
    "live q w \<Longrightarrow> q \<notin> set (owned w) \<Longrightarrow> live q w'" "live q w \<Longrightarrow> q \<notin> set (owned w) \<Longrightarrow> q \<notin> set (owned w')"
  using assms by (auto simp: guards_def)

lemma guards_refl [simp]: "guards w w" by (simp add: guards_def)

lemma guards_trans: "guards w w' \<Longrightarrow> guards w' w'' \<Longrightarrow> guards w w''"
  unfolding guards_def by metis

lemma keeps_guards: "keeps w w' \<Longrightarrow> guards w w'"
  using keepsD [of w w'] unfolding guards_def by blast

text \<open>A request that is live and not the monitor's own.\<close>

definition foreign_req :: "'j request_msg \<Rightarrow> ('j, 'd) ft_world \<Rightarrow> bool" where
  "foreign_req r w \<longleftrightarrow> live (fcgx_of r) w \<and> fcgx_of r \<notin> set (owned w)"

lemma guards_foreign: "guards w w' \<Longrightarrow> monitors_ok w \<Longrightarrow> foreign_req r w \<Longrightarrow> foreign_req r w'"
  by (simp add: foreign_req_def guardsD)

lemma quiet_owned: "quiet w w' \<Longrightarrow> owned w' = owned w" "quiet w w' \<Longrightarrow> handlers w' = handlers w"
  by (simp_all add: quiet_def owned_def handlers_def)

lemma InitMonitorObj_ok:
  assumes "monitors_ok w" "live (fcgx_of r) w"
  shows "monitors_ok (fst (InitMonitorObj E inst db r k w)) \<and> (\<forall>q. live q w \<longrightarrow> live q (fst (InitMonitorObj E inst db r k w))) \<and>
    (\<forall>m. snd (InitMonitorObj E inst db r k w) = Inr m \<longrightarrow> fresh_req (pReqMsg m) (fst (InitMonitorObj E inst db r k w)) \<and> \<not> live (fcgx_of (pReqMsg m)) w)"
proof -
  let ?w = "fst (GetTimeSec E w)"
  have l: "live (fcgx_of r) ?w" using assms(2) by simp
  note c = CreateReqMsg_ok [of ?w]
  show ?thesis
    using assms c by (auto simp: InitMonitorObj_def Let_def case_prod_unfold read_head_live [OF l] split: option.splits)
qed

definition creates :: "('j, 'd, 's) ft_env \<Rightarrow> 'j request_msg \<Rightarrow> ('j, 'd) ft_world
    \<Rightarrow> ('j, 'd) ft_world \<times> (int + 'j monitor_obj) \<Rightarrow> bool" where
  "creates E r w res \<longleftrightarrow> (\<exists>e. res = (w, Inl e)) \<or> (\<exists>i d k. res = InitMonitorObj E i d r k w)"

lemma creates_rules:
  "creates E r w (w, Inl e)" "creates E r w (InitMonitorObj E i d r k w)"
  "(b \<Longrightarrow> creates E r w x) \<Longrightarrow> (\<not> b \<Longrightarrow> creates E r w y) \<Longrightarrow> creates E r w (if b then x else y)"
  by (auto simp: creates_def)

lemma creates_CreateMonitorObj: "creates E r w (CreateMonitorObj E r w)"
  unfolding CreateMonitorObj_def CreateDBMonitorObj_def CreateVSSMonitorObj_def CreateFSMonitorObj_def
    CreateThirdPartyMonitorObj_def CreateAppMonitorObj_def case_prod_unfold
  by (intro creates_rules)

lemma CreateMonitorObj_cases:
  obtains e where "CreateMonitorObj E r w = (w, Inl e)"
  | i d k where "CreateMonitorObj E r w = InitMonitorObj E i d r k w"
  using creates_CreateMonitorObj [of E r w] unfolding creates_def by blast

lemma CreateMonitorObj_ok:
  assumes "monitors_ok w" "live (fcgx_of r) w"
  shows "monitors_ok (fst (CreateMonitorObj E r w)) \<and> (\<forall>q. live q w \<longrightarrow> live q (fst (CreateMonitorObj E r w))) \<and>
    (\<forall>m. snd (CreateMonitorObj E r w) = Inr m \<longrightarrow> fresh_req (pReqMsg m) (fst (CreateMonitorObj E r w)) \<and> \<not> live (fcgx_of (pReqMsg m)) w)"
proof (cases rule: CreateMonitorObj_cases [of E r w])
  case (1 e)
  with assms show ?thesis by simp
next
  case (2 i d k)
  with InitMonitorObj_ok [OF assms] show ?thesis by metis
qed

lemma CreateMonitorObj_guards:
  "live (fcgx_of r) w \<Longrightarrow> guards w (fst (CreateMonitorObj E r w))"
  using CreateMonitorObj_ok [of w r E] by (simp add: guards_def quiet_owned [OF quiet_CreateMonitorObj])

lemma SaveToDB_same: "live (fcgx_of (pReqMsg m)) w \<Longrightarrow> same_heap w (fst (SaveToDB E m w))"
  by (simp add: SaveToDB_def case_prod_unfold read_head_live same_heap_trans [OF same_heap_ops(4) same_heap_ops(8)])

lemma FreeMonitorObj_guards:
  assumes "guards w0 w" "monitors_ok w \<Longrightarrow> fresh_req (pReqMsg m) w"
    and "\<And>q. live q w0 \<Longrightarrow> q \<noteq> fcgx_of (pReqMsg m)"
  shows "guards w0 (FreeMonitorObj m w)"
  unfolding guards_def
proof (intro impI conjI allI)
  assume ok0: "monitors_ok w0"
  note g = guardsD [OF assms(1) ok0]
  note f = FreeMonitorObj_fresh [OF g(1) assms(2) [OF g(1)]]
  show "monitors_ok (FreeMonitorObj m w)" using f by blast
  show "handlers (FreeMonitorObj m w) = handlers w0" using g(2) by (simp add: quiet_owned [OF quiet_ops(5)])
  show "live q (FreeMonitorObj m w)" if "live q w0" "q \<notin> set (owned w0)" for q
    using f g(3) that assms(3) by blast
  show "q \<notin> set (owned (FreeMonitorObj m w))" if "live q w0" "q \<notin> set (owned w0)" for q
    using g(4) that by (simp add: quiet_owned [OF quiet_ops(5)])
qed

end
