(* ===== verification/FreezeEntry.thy ===== *)
theory FreezeEntry
  imports FreezeSafe
begin

text \<open>
  The entry points of the freeze monitor keep its invariant: a request handed in by a thread is
  read while it is alive and never freed by the monitor, and each object the monitor creates is
  either in its list or released.
\<close>

lemma keeps_fresh: "keeps w w' \<Longrightarrow> monitors_ok w \<Longrightarrow> fresh_req r w \<Longrightarrow> fresh_req r w'"
  using keepsD [of w w'] unfolding fresh_req_def by metis

lemma guards_same: "guards w w' \<Longrightarrow> same_heap w' w'' \<Longrightarrow> guards w w''"
  by (rule guards_trans [OF _ keeps_guards [OF same_heap_keeps]])

lemma set_obj_fresh:
  "(\<And>m. mkey (f m) = mkey m) \<Longrightarrow> (\<And>m. pReqMsg (f m) = pReqMsg m) \<Longrightarrow> fresh_req r (set_obj i f w) = fresh_req r w"
  by (simp add: fresh_req_def set_obj_ok)

lemma AddMonitorObj_cases:
  obtains (old) i f where "AddMonitorObj m w = (set_obj i f w, MP_FAILED)"
      "\<And>o'. mkey (f o') = mkey o'" "\<And>o'. pReqMsg (f o') = pReqMsg o'"
  | (new) m' where "AddMonitorObj m w = (w\<lparr>m_vecMonitors := m_vecMonitors w @ [m']\<rparr>, MP_SUCCESS)"
      "mkey m' = mkey m" "pReqMsg m' = pReqMsg m" "mkey m \<notin> mkey ` set (m_vecMonitors w)"
proof (cases "IsExistInList (m\<lparr>ulBeginTime := ulBeginTime m + DELAY_UNFREEZE_TIME\<rparr>) w")
  case True
  let ?f = "\<lambda>ob. ob\<lparr>uiStatus := uiStatus m, ulBeginTime := ulBeginTime m + DELAY_UNFREEZE_TIME, uiLoopTime := uiLoopTime m\<rparr>"
  from True obtain x where "x \<in> set (m_vecMonitors w)" "mkey x = mkey m"
    by (auto simp: IsExistInList_def IsSame_mkey list_ex_iff) (auto simp: mkey_def)
  then obtain i where "GetMonitorObj (iAppType m) (strInstanceName m) (strDBName m) w = Some i"
    by (cases "GetMonitorObj (iAppType m) (strInstanceName m) (strDBName m) w")
      (force simp: GetMonitorObj_def find_index_None mkey_def)+
  with True have "AddMonitorObj m w = (set_obj i ?f w, MP_FAILED)" by (simp add: AddMonitorObj_def Let_def)
  then show thesis by (rule old) (simp_all add: mkey_def)
next
  case False
  show thesis
  proof (rule new)
    show "AddMonitorObj m w = (w\<lparr>m_vecMonitors := m_vecMonitors w @ [m\<lparr>ulBeginTime := ulBeginTime m + DELAY_UNFREEZE_TIME\<rparr>]\<rparr>, MP_SUCCESS)"
      using False by (simp add: AddMonitorObj_def Let_def)
    show "mkey m \<notin> mkey ` set (m_vecMonitors w)"
      using False by (auto simp: IsExistInList_def IsSame_mkey list_ex_iff) (auto simp: mkey_def)
  qed (simp_all add: mkey_def)
qed

lemma append_obj_guards:
  assumes "guards w0 w" "monitors_ok w \<Longrightarrow> fresh_req (pReqMsg m) w" "\<not> live (fcgx_of (pReqMsg m)) w0"
    and "mkey m \<notin> mkey ` set (m_vecMonitors w)"
  shows "guards w0 (w\<lparr>m_vecMonitors := m_vecMonitors w @ [m]\<rparr>)" (is "guards w0 ?w")
  unfolding guards_def
proof (intro impI conjI allI)
  assume ok0: "monitors_ok w0"
  note g = guardsD [OF assms(1) ok0]
  note f = assms(2) [OF g(1)]
  have o: "owned ?w = owned w @ [fcgx_of (pReqMsg m)]" and h: "handlers ?w = handlers w" and l: "live q ?w = live q w" for q
    by (simp_all add: owned_def handlers_def live_def cong: option.case_cong)
  show "handlers ?w = handlers w0" using g(2) h by simp
  show "monitors_ok ?w" using g(1) f assms(4) by (auto simp: monitors_ok_def heap_ok_def o h l fresh_req_def)
  show "live q ?w" if "live q w0" "q \<notin> set (owned w0)" for q using that g(3) l by blast
  show "q \<notin> set (owned ?w)" if "live q w0" "q \<notin> set (owned w0)" for q using that g(4) o assms(3) by auto
qed

lemma MonitorSingleFreezeOper_guards:
  assumes "live (fcgx_of r) w"
  shows "guards w (MonitorSingleFreezeOper E r w)"
proof -
  let ?w1 = "fst (CreateMonitorObj E r w)"
  have g1: "guards w ?w1" by (rule CreateMonitorObj_guards [OF assms])
  have main: "guards w (case AddMonitorObj m (fst (SaveToDB E m ?w1)) of (w, iRet) \<Rightarrow> (if iRet \<noteq> MP_SUCCESS then FreeMonitorObj m w else w))"
    if m: "snd (CreateMonitorObj E r w) = Inr m" and ok: "monitors_ok w" for m
  proof -
    let ?w2 = "fst (SaveToDB E m ?w1)"
    have f1: "fresh_req (pReqMsg m) ?w1" and nl: "\<not> live (fcgx_of (pReqMsg m)) w"
      using CreateMonitorObj_ok [OF ok assms, of E] m by auto
    have s: "same_heap ?w1 ?w2" using f1 by (simp add: SaveToDB_same fresh_req_def)
    have g2: "guards w ?w2" by (rule guards_same [OF g1 s])
    have f2: "fresh_req (pReqMsg m) ?w2" using f1 by (simp add: same_heap_fresh [OF s])
    show ?thesis
    proof (cases rule: AddMonitorObj_cases [of m ?w2])
      case (old i f)
      have "guards w (FreeMonitorObj m (set_obj i f ?w2))"
        by (rule FreeMonitorObj_guards [OF guards_trans [OF g2 keeps_guards [OF set_obj_keeps]]])
          (use f2 nl in \<open>auto simp: old set_obj_fresh\<close>)
      with old(1) show ?thesis by simp
    next
      case (new m')
      have "guards w (?w2\<lparr>m_vecMonitors := m_vecMonitors ?w2 @ [m']\<rparr>)"
        by (rule append_obj_guards [OF g2]) (use f2 nl new in auto)
      with new(1) show ?thesis by simp
    qed
  qed
  have "guards w (case AddMonitorObj m (fst (SaveToDB E m ?w1)) of (w, iRet) \<Rightarrow> (if iRet \<noteq> MP_SUCCESS then FreeMonitorObj m w else w))"
    if "snd (CreateMonitorObj E r w) = Inr m" for m
    using main [OF that] by (simp add: guards_def)
  with g1 show ?thesis
    by (auto simp: MonitorSingleFreezeOper_def split_beta split: sum.split)
qed

lemma UpdateSingleFreezeOper_guards:
  assumes "live (fcgx_of r) w"
  shows "guards w (UpdateSingleFreezeOper E rsp r w)"
proof -
  let ?w1 = "fst (CreateMonitorObj E r w)"
  have g1: "guards w ?w1" by (rule CreateMonitorObj_guards [OF assms])
  have free: "guards w (FreeMonitorObj m w2)"
    if m: "snd (CreateMonitorObj E r w) = Inr m" and k: "keeps ?w1 w2" for m w2
  proof (cases "monitors_ok w")
    case True
    have f1: "fresh_req (pReqMsg m) ?w1" and nl: "\<not> live (fcgx_of (pReqMsg m)) w"
      using CreateMonitorObj_ok [OF True assms, of E] m by auto
    have "fresh_req (pReqMsg m) w2" using keeps_fresh [OF k guardsD(1) [OF g1 True] f1] .
    with nl show ?thesis
      by (intro FreeMonitorObj_guards [OF guards_trans [OF g1 keeps_guards [OF k]]]) auto
  next
    case False
    then show ?thesis by (simp add: guards_def)
  qed
  have inner: "keeps ?w1
      (if IsFreezeRequest r
       then if m_lRetCode rsp = ERROR_COMMON_DB_USERPWD_WRONG then DelMonitorObj i (fst (RemoveFromDB E x ?w1))
            else (case GetTimeSec E ?w1 of (w, now) \<Rightarrow> set_obj i (\<lambda>ob. ob\<lparr>ulBeginTime := now\<rparr>) w)
       else if m_lRetCode rsp = MP_SUCCESS then DelMonitorObj i (fst (RemoveFromDB E x ?w1)) else ?w1)"
    if "i < length (m_vecMonitors ?w1)" for i x
    using that by (auto simp: Remove_Del_keeps case_prod_unfold mkey_def
        intro!: keeps_trans [OF same_heap_keeps [OF same_heap_ops(2)] set_obj_keeps])
  show ?thesis
    using g1 free [OF _ keeps_refl] free [OF _ inner]
    by (auto simp: UpdateSingleFreezeOper_def case_prod_unfold Let_def dest: GetMonitorObj_bound split: sum.split option.split)
qed

text \<open>The two public operations, over the disks of a file system request or directly.\<close>

lemma per_disk_guards:
  assumes "\<And>r w. live (fcgx_of r) w \<Longrightarrow> guards w (oper r w)"
  shows "foreign_req r w \<Longrightarrow> guards w (fst (per_disk E oper ds r w)) \<and>
    fcgx_of (fst (snd (per_disk E oper ds r w))) = fcgx_of r"
proof (induction ds arbitrary: r w)
  case Nil
  then show ?case by simp
next
  case (Cons d ds)
  show ?case
  proof (cases "env_parse E (c_str (disk_json d))")
    case None
    then show ?thesis by simp
  next
    case (Some j)
    let ?r = "r\<lparr>m_msgBody := j\<rparr>"
    have r: "fcgx_of ?r = fcgx_of r" by (simp add: fcgx_of_def)
    then have fr: "foreign_req ?r w" using Cons.prems by (simp add: foreign_req_def)
    then have g: "guards w (oper ?r w)" by (intro assms) (simp add: foreign_req_def)
    show ?thesis
    proof (cases "monitors_ok w")
      case True
      from Cons.IH [OF guards_foreign [OF g True fr]] Some r guards_trans [OF g]
      show ?thesis by (simp add: Let_def)
    next
      case False
      have "fcgx_of (fst (snd (per_disk E oper ds r' w'))) = fcgx_of r'" for r' w'
        by (induction ds arbitrary: r' w') (auto simp: Let_def fcgx_of_def split: option.split)
      with False Some r show ?thesis by (simp add: guards_def Let_def)
    qed
  qed
qed

lemma freeze_oper_guards:
  assumes "\<And>r w. live (fcgx_of r) w \<Longrightarrow> guards w (oper r w)" "foreign_req r w"
  shows "guards w (fst (freeze_oper E oper r w)) \<and> fcgx_of (snd (freeze_oper E oper r w)) = fcgx_of r"
  using per_disk_guards [of oper r w, OF assms] assms
  by (auto simp: freeze_oper_def case_prod_unfold foreign_req_def fcgx_of_def)

lemma MonitorFreezeOper_guards:
  "foreign_req r w \<Longrightarrow> guards w (fst (MonitorFreezeOper E r w)) \<and> fcgx_of (snd (MonitorFreezeOper E r w)) = fcgx_of r"
  unfolding MonitorFreezeOper_def by (rule freeze_oper_guards [OF MonitorSingleFreezeOper_guards])

lemma UpdateFreezeOper_guards:
  "foreign_req r w \<Longrightarrow> guards w (fst (UpdateFreezeOper E rsp r w)) \<and> fcgx_of (snd (UpdateFreezeOper E rsp r w)) = fcgx_of r"
  unfolding UpdateFreezeOper_def by (rule freeze_oper_guards [OF UpdateSingleFreezeOper_guards])

section \<open>Sequences of operations\<close>

text \<open>
  What the three threads do to the monitor, in any order: a pass of its own thread, a freeze or
  unfreeze request received, a response about to be sent; and the rest of the agent, which moves
  messages between the queues and fills a handler's FastCGI object with the next request.
\<close>

datatype 'j ft_event =
    Pass
  | Received "'j request_msg"
  | Answered "'j request_msg" "'j response_msg"
  | Queues "'j comm"
  | Accepted addr "string list"

fun ft_step :: "('j, 'd, 's) ft_env \<Rightarrow> 'j ft_event \<Rightarrow> ('j, 'd) ft_world \<Rightarrow> ('j, 'd) ft_world" where
  "ft_step E Pass w = HandleMonitorObjs E w"
| "ft_step E (Received r) w = fst (MonitorFreezeOper E r w)"
| "ft_step E (Answered r rsp) w = fst (UpdateFreezeOper E rsp r w)"
| "ft_step E (Queues c) w = w\<lparr>w_comm := c\<rparr>"
| "ft_step E (Accepted a envp) w = w\<lparr>w_heap := (w_heap w)(a \<mapsto> envp)\<rparr>"

text \<open>
  The threads hand in requests whose FastCGI object is one of the table's, and the table keeps its
  objects.
\<close>

fun event_ok :: "'j ft_event \<Rightarrow> ('j, 'd) ft_world \<Rightarrow> bool" where
  "event_ok Pass w \<longleftrightarrow> True"
| "event_ok (Received r) w \<longleftrightarrow> fcgx_of r \<in> handlers w"
| "event_ok (Answered r rsp) w \<longleftrightarrow> fcgx_of r \<in> handlers w"
| "event_ok (Queues c) w \<longleftrightarrow> map pFcgxReq (m_ReqHandlerTable c) = map pFcgxReq (m_ReqHandlerTable (w_comm w))"
| "event_ok (Accepted a envp) w \<longleftrightarrow> Some a \<in> handlers w"

fun ft_run :: "('j, 'd, 's) ft_env \<Rightarrow> 'j ft_event list \<Rightarrow> ('j, 'd) ft_world \<Rightarrow> ('j, 'd) ft_world" where
  "ft_run E [] w = w"
| "ft_run E (e # es) w = ft_run E es (ft_step E e w)"

lemma handlers_foreign: "monitors_ok w \<Longrightarrow> fcgx_of r \<in> handlers w \<Longrightarrow> foreign_req r w"
  by (auto simp: monitors_ok_def heap_ok_def foreign_req_def)

lemma ft_step_ok:
  assumes "monitors_ok w" "event_ok e w"
  shows "monitors_ok (ft_step E e w) \<and> handlers (ft_step E e w) = handlers w"
proof (cases e)
  case Pass
  then show ?thesis using keepsD(1,2) [OF HandleMonitorObjs_keeps assms(1), of E] by simp
next
  case (Received r)
  with assms have "foreign_req r w" by (simp add: handlers_foreign)
  from guardsD(1,2) [OF conjunct1 [OF MonitorFreezeOper_guards [OF this]] assms(1), of E] Received
  show ?thesis by simp
next
  case (Answered r rsp)
  with assms have "foreign_req r w" by (simp add: handlers_foreign)
  from guardsD(1,2) [OF conjunct1 [OF UpdateFreezeOper_guards [OF this]] assms(1), of E rsp] Answered
  show ?thesis by simp
next
  case (Queues c)
  with assms(2) have "handlers (w\<lparr>w_comm := c\<rparr>) = handlers w" by (simp add: handlers_def del: set_map)
  with assms(1) Queues show ?thesis
    by (simp add: monitors_ok_def heap_ok_def owned_def live_def cong: option.case_cong)
next
  case (Accepted a envp)
  let ?w = "w\<lparr>w_heap := (w_heap w)(a \<mapsto> envp)\<rparr>"
  have "live q w \<Longrightarrow> live q ?w" for q by (auto simp: live_def split: option.splits)
  moreover have "owned ?w = owned w" "handlers ?w = handlers w" by (simp_all add: owned_def handlers_def)
  ultimately show ?thesis using assms(1) Accepted by (simp add: monitors_ok_def heap_ok_def)
qed

text \<open>A run all of whose events are in order where they happen.\<close>

fun run_ok :: "('j, 'd, 's) ft_env \<Rightarrow> 'j ft_event list \<Rightarrow> ('j, 'd) ft_world \<Rightarrow> bool" where
  "run_ok E [] w \<longleftrightarrow> True"
| "run_ok E (e # es) w \<longleftrightarrow> event_ok e w \<and> run_ok E es (ft_step E e w)"

lemma ft_run_ok: "monitors_ok w \<Longrightarrow> run_ok E es w \<Longrightarrow> monitors_ok (ft_run E es w)"
  by (induction es arbitrary: w) (simp_all add: ft_step_ok)

end
