(* ===== verification/FreezeRoutes.thy ===== *)
theory FreezeRoutes
  imports FreezeEntry
begin

text \<open>
  What the handlers do, state by state: the decision on a frozen object, the way a response finds
  its object again, the retries, and the pass over the list.
\<close>

section \<open>The message of an object comes back to it\<close>

lemma familiesD:
  "families r = [DBs] \<Longrightarrow> IsDB2OrOracleRequest r"
  "families r = [VSS] \<Longrightarrow> \<not> IsDB2OrOracleRequest r \<and> IsVSSRequest r"
  "families r = [FS] \<Longrightarrow> \<not> IsDB2OrOracleRequest r \<and> \<not> IsVSSRequest r \<and> IsFSRequest r"
  "families r = [ThirdParty] \<Longrightarrow> \<not> IsDB2OrOracleRequest r \<and> \<not> IsVSSRequest r \<and> \<not> IsFSRequest r \<and> IsThirdPartyRequest r"
  "families r = [App] \<Longrightarrow> \<not> IsDB2OrOracleRequest r \<and> \<not> IsVSSRequest r \<and> \<not> IsFSRequest r \<and> \<not> IsThirdPartyRequest r \<and> IsAppRequest r"
  by (auto simp: families_def split: if_splits)

text \<open>
  An object is \<open>routed\<close> when any request of its family with its body has its instance and database
  name.
\<close>

definition routed :: "'j json_api \<Rightarrow> 'j monitor_obj \<Rightarrow> bool" where
  "routed J m \<longleftrightarrow> iAppType m \<in> set supported \<and>
     (\<forall>r. families r = [type_family (iAppType m)] \<and> m_msgBody r = m_msgBody (pReqMsg m) \<longrightarrow>
        GetRequestInstanceName J r [] = (MP_SUCCESS, strInstanceName m) \<and>
        GetRequestDbName J r [] = (MP_SUCCESS, strDBName m))"

lemma freeze_url: "IsFreezeRequest r \<Longrightarrow> GetProcURL r \<in> set freeze_urls"
  by (auto simp: IsFreezeRequest_def freeze_urls_def)

lemma freeze_request_type:
  assumes "IsFreezeRequest r"
  shows "GetRequestAppType r \<in> set supported" "families r = [type_family (GetRequestAppType r)]"
  using bspec [OF freeze_urls_types freeze_url [OF assms]] families_url [of r]
  by (simp_all add: GetRequestAppType_def)

lemma InitMonitorObj_fields:
  assumes "InitMonitorObj E inst db r k w = (w', Inr m)"
  shows "strInstanceName m = inst" "strDBName m = db" "iAppType m = GetRequestAppType r"
    "m_msgBody (pReqMsg m) = m_msgBody r" "uiStatus m = MONITOR_STATUS_FREEZED" "ulBeginTime m = env_clock E (w_reads w)"
  using assms
  by (auto simp: InitMonitorObj_def Let_def case_prod_unfold GetTimeSec_def CreateReqMsg_def new_request_def
      split: option.splits if_splits)

lemma CreateMonitorObj_routed:
  assumes "IsFreezeRequest r" "CreateMonitorObj E r w = (w', Inr m)"
  shows "routed (env_json E) m"
proof -
  note t = freeze_request_type [OF assms(1)]
  have "\<exists>i d k. CreateMonitorObj E r w = InitMonitorObj E i d r k w"
    using creates_CreateMonitorObj [of E r w] assms(2) by (auto simp: creates_def)
  then have f: "iAppType m = GetRequestAppType r" "m_msgBody (pReqMsg m) = m_msgBody r"
    using InitMonitorObj_fields(3,4) assms(2) by metis+
  have "GetRequestInstanceName (env_json E) q [] = (MP_SUCCESS, strInstanceName m) \<and>
        GetRequestDbName (env_json E) q [] = (MP_SUCCESS, strDBName m)"
    if q: "families q = families r" "m_msgBody q = m_msgBody r" for q
  proof (cases "type_family (GetRequestAppType r)")
    case DBs
    then show ?thesis
      using assms(2) t(2) q familiesD(1) [of r] familiesD(1) [of q]
      by (auto simp: CreateMonitorObj_def CreateDBMonitorObj_def GetRequestInstanceName_def GetRequestDbName_def
          InitMonitorObj_fields(1,2) split: if_splits prod.splits)
  next
    case VSS
    then show ?thesis
      using assms(2) t(2) q familiesD(2) [of r] familiesD(2) [of q]
      by (auto simp: CreateMonitorObj_def CreateVSSMonitorObj_def GetRequestInstanceName_def GetRequestDbName_def
          InitMonitorObj_fields(1,2))
  next
    case FS
    then show ?thesis
      using assms(2) t(2) q familiesD(3) [of r] familiesD(3) [of q]
      by (auto simp: CreateMonitorObj_def CreateFSMonitorObj_def GetRequestInstanceName_def GetRequestDbName_def
          InitMonitorObj_fields(1,2) split: if_splits prod.splits)
  next
    case ThirdParty
    then show ?thesis
      using assms(2) t(2) q familiesD(4) [of r] familiesD(4) [of q]
      by (auto simp: CreateMonitorObj_def CreateThirdPartyMonitorObj_def GetRequestInstanceName_def GetRequestDbName_def
          InitMonitorObj_fields(1,2) split: if_splits prod.splits)
  next
    case App
    then show ?thesis
      using assms(2) t(2) q familiesD(5) [of r] familiesD(5) [of q]
      by (auto simp: CreateMonitorObj_def CreateAppMonitorObj_def GetRequestInstanceName_def GetRequestDbName_def
          InitMonitorObj_fields(1,2))
  qed
  then show ?thesis using t f by (simp add: routed_def)
qed

lemma find_index_key:
  assumes "distinct (map k xs)" "i < length xs"
  shows "find_index (\<lambda>x. k x = k (xs ! i)) xs = Some i"
  using assms
proof (induction xs arbitrary: i)
  case Nil
  then show ?case by simp
next
  case (Cons x xs)
  show ?case
  proof (cases i)
    case 0
    then show ?thesis by simp
  next
    case (Suc j)
    with Cons.prems have "k x \<noteq> k (xs ! j)" by auto
    with Suc Cons show ?thesis by simp
  qed
qed

lemma GetMonitorObj_key:
  assumes "distinct (map mkey (m_vecMonitors w))" "i < length (m_vecMonitors w)" "m = m_vecMonitors w ! i"
  shows "GetMonitorObj (iAppType m) (strInstanceName m) (strDBName m) w = Some i"
proof -
  have eq: "(\<lambda>x. mkey x = mkey m) = (\<lambda>x. iAppType m = iAppType x \<and> c_str (strInstanceName m) = c_str (strInstanceName x) \<and>
      c_str (strDBName m) = c_str (strDBName x))"
    by (auto simp: mkey_def)
  show ?thesis
    unfolding GetMonitorObj_def eq [symmetric] using find_index_key [OF assms(1,2)] by (simp only: assms(3))
qed

lemma SetQueryParam_procURL [simp]: "m_procURL (SetQueryParam q u) = m_procURL u"
  by (simp add: SetQueryParam_def)

text \<open>Where a response with URL \<open>url\<close> and the object's body is delivered.\<close>

lemma routed_target:
  assumes "routed J m" "families r = [type_family (iAppType m)]" "m_msgBody r = m_msgBody (pReqMsg m)"
    "distinct (map mkey (m_vecMonitors w))" "i < length (m_vecMonitors w)" "mkey (m_vecMonitors w ! i) = mkey m"
    "GetRequestAppType r = iAppType m"
  shows "GetRequestInstanceName J r [] = (MP_SUCCESS, strInstanceName m)" "GetRequestDbName J r [] = (MP_SUCCESS, strDBName m)"
    "GetMonitorObj (GetRequestAppType r) (strInstanceName m) (strDBName m) w = Some i"
proof -
  show "GetRequestInstanceName J r [] = (MP_SUCCESS, strInstanceName m)" "GetRequestDbName J r [] = (MP_SUCCESS, strDBName m)"
    using assms(1-3) by (simp_all add: routed_def)
  have "GetMonitorObj (iAppType (m_vecMonitors w ! i)) (strInstanceName (m_vecMonitors w ! i)) (strDBName (m_vecMonitors w ! i)) w = Some i"
    using GetMonitorObj_key [OF assms(4,5) refl] .
  with assms(6,7) show "GetMonitorObj (GetRequestAppType r) (strInstanceName m) (strDBName m) w = Some i"
    by (simp add: GetMonitorObj_def mkey_def)
qed

lemma message_fields [simp]:
  "GetProcURL (query_msg u q m) = u" "m_msgBody (query_msg u q m) = m_msgBody (pReqMsg m)"
  "fcgx_of (query_msg u q m) = fcgx_of (pReqMsg m)"
  "GetProcURL (retarget u meth r) = u" "m_msgBody (retarget u meth r) = m_msgBody r"
  "fcgx_of (retarget u meth r) = fcgx_of r"
  by (simp_all add: query_msg_def retarget_def SetProcURL_def Let_def fcgx_of_def)

lemma url_kind:
  "IsUnFreezeRequest r = IsUnFreezeRequest (url_req (GetProcURL r))"
  "IsQueryStatusRequest r = IsQueryStatusRequest (url_req (GetProcURL r))"
  by (simp_all add: IsUnFreezeRequest_def IsQueryStatusRequest_def url_req_def)

lemma routed_urls:
  assumes "routed J m"
  shows "url_app_type (GetQueryStatusUrl (iAppType m)) = iAppType m" "url_app_type (GetUnFreezeUrl (iAppType m)) = iAppType m"
    "families (url_req (GetQueryStatusUrl (iAppType m))) = [type_family (iAppType m)]"
    "families (url_req (GetUnFreezeUrl (iAppType m))) = [type_family (iAppType m)]"
    "IsQueryStatusRequest (url_req (GetQueryStatusUrl (iAppType m)))" "\<not> IsUnFreezeRequest (url_req (GetQueryStatusUrl (iAppType m)))"
    "IsUnFreezeRequest (url_req (GetUnFreezeUrl (iAppType m)))"
    "GetQueryStatusUrl (iAppType m) \<noteq> []" "GetUnFreezeUrl (iAppType m) \<noteq> []"
  using bspec [OF supported_urls, of "iAppType m"] assms by (simp_all add: routed_def)

text \<open>The answer to a status query and the answer to an unfreeze request reach the object that sent it.\<close>

definition query_answer :: "'j json_api \<Rightarrow> 'j response_msg \<Rightarrow> int" where
  "query_answer J rsp =
     (if m_lRetCode rsp = MP_SUCCESS \<and> fst (GetJsonInt32 J (m_msgJsonData rsp) DB_FREEZE_STATUS DB_UNKNOWN) = MP_SUCCESS
      then snd (GetJsonInt32 J (m_msgJsonData rsp) DB_FREEZE_STATUS DB_UNKNOWN) else DB_UNKNOWN)"

lemma query_answer_delivered:
  assumes "routed (env_json E) m" "distinct (map mkey (m_vecMonitors w))" "i < length (m_vecMonitors w)"
    "mkey (m_vecMonitors w ! i) = mkey m"
  shows "process_rsp E (query_msg (GetQueryStatusUrl (iAppType m)) q m, rsp) w =
    fst (HandleQueryStatusMonitorObj E i (query_answer (env_json E) rsp) w)"
proof -
  let ?r = "query_msg (GetQueryStatusUrl (iAppType m)) q m"
  note u = routed_urls [OF assms(1)]
  have "families ?r = [type_family (iAppType m)]" "GetRequestAppType ?r = iAppType m"
    using u families_url [of ?r] by (simp_all add: GetRequestAppType_def)
  note t = routed_target [OF assms(1) this(1) message_fields(2) assms(2-4) this(2)]
  have "\<not> IsUnFreezeRequest ?r" "IsQueryStatusRequest ?r" using u url_kind [of ?r] by simp_all
  then show ?thesis
    using t by (simp add: process_rsp_def ProcessQueryStatusRsp_def query_answer_def case_prod_unfold)
qed

lemma unfreeze_answer_delivered:
  assumes "routed (env_json E) m" "distinct (map mkey (m_vecMonitors w))" "i < length (m_vecMonitors w)"
    "mkey (m_vecMonitors w ! i) = mkey m"
  shows "process_rsp E (retarget (GetUnFreezeUrl (iAppType m)) meth (pReqMsg m), rsp) w =
    fst (HandleUnFreezingMonitorObj E i (sint (word_of_int (m_lRetCode rsp) :: u32) = MP_SUCCESS) w)"
proof -
  let ?r = "retarget (GetUnFreezeUrl (iAppType m)) meth (pReqMsg m)"
  note u = routed_urls [OF assms(1)]
  have "families ?r = [type_family (iAppType m)]" "GetRequestAppType ?r = iAppType m"
    using u families_url [of ?r] by (simp_all add: GetRequestAppType_def)
  note t = routed_target [OF assms(1) this(1) message_fields(5) assms(2-4) this(2)]
  have "IsUnFreezeRequest ?r" using u url_kind [of ?r] by simp
  then show ?thesis using t by (simp add: process_rsp_def ProccessUnFreezeRsp_def)
qed

end
