(* ===== verification/FreezeSpec.thy ===== *)
theory FreezeSpec
  imports FreezeRoutes
begin

text \<open>
  The contract of each handler over ordinary numbers, the bounded retries, the pass over the list,
  and the two places where the code departs from it.
\<close>

section \<open>The decision on a frozen object\<close>

datatype ft_action = Wait | Drop | Query

text \<open>With \<open>now\<close>, \<open>begin'\<close> and \<open>loop\<close> in seconds, as numbers without wrap-around.\<close>

definition decide :: "nat \<Rightarrow> nat \<Rightarrow> nat \<Rightarrow> ft_action" where
  "decide now begin' loop =
     (if now \<le> begin' then Wait
      else if begin' + MAX_MONITOR_TIME \<le> now then Drop
      else if now < begin' + loop then Wait
      else Query)"

definition drop_obj :: "('j, 'd, 's) ft_env \<Rightarrow> nat \<Rightarrow> ('j, 'd) ft_world \<Rightarrow> ('j, 'd) ft_world" where
  "drop_obj E i w = DelMonitorObj i (fst (RemoveFromDB E (m_vecMonitors w ! i) w))"

lemma unat_ucast_up: "unat (ucast (x :: u32) :: u64) = unat x"
proof -
  have "unat x < 2 ^ 32" using unsigned_less [of x] by simp
  then have "unat x < 2 ^ 64" by simp
  then show ?thesis by (simp add: unsigned_ucast_eq take_bit_nat_eq_self_iff)
qed

lemma HandleFreezed_decides:
  assumes "GetTimeSec E w = (w1, now)" "m = m_vecMonitors w ! i"
  shows "fst (HandleFreezedMonitorObj E i w) =
    (case decide (unat now) (unat (ulBeginTime m)) (unat (uiLoopTime m)) of
       Wait \<Rightarrow> w1
     | Drop \<Rightarrow> drop_obj E i w1
     | Query \<Rightarrow>
         (if snd (PushQueryStatusReq E i w1) = MP_SUCCESS
          then set_obj i (\<lambda>ob. ob\<lparr>uiStatus := MONITOR_STATUS_GETSTATUSING\<rparr>) (fst (PushQueryStatusReq E i w1))
          else fst (PushQueryStatusReq E i w1)))"
proof -
  let ?b = "ulBeginTime m"
  have w1: "m_vecMonitors w1 = m_vecMonitors w" using assms(1) by (auto simp: GetTimeSec_def)
  have le: "now \<le> ?b \<longleftrightarrow> unat now \<le> unat ?b" by (simp add: word_le_nat_alt)
  have d: "unat (now - ?b) = unat now - unat ?b" if "\<not> now \<le> ?b"
    using that by (simp add: unat_sub)
  have drp: "of_nat MAX_MONITOR_TIME \<le> now - ?b \<longleftrightarrow> unat ?b + MAX_MONITOR_TIME \<le> unat now" if "\<not> now \<le> ?b"
    using that d [OF that] le by (auto simp: word_le_nat_alt)
  have loop: "now - ?b < ucast (uiLoopTime m) \<longleftrightarrow> unat now < unat ?b + unat (uiLoopTime m)" if "\<not> now \<le> ?b"
    using that d [OF that] le by (auto simp: word_less_nat_alt unat_ucast_up)
  show ?thesis
    using le drp loop
    by (auto simp: HandleFreezedMonitorObj_def Let_def assms(1) assms(2) [symmetric] decide_def drop_obj_def w1 case_prod_unfold)
qed

section \<open>Retries\<close>

text \<open>The loop time after \<open>n\<close> failed attempts to unfreeze, as a number.\<close>

definition next_loop :: "nat \<Rightarrow> nat" where
  "next_loop t = (if t \<le> MAX_MONITOR_TIME then 2 * t else t)"

lemma next_loop_word:
  "unat (if t \<le> of_nat MAX_MONITOR_TIME then t * 2 else (t :: u32)) = next_loop (unat t)"
  by (auto simp: next_loop_def word_le_nat_alt unat_word_ariths)

lemma loop_bound: "t \<le> 2 * MAX_MONITOR_TIME \<Longrightarrow> next_loop t \<le> 2 * MAX_MONITOR_TIME"
  by (simp add: next_loop_def)

lemma HandleUnFreezing_spec:
  assumes "i < length (m_vecMonitors w)" "m = m_vecMonitors w ! i"
  shows "uiStatus m = MONITOR_STATUS_FREEZED \<Longrightarrow> fst (HandleUnFreezingMonitorObj E i ok w) = w"
    and "uiStatus m \<noteq> MONITOR_STATUS_FREEZED \<Longrightarrow> fst (HandleUnFreezingMonitorObj E i True w) = drop_obj E i w"
    and "uiStatus m \<noteq> MONITOR_STATUS_FREEZED \<Longrightarrow>
      (let w' = fst (HandleUnFreezingMonitorObj E i False w)
       in unat (uiLoopTime (m_vecMonitors w' ! i)) = next_loop (unat (uiLoopTime m)) \<and>
          uiStatus (m_vecMonitors w' ! i) = MONITOR_STATUS_FREEZED \<and>
          ulBeginTime (m_vecMonitors w' ! i) = ulBeginTime m \<and>
          length (w_alarms w') = Suc (length (w_alarms w)) \<and>
          (\<forall>j. j \<noteq> i \<longrightarrow> m_vecMonitors w' ! j = m_vecMonitors w ! j) \<and> w_comm w' = w_comm w)"
  using assms(1) next_loop_word [of "uiLoopTime (m_vecMonitors w ! i)"]
  by (simp_all add: HandleUnFreezingMonitorObj_def Let_def drop_obj_def set_obj_def SendHandleFailedAlarm_def assms(2)
      split: if_splits)

text \<open>An object whose loop time has passed the limit is never queried again: it waits or is dropped.\<close>

lemma no_query_above_limit: "MAX_MONITOR_TIME \<le> loop \<Longrightarrow> decide now b loop \<noteq> Query"
  by (auto simp: decide_def)

lemma default_loop_times: "n \<le> 9 \<Longrightarrow> (next_loop ^^ n) 60 = 60 * 2 ^ n"
proof (induction n)
  case 0
  then show ?case by simp
next
  case (Suc n)
  then have "(2::nat) ^ n \<le> 2 ^ 8" by (intro power_increasing) simp_all
  with Suc show ?case by (simp add: next_loop_def)
qed

lemma nine_failures: "MAX_MONITOR_TIME < (next_loop ^^ 9) 60 \<and> (next_loop ^^ 8) 60 \<le> MAX_MONITOR_TIME"
  by (simp add: default_loop_times)

section \<open>Answers to a status query\<close>

lemma alloc_plenty: "w_new w = [] \<Longrightarrow> alloc (Suc n) w = (w, True)"
  by (cases w) (simp add: alloc_def)

lemma HandleQueryStatus_spec:
  assumes "i < length (m_vecMonitors w)" "m = m_vecMonitors w ! i"
  shows "uiStatus m = MONITOR_STATUS_FREEZED \<Longrightarrow> fst (HandleQueryStatusMonitorObj E i q w) = w"
    and "uiStatus m \<noteq> MONITOR_STATUS_FREEZED \<Longrightarrow> fst (HandleQueryStatusMonitorObj E i DB_UNFREEZE w) = drop_obj E i w"
    and "uiStatus m \<noteq> MONITOR_STATUS_FREEZED \<Longrightarrow> q \<noteq> DB_UNFREEZE \<Longrightarrow> q \<noteq> DB_FREEZE \<Longrightarrow>
      fst (HandleQueryStatusMonitorObj E i q w) = set_obj i (\<lambda>ob. ob\<lparr>uiStatus := MONITOR_STATUS_FREEZED\<rparr>) w"
    and "uiStatus m \<noteq> MONITOR_STATUS_FREEZED \<Longrightarrow> GetUnFreezeUrl (iAppType m) \<noteq> [] \<Longrightarrow> w_new w = [] \<Longrightarrow>
      fst (HandleQueryStatusMonitorObj E i DB_FREEZE w) =
        set_obj i (\<lambda>ob. ob\<lparr>uiStatus := MONITOR_STATUS_UNFREEZING\<rparr>)
          (w\<lparr>w_comm := PushReqMsgQueue
               (retarget (GetUnFreezeUrl (iAppType m)) REST_URL_METHOD_PUT (pReqMsg m), CResponseMsg_internal (env_null E))
               (w_comm w)\<rparr>)"
  using assms
  by (simp_all add: HandleQueryStatusMonitorObj_def Let_def drop_obj_def PushUnFreezeReq_def alloc_plenty numeral_2_eq_2)

section \<open>The whole cycle\<close>

text \<open>
  A frozen object that is due is queried; when the answer says frozen it is asked to unfreeze; when
  that succeeds it leaves the list and the rest stays. The messages are those the monitor itself
  put into the queue.
\<close>

lemma PushQueryStatus_ok:
  assumes "m = m_vecMonitors w ! i" "GetQueryStatusUrl (iAppType m) \<noteq> []" "query_param E m = QueryText q" "w_new w = []"
  shows "PushQueryStatusReq E i w =
    (w\<lparr>w_comm := PushReqMsgQueue (query_msg (GetQueryStatusUrl (iAppType m)) q m, CResponseMsg_internal (env_null E)) (w_comm w)\<rparr>,
     MP_SUCCESS)"
  using assms by (simp add: PushQueryStatusReq_def Let_def alloc_plenty numeral_2_eq_2)

lemma drop_obj_list:
  assumes "monitors_ok w" "i < length (m_vecMonitors w)"
  shows "m_vecMonitors (drop_obj E i w) = take i (m_vecMonitors w) @ drop (Suc i) (m_vecMonitors w)"
  using DelMonitorObj_eq [of "fst (RemoveFromDB E (m_vecMonitors w ! i) w)" i] assms by (simp add: drop_obj_def)

definition thaw_script :: "('j, 'd, 's) ft_env \<Rightarrow> nat \<Rightarrow> string \<Rightarrow> 'j response_msg \<Rightarrow> 'j response_msg
    \<Rightarrow> ('j, 'd) ft_world \<Rightarrow> ('j, 'd) ft_world" where
  "thaw_script E i q answer1 answer2 w =
     (let m = m_vecMonitors w ! i;
          w1 = fst (HandleFreezedMonitorObj E i w);
          w2 = process_rsp E (fst (last (m_reqMsgQueue (w_comm w1))), answer1) w1
      in process_rsp E (fst (last (m_reqMsgQueue (w_comm w2))), answer2) w2)"

lemma last_push [simp]: "last (m_reqMsgQueue (PushReqMsgQueue p c)) = p"
  by (simp add: PushReqMsgQueue_def)

lemma set_obj_nth: "i < length (m_vecMonitors w) \<Longrightarrow> m_vecMonitors (set_obj i f w) ! i = f (m_vecMonitors w ! i)"
  by (simp add: set_obj_def)

lemma set_obj_frames [simp]:
  "length (m_vecMonitors (set_obj i f w)) = length (m_vecMonitors w)" "w_comm (set_obj i f w) = w_comm w"
  "w_new (set_obj i f w) = w_new w"
  by (simp_all add: set_obj_def)

lemma thaw_cycle:
  assumes ok: "monitors_ok w" and i: "i < length (m_vecMonitors w)" and m: "m = m_vecMonitors w ! i"
    and r: "routed (env_json E) m" and fr: "uiStatus m = MONITOR_STATUS_FREEZED"
    and due: "decide (unat (env_clock E (w_reads w))) (unat (ulBeginTime m)) (unat (uiLoopTime m)) = Query"
    and q: "query_param E m = QueryText q" and mem: "w_new w = []"
    and a1: "query_answer (env_json E) answer1 = DB_FREEZE" and a2: "m_lRetCode answer2 = MP_SUCCESS"
  shows "m_vecMonitors (thaw_script E i q answer1 answer2 w) = take i (m_vecMonitors w) @ drop (Suc i) (m_vecMonitors w)"
proof -
  let ?w0 = "w\<lparr>w_reads := Suc (w_reads w)\<rparr>"
  let ?p1 = "(query_msg (GetQueryStatusUrl (iAppType m)) q m, CResponseMsg_internal (env_null E))"
  let ?p2 = "(retarget (GetUnFreezeUrl (iAppType m)) REST_URL_METHOD_PUT (pReqMsg m), CResponseMsg_internal (env_null E))"
  note u = routed_urls [OF r]
  define w1 where "w1 = set_obj i (\<lambda>ob. ob\<lparr>uiStatus := MONITOR_STATUS_GETSTATUSING\<rparr>)
      (?w0\<lparr>w_comm := PushReqMsgQueue ?p1 (w_comm w)\<rparr>)"
  have h1: "fst (HandleFreezedMonitorObj E i w) = w1"
    using HandleFreezed_decides [of E w ?w0 "env_clock E (w_reads w)" m i] due m
      PushQueryStatus_ok [of m ?w0 i E q] u(8) q mem
    by (simp add: GetTimeSec_def w1_def)
  have same1: "same_heap w (?w0\<lparr>w_comm := PushReqMsgQueue ?p1 (w_comm w)\<rparr>)" by (simp add: same_heap_def)
  have ok1: "monitors_ok w1" unfolding w1_def
    by (subst set_obj_ok) (simp_all add: mkey_def same_heap_ok [OF same1] ok)
  have i1: "i < length (m_vecMonitors w1)" "w_new w1 = []" "last (m_reqMsgQueue (w_comm w1)) = ?p1"
    using i mem by (simp_all add: w1_def)
  have m1: "m_vecMonitors w1 ! i = m\<lparr>uiStatus := MONITOR_STATUS_GETSTATUSING\<rparr>"
    using i m by (simp add: w1_def set_obj_nth)
  define w2 where "w2 = set_obj i (\<lambda>ob. ob\<lparr>uiStatus := MONITOR_STATUS_UNFREEZING\<rparr>) (w1\<lparr>w_comm := PushReqMsgQueue ?p2 (w_comm w1)\<rparr>)"
  have d1: "distinct (map mkey (m_vecMonitors w1))" using ok1 by (simp add: monitors_ok_def)
  have h2: "process_rsp E (query_msg (GetQueryStatusUrl (iAppType m)) q m, answer1) w1 = w2"
    using query_answer_delivered [OF r d1 i1(1), of q answer1] HandleQueryStatus_spec(4) [OF i1(1) refl, of E] m1 u(9) i1(2) a1
    by (simp add: mkey_def w2_def)
  have ok2: "monitors_ok w2" unfolding w2_def
    by (subst set_obj_ok) (simp_all add: mkey_def ok1)
  have i2: "i < length (m_vecMonitors w2)" "last (m_reqMsgQueue (w_comm w2)) = ?p2"
    using i1 by (simp_all add: w2_def)
  have m2: "m_vecMonitors w2 ! i = m\<lparr>uiStatus := MONITOR_STATUS_UNFREEZING\<rparr>"
    using i1(1) m1 by (simp add: w2_def set_obj_nth)
  have d2: "distinct (map mkey (m_vecMonitors w2))" using ok2 by (simp add: monitors_ok_def)
  have h3: "process_rsp E (retarget (GetUnFreezeUrl (iAppType m)) REST_URL_METHOD_PUT (pReqMsg m), answer2) w2 = drop_obj E i w2"
    using unfreeze_answer_delivered [OF r d2 i2(1), of REST_URL_METHOD_PUT answer2] HandleUnFreezing_spec(2) [OF i2(1) refl, of E] m2 a2
    by (simp add: mkey_def)
  have "m_vecMonitors (drop_obj E i w2) = take i (m_vecMonitors w2) @ drop (Suc i) (m_vecMonitors w2)"
    by (rule drop_obj_list [OF ok2 i2(1)])
  also have "\<dots> = take i (m_vecMonitors w) @ drop (Suc i) (m_vecMonitors w)"
    by (simp add: w2_def w1_def set_obj_def)
  finally show ?thesis
    by (simp add: thaw_script_def Let_def h1 i1(3) h2 i2(2) h3)
qed

section \<open>The pass over the list\<close>

text \<open>
  The cursor has moved past an object before the object is handled. When handling removes it, the
  object that takes its place is not looked at in this pass.
\<close>

lemma handle_loop_step:
  assumes "m_iCurrIndex w < length (m_vecMonitors w)"
  shows "handle_loop E w = handle_loop E
    (let w1 = w\<lparr>m_iCurrIndex := Suc (m_iCurrIndex w)\<rparr>
     in if uiStatus (m_vecMonitors w ! m_iCurrIndex w) = MONITOR_STATUS_FREEZED
        then fst (HandleFreezedMonitorObj E (m_iCurrIndex w) w1) else w1)"
  using assms order_le_less_trans [OF le0 assms]
  by (subst handle_loop.simps) (simp add: GetHandleMonitorObj_def Let_def)

lemma handle_loop_end:
  "length (m_vecMonitors w) \<le> m_iCurrIndex w \<Longrightarrow> handle_loop E w = w\<lparr>m_iCurrIndex := 0\<rparr>"
  by (subst handle_loop.simps) (simp add: GetHandleMonitorObj_def)

lemma pass_skips_after_removal:
  assumes "monitors_ok w" "m_vecMonitors w = [m1, m2]" "m_iCurrIndex w = 0"
    and "uiStatus m1 = MONITOR_STATUS_FREEZED"
    and "decide (unat (env_clock E (w_reads w))) (unat (ulBeginTime m1)) (unat (uiLoopTime m1)) = Drop"
  shows "m_vecMonitors (handle_loop E w) = [m2]" "w_comm (handle_loop E w) = w_comm w"
    "w_reads (handle_loop E w) = Suc (w_reads w)"
proof -
  let ?w1 = "w\<lparr>m_iCurrIndex := Suc 0\<rparr>" and ?w2 = "w\<lparr>m_iCurrIndex := Suc 0, w_reads := Suc (w_reads w)\<rparr>"
  have h: "fst (HandleFreezedMonitorObj E 0 ?w1) = drop_obj E 0 ?w2"
    using HandleFreezed_decides [of E ?w1 ?w2 "env_clock E (w_reads w)" m1 0] assms by (simp add: GetTimeSec_def)
  have "same_heap w ?w2" by (simp add: same_heap_def)
  then have ok: "monitors_ok ?w2" using assms(1) by (simp add: same_heap_ok)
  have l: "m_vecMonitors (drop_obj E 0 ?w2) = [m2]"
    using drop_obj_list [OF ok, of 0 E] assms(2) by simp
  have "tame ?w2 (drop_obj E 0 ?w2)" unfolding drop_obj_def by (intro tame_rules)
  then have c: "m_iCurrIndex (drop_obj E 0 ?w2) = Suc 0" by (simp add: tame_def)
  have f: "w_comm (drop_obj E 0 ?w2) = w_comm w" "w_reads (drop_obj E 0 ?w2) = Suc (w_reads w)"
    by (auto simp: drop_obj_def DelMonitorObj_def FreeMonitorObj_def FreeReqMsg_def Let_def RemoveFromDB_def
        split: option.split prod.split)
  have "handle_loop E w = (drop_obj E 0 ?w2)\<lparr>m_iCurrIndex := 0\<rparr>"
    using handle_loop_step [of w E] handle_loop_end [of "drop_obj E 0 ?w2" E] assms h l c by (simp add: Let_def)
  then show "m_vecMonitors (handle_loop E w) = [m2]" "w_comm (handle_loop E w) = w_comm w"
    "w_reads (handle_loop E w) = Suc (w_reads w)"
    using l f by simp_all
qed

section \<open>Messages that outlive their object\<close>

text \<open>
  The message put into the queue shares the FastCGI object of its monitored object. Once the object
  is removed, the message points to freed memory.
\<close>

lemma message_dangles:
  assumes "monitors_ok w" "i < length (m_vecMonitors w)" "m = m_vecMonitors w ! i"
  shows "GetHead gp (w_heap (drop_obj E i w)) name (m_httpReq (query_msg u q m)) = None"
    "GetHead gp (w_heap (drop_obj E i w)) name (m_httpReq (retarget u meth (pReqMsg m))) = None"
proof -
  let ?w = "fst (RemoveFromDB E m w)"
  have "fcgx_of (pReqMsg m) \<in> set (owned w)" using assms(2,3) by (auto simp: owned_def)
  then obtain a where a: "fcgx_of (pReqMsg m) = Some a" "w_heap w a \<noteq> None"
    using assms(1) by (fastforce simp: monitors_ok_def heap_ok_def live_def split: option.splits)
  have h: "w_heap ?w = w_heap w" by (simp add: RemoveFromDB_def case_prod_unfold)
  have "drop_obj E i w = (FreeMonitorObj m ?w)\<lparr>m_vecMonitors := take i (m_vecMonitors ?w) @ drop (Suc i) (m_vecMonitors ?w)\<rparr>"
    using DelMonitorObj_eq [of ?w i] assms by (simp add: drop_obj_def)
  then have "w_heap (drop_obj E i w) a = None"
    using a h by (auto simp: FreeMonitorObj_def FreeReqMsg_def fcgx_of_def split: option.split)
  moreover have "m_pFcgRequest (m_httpReq (query_msg u q m)) = Some a" "m_pFcgRequest (m_httpReq (retarget u meth (pReqMsg m))) = Some a"
    using a(1) message_fields(3) [of u q m] message_fields(6) [of u meth "pReqMsg m"] by (simp_all add: fcgx_of_def)
  ultimately show "GetHead gp (w_heap (drop_obj E i w)) name (m_httpReq (query_msg u q m)) = None"
    "GetHead gp (w_heap (drop_obj E i w)) name (m_httpReq (retarget u meth (pReqMsg m))) = None"
    by (simp_all add: GetHead_def)
qed

section \<open>The request handed on\<close>

text \<open>
  \<^verbatim>\<open>MonitorFreezeOper\<close> and \<^verbatim>\<open>UpdateFreezeOper\<close> give the request back as they got it, unless a disk
  name does not survive being pasted into a text: then the body is the last one tried.
\<close>

lemma freeze_oper_request:
  assumes "\<forall>d\<in>set (snd (GetJsonArrayString (env_json E) (m_msgBody r) DISKNAMES [])). env_parse E (c_str (disk_json d)) \<noteq> None"
  shows "snd (freeze_oper E oper r w) = r"
proof -
  have "snd (snd (per_disk E oper ds r' w')) \<and> (\<exists>b. fst (snd (per_disk E oper ds r' w')) = r'\<lparr>m_msgBody := b\<rparr>)"
    if "\<forall>d\<in>set ds. env_parse E (c_str (disk_json d)) \<noteq> None" for ds r' w'
    using that
  proof (induction ds arbitrary: r' w')
    case Nil
    have "r' = r'\<lparr>m_msgBody := m_msgBody r'\<rparr>" by simp
    then show ?case by (simp, metis)
  next
    case (Cons d ds)
    then obtain j where j: "env_parse E (c_str (disk_json d)) = Some j" by auto
    let ?r = "r'\<lparr>m_msgBody := j\<rparr>"
    have "\<forall>d\<in>set ds. env_parse E (c_str (disk_json d)) \<noteq> None" using Cons.prems by simp
    from Cons.IH [OF this, of ?r "oper ?r w'"] j show ?case by (simp add: Let_def)
  qed
  from this [OF assms, of r w] show ?thesis
    by (auto simp: freeze_oper_def case_prod_unfold)
qed

lemma freeze_oper_request_lost:
  assumes "IsFSRequest r" "GetJsonArrayString (env_json E) (m_msgBody r) DISKNAMES [] = (MP_SUCCESS, [d1, d2])"
    and "env_parse E (c_str (disk_json d1)) = Some j" "env_parse E (c_str (disk_json d2)) = None"
  shows "snd (freeze_oper E oper r w) = r\<lparr>m_msgBody := j\<rparr>"
  using assms by (simp add: freeze_oper_def Let_def)

end
