(* ===== verification/FreezeTable.thy ===== *)
theory FreezeTable
  imports FreezeSpec
begin

text \<open>
  The table of frozen objects under the documented behaviour of SQLite: what each of the four
  statements of the monitor does to the rows, the key it maintains, and what a restart restores.
\<close>

section \<open>What the statements mean\<close>

type_synonym row = "sql_value list"

fun value_text :: "sql_value \<Rightarrow> string" where
  "value_text (SInt i) = IntToString i"
| "value_text (SText s) = c_str s"

definition names :: "row \<Rightarrow> row" where "names r = take 2 r"

definition freeze_sem :: "row list sql_sem" where
  "freeze_sem sql vs rows =
     (if sql = sql_exists then (rows, map (\<lambda>r. map value_text (names r)) (filter (\<lambda>r. names r = vs) rows))
      else if sql = sql_insert then (rows @ [vs], [])
      else if sql = sql_delete then (filter (\<lambda>r. names r \<noteq> vs) rows, [])
      else if sql = sql_load then (rows, map (map value_text) rows)
      else (rows, []))"

definition freeze_known :: "string \<rightharpoonup> nat \<times> nat" where
  "freeze_known = [sql_exists \<mapsto> (2, 2), sql_insert \<mapsto> (9, 0), sql_delete \<mapsto> (2, 0), sql_load \<mapsto> (0, 9)]"

definition freeze_db_ok :: "('j, row list, 's) ft_env \<Rightarrow> bool" where
  "freeze_db_ok E \<longleftrightarrow> (\<exists>prep. sqlite_ok (env_sql E) (env_dbpath E) prep freeze_known freeze_sem)"

lemma sql_distinct:
  "sql_exists \<noteq> sql_insert" "sql_exists \<noteq> sql_delete" "sql_exists \<noteq> sql_load"
  "sql_insert \<noteq> sql_delete" "sql_insert \<noteq> sql_load" "sql_delete \<noteq> sql_load"
  by (simp_all add: sql_exists_def sql_insert_def sql_delete_def sql_load_def)

lemma freeze_known_simps:
  "freeze_known sql_exists = Some (2, 2)" "freeze_known sql_insert = Some (9, 0)"
  "freeze_known sql_delete = Some (2, 0)" "freeze_known sql_load = Some (0, 9)"
  using sql_distinct by (auto simp: freeze_known_def)

abbreviation table_rows :: "('j, row list) ft_world \<Rightarrow> row list" where
  "table_rows w \<equiv> dbfile (w_db w)"

definition name_values :: "'j monitor_obj \<Rightarrow> row" where
  "name_values m = [SText (strInstanceName m), SText (strDBName m)]"

lemma bound_string [simp]: "bound_value (DbParam_string s) = SText s"
  by (simp add: bound_value_def DbParam_string_def)

section \<open>The operations on the rows\<close>

lemma IsExistInDB_rows:
  assumes "freeze_db_ok E"
  shows "IsExistInDB E m w = (w\<lparr>w_db := db_after (table_rows w) (w_db w)\<rparr>, \<exists>r\<in>set (table_rows w). names r = name_values m)"
proof -
  obtain prep where S: "sqlite_ok (env_sql E) (env_dbpath E) prep freeze_known freeze_sem"
    using assms by (auto simp: freeze_db_ok_def)
  let ?dps = "[DbParam_string (strInstanceName m), DbParam_string (strDBName m)]"
  have k: "freeze_known sql_exists = Some (length ?dps, 2)" by (simp add: freeze_known_simps)
  have len: "\<forall>row\<in>set (snd (freeze_sem sql_exists (map bound_value ?dps) rows)). length row = 2" for rows
    by (auto simp: freeze_sem_def)
  from QueryTable_ok [OF S k _ len, of empty_query "w_db w"] show ?thesis
    by (simp add: IsExistInDB_def freeze_sem_def empty_query_def name_values_def filter_empty_conv)
qed

definition row_of :: "('j, 'd, 's) ft_env \<Rightarrow> string \<Rightarrow> string \<Rightarrow> 'j monitor_obj \<Rightarrow> row" where
  "row_of E user pw m =
     [SText (strInstanceName m), SText (strDBName m), SInt (atoi (IntToString (uint (uiStatus m)))),
      SInt (atoi (IntToString (uint (uiLoopTime m)))), SText (env_encrypt E user), SText (env_encrypt E pw),
      SText (env_write E (m_msgBody (pReqMsg m))), SInt (atoi (IntToString (iAppType m))),
      SInt (atol (IntToString (uint (ulBeginTime m))))]"

lemma names_row_of [simp]: "names (row_of E u p m) = name_values m"
  by (simp add: names_def row_of_def name_values_def numeral_2_eq_2)

lemma SaveToDB_rows:
  assumes "freeze_db_ok E" "live (fcgx_of (pReqMsg m)) w"
  shows "\<exists>user pw. table_rows (fst (SaveToDB E m w)) =
      (if \<exists>r\<in>set (table_rows w). names r = name_values m then table_rows w else table_rows w @ [row_of E user pw m])"
    "snd (SaveToDB E m w) = MP_SUCCESS"
proof -
  obtain prep where S: "sqlite_ok (env_sql E) (env_dbpath E) prep freeze_known freeze_sem"
    using assms(1) by (auto simp: freeze_db_ok_def)
  let ?w = "w\<lparr>w_db := db_after (table_rows w) (w_db w)\<rparr>"
  have l: "live (fcgx_of (pReqMsg m)) ?w" using assms(2) by simp
  have h: "\<exists>v. read_head E k (pReqMsg m) ?w = (?w, v)" for k
    using read_head_live [OF l, of E k] by (metis prod.collapse)
  obtain user pw where hd: "read_head E HTTPPARAM_DBUSERNAME (pReqMsg m) ?w = (?w, user)"
      "read_head E HTTPPARAM_DBPASSWORD (pReqMsg m) ?w = (?w, pw)" using h by metis
  let ?dps = "[DbParam_string (strInstanceName m), DbParam_string (strDBName m),
       DbParam_uint32 (uiStatus m), DbParam_uint32 (uiLoopTime m),
       DbParam_string (env_encrypt E user), DbParam_string (env_encrypt E pw),
       DbParam_string (env_write E (m_msgBody (pReqMsg m))), DbParam_int32 (iAppType m), DbParam_uint64 (ulBeginTime m)]"
  have b: "map bound_value ?dps = row_of E user pw m"
    by (simp add: row_of_def bound_value_def DbParam_string_def DbParam_uint32_def DbParam_int32_def DbParam_uint64_def)
  have k: "freeze_known sql_insert = Some (length ?dps, 0)" by (simp add: freeze_known_simps)
  have sem: "freeze_sem sql_insert vs rows = (rows @ [vs], [])" for vs rows
    using sql_distinct by (auto simp: freeze_sem_def)
  note ins = ExecSql_ok [OF S k, of "w_db ?w", unfolded b sem, simplified]
  show "\<exists>user pw. table_rows (fst (SaveToDB E m w)) =
      (if \<exists>r\<in>set (table_rows w). names r = name_values m then table_rows w else table_rows w @ [row_of E user pw m])"
    "snd (SaveToDB E m w) = MP_SUCCESS"
    using ins hd by (auto simp: SaveToDB_def IsExistInDB_rows [OF assms(1)] db_after_def)
qed

lemma RemoveFromDB_rows:
  assumes "freeze_db_ok E"
  shows "RemoveFromDB E m w =
    (w\<lparr>w_db := db_after (filter (\<lambda>r. names r \<noteq> name_values m) (table_rows w)) (w_db w)\<rparr>, MP_SUCCESS)"
proof -
  obtain prep where S: "sqlite_ok (env_sql E) (env_dbpath E) prep freeze_known freeze_sem"
    using assms by (auto simp: freeze_db_ok_def)
  let ?dps = "[DbParam_string (strInstanceName m), DbParam_string (strDBName m)]"
  have k: "freeze_known sql_delete = Some (length ?dps, 0)" by (simp add: freeze_known_simps)
  have sem: "freeze_sem sql_delete vs rows = (filter (\<lambda>r. names r \<noteq> vs) rows, [])" for vs rows
    using sql_distinct by (auto simp: freeze_sem_def)
  show ?thesis
    using ExecSql_ok [OF S k, of "w_db w", unfolded sem]
    by (simp add: RemoveFromDB_def name_values_def)
qed

text \<open>The two names are a key of the table: no operation of the monitor stores them twice.\<close>

lemma SaveToDB_key:
  assumes "freeze_db_ok E" "live (fcgx_of (pReqMsg m)) w" "distinct (map names (table_rows w))"
  shows "distinct (map names (table_rows (fst (SaveToDB E m w))))"
proof -
  obtain user pw where "table_rows (fst (SaveToDB E m w)) =
      (if \<exists>r\<in>set (table_rows w). names r = name_values m then table_rows w else table_rows w @ [row_of E user pw m])"
    using SaveToDB_rows(1) [OF assms(1,2)] by blast
  with assms(3) show ?thesis by auto
qed

lemma RemoveFromDB_key:
  "freeze_db_ok E \<Longrightarrow> distinct (map names (table_rows w)) \<Longrightarrow>
   distinct (map names (table_rows (fst (RemoveFromDB E m w))))"
  by (simp add: RemoveFromDB_rows db_after_def distinct_map_filter)

section \<open>Restart\<close>

lemma read_fields_row: "length fs = n \<Longrightarrow> read_fields n (fs @ rest) = (rest, fs)"
  by (induction fs arbitrary: n) (auto simp: reader_get_def)

text \<open>What a stored object must be for its row to be read back, and what is read back of it.\<close>

definition storable :: "('j, 'd, 's) ft_env \<Rightarrow> 'j monitor_obj \<Rightarrow> bool" where
  "storable E m \<longleftrightarrow> c_str (strInstanceName m) = strInstanceName m \<and> c_str (strDBName m) = strDBName m \<and>
     - (2 ^ 31) \<le> iAppType m \<and> iAppType m < 2 ^ 31 \<and> uint (ulBeginTime m) \<le> LONG_MAX \<and>
     env_parse E (c_str (env_write E (m_msgBody (pReqMsg m)))) = Some (m_msgBody (pReqMsg m))"

definition persistent :: "'j monitor_obj \<Rightarrow> string \<times> string \<times> int \<times> u32 \<times> u32 \<times> u64 \<times> 'j" where
  "persistent m = (strInstanceName m, strDBName m, iAppType m, uiStatus m, uiLoopTime m, ulBeginTime m, m_msgBody (pReqMsg m))"

lemma CreateReqMsg_plenty:
  assumes "w_new w = []"
  shows "\<exists>w' a. CreateReqMsg u p j w = (w', Some (new_request j a)) \<and> w_new w' = [] \<and> w_db w' = w_db w \<and>
     m_vecMonitors w' = m_vecMonitors w"
  using assms by (simp add: CreateReqMsg_def DuplicateHead_def alloc_def eval_nat_numeral) blast

lemma InitMonitorObj_plenty:
  assumes "w_new w = []"
  shows "\<exists>w' m. InitMonitorObj E i d r k w = (w', Inr m)"
proof -
  have "w_new (fst (read_head E n r w')) = w_new w'" for n and w' :: "('a, 'b) ft_world"
    by (simp add: read_head_def split: option.split)
  then have "w_new (fst (read_head E HTTPPARAM_DBPASSWORD r (fst (read_head E HTTPPARAM_DBUSERNAME r (fst (GetTimeSec E w)))))) = []"
    using assms by (simp add: GetTimeSec_def)
  from CreateReqMsg_plenty [OF this] show ?thesis
    by (auto simp: InitMonitorObj_def Let_def case_prod_unfold split: option.split) (metis option.distinct(1) snd_conv)+
qed
lemma int32_cases: "atoi (IntToString (atoi (IntToString (uint (v :: u32))))) = atoi (IntToString (uint v))"
proof (rule atoi_IntToString)
  show "- (2 ^ 31) \<le> atoi (IntToString (uint v))" "atoi (IntToString (uint v)) < 2 ^ 31"
    using sint_ge [of "word_of_int (atol (IntToString (uint v))) :: u32"] sint_lt [of "word_of_int (atol (IntToString (uint v))) :: u32"]
    by (simp_all add: atoi_def)
qed

lemma load_row:
  assumes "storable E m" "w_new w = []"
  shows "\<exists>w' m'. load_rows E (Suc n) (map value_text (row_of E u p m) @ rest) w vec = load_rows E n rest w' (vec @ [m']) \<and>
     persistent m' = persistent m \<and> w_new w' = [] \<and> w_db w' = w_db w \<and> m_vecMonitors w' = m_vecMonitors w"
proof -
  have "length (map value_text (row_of E u p m)) = 9" by (simp add: row_of_def)
  from read_fields_row [OF this, of rest]
  have f: "read_fields 9 (map value_text (row_of E u p m) @ rest) = (rest, map value_text (row_of E u p m))" .
  obtain w' a where c: "CreateReqMsg (env_decrypt E (c_str (env_encrypt E u))) (env_decrypt E (c_str (env_encrypt E p)))
      (m_msgBody (pReqMsg m)) w = (w', Some (new_request (m_msgBody (pReqMsg m)) a))"
    "w_new w' = []" "w_db w' = w_db w" "m_vecMonitors w' = m_vecMonitors w"
    using CreateReqMsg_plenty [OF assms(2)] by metis
  have t: "atoi (IntToString (iAppType m)) = iAppType m" "atol (IntToString (uint (ulBeginTime m))) = uint (ulBeginTime m)"
    using assms(1) by (simp_all add: storable_def atoi_IntToString atol_IntToString LONG_MIN_def order_trans [OF _ uint_ge_0])
  have parse: "env_parse E (c_str (env_write E (m_msgBody (pReqMsg m)))) = Some (m_msgBody (pReqMsg m))"
    using assms(1) by (simp add: storable_def)
  let ?m = "\<lparr>pReqMsg = new_request (m_msgBody (pReqMsg m)) a, uiStatus = uiStatus m, ulBeginTime = ulBeginTime m,
     strInstanceName = strInstanceName m, strDBName = strDBName m, iAppType = iAppType m, uiLoopTime = uiLoopTime m\<rparr>"
  have "load_rows E (Suc n) (map value_text (row_of E u p m) @ rest) w vec = load_rows E n rest w' (vec @ [?m])"
    unfolding load_rows.simps f
    using assms(1) by (simp add: row_of_def CreateReqMsg_text_def parse c(1) int32_cases atoi_uint32 t storable_def)
  moreover have "persistent ?m = persistent m" by (simp add: persistent_def new_request_def)
  ultimately show ?thesis using c(2-4) by blast
qed

lemma load_rows_all:
  assumes "\<forall>m\<in>set ms. storable E m" "w_new w = []" "length cs = length ms"
  shows "\<exists>w' ms'. load_rows E (length ms)
      (concat (map (map value_text) (map2 (\<lambda>(u, p) m. row_of E u p m) cs ms))) w vec = (w', vec @ ms') \<and>
     map persistent ms' = map persistent ms \<and> m_vecMonitors w' = m_vecMonitors w"
  using assms
proof (induction ms arbitrary: cs w vec)
  case Nil
  then show ?case by simp
next
  case (Cons m ms)
  then obtain u p cs' where cs: "cs = (u, p) # cs'" by (cases cs) auto
  let ?rest = "concat (map (map value_text) (map2 (\<lambda>(u, p) m. row_of E u p m) cs' ms))"
  obtain w1 m' where one: "load_rows E (Suc (length ms)) (map value_text (row_of E u p m) @ ?rest) w vec =
      load_rows E (length ms) ?rest w1 (vec @ [m'])" "persistent m' = persistent m" "w_new w1 = []" "m_vecMonitors w1 = m_vecMonitors w"
    using load_row [of E m w "length ms" u p ?rest vec] Cons.prems by auto
  obtain w2 ms' where rest: "load_rows E (length ms) ?rest w1 (vec @ [m']) = (w2, (vec @ [m']) @ ms')"
      "map persistent ms' = map persistent ms" "m_vecMonitors w2 = m_vecMonitors w1"
    using Cons.IH [of w1 cs' "vec @ [m']"] Cons.prems one(3) cs by auto
  have "load_rows E (length (m # ms)) (concat (map (map value_text) (map2 (\<lambda>(u, p) m. row_of E u p m) cs (m # ms)))) w vec =
      (w2, vec @ (m' # ms'))"
    using one(1) rest(1) by (simp add: cs)
  moreover have "map persistent (m' # ms') = map persistent (m # ms)" using one(2) rest(2) by simp
  ultimately show ?case using rest(3) one(4) by metis
qed

text \<open>A restart restores the fields of every stored object, in the order of the rows.\<close>

lemma LoadFromDB_restores:
  assumes "freeze_db_ok E" "w_new w = []" "\<forall>m\<in>set ms. storable E m" "length cs = length ms"
    and "table_rows w = map2 (\<lambda>(u, p) m. row_of E u p m) cs ms"
  shows "map persistent (fst (snd (LoadFromDB E w []))) = map persistent ms" "snd (snd (LoadFromDB E w [])) = MP_SUCCESS"
proof -
  obtain prep where S: "sqlite_ok (env_sql E) (env_dbpath E) prep freeze_known freeze_sem"
    using assms(1) by (auto simp: freeze_db_ok_def)
  have k: "freeze_known sql_load = Some (length ([] :: db_param list), 9)" by (simp add: freeze_known_simps)
  have sem: "freeze_sem sql_load vs rows = (rows, map (map value_text) rows)" for vs rows
    using sql_distinct by (auto simp: freeze_sem_def)
  let ?w = "w\<lparr>w_db := db_after (table_rows w) (w_db w)\<rparr>"
  have len: "length (table_rows w) = length ms" using assms(4,5) by simp
  have nine: "\<forall>r\<in>set (table_rows w). length r = 9"
    unfolding assms(5) by (auto simp: row_of_def)
  obtain w' ms' where l: "load_rows E (length ms) (concat (map (map value_text) (table_rows w))) ?w [] = (w', [] @ ms')"
      "map persistent ms' = map persistent ms"
    using load_rows_all [OF assms(3), of ?w cs "[]"] assms(2,4,5) by auto
  have q: "QueryTable (env_sql E) (env_dbpath E) sql_load [] empty_query (w_db w) =
      (db_after (table_rows w) (w_db w), \<lparr>q_reader = concat (map (map value_text) (table_rows w)),
        q_rows = int (length ms), q_cols = 9\<rparr>, MP_SUCCESS)"
    using QueryTable_ok [OF S k, of "w_db w" empty_query, unfolded sem] nine by (simp add: empty_query_def len)
  show "map persistent (fst (snd (LoadFromDB E w []))) = map persistent ms" "snd (snd (LoadFromDB E w [])) = MP_SUCCESS"
    using l by (simp_all add: LoadFromDB_def q Let_def)
qed

section \<open>What the key leaves out\<close>

text \<open>
  The application type is not part of the key, while it is part of the key of the list. Objects of
  two types with the same names share one row: the second is not stored, and removing either
  removes it.
\<close>

lemma SaveToDB_collision:
  assumes "freeze_db_ok E" "live (fcgx_of (pReqMsg m)) w" "r \<in> set (table_rows w)" "names r = name_values m"
  shows "table_rows (fst (SaveToDB E m w)) = table_rows w" "snd (SaveToDB E m w) = MP_SUCCESS"
  using SaveToDB_rows [OF assms(1,2)] assms(3,4) by auto

lemma RemoveFromDB_collision:
  assumes "freeze_db_ok E" "name_values m = name_values m'"
  shows "\<forall>r\<in>set (table_rows (fst (RemoveFromDB E m w))). names r \<noteq> name_values m'"
  using assms by (simp add: RemoveFromDB_rows db_after_def)

end
