(* ===== verification/ConfigXml.thy ===== *)
theory ConfigXml
  imports Prelude
begin

text \<open>
  The configuration file (\<^verbatim>\<open>src/src/common/ConfigXmlParse.cpp\<close>). TinyXML itself is not part of
  the repository: a loaded document is read here as what its navigation functions
  (\<^verbatim>\<open>FirstChildElement\<close>, \<^verbatim>\<open>NextSiblingElement\<close>, \<^verbatim>\<open>Value\<close>, \<^verbatim>\<open>FirstAttribute\<close>) walk over, the
  list of the sections below the root, each with its list of items and the value of each item's
  first attribute.
\<close>

type_synonym xml_item = "string \<times> string option"
type_synonym xml_section = "string \<times> xml_item list"
type_synonym xml_doc = "xml_section list"

abbreviation CFG_SYSTEM_SECTION :: string where "CFG_SYSTEM_SECTION \<equiv> ''System''"
abbreviation CFG_USER_NAME :: string where "CFG_USER_NAME \<equiv> ''name''"
abbreviation CFG_SALT_VALUE :: string where "CFG_SALT_VALUE \<equiv> ''sl''"
abbreviation CFG_HASH_VALUE :: string where "CFG_HASH_VALUE \<equiv> ''hash''"

text \<open>
  \<^verbatim>\<open>GetChildElement\<close>: the first section with the given name; a section with an empty name is
  skipped before the comparison, so that an empty section name finds nothing.
\<close>

fun GetChildElement :: "xml_doc \<Rightarrow> string \<Rightarrow> xml_section option" where
  "GetChildElement [] strSection = None"
| "GetChildElement ((sectionName, items) # rest) strSection =
     (if sectionName = [] then GetChildElement rest strSection
      else if sectionName = strSection then Some (sectionName, items)
      else GetChildElement rest strSection)"

text \<open>
  \<^verbatim>\<open>ParseNodeValue\<close>: fill a map with the items that have a name and a first attribute; a later
  item overwrites an earlier one of the same name.
\<close>

fun ParseNodeValue :: "xml_item list \<Rightarrow> (string \<rightharpoonup> string) \<Rightarrow> (string \<rightharpoonup> string)" where
  "ParseNodeValue [] nodeValue = nodeValue"
| "ParseNodeValue ((nodeName, attr) # rest) nodeValue =
     (if nodeName = [] then ParseNodeValue rest nodeValue
      else (case attr of
              None \<Rightarrow> ParseNodeValue rest nodeValue
            | Some v \<Rightarrow> ParseNodeValue rest (nodeValue(nodeName \<mapsto> v))))"

text \<open>
  \<^verbatim>\<open>GetValueString\<close> on the document the parser holds (after the reload that a changed file
  triggers): \<open>Inl\<close> the error code, \<open>Inr\<close> the value written to the out parameter.
\<close>

definition GetValueString :: "xml_doc \<Rightarrow> string \<Rightarrow> string \<Rightarrow> int + string" where
  "GetValueString doc strSection strKey =
     (case GetChildElement doc strSection of
        None \<Rightarrow> Inl ERROR_COMMON_READ_CONFIG_FAILED
      | Some (_, items) \<Rightarrow>
          (case ParseNodeValue items Map.empty strKey of
             None \<Rightarrow> Inl ERROR_COMMON_READ_CONFIG_FAILED
           | Some v \<Rightarrow> Inr v))"

lemma GetChildElement_name: "GetChildElement doc s = Some (n, items) \<Longrightarrow> n = s \<and> s \<noteq> [] \<and> (n, items) \<in> set doc"
  by (induction doc s rule: GetChildElement.induct) (auto split: if_splits)

text \<open>The last item of a name wins.\<close>

lemma ParseNodeValue_last:
  "ParseNodeValue items m k =
     (case List.find (\<lambda>(n, a). n = k \<and> n \<noteq> [] \<and> a \<noteq> None) (rev items) of
        None \<Rightarrow> m k | Some (_, a) \<Rightarrow> a)"
proof (induction items arbitrary: m)
  case Nil
  then show ?case by simp
next
  case (Cons p rest)
  obtain n a where p: "p = (n, a)" by (cases p)
  show ?case
    by (cases a) (auto simp: p Cons.IH find_append split: option.splits)
qed

lemma GetValueString_error: "GetValueString doc s k = Inl e \<Longrightarrow> e = ERROR_COMMON_READ_CONFIG_FAILED"
  by (auto simp: GetValueString_def split: option.splits)

end
