(* ===== verification/Authentication.thy ===== *)
theory Authentication
  imports ConfigXml
begin

text \<open>
  Client authentication with lock-out: \<^verbatim>\<open>CAuthentication\<close> of
  \<^verbatim>\<open>src/src/agent/Authentication.cpp\<close>. The state is the pair of stored credentials and the list
  of clients with recent failures; time stamps are \<^verbatim>\<open>mp_uint64\<close> seconds, and their differences
  wrap around as in the code. The hash functions (OpenSSL) and the clock are parameters.
\<close>

section \<open>State and operations\<close>

abbreviation MAX_TRY_TIME :: int where "MAX_TRY_TIME \<equiv> 3"
abbreviation LOCKED_TIME :: u64 where "LOCKED_TIME \<equiv> 900"
abbreviation CONTINUOUS_FAILURE_TIME :: u64 where "CONTINUOUS_FAILURE_TIME \<equiv> 900"

record locked_client_info =
  isLocked :: bool
  failedTimes :: int
  lastFailedTime :: u64
  lockedTime :: u64
  strClientIP :: string

record auth_state =
  m_strUsr :: string
  m_strPwd :: string
  m_lockedIPList :: "locked_client_info list"

text \<open>The hash functions of \<^verbatim>\<open>CryptAlg\<close>, each failing (\<^const>\<open>None\<close>) or giving the digest text.\<close>

record crypt_api =
  GetSha256Hash :: "string \<Rightarrow> string option"
  PBKDF2Hash :: "string \<Rightarrow> string \<Rightarrow> string option"

abbreviation same_ip :: "string \<Rightarrow> locked_client_info \<Rightarrow> bool" where
  "same_ip ip \<equiv> (\<lambda>e. strClientIP e = ip)"

text \<open>\<^verbatim>\<open>Init\<close> reads user name and password hash; the first missing entry fails it.\<close>

definition Init :: "xml_doc \<Rightarrow> auth_state \<Rightarrow> auth_state \<times> int" where
  "Init doc st =
     (case GetValueString doc CFG_SYSTEM_SECTION CFG_USER_NAME of
        Inl _ \<Rightarrow> (st, MP_FAILED)
      | Inr u \<Rightarrow> (let st = st\<lparr>m_strUsr := u\<rparr> in
          (case GetValueString doc CFG_SYSTEM_SECTION CFG_HASH_VALUE of
             Inl _ \<Rightarrow> (st, MP_FAILED)
           | Inr p \<Rightarrow> (st\<lparr>m_strPwd := p\<rparr>, MP_SUCCESS))))"

text \<open>
  \<^verbatim>\<open>IsLocked\<close>: a lock older than \<^verbatim>\<open>LOCKED_TIME\<close> is erased with its entry. The subtraction is the
  unsigned one of the code.
\<close>

definition IsLocked :: "u64 \<Rightarrow> string \<Rightarrow> auth_state \<Rightarrow> auth_state \<times> bool" where
  "IsLocked now ip st =
     (case List.find (same_ip ip) (m_lockedIPList st) of
        None \<Rightarrow> (st, False)
      | Some e \<Rightarrow>
          (if isLocked e \<and> now - lockedTime e \<ge> LOCKED_TIME
           then (st\<lparr>m_lockedIPList := erase_first (same_ip ip) (m_lockedIPList st)\<rparr>, False)
           else (st, isLocked e)))"

text \<open>\<^verbatim>\<open>Check\<close>: the digest of password and salt, or the PBKDF2 one, must equal the stored hash.\<close>

definition Check :: "crypt_api \<Rightarrow> xml_doc \<Rightarrow> string \<Rightarrow> string \<Rightarrow> auth_state \<Rightarrow> bool" where
  "Check C doc usr pwd st =
     (case GetValueString doc CFG_SYSTEM_SECTION CFG_SALT_VALUE of
        Inl _ \<Rightarrow> False
      | Inr salt \<Rightarrow>
          (case GetSha256Hash C (pwd @ salt) of
             None \<Rightarrow> False
           | Some outHashHex \<Rightarrow>
               (case PBKDF2Hash C pwd salt of
                  None \<Rightarrow> False
                | Some strOut \<Rightarrow> usr = m_strUsr st \<and> (outHashHex = m_strPwd st \<or> strOut = m_strPwd st))))"

text \<open>The update of an existing entry in \<^verbatim>\<open>Lock\<close>, and the entry it creates for a new client.\<close>

definition lock_entry :: "u64 \<Rightarrow> locked_client_info \<Rightarrow> locked_client_info" where
  "lock_entry now e =
     (if isLocked e then e\<lparr>lastFailedTime := now\<rparr>
      else
        (let e = (if now - lastFailedTime e \<ge> CONTINUOUS_FAILURE_TIME
                  then e\<lparr>failedTimes := 0, isLocked := False\<rparr> else e);
             e = e\<lparr>failedTimes := failedTimes e + 1\<rparr>;
             e = (if failedTimes e \<ge> MAX_TRY_TIME
                  then e\<lparr>isLocked := True, lockedTime := now\<rparr> else e)
         in e\<lparr>lastFailedTime := now\<rparr>))"

definition Lock :: "u64 \<Rightarrow> string \<Rightarrow> auth_state \<Rightarrow> auth_state" where
  "Lock now ip st =
     (case List.find (same_ip ip) (m_lockedIPList st) of
        Some _ \<Rightarrow> st\<lparr>m_lockedIPList := update_first (same_ip ip) (lock_entry now) (m_lockedIPList st)\<rparr>
      | None \<Rightarrow> st\<lparr>m_lockedIPList := m_lockedIPList st @
          [\<lparr>isLocked = False, failedTimes = 1, lastFailedTime = now, lockedTime = 0, strClientIP = ip\<rparr>]\<rparr>)"

definition Unlock :: "string \<Rightarrow> auth_state \<Rightarrow> auth_state" where
  "Unlock ip st = st\<lparr>m_lockedIPList := erase_first (same_ip ip) (m_lockedIPList st)\<rparr>"

text \<open>
  \<^verbatim>\<open>Auth\<close>: refresh the credentials, refuse a locked client, check, then lock or unlock. \<open>t1\<close> is
  the clock at the test of the lock, \<open>t2\<close> the clock at the recording of a failure.
\<close>

definition Auth :: "crypt_api \<Rightarrow> xml_doc \<Rightarrow> u64 \<Rightarrow> u64 \<Rightarrow> string \<Rightarrow> string \<Rightarrow> string \<Rightarrow> auth_state \<Rightarrow> auth_state \<times> int" where
  "Auth C doc t1 t2 ip usr pw st =
     (case GetValueString doc CFG_SYSTEM_SECTION CFG_USER_NAME of
        Inl _ \<Rightarrow> (st, ERROR_COMMON_READ_CONFIG_FAILED)
      | Inr u \<Rightarrow> (let st = st\<lparr>m_strUsr := u\<rparr> in
          (case GetValueString doc CFG_SYSTEM_SECTION CFG_HASH_VALUE of
             Inl _ \<Rightarrow> (st, ERROR_COMMON_READ_CONFIG_FAILED)
           | Inr p \<Rightarrow> (let st = st\<lparr>m_strPwd := p\<rparr>; (st, locked) = IsLocked t1 ip st in
               (if locked then (st, ERROR_COMMON_CLIENT_IS_LOCKED)
                else if Check C doc usr pw st then (Unlock ip st, MP_SUCCESS)
                else (Lock t2 ip st, ERROR_COMMON_USER_OR_PASSWD_IS_WRONG))))))"

section \<open>The abstract lock-out policy\<close>

text \<open>
  What the list means for one client: no recent failure, some failures with the time of the last
  one, or locked since a given time.
\<close>

datatype client = Fresh | Failed int u64 | Locked u64

definition client_of :: "locked_client_info \<Rightarrow> client" where
  "client_of e = (if isLocked e then Locked (lockedTime e) else Failed (failedTimes e) (lastFailedTime e))"

definition status :: "auth_state \<Rightarrow> string \<Rightarrow> client" where
  "status st ip = (case List.find (same_ip ip) (m_lockedIPList st) of None \<Rightarrow> Fresh | Some e \<Rightarrow> client_of e)"

definition fail_client :: "u64 \<Rightarrow> client \<Rightarrow> client" where
  "fail_client t c =
     (case c of
        Failed n t0 \<Rightarrow> (let n' = (if t - t0 \<ge> CONTINUOUS_FAILURE_TIME then 1 else n + 1) in
                        if n' \<ge> MAX_TRY_TIME then Locked t else Failed n' t)
      | _ \<Rightarrow> Failed 1 t)"

fun expired :: "u64 \<Rightarrow> client \<Rightarrow> bool" where
  "expired t (Locked t0) \<longleftrightarrow> t - t0 \<ge> LOCKED_TIME"
| "expired t _ \<longleftrightarrow> True"

text \<open>One attempt of the policy: refused while the lock lasts, forgotten on success, counted on failure.\<close>

definition policy :: "u64 \<Rightarrow> u64 \<Rightarrow> bool \<Rightarrow> client \<Rightarrow> client \<times> int" where
  "policy t1 t2 good c =
     (if \<not> expired t1 c then (c, ERROR_COMMON_CLIENT_IS_LOCKED)
      else if good then (Fresh, MP_SUCCESS)
      else (fail_client t2 c, ERROR_COMMON_USER_OR_PASSWD_IS_WRONG))"

text \<open>
  The invariant of the list: one entry per client, an entry is locked exactly from the third
  failure on, so the counter never leaves \<open>1..3\<close>.
\<close>

definition entry_ok :: "locked_client_info \<Rightarrow> bool" where
  "entry_ok e \<longleftrightarrow> 1 \<le> failedTimes e \<and> failedTimes e \<le> MAX_TRY_TIME \<and>
     (isLocked e \<longleftrightarrow> failedTimes e = MAX_TRY_TIME) \<and> (\<not> isLocked e \<longrightarrow> lockedTime e = 0)"

definition auth_inv :: "auth_state \<Rightarrow> bool" where
  "auth_inv st \<longleftrightarrow> distinct (map strClientIP (m_lockedIPList st)) \<and> (\<forall>e\<in>set (m_lockedIPList st). entry_ok e)"

lemma lock_entry_ip [simp]: "strClientIP (lock_entry now e) = strClientIP e"
  by (simp add: lock_entry_def Let_def)

lemma lock_entry_ok: "entry_ok e \<Longrightarrow> entry_ok (lock_entry now e)"
  by (auto simp: entry_ok_def lock_entry_def Let_def)

lemma client_of_lock_entry: "\<not> isLocked e \<Longrightarrow> client_of (lock_entry now e) = fail_client now (client_of e)"
  by (simp add: client_of_def lock_entry_def fail_client_def Let_def)

lemma auth_inv_Lock: "auth_inv st \<Longrightarrow> auth_inv (Lock now ip st)"
  by (auto simp: auth_inv_def Lock_def find_eq_None map_update_first entry_ok_def [of "\<lparr>isLocked = _, failedTimes = _, lastFailedTime = _, lockedTime = _, strClientIP = _\<rparr>"]
      dest!: in_update_first intro: lock_entry_ok split: option.splits)

lemma auth_inv_Unlock: "auth_inv st \<Longrightarrow> auth_inv (Unlock ip st)"
  by (auto simp: auth_inv_def Unlock_def distinct_map_erase_first dest: in_erase_first)

lemma auth_inv_IsLocked: "auth_inv st \<Longrightarrow> auth_inv (fst (IsLocked now ip st))"
  by (auto simp: auth_inv_def IsLocked_def distinct_map_erase_first dest: in_erase_first split: option.splits)

lemma auth_inv_cred [simp]: "auth_inv (st\<lparr>m_strUsr := u\<rparr>) = auth_inv st" "auth_inv (st\<lparr>m_strPwd := p\<rparr>) = auth_inv st"
  by (simp_all add: auth_inv_def)

lemma status_cred [simp]: "status (st\<lparr>m_strUsr := u\<rparr>) = status st" "status (st\<lparr>m_strPwd := p\<rparr>) = status st"
  by (simp_all add: status_def fun_eq_iff)

lemma status_Unlock: "auth_inv st \<Longrightarrow> status (Unlock ip st) = (status st)(ip := Fresh)"
  by (auto simp: fun_eq_iff status_def Unlock_def auth_inv_def find_erase_first_key find_key_erase_other)

lemma status_Lock:
  assumes "\<And>e. List.find (same_ip ip) (m_lockedIPList st) = Some e \<Longrightarrow> \<not> isLocked e"
  shows "status (Lock now ip st) = (status st)(ip := fail_client now (status st ip))"
  using assms
  by (auto simp: fun_eq_iff status_def Lock_def find_append find_key_update_same find_key_update_other
      client_of_lock_entry fail_client_def [of _ Fresh] client_of_def [of "\<lparr>isLocked = _, failedTimes = _, lastFailedTime = _, lockedTime = _, strClientIP = _\<rparr>"] split: option.splits)

text \<open>What \<^const>\<open>IsLocked\<close> answers and leaves behind, in terms of the policy.\<close>

lemma IsLocked_answer:
  "snd (IsLocked now ip st) \<longleftrightarrow> \<not> expired now (status st ip)"
  by (auto simp: IsLocked_def status_def client_of_def split: option.splits)

lemma status_IsLocked:
  assumes "auth_inv st"
  shows "status (fst (IsLocked now ip st)) =
    (case status st ip of Locked t0 \<Rightarrow> if expired now (Locked t0) then (status st)(ip := Fresh) else status st | _ \<Rightarrow> status st)"
  using assms status_Unlock [OF assms, of ip]
  by (auto simp: IsLocked_def Unlock_def status_def [of st ip] client_of_def split: option.splits)

lemma IsLocked_unlocked:
  assumes "auth_inv st" "\<not> snd (IsLocked now ip st)" "List.find (same_ip ip) (m_lockedIPList (fst (IsLocked now ip st))) = Some e"
  shows "\<not> isLocked e"
  using assms by (auto simp: IsLocked_def auth_inv_def find_erase_first_key split: option.splits if_splits)

lemma IsLocked_cred [simp]: "m_strUsr (fst (IsLocked now ip st)) = m_strUsr st" "m_strPwd (fst (IsLocked now ip st)) = m_strPwd st"
  by (auto simp: IsLocked_def split: option.splits)

section \<open>Auth implements the policy\<close>

text \<open>Whether the configuration is readable, and whether it accepts a pair of credentials.\<close>

definition cfg_ok :: "xml_doc \<Rightarrow> bool" where
  "cfg_ok doc \<longleftrightarrow> (\<exists>u p. GetValueString doc CFG_SYSTEM_SECTION CFG_USER_NAME = Inr u \<and>
                       GetValueString doc CFG_SYSTEM_SECTION CFG_HASH_VALUE = Inr p)"

definition accepts :: "crypt_api \<Rightarrow> xml_doc \<Rightarrow> string \<Rightarrow> string \<Rightarrow> bool" where
  "accepts C doc usr pw =
     (case (GetValueString doc CFG_SYSTEM_SECTION CFG_USER_NAME, GetValueString doc CFG_SYSTEM_SECTION CFG_HASH_VALUE) of
        (Inr u, Inr p) \<Rightarrow> Check C doc usr pw \<lparr>m_strUsr = u, m_strPwd = p, m_lockedIPList = []\<rparr>
      | _ \<Rightarrow> False)"

lemma Check_cred:
  "m_strUsr st = m_strUsr st' \<Longrightarrow> m_strPwd st = m_strPwd st' \<Longrightarrow> Check C doc usr pw st = Check C doc usr pw st'"
  by (simp add: Check_def split: sum.split option.split)

lemma auth_inv_Auth: "auth_inv st \<Longrightarrow> auth_inv (fst (Auth C doc t1 t2 ip usr pw st))"
  by (auto simp: Auth_def Let_def case_prod_unfold auth_inv_Unlock auth_inv_Lock auth_inv_IsLocked split: sum.split)

lemma Auth_unreadable:
  "\<not> cfg_ok doc \<Longrightarrow> status (fst (Auth C doc t1 t2 ip usr pw st)) = status st \<and>
     snd (Auth C doc t1 t2 ip usr pw st) = ERROR_COMMON_READ_CONFIG_FAILED"
  by (auto simp: Auth_def cfg_ok_def Let_def split: sum.splits)

text \<open>With a readable configuration, \<^const>\<open>Auth\<close> is its last three tests on the refreshed state.\<close>

lemma Auth_unfold:
  assumes "cfg_ok doc"
  obtains st0 where "status st0 = status st" "auth_inv st0 = auth_inv st"
    "Auth C doc t1 t2 ip usr pw st =
       (let st1 = fst (IsLocked t1 ip st0) in
        if snd (IsLocked t1 ip st0) then (st1, ERROR_COMMON_CLIENT_IS_LOCKED)
        else if accepts C doc usr pw then (Unlock ip st1, MP_SUCCESS)
        else (Lock t2 ip st1, ERROR_COMMON_USER_OR_PASSWD_IS_WRONG))"
proof -
  from assms obtain u p where up:
    "GetValueString doc CFG_SYSTEM_SECTION CFG_USER_NAME = Inr u"
    "GetValueString doc CFG_SYSTEM_SECTION CFG_HASH_VALUE = Inr p"
    by (auto simp: cfg_ok_def)
  let ?st = "st\<lparr>m_strUsr := u, m_strPwd := p\<rparr>"
  have "Check C doc usr pw (fst (IsLocked t1 ip ?st)) = accepts C doc usr pw"
    by (simp add: accepts_def up) (rule Check_cred; simp)
  then show thesis
    by (intro that [of ?st]) (simp_all add: Auth_def up Let_def case_prod_unfold)
qed

lemma Auth_refines:
  assumes "auth_inv st" "cfg_ok doc"
  shows "status (fst (Auth C doc t1 t2 ip usr pw st)) =
           (status st)(ip := fst (policy t1 t2 (accepts C doc usr pw) (status st ip)))" (is ?S)
    and "snd (Auth C doc t1 t2 ip usr pw st) = snd (policy t1 t2 (accepts C doc usr pw) (status st ip))" (is ?R)
proof -
  obtain st0 where st0: "status st0 = status st" "auth_inv st0"
    "Auth C doc t1 t2 ip usr pw st =
       (let st1 = fst (IsLocked t1 ip st0) in
        if snd (IsLocked t1 ip st0) then (st1, ERROR_COMMON_CLIENT_IS_LOCKED)
        else if accepts C doc usr pw then (Unlock ip st1, MP_SUCCESS)
        else (Lock t2 ip st1, ERROR_COMMON_USER_OR_PASSWD_IS_WRONG))"
    using Auth_unfold [OF assms(2)] assms(1) by metis
  let ?st1 = "fst (IsLocked t1 ip st0)"
  have inv1: "auth_inv ?st1" using st0(2) by (rule auth_inv_IsLocked)
  have unl: "\<not> snd (IsLocked t1 ip st0) \<Longrightarrow> status (Lock t2 ip ?st1) = (status ?st1)(ip := fail_client t2 (status ?st1 ip))"
    using IsLocked_unlocked [OF st0(2)] by (intro status_Lock) blast
  note facts = st0(3) Let_def IsLocked_answer status_IsLocked [OF st0(2)] status_Unlock [OF inv1] st0(1)
    policy_def
  show ?R by (simp add: facts)
  show ?S
  proof (cases "snd (IsLocked t1 ip st0)")
    case True
    then show ?thesis by (cases "status st ip") (auto simp: facts fun_eq_iff)
  next
    case False
    then show ?thesis
      by (cases "status st ip") (simp_all add: facts unl [OF False] fail_client_def fun_eq_iff)
  qed
qed

section \<open>Runs of attempts\<close>

record attempt =
  at_test :: u64
  at_fail :: u64
  at_ip :: string
  at_usr :: string
  at_pw :: string

fun auth_run :: "crypt_api \<Rightarrow> xml_doc \<Rightarrow> attempt list \<Rightarrow> auth_state \<Rightarrow> auth_state \<times> (string \<times> int) list" where
  "auth_run C doc [] st = (st, [])"
| "auth_run C doc (a # as) st =
     (let (st1, rc) = Auth C doc (at_test a) (at_fail a) (at_ip a) (at_usr a) (at_pw a) st;
          (st2, rcs) = auth_run C doc as st1
      in (st2, (at_ip a, rc) # rcs))"

definition attempt_client :: "crypt_api \<Rightarrow> xml_doc \<Rightarrow> attempt \<Rightarrow> client \<Rightarrow> client" where
  "attempt_client C doc a c = fst (policy (at_test a) (at_fail a) (accepts C doc (at_usr a) (at_pw a)) c)"

lemma auth_run_inv: "auth_inv st \<Longrightarrow> auth_inv (fst (auth_run C doc as st))"
proof (induction as arbitrary: st)
  case Nil
  then show ?case by simp
next
  case (Cons a as)
  from Cons.IH [OF auth_inv_Auth [OF Cons.prems]] show ?case
    by (simp add: Let_def case_prod_unfold)
qed

lemma auth_run_status:
  assumes "cfg_ok doc"
  shows "auth_inv st \<Longrightarrow> status (fst (auth_run C doc as st)) ip =
     fold (attempt_client C doc) (filter (\<lambda>a. at_ip a = ip) as) (status st ip)"
proof (induction as arbitrary: st)
  case Nil
  then show ?case by simp
next
  case (Cons a as)
  from Cons.IH [OF auth_inv_Auth [OF Cons.prems]] show ?case
    by (simp add: Let_def case_prod_unfold Auth_refines(1) [OF Cons.prems assms] attempt_client_def)
qed

lemma auth_run_locked:
  assumes "cfg_ok doc"
  shows "auth_inv st \<Longrightarrow> status st ip = Locked T \<Longrightarrow>
     \<forall>a\<in>set as. at_ip a = ip \<longrightarrow> at_test a - T < LOCKED_TIME \<Longrightarrow>
     (\<forall>r\<in>set (snd (auth_run C doc as st)). fst r = ip \<longrightarrow> snd r = ERROR_COMMON_CLIENT_IS_LOCKED) \<and>
     status (fst (auth_run C doc as st)) ip = Locked T"
proof (induction as arbitrary: st)
  case Nil
  then show ?case by simp
next
  case (Cons a as)
  let ?st1 = "fst (Auth C doc (at_test a) (at_fail a) (at_ip a) (at_usr a) (at_pw a) st)"
  have step: "status ?st1 ip = Locked T \<and> (at_ip a = ip \<longrightarrow>
      snd (Auth C doc (at_test a) (at_fail a) (at_ip a) (at_usr a) (at_pw a) st) = ERROR_COMMON_CLIENT_IS_LOCKED)"
    using Cons.prems by (auto simp: Auth_refines [OF Cons.prems(1) assms] policy_def)
  from step have "status ?st1 ip = Locked T" by blast
  from Cons.IH [OF auth_inv_Auth [OF Cons.prems(1)] this] Cons.prems(3) step show ?case
    by (simp add: Let_def case_prod_unfold)
qed

end
