(* ===== verification/Demo.thy ===== *)
theory Demo
  imports FreezeTable Authentication
begin

text \<open>
  Concrete inputs: a small JSON type, environments of the freeze monitor and states on which the
  theorems of the root theory are applied.
\<close>

section \<open>JSON\<close>

datatype dj = DNull | DInt int | DStr string | DArr "dj list" | DObj "(string \<times> dj) list"

definition dj_member :: "dj \<Rightarrow> string \<Rightarrow> dj" where
  "dj_member v k = (case v of DObj kvs \<Rightarrow> (case map_of kvs k of None \<Rightarrow> DNull | Some x \<Rightarrow> x) | _ \<Rightarrow> DNull)"

definition dj_api :: "dj json_api" where
  "dj_api =
     \<lparr>isArray = (\<lambda>v. case v of DArr _ \<Rightarrow> True | _ \<Rightarrow> False),
      isObject = (\<lambda>v. case v of DObj _ \<Rightarrow> True | _ \<Rightarrow> False),
      isString = (\<lambda>v. case v of DStr _ \<Rightarrow> True | _ \<Rightarrow> False),
      isInt = (\<lambda>v. case v of DInt _ \<Rightarrow> True | _ \<Rightarrow> False),
      isMember = (\<lambda>v k. case v of DObj kvs \<Rightarrow> map_of kvs k \<noteq> None | _ \<Rightarrow> False),
      member = dj_member,
      asString = (\<lambda>v. case v of DStr s \<Rightarrow> s | _ \<Rightarrow> []),
      asInt = (\<lambda>v. case v of DInt i \<Rightarrow> i | _ \<Rightarrow> 0),
      asInt64 = (\<lambda>v. case v of DInt i \<Rightarrow> i | _ \<Rightarrow> 0),
      arr_size = (\<lambda>v. case v of DArr vs \<Rightarrow> length vs | _ \<Rightarrow> 0),
      arr_at = (\<lambda>v i. case v of DArr vs \<Rightarrow> vs ! i | _ \<Rightarrow> DNull)\<rparr>"

definition demo_body :: dj where
  "demo_body = DObj [(''instName'', DStr ''orcl''), (''dbName'', DStr ''db1'')]"

section \<open>The environment of the monitor\<close>

definition demo_gp :: get_param where
  "demo_gp name envp =
     (case List.find (\<lambda>s. take (length name + 1) s = name @ ''='') envp of
        None \<Rightarrow> None | Some s \<Rightarrow> Some (drop (length name + 1) s))"

text \<open>
  A parser that knows the text of one body and of one disk; \<open>env_clock\<close> always answers 1000.
\<close>

definition demo_env :: "(dj, row list, string \<times> sql_value list) ft_env" where
  "demo_env =
     \<lparr>env_json = dj_api,
      env_parse = (\<lambda>s. if s = ''body'' then Some demo_body
                      else if s = disk_json ''C'' then Some (DObj [(''diskNames'', DArr [DStr ''C''])]) else None),
      env_write = (\<lambda>j. if j = demo_body then ''body'' else []),
      env_null = DNull,
      env_getparam = demo_gp,
      env_sql = simple_sqlite freeze_known freeze_sem,
      env_dbpath = ''/opt/db/AgentDB.db'',
      env_encrypt = rev, env_decrypt = rev,
      env_file_exists = (\<lambda>s. True),
      env_binpath = ''/opt/bin'',
      env_clock = (\<lambda>n. 1000)\<rparr>"

lemma demo_db: "freeze_db_ok demo_env"
  using simple_sqlite_ok by (auto simp: freeze_db_ok_def demo_env_def)

section \<open>A state with one frozen database\<close>

text \<open>
  An Oracle database frozen at second 100, due since second 160. The object owns the FastCGI object
  at address 7; address 3 belongs to the receive thread.
\<close>

definition demo_req :: "dj request_msg" where
  "demo_req = new_request demo_body 7"

definition demo_obj :: "dj monitor_obj" where
  "demo_obj = \<lparr>pReqMsg = demo_req, uiStatus = MONITOR_STATUS_FREEZED, ulBeginTime = 100, strInstanceName = ''orcl'',
     strDBName = ''db1'', iAppType = TYPE_APP_ORACLE, uiLoopTime = THAW_WAIT_TIME\<rparr>"

definition demo_world :: "(dj, row list) ft_world" where
  "demo_world =
     \<lparr>w_comm = \<lparr>m_ReqHandlerTable = [\<lparr>pFcgxReq = Some 3, isUsed = True\<rparr>], m_reqMsgQueue = [], m_rspMsgQueue = []\<rparr>,
      w_heap = [7 \<mapsto> [''HTTP_DBUSERNAME=u'', ''HTTP_DBPASSWORD=p''], 3 \<mapsto> []],
      w_next = 8, w_new = [], w_db = \<lparr>m_pDB = None, m_stringList = [], dbfile = []\<rparr>,
      w_reads = 0, w_alarms = [], w_ub = False, m_vecMonitors = [demo_obj], m_iCurrIndex = 0\<rparr>"

lemma demo_world_ok: "monitors_ok demo_world"
  by (simp add: monitors_ok_def heap_ok_def owned_def handlers_def live_def demo_world_def demo_obj_def demo_req_def
      fcgx_of_def new_request_def)

lemma demo_obj_routed: "routed dj_api demo_obj"
  by (auto simp: routed_def supported_def type_family_def demo_obj_def demo_req_def new_request_def
      GetRequestInstanceName_def GetRequestDbName_def GetJsonString_def dj_api_def dj_member_def demo_body_def
      dest: familiesD)

definition freeze_request :: "dj request_msg" where
  "freeze_request = (new_request demo_body 3)\<lparr>m_url := empty_url\<lparr>m_procURL := REST_ORACLE_FREEZE\<rparr>\<rparr>"

definition demo_answer :: "int \<Rightarrow> dj \<Rightarrow> dj response_msg" where
  "demo_answer rc body = (CResponseMsg_internal body)\<lparr>m_lRetCode := rc\<rparr>"

end
