(* ===== verification/StdMap.thy ===== *)
theory StdMap
  imports Prelude "HOL-Library.Char_ord" "HOL-Library.List_Lexorder"
begin

text \<open>
  \<^verbatim>\<open>std::map\<close> with string keys, as the plugin manager and the plugins use it: the list of its
  entries in the order of iteration, which is the byte order of the keys. The locale holds what
  the clients rely on; it is interpreted by the sorted list.
\<close>

locale dict =
  fixes empty :: 'm
    and lookup :: "'m \<Rightarrow> 'k \<Rightarrow> 'v option"
    and update :: "'k \<Rightarrow> 'v \<Rightarrow> 'm \<Rightarrow> 'm"
    and erase :: "'k \<Rightarrow> 'm \<Rightarrow> 'm"
    and entries :: "'m \<Rightarrow> ('k \<times> 'v) list"
    and invar :: "'m \<Rightarrow> bool"
  assumes lookup_empty: "lookup empty k = None"
    and lookup_update: "invar m \<Longrightarrow> lookup (update k v m) k' = (if k' = k then Some v else lookup m k')"
    and lookup_erase: "invar m \<Longrightarrow> lookup (erase k m) k' = (if k' = k then None else lookup m k')"
    and entries_lookup: "invar m \<Longrightarrow> (k, v) \<in> set (entries m) \<longleftrightarrow> lookup m k = Some v"
    and invar_empty: "invar empty"
    and invar_update: "invar m \<Longrightarrow> invar (update k v m)"
    and invar_erase: "invar m \<Longrightarrow> invar (erase k m)"
begin

text \<open>A run of insertions from a list of entries: the last one of a key is found.\<close>

lemma invar_fold: "invar m \<Longrightarrow> invar (fold (\<lambda>(k, v). update k v) kvs m)"
  by (induction kvs arbitrary: m) (auto simp: invar_update)

lemma lookup_fold:
  "invar m \<Longrightarrow> lookup (fold (\<lambda>(k, v). update k v) kvs m) k =
     (case map_of (rev kvs) k of None \<Rightarrow> lookup m k | Some v \<Rightarrow> Some v)"
proof (induction kvs arbitrary: m)
  case Nil
  then show ?case by simp
next
  case (Cons kv kvs)
  obtain k' v where kv: "kv = (k', v)" by fastforce
  show ?case
    using Cons.prems
    by (auto simp: kv Cons.IH invar_update lookup_update map_add_def split: option.splits)
qed

lemma entries_update_other:
  "invar m \<Longrightarrow> lookup m k = None \<Longrightarrow> set (entries (update k v m)) = insert (k, v) (set (entries m))"
  by (auto simp: entries_lookup lookup_update invar_update split: if_splits)

lemma entries_erase:
  "invar m \<Longrightarrow> set (entries (erase k m)) = {(k', v) \<in> set (entries m). k' \<noteq> k}"
  by (auto simp: entries_lookup lookup_erase invar_erase split: if_splits)

end

section \<open>The sorted list\<close>

type_synonym ('k, 'v) std_map = "('k \<times> 'v) list"

fun map_put :: "'k::linorder \<Rightarrow> 'v \<Rightarrow> ('k, 'v) std_map \<Rightarrow> ('k, 'v) std_map" where
  "map_put k v [] = [(k, v)]"
| "map_put k v ((k', v') # m) =
     (if k < k' then (k, v) # (k', v') # m
      else if k = k' then (k, v) # m
      else (k', v') # map_put k v m)"

definition map_del :: "'k \<Rightarrow> ('k, 'v) std_map \<Rightarrow> ('k, 'v) std_map" where
  "map_del k m = erase_first (\<lambda>e. fst e = k) m"

abbreviation map_sorted :: "('k::linorder, 'v) std_map \<Rightarrow> bool" where
  "map_sorted m \<equiv> sorted_wrt (<) (map fst m)"

lemma map_put_keys: "set (map fst (map_put k v m)) = insert k (set (map fst m))"
  by (induction k v m rule: map_put.induct) auto

lemma map_put_sorted: "map_sorted m \<Longrightarrow> map_sorted (map_put k v m)"
proof (induction k v m rule: map_put.induct)
  case (1 k v)
  then show ?case by simp
next
  case (2 k v k' v' m)
  then show ?case
    using map_put_keys [of k v m] by (auto simp del: set_map dest: less_trans)
qed

lemma map_of_map_put: "map_sorted m \<Longrightarrow> map_of (map_put k v m) = (map_of m)(k \<mapsto> v)"
  by (induction k v m rule: map_put.induct) (auto simp: fun_eq_iff)

lemma map_sorted_distinct: "map_sorted m \<Longrightarrow> distinct (map fst m)"
  by (induction m) auto

lemma map_del_filter: "map_sorted m \<Longrightarrow> map_del k m = filter (\<lambda>e. fst e \<noteq> k) m"
  by (simp add: map_del_def erase_first_key_filter map_sorted_distinct)

lemma map_del_sorted: "map_sorted m \<Longrightarrow> map_sorted (map_del k m)"
  by (simp add: map_del_filter sorted_wrt_map sorted_wrt_filter)

lemma map_of_map_del: "map_sorted m \<Longrightarrow> map_of (map_del k m) k' = (if k' = k then None else map_of m k')"
  by (induction m) (auto simp: map_del_filter)

text \<open>The entries as a multiset, for the clients that account for what the values own.\<close>

lemma mset_map_put: "map_of m k = None \<Longrightarrow> mset (map_put k v m) = add_mset (k, v) (mset m)"
  by (induction k v m rule: map_put.induct) (auto split: if_splits)

lemma mset_map_del: "map_of m k = Some v \<Longrightarrow> mset m = add_mset (k, v) (mset (map_del k m))"
  by (induction m) (auto simp: map_del_def split: if_splits)

interpretation std_map: dict "[]" map_of map_put map_del "\<lambda>m. m" map_sorted
  by unfold_locales
    (auto simp: map_of_map_put map_of_map_del map_put_sorted map_del_sorted map_sorted_distinct
      simp del: sorted_wrt_map split: if_splits)

end
