(* ===== verification/FileSearcher.thy ===== *)
theory FileSearcher
  imports Prelude
begin

text \<open>
  \<^verbatim>\<open>CFileSearcher\<close> (\<^verbatim>\<open>src/src/common/FileSearcher.cpp\<close>): the search path of the plugin libraries, a
  list of directories read from a text with colons (Linux) and searched in order.
\<close>

record searcher =
  m_paths :: "string list"
  m_strPath :: string

abbreviation PATH_SEPCH :: char where "PATH_SEPCH \<equiv> CHR '':''"
abbreviation PATH_SEPARATOR :: string where "PATH_SEPARATOR \<equiv> ''/''"

abbreviation is_space :: "char \<Rightarrow> bool" where "is_space c \<equiv> c = CHR '' ''"

text \<open>\<^verbatim>\<open>CMpFile::FileExist\<close> is a successful \<^verbatim>\<open>stat\<close>; the file system is a parameter.\<close>

type_synonym file_system = "string \<Rightarrow> bool"

definition FileExist :: "file_system \<Rightarrow> string \<Rightarrow> bool" where
  "FileExist fs p \<longleftrightarrow> fs p"

text \<open>\<^verbatim>\<open>SNPRINTF_S\<close> with a count of \<open>n\<close> characters: a longer text is an error.\<close>

definition SNPRINTF_S :: "nat \<Rightarrow> string \<Rightarrow> string option" where
  "SNPRINTF_S n s = (if length s \<le> n then Some s else None)"

definition RebuildPathString :: "searcher \<Rightarrow> searcher" where
  "RebuildPathString s = s\<lparr>m_strPath := foldl (\<lambda>acc (i, p). (if i > 0 then acc @ [PATH_SEPCH] else acc) @ p) []
     (zip [0..<length (m_paths s)] (m_paths s))\<rparr>"

text \<open>
  \<^verbatim>\<open>AddPath(pszDir, sz)\<close>: the \<open>sz\<close> characters without the spaces around them and without the
  separators at the end, the last character being kept in any case.
\<close>

fun drop_seps :: "string \<Rightarrow> string" where
  "drop_seps [] = []"
| "drop_seps [c] = [c]"
| "drop_seps (c # d # cs) = (if c = CHR ''/'' then drop_seps (d # cs) else c # d # cs)"

definition AddPath_sz :: "string \<Rightarrow> searcher \<Rightarrow> searcher" where
  "AddPath_sz dir s =
     (if dir = [] then s
      else let p = rev (dropWhile is_space (rev (dropWhile is_space dir)))
           in if p = [] then s else s\<lparr>m_paths := m_paths s @ [rev (drop_seps (rev p))]\<rparr>)"

definition AddPath :: "string \<Rightarrow> searcher \<Rightarrow> searcher" where
  "AddPath dir s = RebuildPathString (AddPath_sz dir s)"

function set_path_loop :: "string \<Rightarrow> searcher \<Rightarrow> searcher" where
  "set_path_loop [] s = s"
| "set_path_loop (c # cs) s =
     (let ptr = dropWhile is_space (c # cs);
          p = takeWhile (\<lambda>c. c \<noteq> PATH_SEPCH) ptr;
          rest = dropWhile (\<lambda>c. c \<noteq> PATH_SEPCH) ptr
      in set_path_loop (drop 1 rest) (AddPath_sz p s))"
  by pat_completeness auto
termination
proof (relation "measure (\<lambda>(ptr, s). length ptr)", goal_cases)
  case 1
  then show ?case by simp
next
  case (2 c cs s ptr p rest)
  have "length rest \<le> length ptr" "length ptr \<le> Suc (length cs)"
    using length_dropWhile_le [of "\<lambda>c. c \<noteq> PATH_SEPCH" ptr] length_dropWhile_le [of is_space "c # cs"] 2 by simp_all
  then show ?case by (cases rest) auto
qed

definition SetPath :: "string \<Rightarrow> searcher \<Rightarrow> searcher" where
  "SetPath text s = RebuildPathString (set_path_loop text (s\<lparr>m_paths := []\<rparr>))"

definition Clear_paths :: "searcher \<Rightarrow> searcher" where
  "Clear_paths s = s\<lparr>m_paths := [], m_strPath := []\<rparr>"

section \<open>Searching\<close>

definition IsExists :: "file_system \<Rightarrow> string \<Rightarrow> string \<Rightarrow> string option" where
  "IsExists fs file dir =
     (case SNPRINTF_S 1023 (dir @ PATH_SEPARATOR @ file) of
        None \<Rightarrow> None
      | Some szFile \<Rightarrow> if FileExist fs szFile then Some szFile else None)"

fun search_first :: "file_system \<Rightarrow> string \<Rightarrow> string list \<Rightarrow> string option" where
  "search_first fs file [] = None"
| "search_first fs file (d # ds) =
     (case IsExists fs file d of Some p \<Rightarrow> Some p | None \<Rightarrow> search_first fs file ds)"

definition Search :: "file_system \<Rightarrow> string \<Rightarrow> searcher \<Rightarrow> string option" where
  "Search fs file s = search_first fs file (m_paths s)"

text \<open>The second \<^verbatim>\<open>Search\<close> appends every match; it reports whether there was one.\<close>

definition Search_all :: "file_system \<Rightarrow> string \<Rightarrow> searcher \<Rightarrow> string list \<Rightarrow> string list \<times> bool" where
  "Search_all fs file s flist =
     (let found = List.map_filter (IsExists fs file) (m_paths s) in (flist @ found, length found > 0))"

lemma Search_head_of_all:
  "Search fs file s = (case fst (Search_all fs file s []) of [] \<Rightarrow> None | p # _ \<Rightarrow> Some p)"
proof -
  have "search_first fs file ds =
      (case List.map_filter (IsExists fs file) ds of [] \<Rightarrow> None | p # _ \<Rightarrow> Some p)" for ds
    by (induction ds) (auto simp: map_filter_simps split: option.splits)
  then show ?thesis by (simp add: Search_def Search_all_def Let_def)
qed

lemma Search_exists: "Search fs file s = Some p \<Longrightarrow> fs p \<and> (\<exists>d\<in>set (m_paths s). p = d @ PATH_SEPARATOR @ file)"
proof -
  have "search_first fs file ds = Some p \<Longrightarrow> fs p \<and> (\<exists>d\<in>set ds. p = d @ PATH_SEPARATOR @ file)" for ds
    by (induction ds)
      (auto simp: IsExists_def SNPRINTF_S_def FileExist_def split: option.splits if_splits)
  then show "Search fs file s = Some p \<Longrightarrow> ?thesis" by (simp add: Search_def)
qed

section \<open>The path text\<close>

text \<open>A directory that is its own normal form, and the text of a list of them.\<close>

definition normal_dir :: "string \<Rightarrow> bool" where
  "normal_dir d \<longleftrightarrow> d \<noteq> [] \<and> PATH_SEPCH \<notin> set d \<and> \<not> is_space (hd d) \<and> \<not> is_space (last d) \<and>
     (last d = CHR ''/'' \<longrightarrow> length d = 1)"

fun join_path :: "string list \<Rightarrow> string" where
  "join_path [] = []"
| "join_path [p] = p"
| "join_path (p # q # ps) = p @ PATH_SEPCH # join_path (q # ps)"

lemma join_path_snoc: "ps \<noteq> [] \<Longrightarrow> join_path (ps @ [p]) = join_path ps @ PATH_SEPCH # p"
  by (induction ps rule: join_path.induct) auto

lemma RebuildPathString_eq: "RebuildPathString s = s\<lparr>m_strPath := join_path (m_paths s)\<rparr>"
proof -
  have "foldl (\<lambda>acc (i, p). (if i > 0 then acc @ [PATH_SEPCH] else acc) @ p) [] (zip [0..<length ps] ps) = join_path ps"
    for ps :: "string list"
  proof (induction ps rule: rev_induct)
    case Nil
    then show ?case by simp
  next
    case (snoc p ps)
    then show ?case by (cases "ps = []") (simp_all add: join_path_snoc)
  qed
  then show ?thesis by (simp add: RebuildPathString_def)
qed

lemma dropWhile_hd: "xs \<noteq> [] \<Longrightarrow> \<not> P (hd xs) \<Longrightarrow> dropWhile P xs = xs"
  by (cases xs) auto

lemma drop_seps_id: "xs \<noteq> [] \<Longrightarrow> (hd xs = CHR ''/'' \<longrightarrow> length xs = 1) \<Longrightarrow> drop_seps xs = xs"
  by (cases xs rule: drop_seps.cases) auto

lemma AddPath_sz_normal: "normal_dir d \<Longrightarrow> AddPath_sz d s = s\<lparr>m_paths := m_paths s @ [d]\<rparr>"
  by (simp add: AddPath_sz_def normal_dir_def dropWhile_hd drop_seps_id hd_rev Let_def)

lemma set_path_loop_step:
  "normal_dir d \<Longrightarrow> set_path_loop (d @ PATH_SEPCH # t) s = set_path_loop t (s\<lparr>m_paths := m_paths s @ [d]\<rparr>)"
proof -
  assume d: "normal_dir d"
  then obtain c cs where c: "d = c # cs" by (auto simp: normal_dir_def neq_Nil_conv)
  have drop: "dropWhile is_space (d @ PATH_SEPCH # t) = d @ PATH_SEPCH # t"
    using d by (auto simp: normal_dir_def c)
  have take: "takeWhile (\<lambda>c. c \<noteq> PATH_SEPCH) (d @ PATH_SEPCH # t) = d"
    "dropWhile (\<lambda>c. c \<noteq> PATH_SEPCH) (d @ PATH_SEPCH # t) = PATH_SEPCH # t"
    using d by (auto simp: normal_dir_def takeWhile_append dropWhile_append)
  have "set_path_loop (d @ PATH_SEPCH # t) s =
      set_path_loop (drop 1 (dropWhile (\<lambda>c. c \<noteq> PATH_SEPCH) (dropWhile is_space (d @ PATH_SEPCH # t))))
        (AddPath_sz (takeWhile (\<lambda>c. c \<noteq> PATH_SEPCH) (dropWhile is_space (d @ PATH_SEPCH # t))) s)"
    unfolding c by (simp only: append_Cons set_path_loop.simps Let_def)
  then show ?thesis by (simp add: drop take AddPath_sz_normal [OF d])
qed

lemma set_path_loop_last:
  "normal_dir d \<Longrightarrow> set_path_loop d s = s\<lparr>m_paths := m_paths s @ [d]\<rparr>"
proof -
  assume d: "normal_dir d"
  then obtain c cs where c: "d = c # cs" by (auto simp: normal_dir_def neq_Nil_conv)
  have drop: "dropWhile is_space d = d" using d by (auto simp: normal_dir_def c)
  have take: "takeWhile (\<lambda>c. c \<noteq> PATH_SEPCH) d = d" "dropWhile (\<lambda>c. c \<noteq> PATH_SEPCH) d = []"
    using d by (auto simp: normal_dir_def takeWhile_eq_all_conv dropWhile_eq_Nil_conv)
  have "set_path_loop d s = set_path_loop (drop 1 (dropWhile (\<lambda>c. c \<noteq> PATH_SEPCH) (dropWhile is_space d)))
        (AddPath_sz (takeWhile (\<lambda>c. c \<noteq> PATH_SEPCH) (dropWhile is_space d)) s)"
    unfolding c by (simp only: set_path_loop.simps Let_def)
  then show ?thesis by (simp add: drop take AddPath_sz_normal [OF d])
qed

text \<open>Setting the text that \<^verbatim>\<open>GetPath\<close> gives for normal directories restores them, in order.\<close>

lemma set_path_loop_join:
  "(\<And>d. d \<in> set ps \<Longrightarrow> normal_dir d) \<Longrightarrow> set_path_loop (join_path ps) s = s\<lparr>m_paths := m_paths s @ ps\<rparr>"
proof (induction ps arbitrary: s rule: join_path.induct)
  case 1
  then show ?case by simp
next
  case (2 p)
  then show ?case by (simp add: set_path_loop_last)
next
  case (3 p q ps)
  then show ?case by (simp add: set_path_loop_step)
qed

lemma SetPath_GetPath:
  "(\<And>d. d \<in> set (m_paths s) \<Longrightarrow> normal_dir d) \<Longrightarrow>
   SetPath (m_strPath (RebuildPathString s)) s' = s'\<lparr>m_paths := m_paths s, m_strPath := join_path (m_paths s)\<rparr>"
  by (simp add: SetPath_def RebuildPathString_eq set_path_loop_join)

end
