(* ===== verification/Plugins.thy ===== *)
theory Plugins
  imports StdMap FileSearcher Messages
begin

text \<open>
  Plugins (\<^verbatim>\<open>src/src/pluginfx/PluginManager.cpp\<close>, \<^verbatim>\<open>src/src/plugins/ServicePlugin.cpp\<close>,
  \<^verbatim>\<open>src/inc/plugins/ServicePlugin.h\<close>): the action map that a service plugin dispatches on, the module
  that holds a plugin library, and the manager that loads, unloads and replaces modules. The
  dynamic loader is a parameter; the handles it has given out and not got back are kept with the
  manager, so that a leak or a double close is visible.
\<close>

section \<open>Service plugins\<close>

abbreviation APP_PUGIN_ID :: int where "APP_PUGIN_ID \<equiv> 2001"

abbreviation ERROR_COMMON_FUNC_UNIMPLEMENT :: int where "ERROR_COMMON_FUNC_UNIMPLEMENT \<equiv> 0x4003291F"

record rest_action =
  ra_url :: string
  ra_method :: string
  ra_action :: string

type_synonym action_map = "(string, rest_action) std_map"

definition action_key :: "string \<Rightarrow> string \<Rightarrow> string" where
  "action_key url mthd = url @ ''_'' @ mthd"

definition action_Add :: "string \<Rightarrow> string \<Rightarrow> string \<Rightarrow> action_map \<Rightarrow> action_map" where
  "action_Add url mthd act m = map_put (action_key url mthd) \<lparr>ra_url = url, ra_method = mthd, ra_action = act\<rparr> m"

definition GetAction :: "string \<Rightarrow> string \<Rightarrow> action_map \<Rightarrow> rest_action option" where
  "GetAction url mthd m = map_of m (action_key url mthd)"

text \<open>The constructor of a plugin registers its table of actions one after the other.\<close>

definition register_all :: "(string \<times> string \<times> string) list \<Rightarrow> action_map" where
  "register_all tbl = fold (\<lambda>(url, mthd, act). action_Add url mthd act) tbl []"

text \<open>
  \<^verbatim>\<open>IPlugin\<close>: what the framework asks a plugin. Every plugin of the agent is a \<^verbatim>\<open>CServicePlugin\<close>,
  whose name and version are the null pointer and whose \<^verbatim>\<open>Destroy\<close> does nothing.
\<close>

record iplugin =
  plg_TypeId :: int
  plg_GetName :: "string option"
  plg_GetVersion :: "string option"
  plg_Destroy :: int
  plg_actions :: action_map

definition CServicePlugin :: "(string \<times> string \<times> string) list \<Rightarrow> iplugin" where
  "CServicePlugin tbl = \<lparr>plg_TypeId = APP_PUGIN_ID, plg_GetName = None, plg_GetVersion = None,
     plg_Destroy = MP_SUCCESS, plg_actions = register_all tbl\<rparr>"

text \<open>
  \<^verbatim>\<open>DO_ACTION\<close>: run the action registered for the URL and the method. What an action does to the
  message is an argument, by the name of the method.
\<close>

type_synonym 'j run_action = "string \<Rightarrow> 'j message_pair \<Rightarrow> 'j message_pair \<times> int"

definition DoAction :: "'j run_action \<Rightarrow> iplugin \<Rightarrow> 'j message_pair \<Rightarrow> 'j message_pair \<times> int" where
  "DoAction run p msg =
     (case GetAction (GetProcURL (fst msg)) (m_strMethod (m_httpReq (fst msg))) (plg_actions p) of
        None \<Rightarrow> (msg, ERROR_COMMON_FUNC_UNIMPLEMENT)
      | Some a \<Rightarrow>
          (let (msg, iRet) = run (ra_action a) msg
           in if iRet \<noteq> MP_SUCCESS then (msg, iRet) else (msg, MP_SUCCESS)))"

definition Invoke :: "'j run_action \<Rightarrow> iplugin \<Rightarrow> 'j message_pair \<Rightarrow> 'j message_pair \<times> int" where
  "Invoke run p msg =
     (let (msg, iRet) = DoAction run p msg
      in if iRet \<noteq> MP_SUCCESS then (SetRetCode iRet msg, iRet) else (msg, MP_SUCCESS))"

text \<open>The key is unambiguous for methods without an underscore, as the four of HTTP are.\<close>

lemma action_key_inj:
  "CHR ''_'' \<notin> set m \<Longrightarrow> CHR ''_'' \<notin> set m' \<Longrightarrow> action_key u m = action_key u' m' \<longleftrightarrow> u = u' \<and> m = m'"
proof
  assume nm: "CHR ''_'' \<notin> set m" "CHR ''_'' \<notin> set m'" and eq: "action_key u m = action_key u' m'"
  have drop: "dropWhile (\<lambda>c. c \<noteq> CHR ''_'') (rev (action_key v n)) = CHR ''_'' # rev v"
    "takeWhile (\<lambda>c. c \<noteq> CHR ''_'') (rev (action_key v n)) = rev n"
    if "CHR ''_'' \<notin> set n" for v n
    using that by (auto simp: action_key_def dropWhile_append takeWhile_append)
  from drop(1) [OF nm(1), of u] drop(1) [OF nm(2), of u'] drop(2) [OF nm(1), of u] drop(2) [OF nm(2), of u'] eq
  show "u = u' \<and> m = m'" by simp
qed simp

lemma register_all_sorted: "map_sorted (register_all tbl)"
proof -
  have "map_sorted m \<Longrightarrow> map_sorted (fold (\<lambda>(url, mthd, act). action_Add url mthd act) tbl m)" for m
    by (induction tbl arbitrary: m) (auto simp: action_Add_def map_put_sorted)
  then show ?thesis by (simp add: register_all_def)
qed

lemma GetAction_register_all:
  "GetAction url mthd (register_all tbl) =
     map_option (\<lambda>(u, m, a). \<lparr>ra_url = u, ra_method = m, ra_action = a\<rparr>)
       (List.find (\<lambda>(u, m, a). action_key u m = action_key url mthd) (rev tbl))"
proof (induction tbl rule: rev_induct)
  case Nil
  then show ?case by (simp add: register_all_def GetAction_def)
next
  case (snoc x tbl)
  obtain u m a where x: "x = (u, m, a)" by (cases x) auto
  have "register_all (tbl @ [x]) = action_Add u m a (register_all tbl)"
    by (simp add: register_all_def x)
  then show ?case
    using snoc by (auto simp: x GetAction_def action_Add_def map_of_map_put register_all_sorted)
qed

section \<open>Modules\<close>

type_synonym handle = nat

record cmodule =
  m_Name :: string
  m_Version :: string
  m_hLib :: "handle option"
  m_Plugin :: "iplugin option"

text \<open>The dynamic loader: \<^verbatim>\<open>dlopen\<close> of a path, and the plugin a library's \<^verbatim>\<open>QueryInterface\<close> makes.\<close>

record lib_env =
  le_fs :: file_system
  le_open :: "string \<Rightarrow> handle option"
  le_query :: "handle \<Rightarrow> iplugin option"

abbreviation LIB_SUFFIX :: string where "LIB_SUFFIX \<equiv> ''.so''"

type_synonym handles = "handle multiset"

definition CModule :: "string \<Rightarrow> string option \<Rightarrow> cmodule" where
  "CModule nm ver = \<lparr>m_Name = nm, m_Version = (case ver of None \<Rightarrow> [] | Some v \<Rightarrow> v), m_hLib = None, m_Plugin = None\<rparr>"

definition CModule_Load :: "lib_env \<Rightarrow> searcher \<Rightarrow> cmodule \<Rightarrow> handles \<Rightarrow> cmodule \<times> handles \<times> int" where
  "CModule_Load E s m H =
     (if m_hLib m \<noteq> None then (m, H, ERROR_COMMON_DLL_LOAD_FAILED)
      else case SNPRINTF_S 255 (if m_Version m = [] then m_Name m @ LIB_SUFFIX
                                else m_Name m @ ''-'' @ m_Version m @ LIB_SUFFIX) of
             None \<Rightarrow> (m, H, MP_FAILED)
           | Some szName \<Rightarrow>
               (case Search (le_fs E) szName s of
                  None \<Rightarrow> (m, H, ERROR_COMMON_DLL_LOAD_FAILED)
                | Some path \<Rightarrow>
                    (case le_open E path of
                       None \<Rightarrow> (m, H, ERROR_COMMON_DLL_LOAD_FAILED)
                     | Some h \<Rightarrow>
                         (let H = add_mset h H in
                          case le_query E h of
                            None \<Rightarrow> (m, H - {#h#}, ERROR_COMMON_DLL_LOAD_FAILED)
                          | Some p \<Rightarrow> (m\<lparr>m_hLib := Some h, m_Plugin := Some p\<rparr>, H, MP_SUCCESS)))))"

definition CModule_Unload :: "cmodule \<Rightarrow> handles \<Rightarrow> cmodule \<times> handles \<times> int" where
  "CModule_Unload m H =
     (let iRet = (case m_Plugin m of None \<Rightarrow> MP_SUCCESS | Some p \<Rightarrow> plg_Destroy p)
      in if m_Plugin m \<noteq> None \<and> iRet \<noteq> MP_SUCCESS then (m, H, iRet)
         else (m\<lparr>m_hLib := None, m_Plugin := None\<rparr>, (case m_hLib m of None \<Rightarrow> H | Some h \<Rightarrow> H - {#h#}), MP_SUCCESS))"

text \<open>\<^verbatim>\<open>Unload\<close> followed by the destructor, which unloads again.\<close>

definition unload_delete :: "cmodule \<Rightarrow> handles \<Rightarrow> handles" where
  "unload_delete m H = (case CModule_Unload m H of (m, H, _) \<Rightarrow> fst (snd (CModule_Unload m H)))"

section \<open>The manager\<close>

text \<open>\<^verbatim>\<open>IPluginCallback\<close>: its \<^verbatim>\<open>OnUpgraded\<close> and \<^verbatim>\<open>SetOptions\<close> are empty in the agent.\<close>

record callback =
  cb_CanUnload :: "iplugin \<Rightarrow> bool"
  cb_GetReleaseVersion :: "string \<Rightarrow> nat \<Rightarrow> string option"

record plgmgr =
  m_scn :: u64
  m_Modules :: "(string, cmodule) std_map"
  m_OldModules :: "(string, cmodule) std_map"
  m_FileSearcher :: searcher
  dl_handles :: handles

definition GetSCN :: "plgmgr \<Rightarrow> u64" where
  "GetSCN g = m_scn g"

definition GetModule :: "string \<Rightarrow> plgmgr \<Rightarrow> cmodule option" where
  "GetModule n g = map_of (m_Modules g) n"

definition mgr_GetPlugin :: "string \<Rightarrow> plgmgr \<Rightarrow> iplugin option" where
  "mgr_GetPlugin n g = (case GetModule n g of Some m \<Rightarrow> m_Plugin m | None \<Rightarrow> None)"

definition GetModuleVersion :: "callback \<Rightarrow> string \<Rightarrow> nat \<Rightarrow> string option" where
  "GetModuleVersion cb n sz = cb_GetReleaseVersion cb n sz"

definition Load_version :: "lib_env \<Rightarrow> string \<Rightarrow> string option \<Rightarrow> plgmgr \<Rightarrow> plgmgr \<times> cmodule option" where
  "Load_version E n ver g =
     (case CModule_Load E (m_FileSearcher g) (CModule n ver) (dl_handles g) of
        (m, H, iRet) \<Rightarrow>
          if iRet \<noteq> MP_SUCCESS then (g\<lparr>dl_handles := unload_delete m H\<rparr>, None)
          else (g\<lparr>dl_handles := H\<rparr>, Some m))"

definition Load_module :: "lib_env \<Rightarrow> callback \<Rightarrow> string \<Rightarrow> plgmgr \<Rightarrow> plgmgr \<times> cmodule option" where
  "Load_module E cb n g =
     (case GetModuleVersion cb n 64 of
        None \<Rightarrow> Load_version E n None g
      | Some v \<Rightarrow> Load_version E n (Some v) g)"

definition LoadPlugin :: "lib_env \<Rightarrow> callback \<Rightarrow> string \<Rightarrow> plgmgr \<Rightarrow> plgmgr \<times> iplugin option" where
  "LoadPlugin E cb n g =
     (case GetModule n g of
        Some m \<Rightarrow> (g, m_Plugin m)
      | None \<Rightarrow>
          (case Load_module E cb n g of
             (g, None) \<Rightarrow> (g, None)
           | (g, Some m) \<Rightarrow>
               (let g = g\<lparr>m_scn := m_scn g + 1\<rparr>;
                    g = g\<lparr>m_scn := m_scn g + 1\<rparr>
                in (g\<lparr>m_Modules := map_put (m_Name m) m (m_Modules g)\<rparr>, m_Plugin m))))"

definition UnloadPlugin :: "callback \<Rightarrow> string \<Rightarrow> plgmgr \<Rightarrow> plgmgr" where
  "UnloadPlugin cb n g =
     (case GetModule n g of
        None \<Rightarrow> g
      | Some m \<Rightarrow>
          if \<not> cb_CanUnload cb (the (m_Plugin m)) then g
          else (let g = g\<lparr>m_scn := m_scn g + 1, m_Modules := map_del (m_Name m) (m_Modules g)\<rparr>
                in g\<lparr>dl_handles := unload_delete m (dl_handles g)\<rparr>))"

fun unload_old_loop ::
  "callback \<Rightarrow> (string, cmodule) std_map \<Rightarrow> handles \<Rightarrow> (string, cmodule) std_map \<times> handles" where
  "unload_old_loop cb [] H = ([], H)"
| "unload_old_loop cb ((n, m) # rest) H =
     (if \<not> cb_CanUnload cb (the (m_Plugin m))
      then (let (rest, H) = unload_old_loop cb rest H in ((n, m) # rest, H))
      else unload_old_loop cb rest (unload_delete m H))"

definition UnloadOldModules :: "callback \<Rightarrow> plgmgr \<Rightarrow> plgmgr" where
  "UnloadOldModules cb g =
     (let (old, H) = unload_old_loop cb (m_OldModules g) (dl_handles g)
      in g\<lparr>m_OldModules := old, dl_handles := H\<rparr>)"

definition NeedReload :: "callback \<Rightarrow> cmodule \<Rightarrow> plgmgr \<Rightarrow> bool" where
  "NeedReload cb m g =
     (case GetModuleVersion cb (m_Name m) 128 of
        None \<Rightarrow> False
      | Some szVersion \<Rightarrow>
          if szVersion = m_Version m then False
          else if map_of (m_OldModules g) (m_Name m) \<noteq> None then False
          else True)"

definition Reload :: "lib_env \<Rightarrow> callback \<Rightarrow> cmodule \<Rightarrow> plgmgr \<Rightarrow> plgmgr \<times> bool" where
  "Reload E cb m g =
     (case Load_module E cb (m_Name m) g of
        (g, None) \<Rightarrow> (g, False)
      | (g, Some m') \<Rightarrow>
          (g\<lparr>m_scn := m_scn g + 1, m_Modules := map_put (m_Name m') m' (map_del (m_Name m) (m_Modules g)),
             m_OldModules := map_put (m_Name m) m (m_OldModules g)\<rparr>, True))"

text \<open>
  \<^verbatim>\<open>Upgrade\<close> walks a vector that starts with 256 null pointers; \<^const>\<open>None\<close> is the dereference of
  one of them.
\<close>

fun upgrade_loop :: "lib_env \<Rightarrow> callback \<Rightarrow> cmodule option list \<Rightarrow> plgmgr \<Rightarrow> int \<Rightarrow> (plgmgr \<times> int) option" where
  "upgrade_loop E cb [] g iRet = Some (g, iRet)"
| "upgrade_loop E cb (None # ms) g iRet = None"
| "upgrade_loop E cb (Some m # ms) g iRet =
     (if \<not> NeedReload cb m g then upgrade_loop E cb ms g iRet
      else upgrade_loop E cb ms (fst (Reload E cb m g)) (iRet + 1))"

definition Upgrade :: "lib_env \<Rightarrow> callback \<Rightarrow> plgmgr \<Rightarrow> (plgmgr \<times> int) option" where
  "Upgrade E cb g =
     (let g = UnloadOldModules cb g;
          modules = replicate 256 None @ map (\<lambda>e. Some (snd e)) (m_Modules g)
      in upgrade_loop E cb modules g 0)"

definition Clear_modules :: "plgmgr \<Rightarrow> plgmgr" where
  "Clear_modules g =
     (let H = fold (\<lambda>e. unload_delete (snd e)) (m_OldModules g) (dl_handles g);
          H = fold (\<lambda>e. unload_delete (snd e)) (m_Modules g) H
      in g\<lparr>m_Modules := [], m_OldModules := [], dl_handles := H\<rparr>)"

definition new_mgr :: "searcher \<Rightarrow> plgmgr" where
  "new_mgr s = \<lparr>m_scn = 0, m_Modules = [], m_OldModules = [], m_FileSearcher = s, dl_handles = {#}\<rparr>"

section \<open>The handles the modules hold\<close>

text \<open>
  A module is loaded when it has a library and a plugin whose \<^verbatim>\<open>Destroy\<close> succeeds, as
  \<^verbatim>\<open>CServicePlugin::Destroy\<close> does. The manager is well formed when every module of its two maps is
  loaded and stands under its own name, and the handles given out are exactly those they hold.
\<close>

definition loaded :: "cmodule \<Rightarrow> bool" where
  "loaded m \<longleftrightarrow> m_hLib m \<noteq> None \<and> (\<exists>p. m_Plugin m = Some p \<and> plg_Destroy p = MP_SUCCESS)"

definition held :: "(string, cmodule) std_map \<Rightarrow> handles" where
  "held ms = image_mset (\<lambda>e. the (m_hLib (snd e))) (mset ms)"

definition mods_ok :: "(string, cmodule) std_map \<Rightarrow> bool" where
  "mods_ok ms \<longleftrightarrow> map_sorted ms \<and> (\<forall>e\<in>set ms. m_Name (snd e) = fst e \<and> loaded (snd e))"

definition mgr_ok :: "plgmgr \<Rightarrow> bool" where
  "mgr_ok g \<longleftrightarrow> mods_ok (m_Modules g) \<and> mods_ok (m_OldModules g) \<and>
     dl_handles g = held (m_Modules g) + held (m_OldModules g)"

text \<open>The environment makes plugins whose \<^verbatim>\<open>Destroy\<close> succeeds.\<close>

definition service_env :: "lib_env \<Rightarrow> bool" where
  "service_env E \<longleftrightarrow> (\<forall>h p. le_query E h = Some p \<longrightarrow> plg_Destroy p = MP_SUCCESS)"

lemma held_simps [simp]:
  "held [] = {#}" "held (e # ms) = add_mset (the (m_hLib (snd e))) (held ms)"
  by (simp_all add: held_def)

lemma held_put: "map_of ms k = None \<Longrightarrow> held (map_put k m ms) = add_mset (the (m_hLib m)) (held ms)"
  by (simp add: held_def mset_map_put)

lemma held_del: "map_of ms k = Some m \<Longrightarrow> held ms = add_mset (the (m_hLib m)) (held (map_del k ms))"
  using mset_map_del [of ms k m] by (simp add: held_def)

lemma mods_ok_put:
  "mods_ok ms \<Longrightarrow> loaded m \<Longrightarrow> mods_ok (map_put (m_Name m) m ms)"
proof -
  assume ms: "mods_ok ms" and m: "loaded m"
  have "set (map_put k v xs) \<subseteq> insert (k, v) (set xs)" for k :: string and v :: cmodule and xs
    by (induction k v xs rule: map_put.induct) auto
  from this [of "m_Name m" m ms] ms m show ?thesis
    by (auto simp: mods_ok_def map_put_sorted simp del: sorted_wrt_map)
qed

lemma mods_ok_del: "mods_ok ms \<Longrightarrow> mods_ok (map_del k ms)"
  using map_del_sorted [of ms k] by (auto simp: mods_ok_def map_del_def dest: in_erase_first simp del: sorted_wrt_map)

lemma mods_ok_Nil [simp]: "mods_ok []"
  by (simp add: mods_ok_def)

lemma mods_ok_lookup: "mods_ok ms \<Longrightarrow> map_of ms n = Some m \<Longrightarrow> m_Name m = n \<and> loaded m"
  by (force simp: mods_ok_def dest: map_of_SomeD)

lemma unload_delete_loaded: "loaded m \<Longrightarrow> unload_delete m H = H - {#the (m_hLib m)#}"
  by (auto simp: loaded_def unload_delete_def CModule_Unload_def)

lemma CModule_Load_result:
  assumes "service_env E"
  shows "case CModule_Load E s (CModule n ver) H of
      (m, H', iRet) \<Rightarrow> m_Name m = n \<and> m_Version m = (case ver of None \<Rightarrow> [] | Some v \<Rightarrow> v) \<and>
        (if iRet = MP_SUCCESS then loaded m \<and> H' = add_mset (the (m_hLib m)) H
         else H' = H \<and> m_hLib m = None \<and> m_Plugin m = None)"
  using assms
  by (auto simp: CModule_Load_def CModule_def Let_def loaded_def service_env_def split: option.splits)

text \<open>Loading a module changes nothing but the handles, which gain the one of the new module.\<close>

lemma Load_module_result:
  assumes "service_env E"
  shows "case Load_module E cb n g of
      (g', None) \<Rightarrow> g' = g
    | (g', Some m) \<Rightarrow> loaded m \<and> m_Name m = n \<and> g' = g\<lparr>dl_handles := add_mset (the (m_hLib m)) (dl_handles g)\<rparr>"
proof -
  have "case Load_version E n ver g of
      (g', None) \<Rightarrow> g' = g
    | (g', Some m) \<Rightarrow> loaded m \<and> m_Name m = n \<and> g' = g\<lparr>dl_handles := add_mset (the (m_hLib m)) (dl_handles g)\<rparr>"
    for ver
  proof -
    obtain m H r where L: "CModule_Load E (m_FileSearcher g) (CModule n ver) (dl_handles g) = (m, H, r)"
      by (cases "CModule_Load E (m_FileSearcher g) (CModule n ver) (dl_handles g)") auto
    from CModule_Load_result [OF assms, where s = "m_FileSearcher g" and n = n and ver = ver and H = "dl_handles g"] show ?thesis
      by (auto simp: L Load_version_def unload_delete_def CModule_Unload_def split: if_splits)
  qed
  then show ?thesis by (simp add: Load_module_def split: option.split)
qed

lemma LoadPlugin_cases:
  assumes "service_env E"
  obtains (present) m where "GetModule n g = Some m" "LoadPlugin E cb n g = (g, m_Plugin m)"
    | (failed) "GetModule n g = None" "LoadPlugin E cb n g = (g, None)"
    | (new) m where "GetModule n g = None" "loaded m" "m_Name m = n"
        "LoadPlugin E cb n g = (g\<lparr>dl_handles := add_mset (the (m_hLib m)) (dl_handles g), m_scn := m_scn g + 1 + 1,
           m_Modules := map_put n m (m_Modules g)\<rparr>, m_Plugin m)"
proof (cases "GetModule n g")
  case (Some m)
  then show ?thesis by (intro present) (simp_all add: LoadPlugin_def)
next
  case None
  obtain g' r where L: "Load_module E cb n g = (g', r)" by fastforce
  show ?thesis
  proof (cases r)
    case None
    with L Load_module_result [OF assms, where cb = cb and n = n and g = g] \<open>GetModule n g = None\<close> show ?thesis
      by (intro failed) (simp_all add: LoadPlugin_def)
  next
    case (Some m)
    with L Load_module_result [OF assms, where cb = cb and n = n and g = g] \<open>GetModule n g = None\<close> show ?thesis
      by (intro new [of m]) (simp_all add: LoadPlugin_def Let_def)
  qed
qed

lemma LoadPlugin_ok: "service_env E \<Longrightarrow> mgr_ok g \<Longrightarrow> mgr_ok (fst (LoadPlugin E cb n g))"
proof (elim LoadPlugin_cases [of E n g cb])
  fix m
  assume g: "mgr_ok g" and new: "GetModule n g = None" "loaded m" "m_Name m = n"
    "LoadPlugin E cb n g = (g\<lparr>dl_handles := add_mset (the (m_hLib m)) (dl_handles g), m_scn := m_scn g + 1 + 1,
           m_Modules := map_put n m (m_Modules g)\<rparr>, m_Plugin m)"
  from mods_ok_put [of "m_Modules g" m] g new show "mgr_ok (fst (LoadPlugin E cb n g))"
    by (simp add: mgr_ok_def held_put GetModule_def)
qed simp_all

lemma UnloadPlugin_ok: "mgr_ok g \<Longrightarrow> mgr_ok (UnloadPlugin cb n g)"
proof (cases "GetModule n g")
  case None
  then show "mgr_ok g \<Longrightarrow> ?thesis" by (simp add: UnloadPlugin_def)
next
  case (Some m)
  assume g: "mgr_ok g"
  with Some have m: "m_Name m = n" "loaded m" "map_of (m_Modules g) n = Some m"
    by (auto simp: mgr_ok_def GetModule_def dest: mods_ok_lookup)
  from g Some m held_del [OF m(3)] show ?thesis
    by (simp add: UnloadPlugin_def Let_def mgr_ok_def unload_delete_loaded mods_ok_del)
qed

lemma unload_old_loop_ok:
  assumes "mods_ok ms" "unload_old_loop cb ms H = (ms', H')" "held ms \<subseteq># H"
  shows "mods_ok ms' \<and> H' = H - held ms + held ms' \<and> set ms' \<subseteq> set ms \<and> held ms' \<subseteq># H'"
  using assms
proof (induction cb ms H arbitrary: ms' H' rule: unload_old_loop.induct)
  case (1 cb H)
  then show ?case by simp
next
  case (2 cb n m rest H)
  have rest: "mods_ok rest" and m: "loaded m" "m_Name m = n"
    using "2.prems"(1) by (auto simp: mods_ok_def)
  have lt: "\<forall>e\<in>set rest. n < fst e"
    using "2.prems"(1) by (simp add: mods_ok_def)
  show ?case
  proof (cases "cb_CanUnload cb (the (m_Plugin m))")
    case True
    then have "unload_old_loop cb rest (H - {#the (m_hLib m)#}) = (ms', H')"
      using "2.prems"(2) m by (simp add: unload_delete_loaded)
    moreover have "held rest \<subseteq># H - {#the (m_hLib m)#}"
      using "2.prems"(3) by (simp add: insert_subset_eq_iff)
    ultimately show ?thesis
      using "2.IH"(2) [of ms' H'] True rest m by (auto simp: unload_delete_loaded)
  next
    case False
    then obtain ms1 where ms1: "unload_old_loop cb rest H = (ms1, H')" "ms' = (n, m) # ms1"
      using "2.prems"(2) by (auto split: prod.splits)
    have sub: "held rest \<subseteq># H" and h: "add_mset (the (m_hLib m)) (held rest) \<subseteq># H"
      using "2.prems"(3) by (auto intro: subset_mset.order_trans [OF _ "2.prems"(3)])
    from "2.IH"(1) [OF _ rest ms1(1) sub] False
    have IH: "mods_ok ms1" "H' = H - held rest + held ms1" "set ms1 \<subseteq> set rest" by auto
    have "mods_ok ms'"
      using IH(1,3) lt m by (auto simp: mods_ok_def ms1(2))
    moreover have "H' = H - held ((n, m) # rest) + held ms'"
    proof -
      let ?x = "the (m_hLib m)"
      have "?x \<in># H - held rest"
        using mset_subset_eq_count [OF h, of ?x] by (simp add: in_diff_count)
      then have "H - held rest = add_mset ?x (H - held rest - {#?x#})" by (rule insert_DiffM [symmetric])
      also have "H - held rest - {#?x#} = H - add_mset ?x (held rest)"
        by (simp add: multiset_eq_iff)
      finally have "H - held rest = add_mset ?x (H - add_mset ?x (held rest))" .
      then show ?thesis using IH(2) by (simp add: ms1(2))
    qed
    ultimately show ?thesis using IH(3) by (auto simp: ms1(2))
  qed
qed

lemma UnloadOldModules_ok: "mgr_ok g \<Longrightarrow> mgr_ok (UnloadOldModules cb g)"
proof -
  assume g: "mgr_ok g"
  obtain old H where L: "unload_old_loop cb (m_OldModules g) (dl_handles g) = (old, H)" by fastforce
  from g have H: "dl_handles g = held (m_Modules g) + held (m_OldModules g)" by (simp add: mgr_ok_def)
  from unload_old_loop_ok [OF _ L] g have "mods_ok old" "H = held (m_Modules g) + held old"
    by (simp_all add: mgr_ok_def)
  then show ?thesis using g unfolding UnloadOldModules_def L by (simp add: mgr_ok_def)
qed

lemma Reload_ok:
  assumes "service_env E" "mgr_ok g" "map_of (m_Modules g) (m_Name m) = Some m" "map_of (m_OldModules g) (m_Name m) = None"
  shows "mgr_ok (fst (Reload E cb m g))"
proof -
  obtain g' r where L: "Load_module E cb (m_Name m) g = (g', r)" by fastforce
  show ?thesis
  proof (cases r)
    case None
    with L Load_module_result [OF assms(1), where cb = cb and n = "m_Name m" and g = g] assms(2) show ?thesis by (simp add: Reload_def)
  next
    case (Some m')
    with L Load_module_result [OF assms(1), where cb = cb and n = "m_Name m" and g = g]
    have m': "loaded m'" "m_Name m' = m_Name m" "g' = g\<lparr>dl_handles := add_mset (the (m_hLib m')) (dl_handles g)\<rparr>" by auto
    have m: "loaded m" using assms(2,3) by (auto simp: mgr_ok_def dest: mods_ok_lookup)
    have none: "map_of (map_del (m_Name m) (m_Modules g)) (m_Name m) = None"
      using assms(2) by (simp add: mgr_ok_def mods_ok_def map_of_map_del)
    have "mods_ok (map_put (m_Name m') m' (map_del (m_Name m) (m_Modules g)))"
      "mods_ok (map_put (m_Name m) m (m_OldModules g))"
      using mods_ok_put [OF mods_ok_del m'(1), of "m_Modules g" "m_Name m"] mods_ok_put [OF _ m, of "m_OldModules g"]
        assms(2) m'(2) by (simp_all add: mgr_ok_def)
    with assms(2,4) none L Some m' held_del [OF assms(3)] show ?thesis
      by (simp add: Reload_def mgr_ok_def held_put)
  qed
qed

lemma new_mgr_ok [simp]: "mgr_ok (new_mgr s)"
  by (simp add: mgr_ok_def new_mgr_def)

text \<open>Clearing a well formed manager gives every handle back.\<close>

lemma fold_unload_delete:
  "(\<And>e. e \<in> set ms \<Longrightarrow> loaded (snd e)) \<Longrightarrow> fold (\<lambda>e. unload_delete (snd e)) ms H = H - held ms"
  by (induction ms arbitrary: H) (auto simp: unload_delete_loaded)

lemma Clear_modules_handles: "mgr_ok g \<Longrightarrow> dl_handles (Clear_modules g) = {#}"
  by (auto simp: Clear_modules_def Let_def mgr_ok_def mods_ok_def fold_unload_delete)

end
