(* ===== verification/PluginCfg.thy ===== *)
theory PluginCfg
  imports Prelude
begin

text \<open>
  \<^verbatim>\<open>CPluginCfgParse\<close> (\<^verbatim>\<open>src/src/pluginfx/PluginCfgParse.cpp\<close>): the plugins of
  \<^verbatim>\<open>pluginmgr.xml\<close>, each with a name, a version and the service whose URLs it handles. TinyXML is
  not part of the repository: an element is its attributes and its child elements, and loading a
  file gives the root element or nothing.
\<close>

datatype xml_elem = Elem (xattrs: "(string \<times> string) list") (xchildren: "xml_elem list")

record plugin_def =
  plg_name :: string
  plg_version :: string
  plg_service :: string

record plgcfg =
  m_tFileTime :: int
  m_vecPlgDefs :: "plugin_def list"

text \<open>What the parser reads of the system: the modification time and the document of a file.\<close>

record cfg_files =
  cf_mtime :: "string \<Rightarrow> int option"
  cf_load :: "string \<Rightarrow> xml_elem option"

abbreviation XML_ATTR_PLUGIN_NAME :: string where "XML_ATTR_PLUGIN_NAME \<equiv> ''name''"
abbreviation XML_ATTR_PLUGIN_VERSION :: string where "XML_ATTR_PLUGIN_VERSION \<equiv> ''version''"
abbreviation XML_ATTR_PLUGIN_SERVICE :: string where "XML_ATTR_PLUGIN_SERVICE \<equiv> ''service''"

definition strempty :: "string option \<Rightarrow> bool" where
  "strempty s \<longleftrightarrow> s = None \<or> s = Some []"

section \<open>Looking up\<close>

text \<open>\<^verbatim>\<open>GetPlugin\<close> does not stop at the first match: the last one stays.\<close>

fun cfg_get_loop :: "string \<Rightarrow> plugin_def list \<Rightarrow> plugin_def option \<Rightarrow> plugin_def option" where
  "cfg_get_loop n [] r = r"
| "cfg_get_loop n (d # ds) r = cfg_get_loop n ds (if plg_name d = n then Some d else r)"

definition cfg_GetPlugin :: "string \<Rightarrow> plgcfg \<Rightarrow> plugin_def option" where
  "cfg_GetPlugin n c = cfg_get_loop n (m_vecPlgDefs c) None"

definition GetPluginByService :: "string \<Rightarrow> plgcfg \<Rightarrow> plugin_def option" where
  "GetPluginByService svc c = List.find (\<lambda>d. plg_service d = svc) (m_vecPlgDefs c)"

definition GetPluginVersion :: "string option \<Rightarrow> plgcfg \<Rightarrow> int + string" where
  "GetPluginVersion n c =
     (case n of
        None \<Rightarrow> Inl ERROR_COMMON_READ_CONFIG_FAILED
      | Some n \<Rightarrow>
          (case cfg_GetPlugin n c of
             None \<Rightarrow> Inl ERROR_COMMON_READ_CONFIG_FAILED
           | Some d \<Rightarrow> Inr (plg_version d)))"

section \<open>Loading\<close>

definition AddPluginDef :: "plugin_def \<Rightarrow> plgcfg \<Rightarrow> plgcfg" where
  "AddPluginDef d c =
     (if cfg_GetPlugin (plg_name d) c = None then c\<lparr>m_vecPlgDefs := m_vecPlgDefs c @ [d]\<rparr> else c)"

definition LoadPluginDef :: "xml_elem option \<Rightarrow> plgcfg \<Rightarrow> plgcfg \<times> bool" where
  "LoadPluginDef e c =
     (case e of
        None \<Rightarrow> (c, False)
      | Some e \<Rightarrow>
          (let pszName = map_of (xattrs e) XML_ATTR_PLUGIN_NAME;
               pszVersion = map_of (xattrs e) XML_ATTR_PLUGIN_VERSION;
               pszService = map_of (xattrs e) XML_ATTR_PLUGIN_SERVICE
           in if strempty pszName \<or> strempty pszVersion \<or> strempty pszService then (c, False)
              else (AddPluginDef \<lparr>plg_name = the pszName, plg_version = the pszVersion, plg_service = the pszService\<rparr> c,
                    True)))"

fun load_defs :: "xml_elem list \<Rightarrow> plgcfg \<Rightarrow> plgcfg \<times> bool" where
  "load_defs [] c = (c, True)"
| "load_defs (e # es) c =
     (case LoadPluginDef (Some e) c of
        (c, False) \<Rightarrow> (c, False)
      | (c, True) \<Rightarrow> load_defs es c)"

definition LoadPluginDefs :: "xml_elem option \<Rightarrow> plgcfg \<Rightarrow> plgcfg \<times> bool" where
  "LoadPluginDefs lst c = (case lst of None \<Rightarrow> (c, False) | Some e \<Rightarrow> load_defs (xchildren e) c)"

text \<open>A root element without children is accepted with a warning.\<close>

definition LoadCfg :: "cfg_files \<Rightarrow> string option \<Rightarrow> plgcfg \<Rightarrow> plgcfg \<times> bool" where
  "LoadCfg fl f c =
     (case f of
        None \<Rightarrow> (c, False)
      | Some f \<Rightarrow>
          (case cf_mtime fl f of
             None \<Rightarrow> (c, False)
           | Some t \<Rightarrow>
               (let c = c\<lparr>m_tFileTime := t\<rparr> in
                case cf_load fl f of
                  None \<Rightarrow> (c, False)
                | Some root \<Rightarrow>
                    (case xchildren root of
                       [] \<Rightarrow> (c, True)
                     | lst # _ \<Rightarrow> LoadPluginDefs (Some lst) c))))"

definition Cfg_Init :: "cfg_files \<Rightarrow> string option \<Rightarrow> plgcfg \<Rightarrow> plgcfg \<times> int" where
  "Cfg_Init fl f c =
     (if f = None then (c, ERROR_COMMON_READ_CONFIG_FAILED)
      else case LoadCfg fl f c of
             (c, False) \<Rightarrow> (c, ERROR_COMMON_READ_CONFIG_FAILED)
           | (c, True) \<Rightarrow> (c, MP_SUCCESS))"

definition empty_cfg :: plgcfg where
  "empty_cfg = \<lparr>m_tFileTime = 0, m_vecPlgDefs = []\<rparr>"

section \<open>Names are a key, and every definition is complete\<close>

definition plgcfg_ok :: "plgcfg \<Rightarrow> bool" where
  "plgcfg_ok c \<longleftrightarrow> distinct (map plg_name (m_vecPlgDefs c)) \<and>
     (\<forall>d\<in>set (m_vecPlgDefs c). plg_name d \<noteq> [] \<and> plg_version d \<noteq> [] \<and> plg_service d \<noteq> [])"

lemma cfg_get_loop_find:
  "cfg_get_loop n ds r = (case List.find (\<lambda>d. plg_name d = n) (rev ds) of None \<Rightarrow> r | Some d \<Rightarrow> Some d)"
  by (induction ds arbitrary: r) (auto simp: find_append split: option.splits)

lemma cfg_GetPlugin_None: "cfg_GetPlugin n c = None \<longleftrightarrow> n \<notin> plg_name ` set (m_vecPlgDefs c)"
  by (auto simp: cfg_GetPlugin_def cfg_get_loop_find find_eq_None dest!: find_SomeD split: option.splits)

lemma cfg_GetPlugin_Some:
  "cfg_GetPlugin n c = Some d \<Longrightarrow> d \<in> set (m_vecPlgDefs c) \<and> plg_name d = n"
  by (auto simp: cfg_GetPlugin_def cfg_get_loop_find dest!: find_SomeD split: option.splits)

lemma cfg_GetPlugin_iff:
  "plgcfg_ok c \<Longrightarrow> cfg_GetPlugin n c = Some d \<longleftrightarrow> d \<in> set (m_vecPlgDefs c) \<and> plg_name d = n"
proof
  assume c: "plgcfg_ok c" and d: "d \<in> set (m_vecPlgDefs c) \<and> plg_name d = n"
  then obtain d' where d': "cfg_GetPlugin n c = Some d'"
    using cfg_GetPlugin_None [of n c] by fastforce
  then have "d' = d"
    using cfg_GetPlugin_Some [OF d'] d c by (auto simp: plgcfg_ok_def distinct_map dest: inj_onD)
  then show "cfg_GetPlugin n c = Some d" using d' by simp
qed (simp add: cfg_GetPlugin_Some)

lemma AddPluginDef_ok:
  "plgcfg_ok c \<Longrightarrow> plg_name d \<noteq> [] \<Longrightarrow> plg_version d \<noteq> [] \<Longrightarrow> plg_service d \<noteq> [] \<Longrightarrow> plgcfg_ok (AddPluginDef d c)"
  by (auto simp: AddPluginDef_def cfg_GetPlugin_None plgcfg_ok_def)

lemma LoadPluginDef_ok: "plgcfg_ok c \<Longrightarrow> plgcfg_ok (fst (LoadPluginDef e c))"
  by (auto simp: LoadPluginDef_def strempty_def Let_def intro!: AddPluginDef_ok split: option.splits)

lemma load_defs_ok: "plgcfg_ok c \<Longrightarrow> plgcfg_ok (fst (load_defs es c))"
proof (induction es arbitrary: c)
  case Nil
  then show ?case by simp
next
  case (Cons e es)
  then show ?case
    using LoadPluginDef_ok [OF Cons.prems, of "Some e"]
    by (cases "LoadPluginDef (Some e) c"; cases "snd (LoadPluginDef (Some e) c)") simp_all
qed

lemma Cfg_Init_ok: "plgcfg_ok c \<Longrightarrow> plgcfg_ok (fst (Cfg_Init fl f c))"
proof -
  assume c: "plgcfg_ok c"
  then have t: "plgcfg_ok (c\<lparr>m_tFileTime := t\<rparr>)" for t by (simp add: plgcfg_ok_def)
  have "plgcfg_ok (fst (LoadCfg fl f c))"
    using c t by (simp add: LoadCfg_def LoadPluginDefs_def Let_def load_defs_ok split: option.split list.split)
  then show ?thesis
    by (cases "LoadCfg fl f c"; cases "snd (LoadCfg fl f c)") (simp_all add: Cfg_Init_def c)
qed

lemma empty_plgcfg_ok [simp]: "plgcfg_ok empty_cfg"
  by (simp add: plgcfg_ok_def empty_cfg_def)

text \<open>The first element of a name in the file is the one that counts, and services are searched in file order.\<close>

fun elem_def :: "xml_elem \<Rightarrow> plugin_def" where
  "elem_def (Elem a cs) =
     \<lparr>plg_name = the (map_of a XML_ATTR_PLUGIN_NAME), plg_version = the (map_of a XML_ATTR_PLUGIN_VERSION),
      plg_service = the (map_of a XML_ATTR_PLUGIN_SERVICE)\<rparr>"

fun first_of_name :: "plugin_def list \<Rightarrow> plugin_def list" where
  "first_of_name [] = []"
| "first_of_name (d # ds) = d # filter (\<lambda>d'. plg_name d' \<noteq> plg_name d) (first_of_name ds)"

lemma first_of_name_filter:
  "first_of_name (filter (\<lambda>d. plg_name d \<noteq> n) ds) = filter (\<lambda>d. plg_name d \<noteq> n) (first_of_name ds)"
proof (induction ds)
  case Nil
  then show ?case by simp
next
  case (Cons d ds)
  then show ?case by (auto simp: filter_filter conj_commute intro: filter_cong)
qed

lemma load_defs_first:
  "snd (load_defs es c) \<Longrightarrow>
   m_vecPlgDefs (fst (load_defs es c)) =
     m_vecPlgDefs c @ first_of_name (filter (\<lambda>d. plg_name d \<notin> plg_name ` set (m_vecPlgDefs c)) (map elem_def es))"
proof (induction es arbitrary: c)
  case Nil
  then show ?case by simp
next
  case (Cons e es)
  have ok: "snd (LoadPluginDef (Some e) c)"
    using Cons.prems by (auto split: prod.splits bool.splits)
  then have step: "LoadPluginDef (Some e) c = (AddPluginDef (elem_def e) c, True)"
    by (cases e) (auto simp: LoadPluginDef_def Let_def split: if_splits)
  let ?c = "AddPluginDef (elem_def e) c"
  have IH: "m_vecPlgDefs (fst (load_defs es ?c)) =
     m_vecPlgDefs ?c @ first_of_name (filter (\<lambda>d. plg_name d \<notin> plg_name ` set (m_vecPlgDefs ?c)) (map elem_def es))"
    using Cons.prems by (intro Cons.IH) (simp add: step)
  show ?case
  proof (cases "plg_name (elem_def e) \<in> plg_name ` set (m_vecPlgDefs c)")
    case True
    then have "?c = c" by (auto simp: AddPluginDef_def cfg_GetPlugin_None)
    then show ?thesis using IH step True by simp
  next
    case False
    then have c: "m_vecPlgDefs ?c = m_vecPlgDefs c @ [elem_def e]"
      by (auto simp: AddPluginDef_def cfg_GetPlugin_None)
    have f: "filter (\<lambda>d. plg_name d \<notin> plg_name ` set (m_vecPlgDefs ?c)) (map elem_def es) =
        filter (\<lambda>d. plg_name d \<noteq> plg_name (elem_def e))
          (filter (\<lambda>d. plg_name d \<notin> plg_name ` set (m_vecPlgDefs c)) (map elem_def es))"
      by (auto simp: c intro: filter_cong)
    show ?thesis
      using IH step False unfolding f first_of_name_filter by (simp add: c)
  qed
qed

end
