(* ===== verification/Worker.thy ===== *)
theory Worker
  imports Plugins PluginCfg Communication
begin

text \<open>
  \<^verbatim>\<open>CTaskWorker\<close> (\<^verbatim>\<open>src/src/agent/TaskWorker.cpp\<close>): a thread with a queue of requests. One round
  of \<^verbatim>\<open>ReqProc\<close> is two steps, because the plugin runs outside every lock in between: \<open>ReqFetch\<close>
  takes a request and finds its plugin, \<open>ReqInvoke\<close> runs the plugin and answers. The locals of the
  loop between the two, the message and the plugin, are the field \<open>w_current\<close>.
\<close>

datatype thread_status = THREAD_STATUS_IDLE | THREAD_STATUS_RUNNING | THREAD_STATUS_EXITED

record 'j worker =
  m_vecReqQueue :: "'j message_pair list"
  m_SCN :: u64
  m_plgName :: "string option"
  m_plgVersion :: "string option"
  m_bProcReq :: bool
  m_bNeedExit :: bool
  m_iThreadStatus :: thread_status
  w_current :: "('j message_pair \<times> iplugin) option"

definition CTaskWorker :: "'j worker" where
  "CTaskWorker = \<lparr>m_vecReqQueue = [], m_SCN = 0, m_plgName = None, m_plgVersion = None, m_bProcReq = False,
     m_bNeedExit = False, m_iThreadStatus = THREAD_STATUS_IDLE, w_current = None\<rparr>"

text \<open>\<^verbatim>\<open>Init\<close> keeps the two pointers and starts the thread; \<open>thread\<close> is the result of creating it.\<close>

definition Worker_Init :: "int \<Rightarrow> plgcfg option \<Rightarrow> plgmgr option \<Rightarrow> 'j worker \<Rightarrow> 'j worker \<times> int" where
  "Worker_Init thread cfg g w =
     (case (cfg, g) of
        (Some _, Some g) \<Rightarrow>
          (let w = w\<lparr>m_SCN := GetSCN g\<rparr>
           in if thread \<noteq> MP_SUCCESS then (w, thread) else (w, MP_SUCCESS))
      | _ \<Rightarrow> (w, MP_FAILED))"

definition PopRequest :: "'j worker \<Rightarrow> 'j worker \<times> 'j message_pair option" where
  "PopRequest w =
     (case m_vecReqQueue w of
        [] \<Rightarrow> (w, None)
      | m # q \<Rightarrow> (w\<lparr>m_vecReqQueue := q\<rparr>, Some m))"

definition PushRequest :: "'j message_pair \<Rightarrow> 'j worker \<Rightarrow> 'j worker" where
  "PushRequest m w = w\<lparr>m_vecReqQueue := m_vecReqQueue w @ [m]\<rparr>"

interpretation worker_queue: fifo PushRequest PopRequest m_vecReqQueue "\<lambda>_. True"
  by unfold_locales (auto simp: PushRequest_def PopRequest_def pop_class_def split: list.split)

section \<open>Finding the plugin\<close>

definition worker_GetPlugin ::
  "lib_env \<Rightarrow> callback \<Rightarrow> plgcfg \<Rightarrow> string \<Rightarrow> plgmgr \<Rightarrow> plgmgr \<times> iplugin option" where
  "worker_GetPlugin E cb cfg svc g =
     (case GetPluginByService svc cfg of
        None \<Rightarrow> (g, None)
      | Some d \<Rightarrow>
          (let (g, pPlg) = (case mgr_GetPlugin (plg_name d) g of
                 Some p \<Rightarrow> (g, Some p)
               | None \<Rightarrow> LoadPlugin E cb (plg_name d) g)
           in case pPlg of
                None \<Rightarrow> (g, None)
              | Some p \<Rightarrow> if plg_TypeId p \<noteq> APP_PUGIN_ID then (g, None) else (g, Some p)))"

definition SetPlugin :: "iplugin \<Rightarrow> 'j worker \<Rightarrow> 'j worker" where
  "SetPlugin p w = w\<lparr>m_plgVersion := plg_GetVersion p, m_plgName := plg_GetName p\<rparr>"

definition CanUnloadPlugin :: "u64 \<Rightarrow> string \<Rightarrow> 'j worker \<Rightarrow> bool" where
  "CanUnloadPlugin newSCN plgName w =
     (if m_plgName w = None \<or> m_plgName w \<noteq> Some plgName then True
      else if newSCN = m_SCN w then True
      else False)"

section \<open>A round of the loop\<close>

definition ReqFetch ::
  "lib_env \<Rightarrow> callback \<Rightarrow> plgcfg \<Rightarrow> 'j worker \<times> plgmgr \<times> 'j comm \<Rightarrow> 'j worker \<times> plgmgr \<times> 'j comm" where
  "ReqFetch E cb cfg s =
     (case s of (w, g, c) \<Rightarrow>
        (let w = w\<lparr>m_SCN := GetSCN g\<rparr> in
         case PopRequest w of
           (w, None) \<Rightarrow> (w\<lparr>m_bProcReq := False\<rparr>, g, c)
         | (w, Some msg) \<Rightarrow>
             (let w = w\<lparr>m_bProcReq := True\<rparr>;
                  strService = GetServiceName (m_url (fst msg))
              in case worker_GetPlugin E cb cfg strService g of
                   (g, None) \<Rightarrow> (w, g, PushRspMsgQueue (SetRetCode ERROR_COMMON_PLUGIN_LOAD_FAILED msg) c)
                 | (g, Some p) \<Rightarrow> ((SetPlugin p w)\<lparr>w_current := Some (msg, p)\<rparr>, g, c))))"

definition ReqInvoke :: "'j run_action \<Rightarrow> 'j worker \<times> 'j comm \<Rightarrow> 'j worker \<times> 'j comm" where
  "ReqInvoke run s =
     (case s of (w, c) \<Rightarrow>
        (case w_current w of
           None \<Rightarrow> (w, c)
         | Some (msg, p) \<Rightarrow>
             (let (msg, iRet) = Invoke run p msg;
                  msg = (if iRet \<noteq> MP_SUCCESS
                         then (if m_lRetCode (snd msg) = MP_SUCCESS then SetRetCode iRet msg else msg)
                         else msg)
              in (w\<lparr>w_current := None\<rparr>, PushRspMsgQueue msg c))))"

text \<open>
  The test at the head of the loop and the code after it. The flag is set by no function of the
  class, so a thread that runs never ends.
\<close>

definition worker_next ::
  "lib_env \<Rightarrow> callback \<Rightarrow> plgcfg \<Rightarrow> 'j run_action \<Rightarrow> 'j worker \<times> plgmgr \<times> 'j comm \<Rightarrow> 'j worker \<times> plgmgr \<times> 'j comm" where
  "worker_next E cb cfg run s =
     (case s of (w, g, c) \<Rightarrow>
        (if m_iThreadStatus w = THREAD_STATUS_EXITED then s
         else if m_iThreadStatus w = THREAD_STATUS_IDLE then (w\<lparr>m_iThreadStatus := THREAD_STATUS_RUNNING\<rparr>, g, c)
         else case w_current w of
                Some _ \<Rightarrow> (let (w, c) = ReqInvoke run (w, c) in (w, g, c))
              | None \<Rightarrow> if m_bNeedExit w then (w\<lparr>m_iThreadStatus := THREAD_STATUS_EXITED\<rparr>, g, c)
                        else ReqFetch E cb cfg (w, g, c)))"

section \<open>Every request is answered once\<close>

text \<open>The messages a worker holds: its queue and the one it is working on.\<close>

definition w_msgs :: "'j worker \<Rightarrow> 'j message_pair list" where
  "w_msgs w = (case w_current w of None \<Rightarrow> [] | Some (m, _) \<Rightarrow> [m]) @ m_vecReqQueue w"

text \<open>An action keeps the request it was given and the kind of the response.\<close>

definition keeps_request :: "'j run_action \<Rightarrow> bool" where
  "keeps_request run \<longleftrightarrow> (\<forall>act m. m_httpReq (fst (fst (run act m))) = m_httpReq (fst m) \<and>
     is_internal (fst (run act m)) = is_internal m)"

text \<open>
  What identifies a message on its way: the FastCGI object of its request and whether it is
  internal.
\<close>

definition msg_id :: "'j message_pair \<Rightarrow> addr option \<times> bool" where
  "msg_id m = (m_pFcgRequest (m_httpReq (fst m)), is_internal m)"

lemma msg_id_SetRetCode [simp]: "msg_id (SetRetCode rc m) = msg_id m"
  by (simp add: msg_id_def)

lemma keeps_requestD:
  assumes "keeps_request run"
  shows "m_httpReq (fst (fst (run act m))) = m_httpReq (fst m)" "is_internal (fst (run act m)) = is_internal m"
  using assms unfolding keeps_request_def by blast+

lemma Invoke_msg_id: "keeps_request run \<Longrightarrow> msg_id (fst (Invoke run p m)) = msg_id m"
  by (simp add: Invoke_def DoAction_def msg_id_def Let_def case_prod_unfold keeps_requestD split: option.split)

lemma Invoke_failure:
  "snd (Invoke run p m) \<noteq> MP_SUCCESS \<Longrightarrow> m_lRetCode (snd (fst (Invoke run p m))) = snd (Invoke run p m)"
  by (auto simp: Invoke_def Let_def case_prod_unfold split: if_splits)

lemma PushRequest_msgs: "w_msgs (PushRequest m w) = w_msgs w @ [m]"
  by (simp add: w_msgs_def PushRequest_def)

text \<open>
  A round answers exactly the oldest message of the worker, or takes it up: the messages of the
  worker and the responses together never change, up to what the action does to them.
\<close>

lemma ReqFetch_conserves:
  assumes "w_current w = None"
  shows "case ReqFetch E cb cfg (w, g, c) of (w', g', c') \<Rightarrow>
      map msg_id (m_rspMsgQueue c') @ map msg_id (w_msgs w') = map msg_id (m_rspMsgQueue c) @ map msg_id (w_msgs w) \<and>
      m_ReqHandlerTable c' = m_ReqHandlerTable c \<and> m_reqMsgQueue c' = m_reqMsgQueue c"
  using assms
  by (cases "m_vecReqQueue w")
    (auto simp: ReqFetch_def PopRequest_def SetPlugin_def w_msgs_def PushRspMsgQueue_def Let_def case_prod_unfold
      split: option.split)

lemma ReqInvoke_conserves:
  assumes "keeps_request run"
  shows "case ReqInvoke run (w, c) of (w', c') \<Rightarrow>
      map msg_id (m_rspMsgQueue c') @ map msg_id (w_msgs w') = map msg_id (m_rspMsgQueue c) @ map msg_id (w_msgs w) \<and>
      m_ReqHandlerTable c' = m_ReqHandlerTable c \<and> m_reqMsgQueue c' = m_reqMsgQueue c"
  using Invoke_msg_id [OF assms]
  by (cases "w_current w")
    (auto simp: ReqInvoke_def w_msgs_def PushRspMsgQueue_def Let_def case_prod_unfold split: prod.split)

text \<open>The code of the answer: the one of the failed action, or that of the missing plugin.\<close>

lemma ReqInvoke_code:
  assumes "w_current w = Some (m, p)" "snd (Invoke run p m) \<noteq> MP_SUCCESS"
  shows "m_lRetCode (snd (last (m_rspMsgQueue (snd (ReqInvoke run (w, c)))))) = snd (Invoke run p m)"
  using assms Invoke_failure [OF assms(2)]
  by (simp add: ReqInvoke_def PushRspMsgQueue_def Let_def case_prod_unfold)

lemma worker_never_exits:
  assumes "\<not> m_bNeedExit w" "m_iThreadStatus w \<noteq> THREAD_STATUS_EXITED"
  shows "\<not> m_bNeedExit (fst (worker_next E cb cfg run (w, g, c))) \<and>
         m_iThreadStatus (fst (worker_next E cb cfg run (w, g, c))) \<noteq> THREAD_STATUS_EXITED"
  using assms
  by (auto simp: worker_next_def ReqFetch_def ReqInvoke_def PopRequest_def SetPlugin_def Let_def case_prod_unfold
      split: option.split list.split)

text \<open>The manager stays well formed, and a plugin found is one the manager holds.\<close>

lemma worker_GetPlugin_ok:
  "service_env E \<Longrightarrow> mgr_ok g \<Longrightarrow> mgr_ok (fst (worker_GetPlugin E cb cfg svc g))"
  by (auto simp: worker_GetPlugin_def Let_def case_prod_unfold LoadPlugin_ok split: option.split)

lemma worker_GetPlugin_held:
  assumes "service_env E" "worker_GetPlugin E cb cfg svc g = (g', Some p)"
  shows "\<exists>d. GetPluginByService svc cfg = Some d \<and> mgr_GetPlugin (plg_name d) g' = Some p \<and> plg_TypeId p = APP_PUGIN_ID"
proof -
  obtain d where d: "GetPluginByService svc cfg = Some d"
    using assms(2) by (auto simp: worker_GetPlugin_def split: option.splits)
  show ?thesis
  proof (cases "mgr_GetPlugin (plg_name d) g")
    case (Some q)
    then show ?thesis using assms(2) d by (auto simp: worker_GetPlugin_def split: if_splits)
  next
    case None
    then have L: "LoadPlugin E cb (plg_name d) g = (g', Some p)" "plg_TypeId p = APP_PUGIN_ID"
      using assms(2) d by (auto simp: worker_GetPlugin_def Let_def split: prod.splits option.splits if_splits)
    have "mgr_GetPlugin (plg_name d) g' = Some p"
    proof (rule LoadPlugin_cases [OF assms(1), of "plg_name d" g cb])
      fix m assume "GetModule (plg_name d) g = Some m" "LoadPlugin E cb (plg_name d) g = (g, m_Plugin m)"
      then show ?thesis using L None by (simp add: mgr_GetPlugin_def)
    next
      fix m assume new: "GetModule (plg_name d) g = None" "m_Name m = plg_name d"
        "LoadPlugin E cb (plg_name d) g = (g\<lparr>dl_handles := add_mset (the (m_hLib m)) (dl_handles g),
           m_scn := m_scn g + 1 + 1, m_Modules := map_put (plg_name d) m (m_Modules g)\<rparr>, m_Plugin m)"
      have "map_of (map_put k v ms) k = Some v" for k :: string and v :: cmodule and ms
        by (induction k v ms rule: map_put.induct) auto
      then show ?thesis using new L by (auto simp: mgr_GetPlugin_def GetModule_def)
    qed (use L in simp)
    then show ?thesis using L d by simp
  qed
qed

end
