(* ===== verification/Dispatch.thy ===== *)
theory Dispatch
  imports Worker
begin

text \<open>
  \<^verbatim>\<open>CTaskDispatchWorker\<close> (\<^verbatim>\<open>src/src/agent/TaskDispatchWorker.cpp\<close>, the build without VSS): the thread
  that hands each request to an idle worker, in turn, and answers it as busy when it has asked all
  of them.
\<close>

abbreviation MAX_PUSHED_WORKERS_CNT :: int where "MAX_PUSHED_WORKERS_CNT \<equiv> 2147483640"

record dispatcher =
  m_iWorkerCount :: int
  m_lastPushedWorker :: int
  m_hasWorkers :: bool

definition CTaskDispatchWorker :: dispatcher where
  "CTaskDispatchWorker = \<lparr>m_iWorkerCount = 0, m_lastPushedWorker = 0, m_hasWorkers = False\<rparr>"

definition Dispatch_Init :: "int \<Rightarrow> int \<Rightarrow> dispatcher \<Rightarrow> dispatcher \<times> int" where
  "Dispatch_Init thread iCount d =
     (let d = d\<lparr>m_hasWorkers := True, m_iWorkerCount := iCount\<rparr>
      in if thread \<noteq> MP_SUCCESS then (d, thread) else (d, MP_SUCCESS))"

section \<open>The search for an idle worker\<close>

text \<open>
  The other threads change the status of a worker at any time: \<open>busy k i\<close> is what the \<open>k\<close>-th test
  of the loop reads for worker \<open>i\<close>. The loop may not end, so that its value is an option. The
  counter is a signed 32-bit integer; its range is a property below.
\<close>

datatype choice = Chosen nat | AllBusy

definition next_counter :: "int \<Rightarrow> int" where
  "next_counter lst = (if lst + 1 > MAX_PUSHED_WORKERS_CNT then 0 else lst + 1)"

partial_function (option) push_loop ::
  "(nat \<Rightarrow> nat \<Rightarrow> bool) \<Rightarrow> int \<Rightarrow> int \<Rightarrow> nat \<Rightarrow> int \<Rightarrow> (int \<times> choice) option" where
  "push_loop busy cnt first k lst =
     (let iWorkIndex = nat (lst mod cnt);
          lst = next_counter lst
      in if lst - first - 1 = cnt then Some (lst, AllBusy)
         else if busy k iWorkIndex then push_loop busy cnt first (Suc k) lst
         else Some (lst, Chosen iWorkIndex))"

text \<open>
  \<^verbatim>\<open>PushMsgToWorker\<close>. Without workers the message is dropped; \<^const>\<open>None\<close> is a search that does not
  end.
\<close>

definition PushMsgToWorker ::
  "(nat \<Rightarrow> nat \<Rightarrow> bool) \<Rightarrow> 'j message_pair \<Rightarrow> dispatcher \<times> 'j worker list \<times> 'j comm
     \<Rightarrow> (dispatcher \<times> 'j worker list \<times> 'j comm) option" where
  "PushMsgToWorker busy msg s =
     (case s of (d, ws, c) \<Rightarrow>
        (if m_iWorkerCount d \<le> 0 \<or> \<not> m_hasWorkers d then Some (d, ws, c)
         else case push_loop busy (m_iWorkerCount d) (m_lastPushedWorker d) 0 (m_lastPushedWorker d) of
                None \<Rightarrow> None
              | Some (lst, AllBusy) \<Rightarrow>
                  Some (d\<lparr>m_lastPushedWorker := lst\<rparr>, ws, PushRspMsgQueue (SetRetCode ERROR_COMMON_PROC_REQUEST_BUSY msg) c)
              | Some (lst, Chosen i) \<Rightarrow>
                  Some (d\<lparr>m_lastPushedWorker := lst\<rparr>, ws[i := PushRequest msg (ws ! i)], c)))"

text \<open>A round of \<^verbatim>\<open>DispacthProc\<close>.\<close>

definition DispatchProc ::
  "(nat \<Rightarrow> nat \<Rightarrow> bool) \<Rightarrow> dispatcher \<times> 'j worker list \<times> 'j comm \<Rightarrow> (dispatcher \<times> 'j worker list \<times> 'j comm) option" where
  "DispatchProc busy s =
     (case s of (d, ws, c) \<Rightarrow>
        (case PopReqMsgQueue c of
           (c, None) \<Rightarrow> Some (d, ws, c)
         | (c, Some msg) \<Rightarrow> PushMsgToWorker busy msg (d, ws, c)))"

section \<open>The reference: the first idle worker of a turn\<close>

text \<open>
  The workers in the order of the turn that starts at the counter; the first that is idle when it
  is asked is chosen.
\<close>

definition turn_choice :: "(nat \<Rightarrow> nat \<Rightarrow> bool) \<Rightarrow> int \<Rightarrow> int \<Rightarrow> int \<times> choice" where
  "turn_choice busy cnt first =
     (case List.find (\<lambda>k. \<not> busy k (nat ((first + int k) mod cnt))) [0..<nat cnt] of
        Some k \<Rightarrow> (first + int k + 1, Chosen (nat ((first + int k) mod cnt)))
      | None \<Rightarrow> (first + cnt + 1, AllBusy))"

lemma push_loop_turn:
  assumes "0 < cnt" "0 \<le> first" "first + cnt + 1 \<le> MAX_PUSHED_WORKERS_CNT" "int k \<le> cnt"
  shows "push_loop busy cnt first k (first + int k) =
     Some (case List.find (\<lambda>k. \<not> busy k (nat ((first + int k) mod cnt))) [k..<nat cnt] of
        Some k \<Rightarrow> (first + int k + 1, Chosen (nat ((first + int k) mod cnt)))
      | None \<Rightarrow> (first + cnt + 1, AllBusy))"
  using assms(4)
proof (induction "nat cnt - k" arbitrary: k)
  case 0
  then have "int k = cnt" by simp
  then show ?case
    using assms by (simp add: push_loop.simps [of busy cnt first k] next_counter_def Let_def)
next
  case (Suc n)
  then have k: "int k < cnt" by linarith
  then have range: "[k..<nat cnt] = k # [Suc k..<nat cnt]" by (intro upt_conv_Cons) linarith
  have nxt: "next_counter (first + int k) = first + int (Suc k)"
    using assms k by (simp add: next_counter_def)
  have IH: "push_loop busy cnt first (Suc k) (first + int (Suc k)) =
     Some (case List.find (\<lambda>k. \<not> busy k (nat ((first + int k) mod cnt))) [Suc k..<nat cnt] of
        Some k \<Rightarrow> (first + int k + 1, Chosen (nat ((first + int k) mod cnt)))
      | None \<Rightarrow> (first + cnt + 1, AllBusy))"
    using Suc k by (intro Suc.hyps(1)) linarith+
  show ?case
    using k IH unfolding push_loop.simps [of busy cnt first k] Let_def nxt range by simp
qed

lemma push_loop_equiv:
  assumes "0 < cnt" "0 \<le> first" "first + cnt + 1 \<le> MAX_PUSHED_WORKERS_CNT"
  shows "push_loop busy cnt first 0 first = Some (turn_choice busy cnt first)"
  using push_loop_turn [OF assms, of 0 busy] assms(1) by (simp add: turn_choice_def)

text \<open>The counter stays in its range, whatever the loop reads.\<close>

lemma next_counter_range:
  "0 \<le> lst \<Longrightarrow> lst \<le> MAX_PUSHED_WORKERS_CNT \<Longrightarrow> 0 \<le> next_counter lst \<and> next_counter lst \<le> MAX_PUSHED_WORKERS_CNT"
  by (simp add: next_counter_def)

lemma push_loop_range:
  assumes "push_loop busy cnt first k lst = Some r" "0 \<le> lst" "lst \<le> MAX_PUSHED_WORKERS_CNT" "0 < cnt"
  shows "0 \<le> fst r \<and> fst r \<le> MAX_PUSHED_WORKERS_CNT \<and>
    (case snd r of AllBusy \<Rightarrow> fst r = first + cnt + 1 | Chosen i \<Rightarrow> i < nat cnt \<and> (\<exists>k' \<ge> k. \<not> busy k' i))"
proof -
  define Q where "Q = (\<lambda>(busy :: nat \<Rightarrow> nat \<Rightarrow> bool) cnt first (k :: nat) (lst :: int) (r :: int \<times> choice). 0 \<le> lst \<longrightarrow> lst \<le> MAX_PUSHED_WORKERS_CNT \<longrightarrow> 0 < cnt \<longrightarrow>
    0 \<le> fst r \<and> fst r \<le> MAX_PUSHED_WORKERS_CNT \<and>
    (case snd r of AllBusy \<Rightarrow> fst r = first + cnt + 1 | Chosen i \<Rightarrow> i < nat cnt \<and> (\<exists>k' \<ge> k. \<not> busy k' i)))"
  have "Q busy cnt first k lst r"
  proof (rule push_loop.raw_induct [OF _ assms(1), of Q])
    fix f busy cnt first k lst r
    assume IH: "\<And>busy cnt first k lst r. f busy cnt first k lst = Some r \<Longrightarrow> Q busy cnt first k lst r"
      and body: "(let iWorkIndex = nat (lst mod cnt); lst = next_counter lst
      in if lst - first - 1 = cnt then Some (lst, AllBusy)
         else if busy k iWorkIndex then f busy cnt first (Suc k) lst
         else Some (lst, Chosen iWorkIndex)) = Some r"
    show "Q busy cnt first k lst r"
      unfolding Q_def
    proof (intro impI)
      assume lst: "0 \<le> lst" "lst \<le> MAX_PUSHED_WORKERS_CNT" "0 < cnt"
      note range = next_counter_range [OF lst(1,2)]
      consider "next_counter lst - first - 1 = cnt" "r = (next_counter lst, AllBusy)"
        | "busy k (nat (lst mod cnt))" "f busy cnt first (Suc k) (next_counter lst) = Some r"
        | "\<not> busy k (nat (lst mod cnt))" "r = (next_counter lst, Chosen (nat (lst mod cnt)))"
        using body by (auto simp: Let_def split: if_splits)
      then show "0 \<le> fst r \<and> fst r \<le> MAX_PUSHED_WORKERS_CNT \<and>
        (case snd r of AllBusy \<Rightarrow> fst r = first + cnt + 1 | Chosen i \<Rightarrow> i < nat cnt \<and> (\<exists>k' \<ge> k. \<not> busy k' i))"
      proof cases
        case 1
        then show ?thesis using range by simp
      next
        case 2
        from IH [OF 2(2)] range lst(3) show ?thesis
          by (auto simp: Q_def split: choice.splits intro: Suc_leD)
      next
        case 3
        then show ?thesis using range lst(3) by auto
      qed
    qed
  qed
  then show ?thesis using assms(2-4) by (simp add: Q_def)
qed

text \<open>
  Near the end of the range the counter starts again at zero before the workers are counted off,
  and the test for a full turn never succeeds: with all workers busy the loop does not end.
\<close>

lemma push_loop_stuck:
  assumes "\<And>k i. busy k i" "0 \<le> first" "first \<le> MAX_PUSHED_WORKERS_CNT" "0 < cnt"
    "first + cnt + 1 > MAX_PUSHED_WORKERS_CNT"
  shows "push_loop busy cnt first 0 first = None"
proof (cases "push_loop busy cnt first 0 first")
  case (Some r)
  from push_loop_range [OF this assms(2,3,4)] assms(1,5) show ?thesis
    by (cases "snd r") auto
qed

text \<open>
  The loop ends as soon as one worker stays idle long enough to be looked at, also across the
  restart of the counter, which passes every worker again and again.
\<close>

lemma push_loop_None_busy:
  "push_loop busy cnt first k lst = None \<Longrightarrow> busy (k + n) (nat ((next_counter ^^ n) lst mod cnt))"
proof (induction n arbitrary: k lst)
  case 0
  then show ?case by (subst (asm) push_loop.simps) (auto simp: Let_def split: if_splits)
next
  case (Suc n)
  from Suc.prems have "push_loop busy cnt first (Suc k) (next_counter lst) = None"
    by (subst (asm) push_loop.simps) (auto simp: Let_def split: if_splits)
  from Suc.IH [OF this] show ?case by (simp only: funpow_Suc_right o_apply add_Suc add_Suc_right)
qed

lemma next_counter_add:
  "0 \<le> lst \<Longrightarrow> lst + int n \<le> MAX_PUSHED_WORKERS_CNT \<Longrightarrow> (next_counter ^^ n) lst = lst + int n"
  by (induction n) (auto simp: next_counter_def)

lemma next_counter_iter_range:
  "0 \<le> lst \<Longrightarrow> lst \<le> MAX_PUSHED_WORKERS_CNT \<Longrightarrow>
   0 \<le> (next_counter ^^ n) lst \<and> (next_counter ^^ n) lst \<le> MAX_PUSHED_WORKERS_CNT"
  by (induction n) (simp_all add: next_counter_range)

lemma next_counter_reaches:
  assumes "0 \<le> lst" "lst \<le> MAX_PUSHED_WORKERS_CNT" "0 \<le> j" "j \<le> MAX_PUSHED_WORKERS_CNT"
  shows "\<exists>n \<ge> N. (next_counter ^^ n) lst = j"
proof -
  let ?l = "(next_counter ^^ N) lst"
  let ?m = "nat (MAX_PUSHED_WORKERS_CNT - ?l)"
  note r = next_counter_iter_range [OF assms(1,2), of N]
  have "(next_counter ^^ ?m) ?l = MAX_PUSHED_WORKERS_CNT"
    using next_counter_add [of ?l ?m] r by simp
  then have "(next_counter ^^ Suc ?m) ?l = 0" by (simp add: next_counter_def)
  moreover have "(next_counter ^^ nat j) 0 = j" using next_counter_add [of 0 "nat j"] assms(3,4) by simp
  ultimately have "(next_counter ^^ (nat j + (Suc ?m + N))) lst = j"
    by (simp only: funpow_add o_apply)
  then show ?thesis by (intro exI [of _ "nat j + (Suc ?m + N)"]) simp
qed

lemma push_loop_returns:
  assumes "0 < cnt" "cnt \<le> MAX_PUSHED_WORKERS_CNT" "0 \<le> lst" "lst \<le> MAX_PUSHED_WORKERS_CNT"
    "i < nat cnt" "\<And>k. K \<le> k \<Longrightarrow> \<not> busy k i"
  shows "push_loop busy cnt first 0 lst \<noteq> None"
proof
  assume n: "push_loop busy cnt first 0 lst = None"
  have "int i < cnt" using assms(5) by (simp add: zless_nat_eq_int_zless)
  then have "int i \<le> MAX_PUSHED_WORKERS_CNT" using assms(2) by simp
  then obtain m where "m \<ge> K" "(next_counter ^^ m) lst = int i"
    using next_counter_reaches [OF assms(3,4), of "int i" K] by auto
  with push_loop_None_busy [OF n, of m] assms(5,6) show False by simp
qed

section \<open>Dispatching keeps every message\<close>

definition all_msgs :: "'j worker list \<times> 'j comm \<Rightarrow> (addr option \<times> bool) multiset" where
  "all_msgs s = (case s of (ws, c) \<Rightarrow>
     mset (map msg_id (m_reqMsgQueue c)) + mset (map msg_id (concat (map w_msgs ws))) + mset (map msg_id (m_rspMsgQueue c)))"

lemma mset_concat_update:
  assumes "i < length ws"
  shows "mset (map f (concat (map g (ws[i := w])))) + mset (map f (g (ws ! i))) =
         mset (map f (concat (map g ws))) + mset (map f (g w))"
  using assms
proof (induction ws arbitrary: i)
  case Nil
  then show ?case by simp
next
  case (Cons a ws)
  show ?case
  proof (cases i)
    case 0
    then show ?thesis by simp
  next
    case (Suc j)
    then show ?thesis using Cons.IH [of j] Cons.prems by (simp add: ac_simps)
  qed
qed

lemma PushMsgToWorker_conserves:
  assumes "PushMsgToWorker busy msg (d, ws, c) = Some (d', ws', c')"
    "m_hasWorkers d" "m_iWorkerCount d = int (length ws)" "ws \<noteq> []"
    "0 \<le> m_lastPushedWorker d" "m_lastPushedWorker d \<le> MAX_PUSHED_WORKERS_CNT"
  shows "all_msgs (ws', c') = all_msgs (ws, c) + {#msg_id msg#}"
proof -
  let ?f = "m_lastPushedWorker d" and ?n = "m_iWorkerCount d"
  have n: "0 < ?n" using assms(3,4) by simp
  obtain lst ch where L: "push_loop busy ?n ?f 0 ?f = Some (lst, ch)"
    using assms(1,2) n by (auto simp: PushMsgToWorker_def split: option.splits)
  show ?thesis
  proof (cases ch)
    case AllBusy
    then show ?thesis
      using assms(1,2) n by (auto simp: PushMsgToWorker_def L all_msgs_def PushRspMsgQueue_def)
  next
    case (Chosen i)
    have "i < length ws" using push_loop_range [OF L assms(5,6) n] assms(3) Chosen by simp
    from mset_concat_update [OF this, of msg_id w_msgs "PushRequest msg (ws ! i)"] show ?thesis
      using assms(1,2) n by (auto simp: PushMsgToWorker_def L Chosen all_msgs_def PushRequest_msgs)
  qed
qed

end
