(* ===== verification/Path.thy ===== *)
theory Path
  imports FileSearcher
begin

text \<open>
  \<^verbatim>\<open>CPath\<close> (\<^verbatim>\<open>src/src/common/Path.cpp\<close>, \<^verbatim>\<open>src/inc/common/Path.h\<close>): the directories of the agent
  below its root, which is found from the path of the executable. \<^verbatim>\<open>dirname\<close> is the function of the
  C library.
\<close>

abbreviation MAX_FULL_PATH_LEN :: nat where "MAX_FULL_PATH_LEN \<equiv> 300"

text \<open>\<^verbatim>\<open>strncpy_s\<close> of a whole C string: it must fit with its terminator.\<close>

definition strncpy_s :: "nat \<Rightarrow> string \<Rightarrow> string option" where
  "strncpy_s destMax s = (if length s < destMax then Some s else None)"

text \<open>\<^verbatim>\<open>strrchr\<close> with the cut at the position found: the text before the last occurrence.\<close>

definition before_last :: "char \<Rightarrow> string \<Rightarrow> string option" where
  "before_last c s =
     (if c \<in> set s then Some (rev (drop 1 (dropWhile (\<lambda>d. d \<noteq> c) (rev s)))) else None)"

text \<open>The root path after \<^verbatim>\<open>Init\<close>, or the error that leaves it unchanged.\<close>

definition Path_Init :: "(string \<Rightarrow> string option) \<Rightarrow> string option \<Rightarrow> int + string" where
  "Path_Init dirname pszBinFilePath =
     (case pszBinFilePath of
        None \<Rightarrow> Inl ERROR_COMMON_OPER_FAILED
      | Some bin \<Rightarrow>
          (case dirname bin of
             None \<Rightarrow> Inl ERROR_COMMON_OPER_FAILED
           | Some pszPath \<Rightarrow>
               (case strncpy_s MAX_FULL_PATH_LEN pszPath of
                  None \<Rightarrow> Inl ERROR_COMMON_OPER_FAILED
                | Some acAgentRoot \<Rightarrow>
                    (case before_last (CHR ''/'') acAgentRoot of
                       None \<Rightarrow> Inl ERROR_COMMON_OPER_FAILED
                     | Some root \<Rightarrow> Inr root))))"

definition GetBinPath :: "string \<Rightarrow> string" where "GetBinPath root = root @ PATH_SEPARATOR @ ''bin''"
definition GetPluginsPath :: "string \<Rightarrow> string" where
  "GetPluginsPath root = root @ PATH_SEPARATOR @ ''bin'' @ PATH_SEPARATOR @ ''plugins''"
definition GetConfPath :: "string \<Rightarrow> string" where "GetConfPath root = root @ PATH_SEPARATOR @ ''conf''"
definition GetLogPath :: "string \<Rightarrow> string" where "GetLogPath root = root @ PATH_SEPARATOR @ ''log''"
definition GetTmpPath :: "string \<Rightarrow> string" where "GetTmpPath root = root @ PATH_SEPARATOR @ ''tmp''"
definition GetThirdPartyPath :: "string \<Rightarrow> string" where
  "GetThirdPartyPath root = GetBinPath root @ PATH_SEPARATOR @ ''thirdparty''"
definition GetDbPath :: "string \<Rightarrow> string" where "GetDbPath root = root @ PATH_SEPARATOR @ ''db''"
definition GetNginxPath :: "string \<Rightarrow> string" where
  "GetNginxPath root = root @ PATH_SEPARATOR @ ''bin'' @ PATH_SEPARATOR @ ''nginx''"

definition GetBinFilePath :: "string \<Rightarrow> string \<Rightarrow> string" where
  "GetBinFilePath root f = GetBinPath root @ PATH_SEPARATOR @ f"
definition GetConfFilePath :: "string \<Rightarrow> string \<Rightarrow> string" where
  "GetConfFilePath root f = GetConfPath root @ PATH_SEPARATOR @ f"
definition GetLogFilePath :: "string \<Rightarrow> string \<Rightarrow> string" where
  "GetLogFilePath root f = GetLogPath root @ PATH_SEPARATOR @ f"
definition GetTmpFilePath :: "string \<Rightarrow> string \<Rightarrow> string" where
  "GetTmpFilePath root f = GetTmpPath root @ PATH_SEPARATOR @ f"
definition GetDbFilePath :: "string \<Rightarrow> string \<Rightarrow> string" where
  "GetDbFilePath root f = GetDbPath root @ PATH_SEPARATOR @ f"
definition GetThirdPartyFilePath :: "string \<Rightarrow> string \<Rightarrow> string" where
  "GetThirdPartyFilePath root f = GetThirdPartyPath root @ PATH_SEPARATOR @ f"

text \<open>An executable in the \<open>bin\<close> directory of a root gives back the root.\<close>

lemma before_last_append: "c \<notin> set t \<Longrightarrow> before_last c (s @ c # t) = Some s"
  by (simp add: before_last_def dropWhile_append dropWhile_eq_Nil_conv)

lemma Path_Init_root:
  assumes "dirname bin = Some (GetBinPath root)" "length root + 4 < MAX_FULL_PATH_LEN"
  shows "Path_Init dirname (Some bin) = Inr root"
  using assms before_last_append [of "CHR ''/''" "''bin''" root]
  by (simp add: Path_Init_def GetBinPath_def strncpy_s_def)

end
