(* ===== verification/TaskPool.thy ===== *)
theory TaskPool
  imports Dispatch Path
begin

text \<open>
  \<^verbatim>\<open>CTaskPool\<close> (\<^verbatim>\<open>src/src/agent/TaskPool.cpp\<close>): it creates the plugin configuration, the plugin
  manager, the workers and the dispatcher, in this order, and it is the callback that the manager
  asks before it unloads a plugin.
\<close>

abbreviation MAX_WORKER_NUM :: nat where "MAX_WORKER_NUM \<equiv> 10"

record 'j taskpool =
  m_pWorkers :: "'j worker option list"
  m_pDispatchWorker :: "dispatcher option"
  m_plugCfgParse :: "plgcfg option"
  m_plugMgr :: "plgmgr option"

text \<open>
  What creating the objects depends on: whether \<^verbatim>\<open>new\<close> of a class succeeds (by the number of the
  object), the result of creating a thread, the files, and the root path.
\<close>

record pool_env =
  pe_new :: "string \<Rightarrow> nat \<Rightarrow> bool"
  pe_thread :: "string \<Rightarrow> nat \<Rightarrow> int"
  pe_files :: cfg_files
  pe_root :: string

definition CTaskPool :: "'j taskpool" where
  "CTaskPool = \<lparr>m_pWorkers = replicate MAX_WORKER_NUM None, m_pDispatchWorker = None,
     m_plugCfgParse = None, m_plugMgr = None\<rparr>"

section \<open>Creating the parts\<close>

definition CreatePlgConfParse :: "pool_env \<Rightarrow> 'j taskpool \<Rightarrow> 'j taskpool \<times> int" where
  "CreatePlgConfParse E p =
     (if \<not> pe_new E ''CPluginCfgParse'' 0 then (p, MP_FAILED)
      else case Cfg_Init (pe_files E) (Some (GetConfFilePath (pe_root E) ''pluginmgr.xml'')) empty_cfg of
             (cfg, iRet) \<Rightarrow>
               (let p = p\<lparr>m_plugCfgParse := Some cfg\<rparr>
                in if iRet \<noteq> MP_SUCCESS then (p, iRet) else (p, MP_SUCCESS)))"

definition CreatePlugMgr :: "pool_env \<Rightarrow> 'j taskpool \<Rightarrow> 'j taskpool \<times> int" where
  "CreatePlugMgr E p =
     (if \<not> pe_new E ''CPluginManager'' 0 then (p, MP_FAILED)
      else if \<not> pe_new E ''CFileSearcher'' 0 then (p\<lparr>m_plugMgr := None\<rparr>, MP_FAILED)
      else (p\<lparr>m_plugMgr := Some (new_mgr (SetPath (GetPluginsPath (pe_root E)) \<lparr>m_paths = [], m_strPath = []\<rparr>))\<rparr>,
            MP_SUCCESS))"

fun create_workers_loop :: "pool_env \<Rightarrow> nat list \<Rightarrow> 'j taskpool \<Rightarrow> 'j taskpool \<times> int" where
  "create_workers_loop E [] p = (p, MP_SUCCESS)"
| "create_workers_loop E (i # is) p =
     (if \<not> pe_new E ''CTaskWorker'' i then (p, MP_FAILED)
      else case Worker_Init (pe_thread E ''CTaskWorker'' i) (m_plugCfgParse p) (m_plugMgr p) CTaskWorker of
             (w, iRet) \<Rightarrow>
               (let p = p\<lparr>m_pWorkers := (m_pWorkers p)[i := Some w]\<rparr>
                in if iRet \<noteq> MP_SUCCESS then (p, iRet) else create_workers_loop E is p))"

definition CreateWorkers :: "pool_env \<Rightarrow> 'j taskpool \<Rightarrow> 'j taskpool \<times> int" where
  "CreateWorkers E p = create_workers_loop E [0..<MAX_WORKER_NUM] p"

definition CreateDispatchWorker :: "pool_env \<Rightarrow> 'j taskpool \<Rightarrow> 'j taskpool \<times> int" where
  "CreateDispatchWorker E p =
     (if \<not> pe_new E ''CTaskDispatchWorker'' 0 then (p, MP_FAILED)
      else case Dispatch_Init (pe_thread E ''CTaskDispatchWorker'' 0) (int MAX_WORKER_NUM) CTaskDispatchWorker of
             (d, iRet) \<Rightarrow>
               (let p = p\<lparr>m_pDispatchWorker := Some d\<rparr>
                in if iRet \<noteq> MP_SUCCESS then (p, iRet) else (p, MP_SUCCESS)))"

definition CreateProtectWorker :: "'j taskpool \<Rightarrow> 'j taskpool \<times> int" where
  "CreateProtectWorker p = (p, MP_SUCCESS)"

definition Pool_Init :: "pool_env \<Rightarrow> 'j taskpool \<Rightarrow> 'j taskpool \<times> int" where
  "Pool_Init E p =
     (let (p, iRet) = CreatePlgConfParse E p
      in if iRet \<noteq> MP_SUCCESS then (p, iRet)
         else let (p, iRet) = CreatePlugMgr E p
              in if iRet \<noteq> MP_SUCCESS then (p, iRet)
                 else let (p, iRet) = CreateWorkers E p
                      in if iRet \<noteq> MP_SUCCESS then (p, iRet)
                         else let (p, iRet) = CreateDispatchWorker E p
                              in if iRet \<noteq> MP_SUCCESS then (p, iRet) else (p, MP_SUCCESS))"

section \<open>Ending\<close>

text \<open>
  \<^verbatim>\<open>Exit\<close> waits for the thread of each worker before it deletes it. A wait for a thread that has not
  ended is \<^const>\<open>None\<close>: the caller is blocked.
\<close>

definition Worker_Exit :: "'j worker \<Rightarrow> 'j worker option" where
  "Worker_Exit w = (if m_iThreadStatus w = THREAD_STATUS_EXITED then Some w else None)"

fun exit_workers :: "'j worker option list \<Rightarrow> 'j worker option list option" where
  "exit_workers [] = Some []"
| "exit_workers (None # ws) = map_option (\<lambda>ws. None # ws) (exit_workers ws)"
| "exit_workers (Some w # ws) =
     (case Worker_Exit w of
        None \<Rightarrow> None
      | Some _ \<Rightarrow> map_option (\<lambda>ws. None # ws) (exit_workers ws))"

definition Pool_Exit :: "'j taskpool \<Rightarrow> 'j taskpool option" where
  "Pool_Exit p =
     (case exit_workers (m_pWorkers p) of
        None \<Rightarrow> None
      | Some ws \<Rightarrow> Some (p\<lparr>m_pWorkers := ws, m_plugCfgParse := None, m_plugMgr := None\<rparr>))"

section \<open>The callback of the plugin manager\<close>

text \<open>The array is full once the workers are created, as whenever the manager calls.\<close>

definition CanUnload :: "'j taskpool \<Rightarrow> iplugin \<Rightarrow> bool" where
  "CanUnload p plg =
     (case m_plugMgr p of
        None \<Rightarrow> False
      | Some g \<Rightarrow>
          (case plg_GetName plg of
             None \<Rightarrow> False
           | Some plgName \<Rightarrow>
               list_all (\<lambda>w. CanUnloadPlugin (GetSCN g) plgName (the w)) (m_pWorkers p)))"

definition GetReleaseVersion :: "'j taskpool \<Rightarrow> string \<Rightarrow> nat \<Rightarrow> string option" where
  "GetReleaseVersion p pszLib sz =
     (case m_plugCfgParse p of
        None \<Rightarrow> None
      | Some cfg \<Rightarrow>
          (case GetPluginVersion (Some pszLib) cfg of
             Inl _ \<Rightarrow> None
           | Inr strVersion \<Rightarrow> strncpy_s sz strVersion))"

definition pool_callback :: "'j taskpool \<Rightarrow> callback" where
  "pool_callback p = \<lparr>cb_CanUnload = CanUnload p, cb_GetReleaseVersion = GetReleaseVersion p\<rparr>"

text \<open>
  The contract of \<^verbatim>\<open>IPluginCallback\<close> that the manager's buffers rely on: a version fits into the buffer
  it was asked for. From it, no file name of a module is cut when the name of the plugin is short.
\<close>

locale plugin_callback =
  fixes version :: "string \<Rightarrow> nat \<Rightarrow> string option"
  assumes version_fits: "version n sz = Some v \<Longrightarrow> length v < sz"
begin

lemma module_name_fits:
  "version n 64 = Some v \<Longrightarrow> length n \<le> 150 \<Longrightarrow>
   SNPRINTF_S 255 (n @ ''-'' @ v @ LIB_SUFFIX) = Some (n @ ''-'' @ v @ LIB_SUFFIX)"
  using version_fits [of n 64 v] by (simp add: SNPRINTF_S_def)

end

interpretation pool_cb: plugin_callback "GetReleaseVersion p" for p :: "'j taskpool"
  by unfold_locales (auto simp: GetReleaseVersion_def strncpy_s_def split: option.splits sum.splits if_splits)

section \<open>Facts\<close>

text \<open>A successful \<^verbatim>\<open>Init\<close> makes all the parts: ten fresh workers that know the manager's SCN.\<close>

lemma create_workers_loop_ok:
  "create_workers_loop E is p = (p', MP_SUCCESS) \<Longrightarrow> m_plugMgr p = Some g \<Longrightarrow>
   p' = p\<lparr>m_pWorkers := fold (\<lambda>i ws. ws[i := Some (CTaskWorker\<lparr>m_SCN := GetSCN g\<rparr>)]) is (m_pWorkers p)\<rparr>"
proof (induction E "is" p rule: create_workers_loop.induct)
  case (1 E p)
  then show ?case by simp
next
  case (2 E i "is" p)
  let ?w = "CTaskWorker\<lparr>m_SCN := GetSCN g\<rparr>"
  have W: "Worker_Init (pe_thread E ''CTaskWorker'' i) (m_plugCfgParse p) (m_plugMgr p) CTaskWorker = (?w, MP_SUCCESS)"
    and rest: "pe_new E ''CTaskWorker'' i"
      "create_workers_loop E is (p\<lparr>m_pWorkers := (m_pWorkers p)[i := Some ?w]\<rparr>) = (p', MP_SUCCESS)"
    using "2.prems" by (auto simp: Worker_Init_def Let_def split: if_splits option.splits)
  from "2.IH" [OF _ W [symmetric] refl] rest "2.prems"(2) show ?case by simp
qed

lemma fold_update_all:
  "fold (\<lambda>i ws. ws[i := x]) [0..<n] (replicate n y) = replicate n x"
proof -
  have "k \<le> n \<Longrightarrow> fold (\<lambda>i ws. ws[i := x]) [0..<k] (replicate n y) = replicate k x @ replicate (n - k) y" for k
  proof (induction k)
    case 0
    then show ?case by simp
  next
    case (Suc k)
    then have "replicate (n - k) y = y # replicate (n - Suc k) y"
      by (metis Suc_diff_Suc Suc_le_lessD replicate_Suc)
    with Suc show ?case by (simp add: list_update_append replicate_app_Cons_same)
  qed
  from this [of n] show ?thesis by simp
qed

lemma seq_success:
  "(case x of (p, r) \<Rightarrow> if r \<noteq> MP_SUCCESS then (p, r) else f p) = (p', MP_SUCCESS) \<Longrightarrow>
   \<exists>p1. x = (p1, MP_SUCCESS) \<and> f p1 = (p', MP_SUCCESS)"
  by (cases x) (simp split: if_splits)

lemma Pool_Init_ok:
  assumes "Pool_Init E CTaskPool = (p, MP_SUCCESS)"
  obtains g cfg where "m_plugMgr p = Some g" "m_plugCfgParse p = Some cfg" "mgr_ok g" "plgcfg_ok cfg"
    "m_pWorkers p = replicate MAX_WORKER_NUM (Some (CTaskWorker\<lparr>m_SCN := GetSCN g\<rparr>))"
    "m_pDispatchWorker p = Some \<lparr>m_iWorkerCount = int MAX_WORKER_NUM, m_lastPushedWorker = 0, m_hasWorkers = True\<rparr>"
    "m_Modules g = []"
proof -
  obtain p1 p2 p3 where p1: "CreatePlgConfParse E CTaskPool = (p1, MP_SUCCESS)"
    and p2: "CreatePlugMgr E p1 = (p2, MP_SUCCESS)" and p3: "CreateWorkers E p2 = (p3, MP_SUCCESS)"
    and p4: "CreateDispatchWorker E p3 = (p, MP_SUCCESS)"
    using assms unfolding Pool_Init_def Let_def by (auto dest!: seq_success)
  obtain cfg where cfg: "p1 = CTaskPool\<lparr>m_plugCfgParse := Some cfg\<rparr>" "plgcfg_ok cfg"
  proof -
    obtain cfg r where C: "Cfg_Init (pe_files E) (Some (GetConfFilePath (pe_root E) ''pluginmgr.xml'')) empty_cfg = (cfg, r)"
      by fastforce
    from Cfg_Init_ok [OF empty_plgcfg_ok, of "pe_files E" "Some (GetConfFilePath (pe_root E) ''pluginmgr.xml'')"]
    have "plgcfg_ok cfg" by (simp add: C)
    moreover have "p1 = CTaskPool\<lparr>m_plugCfgParse := Some cfg\<rparr>"
      using p1 by (simp add: CreatePlgConfParse_def C Let_def split: if_splits)
    ultimately show ?thesis using that by blast
  qed
  obtain g where g: "p2 = p1\<lparr>m_plugMgr := Some g\<rparr>" "mgr_ok g" "m_Modules g = []"
    using p2 by (auto simp: CreatePlugMgr_def new_mgr_def mgr_ok_def split: if_splits)
  have p3': "p3 = p2\<lparr>m_pWorkers := replicate MAX_WORKER_NUM (Some (CTaskWorker\<lparr>m_SCN := GetSCN g\<rparr>))\<rparr>"
    using create_workers_loop_ok [OF p3 [unfolded CreateWorkers_def], of g] g(1) cfg(1)
    by (simp add: fold_update_all CTaskPool_def)
  have "p = p3\<lparr>m_pDispatchWorker := Some \<lparr>m_iWorkerCount = int MAX_WORKER_NUM, m_lastPushedWorker = 0, m_hasWorkers = True\<rparr>\<rparr>"
    using p4 by (auto simp: CreateDispatchWorker_def Dispatch_Init_def CTaskDispatchWorker_def Let_def split: if_splits)
  with p3' g cfg show ?thesis by (intro that [of g cfg]) simp_all
qed

text \<open>
  A plugin that does not tell its name, as no \<^verbatim>\<open>CServicePlugin\<close> does, is never unloaded: the
  manager keeps every module it has loaded.
\<close>

definition nameless :: "(string, cmodule) std_map \<Rightarrow> bool" where
  "nameless ms \<longleftrightarrow> (\<forall>e\<in>set ms. plg_GetName (the (m_Plugin (snd e))) = None)"

lemma CanUnload_nameless: "plg_GetName plg = None \<Longrightarrow> \<not> CanUnload p plg"
  by (simp add: CanUnload_def split: option.split)

lemma unload_old_loop_nameless:
  "nameless ms \<Longrightarrow> unload_old_loop (pool_callback p) ms H = (ms, H)"
  by (induction "pool_callback p" ms H rule: unload_old_loop.induct)
    (auto simp: nameless_def pool_callback_def CanUnload_nameless)

lemma UnloadOldModules_nameless: "nameless (m_OldModules g) \<Longrightarrow> UnloadOldModules (pool_callback p) g = g"
  by (simp add: UnloadOldModules_def unload_old_loop_nameless)

lemma UnloadPlugin_nameless: "nameless (m_Modules g) \<Longrightarrow> UnloadPlugin (pool_callback p) n g = g"
  by (cases "map_of (m_Modules g) n")
    (auto simp: UnloadPlugin_def GetModule_def nameless_def pool_callback_def CanUnload_nameless dest!: map_of_SomeD)

text \<open>After a worker has been started, waiting for its end blocks.\<close>

lemma exit_workers_blocks:
  "Some w \<in> set ws \<Longrightarrow> m_iThreadStatus w \<noteq> THREAD_STATUS_EXITED \<Longrightarrow> exit_workers ws = None"
  by (induction ws rule: exit_workers.induct) (auto simp: Worker_Exit_def split: option.split)

end
