(* ===== verification/AgentFrame.thy ===== *)
theory AgentFrame
  imports FreezeEntry TaskPool
begin

text \<open>
  What the freeze monitor leaves alone of the queues: it pops internal responses and pushes internal
  requests, so that the messages of the clients and the table of handlers are as before.
\<close>

definition ext_ids :: "'j message_pair list \<Rightarrow> (addr option \<times> bool) list" where
  "ext_ids q = filter (\<lambda>i. \<not> snd i) (map msg_id q)"

definition client_same :: "'j comm \<Rightarrow> 'j comm \<Rightarrow> bool" where
  "client_same c c' \<longleftrightarrow> m_ReqHandlerTable c' = m_ReqHandlerTable c \<and>
     ext_ids (m_reqMsgQueue c') = ext_ids (m_reqMsgQueue c) \<and> ext_ids (m_rspMsgQueue c') = ext_ids (m_rspMsgQueue c)"

abbreviation frame :: "('j, 'd) ft_world \<Rightarrow> ('j, 'd) ft_world \<Rightarrow> bool" where
  "frame w w' \<equiv> client_same (w_comm w) (w_comm w')"

lemma ext_ids_simps [simp]:
  "ext_ids [] = []" "ext_ids (m # q) = (if is_internal m then [] else [msg_id m]) @ ext_ids q"
  "ext_ids (q @ q') = ext_ids q @ ext_ids q'"
  by (simp_all add: ext_ids_def msg_id_def)

lemma client_same_refl [simp]: "client_same c c"
  by (simp add: client_same_def)

lemma client_same_trans: "client_same c c' \<Longrightarrow> client_same c' c'' \<Longrightarrow> client_same c c''"
  by (simp add: client_same_def)

lemma frame_quiet: "frame w w' \<Longrightarrow> quiet w' w'' \<Longrightarrow> frame w w''"
  by (simp add: quiet_def)

lemma frame_same_comm: "frame w w' \<Longrightarrow> w_comm w'' = w_comm w' \<Longrightarrow> frame w w''"
  by simp

lemma push_internal_same: "client_same c c' \<Longrightarrow> is_internal m \<Longrightarrow> client_same c (PushReqMsgQueue m c')"
  by (simp add: client_same_def PushReqMsgQueue_def)

lemma internal_response [simp]: "m_bInternalMsg (CResponseMsg_internal j)"
  by (simp add: CResponseMsg_internal_def)

lemma w_comm_ops [simp]:
  "w_comm (set_obj i f w) = w_comm w" "w_comm (SendHandleFailedAlarm E m w) = w_comm w"
  "w_comm (DelMonitorObj i w) = w_comm w"
  by (simp_all add: set_obj_def SendHandleFailedAlarm_def DelMonitorObj_def Let_def split: option.split)

lemma frame_PushUnFreezeReq: "frame w w' \<Longrightarrow> frame w (fst (PushUnFreezeReq E i w'))"
  by (simp add: PushUnFreezeReq_def Let_def case_prod_unfold push_internal_same)

lemma frame_PushQueryStatusReq: "frame w w' \<Longrightarrow> frame w (fst (PushQueryStatusReq E i w'))"
  by (auto simp: PushQueryStatusReq_def Let_def case_prod_unfold push_internal_same split: query_plan.split)

lemma frame_HandleUnFreezing: "frame w w' \<Longrightarrow> frame w (fst (HandleUnFreezingMonitorObj E i b w'))"
  by (simp add: HandleUnFreezingMonitorObj_def Let_def)

lemma frame_HandleQueryStatus: "frame w w' \<Longrightarrow> frame w (fst (HandleQueryStatusMonitorObj E i q w'))"
  by (simp add: HandleQueryStatusMonitorObj_def Let_def case_prod_unfold frame_PushUnFreezeReq)

lemma frame_HandleFreezed: "frame w w' \<Longrightarrow> frame w (fst (HandleFreezedMonitorObj E i w'))"
  by (simp add: HandleFreezedMonitorObj_def Let_def case_prod_unfold frame_PushQueryStatusReq)

lemma frame_process_rsp: "frame w w' \<Longrightarrow> frame w (process_rsp E p w')"
  unfolding process_rsp_def ProccessUnFreezeRsp_def ProcessQueryStatusRsp_def
  by (auto intro!: frame_HandleUnFreezing frame_HandleQueryStatus split: prod.split option.split)

text \<open>The pops of internal responses.\<close>

lemma pop_internal_same: "client_same c (fst (PopRspInternalMsgQueue c))"
proof -
  have "filter (\<lambda>m. \<not> is_internal m) (m_rspMsgQueue (fst (PopRspInternalMsgQueue c))) =
      filter (\<lambda>m. \<not> is_internal m) (m_rspMsgQueue c)"
    by (rule int_queue.pop_others)
  moreover have "ext_ids q = map msg_id (filter (\<lambda>m. \<not> is_internal m) q)" for q :: "'a message_pair list"
    by (simp add: ext_ids_def msg_id_def filter_map comp_def)
  ultimately show ?thesis by (simp add: client_same_def)
qed

lemma frame_ProcessInternalRsps: "frame w (ProcessInternalRsps E w)"
proof (induction E w rule: ProcessInternalRsps.induct)
  case (1 E w)
  obtain c r where P: "PopRspInternalMsgQueue (w_comm w) = (c, r)" by fastforce
  have c: "client_same (w_comm w) c" using pop_internal_same [of "w_comm w"] by (simp add: P)
  show ?case
  proof (cases r)
    case None
    then show ?thesis using c by (simp add: ProcessInternalRsps.simps [of E w] P)
  next
    case (Some p)
    then have "frame (process_rsp E p (w\<lparr>w_comm := c\<rparr>)) (ProcessInternalRsps E (process_rsp E p (w\<lparr>w_comm := c\<rparr>)))"
      using 1 [OF P [symmetric]] by simp
    moreover have "frame w (process_rsp E p (w\<lparr>w_comm := c\<rparr>))"
      by (rule frame_process_rsp) (simp add: c)
    ultimately show ?thesis
      using Some by (simp add: ProcessInternalRsps.simps [of E w] P client_same_trans)
  qed
qed

lemma frame_handle_loop: "frame w (handle_loop E w)"
proof (induction E w rule: handle_loop.induct)
  case (1 E w)
  obtain w1 r where G: "GetHandleMonitorObj w = (w1, r)" by fastforce
  have w1: "w_comm w1 = w_comm w" using G by (auto simp: GetHandleMonitorObj_def split: if_splits)
  show ?case
  proof (cases r)
    case None
    then show ?thesis by (simp add: handle_loop.simps [of E w] G w1)
  next
    case (Some i)
    let ?w2 = "if uiStatus (m_vecMonitors w1 ! i) = MONITOR_STATUS_FREEZED then fst (HandleFreezedMonitorObj E i w1) else w1"
    have "frame w ?w2" by (simp add: frame_HandleFreezed w1)
    moreover have "frame ?w2 (handle_loop E ?w2)" using 1 [OF G [symmetric] Some] by simp
    ultimately have "frame w (handle_loop E ?w2)" by (rule client_same_trans)
    then show ?thesis using Some by (simp only: handle_loop.simps [of E w] G prod.case option.case)
  qed
qed

lemma frame_HandleMonitorObjs: "frame w (HandleMonitorObjs E w)"
  unfolding HandleMonitorObjs_def
  by (rule client_same_trans [OF frame_ProcessInternalRsps frame_handle_loop])

text \<open>The entry points do not touch the queues at all.\<close>

lemma comm_AddMonitorObj [simp]: "w_comm (fst (AddMonitorObj m w)) = w_comm w"
  by (simp add: AddMonitorObj_def Let_def split: option.split)

lemma comm_quiet [simp]:
  "w_comm (fst (CreateMonitorObj E r w)) = w_comm w" "w_comm (fst (SaveToDB E m w)) = w_comm w"
  using quiet_CreateMonitorObj [of w E r] quiet_SaveToDB [of w E m] by (simp_all add: quiet_def)

lemma comm_MonitorSingle [simp]: "w_comm (MonitorSingleFreezeOper E r w) = w_comm w"
  by (simp add: MonitorSingleFreezeOper_def split_beta split: sum.split)

lemma comm_UpdateSingle [simp]: "w_comm (UpdateSingleFreezeOper E rsp r w) = w_comm w"
  by (simp add: UpdateSingleFreezeOper_def Let_def split_beta split: sum.split option.split)

lemma comm_per_disk: "(\<And>r w. w_comm (oper r w) = w_comm w) \<Longrightarrow> w_comm (fst (per_disk E oper ds r w)) = w_comm w"
  by (induction ds arbitrary: r w) (simp_all add: Let_def split: option.split)

lemma comm_freeze_oper: "(\<And>r w. w_comm (oper r w) = w_comm w) \<Longrightarrow> w_comm (fst (freeze_oper E oper r w)) = w_comm w"
  by (simp add: freeze_oper_def split_beta comm_per_disk)

lemma comm_MonitorFreezeOper [simp]: "w_comm (fst (MonitorFreezeOper E r w)) = w_comm w"
  by (simp add: MonitorFreezeOper_def comm_freeze_oper)

lemma comm_UpdateFreezeOper [simp]: "w_comm (fst (UpdateFreezeOper E rsp r w)) = w_comm w"
  by (simp add: UpdateFreezeOper_def comm_freeze_oper)

end
