(* ===== verification/Http.thy ===== *)
theory Http
  imports Messages StdMap Db
begin

text \<open>
  Reading a request body and writing a response: \<^verbatim>\<open>CMessage_Block\<close>, \<^verbatim>\<open>CRequestMsgBody\<close> and
  \<^verbatim>\<open>CResponseMsg::Send\<close> of \<^verbatim>\<open>src/src/rest/MessageProcess.cpp\<close>, \<^verbatim>\<open>CHttpResponse\<close> of
  \<^verbatim>\<open>src/src/rest/HttpCGI.cpp\<close>. The streams of the FastCGI library are parameters: reading is a
  function on the state of the stream, writing is the list of the calls made.
\<close>

section \<open>The message block\<close>

abbreviation MSG_BLK_SIZE :: nat where "MSG_BLK_SIZE \<equiv> 2048"
abbreviation MAX_MSG_CACHE_SIZE :: nat where "MAX_MSG_CACHE_SIZE \<equiv> 204800"

text \<open>
  The block: its memory (\<^const>\<open>None\<close> for the null pointer of a failed allocation), its size and the
  number of bytes written, which is also where the write pointer stands. The size is a field of
  its own in the code; the invariant \<open>block_ok\<close> below ties it to the memory.
\<close>

record msg_block =
  m_data_block :: "string option"
  m_size :: nat
  m_length :: nat

definition CMessage_Block :: "bool \<Rightarrow> string \<Rightarrow> nat \<Rightarrow> msg_block" where
  "CMessage_Block new_ok garbage n =
     (if new_ok then \<lparr>m_data_block = Some (take n (garbage @ replicate n NUL)), m_size = n, m_length = 0\<rparr>
      else \<lparr>m_data_block = None, m_size = 0, m_length = 0\<rparr>)"

definition AddLength :: "nat \<Rightarrow> msg_block \<Rightarrow> msg_block" where
  "AddLength n b = b\<lparr>m_length := m_length b + n\<rparr>"

definition Resize :: "bool \<Rightarrow> nat \<Rightarrow> msg_block \<Rightarrow> msg_block option" where
  "Resize new_ok len b =
     (if len \<le> m_size b then None
      else if \<not> new_ok then None
      else case m_data_block b of
             None \<Rightarrow> None
           | Some d \<Rightarrow> Some (b\<lparr>m_data_block := Some (d @ replicate (len - m_size b) NUL), m_size := len\<rparr>))"

text \<open>Bytes written at the write pointer.\<close>

definition write_at :: "string \<Rightarrow> msg_block \<Rightarrow> msg_block" where
  "write_at bs b =
     b\<lparr>m_data_block := map_option (\<lambda>d. take (m_length b) d @ bs @ drop (m_length b + length bs) d) (m_data_block b)\<rparr>"

definition block_ok :: "msg_block \<Rightarrow> bool" where
  "block_ok b \<longleftrightarrow> m_length b \<le> m_size b \<and>
     (case m_data_block b of None \<Rightarrow> m_size b = 0 | Some d \<Rightarrow> length d = m_size b)"

definition written :: "msg_block \<Rightarrow> string" where
  "written b = (case m_data_block b of None \<Rightarrow> [] | Some d \<Rightarrow> take (m_length b) d)"

section \<open>Reading the body\<close>

text \<open>
  \<^verbatim>\<open>FCGX_GetStr\<close>: the next state of the stream and the bytes read, \<^const>\<open>None\<close> for a negative result.
  Outcomes of \<^verbatim>\<open>new\<close> are a list, exhausted meaning success.
\<close>

type_synonym 'st get_str = "'st \<Rightarrow> nat \<Rightarrow> 'st \<times> string option"

definition make_room :: "bool list \<Rightarrow> msg_block \<Rightarrow> (bool list \<times> msg_block) option" where
  "make_room news b =
     (if m_size b - m_length b \<le> 1
      then map_option (\<lambda>b. (tl news, b)) (Resize (case news of [] \<Rightarrow> True | ok # _ \<Rightarrow> ok) (m_size b + MSG_BLK_SIZE) b)
      else Some (news, b))"

lemma make_room_length: "make_room news b = Some (news', b') \<Longrightarrow> m_length b' = m_length b"
  by (auto simp: make_room_def Resize_def split: if_splits option.splits)

function read_loop :: "'st get_str \<Rightarrow> bool list \<Rightarrow> 'st \<Rightarrow> msg_block \<Rightarrow> ('st \<times> msg_block) option" where
  "read_loop get news st b =
     (case make_room news b of
        None \<Rightarrow> None
      | Some (news, b) \<Rightarrow>
          (let len = m_size b - m_length b - 1 in
           case get st len of
             (st, None) \<Rightarrow> None
           | (st, Some bs) \<Rightarrow>
               if bs = [] then Some (st, b)
               else (let b = AddLength (length bs) (write_at bs b) in
                     if length bs < len then Some (st, b)
                     else if MAX_MSG_CACHE_SIZE < m_length b then None
                     else read_loop get news st b)))"
  by pat_completeness auto
termination
  by (relation "measure (\<lambda>(get, news, st, b). Suc MAX_MSG_CACHE_SIZE - m_length b)")
    (auto simp: AddLength_def write_at_def neq_Nil_conv dest!: make_room_length)

declare read_loop.simps [simp del]

text \<open>\<^verbatim>\<open>ReadData\<close> of a body to decode as JSON: a terminator is added.\<close>

definition ReadData :: "'st get_str \<Rightarrow> bool list \<Rightarrow> 'st \<Rightarrow> msg_block \<Rightarrow> ('st \<times> msg_block) option" where
  "ReadData get news st b =
     (case read_loop get news st b of
        None \<Rightarrow> None
      | Some (st, b) \<Rightarrow> Some (st, AddLength 1 (write_at [NUL] b)))"

text \<open>
  \<^verbatim>\<open>ParseJson\<close>: the C string in the block; nothing but the terminator leaves the null value. JsonCpp's
  parser and the test for an object or an array are parameters.
\<close>

definition ParseJson :: "(string \<Rightarrow> 'j option) \<Rightarrow> ('j \<Rightarrow> bool) \<Rightarrow> 'j \<Rightarrow> msg_block \<Rightarrow> int + 'j" where
  "ParseJson parse container jnull b =
     (if m_length b = 0 \<or> m_length b = 1 then Inr jnull
      else case parse (c_str (the (m_data_block b))) of
             None \<Rightarrow> Inl ERROR_COMMON_INVALID_PARAM
           | Some j \<Rightarrow> if \<not> container j then Inl ERROR_COMMON_INVALID_PARAM else Inr j)"

text \<open>\<^verbatim>\<open>GetContentLen\<close>: the header as an integer, read as unsigned.\<close>

definition GetContentLen :: "string \<Rightarrow> u32" where
  "GetContentLen head = word_of_int (atoi head)"

definition ReadWait ::
  "(string \<Rightarrow> 'j option) \<Rightarrow> ('j \<Rightarrow> bool) \<Rightarrow> 'j \<Rightarrow> 'st get_str \<Rightarrow> bool list \<Rightarrow> string \<Rightarrow> string \<Rightarrow> 'st \<Rightarrow> int + 'j" where
  "ReadWait parse container jnull get news garbage content_length st =
     (let b = CMessage_Block (case news of [] \<Rightarrow> True | ok # _ \<Rightarrow> ok) garbage MSG_BLK_SIZE in
      case ReadData get (tl news) st b of
        None \<Rightarrow> Inl MP_FAILED
      | Some (st, b) \<Rightarrow>
          (let diff = sint ((of_nat (m_length b) :: u32) - GetContentLen content_length)
           in if 1 \<noteq> diff then Inl MP_FAILED else ParseJson parse container jnull b))"

text \<open>\<^verbatim>\<open>CRequestMsg::Parse\<close> turns every failure into \<^verbatim>\<open>MP_FAILED\<close>.\<close>

definition Parse ::
  "(string \<Rightarrow> 'j option) \<Rightarrow> ('j \<Rightarrow> bool) \<Rightarrow> 'j \<Rightarrow> 'st get_str \<Rightarrow> bool list \<Rightarrow> string \<Rightarrow> string \<Rightarrow> 'st \<Rightarrow> 'j request_msg
     \<Rightarrow> 'j request_msg \<times> int" where
  "Parse parse container jnull get news garbage content_length st r =
     (case ReadWait parse container jnull get news garbage content_length st of
        Inl e \<Rightarrow> if e \<noteq> MP_SUCCESS then (r, MP_FAILED) else (r, MP_SUCCESS)
      | Inr j \<Rightarrow> (r\<lparr>m_msgBody := j\<rparr>, MP_SUCCESS))"

section \<open>What the body reader accepts\<close>

lemma CMessage_Block_ok [simp]: "block_ok (CMessage_Block ok g n)"
  by (auto simp: CMessage_Block_def block_ok_def min_def)

lemma make_room_ok:
  "block_ok b \<Longrightarrow> make_room news b = Some (news', b') \<Longrightarrow> block_ok b' \<and> written b' = written b \<and> m_length b' + 2 \<le> m_size b'"
  by (auto simp: make_room_def Resize_def block_ok_def written_def split: if_splits option.splits)

lemma write_ok:
  "block_ok b \<Longrightarrow> m_length b + length bs \<le> m_size b \<Longrightarrow> 0 < m_size b \<Longrightarrow>
   block_ok (AddLength (length bs) (write_at bs b)) \<and> written (AddLength (length bs) (write_at bs b)) = written b @ bs"
  by (cases "m_data_block b"; cases bs) (auto simp: AddLength_def write_at_def block_ok_def written_def min_def)

text \<open>
  The contract of the stream: at most the number of bytes asked for. With it no write leaves the
  block, whatever the client sends.
\<close>

definition bounded_reads :: "'st get_str \<Rightarrow> bool" where
  "bounded_reads get \<longleftrightarrow> (\<forall>st n bs. snd (get st n) = Some bs \<longrightarrow> length bs \<le> n)"

lemma read_loop_ok:
  "bounded_reads get \<Longrightarrow> block_ok b \<Longrightarrow> read_loop get news st b = Some (st', b') \<Longrightarrow> block_ok b' \<and> m_length b' < m_size b'"
proof (induction get news st b rule: read_loop.induct)
  case (1 get news st b)
  obtain news1 b1 where R: "make_room news b = Some (news1, b1)"
    using "1.prems"(3) unfolding read_loop.simps [of get news st b] by (auto split: option.splits)
  note b1 = make_room_ok [OF "1.prems"(2) R]
  let ?len = "m_size b1 - m_length b1 - 1"
  obtain st1 r where G: "get st ?len = (st1, r)" by fastforce
  have unf: "(case r of None \<Rightarrow> None
       | Some bs \<Rightarrow> if bs = [] then Some (st1, b1)
           else if length bs < ?len then Some (st1, AddLength (length bs) (write_at bs b1))
           else if MAX_MSG_CACHE_SIZE < m_length (AddLength (length bs) (write_at bs b1)) then None
           else read_loop get news1 st1 (AddLength (length bs) (write_at bs b1))) = Some (st', b')"
    using "1.prems"(3) unfolding read_loop.simps [of get news st b] R Let_def option.case prod.case G .
  then obtain bs where r: "r = Some bs" by (cases r) simp_all
  have "snd (get st ?len) = Some bs" by (simp only: G r snd_conv)
  then have "length bs \<le> ?len" using "1.prems"(1) unfolding bounded_reads_def by blast
  with b1 have w: "block_ok (AddLength (length bs) (write_at bs b1))"
    "m_length (AddLength (length bs) (write_at bs b1)) < m_size (AddLength (length bs) (write_at bs b1))"
    using write_ok [of b1 bs] by (auto simp: AddLength_def write_at_def)
  have IH: "block_ok b' \<and> m_length b' < m_size b'"
    if "bs \<noteq> []" "\<not> length bs < ?len" "\<not> MAX_MSG_CACHE_SIZE < m_length (AddLength (length bs) (write_at bs b1))"
      "read_loop get news1 st1 (AddLength (length bs) (write_at bs b1)) = Some (st', b')"
    by (rule "1.IH" [OF R refl refl G [symmetric] r that(1) refl that(2,3) "1.prems"(1) w(1) that(4)])
  consider "bs = []" "b' = b1"
    | "bs \<noteq> []" "b' = AddLength (length bs) (write_at bs b1)"
    | "bs \<noteq> []" "\<not> length bs < ?len" "\<not> MAX_MSG_CACHE_SIZE < m_length (AddLength (length bs) (write_at bs b1))"
      "read_loop get news1 st1 (AddLength (length bs) (write_at bs b1)) = Some (st', b')"
    using unf r by (simp only: option.case) (metis option.distinct(1) option.inject prod.inject)
  then show ?case
  proof cases
    case 1
    then show ?thesis using b1 by simp
  next
    case 2
    then show ?thesis using w by simp
  next
    case 3
    then show ?thesis by (rule IH)
  qed
qed

text \<open>
  A stream that holds the bytes \<open>rest st\<close>: a read takes them from the front, and a short read means
  the end. Its bytes are read into the block exactly when there are at most 206846 of them.
\<close>

definition stream_of :: "'st get_str \<Rightarrow> ('st \<Rightarrow> string) \<Rightarrow> bool" where
  "stream_of get rest \<longleftrightarrow>
     (\<forall>st n. snd (get st n) = Some (take n (rest st)) \<and> rest (fst (get st n)) = drop n (rest st))"

abbreviation MAX_BODY :: nat where "MAX_BODY \<equiv> 206846"

lemma read_loop_full:
  assumes "stream_of get rest" "block_ok b" "m_data_block b \<noteq> None"
    "m_length b = (if k = 0 then 0 else MSG_BLK_SIZE * k - 1)" "m_size b = (if k = 0 then MSG_BLK_SIZE else MSG_BLK_SIZE * k)"
    "k \<le> 100"
  shows "(m_length b + length (rest st) \<le> MAX_BODY \<longrightarrow>
       (\<exists>st' b'. read_loop get [] st b = Some (st', b') \<and> block_ok b' \<and> m_length b' < m_size b' \<and> m_data_block b' \<noteq> None \<and>
         written b' = written b @ rest st \<and> m_length b' = m_length b + length (rest st))) \<and>
     (MAX_BODY < m_length b + length (rest st) \<longrightarrow> read_loop get [] st b = None)"
  using assms(2-)
proof (induction "100 - k" arbitrary: k b st rule: less_induct)
  case less
  obtain b1 where R: "make_room [] b = Some ([], b1)" "m_data_block b1 \<noteq> None" "m_length b1 = m_length b"
      "m_size b1 = MSG_BLK_SIZE * Suc k"
  proof (cases "k = 0")
    case True
    then show ?thesis using less.prems by (intro that [of b]) (simp_all add: make_room_def)
  next
    case False
    obtain d where "m_data_block b = Some d" using less.prems(2) by auto
    with False show ?thesis
      using less.prems by (intro that [of "b\<lparr>m_data_block := Some (d @ replicate MSG_BLK_SIZE NUL), m_size := m_size b + MSG_BLK_SIZE\<rparr>"])
        (simp_all add: make_room_def Resize_def)
  qed
  note b1 = make_room_ok [OF less.prems(1) R(1)]
  let ?len = "m_size b1 - m_length b1 - 1"
  have len: "?len = (if k = 0 then MSG_BLK_SIZE - 1 else MSG_BLK_SIZE)"
    using R less.prems by (simp split: if_splits)
  obtain st1 where G: "get st ?len = (st1, Some (take ?len (rest st)))" "rest st1 = drop ?len (rest st)"
    using assms(1) unfolding stream_of_def by (metis prod.collapse)
  let ?bs = "take ?len (rest st)"
  let ?b = "AddLength (length ?bs) (write_at ?bs b1)"
  have fit: "m_length b1 + length ?bs \<le> m_size b1" "0 < m_size b1"
    using R(4) b1 by auto
  note w = write_ok [of b1 ?bs, OF conjunct1 [OF b1] fit]
  have b': "m_length ?b = m_length b + length ?bs" "m_size ?b = m_size b1" "m_data_block ?b \<noteq> None"
    using R by (simp_all add: AddLength_def write_at_def)
  have step: "read_loop get [] st b =
      (if ?bs = [] then Some (st1, b1) else if length ?bs < ?len then Some (st1, ?b)
       else if MAX_MSG_CACHE_SIZE < m_length ?b then None else read_loop get [] st1 ?b)"
    unfolding read_loop.simps [of get "[]" st b] R(1) Let_def option.case prod.case G(1) ..
  show ?case
  proof (cases "length (rest st) < ?len")
    case True
    then have bs: "?bs = rest st" by simp
    have small: "m_length b + length (rest st) \<le> MAX_BODY"
      using True len less.prems(3,5) by (auto split: if_splits)
    show ?thesis
    proof (cases "rest st = []")
      case True
      then show ?thesis using step R b1 small by simp
    next
      case False
      then show ?thesis using step True bs w b' small fit R b1 by auto
    qed
  next
    case False
    then have full: "length ?bs = ?len" by simp
    then have lb: "m_length ?b = MSG_BLK_SIZE * Suc k - 1"
      using b'(1) len less.prems(3) by (simp split: if_splits)
    have ne: "?bs \<noteq> []" using full len by (auto split: if_splits)
    show ?thesis
    proof (cases "k = 100")
      case True
      then have "MAX_MSG_CACHE_SIZE < m_length ?b" "MAX_BODY < m_length b + length (rest st)"
        using lb b'(1) full False by simp_all
      then show ?thesis using step ne full by simp
    next
      case k: False
      then have small: "\<not> MAX_MSG_CACHE_SIZE < m_length ?b" using lb less.prems(5) by simp
      have rec: "read_loop get [] st b = read_loop get [] st1 ?b" using step ne full small by simp
      have IH: "(m_length ?b + length (rest st1) \<le> MAX_BODY \<longrightarrow>
           (\<exists>st' b'. read_loop get [] st1 ?b = Some (st', b') \<and> block_ok b' \<and> m_length b' < m_size b' \<and> m_data_block b' \<noteq> None \<and>
             written b' = written ?b @ rest st1 \<and> m_length b' = m_length ?b + length (rest st1))) \<and>
         (MAX_BODY < m_length ?b + length (rest st1) \<longrightarrow> read_loop get [] st1 ?b = None)"
        by (rule less.hyps [of "Suc k"]) (use k less.prems(5) w b' lb R in simp_all)
      have "m_length ?b + length (rest st1) = m_length b + length (rest st)" "written ?b @ rest st1 = written b @ rest st"
        using b'(1) G(2) full False w b1 by (simp_all add: append_assoc)
      with IH rec show ?thesis by simp
    qed
  qed
qed

lemma ReadData_stream:
  assumes "stream_of get rest"
  shows "ReadData get [] st (CMessage_Block True g MSG_BLK_SIZE) =
    (if length (rest st) \<le> MAX_BODY then ReadData get [] st (CMessage_Block True g MSG_BLK_SIZE) else None)"
    and "length (rest st) \<le> MAX_BODY \<Longrightarrow>
      \<exists>st' b. ReadData get [] st (CMessage_Block True g MSG_BLK_SIZE) = Some (st', b) \<and>
        m_length b = Suc (length (rest st)) \<and> m_data_block b \<noteq> None \<and> c_str (the (m_data_block b)) = c_str (rest st)"
proof -
  let ?b = "CMessage_Block True g MSG_BLK_SIZE"
  have b: "m_data_block ?b \<noteq> None" "m_length ?b = 0" "m_size ?b = MSG_BLK_SIZE" "written ?b = []"
    by (simp_all add: CMessage_Block_def written_def)
  note full = read_loop_full [OF assms CMessage_Block_ok b(1), where k = 0 and st = st]
  show "ReadData get [] st ?b = (if length (rest st) \<le> MAX_BODY then ReadData get [] st ?b else None)"
    using full b by (auto simp: ReadData_def)
  assume small: "length (rest st) \<le> MAX_BODY"
  then obtain st' b' where L: "read_loop get [] st ?b = Some (st', b')" "block_ok b'" "m_length b' < m_size b'"
      "m_data_block b' \<noteq> None" "written b' = rest st" "m_length b' = length (rest st)"
    using full b by auto
  then obtain d where d: "m_data_block b' = Some d" by auto
  have "take (length (rest st)) d = rest st" using L d by (simp add: written_def)
  then have "c_str (take (length (rest st)) d @ NUL # drop (Suc (length (rest st))) d) = c_str (rest st)"
    by (cases "NUL \<in> set (rest st)") (auto simp: c_str_def takeWhile_append takeWhile_eq_all_conv [THEN iffD2])
  then show "\<exists>st' b. ReadData get [] st ?b = Some (st', b) \<and> m_length b = Suc (length (rest st)) \<and>
      m_data_block b \<noteq> None \<and> c_str (the (m_data_block b)) = c_str (rest st)"
    using L d by (simp add: ReadData_def AddLength_def write_at_def)
qed

text \<open>
  The body is decoded exactly when it is as long as the header says and within the limit; a body
  of length zero leaves the null value.
\<close>

lemma diff_one_iff:
  "n \<le> MAX_BODY \<Longrightarrow> sint ((of_nat (Suc n) :: u32) - v) = 1 \<longleftrightarrow> v = of_nat n"
proof -
  have "sint x = 1 \<longleftrightarrow> x = 1" for x :: u32
  proof -
    have "sint x = sint (1 :: u32) \<longleftrightarrow> x = 1" by (rule word_eq_iff_signed [symmetric])
    then show ?thesis by simp
  qed
  then have "sint ((of_nat (Suc n) :: u32) - v) = 1 \<longleftrightarrow> (of_nat (Suc n) :: u32) - v = 1" .
  also have "\<dots> \<longleftrightarrow> v = of_nat n" by (simp add: algebra_simps) (metis add.commute add_left_cancel)
  finally show "n \<le> MAX_BODY \<Longrightarrow> ?thesis" by simp
qed

lemma ReadWait_result:
  assumes "stream_of get rest"
  shows "ReadWait parse container jnull get [] g cl st =
    (if length (rest st) \<le> MAX_BODY \<and> GetContentLen cl = of_nat (length (rest st))
     then (if rest st = [] then Inr jnull
           else case parse (c_str (rest st)) of
                  None \<Rightarrow> Inl ERROR_COMMON_INVALID_PARAM
                | Some j \<Rightarrow> if container j then Inr j else Inl ERROR_COMMON_INVALID_PARAM)
     else Inl MP_FAILED)"
proof (cases "length (rest st) \<le> MAX_BODY")
  case False
  then show ?thesis using ReadData_stream(1) [OF assms, of st g] by (simp add: ReadWait_def Let_def)
next
  case True
  from ReadData_stream(2) [OF assms this, of g] obtain st' b
    where D: "ReadData get [] st (CMessage_Block True g MSG_BLK_SIZE) = Some (st', b)"
      "m_length b = Suc (length (rest st))" "c_str (the (m_data_block b)) = c_str (rest st)" by blast
  have "sint ((of_nat (m_length b) :: u32) - GetContentLen cl) = 1 \<longleftrightarrow> GetContentLen cl = of_nat (length (rest st))"
    unfolding D(2) by (rule diff_one_iff [OF True])
  then show ?thesis
    using True D by (auto simp: ReadWait_def ParseJson_def Let_def split: option.split)
qed

section \<open>The response stream\<close>

text \<open>The calls a response makes to the FastCGI library, in order.\<close>

datatype fcgx_call = FPrintF string | PutS string | PutStr string | PutChar int | Finish

abbreviation CACHE_CONTROL :: string where "CACHE_CONTROL \<equiv> ''Cache-Control''"
abbreviation CONTENT_TYPE :: string where "CONTENT_TYPE \<equiv> ''CONTENT_TYPE''"
abbreviation CONTENT_LENGTH :: string where "CONTENT_LENGTH \<equiv> ''CONTENT_LENGTH''"
abbreviation CONTENT_ENCODING :: string where "CONTENT_ENCODING \<equiv> ''Content-Encoding''"
abbreviation STATUS :: string where "STATUS \<equiv> ''Status''"

abbreviation CRLF :: string where "CRLF \<equiv> [CHR 0x0D, CHR 0x0A]"

record http_response =
  m_Heads :: "(string, string) std_map"
  hr_calls :: "fcgx_call list"

definition SetHead :: "string \<Rightarrow> string \<Rightarrow> http_response \<Rightarrow> http_response" where
  "SetHead nm v r = r\<lparr>m_Heads := map_put nm v (m_Heads r)\<rparr>"

definition GetRspHead :: "string \<Rightarrow> http_response \<Rightarrow> string option" where
  "GetRspHead nm r = map_of (m_Heads r) nm"

definition RemoveHead :: "string \<Rightarrow> http_response \<Rightarrow> http_response" where
  "RemoveHead nm r = r\<lparr>m_Heads := map_del nm (m_Heads r)\<rparr>"

definition SetContentType :: "string \<Rightarrow> http_response \<Rightarrow> http_response" where
  "SetContentType t r = r\<lparr>m_Heads := map_put CONTENT_TYPE t (m_Heads r)\<rparr>"

definition CHttpResponse :: http_response where
  "CHttpResponse = SetHead CACHE_CONTROL ''no-cache'' \<lparr>m_Heads = [], hr_calls = []\<rparr>"

definition head_line :: "string \<times> string \<Rightarrow> string" where
  "head_line e = c_str (fst e) @ '': '' @ c_str (snd e) @ CRLF"

definition SendHeads :: "http_response \<Rightarrow> http_response" where
  "SendHeads r =
     (if m_Heads r \<noteq> []
      then r\<lparr>hr_calls := hr_calls r @ map (\<lambda>e. FPrintF (head_line e)) (filter (\<lambda>e. fst e \<noteq> CONTENT_TYPE) (m_Heads r)) @ [FPrintF CRLF],
             m_Heads := []\<rparr>
      else r)"

definition put_call :: "fcgx_call \<Rightarrow> http_response \<Rightarrow> http_response" where
  "put_call c r = (let r = SendHeads r in r\<lparr>hr_calls := hr_calls r @ [c]\<rparr>)"

definition WriteChar :: "int \<Rightarrow> http_response \<Rightarrow> http_response" where "WriteChar c = put_call (PutChar c)"
definition WriteStr :: "string \<Rightarrow> http_response \<Rightarrow> http_response" where "WriteStr s = put_call (PutStr s)"
definition WriteS :: "string \<Rightarrow> http_response \<Rightarrow> http_response" where "WriteS s = put_call (PutS (c_str s))"
definition Complete_rsp :: "http_response \<Rightarrow> http_response" where
  "Complete_rsp r = r\<lparr>hr_calls := hr_calls r @ [Finish]\<rparr>"

section \<open>Sending\<close>

text \<open>
  What sending needs of JsonCpp and the file system: the text of a reply, the text of an object with
  only an error code, the files. The result of \<^verbatim>\<open>FCGX_PutS\<close> is an argument.
\<close>

record 'j send_env =
  se_write :: "'j reply_body \<Rightarrow> string"
  se_write_code :: "int \<Rightarrow> string"
  se_json :: "'j json_api"
  se_file :: "string \<Rightarrow> string option"

definition SendJson :: "'j send_env \<Rightarrow> int \<Rightarrow> 'j response_msg \<Rightarrow> http_response \<Rightarrow> http_response \<times> int" where
  "SendJson E puts m r =
     (let (m, body) = PackageReponse m;
          out = se_write E body;
          r = SetHead STATUS (IntToString (m_iHttpStatus m)) r;
          r = SetHead CONTENT_TYPE ''application/json; charset=utf-8'' r;
          r = SetHead CONTENT_ENCODING ''utf-8'' r;
          r = SetHead CONTENT_LENGTH (IntToString (int (length out))) r;
          r = WriteS out r
      in if puts < 0 then (r, MP_FAILED) else (Complete_rsp r, MP_SUCCESS))"

definition SendFailedRsp :: "'j send_env \<Rightarrow> 'j response_msg \<Rightarrow> http_response \<Rightarrow> http_response" where
  "SendFailedRsp E m r =
     WriteS (se_write_code E (m_lRetCode m)) (SetHead STATUS (IntToString SC_NOT_ACCEPTABLE) r)"

abbreviation REST_PARAM_ATTACHMENT_NAME :: string where "REST_PARAM_ATTACHMENT_NAME \<equiv> ''attachmentName''"
abbreviation REST_PARAM_ATTACHMENT_PATH :: string where "REST_PARAM_ATTACHMENT_PATH \<equiv> ''attachmentPath''"
abbreviation MAX_ATTCHMENT_SIZE :: nat where "MAX_ATTCHMENT_SIZE \<equiv> 20 * 1024 * 1024"

definition json_option :: "'j json_api \<Rightarrow> 'j \<Rightarrow> string \<Rightarrow> int \<times> string" where
  "json_option J v k = (if isMember J v k then GetJsonString J v k [] else (MP_SUCCESS, []))"

definition SendAttchment :: "'j send_env \<Rightarrow> 'j response_msg \<Rightarrow> http_response \<Rightarrow> http_response \<times> int" where
  "SendAttchment E m r =
     (if m_lRetCode m \<noteq> MP_SUCCESS then (Complete_rsp (SendFailedRsp E m r), MP_FAILED)
      else (case json_option (se_json E) (m_msgJsonData m) REST_PARAM_ATTACHMENT_NAME of
              (iRet, strAttachFileName) \<Rightarrow>
                if iRet \<noteq> MP_SUCCESS then (r, iRet)
                else (case json_option (se_json E) (m_msgJsonData m) REST_PARAM_ATTACHMENT_PATH of
                        (iRet, strAttachFilePath) \<Rightarrow>
                          if iRet \<noteq> MP_SUCCESS then (r, iRet)
                          else (case se_file E (c_str strAttachFilePath) of
                                  None \<Rightarrow> (Complete_rsp (SendFailedRsp E m r), MP_FAILED)
                                | Some content \<Rightarrow>
                                    (if MAX_ATTCHMENT_SIZE \<le> length content then (Complete_rsp (SendFailedRsp E m r), MP_FAILED)
                                     else let r = SetHead STATUS (IntToString (m_iHttpStatus m)) r;
                                              r = SetHead ''Content-type'' ''application/octet-stream'' r;
                                              r = SetHead ''Content-Disposition'' (''attachment;filename='' @ strAttachFileName) r;
                                              r = SetHead ''Pragma'' ''public'' r;
                                              r = SetHead ''Content-Length'' (IntToString (int (length content))) r;
                                              r = fold (\<lambda>c. WriteStr [c]) content r
                                          in (Complete_rsp r, MP_SUCCESS))))))"

definition Send_rsp :: "'j send_env \<Rightarrow> int \<Rightarrow> 'j response_msg \<Rightarrow> http_response \<Rightarrow> http_response \<times> int" where
  "Send_rsp E puts m r =
     (case m_httpType m of
        RSP_JSON_TYPE \<Rightarrow> SendJson E puts m r
      | RSP_ATTACHMENT_TYPE \<Rightarrow> SendAttchment E m r)"

text \<open>The text that reaches the server: the arguments of the calls, one after the other.\<close>

fun call_text :: "fcgx_call \<Rightarrow> string" where
  "call_text (FPrintF s) = s"
| "call_text (PutS s) = s"
| "call_text (PutStr s) = s"
| "call_text (PutChar c) = [char_of (unat (word_of_int c :: 8 word))]"
| "call_text Finish = []"

definition sent_text :: "http_response \<Rightarrow> string" where
  "sent_text r = concat (map call_text (hr_calls r))"

lemma fold_WriteStr:
  "m_Heads r = [] \<Longrightarrow> fold (\<lambda>c. WriteStr [c]) s r = r\<lparr>hr_calls := hr_calls r @ map (\<lambda>c. PutStr [c]) s\<rparr>"
  by (induction s arbitrary: r) (simp_all add: WriteStr_def put_call_def SendHeads_def Let_def)

end
