(* ===== verification/AgentLoop.thy ===== *)
theory AgentLoop
  imports AgentFrame Authentication Http
begin

text \<open>
  The agent as its threads run it (\<^verbatim>\<open>src/src/agent/Communication.cpp\<close>, \<^verbatim>\<open>ReceiveThreadFunc\<close>,
  \<^verbatim>\<open>HandleReceiveMsg\<close>, \<^verbatim>\<open>SendFailedMsg\<close> and \<^verbatim>\<open>SendThreadFunc\<close>, with the dispatcher, the workers and the
  freeze monitor): a state for all of them and a step for each atomic piece of each thread, that is
  for each stretch between two locks. What the outside contributes to a step comes with the event.
\<close>

section \<open>State\<close>

text \<open>
  The program counters of the receive, send and dispatch threads, with the locals that carry a
  handler or a message over.
\<close>

datatype 'j rx_state = RxIdle | RxAccepting addr | RxMonitoring "'j message_pair" | RxPushing "'j message_pair"

datatype 'j tx_state =
    TxIdle
  | TxUpdating "'j message_pair"
  | TxSending "'j message_pair"
  | TxReleasing "addr option"

record ('j, 'd) agent =
  ag_world :: "('j, 'd) ft_world"
  ag_auth :: auth_state
  ag_cfg :: plgcfg
  ag_mgr :: plgmgr
  ag_disp :: dispatcher
  ag_workers :: "'j worker list"
  ag_rx :: "'j rx_state"
  ag_tx :: "'j tx_state"
  ag_dp :: "'j message_pair option"
  ag_accepted :: "addr option multiset"
  ag_answered :: "addr option multiset"

abbreviation ag_comm :: "('j, 'd) agent \<Rightarrow> 'j comm" where
  "ag_comm s \<equiv> w_comm (ag_world s)"

definition set_comm :: "'j comm \<Rightarrow> ('j, 'd) agent \<Rightarrow> ('j, 'd) agent" where
  "set_comm c s = s\<lparr>ag_world := (ag_world s)\<lparr>w_comm := c\<rparr>\<rparr>"

text \<open>\<open>ag_accepted\<close> and \<open>ag_answered\<close> count the requests accepted and the responses sent on each handler.\<close>

record ('j, 'd, 's, 'st) agent_env =
  ae_ft :: "('j, 'd, 's) ft_env"
  ae_lib :: lib_env
  ae_crypt :: crypt_api
  ae_config :: xml_doc
  ae_get :: "'st get_str"
  ae_container :: "'j \<Rightarrow> bool"
  ae_send :: "'j send_env"

section \<open>The receive thread\<close>

text \<open>
  \<^verbatim>\<open>SendFailedMsg\<close>: answer at once and release the handler. Sending is \<^const>\<open>Send_rsp\<close>, whose calls
  go to the client.
\<close>

definition failed_response :: "'j \<Rightarrow> addr \<Rightarrow> int \<Rightarrow> int \<Rightarrow> 'j response_msg" where
  "failed_response jnull a iHttpStatus iRetCode =
     (CResponseMsg jnull a)\<lparr>m_lRetCode := iRetCode, m_iHttpStatus := iHttpStatus\<rparr>"

definition SendFailedMsg ::
  "('j, 'd, 's, 'st) agent_env \<Rightarrow> int \<Rightarrow> addr \<Rightarrow> int \<Rightarrow> int \<Rightarrow> ('j, 'd) agent \<Rightarrow> ('j, 'd) agent \<times> http_response" where
  "SendFailedMsg E puts a iHttpStatus iRetCode s =
     (let (r, _) = Send_rsp (ae_send E) puts (failed_response (env_null (ae_ft E)) a iHttpStatus iRetCode) CHttpResponse
      in (set_comm (ReleaseRequest (Some a) (ag_comm s)) (s\<lparr>ag_answered := add_mset (Some a) (ag_answered s), ag_rx := RxIdle\<rparr>), r))"

text \<open>
  What arrives with an accepted connection and how the calls on its way turn out; \<open>ar_nullenv\<close> is an
  environment that is the null pointer.
\<close>

record 'st arrival =
  ar_accept :: int
  ar_nullenv :: bool
  ar_envp :: "string list"
  ar_stream :: 'st
  ar_garbage :: string
  ar_t1 :: u64
  ar_t2 :: u64
  ar_newreq :: bool
  ar_newrsp :: bool
  ar_news :: "bool list"
  ar_puts :: int

definition head_or_unknown :: "get_param \<Rightarrow> string \<Rightarrow> string list \<Rightarrow> string" where
  "head_or_unknown gp nm envp = (case gp nm envp of None \<Rightarrow> UNKNOWN | Some v \<Rightarrow> v)"

definition HandleReceiveMsg ::
  "('j, 'd, 's, 'st) agent_env \<Rightarrow> 'st arrival \<Rightarrow> addr \<Rightarrow> ('j, 'd) agent \<Rightarrow> ('j, 'd) agent" where
  "HandleReceiveMsg E ar a s =
     (let gp = env_getparam (ae_ft E); jnull = env_null (ae_ft E) in
      if \<not> ar_newreq ar then fst (SendFailedMsg E (ar_puts ar) a SC_NOT_ACCEPTABLE MP_FAILED s)
      else if \<not> ar_newrsp ar then fst (SendFailedMsg E (ar_puts ar) a SC_NOT_ACCEPTABLE MP_FAILED s)
      else case Parse (env_parse (ae_ft E)) (ae_container E) jnull (ae_get E) (ar_news ar) (ar_garbage ar)
                  (head_or_unknown gp CONTENT_LENGTH (ar_envp ar)) (ar_stream ar)
                  (CRequestMsg gp jnull a (ar_envp ar)) of
             (r, iRet) \<Rightarrow>
               if iRet \<noteq> 0 then fst (SendFailedMsg E (ar_puts ar) a SC_NOT_ACCEPTABLE iRet s)
               else s\<lparr>ag_rx := RxMonitoring (r, CResponseMsg jnull a)\<rparr>)"

definition rx_get :: "('j, 'd) agent \<Rightarrow> ('j, 'd) agent" where
  "rx_get s =
     (case GetFcgxReq (ag_comm s) of
        (c, None) \<Rightarrow> set_comm c s
      | (c, Some a) \<Rightarrow> (set_comm c s)\<lparr>ag_rx := RxAccepting a\<rparr>)"

definition rx_accept :: "('j, 'd, 's, 'st) agent_env \<Rightarrow> 'st arrival \<Rightarrow> addr \<Rightarrow> ('j, 'd) agent \<Rightarrow> ('j, 'd) agent" where
  "rx_accept E ar a s =
     (if ar_accept ar < 0 then (set_comm (ReleaseRequest (Some a) (ag_comm s)) s)\<lparr>ag_rx := RxIdle\<rparr>
      else
        (let gp = env_getparam (ae_ft E);
             s = s\<lparr>ag_world := (ag_world s)\<lparr>w_heap := (w_heap (ag_world s))(a \<mapsto> ar_envp ar)\<rparr>,
                   ag_accepted := add_mset (Some a) (ag_accepted s)\<rparr>
         in if ar_nullenv ar then fst (SendFailedMsg E (ar_puts ar) a SC_UNAUTHORIZED MP_FAILED s)
            else
              (let strUser = head_or_unknown gp UNAME (ar_envp ar);
                   strPW = head_or_unknown gp PW (ar_envp ar);
                   strClientIP = head_or_unknown gp REMOTE_ADDR (ar_envp ar);
                   (au, iRet) = Auth (ae_crypt E) (ae_config E) (ar_t1 ar) (ar_t2 ar) strClientIP strUser strPW (ag_auth s);
                   s = s\<lparr>ag_auth := au\<rparr>
               in if iRet \<noteq> MP_SUCCESS then fst (SendFailedMsg E (ar_puts ar) a SC_UNAUTHORIZED iRet s)
                  else HandleReceiveMsg E ar a s)))"

definition rx_monitor :: "('j, 'd, 's, 'st) agent_env \<Rightarrow> 'j message_pair \<Rightarrow> ('j, 'd) agent \<Rightarrow> ('j, 'd) agent" where
  "rx_monitor E m s =
     (case MonitorFreezeOper (ae_ft E) (fst m) (ag_world s) of
        (w, r) \<Rightarrow> s\<lparr>ag_world := w, ag_rx := RxPushing (r, snd m)\<rparr>)"

definition rx_push :: "'j message_pair \<Rightarrow> ('j, 'd) agent \<Rightarrow> ('j, 'd) agent" where
  "rx_push m s = (set_comm (PushReqMsgQueue m (ag_comm s)) s)\<lparr>ag_rx := RxIdle\<rparr>"

section \<open>The send thread\<close>

definition tx_pop :: "('j, 'd) agent \<Rightarrow> ('j, 'd) agent" where
  "tx_pop s =
     (case PopRspMsgQueue (ag_comm s) of
        (c, None) \<Rightarrow> set_comm c s
      | (c, Some m) \<Rightarrow> (set_comm c s)\<lparr>ag_tx := TxUpdating m\<rparr>)"

definition tx_update :: "('j, 'd, 's, 'st) agent_env \<Rightarrow> 'j message_pair \<Rightarrow> ('j, 'd) agent \<Rightarrow> ('j, 'd) agent" where
  "tx_update E m s =
     (case UpdateFreezeOper (ae_ft E) (snd m) (fst m) (ag_world s) of
        (w, r) \<Rightarrow> s\<lparr>ag_world := w, ag_tx := TxSending (r, snd m)\<rparr>)"

definition tx_send ::
  "('j, 'd, 's, 'st) agent_env \<Rightarrow> int \<Rightarrow> 'j message_pair \<Rightarrow> ('j, 'd) agent \<Rightarrow> ('j, 'd) agent \<times> http_response" where
  "tx_send E puts m s =
     (let p = m_pFcgRequest (m_httpReq (fst m));
          (r, _) = Send_rsp (ae_send E) puts (snd m) CHttpResponse
      in (s\<lparr>ag_answered := add_mset p (ag_answered s), ag_tx := TxReleasing p\<rparr>, r))"

definition tx_release :: "addr option \<Rightarrow> ('j, 'd) agent \<Rightarrow> ('j, 'd) agent" where
  "tx_release p s = (set_comm (ReleaseRequest p (ag_comm s)) s)\<lparr>ag_tx := TxIdle\<rparr>"

section \<open>The dispatcher and the workers\<close>

definition dp_pop :: "('j, 'd) agent \<Rightarrow> ('j, 'd) agent" where
  "dp_pop s =
     (case PopReqMsgQueue (ag_comm s) of
        (c, None) \<Rightarrow> set_comm c s
      | (c, Some m) \<Rightarrow> (set_comm c s)\<lparr>ag_dp := Some m\<rparr>)"

definition dp_push :: "(nat \<Rightarrow> nat \<Rightarrow> bool) \<Rightarrow> 'j message_pair \<Rightarrow> ('j, 'd) agent \<Rightarrow> ('j, 'd) agent" where
  "dp_push busy m s =
     (case PushMsgToWorker busy m (ag_disp s, ag_workers s, ag_comm s) of
        None \<Rightarrow> s
      | Some (d, ws, c) \<Rightarrow> (set_comm c s)\<lparr>ag_disp := d, ag_workers := ws, ag_dp := None\<rparr>)"

definition agent_pool :: "('j, 'd) agent \<Rightarrow> 'j taskpool" where
  "agent_pool s = \<lparr>m_pWorkers = map Some (ag_workers s), m_pDispatchWorker = Some (ag_disp s),
     m_plugCfgParse = Some (ag_cfg s), m_plugMgr = Some (ag_mgr s)\<rparr>"

definition wk_step :: "('j, 'd, 's, 'st) agent_env \<Rightarrow> nat \<Rightarrow> 'j run_action \<Rightarrow> ('j, 'd) agent \<Rightarrow> ('j, 'd) agent" where
  "wk_step E i run s =
     (case worker_next (ae_lib E) (pool_callback (agent_pool s)) (ag_cfg s) run (ag_workers s ! i, ag_mgr s, ag_comm s) of
        (w, g, c) \<Rightarrow> (set_comm c s)\<lparr>ag_workers := (ag_workers s)[i := w], ag_mgr := g\<rparr>)"

section \<open>Steps\<close>

text \<open>Each event is a step of one thread; it does nothing when the thread is not at that point.\<close>

datatype ('j, 'st) event =
    RxGet | RxAccept "'st arrival" | RxMonitor | RxPush
  | TxPop | TxUpdate | TxSend int | TxRelease
  | DpPop | DpPush "nat \<Rightarrow> nat \<Rightarrow> bool"
  | Wk nat "'j run_action"
  | MonitorPass

fun agent_step :: "('j, 'd, 's, 'st) agent_env \<Rightarrow> ('j, 'st) event \<Rightarrow> ('j, 'd) agent \<Rightarrow> ('j, 'd) agent" where
  "agent_step E RxGet s = (if ag_rx s = RxIdle then rx_get s else s)"
| "agent_step E (RxAccept ar) s = (case ag_rx s of RxAccepting a \<Rightarrow> rx_accept E ar a s | _ \<Rightarrow> s)"
| "agent_step E RxMonitor s = (case ag_rx s of RxMonitoring m \<Rightarrow> rx_monitor E m s | _ \<Rightarrow> s)"
| "agent_step E RxPush s = (case ag_rx s of RxPushing m \<Rightarrow> rx_push m s | _ \<Rightarrow> s)"
| "agent_step E TxPop s = (if ag_tx s = TxIdle then tx_pop s else s)"
| "agent_step E TxUpdate s = (case ag_tx s of TxUpdating m \<Rightarrow> tx_update E m s | _ \<Rightarrow> s)"
| "agent_step E (TxSend puts) s = (case ag_tx s of TxSending m \<Rightarrow> fst (tx_send E puts m s) | _ \<Rightarrow> s)"
| "agent_step E TxRelease s = (case ag_tx s of TxReleasing p \<Rightarrow> tx_release p s | _ \<Rightarrow> s)"
| "agent_step E DpPop s = (if ag_dp s = None then dp_pop s else s)"
| "agent_step E (DpPush busy) s = (case ag_dp s of Some m \<Rightarrow> dp_push busy m s | None \<Rightarrow> s)"
| "agent_step E (Wk i run) s = (if i < length (ag_workers s) then wk_step E i run s else s)"
| "agent_step E MonitorPass s = s\<lparr>ag_world := HandleMonitorObjs (ae_ft E) (ag_world s)\<rparr>"

fun agent_run :: "('j, 'd, 's, 'st) agent_env \<Rightarrow> ('j, 'st) event list \<Rightarrow> ('j, 'd) agent \<Rightarrow> ('j, 'd) agent" where
  "agent_run E [] s = s"
| "agent_run E (e # es) s = agent_run E es (agent_step E e s)"

end
