(* ===== verification/AgentSafe.thy ===== *)
theory AgentSafe
  imports AgentLoop
begin

text \<open>
  The invariant of the running agent: every handler in use is held by exactly one thread or message,
  every accepted request is either answered or on its way, and the freeze monitor, the plugin manager
  and the dispatcher stay well formed, whatever the order of the threads' steps.
\<close>

section \<open>The invariant\<close>

definition clients :: "(addr option \<times> bool) multiset \<Rightarrow> addr option multiset" where
  "clients M = image_mset fst (filter_mset (\<lambda>i. \<not> snd i) M)"

lemma clients_simps [simp]:
  "clients {#} = {#}" "clients (M + N) = clients M + clients N"
  "clients (add_mset i M) = (if snd i then clients M else add_mset (fst i) (clients M))"
  by (simp_all add: clients_def)

definition flight :: "('j, 'd) agent \<Rightarrow> addr option multiset" where
  "flight s = clients (all_msgs (ag_workers s, ag_comm s) +
     (case ag_dp s of None \<Rightarrow> {#} | Some m \<Rightarrow> {#msg_id m#}))"

definition rx_pending :: "'j rx_state \<Rightarrow> addr option multiset" where
  "rx_pending r = (case r of RxMonitoring m \<Rightarrow> {#fst (msg_id m)#} | RxPushing m \<Rightarrow> {#fst (msg_id m)#} | _ \<Rightarrow> {#})"

definition tx_pending :: "'j tx_state \<Rightarrow> addr option multiset" where
  "tx_pending t = (case t of TxUpdating m \<Rightarrow> {#fst (msg_id m)#} | TxSending m \<Rightarrow> {#fst (msg_id m)#} | _ \<Rightarrow> {#})"

definition pending :: "('j, 'd) agent \<Rightarrow> addr option multiset" where
  "pending s = flight s + rx_pending (ag_rx s) + tx_pending (ag_tx s)"

definition held_handlers :: "('j, 'd) agent \<Rightarrow> addr option multiset" where
  "held_handlers s = pending s + (case ag_rx s of RxAccepting a \<Rightarrow> {#Some a#} | _ \<Rightarrow> {#}) +
     (case ag_tx s of TxReleasing p \<Rightarrow> {#p#} | _ \<Rightarrow> {#})"

definition rx_ok :: "'j rx_state \<Rightarrow> bool" where
  "rx_ok r \<longleftrightarrow> (case r of RxMonitoring m \<Rightarrow> \<not> is_internal m | RxPushing m \<Rightarrow> \<not> is_internal m | _ \<Rightarrow> True)"

definition disp_ok :: "dispatcher \<Rightarrow> 'j worker list \<Rightarrow> bool" where
  "disp_ok d ws \<longleftrightarrow> m_hasWorkers d \<and> m_iWorkerCount d = int (length ws) \<and> ws \<noteq> [] \<and>
     0 \<le> m_lastPushedWorker d \<and> m_lastPushedWorker d \<le> MAX_PUSHED_WORKERS_CNT"

definition agent_ok :: "('j, 'd) agent \<Rightarrow> bool" where
  "agent_ok s \<longleftrightarrow> monitors_ok (ag_world s) \<and> table_ok (ag_comm s) \<and> used (ag_comm s) = held_handlers s \<and>
     ag_accepted s = ag_answered s + pending s \<and> rx_ok (ag_rx s) \<and> disp_ok (ag_disp s) (ag_workers s) \<and>
     mgr_ok (ag_mgr s)"

section \<open>Changing the queues and the table\<close>

lemma handlers_comm: "Some a \<in># used (w_comm w) \<Longrightarrow> Some a \<in> handlers w"
  by (auto simp: used_def handlers_def)

lemma used_handlers: "p \<in># used (w_comm w) \<Longrightarrow> p \<in> handlers w"
  by (auto simp: used_def handlers_def)

lemma monitors_ok_comm:
  assumes "map pFcgxReq (m_ReqHandlerTable c) = map pFcgxReq (m_ReqHandlerTable (w_comm w))"
  shows "monitors_ok (w\<lparr>w_comm := c\<rparr>) = monitors_ok w"
proof -
  have "handlers (w\<lparr>w_comm := c\<rparr>) = handlers w"
    using assms by (simp add: handlers_def del: set_map flip: set_map)
  then show ?thesis
    by (simp add: monitors_ok_def heap_ok_def owned_def live_def cong: option.case_cong)
qed

lemma table_keys [simp]:
  "map pFcgxReq (m_ReqHandlerTable (fst (GetFcgxReq c))) = map pFcgxReq (m_ReqHandlerTable c)"
  "map pFcgxReq (m_ReqHandlerTable (ReleaseRequest p c)) = map pFcgxReq (m_ReqHandlerTable c)"
  by (simp_all add: GetFcgxReq_def ReleaseRequest_def split: option.split)

lemma same_table: "m_ReqHandlerTable c' = m_ReqHandlerTable c \<Longrightarrow> table_ok c' = table_ok c \<and> used c' = used c"
  by (simp add: table_ok_def used_def)

lemma ag_set_comm [simp]:
  "ag_comm (set_comm c s) = c" "ag_auth (set_comm c s) = ag_auth s" "ag_cfg (set_comm c s) = ag_cfg s"
  "ag_mgr (set_comm c s) = ag_mgr s" "ag_disp (set_comm c s) = ag_disp s" "ag_workers (set_comm c s) = ag_workers s"
  "ag_rx (set_comm c s) = ag_rx s" "ag_tx (set_comm c s) = ag_tx s" "ag_dp (set_comm c s) = ag_dp s"
  "ag_accepted (set_comm c s) = ag_accepted s" "ag_answered (set_comm c s) = ag_answered s"
  "ag_world (set_comm c s) = (ag_world s)\<lparr>w_comm := c\<rparr>"
  by (simp_all add: set_comm_def)

lemma flight_cong:
  "ag_workers s' = ag_workers s \<Longrightarrow> ag_dp s' = ag_dp s \<Longrightarrow> m_reqMsgQueue (ag_comm s') = m_reqMsgQueue (ag_comm s) \<Longrightarrow>
   m_rspMsgQueue (ag_comm s') = m_rspMsgQueue (ag_comm s) \<Longrightarrow> flight s' = flight s"
  by (simp add: flight_def all_msgs_def)

lemma pop_rsp_flight:
  "snd (PopRspMsgQueue c) = Some m \<Longrightarrow>
   \<not> is_internal m \<and> clients (mset (map msg_id (m_rspMsgQueue c))) =
     add_mset (fst (msg_id m)) (clients (mset (map msg_id (m_rspMsgQueue (fst (PopRspMsgQueue c))))))"
  using rsp_queue.pop_mset [of c] rsp_queue.pop_sel [of c m]
  by (auto simp: msg_id_def)

section \<open>The receive thread\<close>

lemma rx_get_ok:
  assumes "agent_ok s" "ag_rx s = RxIdle"
  shows "agent_ok (rx_get s)"
proof -
  obtain c r where G: "GetFcgxReq (ag_comm s) = (c, r)" by fastforce
  have keys: "map pFcgxReq (m_ReqHandlerTable c) = map pFcgxReq (m_ReqHandlerTable (ag_comm s))"
    using table_keys(1) [of "ag_comm s"] by (simp add: G)
  have q: "m_reqMsgQueue c = m_reqMsgQueue (ag_comm s)" "m_rspMsgQueue c = m_rspMsgQueue (ag_comm s)"
    using comm_frames(11,12) [of "ag_comm s"] by (simp_all add: G)
  have t: "table_ok c = table_ok (ag_comm s)" using table_ok_GetFcgxReq [of "ag_comm s"] by (simp add: G)
  note u = GetFcgxReq_used [of "ag_comm s", unfolded G fst_conv snd_conv]
  have fl: "flight (set_comm c s) = flight s" by (rule flight_cong) (simp_all add: q)
  show ?thesis
  proof (cases r)
    case None
    with u assms have "c = ag_comm s" by (simp add: agent_ok_def)
    then have "rx_get s = s" by (simp add: rx_get_def G None set_comm_def)
    with assms show ?thesis by simp
  next
    case (Some a)
    with u assms have "used c = add_mset (Some a) (used (ag_comm s))" by (simp add: agent_ok_def)
    moreover have "flight ((set_comm c s)\<lparr>ag_rx := RxAccepting a\<rparr>) = flight s"
      using fl by (simp add: flight_def)
    ultimately show ?thesis
      using assms t monitors_ok_comm [OF keys]
      by (simp add: rx_get_def G Some agent_ok_def held_handlers_def pending_def rx_pending_def rx_ok_def)
  qed
qed

text \<open>Answering at once: the handler that is being accepted is free again, and the request answered.\<close>

lemma SendFailedMsg_ok:
  assumes "agent_ok (s\<lparr>ag_accepted := A\<rparr>)" "ag_accepted s = add_mset (Some a) A" "ag_rx s = RxAccepting a"
  shows "agent_ok (fst (SendFailedMsg E puts a st rc s))"
proof -
  let ?c = "ReleaseRequest (Some a) (ag_comm s)"
  have "used ?c = used (ag_comm s) - {#Some a#}"
    using assms(1) by (intro used_Release) (simp add: agent_ok_def)
  moreover have "flight ((set_comm ?c s)\<lparr>ag_answered := B, ag_rx := RxIdle\<rparr>) = flight s" for B
    by (rule flight_cong) simp_all
  moreover have "flight (s\<lparr>ag_accepted := A\<rparr>) = flight s" by (rule flight_cong) simp_all
  ultimately show ?thesis
    using assms monitors_ok_comm [OF table_keys(2) [of "Some a" "ag_comm s"]]
    by (simp add: SendFailedMsg_def Let_def case_prod_unfold agent_ok_def held_handlers_def pending_def rx_pending_def
        rx_ok_def flight_def all_msgs_def)
qed

lemma Parse_httpReq: "m_httpReq (fst (Parse p co jn g n ga cl st r)) = m_httpReq r"
  by (simp add: Parse_def split: sum.split)

lemma HandleReceiveMsg_ok:
  assumes "agent_ok (s\<lparr>ag_accepted := A\<rparr>)" "ag_accepted s = add_mset (Some a) A" "ag_rx s = RxAccepting a"
  shows "agent_ok (HandleReceiveMsg E ar a s)"
proof -
  let ?P = "Parse (env_parse (ae_ft E)) (ae_container E) (env_null (ae_ft E)) (ae_get E) (ar_news ar) (ar_garbage ar)
     (head_or_unknown (env_getparam (ae_ft E)) CONTENT_LENGTH (ar_envp ar)) (ar_stream ar)
     (CRequestMsg (env_getparam (ae_ft E)) (env_null (ae_ft E)) a (ar_envp ar))"
  have p: "m_pFcgRequest (m_httpReq (fst ?P)) = Some a"
    by (simp add: Parse_httpReq CRequestMsg_def CHttpRequest_def Let_def case_prod_unfold)
  have "flight (s\<lparr>ag_rx := r\<rparr>) = flight s" "flight (s\<lparr>ag_accepted := A\<rparr>) = flight s" for r
    by (rule flight_cong; simp)+
  then have "agent_ok (s\<lparr>ag_rx := RxMonitoring (fst ?P, CResponseMsg (env_null (ae_ft E)) a)\<rparr>)"
    using assms p
    by (simp add: agent_ok_def held_handlers_def pending_def rx_pending_def rx_ok_def msg_id_def CResponseMsg_def)
  then show ?thesis
    using SendFailedMsg_ok [OF assms]
    by (auto simp: HandleReceiveMsg_def Let_def split: prod.split)
qed

lemma rx_accept_ok:
  assumes "agent_ok s" "ag_rx s = RxAccepting a"
  shows "agent_ok (rx_accept E ar a s)"
proof (cases "ar_accept ar < 0")
  case True
  let ?c = "ReleaseRequest (Some a) (ag_comm s)"
  have "used ?c = used (ag_comm s) - {#Some a#}"
    using assms(1) by (intro used_Release) (simp add: agent_ok_def)
  moreover have "flight ((set_comm ?c s)\<lparr>ag_rx := RxIdle\<rparr>) = flight s" by (rule flight_cong) simp_all
  ultimately show ?thesis
    using assms True monitors_ok_comm [OF table_keys(2) [of "Some a" "ag_comm s"]]
    by (simp add: rx_accept_def agent_ok_def held_handlers_def pending_def rx_pending_def rx_ok_def)
next
  case False
  have "Some a \<in># used (ag_comm s)" using assms by (simp add: agent_ok_def held_handlers_def)
  then have h: "Some a \<in> handlers (ag_world s)" by (rule used_handlers)
  define s1 where "s1 au = s\<lparr>ag_world := (ag_world s)\<lparr>w_heap := (w_heap (ag_world s))(a \<mapsto> ar_envp ar)\<rparr>,
     ag_accepted := add_mset (Some a) (ag_accepted s), ag_auth := au\<rparr>" for au
  have fl: "flight ((s1 au)\<lparr>ag_accepted := A\<rparr>) = flight s" for au A by (rule flight_cong) (simp_all add: s1_def)
  have "monitors_ok (ft_step (ae_ft E) (Accepted a (ar_envp ar)) (ag_world s))"
    using ft_step_ok [of "ag_world s" "Accepted a (ar_envp ar)" "ae_ft E"] assms(1) h by (simp add: agent_ok_def)
  then have ok: "agent_ok ((s1 au)\<lparr>ag_accepted := ag_accepted s\<rparr>)" for au
    using assms fl [where au = au and A = "ag_accepted s"]
    by (simp add: agent_ok_def held_handlers_def pending_def s1_def)
  have acc: "ag_accepted (s1 au) = add_mset (Some a) (ag_accepted s)" "ag_rx (s1 au) = RxAccepting a" for au
    using assms(2) by (simp_all add: s1_def)
  let ?head = "\<lambda>nm. head_or_unknown (env_getparam (ae_ft E)) nm (ar_envp ar)"
  obtain au rc where A: "Auth (ae_crypt E) (ae_config E) (ar_t1 ar) (ar_t2 ar) (?head REMOTE_ADDR) (?head UNAME)
      (?head PW) (ag_auth s) = (au, rc)"
    by fastforce
  have "rx_accept E ar a s =
      (if ar_nullenv ar then fst (SendFailedMsg E (ar_puts ar) a SC_UNAUTHORIZED MP_FAILED (s1 (ag_auth s)))
       else if rc \<noteq> MP_SUCCESS then fst (SendFailedMsg E (ar_puts ar) a SC_UNAUTHORIZED rc (s1 au))
       else HandleReceiveMsg E ar a (s1 au))"
    using False by (simp add: rx_accept_def Let_def A s1_def)
  then show ?thesis
    by (simp add: SendFailedMsg_ok [OF ok acc] HandleReceiveMsg_ok [OF ok acc])
qed

lemma rx_monitor_ok:
  assumes "agent_ok s" "ag_rx s = RxMonitoring m"
  shows "agent_ok (rx_monitor E m s)"
proof -
  let ?w = "ag_world s" and ?R = "MonitorFreezeOper (ae_ft E) (fst m) (ag_world s)"
  have "fcgx_of (fst m) \<in># used (ag_comm s)"
    using assms by (simp add: agent_ok_def held_handlers_def pending_def rx_pending_def msg_id_def fcgx_of_def)
  then have "foreign_req (fst m) ?w"
    using assms(1) by (intro handlers_foreign used_handlers) (simp_all add: agent_ok_def)
  note g = MonitorFreezeOper_guards [OF this, of "ae_ft E"]
  have "monitors_ok (fst ?R)" using guardsD(1) [OF conjunct1 [OF g]] assms(1) by (simp add: agent_ok_def)
  moreover have "flight (s\<lparr>ag_world := fst ?R, ag_rx := r\<rparr>) = flight s" for r
    by (rule flight_cong) simp_all
  ultimately show ?thesis
    using assms conjunct2 [OF g]
    by (simp add: rx_monitor_def case_prod_unfold agent_ok_def held_handlers_def pending_def rx_pending_def rx_ok_def
        msg_id_def fcgx_of_def)
qed

lemma rx_push_ok:
  assumes "agent_ok s" "ag_rx s = RxPushing m"
  shows "agent_ok (rx_push m s)"
proof -
  have ext: "\<not> is_internal m" using assms by (simp add: agent_ok_def rx_ok_def)
  have "flight ((set_comm (PushReqMsgQueue m (ag_comm s)) s)\<lparr>ag_rx := RxIdle\<rparr>) = add_mset (fst (msg_id m)) (flight s)"
    using ext by (simp add: flight_def all_msgs_def PushReqMsgQueue_def msg_id_def)
  then show ?thesis
    using assms monitors_ok_comm [of "PushReqMsgQueue m (ag_comm s)" "ag_world s"]
      same_table [of "PushReqMsgQueue m (ag_comm s)" "ag_comm s"]
    by (simp add: rx_push_def agent_ok_def held_handlers_def pending_def rx_pending_def rx_ok_def)
qed

section \<open>The send thread\<close>

lemma tx_pop_ok:
  assumes "agent_ok s" "ag_tx s = TxIdle"
  shows "agent_ok (tx_pop s)"
proof -
  obtain c r where P: "PopRspMsgQueue (ag_comm s) = (c, r)" by fastforce
  have tab: "m_ReqHandlerTable c = m_ReqHandlerTable (ag_comm s)" and req: "m_reqMsgQueue c = m_reqMsgQueue (ag_comm s)"
    using comm_frames(7,8) [of "ag_comm s"] by (simp_all add: P)
  note mset = rsp_queue.pop_mset [of "ag_comm s", unfolded P fst_conv snd_conv]
  show ?thesis
  proof (cases r)
    case None
    with mset have "flight (set_comm c s) = flight s"
      by (simp add: flight_def all_msgs_def req)
    then show ?thesis
      using assms monitors_ok_comm [of c "ag_world s"] same_table [OF tab]
      by (simp add: tx_pop_def P None tab agent_ok_def held_handlers_def pending_def)
  next
    case (Some m)
    with P have "\<not> is_internal m" and q: "clients (mset (map msg_id (m_rspMsgQueue (ag_comm s)))) =
        add_mset (fst (msg_id m)) (clients (mset (map msg_id (m_rspMsgQueue c))))"
      using pop_rsp_flight [of "ag_comm s" m] by simp_all
    have "flight s = add_mset (fst (msg_id m)) (flight ((set_comm c s)\<lparr>ag_tx := TxUpdating m\<rparr>))"
      using q by (simp add: flight_def all_msgs_def req)
    then show ?thesis
      using assms monitors_ok_comm [of c "ag_world s"] same_table [OF tab]
      by (simp add: tx_pop_def P Some tab agent_ok_def held_handlers_def pending_def tx_pending_def)
  qed
qed

lemma tx_update_ok:
  assumes "agent_ok s" "ag_tx s = TxUpdating m"
  shows "agent_ok (tx_update E m s)"
proof -
  let ?w = "ag_world s" and ?R = "UpdateFreezeOper (ae_ft E) (snd m) (fst m) (ag_world s)"
  have "fcgx_of (fst m) \<in># used (ag_comm s)"
    using assms by (simp add: agent_ok_def held_handlers_def pending_def tx_pending_def msg_id_def fcgx_of_def)
  then have "foreign_req (fst m) ?w"
    using assms(1) by (intro handlers_foreign used_handlers) (simp_all add: agent_ok_def)
  note g = UpdateFreezeOper_guards [OF this, of "ae_ft E" "snd m"]
  have "monitors_ok (fst ?R)" using guardsD(1) [OF conjunct1 [OF g]] assms(1) by (simp add: agent_ok_def)
  moreover have "flight (s\<lparr>ag_world := fst ?R, ag_tx := r\<rparr>) = flight s" for r
    by (rule flight_cong) simp_all
  ultimately show ?thesis
    using assms conjunct2 [OF g]
    by (simp add: tx_update_def case_prod_unfold agent_ok_def held_handlers_def pending_def tx_pending_def
        msg_id_def fcgx_of_def)
qed

lemma tx_send_ok:
  assumes "agent_ok s" "ag_tx s = TxSending m"
  shows "agent_ok (fst (tx_send E puts m s))"
proof -
  have "flight (s\<lparr>ag_answered := B, ag_tx := r\<rparr>) = flight s" for B r by (rule flight_cong) simp_all
  then show ?thesis
    using assms
    by (simp add: tx_send_def Let_def case_prod_unfold agent_ok_def held_handlers_def pending_def tx_pending_def msg_id_def)
qed

lemma tx_release_ok:
  assumes "agent_ok s" "ag_tx s = TxReleasing p"
  shows "agent_ok (tx_release p s)"
proof -
  let ?c = "ReleaseRequest p (ag_comm s)"
  have "used ?c = used (ag_comm s) - {#p#}"
    using assms(1) by (intro used_Release) (simp add: agent_ok_def)
  moreover have "flight ((set_comm ?c s)\<lparr>ag_tx := TxIdle\<rparr>) = flight s" by (rule flight_cong) simp_all
  ultimately show ?thesis
    using assms monitors_ok_comm [OF table_keys(2) [of p "ag_comm s"]]
    by (simp add: tx_release_def agent_ok_def held_handlers_def pending_def tx_pending_def)
qed

section \<open>The dispatcher and the workers\<close>

lemma dp_pop_ok:
  assumes "agent_ok s" "ag_dp s = None"
  shows "agent_ok (dp_pop s)"
proof -
  obtain c r where P: "PopReqMsgQueue (ag_comm s) = (c, r)" by fastforce
  have tab: "m_ReqHandlerTable c = m_ReqHandlerTable (ag_comm s)" and rsp: "m_rspMsgQueue c = m_rspMsgQueue (ag_comm s)"
    using comm_frames(5,6) [of "ag_comm s"] by (simp_all add: P)
  note mset = req_queue.pop_mset [of "ag_comm s", unfolded P fst_conv snd_conv]
  have "flight ((set_comm c s)\<lparr>ag_dp := r\<rparr>) = flight s"
    using mset assms(2) by (cases r) (simp_all add: flight_def all_msgs_def rsp)
  moreover have "dp_pop s = (set_comm c s)\<lparr>ag_dp := r\<rparr>"
    using assms(2) by (cases r) (simp_all add: dp_pop_def P set_comm_def)
  ultimately show ?thesis
    using assms monitors_ok_comm [of c "ag_world s"] same_table [OF tab]
    by (simp add: tab agent_ok_def held_handlers_def pending_def)
qed

lemma PushMsgToWorker_frame:
  assumes "PushMsgToWorker busy m (d, ws, c) = Some (d', ws', c')" "disp_ok d ws"
  shows "disp_ok d' ws' \<and> m_ReqHandlerTable c' = m_ReqHandlerTable c"
proof -
  obtain lst ch where L: "push_loop busy (m_iWorkerCount d) (m_lastPushedWorker d) 0 (m_lastPushedWorker d) = Some (lst, ch)"
    using assms by (auto simp: PushMsgToWorker_def disp_ok_def split: option.splits if_splits)
  have "0 \<le> lst \<and> lst \<le> MAX_PUSHED_WORKERS_CNT"
    using push_loop_range [OF L] assms(2) by (simp add: disp_ok_def)
  moreover have "0 < m_iWorkerCount d" "m_hasWorkers d" using assms(2) by (simp_all add: disp_ok_def)
  then have "d' = d\<lparr>m_lastPushedWorker := lst\<rparr>" "length ws' = length ws" "m_ReqHandlerTable c' = m_ReqHandlerTable c"
    using assms(1) by (cases ch; auto simp: PushMsgToWorker_def L)+
  ultimately show ?thesis using assms(2) by (auto simp: disp_ok_def)
qed

lemma dp_push_ok:
  assumes "agent_ok s" "ag_dp s = Some m"
  shows "agent_ok (dp_push busy m s)"
proof (cases "PushMsgToWorker busy m (ag_disp s, ag_workers s, ag_comm s)")
  case None
  with assms show ?thesis by (simp add: dp_push_def)
next
  case (Some r)
  obtain d ws c where r: "r = (d, ws, c)" by (cases r) auto
  have d: "disp_ok (ag_disp s) (ag_workers s)" using assms(1) by (simp add: agent_ok_def)
  note P = Some [unfolded r]
  note fr = PushMsgToWorker_frame [OF P d]
  have "all_msgs (ws, c) = all_msgs (ag_workers s, ag_comm s) + {#msg_id m#}"
    using PushMsgToWorker_conserves [OF P] d by (simp add: disp_ok_def)
  then have "flight ((set_comm c s)\<lparr>ag_disp := d, ag_workers := ws, ag_dp := None\<rparr>) = flight s"
    using assms(2) by (simp add: flight_def)
  then show ?thesis
    using assms fr monitors_ok_comm [of c "ag_world s"] same_table [of c "ag_comm s"]
    by (simp add: dp_push_def P agent_ok_def held_handlers_def pending_def)
qed

lemma worker_next_conserves:
  assumes "keeps_request run" "worker_next E cb cfg run (w, g, c) = (w', g', c')"
  shows "map msg_id (m_rspMsgQueue c') @ map msg_id (w_msgs w') = map msg_id (m_rspMsgQueue c) @ map msg_id (w_msgs w) \<and>
      m_ReqHandlerTable c' = m_ReqHandlerTable c \<and> m_reqMsgQueue c' = m_reqMsgQueue c"
proof -
  have same: "w_msgs (w\<lparr>m_iThreadStatus := t\<rparr>) = w_msgs w" for t by (simp add: w_msgs_def)
  show ?thesis
    using assms(2) same ReqInvoke_conserves [OF assms(1), where w = w and c = c]
      ReqFetch_conserves [where w = w and E = E and cb = cb and cfg = cfg and g = g and c = c]
    by (auto simp: worker_next_def case_prod_unfold Let_def split: if_splits option.splits)
qed

lemma worker_next_mgr:
  assumes "service_env E" "mgr_ok g" "worker_next E cb cfg run (w, g, c) = (w', g', c')"
  shows "mgr_ok g'"
  using assms(3) assms(2) worker_GetPlugin_ok [OF assms(1,2), of cb cfg]
  by (auto simp: worker_next_def ReqFetch_def ReqInvoke_def case_prod_unfold Let_def split: if_splits option.splits)

lemma mset_exchange:
  assumes "(A :: 'a multiset) + v = B + u" "C + u = D + v"
  shows "A + C = B + D"
proof (rule multiset_eqI)
  fix x
  from arg_cong [OF assms(1), of "\<lambda>M. count M x"] arg_cong [OF assms(2), of "\<lambda>M. count M x"]
  show "count (A + C) x = count (B + D) x" by simp
qed

lemma wk_step_ok:
  assumes "agent_ok s" "i < length (ag_workers s)" "keeps_request run" "service_env (ae_lib E)"
  shows "agent_ok (wk_step E i run s)"
proof -
  let ?w = "ag_workers s ! i"
  obtain w g c where W: "worker_next (ae_lib E) (pool_callback (agent_pool s)) (ag_cfg s) run (?w, ag_mgr s, ag_comm s) = (w, g, c)"
    by (metis prod_cases3)
  note cons = worker_next_conserves [OF assms(3) W]
  have g: "mgr_ok g" using worker_next_mgr [OF assms(4) _ W] assms(1) by (simp add: agent_ok_def)
  let ?R = "\<lambda>c. mset (map msg_id (m_rspMsgQueue c))" and ?C = "\<lambda>ws. mset (map msg_id (concat (map w_msgs ws)))"
  have "?R c + mset (map msg_id (w_msgs w)) = ?R (ag_comm s) + mset (map msg_id (w_msgs ?w))"
    using arg_cong [OF conjunct1 [OF cons], of mset] by simp
  moreover have "?C ((ag_workers s)[i := w]) + mset (map msg_id (w_msgs ?w)) = ?C (ag_workers s) + mset (map msg_id (w_msgs w))"
    by (rule mset_concat_update [OF assms(2)])
  ultimately have "?R c + ?C ((ag_workers s)[i := w]) = ?R (ag_comm s) + ?C (ag_workers s)"
    by (rule mset_exchange)
  then have "all_msgs ((ag_workers s)[i := w], c) = all_msgs (ag_workers s, ag_comm s)"
    using cons by (simp add: all_msgs_def ac_simps)
  then have "flight ((set_comm c s)\<lparr>ag_workers := (ag_workers s)[i := w], ag_mgr := g\<rparr>) = flight s"
    by (simp add: flight_def)
  then show ?thesis
    using assms(1,2) g cons monitors_ok_comm [of c "ag_world s"] same_table [of c "ag_comm s"]
    by (auto simp: wk_step_def W agent_ok_def held_handlers_def pending_def disp_ok_def)
qed

section \<open>A pass of the monitor\<close>

lemma clients_ext: "clients (image_mset msg_id (mset q)) = image_mset fst (mset (ext_ids q))"
  by (simp add: clients_def ext_ids_def)

lemma monitor_pass_ok:
  assumes "agent_ok s"
  shows "agent_ok (s\<lparr>ag_world := HandleMonitorObjs E (ag_world s)\<rparr>)"
proof -
  let ?w = "HandleMonitorObjs E (ag_world s)"
  have f: "client_same (ag_comm s) (w_comm ?w)" by (rule frame_HandleMonitorObjs)
  then have "flight (s\<lparr>ag_world := ?w\<rparr>) = flight s"
    by (simp add: flight_def all_msgs_def clients_ext client_same_def)
  moreover have "monitors_ok ?w"
    using ft_step_ok [of "ag_world s" Pass E] assms by (simp add: agent_ok_def)
  ultimately show ?thesis
    using assms f same_table [of "w_comm ?w" "ag_comm s"]
    by (simp add: agent_ok_def held_handlers_def pending_def client_same_def)
qed

section \<open>Runs\<close>

text \<open>The actions of the plugins leave the request and the kind of the response alone.\<close>

fun event_keeps :: "('j, 'st) event \<Rightarrow> bool" where
  "event_keeps (Wk i run) \<longleftrightarrow> keeps_request run"
| "event_keeps _ \<longleftrightarrow> True"

lemma agent_step_ok:
  assumes "agent_ok s" "service_env (ae_lib E)" "event_keeps e"
  shows "agent_ok (agent_step E e s)"
  using assms
  by (cases e)
    (auto simp: rx_get_ok rx_accept_ok rx_monitor_ok rx_push_ok tx_pop_ok tx_update_ok tx_send_ok tx_release_ok
      dp_pop_ok dp_push_ok wk_step_ok monitor_pass_ok split: rx_state.split tx_state.split option.split)

lemma agent_run_ok:
  "agent_ok s \<Longrightarrow> service_env (ae_lib E) \<Longrightarrow> list_all event_keeps es \<Longrightarrow> agent_ok (agent_run E es s)"
  by (induction es arbitrary: s) (simp_all add: agent_step_ok)

text \<open>When no request is on its way, every handler is free and every accepted request has been answered.\<close>

lemma agent_quiescent:
  assumes "agent_ok s" "pending s = {#}" "ag_rx s = RxIdle" "ag_tx s = TxIdle"
  shows "used (ag_comm s) = {#} \<and> ag_accepted s = ag_answered s"
  using assms by (simp add: agent_ok_def held_handlers_def)

end
