(* ===== verification/PluginRoutes.thy ===== *)
theory PluginRoutes
  imports Plugins PluginCfg FreezeRequests Urls
begin

text \<open>
  The actions that the constructors of the Linux plugins register
  (\<^verbatim>\<open>src/src/plugins/*/*Plugin.cpp\<close>, with the URLs of \<^verbatim>\<open>src/inc/rest/Interfaces.h\<close>), the shipped
  list of plugins (\<^verbatim>\<open>src/conf/pluginmgr.xml\<close>), and the way of a request from the text of its URL to
  the method that serves it.
\<close>

section \<open>The registered actions\<close>

type_synonym action_table = "(string \<times> string \<times> string) list"

definition OraclePlugin_actions :: action_table where
  "OraclePlugin_actions =
    [(''/oracle/databases'', ''GET'', ''QueryInfo''),
     (''/oracle/pdbs'', ''GET'', ''QueryPDBInfo''),
     (''/oracle/pdbs/action/start'', ''PUT'', ''StartPDB''),
     (''/oracle/databases/action/getluns'', ''GET'', ''QueryLunInfo''),
     (''/oracle/databases/action/start'', ''PUT'', ''StartDB''),
     (''/oracle/databases/action/stop'', ''PUT'', ''StopDB''),
     (''/oracle/databases/action/checkthreshold'', ''PUT'', ''CheckArchiveThreshold''),
     (''/oracle/databases/action/testconnection'', ''PUT'', ''Test''),
     (''/oracle/databases/action/freeze'', ''PUT'', ''Freeze''),
     (''/oracle/databases/action/unfreeze'', ''PUT'', ''Thaw''),
     (''/oracle/databases/action/archivelog'', ''PUT'', ''ArchiveDB''),
     (''/oracle/action/startasminstance'', ''PUT'', ''StartASMInstance''),
     (''/oracle/action/stopasminstance'', ''PUT'', ''StopASMInstance''),
     (''/cluster/action/start'', ''PUT'', ''StartRACCluster''),
     (''/oracle/databases/freezestate'', ''GET'', ''GetDBFreezeState'')]"

definition Db2Plugin_actions :: action_table where
  "Db2Plugin_actions =
    [(''/db2/databases'', ''GET'', ''QueryInfo''),
     (''/db2/databases/action/getluns'', ''GET'', ''QueryLunInfo''),
     (''/db2/databases/action/start'', ''PUT'', ''Start''),
     (''/db2/databases/action/stop'', ''PUT'', ''Stop''),
     (''/db2/databases/action/testconnection'', ''PUT'', ''Test''),
     (''/db2/databases/action/freeze'', ''PUT'', ''Freeze''),
     (''/db2/databases/action/unfreeze'', ''PUT'', ''UnFreeze''),
     (''/db2/databases/freezestate'', ''GET'', ''QueryFreezeState'')]"

definition HostPlugin_actions :: action_table where
  "HostPlugin_actions =
    [(''/host/agent'', ''GET'', ''QueryAgentVersion''),
     (''/host'', ''GET'', ''QueryHostInfo''),
     (''/host/initiators'', ''GET'', ''QueryInitiators''),
     (''/host/disks/action/scan'', ''PUT'', ''ScanDisk''),
     (''/host/disks'', ''GET'', ''QueryDiskInfo''),
     (''/host/timezone'', ''GET'', ''QueryTimeZone''),
     (''/host/agent/action/collectsysteminfo'', ''POST'', ''CollectAgentLog''),
     (''/host/agent/systeminfo'', ''POST'', ''ExportAgentLog''),
     (''/host/thirdparty/files'', ''GET'', ''QueryThirdPartyScripts''),
     (''/host/thirdparty/action/excute'', ''POST'', ''ExecThirdPartyScript''),
     (''/host/thirdparty/action/freeze'', ''PUT'', ''ExecFreezeScript''),
     (''/host/thirdparty/action/unfreeze'', ''PUT'', ''ExecThawScript''),
     (''/host/thirdparty/freezestate'', ''GET'', ''QueryFreezeStatusScript''),
     (''/host/trapserver/register'', ''POST'', ''RegTrapServer''),
     (''/host/trapserver/unregister'', ''POST'', ''UnRegTrapServer''),
     (''/host/snmp/params/action/verify'', ''PUT'', ''VerifySnmp'')]"

definition DevicePlugin_actions :: action_table where
  "DevicePlugin_actions =
    [(''/device/filesystems'', ''GET'', ''FileSysQueryInfo''),
     (''/device/filesystems/action/mount'', ''PUT'', ''FileSysMount''),
     (''/device/filesystems/action/unmount'', ''PUT'', ''FileSysUmount''),
     (''/device/filesystems/action/batchmount'', ''PUT'', ''FileSysBatchMount''),
     (''/device/filesystems/action/batchunmount'', ''PUT'', ''FileSysBatchUmount''),
     (''/device/driveletter/action/batchdel'', ''PUT'', ''DriveLetterBatchDelete''),
     (''/device/filesystems/action/freeze'', ''PUT'', ''Freeze''),
     (''/device/filesystems/action/unfreeze'', ''PUT'', ''UnFreeze''),
     (''/device/filesystems/freezestate'', ''GET'', ''QueryFreezeState''),
     (''/device/link'', ''POST'', ''LinkCreate''),
     (''/device/link'', ''DELETE'', ''LinkDelete''),
     (''/device/batchlinks'', ''POST'', ''LinkBatchCreate''),
     (''/device/batchlinks'', ''DELETE'', ''LinkBatchDelete''),
     (''/device/lvm/vgs'', ''GET'', ''LVMQueryVgs''),
     (''/device/lvm/vgs/action/export'', ''PUT'', ''LVMExportVgs''),
     (''/device/lvm/vgs/action/import'', ''PUT'', ''LVMImportVgs''),
     (''/device/lvm/vgs/action/activate'', ''PUT'', ''LVMActivateVgs''),
     (''/device/lvm/vgs/action/deactivate'', ''PUT'', ''LVMDeactivateVgs''),
     (''/device/lvm/vgs/lvs'', ''GET'', ''LVMQueryLVs''),
     (''/device/lvm/action/scandisks'', ''PUT'', ''LVMScanDisks''),
     (''/device/udev/rule'', ''POST'', ''UDEVCreateRules''),
     (''/device/udev/rule'', ''DELETE'', ''UDEVDeleteRules''),
     (''/device/udev/batchrules'', ''POST'', ''UDEVBatchCreateRules''),
     (''/device/udev/batchrules'', ''DELETE'', ''UDEVBatchDeleteRules''),
     (''/device/asmlib'', ''PUT'', ''ScanASMLib''),
     (''/device/raw'', ''POST'', ''RawDeviceCreate''),
     (''/device/raw'', ''DELETE'', ''RawDeviceDelete''),
     (''/device/batchraws'', ''POST'', ''RawDeviceBatchCreate''),
     (''/device/batchraws'', ''DELETE'', ''RawDeviceBatchDelete''),
     (''/device/permission'', ''POST'', ''Permission'')]"

definition ClusterPlugin_actions :: action_table where
  "ClusterPlugin_actions =
    [(''/cluster/services'', ''GET'', ''QueryClusterInfo''),
     (''/cluster/activehost'', ''GET'', ''QueryActiveHost''),
     (''/cluster/action/start'', ''PUT'', ''StartCluster''),
     (''/cluster/resourcegroup/action/start'', ''PUT'', ''StartResouceGroup''),
     (''/cluster/resourcegroup/action/stop'', ''PUT'', ''StopResouceGroup'')]"

definition AppPlugin_actions :: action_table where
  "AppPlugin_actions =
    [(''/app'', ''GET'', ''QueryInfo''),
     (''/app/action/freezeall'', ''PUT'', ''Freeze''),
     (''/app/action/unfreezeall'', ''PUT'', ''UnFreeze''),
     (''/app/action/endbackup'', ''PUT'', ''EndBackup''),
     (''/app/action/truncatelog'', ''PUT'', ''TruncateLog''),
     (''/app/freezestate'', ''GET'', ''QueryFreezeState''),
     (''/app/action/unfreezeex'', ''PUT'', ''UnFreezeEx'')]"

definition CachePlugin_actions :: action_table where
  "CachePlugin_actions =
    [(''/cache/instances'', ''GET'', ''QueryInfo''),
     (''/cache/instances/action/getluns'', ''GET'', ''QueryLunInfo''),
     (''/cache/instances/action/testconnection'', ''PUT'', ''Test'')]"

definition SybasePlugin_actions :: action_table where
  "SybasePlugin_actions =
    [(''/sybase/databases/action/start'', ''PUT'', ''StartDB''),
     (''/sybase/databases/action/stop'', ''PUT'', ''StopDB''),
     (''/sybase/databases/action/testconnection'', ''PUT'', ''Test''),
     (''/sybase/databases/action/freeze'', ''PUT'', ''FreezeDB''),
     (''/sybase/databases/action/unfreeze'', ''PUT'', ''ThawDB''),
     (''/sybase/databases/freezestate'', ''GET'', ''GetFreezeStatus'')]"

definition HanaPlugin_actions :: action_table where
  "HanaPlugin_actions =
    [(''/hana/databases/action/start'', ''PUT'', ''StartDB''),
     (''/hana/databases/action/stop'', ''PUT'', ''StopDB''),
     (''/hana/databases/action/testconnection'', ''PUT'', ''Test''),
     (''/hana/databases/action/freeze'', ''PUT'', ''FreezeDB''),
     (''/hana/databases/action/unfreeze'', ''PUT'', ''ThawDB''),
     (''/hana/databases/freezestate'', ''GET'', ''GetFreezeStatus'')]"

section \<open>The shipped configuration\<close>

definition shipped_def :: "string \<Rightarrow> string \<Rightarrow> xml_elem" where
  "shipped_def name svc = Elem [(''name'', name), (''version'', ''V200R001C00SPC100''), (''service'', svc)] []"

definition pluginmgr_xml :: xml_elem where
  "pluginmgr_xml = Elem []
    [Elem []
      [shipped_def ''liboracle'' ''oracle'', shipped_def ''libdb2'' ''db2'', shipped_def ''libhost'' ''host'',
       shipped_def ''libdevice'' ''device'', shipped_def ''libexchange'' ''exchange'',
       shipped_def ''libcluster'' ''cluster'', shipped_def ''libsqlserver'' ''sqlserver'',
       shipped_def ''libapp'' ''app'', shipped_def ''libcache'' ''cache'', shipped_def ''libsybase'' ''sybase'',
       shipped_def ''libhana'' ''hana'']]"

text \<open>The plugin each library of a Linux build creates; the Exchange and SQL Server plugins are not built there.\<close>

definition plugin_tables :: "(string \<times> action_table) list" where
  "plugin_tables =
    [(''liboracle'', OraclePlugin_actions), (''libdb2'', Db2Plugin_actions), (''libhost'', HostPlugin_actions),
     (''libdevice'', DevicePlugin_actions), (''libcluster'', ClusterPlugin_actions),
     (''libapp'', AppPlugin_actions), (''libcache'', CachePlugin_actions),
     (''libsybase'', SybasePlugin_actions), (''libhana'', HanaPlugin_actions)]"

definition shipped_files :: "string \<Rightarrow> int \<Rightarrow> cfg_files" where
  "shipped_files path t = \<lparr>cf_mtime = (\<lambda>s. if s = path then Some t else None),
     cf_load = (\<lambda>s. if s = path then Some pluginmgr_xml else None)\<rparr>"

definition shipped_cfg :: "string \<Rightarrow> int \<Rightarrow> plgcfg" where
  "shipped_cfg path t = fst (Cfg_Init (shipped_files path t) (Some path) empty_cfg)"

text \<open>
  The way of a request: the URL as it arrives, its service, the plugin of the service, and the
  action that plugin has registered for the URL and the method.
\<close>

definition route :: "plgcfg \<Rightarrow> string \<Rightarrow> string \<Rightarrow> string option" where
  "route c uri mthd =
     (let u = SetOriURL uri empty_url in
      case GetPluginByService (GetServiceName u) c of
        None \<Rightarrow> None
      | Some d \<Rightarrow>
          (case map_of plugin_tables (plg_name d) of
             None \<Rightarrow> None
           | Some tbl \<Rightarrow>
               map_option ra_action (GetAction (m_procURL u) mthd (plg_actions (CServicePlugin tbl)))))"

section \<open>Every table is unambiguous, and its URLs lead to its plugin\<close>

definition urls_ok :: "string \<Rightarrow> action_table \<Rightarrow> bool" where
  "urls_ok svc tbl \<longleftrightarrow> list_all (\<lambda>(u, m, a). CHR ''_'' \<notin> set m \<and>
     (let w = SetOriURL (''/agent'' @ u) empty_url in GetServiceName w = svc \<and> m_procURL w = u)) tbl \<and>
     distinct (map (\<lambda>(u, m, a). (u, m)) tbl)"

lemma GetAction_table:
  assumes "distinct (map (\<lambda>(u, m, a). (u, m)) tbl)" "\<And>u m a. (u, m, a) \<in> set tbl \<Longrightarrow> CHR ''_'' \<notin> set m"
    "(u, m, a) \<in> set tbl"
  shows "GetAction u m (register_all tbl) = Some \<lparr>ra_url = u, ra_method = m, ra_action = a\<rparr>"
proof -
  have key: "action_key u' m' = action_key u m \<longleftrightarrow> u' = u \<and> m' = m" if "(u', m', a') \<in> set tbl" for u' m' a'
    using action_key_inj assms(2,3) that by metis
  have one: "a' = a" if "(u, m, a') \<in> set tbl" for a'
    using that assms(1,3) by (fastforce simp: distinct_map inj_on_def)
  obtain x where f: "List.find (\<lambda>(u', m', a'). action_key u' m' = action_key u m) (rev tbl) = Some x"
    using assms(3) by (cases "List.find (\<lambda>(u', m', a'). action_key u' m' = action_key u m) (rev tbl)")
      (auto simp: find_None_iff)
  then have "x \<in> set tbl" "(\<lambda>(u', m', a'). action_key u' m' = action_key u m) x"
    by (auto simp: find_Some_iff) (metis length_rev nth_mem set_rev)
  then have "x = (u, m, a)" using key one by (cases x) auto
  then show ?thesis using f by (simp add: GetAction_register_all)
qed

lemma route_entry:
  assumes "distinct (map (\<lambda>(u, m, a). (u, m)) tbl)" "list_all (\<lambda>(u, m, a). CHR ''_'' \<notin> set m) tbl"
    and w: "GetServiceName (SetOriURL (''/agent'' @ u) empty_url) = svc" "m_procURL (SetOriURL (''/agent'' @ u) empty_url) = u"
    and d: "GetPluginByService svc c = Some d" "map_of plugin_tables (plg_name d) = Some tbl"
    and x: "(u, m, a) \<in> set tbl"
  shows "route c (''/agent'' @ u) m = Some a"
proof -
  have "GetAction u m (register_all tbl) = Some \<lparr>ra_url = u, ra_method = m, ra_action = a\<rparr>"
    by (rule GetAction_table [OF assms(1) _ x]) (use assms(2) in \<open>auto simp: list_all_iff\<close>)
  then show ?thesis using w d by (simp add: route_def CServicePlugin_def del: append_Cons)
qed

lemma route_table:
  assumes t: "urls_ok svc tbl" and d: "GetPluginByService svc c = Some d" "map_of plugin_tables (plg_name d) = Some tbl"
    and x: "(u, m, a) \<in> set tbl"
  shows "route c (''/agent'' @ u) m = Some a"
  by (rule route_entry [OF _ _ _ _ d x]) (use t x in \<open>auto simp: urls_ok_def list_all_iff Let_def\<close>)

lemma Db2_table: "urls_ok ''db2'' Db2Plugin_actions"
  by code_simp

lemma Host_table: "urls_ok ''host'' HostPlugin_actions"
  by code_simp

lemma Device_table: "urls_ok ''device'' DevicePlugin_actions"
  by code_simp

lemma Cluster_table: "urls_ok ''cluster'' ClusterPlugin_actions"
  by code_simp

lemma App_table: "urls_ok ''app'' AppPlugin_actions"
  by code_simp

lemma Cache_table: "urls_ok ''cache'' CachePlugin_actions"
  by code_simp

lemma Sybase_table: "urls_ok ''sybase'' SybasePlugin_actions"
  by code_simp

lemma Hana_table: "urls_ok ''hana'' HanaPlugin_actions"
  by code_simp

lemma Oracle_table:
  "urls_ok ''oracle'' (filter (\<lambda>(u, m, a). a \<noteq> ''StartRACCluster'') OraclePlugin_actions)"
  by code_simp

lemma Oracle_distinct: "distinct (map (\<lambda>(u, m, a). (u, m)) OraclePlugin_actions)"
  "list_all (\<lambda>(u, m, a). CHR ''_'' \<notin> set m) OraclePlugin_actions"
  by code_simp+

definition shipped_services :: "(string \<times> string) list" where
  "shipped_services =
     [(''oracle'', ''liboracle''), (''db2'', ''libdb2''), (''host'', ''libhost''), (''device'', ''libdevice''),
      (''exchange'', ''libexchange''), (''cluster'', ''libcluster''), (''sqlserver'', ''libsqlserver''),
      (''app'', ''libapp''), (''cache'', ''libcache''), (''sybase'', ''libsybase''), (''hana'', ''libhana'')]"

definition shipped_entry :: "string \<times> string \<Rightarrow> plugin_def" where
  "shipped_entry x = \<lparr>plg_name = snd x, plg_version = ''V200R001C00SPC100'', plg_service = fst x\<rparr>"

lemma shipped_load:
  "m_vecPlgDefs (fst (LoadPluginDefs (Some (hd (xchildren pluginmgr_xml))) \<lparr>m_tFileTime = t, m_vecPlgDefs = []\<rparr>)) =
     map shipped_entry shipped_services"
  "snd (LoadPluginDefs (Some (hd (xchildren pluginmgr_xml))) \<lparr>m_tFileTime = t, m_vecPlgDefs = []\<rparr>)"
  by code_simp+

lemma shipped_cfg_defs: "m_vecPlgDefs (shipped_cfg path t) = map shipped_entry shipped_services"
proof -
  have x: "xchildren pluginmgr_xml \<noteq> []" by (simp add: pluginmgr_xml_def)
  show ?thesis
    using shipped_load [of t]
    by (simp add: shipped_cfg_def Cfg_Init_def LoadCfg_def shipped_files_def empty_cfg_def x Let_def
        list.case_eq_if case_prod_unfold split: bool.split)
qed

lemma find_entry:
  "map_of xs svc = Some n \<Longrightarrow> List.find (\<lambda>d. plg_service d = svc) (map shipped_entry xs) = Some (shipped_entry (svc, n))"
  by (induction xs) (auto simp: shipped_entry_def)

lemma shipped_service:
  "map_of shipped_services svc = Some n \<Longrightarrow> GetPluginByService svc (shipped_cfg path t) = Some (shipped_entry (svc, n))"
  by (simp add: GetPluginByService_def shipped_cfg_defs find_entry)

lemma shipped_routes:
  assumes "urls_ok svc tbl" "map_of shipped_services svc = Some n" "map_of plugin_tables n = Some tbl" "(u, m, a) \<in> set tbl"
  shows "route (shipped_cfg path t) (''/agent'' @ u) m = Some a"
  by (rule route_table [OF assms(1) shipped_service [OF assms(2)] _ assms(4)]) (simp add: shipped_entry_def assms(3))

definition served :: "plgcfg \<Rightarrow> action_table \<Rightarrow> bool" where
  "served c tbl \<longleftrightarrow> list_all (\<lambda>(u, m, a).
     route c (''/agent'' @ u) m = Some (if a = ''StartRACCluster'' then ''StartCluster'' else a)) tbl"

lemma no_rac:
  "list_all (\<lambda>tbl. list_all (\<lambda>(u, m, a). a \<noteq> ''StartRACCluster'') tbl) (map snd (tl plugin_tables))"
  by code_simp

lemma served_table:
  assumes "urls_ok svc tbl" "map_of shipped_services svc = Some n" "map_of plugin_tables n = Some tbl"
    "tbl \<in> set (map snd (tl plugin_tables))"
  shows "served (shipped_cfg path t) tbl"
  using shipped_routes [OF assms(1-3)] no_rac assms(4) by (auto simp: served_def list_all_iff)

lemma services_tables:
  "list_all (\<lambda>(svc, n). map_of shipped_services svc = Some n)
     [(''db2'', ''libdb2''), (''host'', ''libhost''), (''device'', ''libdevice''), (''cluster'', ''libcluster''),
      (''app'', ''libapp''), (''cache'', ''libcache''), (''sybase'', ''libsybase''), (''hana'', ''libhana''), (''oracle'', ''liboracle'')]"
  by code_simp

lemma names_tables:
  "map_of plugin_tables ''libdb2'' = Some Db2Plugin_actions" "map_of plugin_tables ''libhost'' = Some HostPlugin_actions"
  "map_of plugin_tables ''libdevice'' = Some DevicePlugin_actions"
  "map_of plugin_tables ''libcluster'' = Some ClusterPlugin_actions"
  "map_of plugin_tables ''libapp'' = Some AppPlugin_actions" "map_of plugin_tables ''libcache'' = Some CachePlugin_actions"
  "map_of plugin_tables ''libsybase'' = Some SybasePlugin_actions" "map_of plugin_tables ''libhana'' = Some HanaPlugin_actions"
  "map_of plugin_tables ''liboracle'' = Some OraclePlugin_actions"
  by (simp_all add: plugin_tables_def)

lemmas urls_oks = Db2_table Host_table Device_table Cluster_table App_table Cache_table Sybase_table Hana_table

lemma served_others:
  "list_all (\<lambda>(n, tbl). served (shipped_cfg path t) tbl) (tl plugin_tables)"
proof -
  have s: "map_of shipped_services ''db2'' = Some ''libdb2''" "map_of shipped_services ''host'' = Some ''libhost''"
    "map_of shipped_services ''device'' = Some ''libdevice''" "map_of shipped_services ''cluster'' = Some ''libcluster''"
    "map_of shipped_services ''app'' = Some ''libapp''" "map_of shipped_services ''cache'' = Some ''libcache''"
    "map_of shipped_services ''sybase'' = Some ''libsybase''" "map_of shipped_services ''hana'' = Some ''libhana''"
    using services_tables by simp_all
  show ?thesis
    by (simp add: plugin_tables_def served_table [OF Db2_table s(1) names_tables(1)] served_table [OF Host_table s(2) names_tables(2)]
        served_table [OF Device_table s(3) names_tables(3)] served_table [OF Cluster_table s(4) names_tables(4)]
        served_table [OF App_table s(5) names_tables(5)] served_table [OF Cache_table s(6) names_tables(6)]
        served_table [OF Sybase_table s(7) names_tables(7)] served_table [OF Hana_table s(8) names_tables(8)])
qed

lemma served_oracle: "served (shipped_cfg path t) OraclePlugin_actions"
proof -
  let ?c = "shipped_cfg path t"
  have s: "map_of shipped_services ''oracle'' = Some ''liboracle''" "map_of shipped_services ''cluster'' = Some ''libcluster''"
    using services_tables by simp_all
  have other: "route ?c (''/agent'' @ u) m = Some a" if "(u, m, a) \<in> set OraclePlugin_actions" "a \<noteq> ''StartRACCluster''" for u m a
  proof (rule route_entry [OF Oracle_distinct _ _ shipped_service [OF s(1)] _ that(1)])
    show "GetServiceName (SetOriURL (''/agent'' @ u) empty_url) = ''oracle''" "m_procURL (SetOriURL (''/agent'' @ u) empty_url) = u"
      using Oracle_table that by (auto simp: urls_ok_def list_all_iff Let_def)
    show "map_of plugin_tables (plg_name (shipped_entry (''oracle'', ''liboracle''))) = Some OraclePlugin_actions"
      by (simp add: shipped_entry_def names_tables)
  qed
  have rac: "route ?c (''/agent'' @ ''/cluster/action/start'') ''PUT'' = Some ''StartCluster''"
    by (rule shipped_routes [OF Cluster_table s(2) names_tables(4)]) (simp add: ClusterPlugin_actions_def)
  have "u = ''/cluster/action/start'' \<and> m = ''PUT''" if "(u, m, ''StartRACCluster'') \<in> set OraclePlugin_actions" for u m
    using that by (auto simp: OraclePlugin_actions_def)
  then show ?thesis using other rac by (auto simp: served_def list_all_iff simp del: append_Cons)
qed

section \<open>The requests of the freeze monitor have an action\<close>

definition linux_types :: "int list" where
  "linux_types = [TYPE_APP_DB2, TYPE_APP_ORACLE, TYPE_APP_FILESYSTEM, TYPE_APP_THIRDPARTY, TYPE_APP_APP, TYPE_APP_SYBASE,
     TYPE_APP_HANA]"

lemma monitor_actions:
  "list_all (\<lambda>t. list_ex (list_ex (\<lambda>(u, m, a). u = GetUnFreezeUrl t \<and> m = REST_URL_METHOD_PUT)) (map snd plugin_tables) \<and>
     list_ex (list_ex (\<lambda>(u, m, a). u = GetQueryStatusUrl t \<and> m = REST_URL_METHOD_GET)) (map snd plugin_tables)) linux_types"
  by code_simp

lemma plugin_tables_split: "plugin_tables = (''liboracle'', OraclePlugin_actions) # tl plugin_tables"
  by (simp add: plugin_tables_def)

lemma served_all: "list_all (\<lambda>(n, tbl). served (shipped_cfg path t) tbl) plugin_tables"
  by (subst plugin_tables_split) (simp add: served_oracle served_others)

lemma served_some:
  assumes "list_ex (list_ex (\<lambda>(u, m, a). u = url \<and> m = mthd)) (map snd plugin_tables)"
  shows "route (shipped_cfg path t) (''/agent'' @ url) mthd \<noteq> None"
proof -
  from assms obtain n tbl a where x: "(n, tbl) \<in> set plugin_tables" "(url, mthd, a) \<in> set tbl"
    by (auto simp: list_ex_iff)
  then have "served (shipped_cfg path t) tbl" using served_all [of path t] by (auto simp: list_all_iff)
  with x(2) show ?thesis by (auto simp: served_def list_all_iff simp del: append_Cons)
qed

lemma monitor_served:
  "list_all (\<lambda>a. route (shipped_cfg path t) (''/agent'' @ GetUnFreezeUrl a) REST_URL_METHOD_PUT \<noteq> None \<and>
     route (shipped_cfg path t) (''/agent'' @ GetQueryStatusUrl a) REST_URL_METHOD_GET \<noteq> None) linux_types"
proof (rule list.pred_mono_strong [OF monitor_actions], elim conjE, intro conjI)
  fix a
  assume "list_ex (list_ex (\<lambda>(u, m, a'). u = GetUnFreezeUrl a \<and> m = REST_URL_METHOD_PUT)) (map snd plugin_tables)"
  then show "route (shipped_cfg path t) (''/agent'' @ GetUnFreezeUrl a) REST_URL_METHOD_PUT \<noteq> None"
    by (rule served_some)
next
  fix a
  assume "list_ex (list_ex (\<lambda>(u, m, a'). u = GetQueryStatusUrl a \<and> m = REST_URL_METHOD_GET)) (map snd plugin_tables)"
  then show "route (shipped_cfg path t) (''/agent'' @ GetQueryStatusUrl a) REST_URL_METHOD_GET \<noteq> None"
    by (rule served_some)
qed

end
