(* ===== verification/DemoAgent.thy ===== *)
theory DemoAgent
  imports Demo AgentSafe PluginRoutes
begin

text \<open>
  Concrete inputs for the theorems on the plugins, the workers and the whole agent: libraries that
  hold the plugins of the repository, a pool that starts, and an agent that has just started.
\<close>

section \<open>Libraries and a pool\<close>

definition demo_lib :: lib_env where
  "demo_lib = \<lparr>le_fs = (\<lambda>f. f = ''/opt/lib/libhost-V200R001C00SPC100.so''), le_open = (\<lambda>f. Some 1),
     le_query = (\<lambda>h. Some (CServicePlugin HostPlugin_actions))\<rparr>"

lemma demo_lib_ok: "service_env demo_lib"
  by (simp add: service_env_def demo_lib_def CServicePlugin_def)

definition demo_pool_env :: pool_env where
  "demo_pool_env = \<lparr>pe_new = (\<lambda>_ _. True), pe_thread = (\<lambda>_ _. MP_SUCCESS),
     pe_files = shipped_files (GetConfFilePath ''/opt'' ''pluginmgr.xml'') 1, pe_root = ''/opt''\<rparr>"

section \<open>An agent that has just started\<close>

definition demo_start :: "(dj, row list) ft_world" where
  "demo_start = demo_world\<lparr>w_comm := \<lparr>m_ReqHandlerTable = [\<lparr>pFcgxReq = Some 3, isUsed = False\<rparr>],
     m_reqMsgQueue = [], m_rspMsgQueue = []\<rparr>\<rparr>"

lemma demo_start_ok: "monitors_ok demo_start"
proof -
  have "monitors_ok (demo_world\<lparr>w_comm := \<lparr>m_ReqHandlerTable = [\<lparr>pFcgxReq = Some 3, isUsed = False\<rparr>],
     m_reqMsgQueue = [], m_rspMsgQueue = []\<rparr>\<rparr>) = monitors_ok demo_world"
    by (rule monitors_ok_comm) (simp add: demo_world_def)
  then show ?thesis using demo_world_ok by (simp add: demo_start_def)
qed

definition demo_agent :: "(dj, row list) agent" where
  "demo_agent = \<lparr>ag_world = demo_start, ag_auth = \<lparr>m_strUsr = [], m_strPwd = [], m_lockedIPList = []\<rparr>,
     ag_cfg = empty_cfg, ag_mgr = new_mgr \<lparr>m_paths = [''/opt/lib''], m_strPath = ''/opt/lib''\<rparr>,
     ag_disp = \<lparr>m_iWorkerCount = 2, m_lastPushedWorker = 0, m_hasWorkers = True\<rparr>,
     ag_workers = [CTaskWorker, CTaskWorker], ag_rx = RxIdle, ag_tx = TxIdle, ag_dp = None,
     ag_accepted = {#}, ag_answered = {#}\<rparr>"

lemma demo_agent_ok: "agent_ok demo_agent"
  by (simp add: agent_ok_def demo_agent_def demo_start_ok)
    (simp add: table_ok_def used_def held_handlers_def pending_def flight_def all_msgs_def rx_pending_def tx_pending_def
      rx_ok_def disp_ok_def demo_start_def CTaskWorker_def w_msgs_def)

text \<open>A stream of bytes, and the environment of the agent.\<close>

definition stream_get :: "string get_str" where
  "stream_get st n = (drop n st, Some (take n st))"

lemma stream_get_ok: "stream_of stream_get (\<lambda>s. s)" "bounded_reads stream_get"
  by (simp_all add: stream_of_def bounded_reads_def stream_get_def)

definition demo_send :: "dj send_env" where
  "demo_send = \<lparr>se_write = (\<lambda>b. ''{}''), se_write_code = (\<lambda>c. ''{}''), se_json = dj_api, se_file = (\<lambda>f. None)\<rparr>"

definition demo_agent_env :: "(dj, row list, string \<times> sql_value list, string) agent_env" where
  "demo_agent_env = \<lparr>ae_ft = demo_env, ae_lib = demo_lib,
     ae_crypt = \<lparr>GetSha256Hash = (\<lambda>x. Some x), PBKDF2Hash = (\<lambda>p s. Some p)\<rparr>,
     ae_config = [], ae_get = stream_get, ae_container = (\<lambda>j. True), ae_send = demo_send\<rparr>"

definition demo_arrival :: "string arrival" where
  "demo_arrival = \<lparr>ar_accept = 0, ar_nullenv = False, ar_envp = [''REQUEST_URI=/agent/host''], ar_stream = [], ar_garbage = [], ar_t1 = 5,
     ar_t2 = 5, ar_newreq = True, ar_newrsp = True, ar_news = [], ar_puts = 0\<rparr>"

definition demo_events :: "(dj, string) event list" where
  "demo_events = [RxGet, RxAccept demo_arrival, MonitorPass, DpPop, DpPush (\<lambda>_ _. False),
     Wk 0 (\<lambda>_ m. (m, MP_SUCCESS)), TxPop, TxSend 0, TxRelease]"

lemma demo_events_keep: "list_all event_keeps demo_events"
  by (simp add: demo_events_def keeps_request_def)

end
