(* ===== verification/Strings.thy ===== *)
theory Strings
  imports Db
begin

text \<open>
  Strings: \<^verbatim>\<open>CMpString\<close> (\<^verbatim>\<open>src/src/common/String.cpp\<close>, Linux part). A C string is the list of its bytes
  before the terminator; an operation in place returns the new bytes.
\<close>

section \<open>Trimming\<close>

abbreviation blank :: char where "blank \<equiv> CHR '' ''"

definition TrimLeft :: "string \<Rightarrow> string" where
  "TrimLeft str = dropWhile (\<lambda>c. c = blank) str"

text \<open>
  \<^verbatim>\<open>TrimRight\<close> goes over a word and the spaces after it until the end; the end of the last word is
  where it cuts.
\<close>

lemma trim_shorter:
  assumes "dropWhile (\<lambda>c. c = blank) (dropWhile (\<lambda>c. c \<noteq> blank) s) \<noteq> []"
  shows "length (dropWhile (\<lambda>c. c = blank) (dropWhile (\<lambda>c. c \<noteq> blank) s)) < length s"
proof (cases s)
  case (Cons c r)
  have "length (dropWhile (\<lambda>c. c = blank) (dropWhile (\<lambda>c. c \<noteq> blank) r)) \<le> length r"
    "length (dropWhile (\<lambda>c. c = blank) r) \<le> length r"
    by (meson length_dropWhile_le le_trans)+
  with Cons show ?thesis by (auto simp: le_imp_less_Suc)
qed (use assms in simp)

function TrimRight :: "string \<Rightarrow> string" where
  "TrimRight p1 =
     (let w = takeWhile (\<lambda>c. c \<noteq> blank) p1;
          p2 = dropWhile (\<lambda>c. c \<noteq> blank) p1;
          rest = dropWhile (\<lambda>c. c = blank) p2
      in if rest = [] then w else w @ takeWhile (\<lambda>c. c = blank) p2 @ TrimRight rest)"
  by pat_completeness auto
termination
  by (relation "measure length") (simp_all only: in_measure wf_measure, rule trim_shorter)

declare TrimRight.simps [simp del]

definition Trim :: "string \<Rightarrow> string" where
  "Trim str = TrimRight (TrimLeft str)"

definition TotallyTrimRight :: "string \<Rightarrow> string option" where
  "TotallyTrimRight str =
     (if str = [] then None
      else Some (rev (dropWhile (\<lambda>c. c = blank \<or> char_code c = 9 \<or> char_code c = 10 \<or> char_code c = 13) (rev str))))"

lemma dropWhile_rev_append:
  "rev (dropWhile P (rev (xs @ ys))) =
     (if \<forall>y\<in>set ys. P y then rev (dropWhile P (rev xs)) else xs @ rev (dropWhile P (rev ys)))"
  by (auto simp: dropWhile_append)

text \<open>Cutting at the end of the last word is dropping the spaces at the end.\<close>

lemma trim_word:
  assumes "\<forall>c\<in>set sp. c = blank" "blank \<notin> set w"
  shows "rev (dropWhile (\<lambda>c. c = blank) (rev (w @ sp))) = w"
proof -
  have "dropWhile (\<lambda>c. c = blank) (rev w) = rev w"
  proof (cases "rev w")
    case (Cons c r)
    then have "c \<in> set w" by (metis list.set_intros(1) set_rev)
    with assms(2) have "c \<noteq> blank" by blast
    with Cons show ?thesis by simp
  qed simp
  then show ?thesis by (simp only: dropWhile_rev_append if_P [OF assms(1)] rev_rev_ident)
qed

lemma trim_rest:
  assumes "r \<noteq> []" "hd r \<noteq> blank"
  shows "rev (dropWhile (\<lambda>c. c = blank) (rev ((w @ sp) @ r))) = (w @ sp) @ rev (dropWhile (\<lambda>c. c = blank) (rev r))"
proof -
  have "\<not> (\<forall>c\<in>set r. c = blank)" using assms by (metis hd_in_set)
  then show ?thesis by (simp only: dropWhile_rev_append if_False)
qed

lemma TrimRight_eq: "TrimRight s = rev (dropWhile (\<lambda>c. c = blank) (rev s))"
proof (induction s rule: TrimRight.induct)
  case (1 s)
  let ?w = "takeWhile (\<lambda>c. c \<noteq> blank) s"
  let ?p2 = "dropWhile (\<lambda>c. c \<noteq> blank) s"
  let ?sp = "takeWhile (\<lambda>c. c = blank) ?p2"
  let ?r = "dropWhile (\<lambda>c. c = blank) ?p2"
  have s: "(?w @ ?sp) @ ?r = s" by simp
  show ?case
  proof (cases "?r = []")
    case True
    have "rev (dropWhile (\<lambda>c. c = blank) (rev (?w @ ?sp))) = ?w"
      by (rule trim_word) (auto dest: set_takeWhileD)
    moreover have "?w @ ?sp = s" using s True by (metis append_Nil2)
    moreover have "TrimRight s = ?w" unfolding TrimRight.simps [of s] Let_def using True by (rule if_P)
    ultimately show ?thesis by simp
  next
    case False
    then have "hd ?r \<noteq> blank" by (rule hd_dropWhile)
    from trim_rest [OF False this, of ?w ?sp] s
    have "rev (dropWhile (\<lambda>c. c = blank) (rev s)) = (?w @ ?sp) @ rev (dropWhile (\<lambda>c. c = blank) (rev ?r))" by metis
    moreover have "TrimRight s = ?w @ ?sp @ TrimRight ?r" unfolding TrimRight.simps [of s] Let_def using False by (rule if_not_P)
    moreover have "TrimRight ?r = rev (dropWhile (\<lambda>c. c = blank) (rev ?r))"
      by (rule 1 [OF refl refl refl False])
    ultimately show ?thesis by (simp only: append_assoc)
  qed
qed

section \<open>Case, spaces and tokens\<close>

definition FormatLUNID :: "string \<Rightarrow> string" where
  "FormatLUNID s =
     (case dropWhile (\<lambda>c. c \<notin> set ''123456789'') s of [] \<Rightarrow> ''0'' | r \<Rightarrow> r)"

definition HasSpace :: "string \<Rightarrow> bool" where
  "HasSpace str \<longleftrightarrow> list_ex (\<lambda>c. c = blank) str"

definition ToUpper :: "string \<Rightarrow> string" where "ToUpper = map c_toupper"
definition ToLower :: "string \<Rightarrow> string" where "ToLower = map c_tolower"

text \<open>\<^verbatim>\<open>strtok\<close>: the maximal runs of characters that are no separators.\<close>

function StrToken :: "string \<Rightarrow> string \<Rightarrow> string list" where
  "StrToken seps s =
     (let t = dropWhile (\<lambda>c. c \<in> set seps) s
      in if t = [] then []
         else takeWhile (\<lambda>c. c \<notin> set seps) t # StrToken seps (dropWhile (\<lambda>c. c \<notin> set seps) t))"
  by pat_completeness auto
termination
proof (relation "measure (\<lambda>(seps, s). length s)", simp)
  fix seps s t
  assume t: "t = dropWhile (\<lambda>c. c \<in> set seps) s" "(t :: string) \<noteq> []"
  then have "hd t \<notin> set seps" by (metis hd_dropWhile)
  with t(2) have "length (dropWhile (\<lambda>c. c \<notin> set seps) t) < length t"
    by (cases t) (auto simp: le_imp_less_Suc length_dropWhile_le)
  also have "\<dots> \<le> length s" using t(1) by (simp add: length_dropWhile_le)
  finally show "((seps, dropWhile (\<lambda>c. c \<notin> set seps) t), seps, s) \<in> measure (\<lambda>(seps, s). length s)" by simp
qed

declare StrToken.simps [simp del]

text \<open>\<^verbatim>\<open>StrSplit\<close>: find the next separator from \<open>start\<close>; the last part is what is left.\<close>

function StrSplit :: "char \<Rightarrow> string \<Rightarrow> string list" where
  "StrSplit cSep strText =
     (case str_find [cSep] strText of
        None \<Rightarrow> [strText]
      | Some p \<Rightarrow> take p strText # StrSplit cSep (drop (p + 1) strText))"
  by pat_completeness auto
termination
  by (relation "measure (\<lambda>(c, s). length s)") (auto dest: str_find_bound)

declare StrSplit.simps [simp del]

definition BlankComma :: "string \<Rightarrow> string" where
  "BlankComma strPath =
     (if str_find '' '' strPath \<noteq> None \<and> hd strPath \<noteq> CHR 0x22 then [CHR 0x22] @ strPath @ [CHR 0x22] else strPath)"

fun join_sep :: "char \<Rightarrow> string list \<Rightarrow> string" where
  "join_sep c [] = []"
| "join_sep c [p] = p"
| "join_sep c (p # q # ps) = p @ c # join_sep c (q # ps)"

lemma str_find_singleton:
  "str_find [c] s = (if c \<in> set s then Some (length (takeWhile (\<lambda>d. d \<noteq> c) s)) else None)"
  by (induction s) auto

lemma StrSplit_part: "c \<notin> set p \<Longrightarrow> StrSplit c p = [p]"
  by (subst StrSplit.simps) (simp add: str_find_char [THEN iffD2])

lemma StrSplit_append: "c \<notin> set p \<Longrightarrow> StrSplit c (p @ c # s) = p # StrSplit c s"
  by (subst StrSplit.simps) (simp add: str_find_char_append)

lemma StrSplit_join:
  "ps \<noteq> [] \<Longrightarrow> (\<And>p. p \<in> set ps \<Longrightarrow> c \<notin> set p) \<Longrightarrow> StrSplit c (join_sep c ps) = ps"
  by (induction c ps rule: join_sep.induct) (auto simp: StrSplit_part StrSplit_append)

lemma join_StrSplit: "StrSplit c s \<noteq> [] \<and> join_sep c (StrSplit c s) = s"
proof (induction c s rule: StrSplit.induct)
  case (1 c s)
  show ?case
  proof (cases "str_find [c] s")
    case None
    then show ?thesis by (subst (1 2) StrSplit.simps) simp
  next
    case (Some p)
    from str_find_Some [OF Some] str_find_bound [OF Some] have "s = take p s @ c # drop (p + 1) s"
      by (metis Cons_nth_drop_Suc One_nat_def Suc_eq_plus1 Suc_le_lessD append_take_drop_id length_Cons list.size(3) nth_via_drop
          take_Suc_Cons take0 hd_drop_conv_nth list.inject)
    then show ?thesis using 1 [OF Some] Some
      by (subst (1 2) StrSplit.simps) (cases "StrSplit c (drop (p + 1) s)"; auto)
  qed
qed

end
