(* ===== verification/Utils.thy ===== *)
theory Utils
  imports Strings
begin

text \<open>
  Checks on what a client sends: \<^verbatim>\<open>CIPCheck\<close> (\<^verbatim>\<open>src/src/common/Ip.cpp\<close>), the parameter checks and
  \<^verbatim>\<open>CheckCmdDelimiter\<close> of \<^verbatim>\<open>src/src/common/Utils.cpp\<close> (Linux part), the names for the log, and
  \<^verbatim>\<open>CUniqueID\<close> (\<^verbatim>\<open>src/src/common/UniqueId.cpp\<close>).
\<close>

section \<open>IP addresses\<close>

function SplitIPV4 :: "string \<Rightarrow> string list" where
  "SplitIPV4 strIp =
     (case str_find ''.'' strIp of
        None \<Rightarrow> [strIp]
      | Some pos \<Rightarrow> take pos strIp # SplitIPV4 (drop (pos + 1) strIp))"
  by pat_completeness auto
termination
  by (relation "measure length") (auto dest: str_find_bound)

declare SplitIPV4.simps [simp del]

definition IsNumber :: "string \<Rightarrow> bool" where
  "IsNumber str =
     (if length str = 0 then False
      else if length str > 1 \<and> hd str = CHR ''0'' then False
      else list_all c_isdigit str)"

text \<open>The loop over the parts, with the numbers of zeros and of 255s seen.\<close>

fun ipv4_loop :: "string list \<Rightarrow> nat \<Rightarrow> nat \<Rightarrow> (nat \<times> nat) option" where
  "ipv4_loop [] i0 i255 = Some (i0, i255)"
| "ipv4_loop (s # ss) i0 i255 =
     (if \<not> IsNumber (c_str s) then None
      else let iValue = atoi (c_str s) in
           if iValue < 0 \<or> iValue > 255 then None
           else ipv4_loop ss (if iValue = 0 then i0 + 1 else i0) (if iValue = 255 then i255 + 1 else i255))"

definition IsIPV4 :: "string \<Rightarrow> bool" where
  "IsIPV4 strIpAddr =
     (let vecOut = SplitIPV4 strIpAddr in
      if length vecOut \<noteq> 4 then False
      else case ipv4_loop vecOut 0 0 of
             None \<Rightarrow> False
           | Some (i0, i255) \<Rightarrow> \<not> (i0 = 4 \<or> i255 = 4))"

text \<open>\<^verbatim>\<open>sscanf\<close> with four integers and dots between them: a part is read as \<^verbatim>\<open>strtol\<close> reads it and cut to 32 bits.\<close>

definition scan_int :: "string \<Rightarrow> (int \<times> string) option" where
  "scan_int s =
     (let t = dropWhile c_isspace s;
          d = (case t of c # r \<Rightarrow> if c = CHR ''-'' \<or> c = CHR ''+'' then r else t | [] \<Rightarrow> t)
      in if takeWhile c_isdigit d = [] then None else Some (atoi t, dropWhile c_isdigit d))"

fun scan_dots :: "nat \<Rightarrow> string \<Rightarrow> int list" where
  "scan_dots 0 s = []"
| "scan_dots (Suc n) s =
     (case scan_int s of
        None \<Rightarrow> []
      | Some (v, r) \<Rightarrow> v # (case r of c # r' \<Rightarrow> if c = CHR ''.'' then scan_dots n r' else [] | [] \<Rightarrow> []))"

definition CheckParamStringIsIP :: "string \<Rightarrow> int" where
  "CheckParamStringIsIP paramValue =
     (case scan_dots 4 (c_str paramValue) of
        [a, b, c, d] \<Rightarrow>
          if (1 \<le> a \<and> a \<le> 233) \<and> (0 \<le> b \<and> b \<le> 255) \<and> (0 \<le> c \<and> c \<le> 255) \<and> (0 \<le> d \<and> d \<le> 255) then MP_SUCCESS
          else MP_FAILED
      | _ \<Rightarrow> MP_FAILED)"

section \<open>Commands\<close>

definition CheckCmdDelimiter :: "string \<Rightarrow> bool" where
  "CheckCmdDelimiter str =
     (if str_find '';'' str \<noteq> None then False
      else if str_find ''||'' str \<noteq> None then False
      else if str_find ''&'' str \<noteq> None then False
      else if str_find ''&&'' str \<noteq> None then False
      else True)"

text \<open>
  \<^verbatim>\<open>BaseFileName\<close> looks for a slash from the end down to the second character; a slash that is the
  first character is not found.
\<close>

fun base_loop :: "string \<Rightarrow> nat \<Rightarrow> string" where
  "base_loop s 0 = s"
| "base_loop s (Suc len) = (if Suc len < length s \<and> s ! Suc len = CHR ''/'' then drop (Suc len + 1) s else base_loop s len)"

definition BaseFileName :: "string \<Rightarrow> string" where
  "BaseFileName s = base_loop s (length s)"

definition RemoveFullPathForLog :: "string \<Rightarrow> string" where
  "RemoveFullPathForLog strCmd =
     (case StrSplit blank strCmd of
        [] \<Rightarrow> strCmd
      | p # ps \<Rightarrow> foldl (\<lambda>acc q. acc @ '' '' @ q) (BaseFileName (c_str p)) ps)"

section \<open>Parameter checks\<close>

text \<open>A length is compared with a bound after the bound is converted to an unsigned 64-bit integer.\<close>

definition to_size :: "int \<Rightarrow> nat" where
  "to_size i = unat (word_of_int i :: u64)"

definition CheckParamString :: "string \<Rightarrow> int \<Rightarrow> int \<Rightarrow> string \<Rightarrow> string \<Rightarrow> int" where
  "CheckParamString paramValue lenBeg lenEnd strInclude strExclude =
     (if \<not> (lenBeg = -1 \<and> lenEnd = -1) \<and> (length paramValue < to_size lenBeg \<or> length paramValue > to_size lenEnd)
      then MP_FAILED
      else if list_ex (\<lambda>c. c \<in> set strExclude \<or> strInclude \<noteq> [] \<and> c \<notin> set strInclude) paramValue then MP_FAILED
      else MP_SUCCESS)"

definition first_of :: "string \<Rightarrow> string \<Rightarrow> nat option" where
  "first_of cs s = find_index (\<lambda>c. c \<in> set cs) s"

definition CheckParamString_pre :: "string \<Rightarrow> int \<Rightarrow> int \<Rightarrow> string \<Rightarrow> int" where
  "CheckParamString_pre paramValue lenBeg lenEnd strPre =
     (if length paramValue < to_size lenBeg \<or> length paramValue > to_size lenEnd then MP_FAILED
      else if first_of strPre paramValue \<noteq> Some 0 then MP_FAILED
      else MP_SUCCESS)"

text \<open>
  \<^verbatim>\<open>rfind\<close> gives the last position or the largest \<^verbatim>\<open>size_t\<close>, and the difference of the lengths is taken
  in \<^verbatim>\<open>size_t\<close>.
\<close>

definition str_rfind :: "string \<Rightarrow> string \<Rightarrow> u64" where
  "str_rfind pat s = (case str_find (rev pat) (rev s) of
     None \<Rightarrow> - 1
   | Some i \<Rightarrow> of_nat (length s - length pat - i))"

definition CheckParamStringEnd :: "string \<Rightarrow> int \<Rightarrow> int \<Rightarrow> string \<Rightarrow> int" where
  "CheckParamStringEnd paramValue lenBeg lenEnd strEnd =
     (if length paramValue < to_size lenBeg \<or> length paramValue > to_size lenEnd then MP_FAILED
      else if str_rfind strEnd paramValue \<noteq> of_nat (length paramValue) - of_nat (length strEnd) then MP_FAILED
      else MP_SUCCESS)"

definition CheckParamInteger32 :: "int \<Rightarrow> int \<Rightarrow> int \<Rightarrow> int list \<Rightarrow> int" where
  "CheckParamInteger32 paramValue begValue endValue vecExclude =
     (if begValue \<noteq> -1 \<and> paramValue < begValue then MP_FAILED
      else if endValue \<noteq> -1 \<and> paramValue > endValue then MP_FAILED
      else if list_ex (\<lambda>v. paramValue = v) vecExclude then MP_FAILED
      else MP_SUCCESS)"

definition CheckParamInteger64 :: "int \<Rightarrow> int \<Rightarrow> int \<Rightarrow> int list \<Rightarrow> int" where
  "CheckParamInteger64 paramValue begValue endValue vecExclude =
     (if begValue \<noteq> -1 \<and> paramValue < begValue then MP_FAILED
      else if endValue \<noteq> -1 \<and> paramValue > endValue then MP_FAILED
      else if list_ex (\<lambda>v. paramValue = v) vecExclude then MP_FAILED
      else MP_SUCCESS)"

abbreviation PATH_MAX :: nat where "PATH_MAX \<equiv> 4096"

definition CheckPathString :: "string \<Rightarrow> int" where
  "CheckPathString pathValue = (if length pathValue \<ge> PATH_MAX then MP_FAILED else MP_SUCCESS)"

text \<open>The file name after the last slash, \<^const>\<open>None\<close> when there is no slash.\<close>

definition after_last_slash :: "string \<Rightarrow> string option" where
  "after_last_slash s =
     (if CHR ''/'' \<in> set s then Some (rev (takeWhile (\<lambda>c. c \<noteq> CHR ''/'') (rev s))) else None)"

definition CheckPathString_pre :: "string \<Rightarrow> string \<Rightarrow> int" where
  "CheckPathString_pre pathValue strPre =
     (if length pathValue \<ge> PATH_MAX then MP_FAILED
      else if first_of strPre pathValue \<noteq> Some 0 then MP_FAILED
      else case after_last_slash pathValue of
             None \<Rightarrow> MP_FAILED
           | Some strFileName \<Rightarrow>
               (let iRet = CheckParamString strFileName 1 254 [] []
                in if iRet \<noteq> MP_SUCCESS then iRet else MP_SUCCESS))"

definition check_file_name :: "string \<Rightarrow> bool \<Rightarrow> int" where
  "check_file_name s allow_empty =
     (case after_last_slash s of
        None \<Rightarrow> MP_FAILED
      | Some strFileName \<Rightarrow>
          if allow_empty \<and> strFileName = [] then MP_SUCCESS else CheckParamString strFileName 1 254 [] [])"

definition CheckFileSysMountParam :: "string \<Rightarrow> int \<Rightarrow> string \<Rightarrow> int" where
  "CheckFileSysMountParam strDeviceName volumeType strMountPoint =
     (let iRet = CheckParamString_pre strDeviceName 1 (int PATH_MAX - 1) [CHR ''/'', CHR 0x5C] in
      if iRet \<noteq> MP_SUCCESS then iRet
      else let iRet = check_file_name strDeviceName False in
      if iRet \<noteq> MP_SUCCESS then iRet
      else let iRet = CheckParamInteger32 volumeType 0 4 [] in
      if iRet \<noteq> MP_SUCCESS then iRet
      else let iRet = CheckParamString_pre strMountPoint 1 (int PATH_MAX - 1) ''/'' in
      if iRet \<noteq> MP_SUCCESS then iRet
      else check_file_name strMountPoint True)"

definition CheckFileSysFreezeParam :: "string \<Rightarrow> int" where
  "CheckFileSysFreezeParam strDiskNames =
     (let iRet = CheckParamString_pre strDiskNames 1 (int PATH_MAX - 1) ''/''
      in if iRet \<noteq> MP_SUCCESS then iRet else check_file_name strDiskNames False)"

section \<open>Unique numbers\<close>

abbreviation MAX_UNIQUE_ID :: int where "MAX_UNIQUE_ID \<equiv> 1000000"

definition UniqueID_GetString :: "int \<Rightarrow> int \<times> string" where
  "UniqueID_GetString m_iUniqueID = ((m_iUniqueID + 1) mod MAX_UNIQUE_ID, IntToString m_iUniqueID)"

definition UniqueID_GetInt :: "int \<Rightarrow> int \<times> int" where
  "UniqueID_GetInt m_iUniqueID = ((m_iUniqueID + 1) mod MAX_UNIQUE_ID, m_iUniqueID)"

section \<open>What the checks mean\<close>

lemma digits_value_bound: "digits_value v s < (v + 1) * 10 ^ length s"
proof (induction s arbitrary: v)
  case Nil
  then show ?case by simp
next
  case (Cons c s)
  show ?case
  proof (cases "c_isdigit c")
    case True
    then have "char_code c - 48 \<le> 9" by (auto simp: c_isdigit_def)
    then have "10 * v + (char_code c - 48) + 1 \<le> 10 * (v + 1)" by simp
    then have "(10 * v + (char_code c - 48) + 1) * 10 ^ length s \<le> 10 * (v + 1) * 10 ^ length s" by (rule mult_right_mono) simp
    with Cons [of "10 * v + (char_code c - 48)"] True show ?thesis by (simp add: algebra_simps)
  next
    case False
    have "(v + 1) * 1 \<le> (v + 1) * 10 ^ Suc (length s)" by (rule mult_left_mono) simp_all
    with False show ?thesis by simp
  qed
qed

lemma atoi_number:
  assumes "list_all c_isdigit s" "s \<noteq> []" "length s \<le> 9"
  shows "atoi s = int (digits_value 0 s)"
proof -
  obtain c r where s: "s = c # r" and c: "c_isdigit c" using assms(1,2) by (cases s) auto
  have "digits_value 0 s < 10 ^ length s" using digits_value_bound [of 0 s] by simp
  also have "\<dots> \<le> (10 :: nat) ^ 9" using assms(3) by (intro power_increasing) simp_all
  finally have v: "int (digits_value 0 s) < 10 ^ 9" by simp
  have "dropWhile c_isspace s = s" using s digit_not_space [OF c] by simp
  then have "atol s = max LONG_MIN (min LONG_MAX (int (digits_value 0 s)))"
    using s digit_not_space [OF c] by (simp add: atol_def Let_def)
  also have "\<dots> = int (digits_value 0 s)" using v by (simp add: LONG_MIN_def LONG_MAX_def)
  finally have "atol s = int (digits_value 0 s)" .
  moreover have "sint (word_of_int (int (digits_value 0 s)) :: 32 word) = int (digits_value 0 s)"
    using v by (simp add: sint_sbintrunc' signed_take_bit_int_eq_self del: of_int_of_nat_eq)
  ultimately show ?thesis by (simp add: atoi_def del: of_int_of_nat_eq)
qed

lemma ipv4_loop_eq:
  assumes "\<And>p. p \<in> set ss \<Longrightarrow> length p \<le> 9 \<and> NUL \<notin> set p"
  shows "ipv4_loop ss i0 i255 =
    (if list_all (\<lambda>p. IsNumber p \<and> digits_value 0 p \<le> 255) ss
     then Some (i0 + length (filter (\<lambda>p. digits_value 0 p = 0) ss), i255 + length (filter (\<lambda>p. digits_value 0 p = 255) ss))
     else None)"
  using assms
proof (induction ss arbitrary: i0 i255)
  case Nil
  then show ?case by simp
next
  case (Cons p ss)
  then have "c_str p = p" by (simp add: c_str_id)
  moreover have "IsNumber p \<Longrightarrow> atoi p = int (digits_value 0 p)"
    by (rule atoi_number) (use Cons.prems in \<open>auto simp: IsNumber_def split: if_splits\<close>)
  ultimately show ?case using Cons by (auto simp: Let_def)
qed

lemma length_filter_all: "length (filter P xs) = length xs \<longleftrightarrow> \<not> list_ex (\<lambda>p. \<not> P p) xs"
proof (induction xs)
  case Nil
  then show ?case by simp
next
  case (Cons x xs)
  show ?case using Cons length_filter_le [of P xs] by (cases "P x") (simp_all add: le_imp_less_Suc less_imp_neq)
qed

lemma IsIPV4_iff:
  assumes "\<And>p. p \<in> set (SplitIPV4 s) \<Longrightarrow> length p \<le> 9 \<and> NUL \<notin> set p"
  shows "IsIPV4 s \<longleftrightarrow> length (SplitIPV4 s) = 4 \<and> list_all (\<lambda>p. IsNumber p \<and> digits_value 0 p \<le> 255) (SplitIPV4 s) \<and>
    list_ex (\<lambda>p. digits_value 0 p \<noteq> 0) (SplitIPV4 s) \<and> list_ex (\<lambda>p. digits_value 0 p \<noteq> 255) (SplitIPV4 s)"
proof -
  show ?thesis
    using ipv4_loop_eq [of "SplitIPV4 s" 0 0, OF assms] length_filter_all [where P = "\<lambda>p. digits_value 0 p = 0" and xs = "SplitIPV4 s"]
      length_filter_all [where P = "\<lambda>p. digits_value 0 p = 255" and xs = "SplitIPV4 s"]
    by (auto simp: IsIPV4_def Let_def)
qed

lemma SplitIPV4_eq: "SplitIPV4 s = StrSplit CHR ''.'' s"
  by (induction s rule: SplitIPV4.induct) (subst SplitIPV4.simps, subst StrSplit.simps, simp split: option.split)

lemma CheckCmdDelimiter_iff:
  "CheckCmdDelimiter str \<longleftrightarrow> CHR '';'' \<notin> set str \<and> CHR ''&'' \<notin> set str \<and> str_find ''||'' str = None"
proof -
  have "str_find ''&'' str = None \<Longrightarrow> str_find ''&&'' str = None"
    by (induction str) (auto split: if_splits)
  then show ?thesis by (auto simp: CheckCmdDelimiter_def str_find_char)
qed

lemma str_find_None_char: "ch \<in> set pat \<Longrightarrow> ch \<notin> set s \<Longrightarrow> str_find pat s = None"
  using str_find_Some [of pat s] by (cases "str_find pat s") (auto dest!: arg_cong [where f = set] in_set_takeD in_set_dropD)

lemma show_nat_length: "n < 10 ^ Suc k \<Longrightarrow> length (show_nat n) \<le> Suc k"
proof (induction k arbitrary: n)
  case 0
  then show ?case by (subst show_nat.simps) simp
next
  case (Suc k)
  then have "n div 10 < 10 ^ Suc k" by simp
  with Suc.IH [OF this] show ?case by (subst show_nat.simps) simp
qed

lemma to_size_nat: "0 \<le> i \<Longrightarrow> i < 2 ^ 31 \<Longrightarrow> to_size i = nat i"
  by (simp add: to_size_def unat_eq_nat_uint uint_word_of_int_eq take_bit_int_eq_self)

lemma CheckParamString_iff:
  assumes "0 \<le> a" "a < 2 ^ 31" "0 \<le> b" "b < 2 ^ 31"
  shows "CheckParamString v a b inc exc = MP_SUCCESS \<longleftrightarrow>
    a \<le> int (length v) \<and> int (length v) \<le> b \<and> (\<forall>c\<in>set v. c \<notin> set exc \<and> (inc = [] \<or> c \<in> set inc))"
  using assms by (auto simp: CheckParamString_def to_size_nat list_ex_iff)

lemma base_loop_append:
  "CHR ''/'' \<notin> set b \<Longrightarrow> a \<noteq> [] \<Longrightarrow> n \<le> length b \<Longrightarrow> base_loop (a @ CHR ''/'' # b) (length a + n) = b"
proof (induction n)
  case 0
  then show ?case by (cases a) (auto simp: nth_append)
next
  case (Suc n)
  then have "(a @ CHR ''/'' # b) ! Suc (length a + n) = b ! n" by (simp add: nth_append)
  moreover have "n < length b" using Suc.prems by simp
  ultimately have "(a @ CHR ''/'' # b) ! Suc (length a + n) \<noteq> CHR ''/''" using Suc.prems(1) by (metis nth_mem)
  then show ?case using Suc by simp
qed

lemma BaseFileName_path: "CHR ''/'' \<notin> set b \<Longrightarrow> a \<noteq> [] \<Longrightarrow> BaseFileName (a @ CHR ''/'' # b) = b"
  using base_loop_append [of b a "length b"] by (simp add: BaseFileName_def)

lemma after_last_slash_append: "CHR ''/'' \<notin> set b \<Longrightarrow> after_last_slash (a @ CHR ''/'' # b) = Some b"
  by (simp add: after_last_slash_def takeWhile_append)

lemma unique_ids_distinct:
  assumes "0 \<le> i" "n \<le> 1000000"
  shows "distinct (map (\<lambda>k. ((fst \<circ> UniqueID_GetInt) ^^ k) (i mod MAX_UNIQUE_ID)) [0..<n])"
proof -
  have "((fst \<circ> UniqueID_GetInt) ^^ k) (i mod MAX_UNIQUE_ID) = (i + int k) mod MAX_UNIQUE_ID" for k
    by (induction k) (simp_all add: UniqueID_GetInt_def mod_simps ac_simps)
  moreover have "k = l" if "k < 1000000" "l < 1000000" "(i + int k) mod MAX_UNIQUE_ID = (i + int l) mod MAX_UNIQUE_ID" for k l
  proof -
    have "MAX_UNIQUE_ID dvd int k - int l" using that(3) by (simp add: mod_eq_dvd_iff)
    moreover have "\<bar>int k - int l\<bar> < MAX_UNIQUE_ID" using that(1,2) by simp
    ultimately show ?thesis using zdvd_imp_le [of MAX_UNIQUE_ID "\<bar>int k - int l\<bar>"] by fastforce
  qed
  ultimately show ?thesis using assms by (auto simp: distinct_map inj_on_def)
qed

text \<open>
  Inputs the checks let through: the difference of the lengths wraps to the largest \<^verbatim>\<open>size_t\<close>, the value
  \<^verbatim>\<open>rfind\<close> gives when it finds nothing; \<^verbatim>\<open>sscanf\<close> does not look at what follows the fourth number; a part of
  an address above the 32-bit range is cut to 32 bits.
\<close>

lemma CheckParamStringEnd_short:
  assumes "length e = Suc (length v)" "0 \<le> a" "a < 2 ^ 31" "a \<le> int (length v)" "int (length v) \<le> b" "b < 2 ^ 31"
  shows "CheckParamStringEnd v a b e = MP_SUCCESS"
proof -
  have "str_find (rev e) (rev v) = None"
    using str_find_bound [of "rev e" "rev v"] assms(1) by (cases "str_find (rev e) (rev v)") auto
  then have "str_rfind e v = - 1" by (simp add: str_rfind_def)
  moreover have "(of_nat (length v) - of_nat (length e) :: u64) = - 1" by (simp add: assms(1))
  moreover have "\<not> length v < to_size a" "\<not> to_size b < length v"
    using assms by (simp_all add: to_size_nat)
  ultimately show ?thesis unfolding CheckParamStringEnd_def by (simp only: if_False simp_thms)
qed

lemma IsIP_trailing: "CheckParamStringIsIP ''1.2.3.4;reboot'' = MP_SUCCESS"
  by code_simp

lemma atoi_wraps: "atoi ''4294967297'' = 1"
  by (simp add: atoi_def atol_def c_isspace_def c_isdigit_def char_code_def LONG_MIN_def LONG_MAX_def)

lemma IsIPV4_wraps: "IsIPV4 ''4294967297.0.0.1''"
proof -
  have "SplitIPV4 ''4294967297.0.0.1'' = [''4294967297'', ''0'', ''0'', ''1'']" by code_simp
  moreover have "atoi ''0'' = 0" "atoi ''1'' = 1" by code_simp+
  moreover have "IsNumber ''4294967297''" "IsNumber ''0''" "IsNumber ''1''" by code_simp+
  moreover have "c_str ''4294967297'' = ''4294967297''" "c_str ''0'' = ''0''" "c_str ''1'' = ''1''" by code_simp+
  ultimately show ?thesis by (simp add: IsIPV4_def atoi_wraps)
qed

end
