(* ===== verification/IpcFile.thy ===== *)
theory IpcFile
  imports Path Utils
begin

text \<open>
  The files of \<^verbatim>\<open>src/src/common/File.cpp\<close> (Linux part) by which the agent and its root process talk:
  \<^verbatim>\<open>CMpFile\<close> and \<^verbatim>\<open>CIPCFile\<close>. The file system is a map from paths to texts and owners; whether a call
  of the operating system succeeds is a parameter. Files are smaller than two gigabytes.
\<close>

section \<open>The file system\<close>

type_synonym owner = "int \<times> int"

record file_world =
  fw_text :: "string \<Rightarrow> string option"
  fw_owner :: "string \<Rightarrow> owner option"
  fw_mode :: "string \<Rightarrow> int option"

record file_env =
  fe_fopen_r :: "string \<Rightarrow> bool" \<comment> \<open>open for reading and seek to the end\<close>
  fe_buffer :: "string \<Rightarrow> bool" \<comment> \<open>seek to the start and allocate a buffer\<close>
  fe_fclose :: "string \<Rightarrow> bool"
  fe_stat :: "string \<Rightarrow> bool"
  fe_remove :: "string \<Rightarrow> bool"
  fe_fopen_a :: "string \<Rightarrow> bool"
  fe_fflush :: "string \<Rightarrow> string option" \<comment> \<open>what reached the file when it fails\<close>
  fe_chmod :: "string \<Rightarrow> bool"
  fe_chown :: "string \<Rightarrow> bool"
  fe_self :: owner
  fe_umask :: int
  fe_passwd :: "(string \<times> owner) list"

definition Mp_FileExist :: "file_world \<Rightarrow> string \<Rightarrow> bool" where
  "Mp_FileExist W p = (fw_text W p \<noteq> None)"

definition unlink :: "string \<Rightarrow> file_world \<Rightarrow> file_world" where
  "unlink p W = W\<lparr>fw_text := (fw_text W)(p := None), fw_owner := (fw_owner W)(p := None), fw_mode := (fw_mode W)(p := None)\<rparr>"

definition create :: "file_env \<Rightarrow> string \<Rightarrow> string \<Rightarrow> file_world \<Rightarrow> file_world" where
  "create E p t W =
     W\<lparr>fw_text := (fw_text W)(p := Some t), fw_owner := (fw_owner W)(p := Some (fe_self E)), fw_mode := (fw_mode W)(p := Some (fe_umask E))\<rparr>"

section \<open>Lines\<close>

text \<open>
  The lines that \<^verbatim>\<open>fgets\<close> reads with a buffer as long as the file, without their newline and cut at the
  first zero byte. For a line that starts with a zero byte the code also touches the byte before its
  buffer, which changes no line.
\<close>

function file_lines :: "string \<Rightarrow> string list" where
  "file_lines t =
     (if t = [] then []
      else c_str (takeWhile (\<lambda>c. c \<noteq> CHR 0x0A) t) # file_lines (drop 1 (dropWhile (\<lambda>c. c \<noteq> CHR 0x0A) t)))"
  by pat_completeness auto
termination
proof (relation "measure length")
  fix t :: string
  assume "t \<noteq> []"
  then show "(drop 1 (dropWhile (\<lambda>c. c \<noteq> CHR 0x0A) t), t) \<in> measure length"
    using length_dropWhile_le [of "\<lambda>c. c \<noteq> CHR 0x0A" t] by (cases t) auto
qed simp

declare file_lines.simps [simp del]

text \<open>What \<^verbatim>\<open>fprintf\<close> writes for a list of texts.\<close>

definition print_lines :: "string list \<Rightarrow> string" where
  "print_lines ls = concat (map (\<lambda>l. c_str l @ [CHR 0x0A]) ls)"

section \<open>Files\<close>

definition Mp_ReadFile :: "file_env \<Rightarrow> file_world \<Rightarrow> string \<Rightarrow> string list \<Rightarrow> string list \<times> int" where
  "Mp_ReadFile E W strFilePath vecOutput =
     (case fw_text W strFilePath of
        None \<Rightarrow> (vecOutput, MP_FAILED)
      | Some t \<Rightarrow>
          if \<not> fe_fopen_r E strFilePath then (vecOutput, MP_FAILED)
          else if t = [] then ([], if fe_fclose E strFilePath then MP_SUCCESS else MP_FAILED)
          else if \<not> fe_buffer E strFilePath then (vecOutput, MP_FAILED)
          else (vecOutput @ file_lines t, if fe_fclose E strFilePath then MP_SUCCESS else MP_FAILED))"

definition DelFile :: "file_env \<Rightarrow> string \<Rightarrow> file_world \<Rightarrow> file_world \<times> int" where
  "DelFile E p W =
     (if \<not> Mp_FileExist W p then (W, MP_SUCCESS)
      else if \<not> fe_remove E p then (W, MP_FAILED)
      else (unlink p W, MP_SUCCESS))"

definition Ipc_ReadFile :: "file_env \<Rightarrow> string \<Rightarrow> string list \<Rightarrow> file_world \<Rightarrow> file_world \<times> string list \<times> int" where
  "Ipc_ReadFile E strFilePath vecOutput W =
     (case Mp_ReadFile E W strFilePath vecOutput of
        (vecOutput, iRet) \<Rightarrow>
          if iRet \<noteq> MP_SUCCESS then (W, vecOutput, iRet)
          else if \<not> fe_remove E strFilePath then (W, vecOutput, MP_FAILED)
          else (unlink strFilePath W, vecOutput, MP_SUCCESS))"

definition write_close :: "file_env \<Rightarrow> string \<Rightarrow> string list \<Rightarrow> file_world \<Rightarrow> file_world \<times> int" where
  "write_close E p ls W =
     (case fe_fflush E p of
        Some t \<Rightarrow> (create E p t W, MP_FAILED)
      | None \<Rightarrow> (create E p (print_lines ls) W, if fe_fclose E p then MP_SUCCESS else MP_FAILED))"

definition Ipc_WriteFile :: "file_env \<Rightarrow> string \<Rightarrow> string list \<Rightarrow> file_world \<Rightarrow> file_world \<times> int" where
  "Ipc_WriteFile E strFilePath vecInput W =
     (if Mp_FileExist W strFilePath then
        (if \<not> fe_stat E strFilePath then (W, MP_FAILED)
         else if \<not> fe_remove E strFilePath then (W, MP_FAILED)
         else let mode = fw_mode W strFilePath; W = unlink strFilePath W
              in if \<not> fe_fopen_a E strFilePath then (W, MP_FAILED)
                 else case write_close E strFilePath vecInput W of
                        (W, iRet) \<Rightarrow>
                          if iRet \<noteq> MP_SUCCESS then (W, iRet)
                          else if \<not> fe_chmod E strFilePath then (fst (DelFile E strFilePath W), MP_FAILED)
                          else (W\<lparr>fw_mode := (fw_mode W)(strFilePath := mode)\<rparr>, MP_SUCCESS))
      else if \<not> fe_fopen_a E strFilePath then (W, MP_FAILED)
      else write_close E strFilePath vecInput W)"

section \<open>Parameters and results\<close>

abbreviation INPUT_TMP_FILE :: string where "INPUT_TMP_FILE \<equiv> ''input_tmp''"
abbreviation RESULT_TMP_FILE :: string where "RESULT_TMP_FILE \<equiv> ''result_tmp''"
abbreviation AGENT_RUNNING_USER :: string where "AGENT_RUNNING_USER \<equiv> ''rdadmin''"

text \<open>The first entry of the user with an identifier that is not -1.\<close>

definition GetUidByUserName :: "file_env \<Rightarrow> string \<Rightarrow> owner option" where
  "GetUidByUserName E strUserName =
     (case map_of (fe_passwd E) strUserName of
        None \<Rightarrow> None
      | Some (uid, gid) \<Rightarrow> if uid = -1 then None else Some (uid, gid))"

definition ChownFile :: "file_env \<Rightarrow> string \<Rightarrow> owner \<Rightarrow> file_world \<Rightarrow> file_world \<times> int" where
  "ChownFile E p own W =
     (if fe_chown E p then (W\<lparr>fw_owner := (fw_owner W)(p := Some own)\<rparr>, MP_SUCCESS) else (W, MP_FAILED))"

definition WriteInput :: "file_env \<Rightarrow> string \<Rightarrow> string \<Rightarrow> string \<Rightarrow> file_world \<Rightarrow> file_world \<times> int" where
  "WriteInput E root strUniqueID strInput = Ipc_WriteFile E (GetTmpFilePath root (INPUT_TMP_FILE @ strUniqueID)) [strInput]"

definition ReadInput :: "file_env \<Rightarrow> string \<Rightarrow> string \<Rightarrow> string \<Rightarrow> file_world \<Rightarrow> file_world \<times> string \<times> int" where
  "ReadInput E root strUniqueID strInput W =
     (case Ipc_ReadFile E (GetTmpFilePath root (INPUT_TMP_FILE @ strUniqueID)) [] W of
        (W, vecOutput, iRet) \<Rightarrow>
          if iRet \<noteq> MP_SUCCESS then (W, strInput, iRet)
          else case vecOutput of [l] \<Rightarrow> (W, l, MP_SUCCESS) | _ \<Rightarrow> (W, strInput, MP_FAILED))"

definition ChownResult :: "file_env \<Rightarrow> string \<Rightarrow> string \<Rightarrow> file_world \<Rightarrow> file_world \<times> int" where
  "ChownResult E root strUniqueID W =
     (let p = GetTmpFilePath root (RESULT_TMP_FILE @ strUniqueID)
      in if \<not> Mp_FileExist W p then (W, MP_SUCCESS)
         else case GetUidByUserName E AGENT_RUNNING_USER of
                None \<Rightarrow> (W, MP_FAILED)
              | Some own \<Rightarrow> ChownFile E p own W)"

definition WriteResult :: "file_env \<Rightarrow> string \<Rightarrow> string \<Rightarrow> string list \<Rightarrow> file_world \<Rightarrow> file_world \<times> int" where
  "WriteResult E root strUniqueID vecRlt W =
     (if vecRlt = [] then (W, MP_SUCCESS)
      else case Ipc_WriteFile E (GetTmpFilePath root (RESULT_TMP_FILE @ strUniqueID)) vecRlt W of
             (W, iRet) \<Rightarrow> if iRet \<noteq> MP_SUCCESS then (W, iRet) else (fst (ChownResult E root strUniqueID W), iRet))"

definition ReadResult :: "file_env \<Rightarrow> string \<Rightarrow> string \<Rightarrow> string list \<Rightarrow> file_world \<Rightarrow> file_world \<times> string list \<times> int" where
  "ReadResult E root strUniqueID vecRlt W =
     (let p = GetTmpFilePath root (RESULT_TMP_FILE @ strUniqueID)
      in if \<not> Mp_FileExist W p then (W, vecRlt, MP_SUCCESS) else Ipc_ReadFile E p vecRlt W)"

definition ReadOldResult :: "file_env \<Rightarrow> string \<Rightarrow> string \<Rightarrow> string list \<Rightarrow> file_world \<Rightarrow> file_world \<times> string list \<times> int" where
  "ReadOldResult E root strUniqueID vecRlt W =
     (let p = GetTmpFilePath root (''RST'' @ strUniqueID @ ''.txt'')
      in if \<not> Mp_FileExist W p then (W, vecRlt, MP_SUCCESS) else Ipc_ReadFile E p vecRlt W)"

section \<open>Round trips\<close>

lemma file_lines_Nil [simp]: "file_lines [] = []"
  by (subst file_lines.simps) simp

lemma file_lines_cons: "CHR 0x0A \<notin> set l \<Longrightarrow> file_lines (l @ CHR 0x0A # t) = c_str l # file_lines t"
  by (subst file_lines.simps) (simp add: takeWhile_append dropWhile_append dropWhile_eq_Nil_conv takeWhile_eq_all_conv)

text \<open>A list of texts without newlines and zero bytes is read back as it was written.\<close>

lemma file_lines_print:
  "(\<And>l. l \<in> set ls \<Longrightarrow> CHR 0x0A \<notin> set l \<and> NUL \<notin> set l) \<Longrightarrow> file_lines (print_lines ls) = ls"
proof (induction ls)
  case Nil
  then show ?case by (simp add: print_lines_def)
next
  case (Cons l ls)
  then have "c_str l = l" "CHR 0x0A \<notin> set l" by (simp_all add: c_str_id)
  with Cons show ?case by (simp add: print_lines_def file_lines_cons c_str_id)
qed


text \<open>A path on which every call succeeds.\<close>

definition path_ok :: "file_env \<Rightarrow> string \<Rightarrow> bool" where
  "path_ok E p \<longleftrightarrow> fe_fopen_r E p \<and> fe_buffer E p \<and> fe_fclose E p \<and> fe_stat E p \<and> fe_remove E p \<and>
     fe_fopen_a E p \<and> fe_fflush E p = None \<and> fe_chmod E p"

lemma fw_text_unlink [simp]: "fw_text (unlink p W) = (fw_text W)(p := None)"
  by (simp add: unlink_def)

lemma fw_text_create [simp]: "fw_text (create E p t W) = (fw_text W)(p := Some t)"
  by (simp add: create_def)

lemma fw_text_owner [simp]: "fw_text (W\<lparr>fw_owner := a\<rparr>) = fw_text W" "fw_text (W\<lparr>fw_mode := b\<rparr>) = fw_text W"
  by simp_all

lemma Ipc_WriteFile_ok:
  assumes "path_ok E p"
  shows "fw_text (fst (Ipc_WriteFile E p ls W)) = (fw_text W)(p := Some (print_lines ls)) \<and>
    snd (Ipc_WriteFile E p ls W) = MP_SUCCESS"
  using assms by (simp add: Ipc_WriteFile_def path_ok_def write_close_def Let_def)

lemma print_lines_not_Nil: "ls \<noteq> [] \<Longrightarrow> print_lines ls \<noteq> []"
  by (cases ls) (simp_all add: print_lines_def)

lemma Ipc_ReadFile_ok:
  assumes "path_ok E p" "fw_text W p = Some t" "t \<noteq> []"
  shows "Ipc_ReadFile E p v W = (unlink p W, v @ file_lines t, MP_SUCCESS)"
  using assms by (simp add: Ipc_ReadFile_def Mp_ReadFile_def path_ok_def)

text \<open>A line and its newline: one line when the text has none, several otherwise.\<close>

lemma file_lines_one:
  "file_lines (c_str s @ [CHR 0x0A]) = [l] \<longleftrightarrow> CHR 0x0A \<notin> set (c_str s) \<and> l = c_str s"
proof (cases "CHR 0x0A \<in> set (c_str s)")
  case True
  then obtain a b where ab: "c_str s = a @ CHR 0x0A # b" "CHR 0x0A \<notin> set a" by (meson split_list_first)
  have "file_lines (b @ [CHR 0x0A]) \<noteq> []" by (subst file_lines.simps) simp
  then show ?thesis using True ab file_lines_cons [OF ab(2), of "b @ [CHR 0x0A]"] by simp
next
  case False
  then show ?thesis using file_lines_cons [OF False, of "[]"] by (auto simp: c_str_def)
qed

lemma input_round_trip_raw:
  assumes "path_ok E p" "p = GetTmpFilePath root (INPUT_TMP_FILE @ u)" "path_ok E' p"
  shows "snd (ReadInput E' root u x (fst (WriteInput E root u s W))) =
      (if CHR 0x0A \<in> set (c_str s) then (x, MP_FAILED) else (c_str s, MP_SUCCESS)) \<and>
    \<not> Mp_FileExist (fst (ReadInput E' root u x (fst (WriteInput E root u s W)))) p"
proof -
  let ?W = "fst (WriteInput E root u s W)"
  have t: "fw_text ?W p = Some (c_str s @ [CHR 0x0A])"
    using Ipc_WriteFile_ok [OF assms(1), of "[s]" W] by (simp add: WriteInput_def assms(2) print_lines_def)
  have r: "Ipc_ReadFile E' p [] ?W = (unlink p ?W, file_lines (c_str s @ [CHR 0x0A]), MP_SUCCESS)"
    using Ipc_ReadFile_ok [OF assms(3) t, of "[]"] by simp
  show ?thesis
  proof (cases "file_lines (c_str s @ [CHR 0x0A])")
    case Nil
    then show ?thesis using file_lines.simps [of "c_str s @ [CHR 0x0A]"] by simp
  next
    case (Cons l ls)
    have "ls = [] \<longleftrightarrow> CHR 0x0A \<notin> set (c_str s)" "ls = [] \<Longrightarrow> l = c_str s"
      using Cons file_lines_one [of s l] file_lines_one [of s "c_str s"] by auto
    then show ?thesis using r Cons unfolding assms(2)
      by (cases ls) (simp_all add: ReadInput_def Mp_FileExist_def)
  qed
qed

lemma result_round_trip_raw:
  assumes "path_ok E p" "p = GetTmpFilePath root (RESULT_TMP_FILE @ u)" "path_ok E' p" "ls \<noteq> []"
    and "\<And>l. l \<in> set ls \<Longrightarrow> CHR 0x0A \<notin> set l \<and> NUL \<notin> set l"
  shows "snd (ReadResult E' root u v (fst (WriteResult E root u ls W))) = (v @ ls, MP_SUCCESS)"
proof -
  let ?W = "fst (WriteResult E root u ls W)"
  obtain W1 where W1: "Ipc_WriteFile E p ls W = (W1, MP_SUCCESS)" "fw_text W1 p = Some (print_lines ls)"
    using Ipc_WriteFile_ok [OF assms(1), of ls W] by (cases "Ipc_WriteFile E p ls W") auto
  have "fw_text (fst (ChownResult E root u W1)) = fw_text W1"
    by (simp add: ChownResult_def ChownFile_def Let_def split: option.split)
  then have t: "fw_text ?W p = Some (print_lines ls)" using W1 assms(2,4) by (simp add: WriteResult_def)
  show ?thesis
    using t Ipc_ReadFile_ok [OF assms(3) t print_lines_not_Nil [OF assms(4)], of v] file_lines_print [OF assms(5)]
    unfolding assms(2) by (simp add: ReadResult_def Let_def Mp_FileExist_def)
qed

end
