(* ===== verification/ErrorCode.thy ===== *)
theory ErrorCode
  imports Prelude
begin

text \<open>
  The error codes of \<^verbatim>\<open>src/inc/common/ErrorCode.h\<close> that the other theories do not name already, and
  \<^verbatim>\<open>CErrorCodeMap\<close>, which turns the exit status of a script (0 to 255) into the code that is sent to the
  client.
\<close>

section \<open>Codes\<close>

abbreviation ERROR_INNER_THAW_NOT_MATCH :: int where "ERROR_INNER_THAW_NOT_MATCH \<equiv> 0x70000001"
abbreviation ERROR_COMMON_SCRIPT_SIGN_CHECK_FAILED :: int where "ERROR_COMMON_SCRIPT_SIGN_CHECK_FAILED \<equiv> 0x4003291B"
abbreviation ERROR_COMMON_RECOVER_INSTANCE_NOSTART :: int where "ERROR_COMMON_RECOVER_INSTANCE_NOSTART \<equiv> 0x4003291C"
abbreviation ERROR_COMMON_DB_INSUFFICIENT_PERMISSION :: int where "ERROR_COMMON_DB_INSUFFICIENT_PERMISSION \<equiv> 0x4003291E"
abbreviation ERROR_COMMON_SYSTEM_CALL_FAILED :: int where "ERROR_COMMON_SYSTEM_CALL_FAILED \<equiv> 0x40032925"
abbreviation ERROR_COMMON_SCRIPT_EXEC_FAILED :: int where "ERROR_COMMON_SCRIPT_EXEC_FAILED \<equiv> 0x40032928"
abbreviation ERROR_COMMON_NOT_HUAWEI_LUN :: int where "ERROR_COMMON_NOT_HUAWEI_LUN \<equiv> 0x4003292B"
abbreviation ERROR_COMMON_QUERY_APP_LUN_FAILED :: int where "ERROR_COMMON_QUERY_APP_LUN_FAILED \<equiv> 0x4003292F"
abbreviation ERROR_COMMON_DEVICE_NOT_EXIST :: int where "ERROR_COMMON_DEVICE_NOT_EXIST \<equiv> 0x40032931"
abbreviation ERROR_COMMON_APP_FREEZE_FAILED :: int where "ERROR_COMMON_APP_FREEZE_FAILED \<equiv> 0x40032932"
abbreviation ERROR_COMMON_APP_THAW_FAILED :: int where "ERROR_COMMON_APP_THAW_FAILED \<equiv> 0x40032933"
abbreviation ERROR_COMMON_APP_FREEZE_TIMEOUT :: int where "ERROR_COMMON_APP_FREEZE_TIMEOUT \<equiv> 0x40032934"
abbreviation ERROR_COMMON_NOSUPPORT_DBFILE_ON_BLOCKDEVICE :: int where "ERROR_COMMON_NOSUPPORT_DBFILE_ON_BLOCKDEVICE \<equiv> 0x40032935"
abbreviation ERROR_COMMON_DB_FILE_NOT_EXIST :: int where "ERROR_COMMON_DB_FILE_NOT_EXIST \<equiv> 0x40032937"
abbreviation ERROR_DISK_GET_RAW_DEVICE_NAME_FAILED :: int where "ERROR_DISK_GET_RAW_DEVICE_NAME_FAILED \<equiv> 0x40032954"
abbreviation ERROR_DISK_ONLINE_FAILED :: int where "ERROR_DISK_ONLINE_FAILED \<equiv> 0x40032956"
abbreviation ERROR_DISK_SCAN_FAILED :: int where "ERROR_DISK_SCAN_FAILED \<equiv> 0x40032957"
abbreviation ERROR_DISK_GET_PARTITION_INFO_FAILED :: int where "ERROR_DISK_GET_PARTITION_INFO_FAILED \<equiv> 0x40032958"
abbreviation ERROR_DISK_GET_DISK_INFO_FAILED :: int where "ERROR_DISK_GET_DISK_INFO_FAILED \<equiv> 0x40032959"
abbreviation ERROR_DISK_GET_VOLUME_PATH_FAILED :: int where "ERROR_DISK_GET_VOLUME_PATH_FAILED \<equiv> 0x4003295A"
abbreviation ERROR_HOST_VERIFY_SNMP_FAILED :: int where "ERROR_HOST_VERIFY_SNMP_FAILED \<equiv> 0x40032960"
abbreviation ERROR_HOST_GETINFO_FAILED :: int where "ERROR_HOST_GETINFO_FAILED \<equiv> 0x40032961"
abbreviation ERROR_HOST_UNREG_TRAPSERVER_FAILED :: int where "ERROR_HOST_UNREG_TRAPSERVER_FAILED \<equiv> 0x40032962"
abbreviation ERROR_HOST_THIRDPARTY_GETFILE_FAILED :: int where "ERROR_HOST_THIRDPARTY_GETFILE_FAILED \<equiv> 0x40032963"
abbreviation ERROR_HOST_THIRDPARTY_EXEC_FAILED :: int where "ERROR_HOST_THIRDPARTY_EXEC_FAILED \<equiv> 0x40032964"
abbreviation ERROR_HOST_REG_TRAPSERVER_FAILED :: int where "ERROR_HOST_REG_TRAPSERVER_FAILED \<equiv> 0x40032965"
abbreviation ERROR_HOST_GET_INIATOR_FAILED :: int where "ERROR_HOST_GET_INIATOR_FAILED \<equiv> 0x40032966"
abbreviation ERROR_HOST_GET_TIMEZONE_FAILED :: int where "ERROR_HOST_GET_TIMEZONE_FAILED \<equiv> 0x40032967"
abbreviation ERROR_HOST_LOG_IS_BEENING_COLLECTED :: int where "ERROR_HOST_LOG_IS_BEENING_COLLECTED \<equiv> 0x40032967"
abbreviation ERROR_DEVICE_FILESYS_MOUNT_POINT_NOT_EXIST :: int where "ERROR_DEVICE_FILESYS_MOUNT_POINT_NOT_EXIST \<equiv> 0x40032970"
abbreviation ERROR_DEVICE_FILESYS_MOUTN_DEV_IS_MOUNTED :: int where "ERROR_DEVICE_FILESYS_MOUTN_DEV_IS_MOUNTED \<equiv> 0x40032971"
abbreviation ERROR_DEVICE_FILESYS_MOUNT_POINT_OCCUPIED :: int where "ERROR_DEVICE_FILESYS_MOUNT_POINT_OCCUPIED \<equiv> 0x40032972"
abbreviation ERROR_DEVICE_FILESYS_OFFLINE_VOLUME_FAILED :: int where "ERROR_DEVICE_FILESYS_OFFLINE_VOLUME_FAILED \<equiv> 0x40032973"
abbreviation ERROR_DEVICE_FILESYS_DELETE_DRIVER_LETTER_FAILED :: int where "ERROR_DEVICE_FILESYS_DELETE_DRIVER_LETTER_FAILED \<equiv> 0x40032974"
abbreviation ERROR_DEVICE_FILESYS_UNMOUNT_FAILED :: int where "ERROR_DEVICE_FILESYS_UNMOUNT_FAILED \<equiv> 0x40032975"
abbreviation ERROR_DEVICE_FILESYS_GET_DEV_FAILED :: int where "ERROR_DEVICE_FILESYS_GET_DEV_FAILED \<equiv> 0x40032976"
abbreviation ERROR_DEVICE_FILESYS_MOUNT_FAILED :: int where "ERROR_DEVICE_FILESYS_MOUNT_FAILED \<equiv> 0x40032977"
abbreviation ERROR_DEVICE_FILESYS_QUERY_INFO_FAILED :: int where "ERROR_DEVICE_FILESYS_QUERY_INFO_FAILED \<equiv> 0x40032978"
abbreviation ERROR_DEVICE_RAW_USED_BY_OTHER_DEV :: int where "ERROR_DEVICE_RAW_USED_BY_OTHER_DEV \<equiv> 0x40032979"
abbreviation ERROR_DEVICE_RAW_START_FAILED :: int where "ERROR_DEVICE_RAW_START_FAILED \<equiv> 0x4003297A"
abbreviation ERROR_DEVICE_RAW_DELETE_FAILED :: int where "ERROR_DEVICE_RAW_DELETE_FAILED \<equiv> 0x4003297B"
abbreviation ERROR_DEVICE_RAW_CREATE_FAILED :: int where "ERROR_DEVICE_RAW_CREATE_FAILED \<equiv> 0x4003297C"
abbreviation ERROR_DEVICE_LVM_QUERY_VG_STATUS_FAILED :: int where "ERROR_DEVICE_LVM_QUERY_VG_STATUS_FAILED \<equiv> 0x4003297D"
abbreviation ERROR_DEVICE_LVM_EXPORT_VG_FAILED :: int where "ERROR_DEVICE_LVM_EXPORT_VG_FAILED \<equiv> 0x4003297E"
abbreviation ERROR_DEVICE_LVM_IMPORT_VG_FAILED :: int where "ERROR_DEVICE_LVM_IMPORT_VG_FAILED \<equiv> 0x4003297F"
abbreviation ERROR_DEVICE_LVM_GET_PV_FAILED :: int where "ERROR_DEVICE_LVM_GET_PV_FAILED \<equiv> 0x40032980"
abbreviation ERROR_DEVICE_LVM_ACTIVE_VG_FAILED :: int where "ERROR_DEVICE_LVM_ACTIVE_VG_FAILED \<equiv> 0x40032981"
abbreviation ERROR_DEVICE_LVM_DEACTIVE_VG_FAILED :: int where "ERROR_DEVICE_LVM_DEACTIVE_VG_FAILED \<equiv> 0x40032982"
abbreviation ERROR_DEVICE_VXVM_SCAN_DISK_FAILED :: int where "ERROR_DEVICE_VXVM_SCAN_DISK_FAILED \<equiv> 0x4003298A"
abbreviation ERROR_DEVICE_LINK_USED_BY_OTHER_DEV :: int where "ERROR_DEVICE_LINK_USED_BY_OTHER_DEV \<equiv> 0x40032983"
abbreviation ERROR_DEVICE_LINK_CREATE_FAILED :: int where "ERROR_DEVICE_LINK_CREATE_FAILED \<equiv> 0x40032984"
abbreviation ERROR_DEVICE_LINK_DELETE_FAILED :: int where "ERROR_DEVICE_LINK_DELETE_FAILED \<equiv> 0x40032985"
abbreviation ERROR_DEVICE_UDEV_CREATE_FAILED :: int where "ERROR_DEVICE_UDEV_CREATE_FAILED \<equiv> 0x40032986"
abbreviation ERROR_DEVICE_UDEV_DELETE_FAILED :: int where "ERROR_DEVICE_UDEV_DELETE_FAILED \<equiv> 0x40032987"
abbreviation ERROR_DEVICE_ASM_SCAN_ASMLIB_FAILED :: int where "ERROR_DEVICE_ASM_SCAN_ASMLIB_FAILED \<equiv> 0x40032988"
abbreviation ERROR_DEVICE_PERMISSION_SET_FAILED :: int where "ERROR_DEVICE_PERMISSION_SET_FAILED \<equiv> 0x40032989"
abbreviation ERROR_ORACLE_ASM_DBUSERPWD_WRONG :: int where "ERROR_ORACLE_ASM_DBUSERPWD_WRONG \<equiv> 0x40032990"
abbreviation ERROR_ORACLE_ASM_RECOVER_INSTANCE_NOSTART :: int where "ERROR_ORACLE_ASM_RECOVER_INSTANCE_NOSTART \<equiv> 0x40032991"
abbreviation ERROR_ORACLE_ASM_INSUFFICIENT_WRONG :: int where "ERROR_ORACLE_ASM_INSUFFICIENT_WRONG \<equiv> 0x40032992"
abbreviation ERROR_ORACLE_NOARCHIVE_MODE :: int where "ERROR_ORACLE_NOARCHIVE_MODE \<equiv> 0x40032993"
abbreviation ERROR_ORACLE_OVER_ARCHIVE_USING :: int where "ERROR_ORACLE_OVER_ARCHIVE_USING \<equiv> 0x40032994"
abbreviation ERROR_ORACLE_OVER_MAX_LINK :: int where "ERROR_ORACLE_OVER_MAX_LINK \<equiv> 0x40032995"
abbreviation ERROR_ORACLE_IN_BACKUP :: int where "ERROR_ORACLE_IN_BACKUP \<equiv> 0x40032996"
abbreviation ERROR_ORACLE_NOT_IN_BACKUP :: int where "ERROR_ORACLE_NOT_IN_BACKUP \<equiv> 0x40032997"
abbreviation ERROR_ORACLE_ARCHIVE_FAILED :: int where "ERROR_ORACLE_ARCHIVE_FAILED \<equiv> 0x40032998"
abbreviation ERROR_ORACLE_DB_ALREADYRUNNING :: int where "ERROR_ORACLE_DB_ALREADYRUNNING \<equiv> 0x40032999"
abbreviation ERROR_ORACLE_DB_ALREADYMOUNT :: int where "ERROR_ORACLE_DB_ALREADYMOUNT \<equiv> 0x4003299A"
abbreviation ERROR_ORACLE_DB_ALREADYOPEN :: int where "ERROR_ORACLE_DB_ALREADYOPEN \<equiv> 0x4003299B"
abbreviation ERROR_ORACLE_ASM_DISKGROUP_ALREADYMOUNT :: int where "ERROR_ORACLE_ASM_DISKGROUP_ALREADYMOUNT \<equiv> 0x4003299C"
abbreviation ERROR_ORACLE_ASM_DISKGROUP_NOTMOUNT :: int where "ERROR_ORACLE_ASM_DISKGROUP_NOTMOUNT \<equiv> 0x4003299D"
abbreviation ERROR_ORACLE_BEGIN_HOT_BACKUP_FAILED :: int where "ERROR_ORACLE_BEGIN_HOT_BACKUP_FAILED \<equiv> 0x4003299E"
abbreviation ERROR_ORACLE_END_HOT_BACKUP_FAILED :: int where "ERROR_ORACLE_END_HOT_BACKUP_FAILED \<equiv> 0x4003299F"
abbreviation ERROR_ORACLE_BEGIN_HOT_BACKUP_TIMEOUT :: int where "ERROR_ORACLE_BEGIN_HOT_BACKUP_TIMEOUT \<equiv> 0x400329A0"
abbreviation ERROR_ORACLE_TRUNCATE_LOG_FAILED :: int where "ERROR_ORACLE_TRUNCATE_LOG_FAILED \<equiv> 0x400329A1"
abbreviation ERROR_ORACLE_TNS_PROTOCOL_ADAPTER :: int where "ERROR_ORACLE_TNS_PROTOCOL_ADAPTER \<equiv> 0x400329A2"
abbreviation ERROR_ORACLE_START_INSTANCES_FAILED :: int where "ERROR_ORACLE_START_INSTANCES_FAILED \<equiv> 0x400329A3"
abbreviation ERROR_ORACLE_INSTANCE_NOT_CDB :: int where "ERROR_ORACLE_INSTANCE_NOT_CDB \<equiv> 0x400329A4"
abbreviation ERROR_DB2_SUSPEND_IO_FAILED :: int where "ERROR_DB2_SUSPEND_IO_FAILED \<equiv> 0x400329B0"
abbreviation ERROR_DB2_RESUME_IO_FAILED :: int where "ERROR_DB2_RESUME_IO_FAILED \<equiv> 0x400329B1"
abbreviation ERROR_DB2_SUSPEND_IO_TIMEOUT :: int where "ERROR_DB2_SUSPEND_IO_TIMEOUT \<equiv> 0x400329B2"
abbreviation ERROR_SQLSERVER_GET_DB_STATUS_FAILED :: int where "ERROR_SQLSERVER_GET_DB_STATUS_FAILED \<equiv> 0x400329BA"
abbreviation ERROR_SQLSERVER_DB_STATUS_OFFLINE :: int where "ERROR_SQLSERVER_DB_STATUS_OFFLINE \<equiv> 0x400329BB"
abbreviation ERROR_SQLSERVER_DB_NOT_EXIST :: int where "ERROR_SQLSERVER_DB_NOT_EXIST \<equiv> 0x400329BC"
abbreviation ERROR_SQLSERVER_INSTANCE_NOT_EXIST :: int where "ERROR_SQLSERVER_INSTANCE_NOT_EXIST \<equiv> 0x400329BD"
abbreviation ERROR_SQLSERVER_START_INSTANCE_FAILED :: int where "ERROR_SQLSERVER_START_INSTANCE_FAILED \<equiv> 0x400329BE"
abbreviation ERROR_SQLSERVER_DB_LIST_IS_NULL :: int where "ERROR_SQLSERVER_DB_LIST_IS_NULL \<equiv> 0x400329BF"
abbreviation ERROR_SQLSERVER_START_DB_FAILED :: int where "ERROR_SQLSERVER_START_DB_FAILED \<equiv> 0x400329C0"
abbreviation ERROR_SQLSERVER_STOP_DB_FAILED :: int where "ERROR_SQLSERVER_STOP_DB_FAILED \<equiv> 0x400329C1"
abbreviation ERROR_EXCHANGE_REMOVE_FAILED :: int where "ERROR_EXCHANGE_REMOVE_FAILED \<equiv> 0x400329CA"
abbreviation ERROR_EXCHANGE_MOUNT_FAILED :: int where "ERROR_EXCHANGE_MOUNT_FAILED \<equiv> 0x400329CB"
abbreviation ERROR_EXCHANGE_SOFTRECVERY_FAILED :: int where "ERROR_EXCHANGE_SOFTRECVERY_FAILED \<equiv> 0x400329CC"
abbreviation ERROR_EXCHANE_MOUNT_INMULTIAD_FAIL :: int where "ERROR_EXCHANE_MOUNT_INMULTIAD_FAIL \<equiv> 0x400329CD"
abbreviation ERROR_CLUSTER_QUERY_FAILED :: int where "ERROR_CLUSTER_QUERY_FAILED \<equiv> 0x400329D6"
abbreviation ERROR_CLUSTER_QUERY_NODE_FAILED :: int where "ERROR_CLUSTER_QUERY_NODE_FAILED \<equiv> 0x400329D7"
abbreviation ERROR_CLUSTER_QUERY_SERVICE_STATE_FAILED :: int where "ERROR_CLUSTER_QUERY_SERVICE_STATE_FAILED \<equiv> 0x400329D8"
abbreviation ERROR_CLUSTER_START_SERVICE_FAILED :: int where "ERROR_CLUSTER_START_SERVICE_FAILED \<equiv> 0x400329D9"
abbreviation ERROR_CLUSTER_PACKAGE_ONLINE_FAILED :: int where "ERROR_CLUSTER_PACKAGE_ONLINE_FAILED \<equiv> 0x400329DA"
abbreviation ERROR_CLUSTER_PACKAGE_OFFLINE_FAILED :: int where "ERROR_CLUSTER_PACKAGE_OFFLINE_FAILED \<equiv> 0x400329DD"
abbreviation ERROR_CLUSTER_QUERY_ACTIVE_HOST_FAILED :: int where "ERROR_CLUSTER_QUERY_ACTIVE_HOST_FAILED \<equiv> 0x400329DE"
abbreviation ERROR_CLUSTER_QUERY_GROUP_INFO_FAILED :: int where "ERROR_CLUSTER_QUERY_GROUP_INFO_FAILED \<equiv> 0x400329DF"
abbreviation ERROR_CLUSTER_SQLSERVER_RESOURCE_NOT_EXIST :: int where "ERROR_CLUSTER_SQLSERVER_RESOURCE_NOT_EXIST \<equiv> 0x400329E0"
abbreviation ERROR_CLUSTER_GET_CLUSTER_NETWORK_NAME_FAILED :: int where "ERROR_CLUSTER_GET_CLUSTER_NETWORK_NAME_FAILED \<equiv> 0x400329E1"
abbreviation ERROR_CLUSTER_GET_DISK_PATITION_TYPE_FAILED :: int where "ERROR_CLUSTER_GET_DISK_PATITION_TYPE_FAILED \<equiv> 0x400329E2"
abbreviation ERROR_CLUSTER_GET_DISK_RESOURCE_FAILED :: int where "ERROR_CLUSTER_GET_DISK_RESOURCE_FAILED \<equiv> 0x400329E3"
abbreviation ERROR_CLUSTER_RESUME_DISK_RESOURCE_FAILED :: int where "ERROR_CLUSTER_RESUME_DISK_RESOURCE_FAILED \<equiv> 0x400329E4"
abbreviation ERROR_CLUSTER_REPAIR_DISK_RESOURCE_FAILED :: int where "ERROR_CLUSTER_REPAIR_DISK_RESOURCE_FAILED \<equiv> 0x400329E5"
abbreviation ERROR_CLUSTER_ONLINE_DISK_RESOURCE_FAILED :: int where "ERROR_CLUSTER_ONLINE_DISK_RESOURCE_FAILED \<equiv> 0x400329E6"
abbreviation ERROR_CLUSTER_SUSPEND_DISK_RESOURCE_FAILED :: int where "ERROR_CLUSTER_SUSPEND_DISK_RESOURCE_FAILED \<equiv> 0x400329E7"
abbreviation ERROR_CLUSTER_SERVICE_NOSTART :: int where "ERROR_CLUSTER_SERVICE_NOSTART \<equiv> 0x400329E8"
abbreviation ERROR_CLUSTER_DB_NOT_INCLUSTER :: int where "ERROR_CLUSTER_DB_NOT_INCLUSTER \<equiv> 0x400329E9"
abbreviation ERROR_CLUSTER_RESOURCE_STATUS_ABNORMAL :: int where "ERROR_CLUSTER_RESOURCE_STATUS_ABNORMAL \<equiv> 0x400329EA"
abbreviation ERROR_CLUSTER_NOT_ACTIVE_NODE :: int where "ERROR_CLUSTER_NOT_ACTIVE_NODE \<equiv> 0x400329EB"
abbreviation ERROR_VSS_INIT_FILEDES_GETVOLUME_FAILED :: int where "ERROR_VSS_INIT_FILEDES_GETVOLUME_FAILED \<equiv> 0x400329F0"
abbreviation ERROR_VSS_TIME_OUT :: int where "ERROR_VSS_TIME_OUT \<equiv> 0x400329F1"
abbreviation ERROR_VSS_FREEZE_TIMEOUT :: int where "ERROR_VSS_FREEZE_TIMEOUT \<equiv> 0x400329F2"
abbreviation ERROR_VSS_OTHER_FREEZE_RUNNING :: int where "ERROR_VSS_OTHER_FREEZE_RUNNING \<equiv> 0x400329F3"
abbreviation ERROR_VSS_EXCHANGE_DB_NOT_EXIST :: int where "ERROR_VSS_EXCHANGE_DB_NOT_EXIST \<equiv> 0x400329F4"
abbreviation ERROR_DEVICE_VXVM_EXPORT_DG_FAILED :: int where "ERROR_DEVICE_VXVM_EXPORT_DG_FAILED \<equiv> 0x400329F5"
abbreviation ERROR_DEVICE_VXVM_IMPORT_DG_FAILED :: int where "ERROR_DEVICE_VXVM_IMPORT_DG_FAILED \<equiv> 0x400329F6"
abbreviation ERROR_DEVICE_VXVM_ACTIVE_DG_FAILED :: int where "ERROR_DEVICE_VXVM_ACTIVE_DG_FAILED \<equiv> 0x400329F7"
abbreviation ERROR_DEVICE_VXVM_DEACTIVE_DG_FAILED :: int where "ERROR_DEVICE_VXVM_DEACTIVE_DG_FAILED \<equiv> 0x400329F8"
abbreviation ERROR_DEVICE_VXVM_QUERY_DG_STATUS_FAILED :: int where "ERROR_DEVICE_VXVM_QUERY_DG_STATUS_FAILED \<equiv> 0x400329F9"
abbreviation ERROR_SCRIPT_COMMON_EXEC_FAILED :: int where "ERROR_SCRIPT_COMMON_EXEC_FAILED \<equiv> 5"
abbreviation ERROR_SCRIPT_COMMON_RESULT_FILE_NOT_EXIST :: int where "ERROR_SCRIPT_COMMON_RESULT_FILE_NOT_EXIST \<equiv> 6"
abbreviation ERROR_SCRIPT_COMMON_TMP_FILE_IS_NOT_EXIST :: int where "ERROR_SCRIPT_COMMON_TMP_FILE_IS_NOT_EXIST \<equiv> 7"
abbreviation ERROR_SCRIPT_COMMON_PATH_WRONG :: int where "ERROR_SCRIPT_COMMON_PATH_WRONG \<equiv> 8"
abbreviation ERROR_SCRIPT_COMMON_PARAM_WRONG :: int where "ERROR_SCRIPT_COMMON_PARAM_WRONG \<equiv> 9"
abbreviation ERROR_SCRIPT_COMMON_DB_USERPWD_WRONG :: int where "ERROR_SCRIPT_COMMON_DB_USERPWD_WRONG \<equiv> 10"
abbreviation ERROR_SCRIPT_COMMON_INSTANCE_NOSTART :: int where "ERROR_SCRIPT_COMMON_INSTANCE_NOSTART \<equiv> 11"
abbreviation ERROR_SCRIPT_COMMON_INSUFFICIENT_WRONG :: int where "ERROR_SCRIPT_COMMON_INSUFFICIENT_WRONG \<equiv> 15"
abbreviation ERROR_SCRIPT_COMMON_NOSUPPORT_DBFILE_ON_BLOCKDEVICE :: int where "ERROR_SCRIPT_COMMON_NOSUPPORT_DBFILE_ON_BLOCKDEVICE \<equiv> 16"
abbreviation ERROR_SCRIPT_COMMON_DEVICE_FILESYS_MOUNT_FAILED :: int where "ERROR_SCRIPT_COMMON_DEVICE_FILESYS_MOUNT_FAILED \<equiv> 17"
abbreviation ERROR_SCRIPT_COMMON_DEVICE_FILESYS_UNMOUNT_FAILED :: int where "ERROR_SCRIPT_COMMON_DEVICE_FILESYS_UNMOUNT_FAILED \<equiv> 18"
abbreviation ERROR_SCRIPT_ORACLE_ASM_DBUSERPWD_WRONG :: int where "ERROR_SCRIPT_ORACLE_ASM_DBUSERPWD_WRONG \<equiv> 21"
abbreviation ERROR_SCRIPT_ORACLE_ASM_INSUFFICIENT_WRONG :: int where "ERROR_SCRIPT_ORACLE_ASM_INSUFFICIENT_WRONG \<equiv> 22"
abbreviation ERROR_SCRIPT_ORACLE_ASM_INSTANCE_NOSTART :: int where "ERROR_SCRIPT_ORACLE_ASM_INSTANCE_NOSTART \<equiv> 23"
abbreviation ERROR_SCRIPT_ORACLE_NOARCHIVE_MODE :: int where "ERROR_SCRIPT_ORACLE_NOARCHIVE_MODE \<equiv> 24"
abbreviation ERROR_SCRIPT_ORACLE_OVER_ARCHIVE_USING :: int where "ERROR_SCRIPT_ORACLE_OVER_ARCHIVE_USING \<equiv> 25"
abbreviation ERROR_SCRIPT_ORACLE_ASM_DISKGROUP_ALREADYMOUNT :: int where "ERROR_SCRIPT_ORACLE_ASM_DISKGROUP_ALREADYMOUNT \<equiv> 26"
abbreviation ERROR_SCRIPT_ORACLE_ASM_DISKGROUP_NOTMOUNT :: int where "ERROR_SCRIPT_ORACLE_ASM_DISKGROUP_NOTMOUNT \<equiv> 27"
abbreviation ERROR_SCRIPT_ORACLE_APPLICATION_OVER_MAX_LINK :: int where "ERROR_SCRIPT_ORACLE_APPLICATION_OVER_MAX_LINK \<equiv> 28"
abbreviation ERROR_SCRIPT_ORACLE_DB_ALREADY_INBACKUP :: int where "ERROR_SCRIPT_ORACLE_DB_ALREADY_INBACKUP \<equiv> 29"
abbreviation ERROR_SCRIPT_ORACLE_DB_INHOT_BACKUP :: int where "ERROR_SCRIPT_ORACLE_DB_INHOT_BACKUP \<equiv> 30"
abbreviation ERROR_SCRIPT_ORACLE_DB_ALREADYRUNNING :: int where "ERROR_SCRIPT_ORACLE_DB_ALREADYRUNNING \<equiv> 31"
abbreviation ERROR_SCRIPT_ORACLE_DB_ALREADYMOUNT :: int where "ERROR_SCRIPT_ORACLE_DB_ALREADYMOUNT \<equiv> 32"
abbreviation ERROR_SCRIPT_ORACLE_DB_ALREADYOPEN :: int where "ERROR_SCRIPT_ORACLE_DB_ALREADYOPEN \<equiv> 33"
abbreviation ERROR_SCRIPT_ORACLE_DB_ARCHIVEERROR :: int where "ERROR_SCRIPT_ORACLE_DB_ARCHIVEERROR \<equiv> 34"
abbreviation ERROR_SCRIPT_ORACLE_BEGIN_HOT_BACKUP_FAILED :: int where "ERROR_SCRIPT_ORACLE_BEGIN_HOT_BACKUP_FAILED \<equiv> 35"
abbreviation ERROR_SCRIPT_ORACLE_END_HOT_BACKUP_FAILED :: int where "ERROR_SCRIPT_ORACLE_END_HOT_BACKUP_FAILED \<equiv> 36"
abbreviation ERROR_SCRIPT_ORACLE_BEGIN_HOT_BACKUP_TIMEOUT :: int where "ERROR_SCRIPT_ORACLE_BEGIN_HOT_BACKUP_TIMEOUT \<equiv> 37"
abbreviation ERROR_SCRIPT_ORACLE_TRUNCATE_ARCHIVELOG_FAILED :: int where "ERROR_SCRIPT_ORACLE_TRUNCATE_ARCHIVELOG_FAILED \<equiv> 42"
abbreviation ERROR_SCRIPT_ORACLE_TNS_PROTOCOL_ADAPTER :: int where "ERROR_SCRIPT_ORACLE_TNS_PROTOCOL_ADAPTER \<equiv> 43"
abbreviation ERROR_SCRIPT_ORACLE_NOT_INSTALLED :: int where "ERROR_SCRIPT_ORACLE_NOT_INSTALLED \<equiv> 44"
abbreviation ERROR_SCRIPT_ORACLE_INST_NOT_CDB :: int where "ERROR_SCRIPT_ORACLE_INST_NOT_CDB \<equiv> 47"
abbreviation ERROR_SCRIPT_ORACLE_PDB_NOT_EXIT :: int where "ERROR_SCRIPT_ORACLE_PDB_NOT_EXIT \<equiv> 48"
abbreviation ERROR_SCRIPT_ORACLE_START_PDB_FAILED :: int where "ERROR_SCRIPT_ORACLE_START_PDB_FAILED \<equiv> 49"
abbreviation ERROR_SCRIPT_DB_FILE_NOT_EXIST :: int where "ERROR_SCRIPT_DB_FILE_NOT_EXIST \<equiv> 50"
abbreviation ERROR_SCRIPT_DB2_SUSPEND_IO_FAILED :: int where "ERROR_SCRIPT_DB2_SUSPEND_IO_FAILED \<equiv> 70"
abbreviation ERROR_SCRIPT_DB2_RESUME_IO_FAILED :: int where "ERROR_SCRIPT_DB2_RESUME_IO_FAILED \<equiv> 71"
abbreviation ERROR_SCRIPT_DB2_SUSPEND_IO_TIMEOUT :: int where "ERROR_SCRIPT_DB2_SUSPEND_IO_TIMEOUT \<equiv> 72"
abbreviation ERROR_SCRIPT_EXCHANGE_REMOVE_FAILED :: int where "ERROR_SCRIPT_EXCHANGE_REMOVE_FAILED \<equiv> 100"
abbreviation ERROR_SCRIPT_EXCHANGE_SOFTRECVERY_FAILED :: int where "ERROR_SCRIPT_EXCHANGE_SOFTRECVERY_FAILED \<equiv> 101"
abbreviation ERROR_SCRIPT_EXCHANGE_MOUNT_FAILED :: int where "ERROR_SCRIPT_EXCHANGE_MOUNT_FAILED \<equiv> 102"
abbreviation ERROR_SCRIPT_EXCHANGE_MOUNT_INMULTIAD_FAIL :: int where "ERROR_SCRIPT_EXCHANGE_MOUNT_INMULTIAD_FAIL \<equiv> 103"
abbreviation ERROR_SCRIPT_SQLSERVER_DEFAULT_ERROR :: int where "ERROR_SCRIPT_SQLSERVER_DEFAULT_ERROR \<equiv> 130"
abbreviation ERROR_SCRIPT_SQLSERVER_GET_CLUSTER_INFO_FAILED :: int where "ERROR_SCRIPT_SQLSERVER_GET_CLUSTER_INFO_FAILED \<equiv> 131"
abbreviation ERROR_SCRIPT_SQLSERVER_132 :: int where "ERROR_SCRIPT_SQLSERVER_132 \<equiv> 132"
abbreviation ERROR_SCRIPT_SQLSERVER_133 :: int where "ERROR_SCRIPT_SQLSERVER_133 \<equiv> 133"
abbreviation ERROR_SCRIPT_SQLSERVER_QUERY_DB_STATUS_FAILED :: int where "ERROR_SCRIPT_SQLSERVER_QUERY_DB_STATUS_FAILED \<equiv> 134"
abbreviation ERROR_SCRIPT_SQLSERVER_DB_STATUS_OFFLINE :: int where "ERROR_SCRIPT_SQLSERVER_DB_STATUS_OFFLINE \<equiv> 135"
abbreviation ERROR_SCRIPT_SQLSERVER_INSTANCE_NOT_EXIST :: int where "ERROR_SCRIPT_SQLSERVER_INSTANCE_NOT_EXIST \<equiv> 136"
abbreviation ERROR_SCRIPT_SQLSERVER_DB_NOT_EXIST :: int where "ERROR_SCRIPT_SQLSERVER_DB_NOT_EXIST \<equiv> 137"
abbreviation ERROR_SCRIPT_SQLSERVER_GET_OSQL_TOOL_FAILED :: int where "ERROR_SCRIPT_SQLSERVER_GET_OSQL_TOOL_FAILED \<equiv> 138"
abbreviation ERROR_SCRIPT_SQLSERVER_START_INSTANCE_FAILED :: int where "ERROR_SCRIPT_SQLSERVER_START_INSTANCE_FAILED \<equiv> 139"
abbreviation ERROR_SCRIPT_CLUSTER_SERVICE_NOSTART :: int where "ERROR_SCRIPT_CLUSTER_SERVICE_NOSTART \<equiv> 160"
abbreviation ERROR_SCRIPT_CLUSTER_DB_NOT_INCLUSTER :: int where "ERROR_SCRIPT_CLUSTER_DB_NOT_INCLUSTER \<equiv> 161"
abbreviation ERROR_SCRIPT_CLUSTER_RESOURCE_STATUS_ABNORMAL :: int where "ERROR_SCRIPT_CLUSTER_RESOURCE_STATUS_ABNORMAL \<equiv> 162"
abbreviation ERROR_SCRIPT_CLUSTER_RESOURCE_ONLINE_FAILED :: int where "ERROR_SCRIPT_CLUSTER_RESOURCE_ONLINE_FAILED \<equiv> 163"
abbreviation ERROR_SCRIPT_CLUSTER_RESOURCE_OFFLINE_FAILED :: int where "ERROR_SCRIPT_CLUSTER_RESOURCE_OFFLINE_FAILED \<equiv> 164"
abbreviation ERROR_SCRIPT_CLUSTER_NOT_ACTIVE_NODE :: int where "ERROR_SCRIPT_CLUSTER_NOT_ACTIVE_NODE \<equiv> 165"
abbreviation INTER_ERROR_SRCIPT_FILE_NOT_EXIST :: int where "INTER_ERROR_SRCIPT_FILE_NOT_EXIST \<equiv> 255"

section \<open>The map\<close>

text \<open>\<^verbatim>\<open>insert\<close> keeps the first value of a key, as \<^const>\<open>map_of\<close> does.\<close>

definition m_mapErrorCode :: "(int \<times> int) list" where
  "m_mapErrorCode = [
    (ERROR_SCRIPT_COMMON_EXEC_FAILED, ERROR_COMMON_SCRIPT_EXEC_FAILED),
    (ERROR_COMMON_SCRIPT_SIGN_CHECK_FAILED, ERROR_COMMON_SCRIPT_SIGN_CHECK_FAILED),
    (ERROR_SCRIPT_COMMON_RESULT_FILE_NOT_EXIST, ERROR_COMMON_OPER_FAILED),
    (ERROR_SCRIPT_COMMON_TMP_FILE_IS_NOT_EXIST, ERROR_COMMON_OPER_FAILED),
    (ERROR_SCRIPT_COMMON_PATH_WRONG, ERROR_COMMON_OPER_FAILED),
    (ERROR_SCRIPT_COMMON_PARAM_WRONG, ERROR_COMMON_INVALID_PARAM),
    (ERROR_SCRIPT_COMMON_DB_USERPWD_WRONG, ERROR_COMMON_DB_USERPWD_WRONG),
    (ERROR_SCRIPT_COMMON_INSTANCE_NOSTART, ERROR_COMMON_RECOVER_INSTANCE_NOSTART),
    (ERROR_SCRIPT_COMMON_INSUFFICIENT_WRONG, ERROR_COMMON_DB_INSUFFICIENT_PERMISSION),
    (ERROR_SCRIPT_COMMON_NOSUPPORT_DBFILE_ON_BLOCKDEVICE, ERROR_COMMON_NOSUPPORT_DBFILE_ON_BLOCKDEVICE),
    (ERROR_SCRIPT_DB_FILE_NOT_EXIST, ERROR_COMMON_DB_FILE_NOT_EXIST),
    (ERROR_SCRIPT_COMMON_DEVICE_FILESYS_MOUNT_FAILED, ERROR_DEVICE_FILESYS_MOUNT_FAILED),
    (ERROR_SCRIPT_COMMON_DEVICE_FILESYS_UNMOUNT_FAILED, ERROR_DEVICE_FILESYS_UNMOUNT_FAILED),
    (ERROR_SCRIPT_ORACLE_ASM_DBUSERPWD_WRONG, ERROR_ORACLE_ASM_DBUSERPWD_WRONG),
    (ERROR_SCRIPT_ORACLE_ASM_INSUFFICIENT_WRONG, ERROR_ORACLE_ASM_INSUFFICIENT_WRONG),
    (ERROR_SCRIPT_ORACLE_ASM_INSTANCE_NOSTART, ERROR_ORACLE_ASM_RECOVER_INSTANCE_NOSTART),
    (ERROR_SCRIPT_ORACLE_NOARCHIVE_MODE, ERROR_ORACLE_NOARCHIVE_MODE),
    (ERROR_SCRIPT_ORACLE_OVER_ARCHIVE_USING, ERROR_ORACLE_OVER_ARCHIVE_USING),
    (ERROR_SCRIPT_ORACLE_ASM_DISKGROUP_ALREADYMOUNT, ERROR_ORACLE_ASM_DISKGROUP_ALREADYMOUNT),
    (ERROR_SCRIPT_ORACLE_ASM_DISKGROUP_NOTMOUNT, ERROR_ORACLE_ASM_DISKGROUP_NOTMOUNT),
    (ERROR_SCRIPT_ORACLE_APPLICATION_OVER_MAX_LINK, ERROR_ORACLE_OVER_MAX_LINK),
    (ERROR_SCRIPT_ORACLE_DB_ALREADY_INBACKUP, ERROR_ORACLE_IN_BACKUP),
    (ERROR_SCRIPT_ORACLE_DB_INHOT_BACKUP, ERROR_ORACLE_NOT_IN_BACKUP),
    (ERROR_SCRIPT_ORACLE_DB_ALREADYRUNNING, ERROR_ORACLE_DB_ALREADYRUNNING),
    (ERROR_SCRIPT_ORACLE_DB_ALREADYMOUNT, ERROR_ORACLE_DB_ALREADYMOUNT),
    (ERROR_SCRIPT_ORACLE_DB_ALREADYOPEN, ERROR_ORACLE_DB_ALREADYOPEN),
    (ERROR_SCRIPT_ORACLE_DB_ARCHIVEERROR, ERROR_ORACLE_ARCHIVE_FAILED),
    (ERROR_SCRIPT_ORACLE_BEGIN_HOT_BACKUP_FAILED, ERROR_ORACLE_BEGIN_HOT_BACKUP_FAILED),
    (ERROR_SCRIPT_ORACLE_END_HOT_BACKUP_FAILED, ERROR_ORACLE_END_HOT_BACKUP_FAILED),
    (ERROR_SCRIPT_ORACLE_BEGIN_HOT_BACKUP_TIMEOUT, ERROR_ORACLE_BEGIN_HOT_BACKUP_TIMEOUT),
    (ERROR_SCRIPT_ORACLE_TRUNCATE_ARCHIVELOG_FAILED, ERROR_ORACLE_TRUNCATE_LOG_FAILED),
    (ERROR_SCRIPT_ORACLE_TNS_PROTOCOL_ADAPTER, ERROR_ORACLE_TNS_PROTOCOL_ADAPTER),
    (ERROR_SCRIPT_ORACLE_NOT_INSTALLED, ERROR_SCRIPT_ORACLE_NOT_INSTALLED),
    (ERROR_SCRIPT_ORACLE_INST_NOT_CDB, ERROR_ORACLE_INSTANCE_NOT_CDB),
    (ERROR_SCRIPT_ORACLE_PDB_NOT_EXIT, ERROR_SQLSERVER_DB_NOT_EXIST),
    (ERROR_SCRIPT_ORACLE_START_PDB_FAILED, ERROR_SQLSERVER_START_DB_FAILED),
    (ERROR_SCRIPT_DB2_SUSPEND_IO_FAILED, ERROR_DB2_SUSPEND_IO_FAILED),
    (ERROR_SCRIPT_DB2_RESUME_IO_FAILED, ERROR_DB2_RESUME_IO_FAILED),
    (ERROR_SCRIPT_DB2_SUSPEND_IO_TIMEOUT, ERROR_DB2_SUSPEND_IO_TIMEOUT),
    (ERROR_SCRIPT_EXCHANGE_REMOVE_FAILED, ERROR_EXCHANGE_REMOVE_FAILED),
    (ERROR_SCRIPT_EXCHANGE_SOFTRECVERY_FAILED, ERROR_EXCHANGE_SOFTRECVERY_FAILED),
    (ERROR_SCRIPT_EXCHANGE_MOUNT_FAILED, ERROR_EXCHANGE_MOUNT_FAILED),
    (ERROR_SCRIPT_EXCHANGE_MOUNT_INMULTIAD_FAIL, ERROR_EXCHANE_MOUNT_INMULTIAD_FAIL),
    (INTER_ERROR_SRCIPT_FILE_NOT_EXIST, ERROR_COMMON_SCRIPT_FILE_NOT_EXIST),
    (ERROR_SCRIPT_SQLSERVER_DEFAULT_ERROR, ERROR_COMMON_OPER_FAILED),
    (ERROR_SCRIPT_SQLSERVER_GET_CLUSTER_INFO_FAILED, ERROR_CLUSTER_QUERY_FAILED),
    (ERROR_SCRIPT_CLUSTER_RESOURCE_ONLINE_FAILED, ERROR_CLUSTER_PACKAGE_ONLINE_FAILED),
    (ERROR_SCRIPT_CLUSTER_RESOURCE_OFFLINE_FAILED, ERROR_CLUSTER_PACKAGE_OFFLINE_FAILED),
    (ERROR_SCRIPT_CLUSTER_SERVICE_NOSTART, ERROR_CLUSTER_SERVICE_NOSTART),
    (ERROR_SCRIPT_CLUSTER_DB_NOT_INCLUSTER, ERROR_CLUSTER_DB_NOT_INCLUSTER),
    (ERROR_SCRIPT_CLUSTER_RESOURCE_STATUS_ABNORMAL, ERROR_CLUSTER_RESOURCE_STATUS_ABNORMAL),
    (ERROR_SCRIPT_SQLSERVER_QUERY_DB_STATUS_FAILED, ERROR_SQLSERVER_GET_DB_STATUS_FAILED),
    (ERROR_SCRIPT_SQLSERVER_DB_STATUS_OFFLINE, ERROR_SQLSERVER_DB_STATUS_OFFLINE),
    (ERROR_SCRIPT_SQLSERVER_INSTANCE_NOT_EXIST, ERROR_SQLSERVER_INSTANCE_NOT_EXIST),
    (ERROR_SCRIPT_SQLSERVER_DB_NOT_EXIST, ERROR_SQLSERVER_DB_NOT_EXIST),
    (ERROR_SCRIPT_SQLSERVER_GET_OSQL_TOOL_FAILED, ERROR_COMMON_OPER_FAILED),
    (ERROR_SCRIPT_SQLSERVER_START_INSTANCE_FAILED, ERROR_SQLSERVER_START_INSTANCE_FAILED),
    (ERROR_SCRIPT_CLUSTER_NOT_ACTIVE_NODE, ERROR_CLUSTER_NOT_ACTIVE_NODE)]"

definition GetErrorCode :: "int \<Rightarrow> int" where
  "GetErrorCode iRet = (case map_of m_mapErrorCode iRet of Some v \<Rightarrow> v | None \<Rightarrow> MP_FAILED)"


text \<open>A failure is never turned into a success.\<close>

lemma GetErrorCode_fails: "GetErrorCode i \<noteq> MP_SUCCESS"
proof -
  have "list_all (\<lambda>(k, v). v \<noteq> MP_SUCCESS) m_mapErrorCode" by (simp add: m_mapErrorCode_def)
  then show ?thesis
    by (auto simp: GetErrorCode_def list_all_iff split: option.split dest!: map_of_SomeD)
qed

text \<open>The statuses that scripts use are the keys below 256; only one key is out of the range of a status.\<close>

lemma status_keys:
  "list_all (\<lambda>(k, v). 0 < k \<and> (k < 256 \<or> k = ERROR_COMMON_SCRIPT_SIGN_CHECK_FAILED)) m_mapErrorCode"
  by (simp add: m_mapErrorCode_def)

end
