(* ===== verification/Sign.thy ===== *)
theory Sign
  imports IpcFile ErrorCode StdMap
begin

text \<open>
  The check of the signatures of scripts (\<^verbatim>\<open>src/src/common/Sign.cpp\<close>, Linux part). The file with the
  signatures has a line \<open>name=signature\<close> for every script; \<^verbatim>\<open>VerifyHMAC\<close>, which compares a file with
  a signature, is a parameter.
\<close>

type_synonym hmac = "file_world \<Rightarrow> string \<Rightarrow> string \<Rightarrow> int"

abbreviation AGENT_SCRIPT_SIGN :: string where "AGENT_SCRIPT_SIGN \<equiv> ''script.sig''"
abbreviation SIGN_FORMAT_STR :: string where "SIGN_FORMAT_STR \<equiv> ''=''"
abbreviation SCRIPT_AGENT_FUNC :: string where "SCRIPT_AGENT_FUNC \<equiv> ''agent_func.sh''"

definition GetScriptNames :: "string \<Rightarrow> (string, int) std_map" where
  "GetScriptNames strFileName = fold (\<lambda>n m. if map_of m n = None then map_put n 0 m else m) [strFileName, SCRIPT_AGENT_FUNC] []"

definition CheckSign :: "hmac \<Rightarrow> string \<Rightarrow> file_world \<Rightarrow> string \<Rightarrow> string \<Rightarrow> int" where
  "CheckSign hm root W strFileName strSignEncrypt =
     (if strSignEncrypt = [] then ERROR_COMMON_SCRIPT_SIGN_CHECK_FAILED
      else if hm W (GetBinFilePath root strFileName) strSignEncrypt \<noteq> MP_SUCCESS then ERROR_COMMON_SCRIPT_SIGN_CHECK_FAILED
      else MP_SUCCESS)"

definition sign_blank :: "char \<Rightarrow> bool" where
  "sign_blank c \<longleftrightarrow> c = CHR '' '' \<or> c = CHR 0x09"

function sign_begin :: "string \<Rightarrow> nat \<Rightarrow> nat \<Rightarrow> nat" where
  "sign_begin s iPosBegin iPosEnd =
     (if iPosBegin < iPosEnd then
        if \<not> sign_blank (s ! iPosBegin) then iPosBegin else sign_begin s (iPosBegin + 1) iPosEnd
      else iPosBegin)"
  by pat_completeness auto
termination
  by (relation "measure (\<lambda>(s, b, e). e - b)") auto

declare sign_begin.simps [simp del]

fun sign_end :: "string \<Rightarrow> nat \<Rightarrow> nat \<Rightarrow> nat" where
  "sign_end s iPosBegin 0 = 0"
| "sign_end s iPosBegin (Suc n) =
     (if iPosBegin < Suc n then if \<not> sign_blank (s ! Suc n) then Suc n else sign_end s iPosBegin n else Suc n)"

text \<open>The signature on a line, from the position after the name; \<^const>\<open>None\<close> when there is no equals sign.\<close>

definition signature_of :: "string \<Rightarrow> nat \<Rightarrow> string option" where
  "signature_of strTmp iPosTmp =
     (case str_find SIGN_FORMAT_STR (drop iPosTmp strTmp) of
        None \<Rightarrow> None
      | Some k \<Rightarrow>
          (let iPosEnd = length strTmp - 1;
               iPosBegin = sign_begin strTmp (iPosTmp + k + length SIGN_FORMAT_STR) iPosEnd
           in Some (if iPosBegin < iPosEnd
                    then let iPosEnd = sign_end strTmp iPosBegin iPosEnd
                         in take (iPosEnd - iPosBegin + 1) (drop iPosBegin strTmp)
                    else [])))"

definition CheckFileSign :: "hmac \<Rightarrow> string \<Rightarrow> file_world \<Rightarrow> string \<Rightarrow> string list \<Rightarrow> int" where
  "CheckFileSign hm root W strFileName vecSigns =
     (case List.find (\<lambda>l. str_find strFileName l \<noteq> None) vecSigns of
        None \<Rightarrow> ERROR_COMMON_SCRIPT_SIGN_CHECK_FAILED
      | Some strTmp \<Rightarrow>
          (case signature_of strTmp (the (str_find strFileName strTmp) + length strFileName) of
             None \<Rightarrow> ERROR_COMMON_SCRIPT_SIGN_CHECK_FAILED
           | Some strSignEncrypt \<Rightarrow> CheckSign hm root W strFileName strSignEncrypt))"

text \<open>The names of the scripts that are signed.\<close>

definition sign_scripts :: "string list" where
  "sign_scripts = [''agent_func.sh'', ''agent_start.sh'', ''agent_stop.sh'', ''db2clusterinfo.sh'',
     ''db2info.sh'', ''db2luninfo.sh'', ''db2recover.sh'', ''db2resourcegroup.sh'', ''db2sample.sh'', ''initiator.sh'', ''oraasmaction.sh'',
     ''oraclecheckarchive.sh'', ''oracleclusterinfo.sh'', ''oracleconsistent.sh'', ''oracleinfo.sh'', ''oracleinst.sh'', ''oracleluninfo.sh'',
     ''oraclepdbinfo.sh'', ''oraclecheckcdb.sh'', ''oraclepdbstart.sh'',
     ''oracleresourcegroup.sh'', ''oracletest.sh'', ''oradbaction.sh'', ''procmonitor.sh'', ''lvmfunc.sh'', ''packlog.sh'', ''rotatenginxlog.sh'',
     ''cachefunc.sh'', ''cacheclusterinfo.sh'', ''cacheinfo.sh'', ''cacheluninfo.sh'', ''cachesample.sh'', ''scandisk.sh'',
     ''hanaconsistent.sh'', ''hanarecover.sh'', ''hanatest.sh'', ''hanafunc.sh'', ''sybaseconsistent.sh'', ''sybaserecover.sh'',
     ''sybasetest.sh'', ''sybasefunc.sh'']"

definition SIGN_SCRIPT_LIST :: string where
  "SIGN_SCRIPT_LIST = join_sep CHR '';'' sign_scripts"

fun check_signs :: "hmac \<Rightarrow> string \<Rightarrow> file_world \<Rightarrow> string list \<Rightarrow> string list \<Rightarrow> int" where
  "check_signs hm root W [] vecSigns = MP_SUCCESS"
| "check_signs hm root W (n # ns) vecSigns =
     (let iRet = CheckFileSign hm root W n vecSigns
      in if iRet \<noteq> MP_SUCCESS then iRet else check_signs hm root W ns vecSigns)"

definition CheckScriptSign :: "file_env \<Rightarrow> hmac \<Rightarrow> string \<Rightarrow> file_world \<Rightarrow> string \<Rightarrow> int" where
  "CheckScriptSign E hm root W strFileName =
     (if str_find strFileName SIGN_SCRIPT_LIST = None then MP_SUCCESS
      else let strScriptSignFile = GetConfFilePath root AGENT_SCRIPT_SIGN in
      if \<not> Mp_FileExist W strScriptSignFile then ERROR_COMMON_SCRIPT_SIGN_CHECK_FAILED
      else case Mp_ReadFile E W strScriptSignFile [] of
             (vecSigns, iRet) \<Rightarrow>
               if iRet \<noteq> MP_SUCCESS \<or> length vecSigns = 0 then iRet
               else check_signs hm root W (map fst (GetScriptNames strFileName)) vecSigns)"

section \<open>What the check means\<close>

lemma check_signs_iff:
  "check_signs hm root W ns v = MP_SUCCESS \<longleftrightarrow> (\<forall>n\<in>set ns. CheckFileSign hm root W n v = MP_SUCCESS)"
  by (induction ns) (auto simp: Let_def)

lemma GetScriptNames_keys: "set (map fst (GetScriptNames n)) = {n, SCRIPT_AGENT_FUNC}"
  by (cases "n = SCRIPT_AGENT_FUNC") (auto simp: GetScriptNames_def)

text \<open>A file passes when its line holds a signature that the comparison accepts.\<close>

definition signed :: "hmac \<Rightarrow> string \<Rightarrow> file_world \<Rightarrow> string \<Rightarrow> string list \<Rightarrow> bool" where
  "signed hm root W n v =
     list_ex (\<lambda>l. case str_find n l of
        None \<Rightarrow> False
      | Some i \<Rightarrow> (case signature_of l (i + length n) of
           None \<Rightarrow> False
         | Some sg \<Rightarrow> sg \<noteq> [] \<and> hm W (GetBinFilePath root n) sg = MP_SUCCESS)) v"

lemma CheckFileSign_signed: "CheckFileSign hm root W n v = MP_SUCCESS \<Longrightarrow> signed hm root W n v"
  by (auto simp: CheckFileSign_def signed_def CheckSign_def find_Some_iff list_ex_iff split: option.splits if_splits)

lemma CheckScriptSign_signed:
  assumes "CheckScriptSign E hm root W n = MP_SUCCESS" "str_find n SIGN_SCRIPT_LIST \<noteq> None"
  obtains (empty) "fw_text W (GetConfFilePath root AGENT_SCRIPT_SIGN) = Some []"
  | (signed) t where "fw_text W (GetConfFilePath root AGENT_SCRIPT_SIGN) = Some t"
      "signed hm root W n (file_lines t)" "signed hm root W SCRIPT_AGENT_FUNC (file_lines t)"
proof -
  obtain t where t: "fw_text W (GetConfFilePath root AGENT_SCRIPT_SIGN) = Some t"
    using assms by (auto simp: CheckScriptSign_def Mp_FileExist_def Let_def split: if_splits)
  show ?thesis
  proof (cases "t = []")
    case False
    then have ne: "file_lines t \<noteq> []" by (subst file_lines.simps) simp
    with t False assms have "check_signs hm root W (map fst (GetScriptNames n)) (file_lines t) = MP_SUCCESS"
      by (auto simp: CheckScriptSign_def Mp_FileExist_def Let_def Mp_ReadFile_def split: if_splits)
    then have "CheckFileSign hm root W n (file_lines t) = MP_SUCCESS"
      "CheckFileSign hm root W SCRIPT_AGENT_FUNC (file_lines t) = MP_SUCCESS"
      unfolding check_signs_iff GetScriptNames_keys by simp_all
    then show ?thesis using signed [OF t] by (simp add: CheckFileSign_signed)
  qed (use empty t in simp)
qed

text \<open>With an empty file of signatures every script passes, whatever it contains.\<close>

lemma CheckScriptSign_empty:
  assumes "fw_text W (GetConfFilePath root AGENT_SCRIPT_SIGN) = Some []"
    and "fe_fopen_r E (GetConfFilePath root AGENT_SCRIPT_SIGN)" "fe_fclose E (GetConfFilePath root AGENT_SCRIPT_SIGN)"
  shows "CheckScriptSign E hm root W n = MP_SUCCESS"
  using assms by (simp add: CheckScriptSign_def Mp_FileExist_def Let_def Mp_ReadFile_def)



text \<open>A signature of at least two characters is read from its line; a shorter one is taken as missing.\<close>

lemma sign_end_stop: "b < e \<Longrightarrow> \<not> sign_blank (s ! e) \<Longrightarrow> sign_end s b e = e"
  by (cases e) simp_all

lemma signature_of_line:
  assumes "2 \<le> length sg" "\<not> sign_blank (hd sg)" "\<not> sign_blank (last sg)"
  shows "signature_of (n @ CHR ''='' # sg) (length n) = Some sg"
proof -
  let ?l = "n @ CHR ''='' # sg" and ?e = "length n + length sg"
  have "sg \<noteq> []" using assms(1) by auto
  then have nth: "?l ! (length n + 1) = hd sg" "?l ! ?e = last sg"
    by (simp_all add: nth_append hd_conv_nth last_conv_nth)
  have "sign_begin ?l (length n + 1) ?e = length n + 1"
    by (subst sign_begin.simps) (use nth(1) assms(2) in simp)
  moreover have "sign_end ?l (length n + 1) ?e = ?e"
    by (rule sign_end_stop) (use nth(2) assms(1,3) in simp_all)
  ultimately show ?thesis using assms(1) by (simp add: signature_of_def)
qed

lemma signature_of_short: "length sg \<le> 1 \<Longrightarrow> signature_of (n @ CHR ''='' # sg) (length n) = Some []"
  by (simp add: signature_of_def Let_def sign_begin.simps)

end
