(* ===== verification/SystemExec.thy ===== *)
theory SystemExec
  imports Sign
begin

text \<open>
  The execution of commands by the shell: \<^verbatim>\<open>CSystemExec\<close> (\<^verbatim>\<open>src/src/common/SystemExec.cpp\<close>, Linux
  part). The shell itself is a parameter: what a command line does to the files, what it prints and how
  it ends.
\<close>

section \<open>The shell\<close>

datatype wait_status = Exited "8 word" | Killed

datatype popen_result = PopenFailed | Ran string "wait_status option" \<comment> \<open>\<open>None\<close>: \<open>pclose\<close> fails\<close>

record exec_env =
  xe_files :: file_env
  xe_uid :: int
  xe_shell :: "string \<Rightarrow> file_world \<Rightarrow> file_world \<times> popen_result"
  xe_hmac :: hmac

abbreviation MAX_MAIN_CMD_LENGTH :: nat where "MAX_MAIN_CMD_LENGTH \<equiv> 1000"
abbreviation AGENT_LOG_NAME :: string where "AGENT_LOG_NAME \<equiv> ''rdagent.log''"
abbreviation ROOT_EXEC_LOG_NAME :: string where "ROOT_EXEC_LOG_NAME \<equiv> ''rootexec.log''"
abbreviation AGENT_THIRDPARTY_DIR :: string where "AGENT_THIRDPARTY_DIR \<equiv> ''thirdparty''"

text \<open>\<^verbatim>\<open>snprintf_s\<close> with a count below the size of the buffer: the text must fit.\<close>

definition snprintf_s :: "nat \<Rightarrow> string \<Rightarrow> string option" where
  "snprintf_s cnt t = (if length t \<le> cnt then Some t else None)"

definition log_file :: "exec_env \<Rightarrow> string \<Rightarrow> string" where
  "log_file X root = BlankComma (GetLogFilePath root (if xe_uid X = 0 then ROOT_EXEC_LOG_NAME else AGENT_LOG_NAME))"

definition ExecSystemWithoutEcho :: "exec_env \<Rightarrow> string \<Rightarrow> string \<Rightarrow> bool \<Rightarrow> file_world \<Rightarrow> file_world \<times> int" where
  "ExecSystemWithoutEcho X root strCommand bNeedRedirect W =
     (if \<not> CheckCmdDelimiter strCommand then (W, ERROR_COMMON_INVALID_PARAM)
      else let strNewCommand = (if bNeedRedirect then strCommand @ '' 1>>'' @ log_file X root @ '' 2>&1'' else strCommand)
           in case xe_shell X (c_str strNewCommand) W of
                (W, PopenFailed) \<Rightarrow> (W, ERROR_COMMON_SYSTEM_CALL_FAILED)
              | (W, Ran out None) \<Rightarrow> (W, ERROR_COMMON_SYSTEM_CALL_FAILED)
              | (W, Ran out (Some (Exited st))) \<Rightarrow> (W, uint st)
              | (W, Ran out (Some Killed)) \<Rightarrow> (W, ERROR_COMMON_SYSTEM_CALL_FAILED))"

text \<open>
  The output in the pieces that \<^verbatim>\<open>fgets\<close> reads with a buffer of \<open>n + 1\<close> bytes; each piece loses its last
  byte, a newline or not, and an empty piece is left out.
\<close>

function fgets_pieces :: "nat \<Rightarrow> string \<Rightarrow> string list" where
  "fgets_pieces n t =
     (if t = [] then []
      else let k = min (Suc n) (case find_index (\<lambda>c. c = CHR 0x0A) t of None \<Rightarrow> length t | Some i \<Rightarrow> Suc i)
           in take k t # fgets_pieces n (drop k t))"
  by pat_completeness auto
termination
  by (relation "measure (\<lambda>(n, t). length t)") (auto split: option.split)

declare fgets_pieces.simps [simp del]

definition echo_piece :: "string \<Rightarrow> string list" where
  "echo_piece buf =
     (let s = butlast (c_str buf) in if s = [] \<or> hd s = CHR 0x0A then [] else [s])"

definition ExecSystemWithEcho :: "exec_env \<Rightarrow> string \<Rightarrow> string \<Rightarrow> string list \<Rightarrow> bool \<Rightarrow> file_world \<Rightarrow> file_world \<times> string list \<times> int" where
  "ExecSystemWithEcho X root strCommand strEcho bNeedRedirect W =
     (if \<not> CheckCmdDelimiter strCommand then (W, strEcho, ERROR_COMMON_INVALID_PARAM)
      else let strNewCommand = (if bNeedRedirect then strCommand @ '' 2>>'' @ log_file X root else strCommand)
           in case xe_shell X (c_str strNewCommand) W of
                (W, PopenFailed) \<Rightarrow> (W, strEcho, ERROR_COMMON_SYSTEM_CALL_FAILED)
              | (W, Ran out st) \<Rightarrow> (W, strEcho @ concat (map echo_piece (fgets_pieces 998 out)), MP_SUCCESS))"

section \<open>Scripts\<close>

text \<open>The script path and the agent path are quoted, and the parameter is written, when the check passes.\<close>

definition CheckExecParam :: "exec_env \<Rightarrow> string \<Rightarrow> string \<Rightarrow> string \<Rightarrow> bool \<Rightarrow> string \<Rightarrow> string \<Rightarrow> string \<Rightarrow> file_world
    \<Rightarrow> file_world \<times> string \<times> string \<times> int" where
  "CheckExecParam X root strScriptFileName strParam bNeedCheckSign strAgentPath strScriptFilePath strUniqueID W =
     (if \<not> Mp_FileExist W (c_str strScriptFilePath) then (W, strAgentPath, strScriptFilePath, INTER_ERROR_SRCIPT_FILE_NOT_EXIST)
      else let iRet = (if bNeedCheckSign then CheckScriptSign (xe_files X) (xe_hmac X) root W strScriptFileName else MP_SUCCESS) in
      if iRet \<noteq> MP_SUCCESS then (W, strAgentPath, strScriptFilePath, iRet)
      else let strScriptFilePath = BlankComma strScriptFilePath; strAgentPath = BlankComma strAgentPath in
      if strParam \<noteq> [] then
        (case WriteInput (xe_files X) root strUniqueID strParam W of
           (W, iRet) \<Rightarrow> (W, strAgentPath, strScriptFilePath, iRet))
      else (W, strAgentPath, strScriptFilePath, MP_SUCCESS))"

text \<open>The counter of unique numbers, the files, the result lines (\<^const>\<open>None\<close>: no vector) and the code.\<close>

definition ExecScript :: "exec_env \<Rightarrow> string \<Rightarrow> string \<Rightarrow> string \<Rightarrow> string list option \<Rightarrow> bool \<Rightarrow> int \<times> file_world
    \<Rightarrow> (int \<times> file_world) \<times> string list option \<times> int" where
  "ExecScript X root strScriptFileName strParam pvecResult bNeedCheckSign st =
     (case st of (m_iUniqueID, W) \<Rightarrow>
      case UniqueID_GetString m_iUniqueID of (m_iUniqueID, strUniqueID) \<Rightarrow>
      case CheckExecParam X root strScriptFileName strParam bNeedCheckSign root (GetBinFilePath root strScriptFileName) strUniqueID W of
        (W, strAgentPath, strScriptFilePath, iRet) \<Rightarrow>
      if iRet \<noteq> MP_SUCCESS then ((m_iUniqueID, W), pvecResult, iRet)
      else let bIsThirdParty = (str_find AGENT_THIRDPARTY_DIR strScriptFileName \<noteq> None);
               t = (if bIsThirdParty
                    then c_str strScriptFilePath @ '' '' @ c_str strUniqueID @ '' '' @ c_str strAgentPath
                    else c_str strScriptFilePath @ '' '' @ c_str strAgentPath @ '' '' @ c_str strUniqueID)
           in case snprintf_s (MAX_MAIN_CMD_LENGTH - 1) t of
                None \<Rightarrow> ((m_iUniqueID, W), pvecResult, MP_FAILED)
              | Some strCmd \<Rightarrow>
                  (case ExecSystemWithoutEcho X root strCmd True W of
                     (W, iRet) \<Rightarrow>
                       if \<not> bIsThirdParty \<and> iRet \<noteq> MP_SUCCESS then ((m_iUniqueID, W), pvecResult, iRet)
                       else case (case pvecResult of
                                    None \<Rightarrow> (W, None, MP_SUCCESS)
                                  | Some v \<Rightarrow>
                                      (case (if bIsThirdParty then ReadOldResult (xe_files X) root strUniqueID v W
                                             else ReadResult (xe_files X) root strUniqueID v W) of
                                         (W, v, iRet1) \<Rightarrow> (W, Some v, iRet1))) of
                              (W, pvecResult, iRet1) \<Rightarrow>
                                ((m_iUniqueID, W), pvecResult, if iRet = MP_SUCCESS then iRet1 else iRet)))"

section \<open>Output\<close>

text \<open>Lines of less than 999 bytes are echoed one by one, without the empty ones.\<close>

lemma find_index_append: "\<not> list_ex P s \<Longrightarrow> find_index P (s @ t) = map_option ((+) (length s)) (find_index P t)"
  by (induction s) (cases "find_index P t"; simp)+

lemma fgets_pieces_line:
  assumes "CHR 0x0A \<notin> set l" "length l \<le> n"
  shows "fgets_pieces n (l @ CHR 0x0A # t) = (l @ [CHR 0x0A]) # fgets_pieces n t"
proof -
  have "find_index (\<lambda>c. c = CHR 0x0A) (l @ CHR 0x0A # t) = Some (length l)"
    using assms(1) by (subst find_index_append) (auto simp: list_ex_iff)
  then show ?thesis using assms(2) by (subst fgets_pieces.simps) (simp add: min_absorb2)
qed

lemma echo_piece_line: "NUL \<notin> set l \<Longrightarrow> CHR 0x0A \<notin> set l \<Longrightarrow> echo_piece (l @ [CHR 0x0A]) = (if l = [] then [] else [l])"
proof -
  assume l: "NUL \<notin> set l" "CHR 0x0A \<notin> set l"
  then have "c_str (l @ [CHR 0x0A]) = l @ [CHR 0x0A]" by (intro c_str_id) (simp add: NUL_literal)
  with l(2) show ?thesis by (cases l) (auto simp: echo_piece_def Let_def butlast_append)
qed

lemma echo_lines:
  assumes "\<And>l. l \<in> set ls \<Longrightarrow> CHR 0x0A \<notin> set l \<and> NUL \<notin> set l \<and> length l \<le> n"
  shows "concat (map echo_piece (fgets_pieces n (print_lines ls))) = filter (\<lambda>l. l \<noteq> []) ls"
  using assms
proof (induction ls)
  case Nil
  then show ?case by (simp add: print_lines_def fgets_pieces.simps)
next
  case (Cons l ls)
  then have "c_str l = l" by (simp add: c_str_id)
  with Cons show ?case by (simp add: print_lines_def fgets_pieces_line echo_piece_line)
qed

text \<open>The status of a command that is echoed is not looked at.\<close>

lemma ExecSystemWithEcho_status:
  "CheckCmdDelimiter cmd \<Longrightarrow> snd (xe_shell X (c_str (cmd @ '' 2>>'' @ log_file X root)) W) = Ran out st \<Longrightarrow>
   snd (snd (ExecSystemWithEcho X root cmd v True W)) = MP_SUCCESS"
  by (auto simp: ExecSystemWithEcho_def Let_def split: prod.splits)

text \<open>A command that has run to its end gives its status, which is no more than 255.\<close>

lemma ExecSystemWithoutEcho_range:
  "snd (ExecSystemWithoutEcho X root cmd b W) \<in> {0..255} \<union> {ERROR_COMMON_INVALID_PARAM, ERROR_COMMON_SYSTEM_CALL_FAILED}"
proof -
  have "uint (s :: 8 word) \<in> {0..255}" for s using uint_bounded [of s] by simp
  then show ?thesis
    by (auto simp: ExecSystemWithoutEcho_def Let_def split: prod.split popen_result.split option.split wait_status.split)
qed

end
