(* ===== verification/Array.thy ===== *)
theory Array
  imports SystemExec
begin

text \<open>
  What the root process asks a disk: \<^verbatim>\<open>CArray\<close> and the capacity query of \<^verbatim>\<open>CDisk\<close>
  (\<^verbatim>\<open>src/src/array/Array.cpp\<close>, Linux part). The SCSI commands are bytes, and a device answers with
  bytes; opening a device and \<^verbatim>\<open>ioctl\<close> are parameters. A read past a buffer makes the whole call
  \<^const>\<open>None\<close>.
\<close>

type_synonym byte = "8 word"
type_synonym i32 = "32 word"

record disk_env =
  de_open :: "string \<Rightarrow> bool \<Rightarrow> bool" \<comment> \<open>for reading and writing, or for reading\<close>
  de_command :: "string \<Rightarrow> byte list \<Rightarrow> byte list option" \<comment> \<open>the answer, when the command succeeds\<close>
  de_capacity :: "string \<Rightarrow> nat \<Rightarrow> bool \<Rightarrow> int \<times> byte \<times> byte list \<times> byte list"
    \<comment> \<open>attempt, large disk: result, status, data and sense bytes\<close>

abbreviation DATA_LEN_256 :: nat where "DATA_LEN_256 \<equiv> 256"
abbreviation DISK_BYTE_OF_SECTOR :: nat where "DISK_BYTE_OF_SECTOR \<equiv> 512"
abbreviation MAX_VENDOR_LEN :: nat where "MAX_VENDOR_LEN \<equiv> 64"
abbreviation MAX_WWN_LEN :: nat where "MAX_WWN_LEN \<equiv> 64"
abbreviation MAX_LUNID_LEN :: nat where "MAX_LUNID_LEN \<equiv> 11"
abbreviation MAX_PAGETCODE_LEN :: nat where "MAX_PAGETCODE_LEN \<equiv> 3"
abbreviation VALUE_LEN :: nat where "VALUE_LEN \<equiv> 64"
abbreviation MAX_SN_HW :: nat where "MAX_SN_HW \<equiv> 21"
abbreviation C8_PAGE_WITH_LUN_ID_LEN :: nat where "C8_PAGE_WITH_LUN_ID_LEN \<equiv> 196"
abbreviation DEF_RLUNS_BUFF_LEN :: nat where "DEF_RLUNS_BUFF_LEN \<equiv> 32768"
abbreviation MAX_RLUNS_BUFF_LEN :: nat where "MAX_RLUNS_BUFF_LEN \<equiv> 65536"

text \<open>A zeroed buffer of \<open>n\<close> bytes after an answer has been copied to its start.\<close>

definition filled :: "nat \<Rightarrow> byte list \<Rightarrow> byte list" where
  "filled n bs = take n bs @ replicate (n - length bs) 0"

definition char_of_byte :: "byte \<Rightarrow> char" where
  "char_of_byte b = char_of (unat b)"

definition c_bytes :: "byte list \<Rightarrow> string" where
  "c_bytes bs = c_str (map char_of_byte bs)"

definition any_open :: "disk_env \<Rightarrow> string \<Rightarrow> bool" where
  "any_open D strDevice \<longleftrightarrow> de_open D strDevice True \<or> de_open D strDevice False"

section \<open>Conversions\<close>

definition hex_digit :: "nat \<Rightarrow> char" where
  "hex_digit n = (if n < 10 then char_of (48 + n) else char_of (87 + n))"

definition hex2 :: "byte \<Rightarrow> string" where
  "hex2 b = [hex_digit (unat b div 16), hex_digit (unat b mod 16)]"

text \<open>The text in the destination, which an empty source leaves as it was, and the code.\<close>

definition BinaryToAscii :: "string \<Rightarrow> nat \<Rightarrow> byte list \<Rightarrow> nat \<Rightarrow> nat \<Rightarrow> (string \<times> int) option" where
  "BinaryToAscii pszHexBuffer iBufferLen pucBuffer iStartBuf iLength =
     (if iBufferLen - 1 < iLength * 2 then Some (pszHexBuffer, MP_FAILED)
      else if iLength = 0 then Some (pszHexBuffer, MP_SUCCESS)
      else if iStartBuf + iLength > length pucBuffer then None
      else Some (concat (map hex2 (take iLength (drop iStartBuf pucBuffer))), MP_SUCCESS))"

definition ConvertLUNIDtoAscii :: "nat \<Rightarrow> byte list \<Rightarrow> nat \<Rightarrow> (string \<times> int) option" where
  "ConvertLUNIDtoAscii iBufferLen puszLunLunID iLen =
     (if iBufferLen - 1 < iLen then Some ([], MP_FAILED)
      else if iLen div 2 > length puszLunLunID then None
      else Some (concat (map hex2 (take (iLen div 2) puszLunLunID)), MP_SUCCESS))"

fun CalStep :: "nat \<Rightarrow> i32" where
  "CalStep 0 = 1"
| "CalStep (Suc iStep) = CalStep iStep * 16"

definition HexEncode :: "char \<Rightarrow> nat \<Rightarrow> i32 \<Rightarrow> i32 \<times> int" where
  "HexEncode cHex iStep iDecNum =
     (let c = char_code cHex in
      if \<not> (65 \<le> c \<and> c \<le> 70 \<or> 97 \<le> c \<and> c \<le> 102) then (iDecNum, MP_FAILED)
      else let c = (if 97 \<le> c \<and> c \<le> 122 then c - 32 else c)
           in (iDecNum + of_nat (c - 55) * CalStep iStep, MP_SUCCESS))"

fun hex_loop :: "string \<Rightarrow> i32 \<Rightarrow> i32 option" where
  "hex_loop [] iDecNum = Some iDecNum"
| "hex_loop (h # hs) iDecNum =
     (let c = char_code h; iStep = length hs in
      if c = 48 then hex_loop hs iDecNum
      else if 48 < c \<and> c \<le> 57 then hex_loop hs (iDecNum + of_nat (c - 48) * CalStep iStep)
      else if 97 \<le> c \<and> c \<le> 102 \<or> 65 \<le> c \<and> c \<le> 70 then hex_loop hs (fst (HexEncode h iStep iDecNum))
      else None)"

text \<open>The decimal text; a text that does not fit is cut.\<close>

definition HextoDec :: "string \<Rightarrow> nat \<Rightarrow> string \<times> int" where
  "HextoDec pHexStr iMaxLen =
     (case hex_loop pHexStr 0 of
        None \<Rightarrow> ([], MP_FAILED)
      | Some iDecNum \<Rightarrow>
          (let t = IntToString (sint iDecNum)
           in (take (iMaxLen - 1) t, if length t \<le> iMaxLen - 1 then MP_SUCCESS else MP_FAILED)))"

definition IsSupportXXPage :: "string \<Rightarrow> string list \<Rightarrow> bool" where
  "IsSupportXXPage page vecResult = list_ex (\<lambda>p. page = p) vecResult"

definition CheckHuaweiLUN :: "string \<Rightarrow> bool" where
  "CheckHuaweiLUN strVendor \<longleftrightarrow> \<not> (c_str strVendor \<noteq> ''HUAWEI'' \<and> c_str strVendor \<noteq> ''up'' \<and> c_str strVendor \<noteq> ''HUASY'')"

section \<open>Inquiries\<close>

definition GetDiskPage :: "disk_env \<Rightarrow> string \<Rightarrow> byte \<Rightarrow> byte list option" where
  "GetDiskPage D dev ucCmd = map_option (filled DATA_LEN_256) (de_command D dev [0x12, 0x01, ucCmd, 0, 255, 0])"

definition GetVendorAndProduct :: "disk_env \<Rightarrow> string \<Rightarrow> byte list option" where
  "GetVendorAndProduct D dev = map_option (filled DISK_BYTE_OF_SECTOR) (de_command D dev [0x12, 0, 0, 0, 0xff, 0])"

definition GetDiskArrayInfo :: "disk_env \<Rightarrow> string \<Rightarrow> string \<Rightarrow> string \<Rightarrow> string \<times> string \<times> int" where
  "GetDiskArrayInfo D strDevice strVendor strProduct =
     (if \<not> any_open D (c_str strDevice) then (strVendor, strProduct, MP_FAILED)
      else case GetVendorAndProduct D (c_str strDevice) of
             None \<Rightarrow> (strVendor, strProduct, MP_FAILED)
           | Some acBuffer \<Rightarrow> (c_bytes (take 8 (drop 8 acBuffer)), c_bytes (take 16 (drop 16 acBuffer)), MP_SUCCESS))"

fun page_codes :: "byte list \<Rightarrow> nat \<Rightarrow> nat \<Rightarrow> string list \<Rightarrow> string list option" where
  "page_codes buf i 0 vecResult = Some vecResult"
| "page_codes buf i (Suc n) vecResult =
     (case BinaryToAscii [] MAX_PAGETCODE_LEN buf (3 + i) 1 of
        None \<Rightarrow> None
      | Some (pageCode, _) \<Rightarrow> page_codes buf (i + 1) n (vecResult @ [pageCode]))"

definition GetDisk00Page :: "disk_env \<Rightarrow> string \<Rightarrow> (string list \<times> int) option" where
  "GetDisk00Page D strDevice =
     (if \<not> any_open D (c_str strDevice) then Some ([], MP_FAILED)
      else case GetDiskPage D (c_str strDevice) 0x00 of
             None \<Rightarrow> Some ([], MP_FAILED)
           | Some aucBuffer \<Rightarrow>
               (let validLen = unat (aucBuffer ! 3)
                in if validLen = 0 then Some ([], MP_FAILED)
                   else map_option (\<lambda>v. (v, MP_SUCCESS)) (page_codes aucBuffer 1 validLen [])))"

definition GetDiskC8Page :: "disk_env \<Rightarrow> string \<Rightarrow> string \<Rightarrow> string \<times> int" where
  "GetDiskC8Page D strDevice strLunID =
     (if \<not> any_open D (c_str strDevice) then (strLunID, MP_FAILED)
      else case GetDiskPage D (c_str strDevice) 0xC8 of
             None \<Rightarrow> (strLunID, MP_FAILED)
           | Some b \<Rightarrow>
               (if unat (b ! 2) * 256 + unat (b ! 3) + 4 < C8_PAGE_WITH_LUN_ID_LEN then (strLunID, MP_SUCCESS)
                else let lunid = (ucast (b ! 192) :: u32);
                         lunid = or (push_bit 8 lunid) (ucast (b ! 193));
                         lunid = or (push_bit 8 lunid) (ucast (b ! 194));
                         lunid = or (push_bit 8 lunid) (ucast (b ! 195))
                     in (IntToString (uint lunid), MP_SUCCESS)))"

definition GetDisk83Page :: "disk_env \<Rightarrow> string \<Rightarrow> string \<Rightarrow> string \<Rightarrow> (string \<times> string \<times> int) option" where
  "GetDisk83Page D strDevice strLunWWN strLunID =
     (if \<not> any_open D (c_str strDevice) then Some (strLunWWN, strLunID, MP_FAILED)
      else case GetDiskPage D (c_str strDevice) 0x83 of
             None \<Rightarrow> Some (strLunWWN, strLunID, MP_FAILED)
           | Some b \<Rightarrow>
               (let iPageLen = unat (b ! 7)
                in if iPageLen * 2 > MAX_WWN_LEN - 1 then Some (strLunWWN, strLunID, MP_FAILED)
                   else case BinaryToAscii [] MAX_WWN_LEN b 8 iPageLen of
                          None \<Rightarrow> None
                        | Some (acLUNWWN, iRet) \<Rightarrow>
                            if iRet \<noteq> MP_SUCCESS then Some (strLunWWN, strLunID, iRet)
                            else case ConvertLUNIDtoAscii MAX_LUNID_LEN (drop 20 b) 9 of
                                   None \<Rightarrow> None
                                 | Some (acHexData, iRet) \<Rightarrow>
                                     if iRet \<noteq> MP_SUCCESS then Some (acLUNWWN, strLunID, iRet)
                                     else Some (acLUNWWN, fst (HextoDec acHexData MAX_LUNID_LEN), MP_SUCCESS)))"

definition GetDisk80Page :: "disk_env \<Rightarrow> string \<Rightarrow> string \<Rightarrow> string \<times> int" where
  "GetDisk80Page D strDevice strSN =
     (if \<not> any_open D (c_str strDevice) then (strSN, MP_FAILED)
      else case GetDiskPage D (c_str strDevice) 0x80 of
             None \<Rightarrow> (strSN, MP_FAILED)
           | Some b \<Rightarrow>
               (let iPageLen = unat (b ! 3)
                in if iPageLen > VALUE_LEN - 1 then (strSN, MP_FAILED)
                   else (take (MAX_SN_HW - 1) (c_bytes (take iPageLen (drop 4 b))), MP_SUCCESS)))"


section \<open>The list of LUNs\<close>

definition be32 :: "byte list \<Rightarrow> nat \<Rightarrow> u32" where
  "be32 b i = push_bit 24 (ucast (b ! i)) + push_bit 16 (ucast (b ! (i + 1))) + push_bit 8 (ucast (b ! (i + 2))) + ucast (b ! (i + 3))"

fun lun_loop :: "byte list \<Rightarrow> nat \<Rightarrow> nat \<Rightarrow> int list \<Rightarrow> int list option" where
  "lun_loop b off 0 v = Some v"
| "lun_loop b off (Suc n) v =
     (let off = off + 8 in
      if off - 5 \<ge> length b then None
      else let lunID = push_bit 8 (ucast (b ! (off - 8))) + ucast (b ! (off - 7)) +
                         push_bit 24 (ucast (b ! (off - 6))) + push_bit 16 (ucast (b ! (off - 5))) :: i32
           in lun_loop b off n (v @ [sint lunID]))"

definition GetHostLunIDList :: "disk_env \<Rightarrow> string \<Rightarrow> (int list \<times> int) option" where
  "GetHostLunIDList D strDevice =
     (if \<not> de_open D (c_str strDevice) False then Some ([], MP_FAILED)
      else case de_command D (c_str strDevice) [0xa0, 0, 0, 0, 0, 0, 0, 0, 0x80, 0, 0, 0] of
             None \<Rightarrow> Some ([], MP_FAILED)
           | Some r \<Rightarrow>
               (let b = filled MAX_RLUNS_BUFF_LEN (take DEF_RLUNS_BUFF_LEN r);
                    list_len = be32 b 0;
                    lunCount = list_len div 8
                in if list_len + 8 > of_nat DEF_RLUNS_BUFF_LEN then Some ([], MP_FAILED)
                   else map_option (\<lambda>v. (v, MP_SUCCESS)) (lun_loop b 8 (unat lunCount) [])))"

section \<open>The capacity query\<close>

text \<open>
  A command that is answered with a check condition is repeated up to three times; a disk too large for
  the short command is asked again with the long one.
\<close>

function capacity_loop :: "disk_env \<Rightarrow> string \<Rightarrow> nat \<Rightarrow> nat \<Rightarrow> bool \<Rightarrow> byte list option" where
  "capacity_loop D dev attempt iRetryNum bIsBigDisk =
     (case de_capacity D dev attempt bIsBigDisk of
        (iRet, status, data, sense) \<Rightarrow>
          if iRetryNum < 3 \<and> iRet = 0 \<and> and (drop_bit 1 status) 0x7F = 1
          then capacity_loop D dev (attempt + 1) (iRetryNum + 1) bIsBigDisk
          else if iRet < 0 \<or> status \<noteq> 0 then None
          else if \<not> bIsBigDisk \<and> take 4 (filled DISK_BYTE_OF_SECTOR data) = [0xff, 0xff, 0xff, 0xff]
          then capacity_loop D dev (attempt + 1) iRetryNum True
          else Some sense)"
  by pat_completeness auto
termination
  by (relation "measure (\<lambda>(D, dev, a, r, big). (3 - r) + (if big then 0 else 1))") auto

declare capacity_loop.simps [simp del]

definition GetDiskCapacity :: "disk_env \<Rightarrow> string \<Rightarrow> string \<Rightarrow> (string \<times> int) option" where
  "GetDiskCapacity D strDevice strBuf =
     (if \<not> any_open D (c_str strDevice) then Some (strBuf, MP_FAILED)
      else case capacity_loop D (c_str strDevice) 0 0 False of
             None \<Rightarrow> Some (strBuf, MP_FAILED)
           | Some sense \<Rightarrow>
               (let ucSenseBuf = filled 64 sense
                in if 0 \<notin> set ucSenseBuf then None else Some (c_bytes ucSenseBuf, MP_SUCCESS)))"

record sense_hdr =
  ucResponseCode :: byte
  ucSenseKey :: byte
  ucAsc :: byte
  ucAscq :: byte
  ucAdditionalLength :: byte

definition byte_of :: "string \<Rightarrow> nat \<Rightarrow> byte" where
  "byte_of s i = (if i < length s then of_nat (of_char (s ! i)) else 0)"

definition ScsiNormalizeSense :: "string \<Rightarrow> sense_hdr \<times> int" where
  "ScsiNormalizeSense strBuf =
     (let h = \<lparr>ucResponseCode = and (byte_of strBuf 0) 0x7f, ucSenseKey = 0, ucAsc = 0, ucAscq = 0, ucAdditionalLength = 0\<rparr> in
      if and (ucResponseCode h) 0x70 = 0x70 then (h, MP_FAILED)
      else let iSBLen = int (length strBuf) in
      if ucResponseCode h \<ge> 0x72 then
        (let h = (if iSBLen > 1 then h\<lparr>ucSenseKey := and (byte_of strBuf 1) 0xf\<rparr> else h);
             h = (if iSBLen > 2 then h\<lparr>ucAsc := byte_of strBuf 2\<rparr> else h);
             h = (if iSBLen > 3 then h\<lparr>ucAscq := byte_of strBuf 3\<rparr> else h)
         in (if iSBLen > 7 then h\<lparr>ucAdditionalLength := byte_of strBuf 7\<rparr> else h, MP_SUCCESS))
      else let h = (if iSBLen > 2 then h\<lparr>ucSenseKey := and (byte_of strBuf 2) 0xf\<rparr> else h) in
      if iSBLen > 7 then
        (let l = sint (byte_of strBuf 7) + 8;
             iSBLen = (if iSBLen < l then iSBLen else l);
             h = (if iSBLen > 12 then h\<lparr>ucAsc := byte_of strBuf 12\<rparr> else h)
         in (if iSBLen > 13 then h\<lparr>ucAscq := byte_of strBuf 13\<rparr> else h, MP_SUCCESS))
      else (h, MP_SUCCESS))"

definition IsSdisk :: "string \<Rightarrow> bool" where
  "IsSdisk strDevice \<longleftrightarrow> str_find ''sd'' strDevice = Some 0"

section \<open>Bounds\<close>

lemma length_filled [simp]: "length (filled n bs) = n"
  by (simp add: filled_def)

lemma hex2_in_code [simp]: "BinaryToAscii [] MAX_PAGETCODE_LEN buf i (Suc 0) = (if i < length buf then Some (hex2 (buf ! i), MP_SUCCESS) else None)"
  by (auto simp: BinaryToAscii_def take_Suc_conv_app_nth hd_drop_conv_nth take_Suc split: if_splits)

lemma page_codes_eq:
  "page_codes buf i n v =
     (if n = 0 \<or> 3 + i + n \<le> length buf then Some (v @ map hex2 (take n (drop (3 + i) buf))) else None)"
proof (induction buf i n v rule: page_codes.induct)
  case (1 buf i v)
  then show ?case by simp
next
  case (2 buf i n v)
  show ?case
  proof (cases "3 + i < length buf")
    case True
    then have "take (Suc n) (drop (3 + i) buf) = buf ! (3 + i) # take n (drop (3 + (i + 1)) buf)"
      by (simp add: Cons_nth_drop_Suc [symmetric])
    with True 2 show ?thesis by simp
  qed simp
qed

lemma BinaryToAscii_inside: "s + n \<le> length b \<Longrightarrow> BinaryToAscii [] len b s n =
    Some (if len - 1 < n * 2 then ([], MP_FAILED) else (concat (map hex2 (take n (drop s b))), MP_SUCCESS))"
  by (simp add: BinaryToAscii_def)

lemma ConvertLUNIDtoAscii_inside: "n div 2 \<le> length b \<Longrightarrow> ConvertLUNIDtoAscii len b n =
    Some (if len - 1 < n then ([], MP_FAILED) else (concat (map hex2 (take (n div 2) b)), MP_SUCCESS))"
  by (simp add: ConvertLUNIDtoAscii_def)

text \<open>Page 83 never reads past its buffer: the number and the world wide name are what the bytes say.\<close>

lemma GetDisk83Page_eq:
  assumes "any_open D (c_str dev)" "GetDiskPage D (c_str dev) 0x83 = Some b" "length b = DATA_LEN_256"
  shows "GetDisk83Page D dev w l =
    Some (if unat (b ! 7) \<le> 31
          then (concat (map hex2 (take (unat (b ! 7)) (drop 8 b))),
                fst (HextoDec (concat (map hex2 (take 4 (drop 20 b)))) MAX_LUNID_LEN), MP_SUCCESS)
          else (w, l, MP_FAILED))"
proof (cases "unat (b ! 7) \<le> 31")
  case True
  then have "8 + unat (b ! 7) \<le> length b" "\<not> MAX_WWN_LEN - 1 < unat (b ! 7) * 2" using assms(3) by simp_all
  moreover have "ConvertLUNIDtoAscii MAX_LUNID_LEN (drop 20 b) 9 = Some (concat (map hex2 (take 4 (drop 20 b))), MP_SUCCESS)"
    using ConvertLUNIDtoAscii_inside [of 9 "drop 20 b" MAX_LUNID_LEN] assms(3) by simp
  ultimately show ?thesis using True assms(1,2) by (simp add: GetDisk83Page_def Let_def BinaryToAscii_inside)
next
  case False
  with assms(1,2) show ?thesis by (simp add: GetDisk83Page_def Let_def)
qed

lemma lun_loop_defined: "off + 8 * n \<le> length b \<Longrightarrow> lun_loop b off n v \<noteq> None"
  by (induction b off n v rule: lun_loop.induct) (auto simp: Let_def)

lemma lun_loop_past: "off + 8 * n > length b + 4 \<Longrightarrow> n > 0 \<Longrightarrow> lun_loop b off n v = None"
  by (induction b off n v rule: lun_loop.induct) (auto simp: Let_def)


section \<open>What the queries give\<close>

lemma GetDisk00Page_bounds:
  assumes "any_open D (c_str dev)" "GetDiskPage D (c_str dev) 0x00 = Some b" "length b = DATA_LEN_256"
  shows "GetDisk00Page D dev =
    (if b ! 3 = 0 then Some ([], MP_FAILED)
     else if unat (b ! 3) \<le> 252 then Some (map hex2 (take (unat (b ! 3)) (drop 4 b)), MP_SUCCESS)
     else None)"
  using assms by (simp add: GetDisk00Page_def Let_def page_codes_eq unat_eq_0)

lemma CalStep_eq: "CalStep k = 16 ^ k"
  by (induction k) simp_all

lemma hex_loop_digit:
  assumes "n < 16"
  shows "hex_loop (hex_digit n # hs) acc = hex_loop hs (acc + of_nat n * 16 ^ length hs)"
proof -
  have "n \<in> {0, 1, 2, 3, 4, 5, 6, 7, 8, 9, 10, 11, 12, 13, 14, 15}" using assms by (simp add: numeral_eq_Suc less_Suc_eq)
  then show ?thesis
    by (elim insertE) (simp_all add: hex_digit_def char_code_def HexEncode_def CalStep_eq Let_def)
qed

lemma byte_digits: "of_nat (unat b div 16) * (16 * k) + of_nat (unat b mod 16) * k = (ucast (b :: byte) * k :: i32)"
proof -
  have "(of_nat (unat b div 16) * 16 + of_nat (unat b mod 16) :: i32) = of_nat (unat b div 16 * 16 + unat b mod 16)"
    by (simp only: of_nat_add of_nat_mult of_nat_numeral)
  also have "\<dots> = ucast b" by (simp add: div_mult_mod_eq)
  finally have "(of_nat (unat b div 16) * 16 + of_nat (unat b mod 16)) * k = ucast b * k" by simp
  then show ?thesis by (simp only: distrib_right mult.assoc)
qed

lemma hex_loop_byte: "hex_loop (hex2 b @ hs) acc = hex_loop hs (acc + ucast b * 16 ^ length hs)"
proof -
  have "unat b div 16 < 16" using unsigned_less [where 'a = nat, of b] by (simp add: less_mult_imp_div_less)
  then show ?thesis
    using byte_digits [of b "16 ^ length hs"] by (simp add: hex2_def hex_loop_digit add.assoc del: hex_loop.simps)
qed

lemma length_hex2 [simp]: "length (hex2 b) = 2"
  by (simp add: hex2_def)

text \<open>Eight hexadecimal digits are read as a signed number of 32 bits, and its text is cut after ten characters.\<close>

lemma HextoDec_bytes:
  "HextoDec (concat (map hex2 [b0, b1, b2, b3])) MAX_LUNID_LEN =
     (let t = IntToString (sint (ucast b0 * 16 ^ 6 + ucast b1 * 16 ^ 4 + ucast b2 * 16 ^ 2 + ucast b3 :: i32))
      in (take 10 t, if length t \<le> 10 then MP_SUCCESS else MP_FAILED))"
  using hex_loop_byte [of b3 "[]"] by (simp add: HextoDec_def hex_loop_byte add.assoc)

text \<open>The length of the list of LUNs wraps around in the test against the size of the answer.\<close>

lemma GetHostLunIDList_bounds:
  assumes "de_open D (c_str dev) False"
    and "de_command D (c_str dev) [0xa0, 0, 0, 0, 0, 0, 0, 0, 0x80, 0, 0, 0] = Some r"
    and "ln = unat (be32 (filled MAX_RLUNS_BUFF_LEN (take DEF_RLUNS_BUFF_LEN r)) 0)"
  shows "(GetHostLunIDList D dev = None \<longleftrightarrow> ln \<ge> 2 ^ 32 - 8) \<and> (ln \<le> DEF_RLUNS_BUFF_LEN - 8 \<longleftrightarrow> (\<exists>v. GetHostLunIDList D dev = Some (v, MP_SUCCESS)))"
proof -
  define b where "b = filled MAX_RLUNS_BUFF_LEN (take DEF_RLUNS_BUFF_LEN r)"
  define l where "l = be32 b 0"
  have ln: "ln = unat l" "ln < 2 ^ 32" using assms(3) unsigned_less [of l] by (simp_all add: b_def l_def)
  have wrap: "unat (l + 8) = (if ln \<ge> 2 ^ 32 - 8 then ln + 8 - 2 ^ 32 else ln + 8)"
    using ln by (auto simp: unat_word_ariths mod_if)
  have "l + 8 > of_nat DEF_RLUNS_BUFF_LEN \<longleftrightarrow> DEF_RLUNS_BUFF_LEN < unat (l + 8)"
    by (simp add: word_less_nat_alt)
  then have big: "l + 8 > of_nat DEF_RLUNS_BUFF_LEN \<longleftrightarrow> DEF_RLUNS_BUFF_LEN - 8 < ln \<and> ln < 2 ^ 32 - 8"
    using wrap ln(2) by auto
  have cnt: "unat (l div 8) = ln div 8" by (simp add: ln unat_div)
  have eq: "GetHostLunIDList D dev = (if DEF_RLUNS_BUFF_LEN - 8 < ln \<and> ln < 2 ^ 32 - 8 then Some ([], MP_FAILED)
      else map_option (\<lambda>v. (v, MP_SUCCESS)) (lun_loop b 8 (ln div 8) []))"
    using big cnt assms(1) by (simp add: GetHostLunIDList_def Let_def assms(2) flip: b_def) (simp flip: l_def)
  have def: "lun_loop b 8 (ln div 8) [] \<noteq> None" if "ln \<le> DEF_RLUNS_BUFF_LEN - 8"
    using that by (intro lun_loop_defined) (simp add: b_def)
  have undef: "lun_loop b 8 (ln div 8) [] = None" if "ln \<ge> 2 ^ 32 - 8"
    using that by (intro lun_loop_past) (auto simp: b_def)
  show ?thesis using eq def undef by (cases "ln \<ge> 2 ^ 32 - 8") auto
qed

text \<open>
  The answer to the capacity query is the text of the sense bytes, which a command that succeeds does
  not send, and not of the data, which holds the capacity.
\<close>

lemma GetDiskCapacity_answer:
  assumes "any_open D (c_str dev)" "de_capacity D (c_str dev) 0 False = (0, 0, data, sense)"
    and "take 4 (filled DISK_BYTE_OF_SECTOR data) \<noteq> [0xff, 0xff, 0xff, 0xff]" "0 \<in> set (filled 64 sense)"
  shows "GetDiskCapacity D dev s = Some (c_bytes (filled 64 sense), MP_SUCCESS)"
  using assms by (subst GetDiskCapacity_def) (simp add: capacity_loop.simps Let_def)

text \<open>Exactly the answers with a response code for sense data are refused, so the branch for descriptors is dead.\<close>

lemma ScsiNormalizeSense_refuses: "snd (ScsiNormalizeSense s) = MP_SUCCESS \<longleftrightarrow> and (byte_of s 0) 0x70 \<noteq> 0x70"
proof -
  have "and (and (byte_of s 0) 0x7f) 0x70 = and (byte_of s 0) (0x70 :: byte)"
    by (simp add: and.assoc)
  then show ?thesis by (simp add: ScsiNormalizeSense_def Let_def)
qed

end
