(* ===== verification/RootCommands.thy ===== *)
theory RootCommands
  imports Prelude
begin

text \<open>
  The commands of the root process: the enumeration of \<^verbatim>\<open>src/inc/common/RootCaller.h\<close> and the tables of
  \<^verbatim>\<open>CCommandMap\<close> (\<^verbatim>\<open>src/src/rootexec/SystemCall.cpp\<close>), with one list for each function that fills
  them. \<^verbatim>\<open>insert\<close> keeps the first value of a key, as \<^const>\<open>map_of\<close> does.
\<close>

section \<open>Commands\<close>

abbreviation ROOT_COMMAND_SCRIPT_BEGIN :: int where "ROOT_COMMAND_SCRIPT_BEGIN \<equiv> 0"
abbreviation ROOT_COMMAND_SCRIPT_ORACLE :: int where "ROOT_COMMAND_SCRIPT_ORACLE \<equiv> 1"
abbreviation ROOT_COMMAND_SCRIPT_DB2 :: int where "ROOT_COMMAND_SCRIPT_DB2 \<equiv> 2"
abbreviation ROOT_COMMAND_SCRIPT_CACHE :: int where "ROOT_COMMAND_SCRIPT_CACHE \<equiv> 3"
abbreviation ROOT_COMMAND_SCRIPT_QUERYDB2INFO :: int where "ROOT_COMMAND_SCRIPT_QUERYDB2INFO \<equiv> 4"
abbreviation ROOT_COMMAND_SCRIPT_QUERYDB2LUNINFO :: int where "ROOT_COMMAND_SCRIPT_QUERYDB2LUNINFO \<equiv> 5"
abbreviation ROOT_COMMAND_SCRIPT_RECOVERDB2 :: int where "ROOT_COMMAND_SCRIPT_RECOVERDB2 \<equiv> 6"
abbreviation ROOT_COMMAND_SCRIPT_SAMPLEDB2 :: int where "ROOT_COMMAND_SCRIPT_SAMPLEDB2 \<equiv> 7"
abbreviation ROOT_COMMAND_SCRIPT_QUERYDB2CLUSTERINFO :: int where "ROOT_COMMAND_SCRIPT_QUERYDB2CLUSTERINFO \<equiv> 8"
abbreviation ROOT_COMMAND_SCRIPT_DB2RESOURCEGROUP :: int where "ROOT_COMMAND_SCRIPT_DB2RESOURCEGROUP \<equiv> 9"
abbreviation ROOT_COMMAND_SCRIPT_QUERYORACLEINFO :: int where "ROOT_COMMAND_SCRIPT_QUERYORACLEINFO \<equiv> 10"
abbreviation ROOT_COMMAND_SCRIPT_QUERYORACLEPDBINFO :: int where "ROOT_COMMAND_SCRIPT_QUERYORACLEPDBINFO \<equiv> 11"
abbreviation ROOT_COMMAND_SCRIPT_STARTORACLEPDB :: int where "ROOT_COMMAND_SCRIPT_STARTORACLEPDB \<equiv> 12"
abbreviation ROOT_COMMAND_SCRIPT_QUERYORACLELUNINFO :: int where "ROOT_COMMAND_SCRIPT_QUERYORACLELUNINFO \<equiv> 13"
abbreviation ROOT_COMMAND_SCRIPT_QUERYORACLECLUSTERINFO :: int where "ROOT_COMMAND_SCRIPT_QUERYORACLECLUSTERINFO \<equiv> 14"
abbreviation ROOT_COMMAND_SCRIPT_ORACLERESOURCEGROUP :: int where "ROOT_COMMAND_SCRIPT_ORACLERESOURCEGROUP \<equiv> 15"
abbreviation ROOT_COMMAND_SCRIPT_ORACLECHECKCDB :: int where "ROOT_COMMAND_SCRIPT_ORACLECHECKCDB \<equiv> 16"
abbreviation ROOT_COMMAND_SCRIPT_TESTORACLE :: int where "ROOT_COMMAND_SCRIPT_TESTORACLE \<equiv> 17"
abbreviation ROOT_COMMAND_SCRIPT_CHECKARCHIVETHRESHOLD :: int where "ROOT_COMMAND_SCRIPT_CHECKARCHIVETHRESHOLD \<equiv> 18"
abbreviation ROOT_COMMAND_SCRIPT_FREEZEORACLE :: int where "ROOT_COMMAND_SCRIPT_FREEZEORACLE \<equiv> 19"
abbreviation ROOT_COMMAND_SCRIPT_THAWORACLE :: int where "ROOT_COMMAND_SCRIPT_THAWORACLE \<equiv> 20"
abbreviation ROOT_COMMAND_SCRIPT_ARCHIVEORACLE :: int where "ROOT_COMMAND_SCRIPT_ARCHIVEORACLE \<equiv> 21"
abbreviation ROOT_COMMAND_SCRIPT_TRUNCATEARCHIVELOGORACLE :: int where "ROOT_COMMAND_SCRIPT_TRUNCATEARCHIVELOGORACLE \<equiv> 22"
abbreviation ROOT_COMMAND_SCRIPT_STARTASMINSTANCE :: int where "ROOT_COMMAND_SCRIPT_STARTASMINSTANCE \<equiv> 23"
abbreviation ROOT_COMMAND_SCRIPT_STOPASMINSTANCE :: int where "ROOT_COMMAND_SCRIPT_STOPASMINSTANCE \<equiv> 24"
abbreviation ROOT_COMMAND_SCRIPT_STARTORACLEDB :: int where "ROOT_COMMAND_SCRIPT_STARTORACLEDB \<equiv> 25"
abbreviation ROOT_COMMAND_SCRIPT_STOPORACLEDB :: int where "ROOT_COMMAND_SCRIPT_STOPORACLEDB \<equiv> 26"
abbreviation ROOT_COMMAND_SCRIPT_QUERYCACHEINFO :: int where "ROOT_COMMAND_SCRIPT_QUERYCACHEINFO \<equiv> 27"
abbreviation ROOT_COMMAND_SCRIPT_QUERYCACHELUNINFO :: int where "ROOT_COMMAND_SCRIPT_QUERYCACHELUNINFO \<equiv> 28"
abbreviation ROOT_COMMAND_SCRIPT_SAMPLECACHE :: int where "ROOT_COMMAND_SCRIPT_SAMPLECACHE \<equiv> 29"
abbreviation ROOT_COMMAND_SCRIPT_QUERYCACHECLUSTERINFO :: int where "ROOT_COMMAND_SCRIPT_QUERYCACHECLUSTERINFO \<equiv> 30"
abbreviation ROOT_COMMAND_SCRIPT_INIT :: int where "ROOT_COMMAND_SCRIPT_INIT \<equiv> 31"
abbreviation ROOT_COMMAND_THIRDPARTY :: int where "ROOT_COMMAND_THIRDPARTY \<equiv> 32"
abbreviation ROOT_COMMAND_SCRIPT_PACKAGELOG :: int where "ROOT_COMMAND_SCRIPT_PACKAGELOG \<equiv> 33"
abbreviation ROOT_COMMAND_SCRIPT_SCANDISK :: int where "ROOT_COMMAND_SCRIPT_SCANDISK \<equiv> 34"
abbreviation ROOT_COMMAND_SCRIPT_FREEZESYBASE :: int where "ROOT_COMMAND_SCRIPT_FREEZESYBASE \<equiv> 35"
abbreviation ROOT_COMMAND_SCRIPT_THAWSYBASE :: int where "ROOT_COMMAND_SCRIPT_THAWSYBASE \<equiv> 36"
abbreviation ROOT_COMMAND_SCRIPT_QUERYFREEZESTATUS :: int where "ROOT_COMMAND_SCRIPT_QUERYFREEZESTATUS \<equiv> 37"
abbreviation ROOT_COMMAND_SCRIPT_STARTSYBASE :: int where "ROOT_COMMAND_SCRIPT_STARTSYBASE \<equiv> 38"
abbreviation ROOT_COMMAND_SCRIPT_STOPSYBASE :: int where "ROOT_COMMAND_SCRIPT_STOPSYBASE \<equiv> 39"
abbreviation ROOT_COMMAND_SCRIPT_TESTSYBASE :: int where "ROOT_COMMAND_SCRIPT_TESTSYBASE \<equiv> 40"
abbreviation ROOT_COMMAND_SCRIPT_FREEZEHANA :: int where "ROOT_COMMAND_SCRIPT_FREEZEHANA \<equiv> 41"
abbreviation ROOT_COMMAND_SCRIPT_THAWHANA :: int where "ROOT_COMMAND_SCRIPT_THAWHANA \<equiv> 42"
abbreviation ROOT_COMMAND_SCRIPT_QUERYHANAFREEZESTATUS :: int where "ROOT_COMMAND_SCRIPT_QUERYHANAFREEZESTATUS \<equiv> 43"
abbreviation ROOT_COMMAND_SCRIPT_STARTHANA :: int where "ROOT_COMMAND_SCRIPT_STARTHANA \<equiv> 44"
abbreviation ROOT_COMMAND_SCRIPT_STOPHANA :: int where "ROOT_COMMAND_SCRIPT_STOPHANA \<equiv> 45"
abbreviation ROOT_COMMAND_SCRIPT_TESTHANA :: int where "ROOT_COMMAND_SCRIPT_TESTHANA \<equiv> 46"
abbreviation ROOT_COMMAND_SCRIPT_END :: int where "ROOT_COMMAND_SCRIPT_END \<equiv> 47"
abbreviation ROOT_COMMAND_SYSTEM_BEGIN :: int where "ROOT_COMMAND_SYSTEM_BEGIN \<equiv> 100"
abbreviation ROOT_COMMAND_NETSTAT :: int where "ROOT_COMMAND_NETSTAT \<equiv> 101"
abbreviation ROOT_COMMAND_FSCK :: int where "ROOT_COMMAND_FSCK \<equiv> 102"
abbreviation ROOT_COMMAND_FSTYP :: int where "ROOT_COMMAND_FSTYP \<equiv> 103"
abbreviation ROOT_COMMAND_PS :: int where "ROOT_COMMAND_PS \<equiv> 104"
abbreviation ROOT_COMMAND_ECHO :: int where "ROOT_COMMAND_ECHO \<equiv> 105"
abbreviation ROOT_COMMAND_DF :: int where "ROOT_COMMAND_DF \<equiv> 106"
abbreviation ROOT_COMMAND_CAT :: int where "ROOT_COMMAND_CAT \<equiv> 107"
abbreviation ROOT_COMMAND_LS :: int where "ROOT_COMMAND_LS \<equiv> 108"
abbreviation ROOT_COMMAND_PVSCAN :: int where "ROOT_COMMAND_PVSCAN \<equiv> 109"
abbreviation ROOT_COMMAND_VXDISK_SCAN :: int where "ROOT_COMMAND_VXDISK_SCAN \<equiv> 110"
abbreviation ROOT_COMMAND_VXDISK_E :: int where "ROOT_COMMAND_VXDISK_E \<equiv> 111"
abbreviation ROOT_COMMAND_BLKID :: int where "ROOT_COMMAND_BLKID \<equiv> 112"
abbreviation ROOT_COMMAND_LSB :: int where "ROOT_COMMAND_LSB \<equiv> 113"
abbreviation ROOT_COMMAND_UDEVADM :: int where "ROOT_COMMAND_UDEVADM \<equiv> 114"
abbreviation ROOT_COMMAND_MOUNT :: int where "ROOT_COMMAND_MOUNT \<equiv> 115"
abbreviation ROOT_COMMAND_LSLV :: int where "ROOT_COMMAND_LSLV \<equiv> 116"
abbreviation ROOT_COMMAND_VGDISPLAY :: int where "ROOT_COMMAND_VGDISPLAY \<equiv> 117"
abbreviation ROOT_COMMAND_LVDISPLAY :: int where "ROOT_COMMAND_LVDISPLAY \<equiv> 118"
abbreviation ROOT_COMMAND_PVS :: int where "ROOT_COMMAND_PVS \<equiv> 119"
abbreviation ROOT_COMMAND_LVS :: int where "ROOT_COMMAND_LVS \<equiv> 120"
abbreviation ROOT_COMMAND_LSVG :: int where "ROOT_COMMAND_LSVG \<equiv> 121"
abbreviation ROOT_COMMAND_LSPV :: int where "ROOT_COMMAND_LSPV \<equiv> 122"
abbreviation ROOT_COMMAND_HAGRP :: int where "ROOT_COMMAND_HAGRP \<equiv> 123"
abbreviation ROOT_COMMAND_HARES :: int where "ROOT_COMMAND_HARES \<equiv> 124"
abbreviation ROOT_COMMAND_HASYS :: int where "ROOT_COMMAND_HASYS \<equiv> 125"
abbreviation ROOT_COMMAND_HASTART :: int where "ROOT_COMMAND_HASTART \<equiv> 126"
abbreviation ROOT_COMMAND_HOSTNAME :: int where "ROOT_COMMAND_HOSTNAME \<equiv> 127"
abbreviation ROOT_COMMAND_CLLSNODE :: int where "ROOT_COMMAND_CLLSNODE \<equiv> 128"
abbreviation ROOT_COMMAND_LSSRC :: int where "ROOT_COMMAND_LSSRC \<equiv> 129"
abbreviation ROOT_COMMAND_CLFINDRES :: int where "ROOT_COMMAND_CLFINDRES \<equiv> 130"
abbreviation ROOT_COMMAND_CMVIEWCL :: int where "ROOT_COMMAND_CMVIEWCL \<equiv> 131"
abbreviation ROOT_COMMAND_CMRUNCL :: int where "ROOT_COMMAND_CMRUNCL \<equiv> 132"
abbreviation ROOT_COMMAND_STARTPOWERHA :: int where "ROOT_COMMAND_STARTPOWERHA \<equiv> 133"
abbreviation ROOT_COMMAND_RHCS_CLUSTAT :: int where "ROOT_COMMAND_RHCS_CLUSTAT \<equiv> 134"
abbreviation ROOT_COMMAND_RHCS_SERVICE :: int where "ROOT_COMMAND_RHCS_SERVICE \<equiv> 135"
abbreviation ROOT_COMMNAD_RHCS_CLUSCVADM :: int where "ROOT_COMMNAD_RHCS_CLUSCVADM \<equiv> 136"
abbreviation ROOT_COMMNAD_CLRG :: int where "ROOT_COMMNAD_CLRG \<equiv> 137"
abbreviation ROOT_COMMAND_UMOUNT :: int where "ROOT_COMMAND_UMOUNT \<equiv> 138"
abbreviation ROOT_COMMAND_SED :: int where "ROOT_COMMAND_SED \<equiv> 139"
abbreviation ROOT_COMMAND_LSMOD :: int where "ROOT_COMMAND_LSMOD \<equiv> 140"
abbreviation ROOT_COMMAND_LVCHANGE :: int where "ROOT_COMMAND_LVCHANGE \<equiv> 141"
abbreviation ROOT_COMMAND_VGCHANGE :: int where "ROOT_COMMAND_VGCHANGE \<equiv> 142"
abbreviation ROOT_COMMAND_VGS :: int where "ROOT_COMMAND_VGS \<equiv> 143"
abbreviation ROOT_COMMAND_PVDISPLAY :: int where "ROOT_COMMAND_PVDISPLAY \<equiv> 144"
abbreviation ROOT_COMMAND_VARYONVG :: int where "ROOT_COMMAND_VARYONVG \<equiv> 145"
abbreviation ROOT_COMMAND_VARYOFFVG :: int where "ROOT_COMMAND_VARYOFFVG \<equiv> 146"
abbreviation ROOT_COMMAND_HOTADD :: int where "ROOT_COMMAND_HOTADD \<equiv> 147"
abbreviation ROOT_COMMAND_IOSCAN :: int where "ROOT_COMMAND_IOSCAN \<equiv> 148"
abbreviation ROOT_COMMAND_IOSCANFNC :: int where "ROOT_COMMAND_IOSCANFNC \<equiv> 149"
abbreviation ROOT_COMMAND_RMSF :: int where "ROOT_COMMAND_RMSF \<equiv> 150"
abbreviation ROOT_COMMAND_MKNOD :: int where "ROOT_COMMAND_MKNOD \<equiv> 151"
abbreviation ROOT_COMMAND_SCSIMGR :: int where "ROOT_COMMAND_SCSIMGR \<equiv> 152"
abbreviation ROOT_COMMAND_CFGMGR :: int where "ROOT_COMMAND_CFGMGR \<equiv> 153"
abbreviation ROOT_COMMAND_CFGADM :: int where "ROOT_COMMAND_CFGADM \<equiv> 154"
abbreviation ROOT_COMMAND_RENDEV :: int where "ROOT_COMMAND_RENDEV \<equiv> 155"
abbreviation ROOT_COMMAND_DEVFSADM :: int where "ROOT_COMMAND_DEVFSADM \<equiv> 156"
abbreviation ROOT_COMMAND_CHMOD :: int where "ROOT_COMMAND_CHMOD \<equiv> 157"
abbreviation ROOT_COMMAND_CHOWN :: int where "ROOT_COMMAND_CHOWN \<equiv> 158"
abbreviation ROOT_COMMAND_ORACLEASM :: int where "ROOT_COMMAND_ORACLEASM \<equiv> 159"
abbreviation ROOT_COMMAND_SERVICE :: int where "ROOT_COMMAND_SERVICE \<equiv> 160"
abbreviation ROOT_COMMAND_RAW :: int where "ROOT_COMMAND_RAW \<equiv> 161"
abbreviation ROOT_COMMAND_LN :: int where "ROOT_COMMAND_LN \<equiv> 162"
abbreviation ROOT_COMMAND_RM :: int where "ROOT_COMMAND_RM \<equiv> 163"
abbreviation ROOT_COMMAND_STRINGS :: int where "ROOT_COMMAND_STRINGS \<equiv> 164"
abbreviation ROOT_COMMAND_VGIMPORT :: int where "ROOT_COMMAND_VGIMPORT \<equiv> 165"
abbreviation ROOT_COMMAND_VGEXPORT :: int where "ROOT_COMMAND_VGEXPORT \<equiv> 166"
abbreviation ROOT_COMMAND_RMDEV :: int where "ROOT_COMMAND_RMDEV \<equiv> 167"
abbreviation ROOT_COMMAND_EXPORTVG :: int where "ROOT_COMMAND_EXPORTVG \<equiv> 168"
abbreviation ROOT_COMMAND_IMPORTVG :: int where "ROOT_COMMAND_IMPORTVG \<equiv> 169"
abbreviation ROOT_COMMAND_VXDG_LIST :: int where "ROOT_COMMAND_VXDG_LIST \<equiv> 170"
abbreviation ROOT_COMMAND_VXDG_IMPORT :: int where "ROOT_COMMAND_VXDG_IMPORT \<equiv> 171"
abbreviation ROOT_COMMAND_VXDG_DEPORT :: int where "ROOT_COMMAND_VXDG_DEPORT \<equiv> 172"
abbreviation ROOT_COMMAND_VXVOL :: int where "ROOT_COMMAND_VXVOL \<equiv> 173"
abbreviation ROOT_COMMAND_VXPRINT :: int where "ROOT_COMMAND_VXPRINT \<equiv> 174"
abbreviation ROOT_COMMAND_VXDISK :: int where "ROOT_COMMAND_VXDISK \<equiv> 175"
abbreviation ROOT_COMMAND_UPDATE_DRV :: int where "ROOT_COMMAND_UPDATE_DRV \<equiv> 176"
abbreviation ROOT_COMMAND_SCANASMLIB :: int where "ROOT_COMMAND_SCANASMLIB \<equiv> 177"
abbreviation ROOT_COMMAND_SYSTEM_END :: int where "ROOT_COMMAND_SYSTEM_END \<equiv> 178"
abbreviation ROOT_COMMAND_MAC :: int where "ROOT_COMMAND_MAC \<equiv> 179"
abbreviation ROOT_COMMAND_80PAGE :: int where "ROOT_COMMAND_80PAGE \<equiv> 180"
abbreviation ROOT_COMMAND_83PAGE :: int where "ROOT_COMMAND_83PAGE \<equiv> 181"
abbreviation ROOT_COMMAND_00PAGE :: int where "ROOT_COMMAND_00PAGE \<equiv> 182"
abbreviation ROOT_COMMAND_C8PAGE :: int where "ROOT_COMMAND_C8PAGE \<equiv> 183"
abbreviation ROOT_COMMAND_CAPACITY :: int where "ROOT_COMMAND_CAPACITY \<equiv> 184"
abbreviation ROOT_COMMAND_VENDORANDPRODUCT :: int where "ROOT_COMMAND_VENDORANDPRODUCT \<equiv> 185"
abbreviation ROOT_COMMAND_RAW_MINOR_MAJOR :: int where "ROOT_COMMAND_RAW_MINOR_MAJOR \<equiv> 186"
abbreviation ROOT_COMMAND_FILESYS_FREEZE :: int where "ROOT_COMMAND_FILESYS_FREEZE \<equiv> 187"
abbreviation ROOT_COMMAND_FILESYS_THAW :: int where "ROOT_COMMAND_FILESYS_THAW \<equiv> 188"
abbreviation ROOT_COMMAND_BATCH_GETLUN_INFO :: int where "ROOT_COMMAND_BATCH_GETLUN_INFO \<equiv> 189"
abbreviation ROOT_COMMAND_UDEV_RELOAD_RULES :: int where "ROOT_COMMAND_UDEV_RELOAD_RULES \<equiv> 190"
abbreviation ROOT_COMMAND_SYNC_DATA_FILE :: int where "ROOT_COMMAND_SYNC_DATA_FILE \<equiv> 191"
abbreviation ROOT_COMMAND_BUTT :: int where "ROOT_COMMAND_BUTT \<equiv> 192"

section \<open>Tables\<close>

definition InitDB2ScriptMap :: "(int \<times> string) list" where
  "InitDB2ScriptMap = [
    (ROOT_COMMAND_SCRIPT_INIT, ''initiator.sh''),
    (ROOT_COMMAND_SCRIPT_PACKAGELOG, ''packlog.sh''),
    (ROOT_COMMAND_SCRIPT_QUERYDB2INFO, ''db2info.sh''),
    (ROOT_COMMAND_SCRIPT_QUERYDB2LUNINFO, ''db2luninfo.sh''),
    (ROOT_COMMAND_SCRIPT_RECOVERDB2, ''db2recover.sh''),
    (ROOT_COMMAND_SCRIPT_SAMPLEDB2, ''db2sample.sh''),
    (ROOT_COMMAND_SCRIPT_QUERYDB2CLUSTERINFO, ''db2clusterinfo.sh''),
    (ROOT_COMMAND_SCRIPT_DB2RESOURCEGROUP, ''db2resourcegroup.sh'')]"

definition InitOracleScriptMap :: "(int \<times> string) list" where
  "InitOracleScriptMap = [
    (ROOT_COMMAND_SCRIPT_QUERYORACLEINFO, ''oracleinfo.sh''),
    (ROOT_COMMAND_SCRIPT_QUERYORACLEPDBINFO, ''oraclepdbinfo.sh''),
    (ROOT_COMMAND_SCRIPT_STARTORACLEPDB, ''oraclepdbstart.sh''),
    (ROOT_COMMAND_SCRIPT_QUERYORACLELUNINFO, ''oracleluninfo.sh''),
    (ROOT_COMMAND_SCRIPT_QUERYORACLECLUSTERINFO, ''oracleclusterinfo.sh''),
    (ROOT_COMMAND_SCRIPT_TESTORACLE, ''oracletest.sh''),
    (ROOT_COMMAND_SCRIPT_CHECKARCHIVETHRESHOLD, ''oraclecheckarchive.sh''),
    (ROOT_COMMAND_SCRIPT_FREEZEORACLE, ''oracleconsistent.sh''),
    (ROOT_COMMAND_SCRIPT_THAWORACLE, ''oracleconsistent.sh''),
    (ROOT_COMMAND_SCRIPT_ARCHIVEORACLE, ''oracleconsistent.sh''),
    (ROOT_COMMAND_SCRIPT_TRUNCATEARCHIVELOGORACLE, ''oracleconsistent.sh''),
    (ROOT_COMMAND_SCRIPT_STARTASMINSTANCE, ''oraasmaction.sh''),
    (ROOT_COMMAND_SCRIPT_STOPASMINSTANCE, ''oraasmaction.sh''),
    (ROOT_COMMAND_SCRIPT_STARTORACLEDB, ''oradbaction.sh''),
    (ROOT_COMMAND_SCRIPT_STOPORACLEDB, ''oradbaction.sh''),
    (ROOT_COMMAND_SCRIPT_ORACLERESOURCEGROUP, ''oracleresourcegroup.sh''),
    (ROOT_COMMAND_SCRIPT_ORACLECHECKCDB, ''oraclecheckcdb.sh'')]"

definition InitCacheScriptMap :: "(int \<times> string) list" where
  "InitCacheScriptMap = [
    (ROOT_COMMAND_SCRIPT_QUERYCACHEINFO, ''cacheinfo.sh''),
    (ROOT_COMMAND_SCRIPT_QUERYCACHELUNINFO, ''cacheluninfo.sh''),
    (ROOT_COMMAND_SCRIPT_SAMPLECACHE, ''cachesample.sh''),
    (ROOT_COMMAND_SCRIPT_QUERYCACHECLUSTERINFO, ''cacheclusterinfo.sh'')]"

definition InitHostScriptMap :: "(int \<times> string) list" where
  "InitHostScriptMap = [
    (ROOT_COMMAND_SCRIPT_SCANDISK, ''scandisk.sh'')]"

definition InitSybaseScriptMap :: "(int \<times> string) list" where
  "InitSybaseScriptMap = [
    (ROOT_COMMAND_SCRIPT_FREEZESYBASE, ''sybaseconsistent.sh''),
    (ROOT_COMMAND_SCRIPT_THAWSYBASE, ''sybaseconsistent.sh''),
    (ROOT_COMMAND_SCRIPT_QUERYFREEZESTATUS, ''sybaseconsistent.sh''),
    (ROOT_COMMAND_SCRIPT_STARTSYBASE, ''sybaserecover.sh''),
    (ROOT_COMMAND_SCRIPT_STOPSYBASE, ''sybaserecover.sh''),
    (ROOT_COMMAND_SCRIPT_TESTSYBASE, ''sybasetest.sh'')]"

definition InitHanaScriptMap :: "(int \<times> string) list" where
  "InitHanaScriptMap = [
    (ROOT_COMMAND_SCRIPT_FREEZEHANA, ''hanaconsistent.sh''),
    (ROOT_COMMAND_SCRIPT_THAWHANA, ''hanaconsistent.sh''),
    (ROOT_COMMAND_SCRIPT_QUERYHANAFREEZESTATUS, ''hanaconsistent.sh''),
    (ROOT_COMMAND_SCRIPT_STARTHANA, ''hanarecover.sh''),
    (ROOT_COMMAND_SCRIPT_STOPHANA, ''hanarecover.sh''),
    (ROOT_COMMAND_SCRIPT_TESTHANA, ''hanatest.sh'')]"

definition InitSysCmdMap1 :: "(int \<times> string) list" where
  "InitSysCmdMap1 = [
    (ROOT_COMMAND_NETSTAT, ''netstat''),
    (ROOT_COMMAND_PS, ''ps -aef''),
    (ROOT_COMMAND_FSCK, ''fsck''),
    (ROOT_COMMAND_FSTYP, ''fstyp''),
    (ROOT_COMMAND_ECHO, ''echo''),
    (ROOT_COMMAND_DF, ''df -i''),
    (ROOT_COMMAND_CAT, ''cat''),
    (ROOT_COMMAND_LS, ''ls -l''),
    (ROOT_COMMAND_PVSCAN, ''pvscan'')]"

definition InitSysCmdMap2 :: "(int \<times> string) list" where
  "InitSysCmdMap2 = [
    (ROOT_COMMAND_BLKID, ''blkid''),
    (ROOT_COMMAND_LSB, ''lsb_release -a''),
    (ROOT_COMMAND_UDEVADM, ''udevadm info''),
    (ROOT_COMMAND_MOUNT, ''mount''),
    (ROOT_COMMAND_LSLV, ''lslv''),
    (ROOT_COMMAND_VGDISPLAY, ''vgdisplay''),
    (ROOT_COMMAND_LVDISPLAY, ''lvdisplay''),
    (ROOT_COMMAND_PVS, ''pvs''),
    (ROOT_COMMAND_LVS, ''lvs''),
    (ROOT_COMMAND_LSVG, ''lsvg''),
    (ROOT_COMMAND_LSPV, ''lspv'')]"

definition InitSysCmdMap3 :: "(int \<times> string) list" where
  "InitSysCmdMap3 = [
    (ROOT_COMMAND_HAGRP, ''hagrp''),
    (ROOT_COMMAND_HASYS, ''hasys''),
    (ROOT_COMMAND_HASTART, ''hastart''),
    (ROOT_COMMAND_HARES, ''hares''),
    (ROOT_COMMAND_CLLSNODE, ''/usr/es/sbin/cluster/utilities/cllsnode''),
    (ROOT_COMMAND_CLFINDRES, ''/usr/es/sbin/cluster/utilities/clfindres''),
    (ROOT_COMMAND_LSSRC, ''lssrc''),
    (ROOT_COMMAND_STARTPOWERHA, ''_SPOC_FORCE=Y /usr/es/sbin/cluster/cspoc/fix_args nop cl_rc.cluster''),
    (ROOT_COMMAND_UMOUNT, ''umount'')]"

definition InitSysCmdMap4 :: "(int \<times> string) list" where
  "InitSysCmdMap4 = [
    (ROOT_COMMAND_SED, ''sed''),
    (ROOT_COMMAND_LSMOD, ''lsmod''),
    (ROOT_COMMAND_LVCHANGE, ''lvchange''),
    (ROOT_COMMAND_VGCHANGE, ''vgchange''),
    (ROOT_COMMAND_VGS, ''vgs''),
    (ROOT_COMMAND_PVDISPLAY, ''pvdisplay''),
    (ROOT_COMMAND_VARYONVG, ''varyonvg''),
    (ROOT_COMMAND_VARYOFFVG, ''varyoffvg''),
    (ROOT_COMMAND_HOSTNAME, ''hostname''),
    (ROOT_COMMAND_HOTADD, ''/usr/sbin/hot_add''),
    (ROOT_COMMAND_IOSCAN, ''ioscan''),
    (ROOT_COMMAND_IOSCANFNC, ''ioscan -fnC disk'')]"

definition InitSysCmdMap5 :: "(int \<times> string) list" where
  "InitSysCmdMap5 = [
    (ROOT_COMMAND_RMSF, ''rmsf''),
    (ROOT_COMMAND_MKNOD, ''mknod''),
    (ROOT_COMMAND_SCSIMGR, ''scsimgr''),
    (ROOT_COMMAND_CFGMGR, ''cfgmgr -v''),
    (ROOT_COMMAND_CFGADM, ''cfgadm -al''),
    (ROOT_COMMAND_DEVFSADM, ''devfsadm''),
    (ROOT_COMMAND_RENDEV, ''rendev -l''),
    (ROOT_COMMAND_CHMOD, ''chmod''),
    (ROOT_COMMAND_CHOWN, ''chown''),
    (ROOT_COMMAND_ORACLEASM, ''oracleasm scandisks''),
    (ROOT_COMMAND_SERVICE, ''/sbin/service''),
    (ROOT_COMMAND_RAW, ''raw''),
    (ROOT_COMMAND_LN, ''ln -f -s''),
    (ROOT_COMMAND_RM, ''rm'')]"

definition InitSysCmdMap6 :: "(int \<times> string) list" where
  "InitSysCmdMap6 = [
    (ROOT_COMMAND_STRINGS, ''strings''),
    (ROOT_COMMAND_VGIMPORT, ''vgimport''),
    (ROOT_COMMAND_VGEXPORT, ''vgexport''),
    (ROOT_COMMAND_RMDEV, ''rmdev''),
    (ROOT_COMMAND_EXPORTVG, ''exportvg''),
    (ROOT_COMMAND_IMPORTVG, ''importvg''),
    (ROOT_COMMAND_VXDG_LIST, ''vxdg list''),
    (ROOT_COMMAND_VXDG_IMPORT, ''vxdg -C import''),
    (ROOT_COMMAND_VXDG_DEPORT, ''vxdg deport''),
    (ROOT_COMMAND_VXVOL, ''vxvol''),
    (ROOT_COMMAND_VXDISK, ''vxdisk''),
    (ROOT_COMMAND_UPDATE_DRV, ''update_drv''),
    (ROOT_COMMAND_VXPRINT, ''vxprint''),
    (ROOT_COMMAND_SCANASMLIB, ''/usr/sbin/oracleasm scandisks''),
    (ROOT_COMMAND_CMVIEWCL, ''cmviewcl''),
    (ROOT_COMMAND_CMRUNCL, ''cmruncl''),
    (ROOT_COMMAND_RHCS_CLUSTAT, ''clustat''),
    (ROOT_COMMAND_RHCS_SERVICE, ''service''),
    (ROOT_COMMNAD_RHCS_CLUSCVADM, ''cluscvadm''),
    (ROOT_COMMNAD_CLRG, ''clrg'')]"

definition InitNeedEchoCmdMap1 :: "int list" where
  "InitNeedEchoCmdMap1 = [ROOT_COMMAND_NETSTAT, ROOT_COMMAND_CAT, ROOT_COMMAND_PS, ROOT_COMMAND_LS, ROOT_COMMAND_PVS,
    ROOT_COMMAND_LSVG, ROOT_COMMAND_HASYS, ROOT_COMMAND_CLLSNODE, ROOT_COMMAND_LSSRC, ROOT_COMMAND_HOSTNAME,
    ROOT_COMMAND_VXDISK]"

definition InitNeedEchoCmdMap2 :: "int list" where
  "InitNeedEchoCmdMap2 = [ROOT_COMMAND_HAGRP, ROOT_COMMAND_HARES, ROOT_COMMAND_VGDISPLAY, ROOT_COMMAND_LVS, ROOT_COMMAND_LSVG,
    ROOT_COMMAND_IOSCAN, ROOT_COMMAND_CLFINDRES, ROOT_COMMAND_CMVIEWCL, ROOT_COMMAND_STRINGS, ROOT_COMMAND_RHCS_CLUSTAT,
    ROOT_COMMAND_FSTYP, ROOT_COMMAND_VXDG_LIST, ROOT_COMMNAD_CLRG, ROOT_COMMAND_MOUNT]"

definition CCommandMap :: "(int \<times> string) list" where
  "CCommandMap = InitDB2ScriptMap @ InitOracleScriptMap @ InitCacheScriptMap @
     InitHostScriptMap @ InitSybaseScriptMap @ InitHanaScriptMap @
     InitSysCmdMap1 @ InitSysCmdMap2 @ InitSysCmdMap3 @ InitSysCmdMap4 @ InitSysCmdMap5 @ InitSysCmdMap6"

definition m_mapNeedEcho :: "int list" where
  "m_mapNeedEcho = InitNeedEchoCmdMap1 @ InitNeedEchoCmdMap2"

definition GetCommandString :: "int \<Rightarrow> string" where
  "GetCommandString iCommandID = (case map_of CCommandMap iCommandID of Some s \<Rightarrow> s | None \<Rightarrow> ''unknown'')"

definition NeedEcho :: "int \<Rightarrow> bool" where
  "NeedEcho iCommandID = list_ex (\<lambda>c. c = iCommandID) m_mapNeedEcho"

lemmas root_tables = CCommandMap_def InitDB2ScriptMap_def InitOracleScriptMap_def InitCacheScriptMap_def InitHostScriptMap_def InitSybaseScriptMap_def InitHanaScriptMap_def InitSysCmdMap1_def InitSysCmdMap2_def InitSysCmdMap3_def InitSysCmdMap4_def InitSysCmdMap5_def InitSysCmdMap6_def

lemmas root_echo = m_mapNeedEcho_def InitNeedEchoCmdMap1_def InitNeedEchoCmdMap2_def

end
