(* ===== verification/RootExec.thy ===== *)
theory RootExec
  imports Array RootCommands
begin

text \<open>
  The root process: \<^verbatim>\<open>main\<close> (\<^verbatim>\<open>src/src/rootexec/RootExecMain.cpp\<close>) and \<^verbatim>\<open>CSystemCall\<close>
  (\<^verbatim>\<open>src/src/rootexec/SystemCall.cpp\<close>), Linux part. It reads its parameter from the input file of its
  unique number, runs one command and leaves the result in the result file. A run that reads past a
  buffer is \<^const>\<open>None\<close>. What \<^verbatim>\<open>getopt\<close> finds in the arguments is an argument of \<^verbatim>\<open>main\<close>.
\<close>

section \<open>The environment\<close>

record root_env =
  rx_exec :: exec_env
  rx_disk :: disk_env
  rx_raw :: "int \<Rightarrow> (int \<times> int) option" \<comment> \<open>major and minor number of a bound raw device\<close>
  rx_realpath :: "string \<Rightarrow> string option"
  rx_open :: "string \<Rightarrow> bool"
  rx_fsync :: "string \<Rightarrow> bool"
  rx_fre_supp :: bool
  rx_freeze :: "string \<Rightarrow> bool"
  rx_thaw :: "string \<Rightarrow> int option" \<comment> \<open>the error number when it fails\<close>
  rx_pid :: int
  rx_pgrp :: int
  rx_dirname :: "string \<Rightarrow> string option"
  rx_config :: "string \<Rightarrow> int"
  rx_setuid :: int
  rx_root_gid :: "int option"
  rx_setgid :: "int \<Rightarrow> int"
  rx_crypt :: int

type_synonym root_result = "(file_world \<times> int) option"

abbreviation HOST_OS_REDHAT :: int where "HOST_OS_REDHAT \<equiv> 2"
abbreviation HOST_OS_SUSE :: int where "HOST_OS_SUSE \<equiv> 6"
abbreviation HOST_OS_ORACLE_LINUX :: int where "HOST_OS_ORACLE_LINUX \<equiv> 7"
abbreviation HOST_OS_OTHER_LINUX :: int where "HOST_OS_OTHER_LINUX \<equiv> 8"
abbreviation AGENT_XML_CONF :: string where "AGENT_XML_CONF \<equiv> ''agent_cfg.xml''"
abbreviation THAW_ERR :: int where "THAW_ERR \<equiv> 22"

section \<open>Parameters and commands\<close>

definition GetParamFromTmpFile :: "root_env \<Rightarrow> string \<Rightarrow> string \<Rightarrow> string \<Rightarrow> file_world \<Rightarrow> file_world \<times> string \<times> int" where
  "GetParamFromTmpFile X root strUniqueID strParam W =
     (if Mp_FileExist W (c_str (GetTmpFilePath root (INPUT_TMP_FILE @ strUniqueID)))
      then ReadInput (xe_files (rx_exec X)) root strUniqueID strParam W
      else (W, strParam, MP_SUCCESS))"

definition ExecSysCmd :: "root_env \<Rightarrow> string \<Rightarrow> string \<Rightarrow> int \<Rightarrow> file_world \<Rightarrow> root_result" where
  "ExecSysCmd X root strUniqueID iCommandID W =
     (case GetParamFromTmpFile X root strUniqueID [] W of
        (W, strParam, iRet) \<Rightarrow>
          if iRet \<noteq> MP_SUCCESS then Some (W, iRet)
          else let strExecCmd = GetCommandString iCommandID @ '' '' @ strParam in
          if NeedEcho iCommandID then
            (case ExecSystemWithEcho (rx_exec X) root strExecCmd [] True W of
               (W, vecResult, iRet) \<Rightarrow>
                 if iRet \<noteq> MP_SUCCESS then Some (W, iRet)
                 else Some (WriteResult (xe_files (rx_exec X)) root strUniqueID vecResult W))
          else Some (ExecSystemWithoutEcho (rx_exec X) root strExecCmd (iCommandID \<noteq> ROOT_COMMAND_ECHO) W))"

definition root_ExecScript :: "root_env \<Rightarrow> string \<Rightarrow> string \<Rightarrow> int \<Rightarrow> file_world \<Rightarrow> root_result" where
  "root_ExecScript X root strUniqueID iCommandID W =
     (let E = rx_exec X; strScriptName = GetCommandString iCommandID; strScriptPath = GetBinFilePath root strScriptName in
      if \<not> Mp_FileExist W (c_str strScriptPath) then Some (W, INTER_ERROR_SRCIPT_FILE_NOT_EXIST)
      else if CheckScriptSign (xe_files E) (xe_hmac E) root W strScriptName \<noteq> MP_SUCCESS
      then Some (W, ERROR_SCRIPT_COMMON_EXEC_FAILED)
      else case snprintf_s (MAX_MAIN_CMD_LENGTH - 1)
                  (c_str (BlankComma strScriptPath) @ '' '' @ c_str (BlankComma root) @ '' '' @ c_str strUniqueID) of
             None \<Rightarrow> Some (W, MP_FAILED)
           | Some strCmd \<Rightarrow>
               (case ExecSystemWithoutEcho E root strCmd True W of
                  (W, iRet) \<Rightarrow> Some (fst (ChownResult (xe_files E) root strUniqueID W), iRet)))"

definition ExecThirdPartyScript :: "root_env \<Rightarrow> string \<Rightarrow> string \<Rightarrow> file_world \<Rightarrow> root_result" where
  "ExecThirdPartyScript X root strUniqueID W =
     (case GetParamFromTmpFile X root strUniqueID [] W of
        (W, strParam, iRet) \<Rightarrow>
          if iRet \<noteq> MP_SUCCESS then Some (W, iRet)
          else case str_find '':'' strParam of
                 None \<Rightarrow> Some (W, ERROR_COMMON_INVALID_PARAM)
               | Some pos \<Rightarrow>
                   (let strScriptName = take pos strParam in
                    if \<not> Mp_FileExist W (c_str (GetThirdPartyFilePath root strScriptName))
                    then Some (W, INTER_ERROR_SRCIPT_FILE_NOT_EXIST)
                    else let strCmd = BlankComma (GetThirdPartyPath root @ PATH_SEPARATOR @ strScriptName)
                         in Some (ExecSystemWithoutEcho (rx_exec X) root (strCmd @ '' '' @ strUniqueID @ '' '' @ BlankComma root) True W)))"

section \<open>Disks\<close>

text \<open>A command that reads a device name from its input file and leaves the lines it finds.\<close>

definition disk_command :: "root_env \<Rightarrow> string \<Rightarrow> string \<Rightarrow> (string \<Rightarrow> (string list \<times> int) option) \<Rightarrow> file_world \<Rightarrow> root_result" where
  "disk_command X root strUniqueID query W =
     (case GetParamFromTmpFile X root strUniqueID [] W of
        (W, strDevice, iRet) \<Rightarrow>
          if iRet \<noteq> MP_SUCCESS then Some (W, iRet)
          else case query strDevice of
                 None \<Rightarrow> None
               | Some (vecResult, iRet) \<Rightarrow>
                   if iRet \<noteq> MP_SUCCESS then Some (W, iRet)
                   else Some (WriteResult (xe_files (rx_exec X)) root strUniqueID vecResult W))"

definition SC_GetDisk80Page :: "root_env \<Rightarrow> string \<Rightarrow> string \<Rightarrow> file_world \<Rightarrow> root_result" where
  "SC_GetDisk80Page X root u = disk_command X root u (\<lambda>dev. case GetDisk80Page (rx_disk X) dev [] of (sn, iRet) \<Rightarrow> Some ([sn], iRet))"

definition SC_GetDisk83Page :: "root_env \<Rightarrow> string \<Rightarrow> string \<Rightarrow> file_world \<Rightarrow> root_result" where
  "SC_GetDisk83Page X root u = disk_command X root u
     (\<lambda>dev. map_option (\<lambda>(wwn, lun, iRet). ([wwn, lun], iRet)) (GetDisk83Page (rx_disk X) dev [] []))"

definition SC_GetDisk00Page :: "root_env \<Rightarrow> string \<Rightarrow> string \<Rightarrow> file_world \<Rightarrow> root_result" where
  "SC_GetDisk00Page X root u = disk_command X root u (GetDisk00Page (rx_disk X))"

definition SC_GetDiskC8Page :: "root_env \<Rightarrow> string \<Rightarrow> string \<Rightarrow> file_world \<Rightarrow> root_result" where
  "SC_GetDiskC8Page X root u = disk_command X root u
     (\<lambda>dev. case GetDiskC8Page (rx_disk X) dev [] of (lun, iRet) \<Rightarrow> Some (if lun \<noteq> [] then [lun] else [], iRet))"

definition SC_GetDiskCapacity :: "root_env \<Rightarrow> string \<Rightarrow> string \<Rightarrow> file_world \<Rightarrow> root_result" where
  "SC_GetDiskCapacity X root u = disk_command X root u
     (\<lambda>dev. map_option (\<lambda>(buf, iRet). ([buf], iRet)) (GetDiskCapacity (rx_disk X) dev []))"

definition SC_GetVendorAndProduct :: "root_env \<Rightarrow> string \<Rightarrow> string \<Rightarrow> file_world \<Rightarrow> root_result" where
  "SC_GetVendorAndProduct X root u = disk_command X root u
     (\<lambda>dev. case GetDiskArrayInfo (rx_disk X) dev [] [] of (v, p, iRet) \<Rightarrow> Some ([v, p], iRet))"

definition GetRawMajorMinor :: "root_env \<Rightarrow> string \<Rightarrow> string \<Rightarrow> file_world \<Rightarrow> root_result" where
  "GetRawMajorMinor X root u = disk_command X root u
     (\<lambda>m. case rx_raw X (atoi (c_str m)) of
            None \<Rightarrow> Some ([], MP_FAILED)
          | Some (major, minor) \<Rightarrow> Some ([IntToString major, IntToString minor], MP_SUCCESS))"

text \<open>One line for a device: name, vendor, product, array number, LUN number and world wide name.\<close>

definition semi :: "string list \<Rightarrow> string" where
  "semi fs = join_sep CHR '';'' fs"

definition GetLUNInfo :: "disk_env \<Rightarrow> string \<Rightarrow> (string \<times> int) option" where
  "GetLUNInfo D dev =
     (case GetDiskArrayInfo D dev [] [] of
        (strVendor, strProduct, iRet) \<Rightarrow>
          if iRet \<noteq> MP_SUCCESS then Some ([], iRet)
          else let strVendor = Trim (c_str strVendor); strProduct = Trim (c_str strProduct) in
          if \<not> CheckHuaweiLUN strVendor then Some (semi [dev, strVendor, strProduct, [], [], []], MP_SUCCESS)
          else case GetDisk80Page D dev [] of
                 (strSN, iRet) \<Rightarrow>
                   if iRet \<noteq> MP_SUCCESS then Some (semi [dev, strVendor, strProduct, [], [], []], MP_SUCCESS)
                   else case GetDisk83Page D dev [] [] of
                          None \<Rightarrow> None
                        | Some (strLUNWWN, strLUNID, iRet) \<Rightarrow>
                            if iRet \<noteq> MP_SUCCESS then Some ([], iRet)
                            else case GetDisk00Page D dev of
                                   None \<Rightarrow> None
                                 | Some (vecPages, iRet) \<Rightarrow>
                                     if iRet \<noteq> MP_SUCCESS then Some ([], iRet)
                                     else case (if ''c8'' \<in> set vecPages then GetDiskC8Page D dev strLUNID else (strLUNID, MP_SUCCESS)) of
                                            (strLUNID, iRet) \<Rightarrow>
                                              if iRet \<noteq> MP_SUCCESS then Some ([], iRet)
                                              else Some (semi [dev, strVendor, strProduct, strSN, strLUNID, strLUNWWN], MP_SUCCESS))"

fun lun_infos :: "disk_env \<Rightarrow> string list \<Rightarrow> string list \<Rightarrow> (string list \<times> int) option" where
  "lun_infos D [] vecResult = Some (vecResult, MP_SUCCESS)"
| "lun_infos D (strDevice # ds) vecResult =
     (if strDevice = [] then lun_infos D ds vecResult
      else case GetLUNInfo D strDevice of
             None \<Rightarrow> None
           | Some (strLUNInfo, iRet) \<Rightarrow>
               if iRet \<noteq> MP_SUCCESS then Some (vecResult, iRet) else lun_infos D ds (vecResult @ [strLUNInfo]))"

definition BatchGetLUNInfo :: "root_env \<Rightarrow> string \<Rightarrow> string \<Rightarrow> file_world \<Rightarrow> root_result" where
  "BatchGetLUNInfo X root u = disk_command X root u
     (\<lambda>strParam. let vecDevs = StrSplit CHR '';'' strParam
        in if vecDevs = [] then Some ([], MP_FAILED) else lun_infos (rx_disk X) vecDevs [])"

definition SyncDataFile :: "root_env \<Rightarrow> string \<Rightarrow> string \<Rightarrow> file_world \<Rightarrow> root_result" where
  "SyncDataFile X root strUniqueID W =
     (case GetParamFromTmpFile X root strUniqueID [] W of
        (W, strParam, iRet) \<Rightarrow>
          if iRet \<noteq> MP_SUCCESS then Some (W, iRet)
          else if length strParam > PATH_MAX then Some (W, MP_FAILED)
          else case rx_realpath X (c_str strParam) of
                 None \<Rightarrow> Some (W, MP_FAILED)
               | Some p \<Rightarrow>
                   if \<not> rx_open X p then Some (W, MP_FAILED)
                   else if \<not> rx_fsync X p then Some (W, MP_FAILED)
                   else Some (W, MP_SUCCESS))"

section \<open>System\<close>

definition GetOSType :: "file_world \<Rightarrow> int" where
  "GetOSType W =
     (if Mp_FileExist W ''/etc/SuSE-release'' then HOST_OS_SUSE
      else if Mp_FileExist W ''/etc/oracle-release'' then HOST_OS_ORACLE_LINUX
      else if Mp_FileExist W ''/etc/redhat-release'' then HOST_OS_REDHAT
      else HOST_OS_OTHER_LINUX)"

definition GetOSVersion :: "exec_env \<Rightarrow> string \<Rightarrow> int \<Rightarrow> file_world \<Rightarrow> file_world \<times> string \<times> int" where
  "GetOSVersion X root iOSType W =
     (let run = (\<lambda>cmd. case ExecSystemWithEcho X root cmd [] True W of
                   (W, vecResult, iRet) \<Rightarrow>
                     if iRet \<noteq> MP_SUCCESS then (W, [], iRet)
                     else case vecResult of [] \<Rightarrow> (W, [], MP_FAILED) | v # _ \<Rightarrow> (W, v, MP_SUCCESS))
      in if iOSType = HOST_OS_SUSE
         then run (''cat /etc/SuSE-release | grep VERSION | awk  -F '=' '{print $2}' | sed 's/^[ '' @ [CHR 0x09] @ '']*//g'' @ [CHR 0x27])
         else if iOSType = HOST_OS_ORACLE_LINUX \<or> iOSType = HOST_OS_REDHAT
         then run (''cat /etc/redhat-release | awk -F '.' '{print $1}' | awk '{print $NF}'' @ [CHR 0x27])
         else (W, [], MP_SUCCESS))"

definition ReloadUDEVRules :: "root_env \<Rightarrow> string \<Rightarrow> string \<Rightarrow> file_world \<Rightarrow> root_result" where
  "ReloadUDEVRules X root strUniqueID W =
     (let iOSType = GetOSType W in
      case GetOSVersion (rx_exec X) root iOSType W of
        (W, strOSVersion, iRet) \<Rightarrow>
          if iRet \<noteq> MP_SUCCESS then Some (W, iRet)
          else let strExecCmd =
                 (if iOSType = HOST_OS_REDHAT \<and> strOSVersion = ''5'' \<or> iOSType = HOST_OS_SUSE \<and> strOSVersion = ''10''
                  then ''udevcontrol reload_rules''
                  else if iOSType = HOST_OS_OTHER_LINUX then ''udevcontrol reload_rules''
                  else ''udevadm control --reload-rules'')
               in case ExecSystemWithoutEcho (rx_exec X) root strExecCmd True W of
                    (W, iRet) \<Rightarrow> if iRet \<noteq> MP_SUCCESS then Some (W, iRet) else Some (W, MP_SUCCESS))"

definition FreezeFileSys :: "root_env \<Rightarrow> string \<Rightarrow> string \<Rightarrow> file_world \<Rightarrow> root_result" where
  "FreezeFileSys X root strUniqueID W =
     (if \<not> Mp_FileExist W (c_str (GetTmpFilePath root (INPUT_TMP_FILE @ strUniqueID))) then Some (W, ERROR_COMMON_OPER_FAILED)
      else case ReadInput (xe_files (rx_exec X)) root strUniqueID [] W of
             (W, strDriveLetter, iRet) \<Rightarrow>
               if iRet \<noteq> MP_SUCCESS then Some (W, iRet)
               else if \<not> rx_open X (c_str strDriveLetter) then Some (W, ERROR_COMMON_OPER_FAILED)
               else if \<not> rx_freeze X (c_str strDriveLetter) then Some (W, ERROR_COMMON_APP_FREEZE_FAILED)
               else Some (W, MP_SUCCESS))"

definition ThawFileSys :: "root_env \<Rightarrow> string \<Rightarrow> string \<Rightarrow> file_world \<Rightarrow> root_result" where
  "ThawFileSys X root strUniqueID W =
     (if \<not> Mp_FileExist W (c_str (GetTmpFilePath root (INPUT_TMP_FILE @ strUniqueID))) then Some (W, ERROR_COMMON_OPER_FAILED)
      else case ReadInput (xe_files (rx_exec X)) root strUniqueID [] W of
             (W, strDriveLetter, iRet) \<Rightarrow>
               if iRet \<noteq> MP_SUCCESS then Some (W, iRet)
               else if \<not> rx_open X (c_str strDriveLetter) then Some (W, ERROR_COMMON_OPER_FAILED)
               else case rx_thaw X (c_str strDriveLetter) of
                      None \<Rightarrow> Some (W, MP_SUCCESS)
                    | Some iErr \<Rightarrow> if iErr \<noteq> THAW_ERR then Some (W, ERROR_COMMON_APP_THAW_FAILED) else Some (W, MP_SUCCESS))"

section \<open>The main program\<close>

text \<open>The two tables of commands; \<^const>\<open>None\<close> when the command is not in the table (\<open>oFlag\<close>).\<close>

definition COMProcessCommand :: "root_env \<Rightarrow> string \<Rightarrow> int \<Rightarrow> string \<Rightarrow> file_world \<Rightarrow> root_result option" where
  "COMProcessCommand X root iCommandID u W =
     (if ROOT_COMMAND_SCRIPT_BEGIN < iCommandID \<and> iCommandID < ROOT_COMMAND_SCRIPT_END then
        Some (if iCommandID \<noteq> ROOT_COMMAND_THIRDPARTY then root_ExecScript X root u iCommandID W else ExecThirdPartyScript X root u W)
      else if ROOT_COMMAND_SYSTEM_BEGIN < iCommandID \<and> iCommandID < ROOT_COMMAND_SYSTEM_END then Some (ExecSysCmd X root u iCommandID W)
      else if iCommandID = ROOT_COMMAND_80PAGE then Some (SC_GetDisk80Page X root u W)
      else if iCommandID = ROOT_COMMAND_83PAGE then Some (SC_GetDisk83Page X root u W)
      else if iCommandID = ROOT_COMMAND_00PAGE then Some (SC_GetDisk00Page X root u W)
      else if iCommandID = ROOT_COMMAND_C8PAGE then Some (SC_GetDiskC8Page X root u W)
      else if iCommandID = ROOT_COMMAND_CAPACITY then Some (SC_GetDiskCapacity X root u W)
      else if iCommandID = ROOT_COMMAND_VENDORANDPRODUCT then Some (SC_GetVendorAndProduct X root u W)
      else if iCommandID = ROOT_COMMAND_RAW_MINOR_MAJOR then Some (GetRawMajorMinor X root u W)
      else if iCommandID = ROOT_COMMAND_BATCH_GETLUN_INFO then Some (BatchGetLUNInfo X root u W)
      else if iCommandID = ROOT_COMMAND_UDEV_RELOAD_RULES then Some (ReloadUDEVRules X root u W)
      else if iCommandID = ROOT_COMMAND_SYNC_DATA_FILE then Some (SyncDataFile X root u W)
      else None)"

definition SUPPProcessCommand :: "root_env \<Rightarrow> string \<Rightarrow> int \<Rightarrow> string \<Rightarrow> file_world \<Rightarrow> root_result option" where
  "SUPPProcessCommand X root iCommandID u W =
     (if rx_fre_supp X \<and> iCommandID = ROOT_COMMAND_FILESYS_FREEZE then Some (FreezeFileSys X root u W)
      else if rx_fre_supp X \<and> iCommandID = ROOT_COMMAND_FILESYS_THAW then Some (ThawFileSys X root u W)
      else None)"

definition ProcessCommand :: "root_env \<Rightarrow> string \<Rightarrow> int \<Rightarrow> string \<Rightarrow> file_world \<Rightarrow> root_result" where
  "ProcessCommand X root iCommandID u W =
     (case COMProcessCommand X root iCommandID u W of
        Some r \<Rightarrow> r
      | None \<Rightarrow> (case SUPPProcessCommand X root iCommandID u W of Some r \<Rightarrow> r | None \<Rightarrow> Some (W, ERROR_COMMON_INVALID_PARAM)))"

definition root_Exec :: "root_env \<Rightarrow> string \<Rightarrow> int \<Rightarrow> string \<Rightarrow> file_world \<Rightarrow> root_result" where
  "root_Exec X root iCommandID u W =
     (if rx_setuid X \<noteq> MP_SUCCESS then Some (W, rx_setuid X)
      else case rx_root_gid X of
             None \<Rightarrow> Some (W, ERROR_COMMON_SYSTEM_CALL_FAILED)
           | Some gid \<Rightarrow>
               if rx_setgid X gid \<noteq> MP_SUCCESS then Some (W, rx_setgid X gid)
               else if rx_crypt X \<noteq> MP_SUCCESS then Some (W, rx_crypt X)
               else case ProcessCommand X root iCommandID u W of
                      None \<Rightarrow> None
                    | Some (W, iRet) \<Rightarrow> if iRet \<noteq> MP_SUCCESS then Some (W, iRet) else Some (W, MP_SUCCESS))"

text \<open>The options in the order of \<^verbatim>\<open>getopt\<close>, each with its argument.\<close>

fun root_options :: "(char \<times> string) list \<Rightarrow> int \<Rightarrow> string \<Rightarrow> (int \<times> string) option" where
  "root_options [] iCommandID strUniqueID = Some (iCommandID, strUniqueID)"
| "root_options ((c, optarg) # opts) iCommandID strUniqueID =
     (if c = CHR ''c'' then root_options opts (atoi optarg) strUniqueID
      else if c = CHR ''u'' then root_options opts iCommandID optarg
      else None)"

definition root_main :: "root_env \<Rightarrow> string \<Rightarrow> (char \<times> string) list \<Rightarrow> file_world \<Rightarrow> root_result" where
  "root_main X argv0 opts W =
     (if rx_pid X = rx_pgrp X then Some (W, MP_FAILED)
      else case root_options opts MP_FAILED [] of
             None \<Rightarrow> Some (W, ERROR_COMMON_INVALID_PARAM)
           | Some (iCommandID, strUniqueID) \<Rightarrow>
               if iCommandID = MP_FAILED \<or> strUniqueID = [] then Some (W, ERROR_COMMON_INVALID_PARAM)
               else case Path_Init (rx_dirname X) (Some argv0) of
                      Inl iRet \<Rightarrow> Some (W, iRet)
                    | Inr root \<Rightarrow>
                        (let iRet = rx_config X (GetConfFilePath root AGENT_XML_CONF)
                         in if iRet \<noteq> MP_SUCCESS then Some (W, iRet) else root_Exec X root iCommandID strUniqueID W))"

end
