(* ===== verification/RootCaller.thy ===== *)
theory RootCaller
  imports RootExec
begin

text \<open>
  The agent's side of the root process: \<^verbatim>\<open>CRootCaller\<close> (\<^verbatim>\<open>src/src/common/RootCaller.cpp\<close>), and both
  sides together: a shell that starts the root process for the command line that the caller builds.
\<close>

section \<open>The caller\<close>

abbreviation ROOT_EXEC_NAME :: string where "ROOT_EXEC_NAME \<equiv> ''rootexec''"

definition ReadResultFile :: "exec_env \<Rightarrow> string \<Rightarrow> int \<Rightarrow> string \<Rightarrow> string list option \<Rightarrow> file_world
    \<Rightarrow> file_world \<times> string list option \<times> int" where
  "ReadResultFile X root iCommandID strUniqueID pvecResult W =
     (case pvecResult of
        None \<Rightarrow> (W, None, MP_SUCCESS)
      | Some v \<Rightarrow>
          (case (if ROOT_COMMAND_THIRDPARTY \<noteq> iCommandID then ReadResult (xe_files X) root strUniqueID v W
                 else ReadOldResult (xe_files X) root strUniqueID v W) of
             (W, v, iRet) \<Rightarrow> (W, Some v, iRet)))"

definition root_command_line :: "string \<Rightarrow> int \<Rightarrow> string \<Rightarrow> string" where
  "root_command_line root iCommandID strUniqueID =
     c_str (BlankComma (GetBinFilePath root ROOT_EXEC_NAME)) @ '' -c '' @ IntToString iCommandID @ '' -u '' @ c_str strUniqueID"

definition RootCaller_Exec :: "exec_env \<Rightarrow> string \<Rightarrow> int \<Rightarrow> string \<Rightarrow> string list option \<Rightarrow> int \<times> file_world
    \<Rightarrow> (int \<times> file_world) \<times> string list option \<times> int" where
  "RootCaller_Exec X root iCommandID strParam pvecResult st =
     (case st of (m_iUniqueID, W) \<Rightarrow>
      case UniqueID_GetString m_iUniqueID of (m_iUniqueID, strUniqueID) \<Rightarrow>
      case (if strParam \<noteq> [] then WriteInput (xe_files X) root strUniqueID strParam W else (W, MP_SUCCESS)) of
        (W, iRet) \<Rightarrow>
      if iRet \<noteq> MP_SUCCESS then ((m_iUniqueID, W), pvecResult, iRet)
      else case snprintf_s (MAX_MAIN_CMD_LENGTH - 1) (root_command_line root iCommandID strUniqueID) of
             None \<Rightarrow> ((m_iUniqueID, W), pvecResult, MP_FAILED)
           | Some strCmd \<Rightarrow>
               if \<not> CheckCmdDelimiter strCmd then ((m_iUniqueID, W), pvecResult, ERROR_COMMON_INVALID_PARAM)
               else case ExecSystemWithoutEcho X root strCmd True W of
                      (W, iRet) \<Rightarrow>
                        if iRet \<noteq> MP_SUCCESS \<and> \<not> (ROOT_COMMAND_SCRIPT_BEGIN \<le> iCommandID \<and> iCommandID \<le> ROOT_COMMAND_SCRIPT_END)
                        then ((m_iUniqueID, W), pvecResult, MP_FAILED)
                        else if iRet \<noteq> MP_SUCCESS \<and> ROOT_COMMAND_THIRDPARTY \<noteq> iCommandID
                        then ((m_iUniqueID, W), pvecResult, GetErrorCode iRet)
                        else let iRet = (if iRet \<noteq> MP_SUCCESS then GetErrorCode iRet else iRet)
                             in case ReadResultFile X root iCommandID strUniqueID pvecResult W of
                                  (W, pvecResult, iRet1) \<Rightarrow>
                                    ((m_iUniqueID, W), pvecResult, if iRet = MP_SUCCESS then iRet1 else iRet))"

section \<open>Both sides\<close>

text \<open>
  The status the shell sees of a process that returns \<open>iRet\<close> from \<^verbatim>\<open>main\<close>: the low eight bits; a run
  that reads past a buffer is taken as killed.
\<close>

definition exit_status :: "int \<Rightarrow> 8 word" where
  "exit_status iRet = word_of_int iRet"

definition root_process :: "root_env \<Rightarrow> string \<Rightarrow> (char \<times> string) list \<Rightarrow> file_world \<Rightarrow> file_world \<times> popen_result" where
  "root_process X argv0 opts W =
     (case root_main X argv0 opts W of
        None \<Rightarrow> (W, Ran [] (Some Killed))
      | Some (W, iRet) \<Rightarrow> (W, Ran [] (Some (Exited (exit_status iRet)))))"

text \<open>
  What the caller relies on: for the command line it builds, whatever follows it to redirect output,
  the shell runs the root process with the two options.
\<close>

locale root_shell =
  fixes X :: exec_env and R :: root_env and root :: string and gid :: int
  assumes runs: "0 \<le> i \<Longrightarrow> i < 1000000 \<Longrightarrow> ROOT_COMMAND_SCRIPT_BEGIN \<le> c \<Longrightarrow> c < ROOT_COMMAND_BUTT \<Longrightarrow>
      xe_shell X (c_str (root_command_line root c (IntToString i) @ '' 1>>'' @ log_file X root @ '' 2>&1'')) W =
      root_process R (GetBinFilePath root ROOT_EXEC_NAME) [(CHR ''c'', IntToString c), (CHR ''u'', IntToString i)] W"
    and started: "rx_pid R \<noteq> rx_pgrp R" "Path_Init (rx_dirname R) (Some (GetBinFilePath root ROOT_EXEC_NAME)) = Inr root"
      "rx_config R (GetConfFilePath root AGENT_XML_CONF) = MP_SUCCESS" "rx_setuid R = MP_SUCCESS"
      "rx_root_gid R = Some gid" "rx_setgid R gid = MP_SUCCESS" "rx_crypt R = MP_SUCCESS"
    and plain_root: "NUL \<notin> set root" "list_all (\<lambda>ch. ch \<notin> set '';&|'') root" "length root \<le> 800"
begin

text \<open>The root process of a caller runs the command of the caller.\<close>

lemma main_runs:
  assumes "0 < c" "c < ROOT_COMMAND_BUTT" "0 \<le> i" "i < 1000000"
  shows "root_main R (GetBinFilePath root ROOT_EXEC_NAME) [(CHR ''c'', IntToString c), (CHR ''u'', IntToString i)] W =
    ProcessCommand R root c (IntToString i) W"
proof -
  have "atoi (IntToString c) = c" using assms(1,2) by (intro atoi_IntToString) simp_all
  moreover have "IntToString i \<noteq> []" using assms(3) by (simp add: IntToString_def show_nat_nonempty)
  ultimately show ?thesis
    using assms(1) started by (auto simp: root_main_def root_Exec_def Let_def split: option.split)
qed

text \<open>The command line fits its buffer and passes the check of delimiters.\<close>

lemma line_ok:
  assumes "0 < c" "c < ROOT_COMMAND_BUTT" "0 \<le> i" "i < 1000000"
  shows "snprintf_s (MAX_MAIN_CMD_LENGTH - 1) (root_command_line root c (IntToString i)) = Some (root_command_line root c (IntToString i))"
    "CheckCmdDelimiter (root_command_line root c (IntToString i))"
proof -
  let ?b = "BlankComma (GetBinFilePath root ROOT_EXEC_NAME)"
  have b: "set ?b \<subseteq> set root \<union> set ''/binrootexec'' \<union> {CHR 0x22}" "length ?b \<le> 815"
    using plain_root(3) by (auto simp: BlankComma_def GetBinFilePath_def GetBinPath_def)
  have "NUL \<notin> set ?b" using b(1) plain_root(1) by (auto simp: NUL_literal)
  then have c: "c_str ?b = ?b" by (rule c_str_id)
  have d: "set (IntToString k) \<subseteq> {ch. c_isdigit ch}" "length (IntToString k) \<le> 6" if "0 \<le> k" "k < 1000000" for k
    using that show_nat_digits [of "nat k"] show_nat_length [of "nat k" 5] by (auto simp: IntToString_def)
  have "c_str (IntToString i) = IntToString i"
    using d(1) [OF assms(3,4)] by (intro c_str_id) (auto simp: c_isdigit_def char_code_def NUL_literal)
  then have line: "root_command_line root c (IntToString i) = ?b @ '' -c '' @ IntToString c @ '' -u '' @ IntToString i"
    by (simp add: root_command_line_def c)
  show "snprintf_s (MAX_MAIN_CMD_LENGTH - 1) (root_command_line root c (IntToString i)) = Some (root_command_line root c (IntToString i))"
    using b(2) d(2) [of c] d(2) [of i] assms by (simp add: line snprintf_s_def)
  have "CHR '';'' \<notin> set (root_command_line root c (IntToString i))" "CHR ''&'' \<notin> set (root_command_line root c (IntToString i))"
    "CHR ''|'' \<notin> set (root_command_line root c (IntToString i))"
    using b(1) d(1) [of c] d(1) [of i] assms plain_root(2) by (auto simp: line list_all_iff c_isdigit_def char_code_def)
  then show "CheckCmdDelimiter (root_command_line root c (IntToString i))"
    by (simp add: CheckCmdDelimiter_iff str_find_None_char)
qed

text \<open>
  What a caller gets: the code of the root process, cut to its low eight bits, goes through the map of
  script errors, or becomes a plain failure; only a zero status is a success.
\<close>

lemma process_status:
  assumes "0 < c" "c < ROOT_COMMAND_BUTT" "0 \<le> i" "i < 1000000"
    and "ProcessCommand R root c (IntToString i) W = Some (W', r)"
  shows "ExecSystemWithoutEcho X root (root_command_line root c (IntToString i)) True W = (W', r mod 256)"
proof -
  have "xe_shell X (c_str (root_command_line root c (IntToString i) @ '' 1>>'' @ log_file X root @ '' 2>&1'')) W =
    (W', Ran [] (Some (Exited (exit_status r))))"
    using runs [of i c W] main_runs [OF assms(1-4), of W] assms by (simp add: root_process_def)
  then show ?thesis
    using line_ok(2) [OF assms(1-4)] by (simp add: ExecSystemWithoutEcho_def exit_status_def uint_word_of_int)
qed

lemma caller_code:
  assumes "0 < c" "c < ROOT_COMMAND_BUTT" "0 \<le> i" "i < 1000000"
    and "ProcessCommand R root c (IntToString i) W1 = Some (W', r)"
    and "W1 = (if s = [] then W else fst (WriteInput (xe_files X) root (IntToString i) s W))"
    and "s = [] \<or> snd (WriteInput (xe_files X) root (IntToString i) s W) = MP_SUCCESS"
    and "c \<noteq> ROOT_COMMAND_THIRDPARTY"
  shows "RootCaller_Exec X root c s pv (i, W) =
    (if r mod 256 = 0 then
       (case ReadResultFile X root c (IntToString i) pv W' of (W', pv, iRet1) \<Rightarrow> (((i + 1) mod MAX_UNIQUE_ID, W'), pv, iRet1))
     else (((i + 1) mod MAX_UNIQUE_ID, W'), pv, if c \<le> ROOT_COMMAND_SCRIPT_END then GetErrorCode (r mod 256) else MP_FAILED))"
proof -
  have w: "(if s \<noteq> [] then WriteInput (xe_files X) root (IntToString i) s W else (W, MP_SUCCESS)) = (W1, MP_SUCCESS)"
    using assms(6,7) by (cases "WriteInput (xe_files X) root (IntToString i) s W") auto
  show ?thesis
    using assms(1,8) unfolding RootCaller_Exec_def UniqueID_GetString_def prod.case w line_ok(1) [OF assms(1-4)]
      process_status [OF assms(1-5)]
    by (simp add: line_ok(2) [OF assms(1-4)] process_status [OF assms(1-5)] Let_def)
qed

text \<open>
  A parameter without a newline reaches the root process as it was given, and its file is gone when the
  root process has read it; a parameter with a newline makes the command fail.
\<close>

lemma parameter_arrives:
  assumes "path_ok (xe_files X) p" "path_ok (xe_files (rx_exec R)) p" "p = GetTmpFilePath root (INPUT_TMP_FILE @ u)"
    and "NUL \<notin> set p"
  shows "snd (GetParamFromTmpFile R root u [] (fst (WriteInput (xe_files X) root u s W))) =
      (if CHR 0x0A \<in> set (c_str s) then ([], MP_FAILED) else (c_str s, MP_SUCCESS)) \<and>
    \<not> Mp_FileExist (fst (GetParamFromTmpFile R root u [] (fst (WriteInput (xe_files X) root u s W)))) p"
proof -
  have "Mp_FileExist (fst (WriteInput (xe_files X) root u s W)) p"
    using Ipc_WriteFile_ok [OF assms(1), of "[s]" W] unfolding assms(3) by (simp add: WriteInput_def Mp_FileExist_def)
  then have "GetParamFromTmpFile R root u [] (fst (WriteInput (xe_files X) root u s W)) =
      ReadInput (xe_files (rx_exec R)) root u [] (fst (WriteInput (xe_files X) root u s W))"
    using c_str_id [OF assms(4)] unfolding assms(3) by (simp add: GetParamFromTmpFile_def)
  then show ?thesis using input_round_trip_raw [OF assms(1,3,2), of "[]" s W] by simp
qed

end

end
