(* ===== verification/PlugAct.thy ===== *)
theory PlugAct
  imports RootCaller Messages
begin

text \<open>
  What the handlers of the plugins are made of: a state monad with an error code as its exception
  (\<^verbatim>\<open>CHECK_FAIL_EX\<close>, \<^verbatim>\<open>GET_JSON_STRING\<close> and the early returns), over the counter of unique numbers, the
  files and the JSON value of the reply; calls of the root process; and the JSON values that are built
  for a reply, which are a parameter like those that are read. \<^const>\<open>None\<close> is a run that leaves defined
  behaviour (the front of an empty vector, a null pointer).
\<close>

section \<open>Actions\<close>

record 'j plug_state =
  ps_root :: "int \<times> file_world" \<comment> \<open>\<^verbatim>\<open>CUniqueID\<close> and the files\<close>
  ps_rsp :: 'j

type_synonym ('j, 'a) act = "'j plug_state \<Rightarrow> ('j plug_state \<times> (int + 'a)) option"

definition retA :: "'a \<Rightarrow> ('j, 'a) act" where
  "retA a s = Some (s, Inr a)"

definition failA :: "int \<Rightarrow> ('j, 'a) act" where
  "failA e s = Some (s, Inl e)"

definition crashA :: "('j, 'a) act" where
  "crashA s = None"

definition bindA :: "('j, 'a) act \<Rightarrow> ('a \<Rightarrow> ('j, 'b) act) \<Rightarrow> ('j, 'b) act" where
  "bindA m f s = (case m s of None \<Rightarrow> None | Some (s, Inl e) \<Rightarrow> Some (s, Inl e) | Some (s, Inr a) \<Rightarrow> f a s)"

definition thenA :: "('j, 'a) act \<Rightarrow> ('j, 'b) act \<Rightarrow> ('j, 'b) act" where
  "thenA m k = bindA m (\<lambda>_. k)"

definition checkA :: "int \<Rightarrow> ('j, unit) act" where
  "checkA iRet = (if iRet \<noteq> MP_SUCCESS then failA iRet else retA ())"

definition whenA :: "bool \<Rightarrow> int \<Rightarrow> ('j, unit) act" where
  "whenA b e = (if b then failA e else retA ())"

definition caseA :: "'a option \<Rightarrow> int \<Rightarrow> ('j, 'a) act" where
  "caseA x e = (case x of None \<Rightarrow> failA e | Some a \<Rightarrow> retA a)"

text \<open>Any failure of the first action is answered with one code.\<close>

definition elseA :: "('j, 'a) act \<Rightarrow> int \<Rightarrow> ('j, 'a) act" where
  "elseA m e s = (case m s of None \<Rightarrow> None | Some (s, Inl _) \<Rightarrow> Some (s, Inl e) | Some (s, Inr a) \<Rightarrow> Some (s, Inr a))"

fun mapA :: "('a \<Rightarrow> ('j, 'b) act) \<Rightarrow> 'a list \<Rightarrow> ('j, 'b list) act" where
  "mapA f [] = retA []"
| "mapA f (x # xs) = bindA (f x) (\<lambda>y. bindA (mapA f xs) (\<lambda>ys. retA (y # ys)))"

lemma bindA_ret [simp]: "bindA (retA a) f = f a" "bindA m retA = m"
  by (auto simp: bindA_def retA_def split: option.splits sum.splits)

lemma bindA_fail [simp]: "bindA (failA e) f = failA e" "bindA crashA f = crashA"
  by (auto simp: bindA_def failA_def crashA_def)

lemma bindA_assoc: "bindA (bindA m f) g = bindA m (\<lambda>a. bindA (f a) g)"
  by (auto simp: bindA_def split: option.splits sum.splits)

lemma checkA_ok [simp]: "checkA MP_SUCCESS = retA ()" "e \<noteq> MP_SUCCESS \<Longrightarrow> checkA e = failA e"
  by (simp_all add: checkA_def)

lemma whenA_simps [simp]: "whenA False e = retA ()" "whenA True e = failA e"
  by (simp_all add: whenA_def)

section \<open>The environment of a handler\<close>

text \<open>The values that JsonCpp builds: null, a number, a text, a truth value, a member set, an element appended.\<close>

record 'j json_mk =
  jnull :: 'j
  jint :: "int \<Rightarrow> 'j"
  jstr :: "string \<Rightarrow> 'j"
  jbool :: "bool \<Rightarrow> 'j"
  jset :: "'j \<Rightarrow> string \<Rightarrow> 'j \<Rightarrow> 'j"
  jappend :: "'j \<Rightarrow> 'j \<Rightarrow> 'j"

record 'j plug_env =
  pe_exec :: exec_env
  pe_root :: string
  pe_json :: "'j json_api"
  pe_mk :: "'j json_mk"
  pe_param :: get_param
  pe_heap :: fcgx_heap

text \<open>An object with its members in order.\<close>

definition jobj :: "'j json_mk \<Rightarrow> (string \<times> 'j) list \<Rightarrow> 'j" where
  "jobj K kvs = fold (\<lambda>(k, v) j. jset K j k v) kvs (jnull K)"

definition set_rsp :: "'j plug_env \<Rightarrow> string \<Rightarrow> 'j \<Rightarrow> ('j, unit) act" where
  "set_rsp P k v s = Some (s\<lparr>ps_rsp := jset (pe_mk P) (ps_rsp s) k v\<rparr>, Inr ())"

definition append_rsp :: "'j plug_env \<Rightarrow> 'j list \<Rightarrow> ('j, unit) act" where
  "append_rsp P vs s = Some (s\<lparr>ps_rsp := fold (\<lambda>v j. jappend (pe_mk P) j v) vs (ps_rsp s)\<rparr>, Inr ())"

text \<open>\<^verbatim>\<open>GET_JSON_STRING\<close>, \<^verbatim>\<open>GET_JSON_INT32\<close> and \<^verbatim>\<open>GET_JSON_ARRAY_STRING\<close> into a fresh variable.\<close>

definition get_string :: "'j plug_env \<Rightarrow> 'j \<Rightarrow> string \<Rightarrow> ('j, string) act" where
  "get_string P j k = (case GetJsonString (pe_json P) j k [] of (iRet, s) \<Rightarrow> thenA (checkA iRet) (retA s))"

definition get_int :: "'j plug_env \<Rightarrow> 'j \<Rightarrow> string \<Rightarrow> ('j, int) act" where
  "get_int P j k = (case GetJsonInt32 (pe_json P) j k 0 of (iRet, i) \<Rightarrow> thenA (checkA iRet) (retA i))"

definition get_strings :: "'j plug_env \<Rightarrow> 'j \<Rightarrow> string \<Rightarrow> ('j, string list) act" where
  "get_strings P j k = (case GetJsonArrayString (pe_json P) j k [] of (iRet, v) \<Rightarrow> thenA (checkA iRet) (retA v))"

text \<open>\<^verbatim>\<open>GetHead\<close> and \<^verbatim>\<open>GetHeadNoCheck\<close> of the request.\<close>

definition get_head :: "'j plug_env \<Rightarrow> string \<Rightarrow> 'j request_msg \<Rightarrow> ('j, string) act" where
  "get_head P name req = (case GetHead (pe_param P) (pe_heap P) name (m_httpReq req) of None \<Rightarrow> crashA | Some v \<Rightarrow> retA v)"

definition GetHeadNoCheck :: "'j plug_env \<Rightarrow> string \<Rightarrow> 'j request_msg \<Rightarrow> ('j, string option) act" where
  "GetHeadNoCheck P name req =
     (case m_pFcgRequest (m_httpReq req) of
        None \<Rightarrow> crashA
      | Some a \<Rightarrow> (case pe_heap P a of None \<Rightarrow> crashA | Some envp \<Rightarrow> retA (pe_param P name envp)))"

section \<open>Calls of the root process\<close>

definition TRANSFORM_RETURN_CODE :: "int \<Rightarrow> int \<Rightarrow> int" where
  "TRANSFORM_RETURN_CODE iRet code = (if iRet = MP_FAILED then code else iRet)"

definition root_exec :: "'j plug_env \<Rightarrow> int \<Rightarrow> string \<Rightarrow> string list option \<Rightarrow> ('j, string list \<times> int) act" where
  "root_exec P iCommandID strParam pvecResult s =
     (case RootCaller_Exec (pe_exec P) (pe_root P) iCommandID strParam pvecResult (ps_root s) of
        (r, v, iRet) \<Rightarrow> Some (s\<lparr>ps_root := r\<rparr>, Inr (case v of None \<Rightarrow> [] | Some v \<Rightarrow> v, iRet)))"

text \<open>A command without results; -1 becomes the code given.\<close>

definition run_root :: "'j plug_env \<Rightarrow> int \<Rightarrow> string \<Rightarrow> int \<Rightarrow> ('j, unit) act" where
  "run_root P iCommandID strParam code =
     bindA (root_exec P iCommandID strParam None) (\<lambda>(v, iRet). checkA (TRANSFORM_RETURN_CODE iRet code))"

text \<open>A command with results.\<close>

definition query_root :: "'j plug_env \<Rightarrow> int \<Rightarrow> string \<Rightarrow> int \<Rightarrow> ('j, string list) act" where
  "query_root P iCommandID strParam code =
     bindA (root_exec P iCommandID strParam (Some [])) (\<lambda>(v, iRet).
       thenA (checkA (TRANSFORM_RETURN_CODE iRet code)) (retA v))"

section \<open>Texts\<close>

text \<open>\<^verbatim>\<open>(void)CMpString::Trim((mp_char *)s.c_str())\<close>: the bytes move, the length stays.\<close>

definition trim_in_place :: "string \<Rightarrow> string" where
  "trim_in_place s =
     (let t = TrimLeft s;
          b = (if t = s then s else t @ NUL # drop (length t + 1) s)
      in b[length (TrimRight t) := NUL])"

text \<open>The line of a script cut at \<open>n\<close> colons; the last field is the rest.\<close>

fun cut_fields :: "nat \<Rightarrow> string \<Rightarrow> string list option" where
  "cut_fields 0 s = Some [s]"
| "cut_fields (Suc n) s =
     (case str_find '':'' s of
        None \<Rightarrow> None
      | Some i \<Rightarrow> map_option ((#) (take i s)) (cut_fields n (drop (i + 1) s)))"

definition cut_lines :: "nat \<Rightarrow> (string list \<Rightarrow> 'a) \<Rightarrow> string list \<Rightarrow> 'a list" where
  "cut_lines n f ls = map f (List.map_filter (cut_fields n) ls)"

lemma cut_fields_length: "cut_fields n s = Some fs \<Longrightarrow> length fs = Suc n"
  by (induction n s arbitrary: fs rule: cut_fields.induct) (auto split: option.splits)

text \<open>Fields without colons, joined by colons, are found again; the last one may hold colons.\<close>

lemma cut_fields_join:
  "length fs = n \<Longrightarrow> (\<And>f. f \<in> set fs \<Longrightarrow> CHR '':'' \<notin> set f) \<Longrightarrow> cut_fields n (join_sep CHR '':'' (fs @ [l])) = Some (fs @ [l])"
proof (induction fs arbitrary: n)
  case (Cons f fs)
  then obtain k where n: "n = Suc k" "length fs = k" by auto
  have j: "join_sep CHR '':'' ((f # fs) @ [l]) = f @ CHR '':'' # join_sep CHR '':'' (fs @ [l])" by (cases fs) simp_all
  have "str_find '':'' (f @ CHR '':'' # join_sep CHR '':'' (fs @ [l])) = Some (length f)"
    using Cons.prems(2) by (intro str_find_char_append) simp
  then show ?case using Cons.IH [OF n(2)] Cons.prems(2) by (simp only: j n cut_fields.simps) simp
qed simp

text \<open>Any split fails exactly when there are too few colons.\<close>

lemma cut_fields_None: "cut_fields n s = None \<longleftrightarrow> length (filter (\<lambda>c. c = CHR '':'') s) < n"
proof (induction n s rule: cut_fields.induct)
  case (2 n s)
  show ?case
  proof (cases "str_find '':'' s")
    case None
    then have "CHR '':'' \<notin> set s" by (simp add: str_find_char)
    then have "filter (\<lambda>c. c = CHR '':'') s = []" by (auto simp: filter_empty_conv)
    then show ?thesis using None by simp
  next
    case (Some i)
    then have "CHR '':'' \<in> set s" using str_find_char [of "CHR '':''" s] by auto
    then obtain a b where s: "s = a @ CHR '':'' # b" "CHR '':'' \<notin> set a" by (meson split_list_first)
    then have i: "i = length a" using Some str_find_char_append [of "CHR '':''" a b] by simp
    have "filter (\<lambda>c. c = CHR '':'') a = []" using s(2) by (auto simp: filter_empty_conv)
    then show ?thesis using 2 [OF Some] Some by (simp add: s(1) i)
  qed
qed simp

text \<open>
  As a C string the text is trimmed; but a text that had blanks at its ends keeps its length and holds a
  zero byte, which cuts whatever is appended to it.
\<close>

lemma TrimRight_prefix: "\<exists>u. t = TrimRight t @ u"
  using takeWhile_dropWhile_id [of "\<lambda>c. c = blank" "rev t"] unfolding TrimRight_eq by (metis rev_append rev_rev_ident)

lemma c_str_cut: "NUL \<notin> set a \<Longrightarrow> c_str (a @ NUL # t) = a"
  by (simp add: c_str_def takeWhile_append)

lemma update_after: "t = r @ u \<Longrightarrow> \<exists>w. (t @ c # d)[length r := c'] = r @ c' # w"
  by (cases u) auto

lemma trim_in_place_cuts:
  assumes "NUL \<notin> set s"
  shows "c_str (trim_in_place s @ t) = (if Trim s = s then s @ c_str t else Trim s)"
proof -
  let ?t = "TrimLeft s"
  obtain u where u: "?t = TrimRight ?t @ u" using TrimRight_prefix by blast
  define v where "v = takeWhile (\<lambda>c. c = blank) s"
  have v: "s = v @ ?t" by (simp add: v_def TrimLeft_def)
  have "NUL \<notin> set ?t" using assms v by (metis Un_iff set_append)
  then have c: "NUL \<notin> set (TrimRight ?t)" using u by (metis Un_iff set_append)
  show ?thesis
  proof (cases "?t = s")
    case ts: True
    show ?thesis
    proof (cases "u = []")
      case True
      then have "TrimRight s = s" using u ts by simp
      then show ?thesis using ts assms by (simp add: trim_in_place_def Trim_def c_str_def takeWhile_append list_update_beyond)
    next
      case False
      then have "s[length (TrimRight s) := NUL] = TrimRight s @ NUL # tl u"
        using u ts by (cases u) (metis append_Nil2, metis list.sel(3) list_update_length)
      moreover have "TrimRight s \<noteq> s" using False u ts by (metis append_self_conv)
      ultimately show ?thesis using ts c by (simp add: trim_in_place_def Trim_def c_str_cut)
    qed
  next
    case False
    have "\<exists>w. (?t @ NUL # drop (length ?t + 1) s)[length (TrimRight ?t) := NUL] = TrimRight ?t @ NUL # w"
      by (rule update_after [OF u])
    moreover have "Trim s \<noteq> s"
    proof
      assume "Trim s = s"
      then have "s = TrimRight ?t" by (simp add: Trim_def)
      moreover have "length ?t = length (TrimRight ?t) + length u" using arg_cong [OF u, of length] by simp
      moreover have "length s = length v + length ?t" using arg_cong [OF v, of length] by simp
      ultimately have "length v = 0" by simp
      then show False using v False by simp
    qed
    ultimately show ?thesis using False c by (auto simp: trim_in_place_def Trim_def c_str_cut)
  qed
qed

end
