(* ===== verification/ArrayClient.thy ===== *)
theory ArrayClient
  imports PlugAct
begin

text \<open>
  The part of \<^verbatim>\<open>CArray\<close> and \<^verbatim>\<open>CDisk\<close> (\<^verbatim>\<open>src/src/array/Array.cpp\<close>, Linux) that runs in the agent: it asks
  the root process for the answers of a device.
\<close>

text \<open>The elements of an answer by their position: the out parameter keeps its value when there is none.\<close>

fun nth_or :: "'a list \<Rightarrow> nat \<Rightarrow> 'a \<Rightarrow> 'a" where
  "nth_or [] n d = d"
| "nth_or (x # xs) 0 d = x"
| "nth_or (x # xs) (Suc n) d = nth_or xs n d"

definition GetArrayVendorAndProduct :: "'j plug_env \<Rightarrow> string \<Rightarrow> string \<Rightarrow> string \<Rightarrow> ('j, string \<times> string) act" where
  "GetArrayVendorAndProduct P strDev strvendor strproduct =
     bindA (root_exec P ROOT_COMMAND_VENDORANDPRODUCT strDev (Some [])) (\<lambda>(vecResult, iRet).
     thenA (checkA iRet)
     (thenA (whenA (vecResult = []) MP_FAILED)
     (retA (nth_or vecResult 0 strvendor, nth_or vecResult 1 strproduct))))"

definition GetLunInfo :: "'j plug_env \<Rightarrow> string \<Rightarrow> string \<Rightarrow> string \<Rightarrow> ('j, string \<times> string) act" where
  "GetLunInfo P strDev strLunWWN strLunID =
     bindA (root_exec P ROOT_COMMAND_83PAGE strDev (Some [])) (\<lambda>(vecResult, iRet).
     thenA (checkA iRet)
     (thenA (whenA (vecResult = []) MP_FAILED)
     (let strLunWWN = nth_or vecResult 0 strLunWWN; strLunID = nth_or vecResult 1 strLunID in
      bindA (root_exec P ROOT_COMMAND_00PAGE strDev (Some [])) (\<lambda>(vecResult1, iRet).
      thenA (checkA iRet)
      (thenA (whenA (vecResult1 = []) MP_FAILED)
      (if IsSupportXXPage ''c8'' vecResult1
       then bindA (root_exec P ROOT_COMMAND_C8PAGE strDev (Some [])) (\<lambda>(vecResult2, iRet).
            thenA (checkA iRet) (retA (strLunWWN, nth_or vecResult2 0 strLunID)))
       else retA (strLunWWN, strLunID)))))))"

definition GetArraySN :: "'j plug_env \<Rightarrow> string \<Rightarrow> ('j, string) act" where
  "GetArraySN P strDev =
     bindA (root_exec P ROOT_COMMAND_80PAGE strDev (Some [])) (\<lambda>(vecResult, iRet).
     thenA (checkA iRet) (caseA (case vecResult of [] \<Rightarrow> None | v # _ \<Rightarrow> Some v) MP_FAILED))"

section \<open>Disks\<close>

abbreviation CMD_DEV_BLOCKS :: int where "CMD_DEV_BLOCKS \<equiv> 1"

text \<open>A command that the agent runs itself.\<close>

definition echo :: "'j plug_env \<Rightarrow> string \<Rightarrow> ('j, string list \<times> int) act" where
  "echo P strCmd s =
     (case ps_root s of (i, W) \<Rightarrow>
      case ExecSystemWithEcho (pe_exec P) (pe_root P) strCmd [] True W of
        (W, v, iRet) \<Rightarrow> Some (s\<lparr>ps_root := (i, W)\<rparr>, Inr (v, iRet)))"

definition IsCmdDevice :: "'j plug_env \<Rightarrow> string \<Rightarrow> ('j, bool) act" where
  "IsCmdDevice P strDiskName =
     bindA (echo P (''cat /proc/partitions | grep -e '' @ [CHR 0x27] @ strDiskName @ [CHR 0x27] @ ''  | awk '{print $3}'' @ [CHR 0x27])) (\<lambda>(vecRlt, iRet).
     retA (if iRet \<noteq> MP_SUCCESS then False
           else case vecRlt of v # _ # _ \<Rightarrow> atoi (c_str v) = CMD_DEV_BLOCKS | _ \<Rightarrow> False))"

definition IsDeviceExist :: "'j plug_env \<Rightarrow> string \<Rightarrow> ('j, bool) act" where
  "IsDeviceExist P strDiskName =
     bindA (root_exec P ROOT_COMMAND_CAPACITY (''/dev/'' @ strDiskName) (Some [])) (\<lambda>(vecRlt, iRet).
     retA (if MP_SUCCESS \<noteq> iRet then False
           else case vecRlt of
                  [strBuf] \<Rightarrow> (case ScsiNormalizeSense strBuf of (h, iRet) \<Rightarrow> \<not> (MP_SUCCESS = iRet \<and> ucSenseKey h \<noteq> 0))
                | _ \<Rightarrow> False))"

fun keep_disks :: "'j plug_env \<Rightarrow> string list \<Rightarrow> ('j, string list) act" where
  "keep_disks P [] = retA []"
| "keep_disks P (d # ds) =
     bindA (IsCmdDevice P d) (\<lambda>cmd.
     if cmd then keep_disks P ds
     else bindA (IsDeviceExist P d) (\<lambda>ex.
          if \<not> ex then keep_disks P ds else bindA (keep_disks P ds) (\<lambda>r. retA (d # r))))"

definition GetAllDiskName :: "'j plug_env \<Rightarrow> ('j, string list) act" where
  "GetAllDiskName P =
     bindA (echo P (''cat /proc/partitions  | grep -e 'sd[a-z]' -e 'hd[a-z]' | awk '{print $4}' | grep -v -e '[1-9]' '')) (\<lambda>(vecDiskName, iRet).
     thenA (checkA iRet) (keep_disks P vecDiskName))"

text \<open>Only disks of the list are kept.\<close>

lemma keep_disks_subset: "keep_disks P ds s = Some (s', Inr r) \<Longrightarrow> set r \<subseteq> set ds"
  by (induction ds arbitrary: s s' r)
    (auto simp: bindA_def retA_def split: option.splits sum.splits prod.splits if_splits, blast+)

end
