(* ===== verification/DbApps.thy ===== *)
theory DbApps
  imports ArrayClient
begin

text \<open>
  What the database applications share: the parameters of their scripts, which are joined by colons
  (\<^verbatim>\<open>NODE_COLON\<close>), and the names and passwords in the head of a request.
\<close>

abbreviation SCRIPTPARAM_INSTNAME :: string where "SCRIPTPARAM_INSTNAME \<equiv> ''INSTNAME=''"
abbreviation SCRIPTPARAM_INSTNUM :: string where "SCRIPTPARAM_INSTNUM \<equiv> ''INSTNUM=''"
abbreviation SCRIPTPARAM_DBNAME :: string where "SCRIPTPARAM_DBNAME \<equiv> ''DBNAME=''"
abbreviation SCRIPTPARAM_DBUSERNAME :: string where "SCRIPTPARAM_DBUSERNAME \<equiv> ''DBUSERNAME=''"
abbreviation SCRIPTPARAM_DBPASSWORD :: string where "SCRIPTPARAM_DBPASSWORD \<equiv> ''DBPASSWORD=''"
abbreviation SCRIPTPARAM_OPERTYPE :: string where "SCRIPTPARAM_OPERTYPE \<equiv> ''OPERTYPE=''"
abbreviation REST_INSTNAME :: string where "REST_INSTNAME \<equiv> ''instName''"
abbreviation REST_DBNAME :: string where "REST_DBNAME \<equiv> ''dbName''"
abbreviation REST_STATE :: string where "REST_STATE \<equiv> ''state''"

definition colons :: "string list \<Rightarrow> string" where
  "colons ps = join_sep CHR '':'' ps"

text \<open>\<^verbatim>\<open>GetDBAuthParam\<close> of the Sybase and Hana plugins: name and password, trimmed in place.\<close>

definition GetDBAuthParam :: "'j plug_env \<Rightarrow> 'j request_msg \<Rightarrow> ('j, string \<times> string) act" where
  "GetDBAuthParam P req =
     bindA (GetHeadNoCheck P HTTPPARAM_DBUSERNAME req) (\<lambda>pHeadStr.
     let strDBUsername = (case pHeadStr of Some s \<Rightarrow> trim_in_place s | None \<Rightarrow> []) in
     bindA (GetHeadNoCheck P HTTPPARAM_DBPASSWORD req) (\<lambda>pHeadStr.
     let strDBPassword = (case pHeadStr of Some s \<Rightarrow> trim_in_place s | None \<Rightarrow> []) in
     thenA (whenA (strDBPassword \<noteq> [] \<and> strDBUsername = []) ERROR_COMMON_INVALID_PARAM)
     (retA (strDBUsername, strDBPassword))))"

text \<open>The fields of a parameter are found again when no value has a colon.\<close>

lemma StrSplit_colons:
  "ps \<noteq> [] \<Longrightarrow> list_all (\<lambda>p. CHR '':'' \<notin> set p) ps \<Longrightarrow> StrSplit CHR '':'' (colons ps) = ps"
  unfolding colons_def by (rule StrSplit_join) (auto simp: list_all_iff)

lemma colons_Cons: "ps \<noteq> [] \<Longrightarrow> colons (p # ps) = p @ CHR '':'' # colons ps" "colons [p] = p"
  by (cases ps; simp add: colons_def)+

end
