(* ===== verification/OracleApp.thy ===== *)
theory OracleApp
  imports DbApps
begin

text \<open>
  Oracle on Linux: \<^verbatim>\<open>COracle\<close> (\<^verbatim>\<open>src/src/apps/oracle/Oracle.cpp\<close>). The scripts run in the root process;
  their answers are lines of fields between semicolons. The local time is a parameter.
\<close>

section \<open>Data\<close>

record oracle_inst_info =
  oi_strInstName :: string
  oi_strDBName :: string
  oi_strVersion :: string
  oi_iState :: int
  oi_iIsASMDB :: int
  oi_iArchiveLogMode :: "int option" \<comment> \<open>not set by the query of the instances\<close>
  oi_strOracleHome :: string

record oracle_db_info =
  od_strInstName :: string
  od_strDBName :: string
  od_strDBUsername :: string
  od_strDBPassword :: string
  od_strASMInstance :: string
  od_strASMUserName :: string
  od_strASMPassword :: string
  od_iGetArchiveLUN :: int
  od_iIncludeArchLog :: int
  od_strOracleHome :: string
  od_strArchThreshold :: string
  od_strTableSpaceName :: string
  od_strASMDiskGroup :: string
  od_strIsASM :: string

text \<open>Empty texts; the numbers are not read before they are set.\<close>

definition no_oracle_db :: oracle_db_info where
  "no_oracle_db = \<lparr>od_strInstName = [], od_strDBName = [], od_strDBUsername = [], od_strDBPassword = [],
     od_strASMInstance = [], od_strASMUserName = [], od_strASMPassword = [], od_iGetArchiveLUN = 0, od_iIncludeArchLog = 0,
     od_strOracleHome = [], od_strArchThreshold = [], od_strTableSpaceName = [], od_strASMDiskGroup = [], od_strIsASM = []\<rparr>"

record oracle_storage_script_info =
  os_strStorMainType :: string
  os_strStorSubType :: string
  os_strSystemDevice :: string
  os_strDeviceName :: string
  os_strDevicePath :: string
  os_strVgName :: string
  os_strASMDiskGroup :: string
  os_strUDEVRes :: string
  os_strUDEVName :: string

record oracle_lun_info =
  ol_strInstName :: string
  ol_strDBName :: string
  ol_strLUNId :: string
  ol_strUUID :: string
  ol_strArraySn :: string
  ol_strWWN :: string
  ol_strVgName :: string
  ol_strDeviceName :: string
  ol_strPvName :: string
  ol_iStorMainType :: int
  ol_iStorSubType :: int
  ol_strDevicePath :: string
  ol_strUDEVRules :: string
  ol_strLBA :: string
  ol_strASMDiskGroup :: string

record luninfo =
  li_strDeviceName :: string
  li_strVendor :: string
  li_strProduct :: string
  li_strArraySN :: string
  li_strLUNID :: string
  li_strLUNWWN :: string

record oracle_pdb_rsp_info =
  op_iConID :: int
  op_strPdbName :: string
  op_iStatus :: int

record oracle_pdb_req_info =
  oq_strOracleHome :: string
  oq_strInstName :: string
  oq_strPdbName :: string
  oq_strDBUsername :: string
  oq_strDBPassword :: string

record mp_tm =
  tm_year :: int
  tm_mon :: int
  tm_mday :: int
  tm_hour :: int
  tm_min :: int
  tm_sec :: int

abbreviation ORACLE_SCRIPTPARAM_INSTNAME :: string where "ORACLE_SCRIPTPARAM_INSTNAME \<equiv> ''InstanceName=''"
abbreviation ORACLE_SCRIPTPARAM_DBNAME :: string where "ORACLE_SCRIPTPARAM_DBNAME \<equiv> ''AppName=''"
abbreviation ORACLE_SCRIPTPARAM_DBUSERNAME :: string where "ORACLE_SCRIPTPARAM_DBUSERNAME \<equiv> ''UserName=''"
abbreviation ORACLE_SCRIPTPARAM_DBPASSWORD :: string where "ORACLE_SCRIPTPARAM_DBPASSWORD \<equiv> ''Password=''"
abbreviation ORACLE_SCRIPTPARAM_TABLESPACENAME :: string where "ORACLE_SCRIPTPARAM_TABLESPACENAME \<equiv> ''TableSpaceName=''"
abbreviation ORACLE_SCRIPTPARAM_ASMINSTANCE :: string where "ORACLE_SCRIPTPARAM_ASMINSTANCE \<equiv> ''ASMInstanceName=''"
abbreviation ORACLE_SCRIPTPARAM_ASMUSERNAME :: string where "ORACLE_SCRIPTPARAM_ASMUSERNAME \<equiv> ''ASMUserName=''"
abbreviation ORACLE_SCRIPTPARAM_ASMPASSWOD :: string where "ORACLE_SCRIPTPARAM_ASMPASSWOD \<equiv> ''ASMPassword=''"
abbreviation ORACLE_SCRIPTPARAM_ORACLE_HOME :: string where "ORACLE_SCRIPTPARAM_ORACLE_HOME \<equiv> ''OracleHome=''"
abbreviation ORACLE_SCRIPTPARAM_FRUSHTYPE :: string where "ORACLE_SCRIPTPARAM_FRUSHTYPE \<equiv> ''FrushType=''"
abbreviation ORACLE_SCRIPTPARAM_ARCHIVETHRESHOLD :: string where "ORACLE_SCRIPTPARAM_ARCHIVETHRESHOLD \<equiv> ''ArchiveThreshold=''"
abbreviation ORACLE_SCRIPTPARAM_ASMDISKGROUPS :: string where "ORACLE_SCRIPTPARAM_ASMDISKGROUPS \<equiv> ''ASMDiskGroups=''"
abbreviation ORACLE_SCRIPTPARAM_ISASM :: string where "ORACLE_SCRIPTPARAM_ISASM \<equiv> ''IsASM=''"
abbreviation ORACLE_SCRIPTPARAM_ACTION :: string where "ORACLE_SCRIPTPARAM_ACTION \<equiv> ''Action=''"
abbreviation ORACLE_SCIPRTPARAM_IS_INCLUDE_ARCH :: string where "ORACLE_SCIPRTPARAM_IS_INCLUDE_ARCH \<equiv> ''IsIncludeArchLog=''"
abbreviation ORACLE_SCIPRTPARAM_TRUNCATE_LOG_TIME :: string where "ORACLE_SCIPRTPARAM_TRUNCATE_LOG_TIME \<equiv> ''TruncateLogTime=''"
abbreviation ORACLE_SCIPRTPARAM_PDBNAME :: string where "ORACLE_SCIPRTPARAM_PDBNAME \<equiv> ''PDBName=''"

abbreviation ORACLE_SCRIPTPARAM_FREEZEDB :: string where "ORACLE_SCRIPTPARAM_FREEZEDB \<equiv> ''0''"
abbreviation ORACLE_SCRIPTPARAM_THAWDB :: string where "ORACLE_SCRIPTPARAM_THAWDB \<equiv> ''1''"
abbreviation ORACLE_SCRIPTPARAM_FREEZESTATUS :: string where "ORACLE_SCRIPTPARAM_FREEZESTATUS \<equiv> ''2''"
abbreviation ORACLE_SCRIPTPARAM_ARCHIVEDB :: string where "ORACLE_SCRIPTPARAM_ARCHIVEDB \<equiv> ''3''"
abbreviation ORACLE_SCRIPTPARAM_TRUNCATEARCHIVELOG :: string where "ORACLE_SCRIPTPARAM_TRUNCATEARCHIVELOG \<equiv> ''4''"
abbreviation ORACLE_SCRIPTPARAM_GET_ARCHIVE_LOG_MODE :: string where "ORACLE_SCRIPTPARAM_GET_ARCHIVE_LOG_MODE \<equiv> ''5''"
abbreviation ORACLE_SCRIPTPARAM_CHECK_ORACLE :: string where "ORACLE_SCRIPTPARAM_CHECK_ORACLE \<equiv> ''6''"

abbreviation DBADAPTIVE_PRAMA_MUST :: string where "DBADAPTIVE_PRAMA_MUST \<equiv> ''must''"
abbreviation DBADAPTIVE_PRAMA_OPTION :: string where "DBADAPTIVE_PRAMA_OPTION \<equiv> ''option''"
abbreviation DBADAPTIVE_PRAMA_ARCHIVE :: string where "DBADAPTIVE_PRAMA_ARCHIVE \<equiv> ''archive''"
abbreviation PDB_MOUNTED :: int where "PDB_MOUNTED \<equiv> 0"
abbreviation PDB_READ_ONLY :: int where "PDB_READ_ONLY \<equiv> 1"
abbreviation PDB_READ_WRITE :: int where "PDB_READ_WRITE \<equiv> 2"
abbreviation ORACLE_QUERY_ARCHIVE_LOGS :: int where "ORACLE_QUERY_ARCHIVE_LOGS \<equiv> 1"
abbreviation NON_ARCHIVE_LOG_MODE :: int where "NON_ARCHIVE_LOG_MODE \<equiv> 0"
abbreviation ARCHIVE_LOG_MODE :: int where "ARCHIVE_LOG_MODE \<equiv> 1"
abbreviation ORACLE_TYPE_NON_CDB :: int where "ORACLE_TYPE_NON_CDB \<equiv> 0"
abbreviation ORACLE_TYPE_CDB :: int where "ORACLE_TYPE_CDB \<equiv> 1"
abbreviation ORA_INSTANCE_DATABASE_CONFIGFILE :: string where "ORA_INSTANCE_DATABASE_CONFIGFILE \<equiv> ''oracleinfo.cfg''"

text \<open>A line cut at \<open>n\<close> separators; the last field is the rest. Lines with fewer separators are skipped.\<close>

fun cut_at :: "char \<Rightarrow> nat \<Rightarrow> string \<Rightarrow> string list option" where
  "cut_at c 0 s = Some [s]"
| "cut_at c (Suc n) s =
     (case str_find [c] s of
        None \<Rightarrow> None
      | Some i \<Rightarrow> map_option ((#) (take i s)) (cut_at c n (drop (i + 1) s)))"

definition cut_rows :: "char \<Rightarrow> nat \<Rightarrow> (string list \<Rightarrow> 'a) \<Rightarrow> string list \<Rightarrow> 'a list" where
  "cut_rows c n f ls = map f (List.map_filter (cut_at c n) ls)"

text \<open>An error of the first action is answered by a handler.\<close>

definition catchA :: "('j, 'a) act \<Rightarrow> (int \<Rightarrow> ('j, 'a) act) \<Rightarrow> ('j, 'a) act" where
  "catchA m h s = (case m s of None \<Rightarrow> None | Some (s, Inl e) \<Rightarrow> h e s | Some (s, Inr a) \<Rightarrow> Some (s, Inr a))"

section \<open>Parameters of the scripts\<close>

definition BuildPDBInfoScriptParam :: "oracle_pdb_req_info \<Rightarrow> string" where
  "BuildPDBInfoScriptParam i =
     colons [ORACLE_SCRIPTPARAM_INSTNAME @ oq_strInstName i, ORACLE_SCRIPTPARAM_ORACLE_HOME @ oq_strOracleHome i,
       ORACLE_SCRIPTPARAM_DBUSERNAME @ oq_strDBUsername i, ORACLE_SCRIPTPARAM_DBPASSWORD @ oq_strDBPassword i,
       ORACLE_SCIPRTPARAM_PDBNAME @ oq_strPdbName i]"

definition Oracle_BuildLunInfoScriptParam :: "oracle_db_info \<Rightarrow> string" where
  "Oracle_BuildLunInfoScriptParam i =
     colons [ORACLE_SCRIPTPARAM_INSTNAME @ od_strInstName i, ORACLE_SCRIPTPARAM_DBNAME @ od_strDBName i,
       ORACLE_SCRIPTPARAM_DBUSERNAME @ od_strDBUsername i, ORACLE_SCRIPTPARAM_DBPASSWORD @ od_strDBPassword i,
       ORACLE_SCRIPTPARAM_TABLESPACENAME @ od_strTableSpaceName i, ORACLE_SCRIPTPARAM_ASMINSTANCE @ od_strASMInstance i,
       ORACLE_SCRIPTPARAM_ASMUSERNAME @ od_strASMUserName i, ORACLE_SCRIPTPARAM_ASMPASSWOD @ od_strASMPassword i,
       ORACLE_SCRIPTPARAM_ORACLE_HOME @ od_strOracleHome i]"

definition BuildCheckThresholdScriptParam :: "oracle_db_info \<Rightarrow> string" where
  "BuildCheckThresholdScriptParam i =
     colons [ORACLE_SCRIPTPARAM_INSTNAME @ od_strInstName i, ORACLE_SCRIPTPARAM_ARCHIVETHRESHOLD @ od_strArchThreshold i,
       ORACLE_SCRIPTPARAM_DBUSERNAME @ od_strDBUsername i, ORACLE_SCRIPTPARAM_DBPASSWORD @ od_strDBPassword i,
       ORACLE_SCRIPTPARAM_ASMINSTANCE @ od_strASMInstance i, ORACLE_SCRIPTPARAM_ORACLE_HOME @ od_strOracleHome i]"

definition BuildTestScriptParam :: "oracle_db_info \<Rightarrow> string" where
  "BuildTestScriptParam i =
     colons [ORACLE_SCRIPTPARAM_INSTNAME @ od_strInstName i, ORACLE_SCRIPTPARAM_DBNAME @ od_strDBName i,
       ORACLE_SCRIPTPARAM_DBUSERNAME @ od_strDBUsername i, ORACLE_SCRIPTPARAM_DBPASSWORD @ od_strDBPassword i,
       ORACLE_SCRIPTPARAM_ORACLE_HOME @ od_strOracleHome i]"

definition BuildConsistentScriptParam :: "oracle_db_info \<Rightarrow> string \<Rightarrow> string" where
  "BuildConsistentScriptParam i strFrushType =
     colons [ORACLE_SCRIPTPARAM_INSTNAME @ od_strInstName i, ORACLE_SCRIPTPARAM_DBNAME @ od_strDBName i,
       ORACLE_SCRIPTPARAM_DBUSERNAME @ od_strDBUsername i, ORACLE_SCRIPTPARAM_DBPASSWORD @ od_strDBPassword i,
       ORACLE_SCRIPTPARAM_ORACLE_HOME @ od_strOracleHome i, ORACLE_SCRIPTPARAM_FRUSHTYPE @ strFrushType]"

definition BuildTruncateLogScriptParam :: "oracle_db_info \<Rightarrow> mp_tm \<Rightarrow> string" where
  "BuildTruncateLogScriptParam i t =
     colons [ORACLE_SCRIPTPARAM_INSTNAME @ od_strInstName i, ORACLE_SCRIPTPARAM_DBUSERNAME @ od_strDBUsername i,
       ORACLE_SCRIPTPARAM_DBPASSWORD @ od_strDBPassword i,
       ORACLE_SCIPRTPARAM_TRUNCATE_LOG_TIME @ join_sep CHR ''-'' (map IntToString
         [tm_year t + 1900, tm_mon t + 1, tm_mday t, tm_hour t, tm_min t, tm_sec t]),
       ORACLE_SCRIPTPARAM_FRUSHTYPE @ ORACLE_SCRIPTPARAM_TRUNCATEARCHIVELOG]"

definition BuildCheckCDBScriptParam :: "oracle_db_info \<Rightarrow> string" where
  "BuildCheckCDBScriptParam i =
     colons [ORACLE_SCRIPTPARAM_INSTNAME @ od_strInstName i, ORACLE_SCRIPTPARAM_DBNAME @ od_strDBName i,
       ORACLE_SCRIPTPARAM_DBUSERNAME @ od_strDBUsername i, ORACLE_SCRIPTPARAM_DBPASSWORD @ od_strDBPassword i,
       ORACLE_SCRIPTPARAM_ORACLE_HOME @ od_strOracleHome i]"

definition BuildStartASMScriptParam :: "oracle_db_info \<Rightarrow> string" where
  "BuildStartASMScriptParam i =
     colons [ORACLE_SCRIPTPARAM_INSTNAME @ od_strInstName i, ORACLE_SCRIPTPARAM_ASMUSERNAME @ od_strASMUserName i,
       ORACLE_SCRIPTPARAM_ASMPASSWOD @ od_strASMPassword i, ORACLE_SCRIPTPARAM_ASMDISKGROUPS @ od_strASMDiskGroup i,
       ORACLE_SCRIPTPARAM_ACTION @ ''0'']"

definition BuildStopASMScriptParam :: "oracle_db_info \<Rightarrow> string" where
  "BuildStopASMScriptParam i =
     colons [ORACLE_SCRIPTPARAM_INSTNAME @ od_strInstName i, ORACLE_SCRIPTPARAM_ASMUSERNAME @ od_strASMUserName i,
       ORACLE_SCRIPTPARAM_ASMPASSWOD @ od_strASMPassword i, ORACLE_SCRIPTPARAM_ACTION @ ''1'']"

definition BuildStartOracleScriptParam :: "oracle_db_info \<Rightarrow> string" where
  "BuildStartOracleScriptParam i =
     colons [ORACLE_SCRIPTPARAM_INSTNAME @ od_strInstName i, ORACLE_SCRIPTPARAM_DBNAME @ od_strDBName i,
       ORACLE_SCRIPTPARAM_DBUSERNAME @ od_strDBUsername i, ORACLE_SCRIPTPARAM_DBPASSWORD @ od_strDBPassword i,
       ORACLE_SCRIPTPARAM_ISASM @ od_strIsASM i, ORACLE_SCRIPTPARAM_ASMINSTANCE @ od_strASMInstance i,
       ORACLE_SCRIPTPARAM_ASMUSERNAME @ od_strASMUserName i, ORACLE_SCRIPTPARAM_ASMPASSWOD @ od_strASMPassword i,
       ORACLE_SCRIPTPARAM_ASMDISKGROUPS @ od_strASMDiskGroup i, ORACLE_SCRIPTPARAM_ORACLE_HOME @ od_strOracleHome i,
       ORACLE_SCIPRTPARAM_IS_INCLUDE_ARCH @ IntToString (od_iIncludeArchLog i), ORACLE_SCRIPTPARAM_ACTION @ ''0'']"

definition BuildStopOracleScriptParam :: "oracle_db_info \<Rightarrow> string" where
  "BuildStopOracleScriptParam i =
     colons [ORACLE_SCRIPTPARAM_INSTNAME @ od_strInstName i, ORACLE_SCRIPTPARAM_DBNAME @ od_strDBName i,
       ORACLE_SCRIPTPARAM_DBUSERNAME @ od_strDBUsername i, ORACLE_SCRIPTPARAM_DBPASSWORD @ od_strDBPassword i,
       ORACLE_SCRIPTPARAM_ISASM @ od_strIsASM i, ORACLE_SCRIPTPARAM_ASMINSTANCE @ od_strASMInstance i,
       ORACLE_SCRIPTPARAM_ASMUSERNAME @ od_strASMUserName i, ORACLE_SCRIPTPARAM_ASMPASSWOD @ od_strASMPassword i,
       ORACLE_SCRIPTPARAM_ORACLE_HOME @ od_strOracleHome i, ORACLE_SCRIPTPARAM_ACTION @ ''1'']"

section \<open>Scripts that only report a code\<close>

definition CheckArchiveThreshold :: "'j plug_env \<Rightarrow> oracle_db_info \<Rightarrow> ('j, unit) act" where
  "CheckArchiveThreshold P i =
     run_root P ROOT_COMMAND_SCRIPT_CHECKARCHIVETHRESHOLD (BuildCheckThresholdScriptParam i) ERROR_COMMON_SCRIPT_EXEC_FAILED"

definition Oracle_Test :: "'j plug_env \<Rightarrow> oracle_db_info \<Rightarrow> ('j, unit) act" where
  "Oracle_Test P i = run_root P ROOT_COMMAND_SCRIPT_TESTORACLE (BuildTestScriptParam i) ERROR_COMMON_SCRIPT_EXEC_FAILED"

definition Oracle_Freeze :: "'j plug_env \<Rightarrow> oracle_db_info \<Rightarrow> ('j, unit) act" where
  "Oracle_Freeze P i =
     run_root P ROOT_COMMAND_SCRIPT_FREEZEORACLE (BuildConsistentScriptParam i ORACLE_SCRIPTPARAM_FREEZEDB) ERROR_COMMON_SCRIPT_EXEC_FAILED"

definition Oracle_Thaw :: "'j plug_env \<Rightarrow> oracle_db_info \<Rightarrow> ('j, unit) act" where
  "Oracle_Thaw P i =
     run_root P ROOT_COMMAND_SCRIPT_THAWORACLE (BuildConsistentScriptParam i ORACLE_SCRIPTPARAM_THAWDB) ERROR_COMMON_SCRIPT_EXEC_FAILED"

definition ArchiveDB :: "'j plug_env \<Rightarrow> oracle_db_info \<Rightarrow> ('j, unit) act" where
  "ArchiveDB P i =
     run_root P ROOT_COMMAND_SCRIPT_ARCHIVEORACLE (BuildConsistentScriptParam i ORACLE_SCRIPTPARAM_ARCHIVEDB) ERROR_COMMON_SCRIPT_EXEC_FAILED"

text \<open>\<^verbatim>\<open>localtime_r\<close> is not asked whether it succeeded.\<close>

definition TruncateArchiveLog :: "(int \<Rightarrow> mp_tm option) \<Rightarrow> 'j plug_env \<Rightarrow> oracle_db_info \<Rightarrow> int \<Rightarrow> ('j, unit) act" where
  "TruncateArchiveLog localtime P i truncTime =
     (case localtime truncTime of
        None \<Rightarrow> crashA
      | Some t \<Rightarrow> run_root P ROOT_COMMAND_SCRIPT_TRUNCATEARCHIVELOGORACLE (BuildTruncateLogScriptParam i t) ERROR_COMMON_SCRIPT_EXEC_FAILED)"

definition StartASMInstance :: "'j plug_env \<Rightarrow> oracle_db_info \<Rightarrow> ('j, unit) act" where
  "StartASMInstance P i =
     run_root P ROOT_COMMAND_SCRIPT_STARTASMINSTANCE (BuildStartASMScriptParam i) ERROR_COMMON_SCRIPT_EXEC_FAILED"

definition StopASMInstance :: "'j plug_env \<Rightarrow> oracle_db_info \<Rightarrow> ('j, unit) act" where
  "StopASMInstance P i =
     run_root P ROOT_COMMAND_SCRIPT_STOPASMINSTANCE (BuildStopASMScriptParam i) ERROR_COMMON_SCRIPT_EXEC_FAILED"

definition StartOracleInstance :: "'j plug_env \<Rightarrow> oracle_db_info \<Rightarrow> ('j, unit) act" where
  "StartOracleInstance P i =
     run_root P ROOT_COMMAND_SCRIPT_STARTORACLEDB (BuildStartOracleScriptParam i) ERROR_COMMON_SCRIPT_EXEC_FAILED"

definition StopOracleInstance :: "'j plug_env \<Rightarrow> oracle_db_info \<Rightarrow> ('j, unit) act" where
  "StopOracleInstance P i =
     run_root P ROOT_COMMAND_SCRIPT_STOPORACLEDB (BuildStopOracleScriptParam i) ERROR_COMMON_SCRIPT_EXEC_FAILED"

definition StartPluginDB :: "'j plug_env \<Rightarrow> oracle_pdb_req_info \<Rightarrow> ('j, unit) act" where
  "StartPluginDB P i =
     bindA (query_root P ROOT_COMMAND_SCRIPT_STARTORACLEPDB (BuildPDBInfoScriptParam i) ERROR_COMMON_SCRIPT_EXEC_FAILED) (\<lambda>_. retA ())"

definition Oracle_IsInstalled :: "'j plug_env \<Rightarrow> ('j, bool) act" where
  "Oracle_IsInstalled P =
     bindA (root_exec P ROOT_COMMAND_SCRIPT_FREEZEORACLE (BuildConsistentScriptParam no_oracle_db ORACLE_SCRIPTPARAM_CHECK_ORACLE) None) (\<lambda>(v, iRet).
     if iRet = ERROR_SCRIPT_ORACLE_NOT_INSTALLED then retA False
     else if iRet = MP_SUCCESS then retA True
     else failA (TRANSFORM_RETURN_CODE iRet ERROR_COMMON_SCRIPT_EXEC_FAILED))"

section \<open>Scripts that answer\<close>

text \<open>The number in the first line of the answer.\<close>

definition first_number :: "string list \<Rightarrow> ('j, int) act" where
  "first_number vecResult = (case vecResult of [] \<Rightarrow> failA ERROR_COMMON_OPER_FAILED | r # _ \<Rightarrow> retA (atoi (c_str r)))"

definition GetArchiveLogMode :: "'j plug_env \<Rightarrow> oracle_db_info \<Rightarrow> ('j, int) act" where
  "GetArchiveLogMode P i =
     bindA (query_root P ROOT_COMMAND_SCRIPT_ARCHIVEORACLE (BuildConsistentScriptParam i ORACLE_SCRIPTPARAM_GET_ARCHIVE_LOG_MODE) ERROR_COMMON_SCRIPT_EXEC_FAILED) (\<lambda>v.
     bindA (first_number v) (\<lambda>n. retA (if n = 0 then NON_ARCHIVE_LOG_MODE else ARCHIVE_LOG_MODE)))"

definition CheckCDB :: "'j plug_env \<Rightarrow> oracle_db_info \<Rightarrow> ('j, int) act" where
  "CheckCDB P i =
     bindA (query_root P ROOT_COMMAND_SCRIPT_ORACLECHECKCDB (BuildCheckCDBScriptParam i) ERROR_COMMON_SCRIPT_EXEC_FAILED) (\<lambda>v.
     bindA (first_number v) (\<lambda>n. retA (if n = 0 then ORACLE_TYPE_NON_CDB else ORACLE_TYPE_CDB)))"

definition Oracle_QueryFreezeState :: "'j plug_env \<Rightarrow> oracle_db_info \<Rightarrow> ('j, int) act" where
  "Oracle_QueryFreezeState P i =
     bindA (query_root P ROOT_COMMAND_SCRIPT_FREEZEORACLE (BuildConsistentScriptParam i ORACLE_SCRIPTPARAM_FREEZESTATUS) ERROR_COMMON_SCRIPT_EXEC_FAILED) first_number"

definition TranslatePDBStatus :: "string \<Rightarrow> int option" where
  "TranslatePDBStatus strStatus =
     (if strStatus = ''MOUNTED'' then Some PDB_MOUNTED
      else if strStatus = ''READ ONLY'' then Some PDB_READ_ONLY
      else if strStatus = ''READ WRITE'' then Some PDB_READ_WRITE
      else None)"

fun pdb_rows :: "string list \<Rightarrow> oracle_pdb_rsp_info list option" where
  "pdb_rows [] = Some []"
| "pdb_rows (l # ls) =
     (case cut_at CHR '';'' 2 l of
        None \<Rightarrow> pdb_rows ls
      | Some f \<Rightarrow>
          (case TranslatePDBStatus (f ! 2) of
             None \<Rightarrow> None
           | Some st \<Rightarrow>
               if atoi (c_str (f ! 0)) < 0 \<or> f ! 1 = [] then None
               else map_option ((#) \<lparr>op_iConID = atoi (c_str (f ! 0)), op_strPdbName = f ! 1, op_iStatus = st\<rparr>) (pdb_rows ls)))"

definition AnalysePDBInfoScriptRst :: "string list \<Rightarrow> int + oracle_pdb_rsp_info list" where
  "AnalysePDBInfoScriptRst vecResult =
     (if vecResult = [] then Inl ERROR_SQLSERVER_DB_NOT_EXIST
      else case pdb_rows vecResult of None \<Rightarrow> Inl ERROR_SQLSERVER_DB_NOT_EXIST | Some v \<Rightarrow> Inr v)"

definition GetPDBInfo :: "'j plug_env \<Rightarrow> oracle_pdb_req_info \<Rightarrow> ('j, oracle_pdb_rsp_info list) act" where
  "GetPDBInfo P i =
     bindA (query_root P ROOT_COMMAND_SCRIPT_QUERYORACLEPDBINFO (BuildPDBInfoScriptParam i) ERROR_COMMON_SCRIPT_EXEC_FAILED) (\<lambda>v.
     case AnalysePDBInfoScriptRst v of Inl e \<Rightarrow> failA e | Inr r \<Rightarrow> retA r)"

definition Oracle_AnalyseInstInfoScriptRst :: "string list \<Rightarrow> oracle_inst_info list" where
  "Oracle_AnalyseInstInfoScriptRst =
     cut_rows CHR '';'' 5 (\<lambda>f. \<lparr>oi_strInstName = f ! 1, oi_strDBName = f ! 2, oi_strVersion = f ! 0,
       oi_iState = atoi (c_str (f ! 3)), oi_iIsASMDB = atoi (c_str (f ! 4)), oi_iArchiveLogMode = None, oi_strOracleHome = f ! 5\<rparr>)"

text \<open>A file of the configuration may rename the database of an instance; the last line for an instance wins.\<close>

definition rename_dbs :: "string list \<Rightarrow> oracle_inst_info list \<Rightarrow> oracle_inst_info list" where
  "rename_dbs cfgContent insts =
     fold (\<lambda>l is. case str_find '' '' l of
             None \<Rightarrow> is
           | Some p \<Rightarrow> map (\<lambda>i. if oi_strInstName i = take p l then i\<lparr>oi_strDBName := drop (p + 1) l\<rparr> else i) is)
       cfgContent insts"

definition AnalyseDatabaseNameByConfFile :: "'j plug_env \<Rightarrow> oracle_inst_info list \<Rightarrow> ('j, oracle_inst_info list) act" where
  "AnalyseDatabaseNameByConfFile P insts s =
     (let strOraCfgFile = GetConfPath (pe_root P) @ PATH_SEPARATOR @ ORA_INSTANCE_DATABASE_CONFIGFILE; W = snd (ps_root s) in
      if \<not> Mp_FileExist W (c_str strOraCfgFile) then Some (s, Inr insts)
      else case Mp_ReadFile (xe_files (pe_exec P)) W strOraCfgFile [] of
             (cfgContent, iRet) \<Rightarrow>
               if iRet \<noteq> MP_SUCCESS then Some (s, Inl iRet) else Some (s, Inr (rename_dbs cfgContent insts)))"

definition Oracle_GetDBInfo :: "'j plug_env \<Rightarrow> ('j, oracle_inst_info list) act" where
  "Oracle_GetDBInfo P =
     bindA (query_root P ROOT_COMMAND_SCRIPT_QUERYORACLEINFO [] ERROR_COMMON_SCRIPT_EXEC_FAILED) (\<lambda>v.
     AnalyseDatabaseNameByConfFile P (Oracle_AnalyseInstInfoScriptRst v))"

definition GetInstances :: "'j plug_env \<Rightarrow> oracle_db_info \<Rightarrow> ('j, oracle_inst_info list) act" where
  "GetInstances P stDBInfo =
     bindA (Oracle_GetDBInfo P) (mapA (\<lambda>i.
       bindA (GetArchiveLogMode P (stDBInfo\<lparr>od_strInstName := oi_strInstName i\<rparr>)) (\<lambda>m. retA (i\<lparr>oi_iArchiveLogMode := Some m\<rparr>))))"

section \<open>LUNs\<close>

definition Oracle_AnalyseLunInfoScriptRST :: "string list \<Rightarrow> oracle_storage_script_info list" where
  "Oracle_AnalyseLunInfoScriptRST =
     cut_rows CHR '';'' 8 (\<lambda>f. \<lparr>os_strStorMainType = f ! 0, os_strStorSubType = f ! 1, os_strSystemDevice = f ! 2,
       os_strDeviceName = f ! 3, os_strDevicePath = f ! 4, os_strVgName = f ! 5, os_strASMDiskGroup = f ! 6,
       os_strUDEVRes = f ! 7, os_strUDEVName = f ! 8\<rparr>)"

definition CheckLUNInfoExists :: "oracle_lun_info list \<Rightarrow> oracle_lun_info \<Rightarrow> bool" where
  "CheckLUNInfoExists vecLUNInfos l =
     list_ex (\<lambda>m. ol_strWWN m = ol_strWWN l \<and> ol_strDeviceName m = ol_strDeviceName l) vecLUNInfos"

definition strip_special :: "string \<Rightarrow> string" where
  "strip_special s = filter (\<lambda>c. \<not> (c = CHR 0x22 \<or> c = CHR '' '')) s"

definition udev_param :: "string \<Rightarrow> string \<Rightarrow> string" where
  "udev_param key blanks =
     ''/etc/udev/udev.conf|grep '' @ key @ ''|grep -v '#'|awk -F '' @ [CHR 0x22] @ ''='' @ [CHR 0x22] @ '' '{print $2}''
       @ [CHR 0x27] @ blanks @ ''2>/dev/null''"

definition root_checked :: "'j plug_env \<Rightarrow> int \<Rightarrow> string \<Rightarrow> ('j, string list) act" where
  "root_checked P iCommandID strParam =
     bindA (root_exec P iCommandID strParam (Some [])) (\<lambda>(v, iRet). thenA (checkA iRet) (retA v))"

definition GetUDEVConfig :: "'j plug_env \<Rightarrow> ('j, string \<times> string) act" where
  "GetUDEVConfig P =
     bindA (root_checked P ROOT_COMMAND_CAT (udev_param ''udev_rules'' '' '')) (\<lambda>v.
     let strUDEVConfDir = (case v of [] \<Rightarrow> ''/etc/udev/rules.d/'' | d # _ \<Rightarrow> strip_special d) in
     bindA (root_checked P ROOT_COMMAND_CAT (udev_param ''udev_root'' ''  '')) (\<lambda>v.
     retA (strUDEVConfDir, case v of [] \<Rightarrow> ''/dev/'' | d # _ \<Rightarrow> strip_special d)))"

text \<open>The first rule, of the first file that has one, that names the device and its identity.\<close>

fun udev_files :: "'j plug_env \<Rightarrow> string \<Rightarrow> string \<Rightarrow> string \<Rightarrow> string list \<Rightarrow> ('j, string) act" where
  "udev_files P dir strUdevName strUdevResult [] = retA []"
| "udev_files P dir strUdevName strUdevResult (f # fs) =
     bindA (root_checked P ROOT_COMMAND_CAT
       (dir @ f @ '' | grep -v '#' | grep '' @ strUdevName @ '' | grep '' @ strUdevResult @ '' 2>/dev/null'')) (\<lambda>lstParser.
     case lstParser of [] \<Rightarrow> udev_files P dir strUdevName strUdevResult fs | r # _ \<Rightarrow> retA r)"

definition GetUDEVInfo :: "'j plug_env \<Rightarrow> string \<Rightarrow> string \<Rightarrow> string \<Rightarrow> ('j, string) act" where
  "GetUDEVInfo P dir strUdevName strUdevResult =
     bindA (root_checked P ROOT_COMMAND_LS
       (dir @ ''|awk -F '' @ [CHR 0x22] @ '' '' @ [CHR 0x22] @ '' '{print $NF}'|grep '.rules'  2>/dev/null''))
       (udev_files P dir strUdevName strUdevResult)"

text \<open>
  The devices to ask for, joined by semicolons; a device is left out when its name and a semicolon
  already occur somewhere in the text.
\<close>

fun dev_list :: "string list \<Rightarrow> string \<Rightarrow> string" where
  "dev_list [] strDevList = strDevList"
| "dev_list (d # ds) strDevList =
     dev_list ds (if str_find (d @ '';'') strDevList = None then strDevList @ d @ '';'' else strDevList)"

fun luninfo_map :: "string list \<Rightarrow> (string \<rightharpoonup> luninfo) \<Rightarrow> (string \<rightharpoonup> luninfo) option" where
  "luninfo_map [] m = Some m"
| "luninfo_map (l # ls) m =
     (case StrSplit CHR '';'' l of
        [dev, vendor, product, sn, lunid, wwn] \<Rightarrow>
          luninfo_map ls (if m dev = None then m(dev \<mapsto> \<lparr>li_strDeviceName = dev, li_strVendor = vendor, li_strProduct = product,
            li_strArraySN = sn, li_strLUNID = lunid, li_strLUNWWN = wwn\<rparr>) else m)
      | _ \<Rightarrow> None)"

text \<open>
  One LUN for each storage entry. What is wrong with a LUN is an error for the type \<^verbatim>\<open>must\<close> and a skip for
  the other types; a device without an answer is an error for every type.
\<close>

definition lun_problem :: "luninfo \<Rightarrow> int option" where
  "lun_problem l =
     (if \<not> CheckHuaweiLUN (li_strVendor l) then Some ERROR_COMMON_NOT_HUAWEI_LUN
      else if li_strArraySN l = [] then Some ERROR_COMMON_NOT_HUAWEI_LUN
      else if li_strLUNWWN l = [] \<or> li_strLUNID l = [] then Some ERROR_COMMON_QUERY_APP_LUN_FAILED
      else None)"

fun oracle_lun_loop :: "'j plug_env \<Rightarrow> string \<Rightarrow> string \<Rightarrow> (string \<rightharpoonup> luninfo) \<Rightarrow> string \<Rightarrow> oracle_storage_script_info list
    \<Rightarrow> oracle_lun_info list \<Rightarrow> ('j, oracle_lun_info list) act" where
  "oracle_lun_loop P dir udev m strStorageType [] luns = retA luns"
| "oracle_lun_loop P dir udev m strStorageType (d # ds) luns =
     bindA (if os_strUDEVRes d \<noteq> [] then GetUDEVInfo P dir (os_strUDEVName d) (os_strUDEVRes d) else retA []) (\<lambda>rule.
     case m (os_strSystemDevice d) of
       None \<Rightarrow> failA ERROR_COMMON_QUERY_APP_LUN_FAILED
     | Some l \<Rightarrow>
         (case lun_problem l of
            Some e \<Rightarrow> if strStorageType = DBADAPTIVE_PRAMA_MUST then failA e else oracle_lun_loop P dir udev m strStorageType ds luns
          | None \<Rightarrow>
              let info = \<lparr>ol_strInstName = [], ol_strDBName = [], ol_strLUNId = li_strLUNID l, ol_strUUID = [],
                    ol_strArraySn = li_strArraySN l, ol_strWWN = li_strLUNWWN l, ol_strVgName = os_strVgName d,
                    ol_strDeviceName = (if rule \<noteq> [] then udev @ os_strUDEVName d else os_strDeviceName d),
                    ol_strPvName = os_strSystemDevice d, ol_iStorMainType = atoi (c_str (os_strStorMainType d)),
                    ol_iStorSubType = atoi (c_str (os_strStorSubType d)), ol_strDevicePath = os_strDevicePath d,
                    ol_strUDEVRules = rule, ol_strLBA = [], ol_strASMDiskGroup = os_strASMDiskGroup d\<rparr>
              in oracle_lun_loop P dir udev m strStorageType ds (if CheckLUNInfoExists luns info then luns else luns @ [info])))"

definition AnalyseLunInfoByScriptRSTNoWIN :: "'j plug_env \<Rightarrow> oracle_storage_script_info list \<Rightarrow> oracle_lun_info list \<Rightarrow> string
    \<Rightarrow> ('j, oracle_lun_info list) act" where
  "AnalyseLunInfoByScriptRSTNoWIN P stor luns strStorageType =
     bindA (GetUDEVConfig P) (\<lambda>(dir, udev).
     bindA (root_checked P ROOT_COMMAND_BATCH_GETLUN_INFO (butlast (dev_list (map os_strSystemDevice stor) []))) (\<lambda>v.
     thenA (whenA (v = []) MP_FAILED)
     (case luninfo_map v Map.empty of
        None \<Rightarrow> failA MP_FAILED
      | Some m \<Rightarrow> oracle_lun_loop P dir udev m strStorageType stor luns)))"

definition AnalyseLunInfoByScriptRST :: "'j plug_env \<Rightarrow> oracle_storage_script_info list \<Rightarrow> oracle_lun_info list \<Rightarrow> string
    \<Rightarrow> ('j, oracle_lun_info list) act" where
  "AnalyseLunInfoByScriptRST P stor luns strStorageType = AnalyseLunInfoByScriptRSTNoWIN P stor luns strStorageType"

definition GetLunInfoByStorageType :: "'j plug_env \<Rightarrow> oracle_db_info \<Rightarrow> oracle_lun_info list \<Rightarrow> string \<Rightarrow> ('j, oracle_lun_info list) act" where
  "GetLunInfoByStorageType P i luns strStorageType =
     bindA (root_checked P ROOT_COMMAND_SCRIPT_QUERYORACLELUNINFO (Oracle_BuildLunInfoScriptParam (i\<lparr>od_strTableSpaceName := strStorageType\<rparr>))) (\<lambda>v.
     AnalyseLunInfoByScriptRST P (Oracle_AnalyseLunInfoScriptRST v) luns strStorageType)"

definition GetDBLUNInfo :: "'j plug_env \<Rightarrow> oracle_db_info \<Rightarrow> ('j, oracle_lun_info list) act" where
  "GetDBLUNInfo P i =
     (let query = (\<lambda>luns ty. catchA (GetLunInfoByStorageType P i luns ty)
            (\<lambda>e. failA (TRANSFORM_RETURN_CODE e ERROR_COMMON_QUERY_APP_LUN_FAILED))) in
      if od_iGetArchiveLUN i \<noteq> ORACLE_QUERY_ARCHIVE_LOGS
      then bindA (query [] DBADAPTIVE_PRAMA_MUST) (\<lambda>luns. query luns DBADAPTIVE_PRAMA_OPTION)
      else query [] DBADAPTIVE_PRAMA_ARCHIVE)"

text \<open>Two helpers of the class for single disks.\<close>

definition GetAndCheckArraySN :: "'j plug_env \<Rightarrow> string \<Rightarrow> string \<Rightarrow> string \<Rightarrow> ('j, string) act" where
  "GetAndCheckArraySN P strDev strArraySN strStorageType =
     bindA (catchA (bindA (GetArraySN P strDev) (\<lambda>sn. retA (Inr sn)))
       (\<lambda>e. if strStorageType = DBADAPTIVE_PRAMA_MUST then failA ERROR_COMMON_QUERY_APP_LUN_FAILED else retA (Inl strArraySN)))
       (\<lambda>r. case r of
              Inl sn \<Rightarrow> retA sn
            | Inr sn \<Rightarrow> if sn = [] \<and> strStorageType = DBADAPTIVE_PRAMA_MUST then failA ERROR_COMMON_NOT_HUAWEI_LUN else retA sn)"

definition Oracle_GetVendorAndProduct :: "'j plug_env \<Rightarrow> string \<Rightarrow> string \<Rightarrow> string \<Rightarrow> ('j, string \<times> string) act" where
  "Oracle_GetVendorAndProduct P strDev strVendor strProduct =
     bindA (catchA (GetArrayVendorAndProduct P strDev strVendor strProduct)
       (\<lambda>e. if e = MP_FAILED then failA e else retA (strVendor, strProduct))) (\<lambda>(strVendor, strProduct).
     let strVendor = Trim (c_str strVendor); strProduct = Trim (c_str strProduct) in
     if CheckHuaweiLUN strVendor then retA (strVendor, strProduct) else failA ERROR_COMMON_NOT_HUAWEI_LUN)"

end
