(* ===== verification/OraclePlug.thy ===== *)
theory OraclePlug
  imports OracleApp
begin

text \<open>
  The actions of \<^verbatim>\<open>COraclePlugin\<close> (\<^verbatim>\<open>src/src/plugins/oracle/OraclePlugin.cpp\<close>). The passwords that the
  actions overwrite after use are local to them and leave no trace in the model.
\<close>

abbreviation HTTPPARAM_ASMSERNAME :: string where "HTTPPARAM_ASMSERNAME \<equiv> ''HTTP_ASMUSERNAME''"
abbreviation HTTPPARAM_ASMPASSWORD :: string where "HTTPPARAM_ASMPASSWORD \<equiv> ''HTTP_ASMPASSWORD''"
abbreviation RESPOND_ORACLE_PARAM_ORACLE_HOME :: string where "RESPOND_ORACLE_PARAM_ORACLE_HOME \<equiv> ''oracleHome''"
abbreviation RESPOND_ORACLE_PARAM_PDBNAME :: string where "RESPOND_ORACLE_PARAM_PDBNAME \<equiv> ''pdbName''"
abbreviation RESPOND_ORACLE_PARAM_ASMINSTNAME :: string where "RESPOND_ORACLE_PARAM_ASMINSTNAME \<equiv> ''asmInstName''"
abbreviation RESPOND_ORACLE_PARAM_SEARCHARCHIVE :: string where "RESPOND_ORACLE_PARAM_SEARCHARCHIVE \<equiv> ''isArchive''"
abbreviation RESPOND_ORACLE_PARAM_ARCHIVETHRESHOLD :: string where "RESPOND_ORACLE_PARAM_ARCHIVETHRESHOLD \<equiv> ''threshold''"
abbreviation RESPOND_ORACLE_ASMDISKGROUPS :: string where "RESPOND_ORACLE_ASMDISKGROUPS \<equiv> ''asmDiskGroups''"
abbreviation RESPOND_ORACLE_ISASM :: string where "RESPOND_ORACLE_ISASM \<equiv> ''isASM''"
abbreviation REST_PARAM_ORACLE_IS_INCLUDE_ARCH :: string where "REST_PARAM_ORACLE_IS_INCLUDE_ARCH \<equiv> ''isIncludeArchLog''"

section \<open>Names and passwords\<close>

text \<open>A name or password of the head, trimmed in place; nothing when it is missing.\<close>

definition head_trimmed :: "'j plug_env \<Rightarrow> string \<Rightarrow> 'j request_msg \<Rightarrow> ('j, string) act" where
  "head_trimmed P name req =
     bindA (GetHeadNoCheck P name req) (\<lambda>pHeadStr. retA (case pHeadStr of Some s \<Rightarrow> trim_in_place s | None \<Rightarrow> []))"

definition Oracle_GetDBAuthParam :: "'j plug_env \<Rightarrow> 'j request_msg \<Rightarrow> oracle_db_info \<Rightarrow> ('j, oracle_db_info) act" where
  "Oracle_GetDBAuthParam P req i =
     bindA (head_trimmed P HTTPPARAM_DBUSERNAME req) (\<lambda>u.
     bindA (head_trimmed P HTTPPARAM_DBPASSWORD req) (\<lambda>p.
     bindA (head_trimmed P HTTPPARAM_ASMSERNAME req) (\<lambda>au.
     bindA (head_trimmed P HTTPPARAM_ASMPASSWORD req) (\<lambda>ap.
     thenA (whenA (ap \<noteq> [] \<and> au = [] \<or> p \<noteq> [] \<and> u = []) ERROR_COMMON_INVALID_PARAM)
     (retA (i\<lparr>od_strDBUsername := u, od_strDBPassword := p, od_strASMUserName := au, od_strASMPassword := ap\<rparr>))))))"

definition GetPDBAuthParam :: "'j plug_env \<Rightarrow> 'j request_msg \<Rightarrow> oracle_pdb_req_info \<Rightarrow> ('j, oracle_pdb_req_info) act" where
  "GetPDBAuthParam P req i =
     bindA (head_trimmed P HTTPPARAM_DBUSERNAME req) (\<lambda>u.
     bindA (head_trimmed P HTTPPARAM_DBPASSWORD req) (\<lambda>p.
     thenA (whenA (p \<noteq> [] \<and> u = []) ERROR_COMMON_INVALID_PARAM)
     (retA (i\<lparr>oq_strDBUsername := u, oq_strDBPassword := p\<rparr>))))"

section \<open>The body of a request\<close>

definition oracle_body :: "'j plug_env \<Rightarrow> 'j request_msg \<Rightarrow> ('j, oracle_db_info) act" where
  "oracle_body P req =
     bindA (get_string P (m_msgBody req) REST_INSTNAME) (\<lambda>inst.
     bindA (get_string P (m_msgBody req) REST_DBNAME) (\<lambda>db.
     bindA (get_string P (m_msgBody req) RESPOND_ORACLE_PARAM_ORACLE_HOME) (\<lambda>home.
     Oracle_GetDBAuthParam P req (no_oracle_db\<lparr>od_strInstName := inst, od_strDBName := db, od_strOracleHome := home\<rparr>))))"

text \<open>A member that may be missing.\<close>

definition get_optional :: "'j plug_env \<Rightarrow> 'j \<Rightarrow> string \<Rightarrow> ('j, string) act" where
  "get_optional P j k = (if isMember (pe_json P) j k then get_string P j k else retA [])"

definition check_asm_instance :: "string \<Rightarrow> ('j, unit) act" where
  "check_asm_instance s = (if s \<noteq> [] then checkA (CheckParamString_pre s 1 254 ''+'') else retA ())"

text \<open>What \<^verbatim>\<open>StartDB\<close> and \<^verbatim>\<open>StopDB\<close> read before their checks.\<close>

definition oracle_asm_body :: "'j plug_env \<Rightarrow> 'j \<Rightarrow> ('j, oracle_db_info \<times> int) act" where
  "oracle_asm_body P j =
     bindA (get_string P j REST_INSTNAME) (\<lambda>inst.
     bindA (get_string P j REST_DBNAME) (\<lambda>db.
     bindA (get_optional P j RESPOND_ORACLE_PARAM_ASMINSTNAME) (\<lambda>asm.
     bindA (get_optional P j RESPOND_ORACLE_ASMDISKGROUPS) (\<lambda>groups.
     bindA (get_string P j RESPOND_ORACLE_PARAM_ORACLE_HOME) (\<lambda>home.
     bindA (get_int P j RESPOND_ORACLE_ISASM) (\<lambda>iISASM.
     retA (no_oracle_db\<lparr>od_strInstName := inst, od_strDBName := db, od_strASMInstance := asm, od_strASMDiskGroup := groups,
       od_strOracleHome := home, od_strIsASM := IntToString iISASM\<rparr>, iISASM)))))))"

section \<open>Actions\<close>

definition OraclePlugin_QueryInfo :: "'j plug_env \<Rightarrow> 'j request_msg \<Rightarrow> ('j, unit) act" where
  "OraclePlugin_QueryInfo P req =
     (let i = no_oracle_db\<lparr>od_strInstName := GetSpecialQueryParam REST_INSTNAME (m_url req),
            od_strOracleHome := GetSpecialQueryParam RESPOND_ORACLE_PARAM_ORACLE_HOME (m_url req)\<rparr>; K = pe_mk P in
      if od_strInstName i \<noteq> []
      then bindA (Oracle_GetDBAuthParam P req i) (\<lambda>i.
           bindA (CheckCDB P i) (\<lambda>iCDBType. set_rsp P ''type'' (jint K iCDBType)))
      else bindA (Oracle_GetDBInfo P) (\<lambda>insts. append_rsp P (map (\<lambda>i. jobj K
             [(REST_INSTNAME, jstr K (oi_strInstName i)), (REST_DBNAME, jstr K (oi_strDBName i)),
              (''version'', jstr K (oi_strVersion i)), (REST_STATE, jint K (oi_iState i)),
              (''isAsmInst'', jint K (oi_iIsASMDB i)), (RESPOND_ORACLE_PARAM_ORACLE_HOME, jstr K (oi_strOracleHome i))]) insts)))"

definition OraclePlugin_QueryPDBInfo :: "'j plug_env \<Rightarrow> 'j request_msg \<Rightarrow> ('j, unit) act" where
  "OraclePlugin_QueryPDBInfo P req =
     (let q = (\<lambda>k. GetSpecialQueryParam k (m_url req)); K = pe_mk P in
      thenA (whenA (q REST_INSTNAME = []) ERROR_COMMON_INVALID_PARAM)
      (bindA (GetPDBAuthParam P req \<lparr>oq_strOracleHome = q RESPOND_ORACLE_PARAM_ORACLE_HOME, oq_strInstName = q REST_INSTNAME,
         oq_strPdbName = q RESPOND_ORACLE_PARAM_PDBNAME, oq_strDBUsername = [], oq_strDBPassword = []\<rparr>) (\<lambda>i.
      bindA (GetPDBInfo P i) (\<lambda>v. append_rsp P (map (\<lambda>r. jobj K
         [(''conID'', jint K (op_iConID r)), (RESPOND_ORACLE_PARAM_PDBNAME, jstr K (op_strPdbName r)), (''status'', jint K (op_iStatus r))]) v)))))"

definition OraclePlugin_StartPDB :: "'j plug_env \<Rightarrow> 'j request_msg \<Rightarrow> ('j, unit) act" where
  "OraclePlugin_StartPDB P req =
     bindA (get_string P (m_msgBody req) REST_INSTNAME) (\<lambda>inst.
     bindA (get_string P (m_msgBody req) RESPOND_ORACLE_PARAM_PDBNAME) (\<lambda>pdb.
     bindA (get_string P (m_msgBody req) RESPOND_ORACLE_PARAM_ORACLE_HOME) (\<lambda>home.
     thenA (whenA (inst = []) ERROR_COMMON_INVALID_PARAM)
     (bindA (GetPDBAuthParam P req \<lparr>oq_strOracleHome = home, oq_strInstName = inst, oq_strPdbName = pdb,
        oq_strDBUsername = [], oq_strDBPassword = []\<rparr>) (StartPluginDB P)))))"

definition oracle_lun_json :: "'j json_mk \<Rightarrow> oracle_lun_info \<Rightarrow> 'j" where
  "oracle_lun_json K l = jobj K
     [(''lunId'', jstr K (ol_strLUNId l)), (''uuid'', jstr K (ol_strUUID l)), (''arraySn'', jstr K (ol_strArraySn l)),
      (''wwn'', jstr K (ol_strWWN l)), (''vgName'', jstr K (ol_strVgName l)), (''deviceName'', jstr K (ol_strDeviceName l)),
      (''pvName'', jstr K (ol_strPvName l)), (''deviceType'', jint K (ol_iStorMainType l)), (''volType'', jint K (ol_iStorSubType l)),
      (''devicePath'', jstr K (ol_strDevicePath l)), (''udevRules'', jstr K (ol_strUDEVRules l)), (''LBA'', jstr K (ol_strLBA l)),
      (''asmDiskGroup'', jstr K (ol_strASMDiskGroup l))]"

definition OraclePlugin_QueryLunInfo :: "'j plug_env \<Rightarrow> 'j request_msg \<Rightarrow> ('j, unit) act" where
  "OraclePlugin_QueryLunInfo P req =
     (let q = (\<lambda>k. GetSpecialQueryParam k (m_url req)) in
      bindA (Oracle_GetDBAuthParam P req (no_oracle_db\<lparr>od_strInstName := q REST_INSTNAME, od_strDBName := q REST_DBNAME,
        od_strASMInstance := q RESPOND_ORACLE_PARAM_ASMINSTNAME, od_iGetArchiveLUN := atoi (c_str (q RESPOND_ORACLE_PARAM_SEARCHARCHIVE)),
        od_strOracleHome := q RESPOND_ORACLE_PARAM_ORACLE_HOME\<rparr>)) (\<lambda>i.
      thenA (check_asm_instance (od_strASMInstance i))
      (thenA (checkA (CheckParamInteger32 (od_iGetArchiveLUN i) 0 1 []))
      (bindA (GetDBLUNInfo P i) (\<lambda>luns. append_rsp P (map (oracle_lun_json (pe_mk P)) luns))))))"

definition OraclePlugin_StartDB :: "'j plug_env \<Rightarrow> 'j request_msg \<Rightarrow> ('j, unit) act" where
  "OraclePlugin_StartDB P req =
     bindA (oracle_asm_body P (m_msgBody req)) (\<lambda>(i, iISASM).
     bindA (get_int P (m_msgBody req) REST_PARAM_ORACLE_IS_INCLUDE_ARCH) (\<lambda>arch.
     thenA (checkA (CheckParamInteger32 iISASM 0 1 []))
     (thenA (check_asm_instance (od_strASMInstance i))
     (thenA (checkA (CheckParamInteger32 arch 0 1 []))
     (bindA (Oracle_GetDBAuthParam P req (i\<lparr>od_iIncludeArchLog := arch\<rparr>)) (StartOracleInstance P))))))"

definition OraclePlugin_StopDB :: "'j plug_env \<Rightarrow> 'j request_msg \<Rightarrow> ('j, unit) act" where
  "OraclePlugin_StopDB P req =
     bindA (oracle_asm_body P (m_msgBody req)) (\<lambda>(i, iISASM).
     thenA (checkA (CheckParamInteger32 iISASM 0 1 []))
     (thenA (check_asm_instance (od_strASMInstance i))
     (bindA (Oracle_GetDBAuthParam P req i) (StopOracleInstance P))))"

definition OraclePlugin_Test :: "'j plug_env \<Rightarrow> 'j request_msg \<Rightarrow> ('j, unit) act" where
  "OraclePlugin_Test P req = bindA (oracle_body P req) (Oracle_Test P)"

definition OraclePlugin_CheckArchiveThreshold :: "'j plug_env \<Rightarrow> 'j request_msg \<Rightarrow> ('j, unit) act" where
  "OraclePlugin_CheckArchiveThreshold P req =
     bindA (get_string P (m_msgBody req) REST_INSTNAME) (\<lambda>inst.
     bindA (get_string P (m_msgBody req) RESPOND_ORACLE_PARAM_ARCHIVETHRESHOLD) (\<lambda>threshold.
     bindA (get_string P (m_msgBody req) RESPOND_ORACLE_PARAM_ASMINSTNAME) (\<lambda>asm.
     bindA (get_string P (m_msgBody req) RESPOND_ORACLE_PARAM_ORACLE_HOME) (\<lambda>home.
     thenA (checkA (CheckParamString threshold 1 254 ''0123456789'' []))
     (thenA (check_asm_instance asm)
     (bindA (Oracle_GetDBAuthParam P req (no_oracle_db\<lparr>od_strInstName := inst, od_strArchThreshold := threshold,
        od_strASMInstance := asm, od_strOracleHome := home\<rparr>)) (CheckArchiveThreshold P)))))))"

definition OraclePlugin_Freeze :: "'j plug_env \<Rightarrow> 'j request_msg \<Rightarrow> ('j, unit) act" where
  "OraclePlugin_Freeze P req = bindA (oracle_body P req) (Oracle_Freeze P)"

definition OraclePlugin_Thaw :: "'j plug_env \<Rightarrow> 'j request_msg \<Rightarrow> ('j, unit) act" where
  "OraclePlugin_Thaw P req = bindA (oracle_body P req) (Oracle_Thaw P)"

definition OraclePlugin_ArchiveDB :: "'j plug_env \<Rightarrow> 'j request_msg \<Rightarrow> ('j, unit) act" where
  "OraclePlugin_ArchiveDB P req = bindA (oracle_body P req) (ArchiveDB P)"

definition OraclePlugin_StartASMInstance :: "'j plug_env \<Rightarrow> 'j request_msg \<Rightarrow> ('j, unit) act" where
  "OraclePlugin_StartASMInstance P req =
     bindA (get_string P (m_msgBody req) REST_INSTNAME) (\<lambda>inst.
     bindA (get_string P (m_msgBody req) RESPOND_ORACLE_ASMDISKGROUPS) (\<lambda>groups.
     bindA (Oracle_GetDBAuthParam P req (no_oracle_db\<lparr>od_strInstName := inst, od_strASMDiskGroup := groups\<rparr>)) (StartASMInstance P)))"

definition OraclePlugin_StopASMInstance :: "'j plug_env \<Rightarrow> 'j request_msg \<Rightarrow> ('j, unit) act" where
  "OraclePlugin_StopASMInstance P req =
     bindA (get_string P (m_msgBody req) REST_INSTNAME) (\<lambda>inst.
     bindA (Oracle_GetDBAuthParam P req (no_oracle_db\<lparr>od_strInstName := inst\<rparr>)) (StopASMInstance P))"

definition OraclePlugin_StartRACCluster :: "'j plug_env \<Rightarrow> 'j request_msg \<Rightarrow> ('j, unit) act" where
  "OraclePlugin_StartRACCluster P req = retA ()"

definition OraclePlugin_GetDBFreezeState :: "'j plug_env \<Rightarrow> 'j request_msg \<Rightarrow> ('j, unit) act" where
  "OraclePlugin_GetDBFreezeState P req =
     bindA (Oracle_GetDBAuthParam P req (no_oracle_db\<lparr>od_strInstName := GetSpecialQueryParam REST_INSTNAME (m_url req),
       od_strDBName := GetSpecialQueryParam REST_DBNAME (m_url req)\<rparr>)) (\<lambda>i.
     bindA (Oracle_QueryFreezeState P i) (\<lambda>iFreezeState. set_rsp P REST_STATE (jint (pe_mk P) iFreezeState)))"

end
