(* ===== verification/SybaseApp.thy ===== *)
theory SybaseApp
  imports DbApps
begin

text \<open>
  Sybase: \<^verbatim>\<open>CSybase\<close> (\<^verbatim>\<open>src/src/apps/sybase/Sybase.cpp\<close>) and the actions of \<^verbatim>\<open>CSybasePlugin\<close>
  (\<^verbatim>\<open>src/src/plugins/sybase/SybasePlugin.cpp\<close>).
\<close>

record sybase_db_info =
  sy_strinstName :: string
  sy_strdbName :: string
  sy_strDBUsername :: string
  sy_strDBPassword :: string

abbreviation SYBASE_FREEZEDB :: string where "SYBASE_FREEZEDB \<equiv> ''0''"
abbreviation SYBASE_THAWDB :: string where "SYBASE_THAWDB \<equiv> ''1''"
abbreviation SYBASE_FREEZESTATUS :: string where "SYBASE_FREEZESTATUS \<equiv> ''2''"
abbreviation SYBASE_STARTDB :: string where "SYBASE_STARTDB \<equiv> ''0''"
abbreviation SYBASE_STOPDB :: string where "SYBASE_STOPDB \<equiv> ''1''"

section \<open>Scripts\<close>

definition Sybase_BuildScriptParam :: "sybase_db_info \<Rightarrow> string \<Rightarrow> string" where
  "Sybase_BuildScriptParam i strOperType =
     colons [SCRIPTPARAM_INSTNAME @ sy_strinstName i, SCRIPTPARAM_DBNAME @ sy_strdbName i,
       SCRIPTPARAM_DBUSERNAME @ sy_strDBUsername i, SCRIPTPARAM_DBPASSWORD @ sy_strDBPassword i,
       SCRIPTPARAM_OPERTYPE @ strOperType]"

definition Sybase_BuildScriptParam0 :: "sybase_db_info \<Rightarrow> string" where
  "Sybase_BuildScriptParam0 i =
     colons [SCRIPTPARAM_INSTNAME @ sy_strinstName i, SCRIPTPARAM_DBNAME @ sy_strdbName i,
       SCRIPTPARAM_DBUSERNAME @ sy_strDBUsername i, SCRIPTPARAM_DBPASSWORD @ sy_strDBPassword i]"

definition Sybase_StartDB :: "'j plug_env \<Rightarrow> sybase_db_info \<Rightarrow> ('j, unit) act" where
  "Sybase_StartDB P i =
     run_root P ROOT_COMMAND_SCRIPT_STARTSYBASE (Sybase_BuildScriptParam i SYBASE_STARTDB) ERROR_COMMON_SCRIPT_EXEC_FAILED"

definition Sybase_StopDB :: "'j plug_env \<Rightarrow> sybase_db_info \<Rightarrow> ('j, unit) act" where
  "Sybase_StopDB P i =
     run_root P ROOT_COMMAND_SCRIPT_STOPSYBASE (Sybase_BuildScriptParam i SYBASE_STOPDB) ERROR_COMMON_SCRIPT_EXEC_FAILED"

definition Sybase_FreezeDB :: "'j plug_env \<Rightarrow> sybase_db_info \<Rightarrow> ('j, unit) act" where
  "Sybase_FreezeDB P i =
     run_root P ROOT_COMMAND_SCRIPT_FREEZESYBASE (Sybase_BuildScriptParam i SYBASE_FREEZEDB) ERROR_COMMON_SCRIPT_EXEC_FAILED"

definition Sybase_ThawDB :: "'j plug_env \<Rightarrow> sybase_db_info \<Rightarrow> ('j, unit) act" where
  "Sybase_ThawDB P i =
     run_root P ROOT_COMMAND_SCRIPT_THAWSYBASE (Sybase_BuildScriptParam i SYBASE_THAWDB) ERROR_COMMON_SCRIPT_EXEC_FAILED"

definition Sybase_GetFreezeStatus :: "'j plug_env \<Rightarrow> sybase_db_info \<Rightarrow> ('j, int) act" where
  "Sybase_GetFreezeStatus P i =
     bindA (query_root P ROOT_COMMAND_SCRIPT_QUERYFREEZESTATUS (Sybase_BuildScriptParam i SYBASE_FREEZESTATUS) ERROR_COMMON_SCRIPT_EXEC_FAILED)
       (\<lambda>vecResult. case vecResult of [] \<Rightarrow> failA ERROR_COMMON_OPER_FAILED | r # _ \<Rightarrow> retA (atoi (c_str r)))"

definition Sybase_Test :: "'j plug_env \<Rightarrow> sybase_db_info \<Rightarrow> ('j, unit) act" where
  "Sybase_Test P i =
     run_root P ROOT_COMMAND_SCRIPT_TESTSYBASE (Sybase_BuildScriptParam0 i) ERROR_COMMON_SCRIPT_EXEC_FAILED"

section \<open>Actions\<close>

text \<open>The checks that every action makes, and the reading of the body that all but the query share.\<close>

definition sybase_checked :: "'j plug_env \<Rightarrow> 'j request_msg \<Rightarrow> string \<Rightarrow> string \<Rightarrow> ('j, sybase_db_info) act" where
  "sybase_checked P req inst db =
     thenA (whenA (inst = []) ERROR_COMMON_INVALID_PARAM)
     (thenA (checkA (CheckParamString inst 1 254 [] []))
     (bindA (GetDBAuthParam P req) (\<lambda>(u, p).
       retA \<lparr>sy_strinstName = inst, sy_strdbName = db, sy_strDBUsername = u, sy_strDBPassword = p\<rparr>)))"

definition sybase_body :: "'j plug_env \<Rightarrow> 'j request_msg \<Rightarrow> ('j, sybase_db_info) act" where
  "sybase_body P req =
     bindA (get_string P (m_msgBody req) REST_INSTNAME) (\<lambda>inst.
     bindA (get_string P (m_msgBody req) REST_DBNAME) (\<lambda>db. sybase_checked P req inst db))"

definition SybasePlugin_Test :: "'j plug_env \<Rightarrow> 'j request_msg \<Rightarrow> ('j, unit) act" where
  "SybasePlugin_Test P req = bindA (sybase_body P req) (Sybase_Test P)"

definition SybasePlugin_StartDB :: "'j plug_env \<Rightarrow> 'j request_msg \<Rightarrow> ('j, unit) act" where
  "SybasePlugin_StartDB P req = bindA (sybase_body P req) (Sybase_StartDB P)"

definition SybasePlugin_StopDB :: "'j plug_env \<Rightarrow> 'j request_msg \<Rightarrow> ('j, unit) act" where
  "SybasePlugin_StopDB P req = bindA (sybase_body P req) (Sybase_StopDB P)"

definition SybasePlugin_FreezeDB :: "'j plug_env \<Rightarrow> 'j request_msg \<Rightarrow> ('j, unit) act" where
  "SybasePlugin_FreezeDB P req = bindA (sybase_body P req) (Sybase_FreezeDB P)"

definition SybasePlugin_ThawDB :: "'j plug_env \<Rightarrow> 'j request_msg \<Rightarrow> ('j, unit) act" where
  "SybasePlugin_ThawDB P req = bindA (sybase_body P req) (Sybase_ThawDB P)"

definition SybasePlugin_GetFreezeStatus :: "'j plug_env \<Rightarrow> 'j request_msg \<Rightarrow> ('j, unit) act" where
  "SybasePlugin_GetFreezeStatus P req =
     bindA (sybase_checked P req (GetSpecialQueryParam REST_INSTNAME (m_url req)) (GetSpecialQueryParam REST_DBNAME (m_url req))) (\<lambda>i.
     bindA (Sybase_GetFreezeStatus P i) (\<lambda>iFreezeState. set_rsp P REST_STATE (jint (pe_mk P) iFreezeState)))"

end
