(* ===== verification/HanaApp.thy ===== *)
theory HanaApp
  imports DbApps
begin

text \<open>
  Hana: \<^verbatim>\<open>CHana\<close> (\<^verbatim>\<open>src/src/apps/hana/Hana.cpp\<close>) and the actions of \<^verbatim>\<open>CHanaPlugin\<close>
  (\<^verbatim>\<open>src/src/plugins/hana/HanaPlugin.cpp\<close>).
\<close>

record hana_db_info =
  ha_strInstNum :: string
  ha_strDbName :: string
  ha_strDBUsername :: string
  ha_strDBPassword :: string

abbreviation REST_INSTNUM :: string where "REST_INSTNUM \<equiv> ''instNum''"
abbreviation HANA_FREEZEDB :: string where "HANA_FREEZEDB \<equiv> ''0''"
abbreviation HANA_THAWDB :: string where "HANA_THAWDB \<equiv> ''1''"
abbreviation HANA_FREEZESTATUS :: string where "HANA_FREEZESTATUS \<equiv> ''2''"
abbreviation HANA_STARTDB :: string where "HANA_STARTDB \<equiv> ''0''"
abbreviation HANA_STOPDB :: string where "HANA_STOPDB \<equiv> ''1''"

section \<open>Scripts\<close>

definition Hana_BuildScriptParam :: "hana_db_info \<Rightarrow> string \<Rightarrow> string" where
  "Hana_BuildScriptParam i strOperType =
     colons [SCRIPTPARAM_INSTNUM @ ha_strInstNum i, SCRIPTPARAM_DBNAME @ ha_strDbName i,
       SCRIPTPARAM_DBUSERNAME @ ha_strDBUsername i, SCRIPTPARAM_DBPASSWORD @ ha_strDBPassword i,
       SCRIPTPARAM_OPERTYPE @ strOperType]"

definition Hana_BuildScriptParam0 :: "hana_db_info \<Rightarrow> string" where
  "Hana_BuildScriptParam0 i =
     colons [SCRIPTPARAM_INSTNUM @ ha_strInstNum i, SCRIPTPARAM_DBNAME @ ha_strDbName i,
       SCRIPTPARAM_DBUSERNAME @ ha_strDBUsername i, SCRIPTPARAM_DBPASSWORD @ ha_strDBPassword i]"

definition Hana_StartDB :: "'j plug_env \<Rightarrow> hana_db_info \<Rightarrow> ('j, unit) act" where
  "Hana_StartDB P i =
     run_root P ROOT_COMMAND_SCRIPT_STARTHANA (Hana_BuildScriptParam i HANA_STARTDB) ERROR_COMMON_SCRIPT_EXEC_FAILED"

definition Hana_StopDB :: "'j plug_env \<Rightarrow> hana_db_info \<Rightarrow> ('j, unit) act" where
  "Hana_StopDB P i =
     run_root P ROOT_COMMAND_SCRIPT_STOPHANA (Hana_BuildScriptParam i HANA_STOPDB) ERROR_COMMON_SCRIPT_EXEC_FAILED"

text \<open>A freeze makes the root process write every file the script names to disk.\<close>

fun sync_files :: "'j plug_env \<Rightarrow> string list \<Rightarrow> ('j, unit) act" where
  "sync_files P [] = retA ()"
| "sync_files P (f # fs) = thenA (run_root P ROOT_COMMAND_SYNC_DATA_FILE f ERROR_COMMON_APP_FREEZE_FAILED) (sync_files P fs)"

definition Hana_FreezeDB :: "'j plug_env \<Rightarrow> hana_db_info \<Rightarrow> ('j, unit) act" where
  "Hana_FreezeDB P i =
     bindA (query_root P ROOT_COMMAND_SCRIPT_FREEZEHANA (Hana_BuildScriptParam i HANA_FREEZEDB) ERROR_COMMON_APP_FREEZE_FAILED) (\<lambda>vecResult.
     thenA (whenA (vecResult = []) ERROR_COMMON_APP_FREEZE_FAILED) (sync_files P vecResult))"

definition Hana_ThawDB :: "'j plug_env \<Rightarrow> hana_db_info \<Rightarrow> ('j, unit) act" where
  "Hana_ThawDB P i =
     run_root P ROOT_COMMAND_SCRIPT_THAWHANA (Hana_BuildScriptParam i HANA_THAWDB) ERROR_COMMON_SCRIPT_EXEC_FAILED"

definition Hana_GetFreezeStatus :: "'j plug_env \<Rightarrow> hana_db_info \<Rightarrow> ('j, int) act" where
  "Hana_GetFreezeStatus P i =
     bindA (query_root P ROOT_COMMAND_SCRIPT_QUERYHANAFREEZESTATUS (Hana_BuildScriptParam i HANA_FREEZESTATUS) ERROR_COMMON_SCRIPT_EXEC_FAILED)
       (\<lambda>vecResult. case vecResult of [] \<Rightarrow> failA ERROR_COMMON_OPER_FAILED | r # _ \<Rightarrow> retA (atoi (c_str r)))"

definition Hana_Test :: "'j plug_env \<Rightarrow> hana_db_info \<Rightarrow> ('j, unit) act" where
  "Hana_Test P i =
     run_root P ROOT_COMMAND_SCRIPT_TESTHANA (Hana_BuildScriptParam0 i) ERROR_COMMON_SCRIPT_EXEC_FAILED"

section \<open>Actions\<close>

text \<open>The checks that every action makes, and the reading of the body that all but the query share.\<close>

definition hana_checked :: "'j plug_env \<Rightarrow> 'j request_msg \<Rightarrow> string \<Rightarrow> string \<Rightarrow> ('j, hana_db_info) act" where
  "hana_checked P req inst db =
     thenA (whenA (inst = [] \<or> db = []) ERROR_COMMON_INVALID_PARAM)
     (thenA (checkA (CheckParamString inst 1 254 [] []))
     (bindA (GetDBAuthParam P req) (\<lambda>(u, p).
       retA \<lparr>ha_strInstNum = inst, ha_strDbName = db, ha_strDBUsername = u, ha_strDBPassword = p\<rparr>)))"

definition hana_body :: "'j plug_env \<Rightarrow> 'j request_msg \<Rightarrow> ('j, hana_db_info) act" where
  "hana_body P req =
     bindA (get_string P (m_msgBody req) REST_INSTNUM) (\<lambda>inst.
     bindA (get_string P (m_msgBody req) REST_DBNAME) (\<lambda>db. hana_checked P req inst db))"

definition HanaPlugin_Test :: "'j plug_env \<Rightarrow> 'j request_msg \<Rightarrow> ('j, unit) act" where
  "HanaPlugin_Test P req = bindA (hana_body P req) (Hana_Test P)"

definition HanaPlugin_StartDB :: "'j plug_env \<Rightarrow> 'j request_msg \<Rightarrow> ('j, unit) act" where
  "HanaPlugin_StartDB P req = bindA (hana_body P req) (Hana_StartDB P)"

definition HanaPlugin_StopDB :: "'j plug_env \<Rightarrow> 'j request_msg \<Rightarrow> ('j, unit) act" where
  "HanaPlugin_StopDB P req = bindA (hana_body P req) (Hana_StopDB P)"

definition HanaPlugin_FreezeDB :: "'j plug_env \<Rightarrow> 'j request_msg \<Rightarrow> ('j, unit) act" where
  "HanaPlugin_FreezeDB P req = bindA (hana_body P req) (Hana_FreezeDB P)"

definition HanaPlugin_ThawDB :: "'j plug_env \<Rightarrow> 'j request_msg \<Rightarrow> ('j, unit) act" where
  "HanaPlugin_ThawDB P req = bindA (hana_body P req) (Hana_ThawDB P)"

definition HanaPlugin_GetFreezeStatus :: "'j plug_env \<Rightarrow> 'j request_msg \<Rightarrow> ('j, unit) act" where
  "HanaPlugin_GetFreezeStatus P req =
     bindA (hana_checked P req (GetSpecialQueryParam REST_INSTNUM (m_url req)) (GetSpecialQueryParam REST_DBNAME (m_url req))) (\<lambda>i.
     bindA (Hana_GetFreezeStatus P i) (\<lambda>iFreezeState. set_rsp P REST_STATE (jint (pe_mk P) iFreezeState)))"

end
