(* ===== verification/Db2App.thy ===== *)
theory Db2App
  imports DbApps
begin

text \<open>
  DB2: \<^verbatim>\<open>CDB2\<close> (\<^verbatim>\<open>src/src/apps/db2/Db2.cpp\<close>) and the actions of \<^verbatim>\<open>CDb2Plugin\<close>
  (\<^verbatim>\<open>src/src/plugins/db2/Db2Plugin.cpp\<close>).
\<close>

record db2_inst_info =
  di_strinstName :: string
  di_strdbName :: string
  di_strversion :: string
  di_istate :: int

record db2_db_info =
  db_strinstName :: string
  db_strdbName :: string
  db_strdbUsername :: string
  db_strdbPassword :: string

record db2_storage_info =
  ds_strvolName :: string
  ds_strvgName :: string
  ds_strdeviceName :: string
  ds_strdiskName :: string
  ds_ivolType :: int
  ds_istorageType :: int

record db2_lun_info =
  dl_strlunId :: string
  dl_struuid :: string
  dl_strarraySn :: string
  dl_strwwn :: string
  dl_strdeviceName :: string
  dl_ivolType :: int
  dl_strvgName :: string
  dl_strvolName :: string
  dl_strpvName :: string
  dl_istorageType :: int

abbreviation DB2_STARTDB :: string where "DB2_STARTDB \<equiv> ''1''"
abbreviation DB2_STOPDB :: string where "DB2_STOPDB \<equiv> ''0''"
abbreviation DB2_TESTDB :: string where "DB2_TESTDB \<equiv> ''2''"
abbreviation DB2_FREEZEDB :: string where "DB2_FREEZEDB \<equiv> ''0''"
abbreviation DB2_THAWDB :: string where "DB2_THAWDB \<equiv> ''1''"
abbreviation DB2_FREEZESTATE :: string where "DB2_FREEZESTATE \<equiv> ''3''"

section \<open>Scripts\<close>

text \<open>Lines of four and six fields; the lines with fewer colons are skipped.\<close>

definition Db2_AnalyseInstInfoScriptRst :: "string list \<Rightarrow> db2_inst_info list" where
  "Db2_AnalyseInstInfoScriptRst =
     cut_lines 3 (\<lambda>f. \<lparr>di_strinstName = f ! 0, di_strdbName = f ! 1, di_strversion = f ! 2, di_istate = atoi (c_str (f ! 3))\<rparr>)"

definition Db2_AnalyseLunInfoScriptRST :: "string list \<Rightarrow> db2_storage_info list" where
  "Db2_AnalyseLunInfoScriptRST =
     cut_lines 5 (\<lambda>f. \<lparr>ds_strvolName = f ! 0, ds_strvgName = f ! 1, ds_strdeviceName = f ! 2, ds_strdiskName = f ! 3,
       ds_ivolType = atoi (c_str (f ! 4)), ds_istorageType = atoi (c_str (f ! 5))\<rparr>)"

definition Db2_BuildLunInfoScriptParam :: "db2_db_info \<Rightarrow> string" where
  "Db2_BuildLunInfoScriptParam i =
     colons [SCRIPTPARAM_INSTNAME @ db_strinstName i, SCRIPTPARAM_DBNAME @ db_strdbName i,
       SCRIPTPARAM_DBUSERNAME @ db_strdbUsername i, SCRIPTPARAM_DBPASSWORD @ db_strdbPassword i]"

definition Db2_BuildScriptParam :: "db2_db_info \<Rightarrow> string \<Rightarrow> string" where
  "Db2_BuildScriptParam i strOperType =
     colons [SCRIPTPARAM_INSTNAME @ db_strinstName i, SCRIPTPARAM_DBNAME @ db_strdbName i,
       SCRIPTPARAM_DBUSERNAME @ db_strdbUsername i, SCRIPTPARAM_DBPASSWORD @ db_strdbPassword i,
       SCRIPTPARAM_OPERTYPE @ strOperType]"

text \<open>
  The LUN of each disk. The variables of the loop keep the values of the disk before; a vendor is
  compared as a C string after it has been trimmed in place.
\<close>

fun Db2_lun_loop :: "'j plug_env \<Rightarrow> db2_storage_info list \<Rightarrow> string \<Rightarrow> string \<Rightarrow> string \<Rightarrow> string \<Rightarrow> db2_lun_info list \<Rightarrow> ('j, db2_lun_info list) act" where
  "Db2_lun_loop P [] strVendor strProduct strLunWWN strLunID vecdbLunInfo = retA vecdbLunInfo"
| "Db2_lun_loop P (d # ds) strVendor strProduct strLunWWN strLunID vecdbLunInfo =
     (let strDev = ds_strdiskName d in
      bindA (elseA (GetArrayVendorAndProduct P strDev strVendor strProduct) ERROR_COMMON_NOT_HUAWEI_LUN) (\<lambda>(strVendor, strProduct).
      let strVendor = trim_in_place strVendor; strProduct = trim_in_place strProduct in
      thenA (whenA (\<not> CheckHuaweiLUN strVendor) ERROR_COMMON_NOT_HUAWEI_LUN)
      (bindA (elseA (GetArraySN P strDev) ERROR_COMMON_NOT_HUAWEI_LUN) (\<lambda>strSN.
      bindA (elseA (GetLunInfo P strDev strLunWWN strLunID) ERROR_COMMON_NOT_HUAWEI_LUN) (\<lambda>(strLunWWN, strLunID).
      Db2_lun_loop P ds strVendor strProduct strLunWWN strLunID (vecdbLunInfo @ [\<lparr>dl_strlunId = strLunID, dl_struuid = [], dl_strarraySn = strSN, dl_strwwn = strLunWWN,
        dl_strdeviceName = ds_strdeviceName d, dl_ivolType = ds_ivolType d, dl_strvgName = ds_strvgName d,
        dl_strvolName = ds_strvolName d, dl_strpvName = ds_strdiskName d, dl_istorageType = ds_istorageType d\<rparr>]))))))"

definition Db2_GetDiskLunInfo :: "'j plug_env \<Rightarrow> db2_storage_info list \<Rightarrow> ('j, db2_lun_info list) act" where
  "Db2_GetDiskLunInfo P vecdbStorInfo = Db2_lun_loop P vecdbStorInfo [] [] [] [] []"

definition Db2_GetInfo :: "'j plug_env \<Rightarrow> ('j, db2_inst_info list) act" where
  "Db2_GetInfo P =
     bindA (query_root P ROOT_COMMAND_SCRIPT_QUERYDB2INFO [] ERROR_COMMON_SCRIPT_EXEC_FAILED) (\<lambda>vecResult.
     retA (Db2_AnalyseInstInfoScriptRst vecResult))"

definition Db2_GetLunInfo :: "'j plug_env \<Rightarrow> db2_db_info \<Rightarrow> ('j, db2_lun_info list) act" where
  "Db2_GetLunInfo P i =
     bindA (query_root P ROOT_COMMAND_SCRIPT_QUERYDB2LUNINFO (Db2_BuildLunInfoScriptParam i) ERROR_COMMON_SCRIPT_EXEC_FAILED) (\<lambda>vecResult.
     Db2_GetDiskLunInfo P (Db2_AnalyseLunInfoScriptRST vecResult))"

definition Db2_Start :: "'j plug_env \<Rightarrow> db2_db_info \<Rightarrow> ('j, unit) act" where
  "Db2_Start P i = run_root P ROOT_COMMAND_SCRIPT_RECOVERDB2 (Db2_BuildScriptParam i DB2_STARTDB) ERROR_COMMON_SCRIPT_EXEC_FAILED"

definition Db2_Stop :: "'j plug_env \<Rightarrow> db2_db_info \<Rightarrow> ('j, unit) act" where
  "Db2_Stop P i = run_root P ROOT_COMMAND_SCRIPT_RECOVERDB2 (Db2_BuildScriptParam i DB2_STOPDB) ERROR_COMMON_SCRIPT_EXEC_FAILED"

definition Db2_Test :: "'j plug_env \<Rightarrow> db2_db_info \<Rightarrow> ('j, unit) act" where
  "Db2_Test P i = run_root P ROOT_COMMAND_SCRIPT_SAMPLEDB2 (Db2_BuildScriptParam i DB2_TESTDB) ERROR_COMMON_SCRIPT_EXEC_FAILED"

definition Db2_Freeze :: "'j plug_env \<Rightarrow> db2_db_info \<Rightarrow> ('j, unit) act" where
  "Db2_Freeze P i = run_root P ROOT_COMMAND_SCRIPT_SAMPLEDB2 (Db2_BuildScriptParam i DB2_FREEZEDB) ERROR_COMMON_SCRIPT_EXEC_FAILED"

definition Db2_UnFreeze :: "'j plug_env \<Rightarrow> db2_db_info \<Rightarrow> ('j, unit) act" where
  "Db2_UnFreeze P i = run_root P ROOT_COMMAND_SCRIPT_SAMPLEDB2 (Db2_BuildScriptParam i DB2_THAWDB) ERROR_COMMON_SCRIPT_EXEC_FAILED"

text \<open>The front of the result is taken without asking whether there is one.\<close>

definition Db2_QueryFreezeState :: "'j plug_env \<Rightarrow> db2_db_info \<Rightarrow> ('j, int) act" where
  "Db2_QueryFreezeState P i =
     bindA (query_root P ROOT_COMMAND_SCRIPT_SAMPLEDB2 (Db2_BuildScriptParam i DB2_FREEZESTATE) ERROR_COMMON_SCRIPT_EXEC_FAILED)
       (\<lambda>vecResult. case vecResult of [] \<Rightarrow> crashA | r # _ \<Rightarrow> retA (atoi (c_str r)))"

section \<open>Actions\<close>

text \<open>The checks that the actions share: both names of one to eight characters, then the head of the request.\<close>

definition db2_checked :: "'j plug_env \<Rightarrow> 'j request_msg \<Rightarrow> string \<Rightarrow> string \<Rightarrow> ('j, db2_db_info) act" where
  "db2_checked P req inst db =
     thenA (checkA (CheckParamString inst 1 8 [] []))
     (thenA (checkA (CheckParamString db 1 8 [] []))
     (bindA (get_head P HTTPPARAM_DBUSERNAME req) (\<lambda>u.
      bindA (get_head P HTTPPARAM_DBPASSWORD req) (\<lambda>p.
      retA \<lparr>db_strinstName = inst, db_strdbName = db, db_strdbUsername = u, db_strdbPassword = p\<rparr>))))"

definition db2_body :: "'j plug_env \<Rightarrow> 'j request_msg \<Rightarrow> ('j, db2_db_info) act" where
  "db2_body P req =
     bindA (get_string P (m_msgBody req) REST_INSTNAME) (\<lambda>inst.
     bindA (get_string P (m_msgBody req) REST_DBNAME) (\<lambda>db. db2_checked P req inst db))"

definition db2_query :: "'j plug_env \<Rightarrow> 'j request_msg \<Rightarrow> ('j, db2_db_info) act" where
  "db2_query P req =
     db2_checked P req (GetSpecialQueryParam REST_INSTNAME (m_url req)) (GetSpecialQueryParam REST_DBNAME (m_url req))"

definition Db2Plugin_QueryInfo :: "'j plug_env \<Rightarrow> 'j request_msg \<Rightarrow> ('j, unit) act" where
  "Db2Plugin_QueryInfo P req =
     bindA (Db2_GetInfo P) (\<lambda>v. append_rsp P (map (\<lambda>i. jobj (pe_mk P)
       [(REST_INSTNAME, jstr (pe_mk P) (di_strinstName i)), (REST_DBNAME, jstr (pe_mk P) (di_strdbName i)),
        (''version'', jstr (pe_mk P) (di_strversion i)), (REST_STATE, jint (pe_mk P) (di_istate i))]) v))"

definition Db2Plugin_QueryLunInfo :: "'j plug_env \<Rightarrow> 'j request_msg \<Rightarrow> ('j, unit) act" where
  "Db2Plugin_QueryLunInfo P req =
     bindA (db2_query P req) (\<lambda>i.
     bindA (Db2_GetLunInfo P i) (\<lambda>v. append_rsp P (map (\<lambda>l. jobj (pe_mk P)
       [(''lunId'', jstr (pe_mk P) (dl_strlunId l)), (''uuid'', jstr (pe_mk P) (dl_struuid l)),
        (''arraySn'', jstr (pe_mk P) (dl_strarraySn l)), (''wwn'', jstr (pe_mk P) (dl_strwwn l)),
        (''deviceName'', jstr (pe_mk P) (dl_strdeviceName l)), (''volType'', jint (pe_mk P) (dl_ivolType l)),
        (''vgName'', jstr (pe_mk P) (dl_strvgName l)), (''volName'', jstr (pe_mk P) (dl_strvolName l)),
        (''deviceType'', jint (pe_mk P) (dl_istorageType l)), (''pvName'', jstr (pe_mk P) (dl_strpvName l))]) v)))"

definition Db2Plugin_Start :: "'j plug_env \<Rightarrow> 'j request_msg \<Rightarrow> ('j, unit) act" where
  "Db2Plugin_Start P req = bindA (db2_body P req) (Db2_Start P)"

definition Db2Plugin_Stop :: "'j plug_env \<Rightarrow> 'j request_msg \<Rightarrow> ('j, unit) act" where
  "Db2Plugin_Stop P req = bindA (db2_body P req) (Db2_Stop P)"

definition Db2Plugin_Test :: "'j plug_env \<Rightarrow> 'j request_msg \<Rightarrow> ('j, unit) act" where
  "Db2Plugin_Test P req = bindA (db2_body P req) (Db2_Test P)"

definition Db2Plugin_Freeze :: "'j plug_env \<Rightarrow> 'j request_msg \<Rightarrow> ('j, unit) act" where
  "Db2Plugin_Freeze P req = bindA (db2_body P req) (Db2_Freeze P)"

definition Db2Plugin_UnFreeze :: "'j plug_env \<Rightarrow> 'j request_msg \<Rightarrow> ('j, unit) act" where
  "Db2Plugin_UnFreeze P req = bindA (db2_body P req) (Db2_UnFreeze P)"

definition Db2Plugin_QueryFreezeState :: "'j plug_env \<Rightarrow> 'j request_msg \<Rightarrow> ('j, unit) act" where
  "Db2Plugin_QueryFreezeState P req =
     bindA (db2_query P req) (\<lambda>i.
     bindA (Db2_QueryFreezeState P i) (\<lambda>iFreezeState. set_rsp P REST_STATE (jint (pe_mk P) iFreezeState)))"

end
