(* ===== verification/CacheApp.thy ===== *)
theory CacheApp
  imports DbApps
begin

text \<open>
  Cache: \<^verbatim>\<open>CCache\<close> (\<^verbatim>\<open>src/src/apps/cache/Cache.cpp\<close>) and the actions of \<^verbatim>\<open>CCachePlugin\<close>
  (\<^verbatim>\<open>src/src/plugins/cache/CachePlugin.cpp\<close>).
\<close>

record cache_inst_info =
  ci_strinstName :: string
  ci_strversion :: string
  ci_istate :: int

record cache_db_info =
  cd_strinstName :: string

record cache_storage_info =
  cs_strvolName :: string
  cs_strvgName :: string
  cs_strdeviceName :: string
  cs_strdiskName :: string
  cs_ivolType :: int
  cs_istorageType :: int

record cache_lun_info =
  cl_strlunId :: string
  cl_strarraySn :: string
  cl_strwwn :: string
  cl_strdeviceName :: string
  cl_ivolType :: int
  cl_strvgName :: string
  cl_strvolName :: string
  cl_strpvName :: string
  cl_istorageType :: int

abbreviation CACHE_TESTDB :: string where "CACHE_TESTDB \<equiv> ''2''"

definition Cache_AnalyseInstInfoScriptRst :: "string list \<Rightarrow> cache_inst_info list" where
  "Cache_AnalyseInstInfoScriptRst =
     cut_lines 2 (\<lambda>f. \<lparr>ci_strinstName = f ! 0, ci_strversion = f ! 1, ci_istate = atoi (c_str (f ! 2))\<rparr>)"

definition Cache_AnalyseLunInfoScriptRST :: "string list \<Rightarrow> cache_storage_info list" where
  "Cache_AnalyseLunInfoScriptRST =
     cut_lines 5 (\<lambda>f. \<lparr>cs_strvolName = f ! 0, cs_strvgName = f ! 1, cs_strdeviceName = f ! 2, cs_strdiskName = f ! 3,
       cs_ivolType = atoi (c_str (f ! 4)), cs_istorageType = atoi (c_str (f ! 5))\<rparr>)"

definition Cache_BuildLunInfoScriptParam :: "cache_db_info \<Rightarrow> string" where
  "Cache_BuildLunInfoScriptParam i = SCRIPTPARAM_INSTNAME @ cd_strinstName i"

definition Cache_BuildScriptParam :: "cache_db_info \<Rightarrow> string \<Rightarrow> string" where
  "Cache_BuildScriptParam i strOperType = SCRIPTPARAM_INSTNAME @ cd_strinstName i"

fun Cache_lun_loop :: "'j plug_env \<Rightarrow> cache_storage_info list \<Rightarrow> string \<Rightarrow> string \<Rightarrow> string \<Rightarrow> string \<Rightarrow> cache_lun_info list \<Rightarrow> ('j, cache_lun_info list) act" where
  "Cache_lun_loop P [] strVendor strProduct strLunWWN strLunID vecdbLunInfo = retA vecdbLunInfo"
| "Cache_lun_loop P (d # ds) strVendor strProduct strLunWWN strLunID vecdbLunInfo =
     (let strDev = cs_strdiskName d in
      bindA (elseA (GetArrayVendorAndProduct P strDev strVendor strProduct) ERROR_COMMON_QUERY_APP_LUN_FAILED) (\<lambda>(strVendor, strProduct).
      let strVendor = trim_in_place strVendor; strProduct = trim_in_place strProduct in
      thenA (whenA (\<not> CheckHuaweiLUN strVendor) ERROR_COMMON_NOT_HUAWEI_LUN)
      (bindA (elseA (GetArraySN P strDev) ERROR_COMMON_QUERY_APP_LUN_FAILED) (\<lambda>strSN.
      bindA (elseA (GetLunInfo P strDev strLunWWN strLunID) ERROR_COMMON_QUERY_APP_LUN_FAILED) (\<lambda>(strLunWWN, strLunID).
      Cache_lun_loop P ds strVendor strProduct strLunWWN strLunID (vecdbLunInfo @ [\<lparr>cl_strlunId = strLunID, cl_strarraySn = strSN, cl_strwwn = strLunWWN,
        cl_strdeviceName = cs_strdeviceName d, cl_ivolType = cs_ivolType d, cl_strvgName = cs_strvgName d,
        cl_strvolName = cs_strvolName d, cl_strpvName = cs_strdiskName d, cl_istorageType = cs_istorageType d\<rparr>]))))))"

definition Cache_GetDiskLunInfo :: "'j plug_env \<Rightarrow> cache_storage_info list \<Rightarrow> ('j, cache_lun_info list) act" where
  "Cache_GetDiskLunInfo P vecdbStorInfo = Cache_lun_loop P vecdbStorInfo [] [] [] [] []"

definition Cache_GetInfo :: "'j plug_env \<Rightarrow> ('j, cache_inst_info list) act" where
  "Cache_GetInfo P =
     bindA (query_root P ROOT_COMMAND_SCRIPT_QUERYCACHEINFO [] ERROR_COMMON_SCRIPT_EXEC_FAILED) (\<lambda>vecResult.
     retA (Cache_AnalyseInstInfoScriptRst vecResult))"

definition Cache_GetLunInfo :: "'j plug_env \<Rightarrow> cache_db_info \<Rightarrow> ('j, cache_lun_info list) act" where
  "Cache_GetLunInfo P i =
     bindA (query_root P ROOT_COMMAND_SCRIPT_QUERYCACHELUNINFO (Cache_BuildLunInfoScriptParam i) ERROR_COMMON_SCRIPT_EXEC_FAILED) (\<lambda>vecResult.
     Cache_GetDiskLunInfo P (Cache_AnalyseLunInfoScriptRST vecResult))"

definition Cache_Test :: "'j plug_env \<Rightarrow> cache_db_info \<Rightarrow> ('j, unit) act" where
  "Cache_Test P i = run_root P ROOT_COMMAND_SCRIPT_SAMPLECACHE (Cache_BuildScriptParam i CACHE_TESTDB) ERROR_COMMON_SCRIPT_EXEC_FAILED"

section \<open>Actions\<close>

definition CachePlugin_QueryInfo :: "'j plug_env \<Rightarrow> 'j request_msg \<Rightarrow> ('j, unit) act" where
  "CachePlugin_QueryInfo P req =
     bindA (Cache_GetInfo P) (\<lambda>v. append_rsp P (map (\<lambda>i. jobj (pe_mk P)
       [(REST_INSTNAME, jstr (pe_mk P) (ci_strinstName i)), (''version'', jstr (pe_mk P) (ci_strversion i)),
        (REST_STATE, jint (pe_mk P) (ci_istate i))]) v))"

definition CachePlugin_QueryLunInfo :: "'j plug_env \<Rightarrow> 'j request_msg \<Rightarrow> ('j, unit) act" where
  "CachePlugin_QueryLunInfo P req =
     bindA (Cache_GetLunInfo P \<lparr>cd_strinstName = GetSpecialQueryParam REST_INSTNAME (m_url req)\<rparr>) (\<lambda>v.
     append_rsp P (map (\<lambda>l. jobj (pe_mk P)
       [(''lunId'', jstr (pe_mk P) (cl_strlunId l)), (''arraySn'', jstr (pe_mk P) (cl_strarraySn l)), (''wwn'', jstr (pe_mk P) (cl_strwwn l)),
        (''deviceName'', jstr (pe_mk P) (cl_strvolName l)), (''vgName'', jstr (pe_mk P) (cl_strvgName l)),
        (''devicePath'', jstr (pe_mk P) (cl_strdeviceName l))]) v))"

definition CachePlugin_Test :: "'j plug_env \<Rightarrow> 'j request_msg \<Rightarrow> ('j, unit) act" where
  "CachePlugin_Test P req =
     bindA (get_string P (m_msgBody req) REST_INSTNAME) (\<lambda>inst. Cache_Test P \<lparr>cd_strinstName = inst\<rparr>)"

end
