(* ===== verification/RootDemo.thy ===== *)
theory RootDemo
  imports RootCaller
begin

text \<open>
  A shell for the agent: a command line of the caller of the root process starts the root process, any
  other goes to a given shell. It satisfies what the caller relies on, for every root path without
  blanks and delimiters and every root process that starts.
\<close>

definition agent_shell :: "root_env \<Rightarrow> string \<Rightarrow> (string \<Rightarrow> file_world \<Rightarrow> file_world \<times> popen_result) \<Rightarrow> string \<Rightarrow> file_world
    \<Rightarrow> file_world \<times> popen_result" where
  "agent_shell R root other cmd W =
     (case StrSplit blank cmd of
        p # o1 # a1 # o2 # a2 # _ \<Rightarrow>
          if p = GetBinFilePath root ROOT_EXEC_NAME \<and> o1 = ''-c'' \<and> o2 = ''-u''
          then root_process R p [(CHR ''c'', a1), (CHR ''u'', a2)] W
          else other cmd W
      | _ \<Rightarrow> other cmd W)"

definition agent_side :: "exec_env \<Rightarrow> root_env \<Rightarrow> string \<Rightarrow> exec_env" where
  "agent_side X R root = X\<lparr>xe_shell := agent_shell R root (xe_shell X)\<rparr>"

definition root_ok :: "string \<Rightarrow> bool" where
  "root_ok root \<longleftrightarrow> list_all (\<lambda>ch. ch \<notin> {NUL, CHR '' '', CHR '';'', CHR ''&'', CHR ''|''}) root \<and> length root \<le> 800"

definition root_started :: "root_env \<Rightarrow> string \<Rightarrow> bool" where
  "root_started R root \<longleftrightarrow> rx_pid R \<noteq> rx_pgrp R \<and> Path_Init (rx_dirname R) (Some (GetBinFilePath root ROOT_EXEC_NAME)) = Inr root \<and>
     rx_config R (GetConfFilePath root AGENT_XML_CONF) = MP_SUCCESS \<and> rx_setuid R = MP_SUCCESS \<and>
     (case rx_root_gid R of None \<Rightarrow> False | Some gid \<Rightarrow> rx_setgid R gid = MP_SUCCESS) \<and> rx_crypt R = MP_SUCCESS"

lemma digits_plain: "0 \<le> i \<Longrightarrow> ch \<in> set (IntToString i) \<Longrightarrow> c_isdigit ch"
  using show_nat_digits [of "nat i"] by (simp add: IntToString_def)

lemma digits_no_blank: "0 \<le> i \<Longrightarrow> blank \<notin> set (IntToString i)"
  using digits_plain [of i blank] by (auto simp: c_isdigit_def char_code_def)

lemma digits_c_str: "0 \<le> i \<Longrightarrow> c_str (IntToString i) = IntToString i"
  using digits_plain [of i NUL] by (intro c_str_id) (auto simp: c_isdigit_def char_code_def NUL_def)

lemma agent_shell_runs:
  assumes "root_ok root" "0 \<le> c" "0 \<le> i" "NUL \<notin> set t"
  shows "agent_shell R root other (c_str (root_command_line root c (IntToString i) @ blank # t)) W =
    root_process R (GetBinFilePath root ROOT_EXEC_NAME) [(CHR ''c'', IntToString c), (CHR ''u'', IntToString i)] W"
proof -
  let ?p = "GetBinFilePath root ROOT_EXEC_NAME"
  have p: "blank \<notin> set ?p" "NUL \<notin> set ?p"
    using assms(1) by (auto simp: root_ok_def list_all_iff GetBinFilePath_def GetBinPath_def NUL_literal)
  have "str_find '' '' ?p = None" by (rule str_find_None_char [of blank]) (use p in auto)
  then have "BlankComma ?p = ?p" by (simp add: BlankComma_def)
  then have line: "root_command_line root c (IntToString i) @ blank # t = ?p @ '' -c '' @ IntToString c @ '' -u '' @ IntToString i @ blank # t"
    using p(2) by (simp add: root_command_line_def c_str_id digits_c_str assms(3))
  have "NUL \<notin> set (IntToString c)" "NUL \<notin> set (IntToString i)"
    using digits_plain [of c NUL] digits_plain [of i NUL] assms(2,3) by (auto simp: c_isdigit_def char_code_def NUL_def)
  then have "c_str (?p @ '' -c '' @ IntToString c @ '' -u '' @ IntToString i @ blank # t) = ?p @ '' -c '' @ IntToString c @ '' -u '' @ IntToString i @ blank # t"
    using p(2) assms(4) by (intro c_str_id) (auto simp: NUL_literal)
  moreover have "StrSplit blank (?p @ '' -c '' @ IntToString c @ '' -u '' @ IntToString i @ blank # t) =
      [?p, ''-c'', IntToString c, ''-u'', IntToString i] @ StrSplit blank t"
    using StrSplit_append [of blank "''-c''"] StrSplit_append [of blank "''-u''"]
    by (simp add: StrSplit_append p(1) digits_no_blank assms(2,3))
  ultimately show ?thesis unfolding line agent_shell_def by simp
qed

lemma agent_root_shell:
  assumes "root_ok root" "root_started R root"
  shows "root_shell (agent_side X R root) R root (the (rx_root_gid R))"
proof
  have log: "NUL \<notin> set (log_file Y root)" for Y
    using assms(1) by (auto simp: log_file_def BlankComma_def GetLogFilePath_def GetLogPath_def root_ok_def list_all_iff NUL_literal)
  show "xe_shell (agent_side X R root) (c_str (root_command_line root c (IntToString i) @ '' 1>>'' @ log_file (agent_side X R root) root @ '' 2>&1'')) W =
      root_process R (GetBinFilePath root ROOT_EXEC_NAME) [(CHR ''c'', IntToString c), (CHR ''u'', IntToString i)] W"
    if "0 \<le> i" "i < 1000000" "ROOT_COMMAND_SCRIPT_BEGIN \<le> c" "c < ROOT_COMMAND_BUTT" for c i W
    using agent_shell_runs [OF assms(1) that(3,1), of "''1>>'' @ log_file (agent_side X R root) root @ '' 2>&1''" R "xe_shell X" W]
      log by (simp add: agent_side_def NUL_literal)
qed (use assms in \<open>auto simp: root_started_def root_ok_def list_all_iff NUL_literal split: option.splits\<close>)

section \<open>A concrete root process\<close>

definition demo_files :: file_env where
  "demo_files = \<lparr>fe_fopen_r = \<lambda>p. True, fe_buffer = \<lambda>p. True, fe_fclose = \<lambda>p. True, fe_stat = \<lambda>p. True, fe_remove = \<lambda>p. True,
     fe_fopen_a = \<lambda>p. True, fe_fflush = \<lambda>p. None, fe_chmod = \<lambda>p. True, fe_chown = \<lambda>p. True, fe_self = (0, 0), fe_umask = 0x1A0,
     fe_passwd = [(''root'', (0, 0)), (''rdadmin'', (500, 500))]\<rparr>"

definition demo_exec :: "int \<Rightarrow> exec_env" where
  "demo_exec uid = \<lparr>xe_files = demo_files, xe_uid = uid,
     xe_shell = (\<lambda>cmd W. (W, Ran ''eth0 up'' (Some (Exited (if take 4 cmd = ''echo'' then 0 else 1))))),
     xe_hmac = (\<lambda>W p s. if s = ''ok'' then MP_SUCCESS else MP_FAILED)\<rparr>"

definition demo_disk :: disk_env where
  "demo_disk = \<lparr>de_open = (\<lambda>d w. d = ''/dev/sda''), de_command = (\<lambda>d cdb. Some [0, 0x83, 0, 20, 1, 3, 0, 16, 0x60, 0x03, 0, 0x16, 0, 0, 0, 0, 0, 0, 0, 0, 0, 0, 1, 2]),
     de_capacity = (\<lambda>d a big. (0, 0, [0, 0, 255, 255], []))\<rparr>"

definition demo_root :: root_env where
  "demo_root = \<lparr>rx_exec = demo_exec 0, rx_disk = demo_disk, rx_raw = (\<lambda>m. None), rx_realpath = Some, rx_open = (\<lambda>p. True),
     rx_fsync = (\<lambda>p. True), rx_fre_supp = True, rx_freeze = (\<lambda>p. p = ''/mnt''), rx_thaw = (\<lambda>p. None), rx_pid = 7, rx_pgrp = 1,
     rx_dirname = (\<lambda>p. Some ''/opt/bin''), rx_config = (\<lambda>p. MP_SUCCESS), rx_setuid = 0, rx_root_gid = Some 0,
     rx_setgid = (\<lambda>g. 0), rx_crypt = 0\<rparr>"

definition no_files :: file_world where
  "no_files = \<lparr>fw_text = \<lambda>p. None, fw_owner = \<lambda>p. None, fw_mode = \<lambda>p. None\<rparr>"

lemma demo_root_ok: "root_ok ''/opt''"
  by (simp add: root_ok_def NUL_literal)

lemma demo_root_started: "root_started demo_root ''/opt''"
proof -
  have "Path_Init (rx_dirname demo_root) (Some (GetBinFilePath ''/opt'' ROOT_EXEC_NAME)) = Inr ''/opt''" by code_simp
  then show ?thesis by (simp add: root_started_def demo_root_def)
qed

interpretation rs: root_shell "agent_side (demo_exec 500) demo_root ''/opt''" demo_root "''/opt''" 0
  using agent_root_shell [OF demo_root_ok demo_root_started, of "demo_exec 500"] by (simp add: demo_root_def)

end
