(* ===== verification/RootSpec.thy ===== *)
theory RootSpec
  imports RootDemo
begin

text \<open>
  What the agent gets from the root process as a whole: a query of a device travels through the input
  file, the root process, the device and the result file; a script runs only when its signature is
  accepted, and its exit status comes back through the map of error codes.
\<close>

section \<open>Queries\<close>

definition files_work :: "file_env \<Rightarrow> bool" where
  "files_work E \<longleftrightarrow> (\<forall>p. path_ok E p)"

definition clean_line :: "string \<Rightarrow> bool" where
  "clean_line l \<longleftrightarrow> CHR 0x0A \<notin> set l \<and> NUL \<notin> set l"

lemma clean_c_str: "clean_line l \<Longrightarrow> c_str l = l"
  by (simp add: clean_line_def c_str_id)

lemma hex_digit_clean: "n < 16 \<Longrightarrow> CHR 0x0A \<noteq> hex_digit n \<and> NUL \<noteq> hex_digit n"
  by (simp add: numeral_eq_Suc less_Suc_eq) (elim disjE; simp add: hex_digit_def NUL_literal char_of_def)

lemma hex_text_clean: "clean_line (concat (map hex2 bs))"
proof (induction bs)
  case (Cons b bs)
  have "unat b div 16 < 16" "unat b mod 16 < 16" using unsigned_less [where 'a = nat, of b] by simp_all
  with Cons show ?case using hex_digit_clean by (simp add: clean_line_def hex2_def)
qed (simp add: clean_line_def)

context root_shell
begin

lemma tmp_clean: "NUL \<notin> set (GetTmpFilePath root (INPUT_TMP_FILE @ IntToString i))" if "0 \<le> i"
  using plain_root(1) digits_plain [OF that, of NUL]
  by (auto simp: GetTmpFilePath_def GetTmpPath_def c_isdigit_def char_code_def NUL_literal)

lemma WriteInput_works: "files_work E \<Longrightarrow> snd (WriteInput E root u s W) = MP_SUCCESS"
  using Ipc_WriteFile_ok [of E] by (simp add: WriteInput_def files_work_def)

lemma param_read:
  assumes "files_work (xe_files X)" "files_work (xe_files (rx_exec R))" "clean_line dev" "0 \<le> i"
  obtains W' where "GetParamFromTmpFile R root (IntToString i) [] (fst (WriteInput (xe_files X) root (IntToString i) dev W)) = (W', dev, MP_SUCCESS)"
proof -
  have "snd (GetParamFromTmpFile R root (IntToString i) [] (fst (WriteInput (xe_files X) root (IntToString i) dev W))) = (dev, MP_SUCCESS)"
    using parameter_arrives [OF _ _ refl tmp_clean [OF assms(4)], of dev W] assms
    by (simp add: files_work_def clean_c_str) (simp add: clean_line_def)
  then show thesis using that by (metis prod.collapse)
qed

lemma query_arrives:
  assumes "files_work (xe_files X)" "files_work (xe_files (rx_exec R))"
    and "ROOT_COMMAND_SCRIPT_END < c" "c < ROOT_COMMAND_BUTT" "0 \<le> i" "i < 1000000" "dev \<noteq> []" "clean_line dev"
    and "\<And>u. ProcessCommand R root c u = disk_command R root u query"
    and "query dev = Some (ls, r)" "r \<noteq> MP_SUCCESS \<Longrightarrow> r mod 256 \<noteq> 0" "ls \<noteq> []" "list_all clean_line ls"
  shows "snd (RootCaller_Exec X root c dev (Some v) (i, W)) = (if r = MP_SUCCESS then (Some (v @ ls), MP_SUCCESS) else (Some v, MP_FAILED))"
proof -
  let ?u = "IntToString i" and ?W1 = "fst (WriteInput (xe_files X) root (IntToString i) dev W)"
  obtain W' where p: "GetParamFromTmpFile R root ?u [] ?W1 = (W', dev, MP_SUCCESS)"
    using param_read [OF assms(1,2,8,5)] .
  have c: "0 < c" "c \<noteq> ROOT_COMMAND_THIRDPARTY" using assms(3) by simp_all
  show ?thesis
  proof (cases "r = MP_SUCCESS")
    case False
    then have "ProcessCommand R root c ?u ?W1 = Some (W', r)" using p assms(9,10) by (simp add: disk_command_def)
    from caller_code [OF c(1) assms(4-6) this, of dev W "Some v"] show ?thesis
      using WriteInput_works [OF assms(1)] False assms(3,7,11) c(2) by simp
  next
    case True
    obtain W2 r2 where w: "WriteResult (xe_files (rx_exec R)) root ?u ls W' = (W2, r2)" by (cases "WriteResult (xe_files (rx_exec R)) root ?u ls W'")
    have r2: "r2 = MP_SUCCESS"
      using w Ipc_WriteFile_ok [of "xe_files (rx_exec R)" "GetTmpFilePath root (RESULT_TMP_FILE @ ?u)" ls W'] assms(2,12)
      by (auto simp: WriteResult_def files_work_def split: prod.splits if_splits)
    then have "ProcessCommand R root c ?u ?W1 = Some (W2, MP_SUCCESS)"
      using p assms(9,10) True w by (simp add: disk_command_def)
    from caller_code [OF c(1) assms(4-6) this, of dev W "Some v"]
    have x: "RootCaller_Exec X root c dev (Some v) (i, W) =
      (case ReadResultFile X root c ?u (Some v) W2 of (W', pv, iRet1) \<Rightarrow> (((i + 1) mod MAX_UNIQUE_ID, W'), pv, iRet1))"
      using WriteInput_works [OF assms(1)] assms(7) c(2) by simp
    have "snd (ReadResult (xe_files X) root ?u v (fst (WriteResult (xe_files (rx_exec R)) root ?u ls W'))) = (v @ ls, MP_SUCCESS)"
      using assms(1,2,12,13)
      by (intro result_round_trip_raw [OF _ refl]) (auto simp: files_work_def list_all_iff clean_line_def)
    then show ?thesis unfolding x using c(2) w True
      by (cases "ReadResult (xe_files X) root ?u v W2") (simp add: ReadResultFile_def)
  qed
qed

end

section \<open>Scripts\<close>

definition script_table :: "(int \<times> string) list" where
  "script_table = InitDB2ScriptMap @ InitOracleScriptMap @ InitCacheScriptMap @ InitHostScriptMap @ InitSybaseScriptMap @ InitHanaScriptMap"

lemmas script_tables = script_table_def InitDB2ScriptMap_def InitOracleScriptMap_def InitCacheScriptMap_def
  InitHostScriptMap_def InitSybaseScriptMap_def InitHanaScriptMap_def

lemma str_find_inside: "str_find p (a @ p @ t) \<noteq> None"
proof (induction a)
  case Nil
  have "take (length p) (p @ t) = p" by simp
  then show ?case by (cases "p @ t") (use Nil in auto)
qed auto

lemma str_find_join: "p \<in> set ps \<Longrightarrow> str_find p (join_sep c ps) \<noteq> None"
proof (induction c ps rule: join_sep.induct)
  case (2 c q)
  then show ?case using str_find_inside [of p "[]" "[]"] by simp
next
  case (3 c q r ps)
  show ?case
  proof (cases "p = q")
    case True
    then show ?thesis using str_find_inside [of p "[]"] by simp
  next
    case False
    then have "str_find p (join_sep c (r # ps)) \<noteq> None" using 3 by simp
    then obtain i where "str_find p (join_sep c (r # ps)) = Some i" by blast
    then have "join_sep c (r # ps) = take i (join_sep c (r # ps)) @ p @ drop (i + length p) (join_sep c (r # ps))"
      using str_find_Some by (metis append_take_drop_id add.commute drop_drop)
    then show ?thesis using str_find_inside [of p "q @ c # take i (join_sep c (r # ps))"]
      by (metis append.assoc append_Cons join_sep.simps(3))
  qed
qed simp

lemma table_scripts_listed: "list_all (\<lambda>(c, n). n \<in> set sign_scripts) script_table"
  by (simp add: script_tables sign_scripts_def)

lemma script_ids: "list_all (\<lambda>(c, n). ROOT_COMMAND_SCRIPT_BEGIN < c \<and> c < ROOT_COMMAND_SCRIPT_END \<and> c \<noteq> ROOT_COMMAND_THIRDPARTY) script_table"
  by (simp add: script_tables)

lemma script_ids_distinct: "distinct (map fst script_table)"
  by (simp add: script_tables)

lemma script_command: "(c, n) \<in> set script_table \<Longrightarrow> GetCommandString c = n"
proof -
  assume "(c, n) \<in> set script_table"
  then have "map_of script_table c = Some n" using script_ids_distinct by simp
  have eq: "CCommandMap = script_table @ InitSysCmdMap1 @ InitSysCmdMap2 @ InitSysCmdMap3 @ InitSysCmdMap4 @ InitSysCmdMap5 @ InitSysCmdMap6"
    by (simp add: CCommandMap_def script_table_def)
  show ?thesis unfolding GetCommandString_def eq using \<open>map_of script_table c = Some n\<close> by (simp add: map_add_def)
qed

lemma script_of_table:
  assumes "c \<in> set (map fst script_table)"
  shows "ROOT_COMMAND_SCRIPT_BEGIN < c" "c < ROOT_COMMAND_SCRIPT_END" "c \<noteq> ROOT_COMMAND_THIRDPARTY"
    and "str_find (GetCommandString c) SIGN_SCRIPT_LIST \<noteq> None"
proof -
  obtain n where "(c, n) \<in> set script_table" using assms by auto
  then show "ROOT_COMMAND_SCRIPT_BEGIN < c" "c < ROOT_COMMAND_SCRIPT_END" "c \<noteq> ROOT_COMMAND_THIRDPARTY"
    "str_find (GetCommandString c) SIGN_SCRIPT_LIST \<noteq> None"
    using script_ids script_command [of c n] table_scripts_listed str_find_join [of n sign_scripts]
    by (force simp: list_all_iff SIGN_SCRIPT_LIST_def)+
qed

lemma script_processed: "c \<in> set (map fst script_table) \<Longrightarrow> ProcessCommand X root c u W = root_ExecScript X root u c W"
  using script_of_table [of c] by (simp add: ProcessCommand_def COMProcessCommand_def)

text \<open>A script whose check fails is not run, and nothing is written.\<close>

lemma refused_script:
  assumes "Mp_FileExist W (c_str (GetBinFilePath root (GetCommandString c)))"
    and "CheckScriptSign (xe_files (rx_exec X)) (xe_hmac (rx_exec X)) root W (GetCommandString c) \<noteq> MP_SUCCESS"
  shows "root_ExecScript X root u c W = Some (W, ERROR_SCRIPT_COMMON_EXEC_FAILED)"
  using assms by (simp add: root_ExecScript_def Let_def)

end
