(* ===== verification/RootProps.thy ===== *)
theory RootProps
  imports RootSpec
begin

text \<open>
  Properties of the agent and its root process together, stated over \<^const>\<open>agent_side\<close>: an agent whose
  shell starts the root process for the command line that the caller builds.
\<close>

definition lun_id_text :: "byte list \<Rightarrow> string" where
  "lun_id_text b = take 10 (IntToString (sint (be32 b 20)))"

definition lun_wwn_text :: "byte list \<Rightarrow> string" where
  "lun_wwn_text b = concat (map hex2 (take (unat (b ! 7)) (drop 8 b)))"

lemma IntToString_clean: "clean_line (IntToString k)"
proof -
  have "ch \<in> set (show_nat n) \<Longrightarrow> ch \<noteq> CHR 0x0A \<and> ch \<noteq> NUL" for ch n
    using show_nat_digits [of n] by (auto simp: c_isdigit_def char_code_def NUL_literal)
  then show ?thesis by (auto simp: IntToString_def clean_line_def NUL_literal)
qed

lemma clean_take: "clean_line s \<Longrightarrow> clean_line (take n s)"
  by (auto simp: clean_line_def dest: in_set_takeD)

lemma HextoDec_be32:
  assumes "24 \<le> length b"
  shows "fst (HextoDec (concat (map hex2 (take 4 (drop 20 b)))) MAX_LUNID_LEN) = lun_id_text b"
proof -
  have "take 4 (drop 20 b) = [b ! 20, b ! 21, b ! 22, b ! 23]"
    using assms Cons_nth_drop_Suc [of 20 b, symmetric] Cons_nth_drop_Suc [of 21 b, symmetric]
      Cons_nth_drop_Suc [of 22 b, symmetric] Cons_nth_drop_Suc [of 23 b, symmetric]
    by (simp add: numeral_eq_Suc)
  moreover have "ucast (b ! 20) * 16 ^ 6 + ucast (b ! 21) * 16 ^ 4 + ucast (b ! 22) * 16 ^ 2 + ucast (b ! 23) = be32 b 20"
    by (simp add: be32_def push_bit_eq_mult ac_simps)
  ultimately show ?thesis unfolding HextoDec_bytes by (simp add: HextoDec_bytes [simplified] Let_def lun_id_text_def)
qed

lemma Disk83_process: "ProcessCommand R root ROOT_COMMAND_83PAGE u = disk_command R root u
    (\<lambda>dev. map_option (\<lambda>(wwn, lun, iRet). ([wwn, lun], iRet)) (GetDisk83Page (rx_disk R) dev [] []))"
  by (rule ext) (simp add: ProcessCommand_def COMProcessCommand_def SC_GetDisk83Page_def)

lemma lun_identity_raw:
  assumes "root_shell X R root gid" "files_work (xe_files X)" "files_work (xe_files (rx_exec R))"
    and "0 \<le> i" "i < 1000000" "dev \<noteq> []" "clean_line dev"
    and "any_open (rx_disk R) dev" "GetDiskPage (rx_disk R) dev 0x83 = Some b"
  shows "snd (RootCaller_Exec X root ROOT_COMMAND_83PAGE dev (Some v) (i, W)) =
    (if unat (b ! 7) \<le> 31 then (Some (v @ [lun_wwn_text b, lun_id_text b]), MP_SUCCESS) else (Some v, MP_FAILED))"
proof -
  have b: "length b = DATA_LEN_256" using assms(9) by (auto simp: GetDiskPage_def)
  have q: "GetDisk83Page (rx_disk R) dev [] [] = Some (if unat (b ! 7) \<le> 31 then (lun_wwn_text b, lun_id_text b, MP_SUCCESS) else ([], [], MP_FAILED))"
    using GetDisk83Page_eq [of "rx_disk R" dev b "[]" "[]"] assms(7,8,9) b
    by (simp add: clean_c_str HextoDec_be32 lun_wwn_text_def)
  have c: "clean_line (lun_wwn_text b)" "clean_line (lun_id_text b)"
    by (simp_all add: lun_wwn_text_def hex_text_clean lun_id_text_def clean_take IntToString_clean)
  show ?thesis
  proof (cases "unat (b ! 7) \<le> 31")
    case True
    show ?thesis
      using root_shell.query_arrives [OF assms(1-3) _ _ assms(4-7) Disk83_process, of "[lun_wwn_text b, lun_id_text b]" MP_SUCCESS v W]
        True q c by simp
  next
    case False
    show ?thesis
      using root_shell.query_arrives [OF assms(1-3) _ _ assms(4-7) Disk83_process, of "[[], []]" MP_FAILED v W]
        False q by (simp add: clean_line_def)
  qed
qed

lemma demo_works: "files_work (xe_files (demo_exec u))" "files_work (xe_files (rx_exec demo_root))"
  by (simp_all add: files_work_def path_ok_def demo_exec_def demo_files_def demo_root_def)

section \<open>Properties\<close>

text \<open>
  C18. The identity of a LUN reaches the agent: for a device with an answer to the identification
  inquiry, the caller of the root process gets the world wide name and the LUN number that the page
  holds when its name has at most 31 bytes, and a failure without results otherwise; the LUN number is
  the decimal text of a signed word, cut at ten characters.
\<close>
theorem lun_identity_reaches_agent:
  assumes "root_ok root" "root_started R root" "files_work (xe_files X)" "files_work (xe_files (rx_exec R))"
    and "0 \<le> i" "i < 1000000" "dev \<noteq> []" "clean_line dev"
    and "any_open (rx_disk R) dev" "GetDiskPage (rx_disk R) dev 0x83 = Some b"
  shows "snd (RootCaller_Exec (agent_side X R root) root ROOT_COMMAND_83PAGE dev (Some v) (i, W)) =
    (if unat (b ! 7) \<le> 31 then (Some (v @ [lun_wwn_text b, lun_id_text b]), MP_SUCCESS) else (Some v, MP_FAILED))"
  using lun_identity_raw [OF agent_root_shell [OF assms(1,2)] _ assms(4-10)] assms(3) by (simp add: agent_side_def)

theorem lun_identity_reaches_agent_witness:
  "snd (RootCaller_Exec (agent_side (demo_exec 500) demo_root ''/opt'') ''/opt'' ROOT_COMMAND_83PAGE ''/dev/sda'' (Some []) (5, no_files)) =
    (Some [''60030016000000000000000000000102'', ''258''], MP_SUCCESS)"
proof -
  let ?b = "filled DATA_LEN_256 [0, 0x83, 0, 20, 1, 3, 0, 16, 0x60, 0x03, 0, 0x16, 0, 0, 0, 0, 0, 0, 0, 0, 0, 0, 1, 2]"
  have d: "any_open (rx_disk demo_root) ''/dev/sda''" "GetDiskPage (rx_disk demo_root) ''/dev/sda'' 0x83 = Some ?b"
    by (simp_all add: any_open_def demo_root_def demo_disk_def GetDiskPage_def)
  have "snd (RootCaller_Exec (agent_side (demo_exec 500) demo_root ''/opt'') ''/opt'' ROOT_COMMAND_83PAGE ''/dev/sda'' (Some []) (5, no_files)) =
    (if unat (?b ! 7) \<le> 31 then (Some ([] @ [lun_wwn_text ?b, lun_id_text ?b]), MP_SUCCESS) else (Some [], MP_FAILED))"
    by (rule lun_identity_reaches_agent [OF demo_root_ok demo_root_started demo_works _ _ _ _ d]) (simp_all add: clean_line_def NUL_literal)
  moreover have "?b ! 7 = 16" "lun_wwn_text ?b = ''60030016000000000000000000000102''" "lun_id_text ?b = ''258''" by code_simp+
  ultimately show ?thesis by simp
qed

text \<open>
  C19. Only signed scripts run: for every script of the command table, either the file of signatures is
  empty, or it holds accepted signatures of the script and of the script with the common functions, or
  the root process refuses with one of its two codes and leaves the files as they are.
\<close>
theorem only_signed_scripts_run:
  assumes "c \<in> set (map fst script_table)"
  shows "(\<exists>t. fw_text W (GetConfFilePath root AGENT_SCRIPT_SIGN) = Some t \<and>
      (t = [] \<or> signed (xe_hmac (rx_exec R)) root W (GetCommandString c) (file_lines t) \<and>
         signed (xe_hmac (rx_exec R)) root W SCRIPT_AGENT_FUNC (file_lines t))) \<or>
    ProcessCommand R root c u W \<in> {Some (W, INTER_ERROR_SRCIPT_FILE_NOT_EXIST), Some (W, ERROR_SCRIPT_COMMON_EXEC_FAILED)}"
proof (cases "CheckScriptSign (xe_files (rx_exec R)) (xe_hmac (rx_exec R)) root W (GetCommandString c) = MP_SUCCESS")
  case True
  from CheckScriptSign_signed [OF True script_of_table(4) [OF assms]] show ?thesis by blast
next
  case False
  then show ?thesis unfolding script_processed [OF assms] by (simp add: root_ExecScript_def Let_def)
qed

theorem only_signed_scripts_run_witness:
  "ProcessCommand demo_root ''/opt'' ROOT_COMMAND_SCRIPT_QUERYDB2INFO ''7'' no_files \<in> {Some (no_files, 255), Some (no_files, 5)}"
proof -
  have "ROOT_COMMAND_SCRIPT_QUERYDB2INFO \<in> set (map fst script_table)" by (simp add: script_tables)
  from only_signed_scripts_run [OF this, of no_files "''/opt''" demo_root "''7''"] show ?thesis by (simp add: no_files_def)
qed

text \<open>
  A refused script leaves its parameters: when the script exists and its signature is not accepted,
  the caller gets the code of a script that could not run, and the input file with the parameters,
  passwords included, stays on disk.
\<close>
theorem refused_script_leaves_parameters:
  assumes "root_ok root" "root_started R root" "files_work (xe_files X)" "c \<in> set (map fst script_table)"
    and "0 \<le> i" "i < 1000000" "s \<noteq> []"
    and "W1 = fst (WriteInput (xe_files X) root (IntToString i) s W)"
    and "Mp_FileExist W1 (c_str (GetBinFilePath root (GetCommandString c)))"
    and "CheckScriptSign (xe_files (rx_exec R)) (xe_hmac (rx_exec R)) root W1 (GetCommandString c) \<noteq> MP_SUCCESS"
  shows "RootCaller_Exec (agent_side X R root) root c s pv (i, W) =
      (((i + 1) mod MAX_UNIQUE_ID, W1), pv, ERROR_COMMON_SCRIPT_EXEC_FAILED) \<and>
    fw_text W1 (GetTmpFilePath root (INPUT_TMP_FILE @ IntToString i)) = Some (c_str s @ [CHR 0x0A])"
proof -
  note rs = agent_root_shell [OF assms(1,2), of X]
  have fx: "xe_files (agent_side X R root) = xe_files X" by (simp add: agent_side_def)
  have "ProcessCommand R root c (IntToString i) W1 = Some (W1, ERROR_SCRIPT_COMMON_EXEC_FAILED)"
    unfolding script_processed [OF assms(4)] by (rule refused_script [OF assms(9,10)])
  from root_shell.caller_code [OF rs _ _ assms(5,6) this, of s W pv]
  have "RootCaller_Exec (agent_side X R root) root c s pv (i, W) = (((i + 1) mod MAX_UNIQUE_ID, W1), pv, GetErrorCode ERROR_SCRIPT_COMMON_EXEC_FAILED)"
    using script_of_table [OF assms(4)] assms(7) root_shell.WriteInput_works [OF rs assms(3), of "IntToString i" s W]
    by (simp add: fx assms(8))
  moreover have "GetErrorCode ERROR_SCRIPT_COMMON_EXEC_FAILED = ERROR_COMMON_SCRIPT_EXEC_FAILED"
    by (simp add: GetErrorCode_def m_mapErrorCode_def)
  ultimately show ?thesis
    using Ipc_WriteFile_ok [of "xe_files X" "GetTmpFilePath root (INPUT_TMP_FILE @ IntToString i)" "[s]" W] assms(3)
    by (simp add: assms(8) WriteInput_def files_work_def print_lines_def)
qed

definition demo_scripts :: file_world where
  "demo_scripts = no_files\<lparr>fw_text := [''/opt/bin/db2info.sh'' \<mapsto> ''exit 0'', ''/opt/conf/script.sig'' \<mapsto> ''db2info.sh=bad'']\<rparr>"

text \<open>
  C20. What the exit status of a script becomes: when the root process runs the script, status zero
  makes the caller read the results of the script, and any other status reaches the client through the
  map of error codes; a script that was killed, whose code is not a status, is reported as status 37,
  the time-out of a hot backup.
\<close>
theorem script_status_reported:
  assumes "root_ok root" "root_started R root" "files_work (xe_files X)" "c \<in> set (map fst script_table)"
    and "0 \<le> i" "i < 1000000" "s \<noteq> []"
    and "W1 = fst (WriteInput (xe_files X) root (IntToString i) s W)"
    and "Mp_FileExist W1 (c_str (GetBinFilePath root (GetCommandString c)))"
    and "CheckScriptSign (xe_files (rx_exec R)) (xe_hmac (rx_exec R)) root W1 (GetCommandString c) = MP_SUCCESS"
    and "snprintf_s (MAX_MAIN_CMD_LENGTH - 1) (c_str (BlankComma (GetBinFilePath root (GetCommandString c))) @ '' '' @
        c_str (BlankComma root) @ '' '' @ c_str (IntToString i)) = Some cmd"
    and "CheckCmdDelimiter cmd"
    and "xe_shell (rx_exec R) (c_str (cmd @ '' 1>>'' @ log_file (rx_exec R) root @ '' 2>&1'')) W1 = (W2, Ran out (Some st))"
    and "W3 = fst (ChownResult (xe_files (rx_exec R)) root (IntToString i) W2)"
  shows "RootCaller_Exec (agent_side X R root) root c s pv (i, W) =
    (case st of
       Killed \<Rightarrow> (((i + 1) mod MAX_UNIQUE_ID, W3), pv, GetErrorCode ERROR_SCRIPT_ORACLE_BEGIN_HOT_BACKUP_TIMEOUT)
     | Exited k \<Rightarrow>
         if k = 0 then (case ReadResultFile (agent_side X R root) root c (IntToString i) pv W3 of
                          (W, pv, iRet) \<Rightarrow> (((i + 1) mod MAX_UNIQUE_ID, W), pv, iRet))
         else (((i + 1) mod MAX_UNIQUE_ID, W3), pv, GetErrorCode (uint k)))"
proof -
  note rs = agent_root_shell [OF assms(1,2), of X]
  have fx: "xe_files (agent_side X R root) = xe_files X" by (simp add: agent_side_def)
  let ?r = "case st of Exited k \<Rightarrow> uint k | Killed \<Rightarrow> ERROR_COMMON_SYSTEM_CALL_FAILED"
  have "ExecSystemWithoutEcho (rx_exec R) root cmd True W1 = (W2, ?r)"
    using assms(12,13) by (simp add: ExecSystemWithoutEcho_def split: wait_status.split)
  then have "ProcessCommand R root c (IntToString i) W1 = Some (W3, ?r)"
    unfolding script_processed [OF assms(4)] using assms(9-11,14) by (simp add: root_ExecScript_def Let_def)
  from root_shell.caller_code [OF rs _ _ assms(5,6) this, of s W pv]
  have "RootCaller_Exec (agent_side X R root) root c s pv (i, W) =
    (if ?r mod 256 = 0 then
       (case ReadResultFile (agent_side X R root) root c (IntToString i) pv W3 of (W', pv, iRet1) \<Rightarrow> (((i + 1) mod MAX_UNIQUE_ID, W'), pv, iRet1))
     else (((i + 1) mod MAX_UNIQUE_ID, W3), pv, GetErrorCode (?r mod 256)))"
    using script_of_table [OF assms(4)] assms(7,8) root_shell.WriteInput_works [OF rs assms(3), of "IntToString i" s W]
    by (simp add: fx)
  moreover have "uint k mod 256 = uint k" "uint k = 0 \<longleftrightarrow> k = 0" for k :: "8 word"
    using uint_bounded [of k] by (simp_all add: uint_0_iff)
  ultimately show ?thesis by (simp split: wait_status.split)
qed

definition demo_signed :: file_world where
  "demo_signed = no_files\<lparr>fw_text := [''/opt/bin/db2info.sh'' \<mapsto> ''exit 1'',
     ''/opt/conf/script.sig'' \<mapsto> print_lines [''agent_func.sh=ok'', ''db2info.sh=ok'']]\<rparr>"

theorem script_status_reported_witness:
  "snd (snd (RootCaller_Exec (agent_side (demo_exec 500) demo_root ''/opt'') ''/opt'' ROOT_COMMAND_SCRIPT_QUERYDB2INFO ''INSTNAME=db2'' None (5, demo_signed))) =
    GetErrorCode 1"
proof -
  let ?W = "fst (WriteInput demo_files ''/opt'' ''5'' ''INSTNAME=db2'' demo_signed)"
  have x: "xe_files (rx_exec demo_root) = demo_files" "xe_files (demo_exec u) = demo_files" for u by (simp_all add: demo_root_def demo_exec_def)
  have g: "GetCommandString ROOT_COMMAND_SCRIPT_QUERYDB2INFO = ''db2info.sh''" by (rule script_command) (simp add: script_tables)
  have u: "IntToString 5 = ''5''" by code_simp
  have c: "ROOT_COMMAND_SCRIPT_QUERYDB2INFO \<in> set (map fst script_table)" by (simp add: script_tables)
  have e: "CheckScriptSign demo_files (xe_hmac (rx_exec demo_root)) ''/opt'' ?W ''db2info.sh'' = MP_SUCCESS"
    "Mp_FileExist ?W (c_str (GetBinFilePath ''/opt'' ''db2info.sh''))"
    "snprintf_s (MAX_MAIN_CMD_LENGTH - 1) (c_str (BlankComma (GetBinFilePath ''/opt'' ''db2info.sh'')) @ '' '' @ c_str (BlankComma ''/opt'') @ '' '' @ c_str ''5'') =
      Some ''/opt/bin/db2info.sh /opt 5''" "CheckCmdDelimiter ''/opt/bin/db2info.sh /opt 5''" by code_simp+
  have s: "take 4 (c_str (''/opt/bin/db2info.sh /opt 5'' @ t)) = ''/opt''" for t by (simp add: c_str_def NUL_literal)
  have sh: "xe_shell (rx_exec demo_root) (c_str (''/opt/bin/db2info.sh /opt 5'' @ '' 1>>'' @ log_file (rx_exec demo_root) ''/opt'' @ '' 2>&1'')) ?W =
      (?W, Ran ''eth0 up'' (Some (Exited 1)))"
    using s by (simp add: demo_root_def demo_exec_def)
  from script_status_reported [OF demo_root_ok demo_root_started demo_works(1) [of 500] c, where i = 5 and s = "''INSTNAME=db2''" and W = demo_signed
      and ?W1.0 = ?W and cmd = "''/opt/bin/db2info.sh /opt 5''" and ?W2.0 = ?W and out = "''eth0 up''" and st = "Exited 1" and pv = None
      and ?W3.0 = "fst (ChownResult (xe_files (rx_exec demo_root)) ''/opt'' ''5'' ?W)"]
  show ?thesis using e sh by (simp add: u g x)
qed

text \<open>
  C21. A parameter reaches the root process as it was given, up to its first zero byte, and its file is
  removed when it has been read; a parameter with a newline makes the command fail, and its file is
  removed as well.
\<close>
theorem parameter_reaches_root:
  assumes "root_ok root" "root_started R root" "files_work (xe_files X)" "files_work (xe_files (rx_exec R))" "0 \<le> i"
  shows "snd (GetParamFromTmpFile R root (IntToString i) [] (fst (WriteInput (xe_files (agent_side X R root)) root (IntToString i) s W))) =
      (if CHR 0x0A \<in> set (c_str s) then ([], MP_FAILED) else (c_str s, MP_SUCCESS)) \<and>
    fw_text (fst (GetParamFromTmpFile R root (IntToString i) [] (fst (WriteInput (xe_files (agent_side X R root)) root (IntToString i) s W))))
      (GetTmpFilePath root (INPUT_TMP_FILE @ IntToString i)) = None"
proof -
  note rs = agent_root_shell [OF assms(1,2), of X]
  have "files_work (xe_files (agent_side X R root))" using assms(3) by (simp add: agent_side_def)
  then show ?thesis
    using root_shell.parameter_arrives [OF rs _ _ refl root_shell.tmp_clean [OF rs assms(5)], of s W] assms(4)
    by (simp add: files_work_def Mp_FileExist_def)
qed

theorem parameter_reaches_root_witness:
  "snd (GetParamFromTmpFile demo_root ''/opt'' (IntToString 5) [] (fst (WriteInput (xe_files (agent_side (demo_exec 500) demo_root ''/opt'')) ''/opt'' (IntToString 5) ''/dev/sda'' no_files))) =
    (''/dev/sda'', MP_SUCCESS)"
proof -
  have "c_str ''/dev/sda'' = ''/dev/sda''" by code_simp
  with parameter_reaches_root [OF demo_root_ok demo_root_started demo_works, of 5 500 "''/dev/sda''" no_files] show ?thesis by simp
qed

text \<open>
  The list of pages of a device is read within its buffer exactly when the device announces at most
  252 pages: a length byte of 253 and more makes the code read past the buffer of 256 bytes.
\<close>
theorem page_list_bounds:
  assumes "any_open D (c_str dev)" "GetDiskPage D (c_str dev) 0x00 = Some b"
  shows "GetDisk00Page D dev =
    (if b ! 3 = 0 then Some ([], MP_FAILED)
     else if unat (b ! 3) \<le> 252 then Some (map hex2 (take (unat (b ! 3)) (drop 4 b)), MP_SUCCESS)
     else None)"
  using GetDisk00Page_bounds [OF assms] assms(2) by (auto simp: GetDiskPage_def)

text \<open>
  C22. The list of LUN numbers of a host: the code succeeds exactly when the length the device announces
  fits the buffer, but a length near the end of the range of the length field passes the test because
  the sum wraps, and the code reads past its buffer.
\<close>
theorem lun_list_bounds:
  assumes "de_open D (c_str dev) False"
    and "de_command D (c_str dev) [0xa0, 0, 0, 0, 0, 0, 0, 0, 0x80, 0, 0, 0] = Some r"
    and "n = unat (be32 (filled MAX_RLUNS_BUFF_LEN (take DEF_RLUNS_BUFF_LEN r)) 0)"
  shows "(GetHostLunIDList D dev = None \<longleftrightarrow> n \<ge> 2 ^ 32 - 8) \<and>
    (n \<le> DEF_RLUNS_BUFF_LEN - 8 \<longleftrightarrow> (\<exists>v. GetHostLunIDList D dev = Some (v, MP_SUCCESS)))"
  by (rule GetHostLunIDList_bounds [OF assms])

theorem lun_list_bounds_witness:
  "GetHostLunIDList (demo_disk\<lparr>de_open := \<lambda>d w. True, de_command := \<lambda>d cdb. Some [255, 255, 255, 252]\<rparr>) ''/dev/sda'' = None"
proof -
  let ?D = "demo_disk\<lparr>de_open := \<lambda>d w. True, de_command := \<lambda>d cdb. Some [255, 255, 255, 252]\<rparr>"
  have "unat (be32 (filled MAX_RLUNS_BUFF_LEN (take DEF_RLUNS_BUFF_LEN [255, 255, 255, 252])) 0) \<ge> 2 ^ 32 - 8"
    by (simp add: be32_def filled_def nth_append)
  then show ?thesis
    using lun_list_bounds [of ?D "''/dev/sda''" "[255, 255, 255, 252]" "unat (be32 (filled MAX_RLUNS_BUFF_LEN (take DEF_RLUNS_BUFF_LEN [255, 255, 255, 252])) 0)"]
    by simp
qed

text \<open>
  The output of a command comes back line by line: for output of lines of at most 998 characters
  that all end in a newline the caller gets exactly the lines that are not empty, after those it had,
  and success, whatever the exit status of the command.
\<close>
theorem echo_gives_lines:
  assumes "CheckCmdDelimiter cmd"
    and "xe_shell X (c_str (cmd @ '' 2>>'' @ log_file X root)) W = (W', Ran (print_lines ls) st)"
    and "list_all (\<lambda>l. clean_line l \<and> length l \<le> 998) ls"
  shows "ExecSystemWithEcho X root cmd v True W = (W', v @ filter (\<lambda>l. l \<noteq> []) ls, MP_SUCCESS)"
  using assms echo_lines [of ls 998] by (simp add: ExecSystemWithEcho_def list_all_iff clean_line_def)

end
