(* ===== verification/DbProps.thy ===== *)
theory DbProps
  imports SybaseApp HanaApp Db2App CacheApp RootProps Demo
begin

text \<open>
  Properties of the database plugins: what reaches their scripts and what is read from their answers.
\<close>

definition demo_mk :: "dj json_mk" where
  "demo_mk = \<lparr>jnull = DNull, jint = DInt, jstr = DStr, jbool = (\<lambda>b. DInt (if b then 1 else 0)),
     jset = (\<lambda>j k v. case j of DObj kvs \<Rightarrow> DObj (kvs @ [(k, v)]) | _ \<Rightarrow> DObj [(k, v)]),
     jappend = (\<lambda>j v. case j of DArr vs \<Rightarrow> DArr (vs @ [v]) | _ \<Rightarrow> DArr [v])\<rparr>"

definition demo_plug :: "string list \<Rightarrow> dj plug_env" where
  "demo_plug envp = \<lparr>pe_exec = agent_side (demo_exec 500) demo_root ''/opt'', pe_root = ''/opt'', pe_json = dj_api, pe_mk = demo_mk,
     pe_param = demo_gp, pe_heap = [7 \<mapsto> envp]\<rparr>"

definition demo_ps :: "dj plug_state" where
  "demo_ps = \<lparr>ps_root = (5, no_files), ps_rsp = DNull\<rparr>"

section \<open>Parameters\<close>






text \<open>
  C24. A blank at an end of the user name makes a freeze and a thaw of Sybase alike: the name is trimmed
  in place and keeps a zero byte, which cuts the parameter line behind it, so the same script gets the
  same text, without password and operation.
\<close>
theorem blank_user_hides_operation:
  assumes "pe_heap P a = Some envp" "m_pFcgRequest (m_httpReq req) = Some a"
    and "pe_param P HTTPPARAM_DBUSERNAME envp = Some usr" "NUL \<notin> set usr" "Trim usr \<noteq> usr"
    and "GetDBAuthParam P req s = Some (s', Inr (u, p))" "sy_strDBUsername i = u" "sy_strDBPassword i = p"
    and "clean_line (sy_strinstName i)" "clean_line (sy_strdbName i)"
  shows "c_str (Sybase_BuildScriptParam i SYBASE_FREEZEDB) =
      ''INSTNAME='' @ sy_strinstName i @ '':DBNAME='' @ sy_strdbName i @ '':DBUSERNAME='' @ Trim usr \<and>
    WriteInput E root k (Sybase_BuildScriptParam i SYBASE_FREEZEDB) W = WriteInput E root k (Sybase_BuildScriptParam i SYBASE_THAWDB) W \<and>
    GetCommandString ROOT_COMMAND_SCRIPT_FREEZESYBASE = GetCommandString ROOT_COMMAND_SCRIPT_THAWSYBASE"
proof -
  have u: "u = trim_in_place usr"
    using assms(1-3,6) by (auto simp: GetDBAuthParam_def GetHeadNoCheck_def thenA_def whenA_def Let_def retA_def failA_def bindA_def
      split: option.splits if_splits)
  have pre: "NUL \<notin> set (''INSTNAME='' @ sy_strinstName i @ '':DBNAME='' @ sy_strdbName i @ '':DBUSERNAME='')"
    using assms(9,10) by (auto simp: clean_line_def NUL_literal)
  have ap: "c_str (b @ t) = b @ c_str t" if "NUL \<notin> set b" for b t :: string
    using that by (simp add: c_str_def takeWhile_append)
  have eq: "Sybase_BuildScriptParam i oper =
      (''INSTNAME='' @ sy_strinstName i @ '':DBNAME='' @ sy_strdbName i @ '':DBUSERNAME='') @ (trim_in_place usr @
         '':DBPASSWORD='' @ p @ '':OPERTYPE='' @ oper)" for oper
    by (simp add: Sybase_BuildScriptParam_def colons_def assms(7,8) u)
  have c: "c_str (Sybase_BuildScriptParam i oper) =
      (''INSTNAME='' @ sy_strinstName i @ '':DBNAME='' @ sy_strdbName i @ '':DBUSERNAME='') @ Trim usr" for oper
    unfolding eq ap [OF pre] trim_in_place_cuts [OF assms(4)] if_not_P [OF assms(5)] ..
  have "GetCommandString ROOT_COMMAND_SCRIPT_FREEZESYBASE = ''sybaseconsistent.sh''"
    "GetCommandString ROOT_COMMAND_SCRIPT_THAWSYBASE = ''sybaseconsistent.sh''"
    by (rule script_command, simp add: script_tables)+
  moreover have "Ipc_WriteFile E q [a] W = Ipc_WriteFile E q [b] W" if "c_str a = c_str b" for q a b
  proof -
    have "print_lines [a] = print_lines [b]" using that by (simp add: print_lines_def)
    then have "write_close E q [a] = write_close E q [b]" by (intro ext) (simp only: write_close_def)
    then show ?thesis by (simp only: Ipc_WriteFile_def)
  qed
  ultimately show ?thesis using c by (simp add: WriteInput_def)
qed


theorem blank_user_hides_operation_witness:
  "WriteInput demo_files ''/opt'' ''5'' (Sybase_BuildScriptParam \<lparr>sy_strinstName = ''ase'', sy_strdbName = ''db'',
       sy_strDBUsername = ''sa'' @ [NUL], sy_strDBPassword = ''pw''\<rparr> SYBASE_FREEZEDB) no_files =
   WriteInput demo_files ''/opt'' ''5'' (Sybase_BuildScriptParam \<lparr>sy_strinstName = ''ase'', sy_strdbName = ''db'',
       sy_strDBUsername = ''sa'' @ [NUL], sy_strDBPassword = ''pw''\<rparr> SYBASE_THAWDB) no_files"
proof -
  let ?P = "demo_plug [''HTTP_DBUSERNAME=sa '', ''HTTP_DBPASSWORD=pw'']"
  have h: "pe_heap ?P 7 = Some [''HTTP_DBUSERNAME=sa '', ''HTTP_DBPASSWORD=pw'']" "m_pFcgRequest (m_httpReq demo_req) = Some 7"
    by (simp_all add: demo_plug_def demo_req_def new_request_def)
  have g: "pe_param ?P HTTPPARAM_DBUSERNAME [''HTTP_DBUSERNAME=sa '', ''HTTP_DBPASSWORD=pw''] = Some ''sa ''"
    "pe_param ?P HTTPPARAM_DBPASSWORD [''HTTP_DBUSERNAME=sa '', ''HTTP_DBPASSWORD=pw''] = Some ''pw''"
    by (simp_all add: demo_plug_def demo_gp_def)
  have t: "trim_in_place ''sa '' = ''sa'' @ [NUL]" "trim_in_place ''pw'' = ''pw''" "Trim ''sa '' = ''sa''" by code_simp+
  have a: "GetDBAuthParam ?P demo_req demo_ps = Some (demo_ps, Inr (''sa'' @ [NUL], ''pw''))"
    by (simp add: GetDBAuthParam_def GetHeadNoCheck_def h g t thenA_def) (simp add: retA_def)
  show ?thesis
    by (rule conjunct1 [OF conjunct2 [OF blank_user_hides_operation [OF h g(1) _ _ a]]])
      (simp_all add: t NUL_literal clean_line_def)
qed

section \<open>Answers\<close>

definition db2_line :: "db2_inst_info \<Rightarrow> string" where
  "db2_line i = colons [di_strinstName i, di_strdbName i, di_strversion i, IntToString (di_istate i)]"

definition db2_printable :: "db2_inst_info \<Rightarrow> bool" where
  "db2_printable i \<longleftrightarrow> list_all (\<lambda>f. CHR '':'' \<notin> set f) [di_strinstName i, di_strdbName i, di_strversion i] \<and>
     - (2 ^ 31) \<le> di_istate i \<and> di_istate i < 2 ^ 31"

text \<open>
  The list of DB2 databases is read as the script prints it: for names without colons and states in
  the range of an \<^verbatim>\<open>int\<close>, reading the printed lines gives back every database in order, whatever lines
  with fewer than three colons stand between them.
\<close>
theorem db2_list_round_trip:
  assumes "list_all db2_printable dbs"
    and "filter (\<lambda>l. length (filter (\<lambda>c. c = CHR '':'') l) \<ge> 3) ls = map db2_line dbs"
  shows "Db2_AnalyseInstInfoScriptRst ls = dbs"
proof -
  have one: "cut_fields 3 (db2_line i) = Some [di_strinstName i, di_strdbName i, di_strversion i, IntToString (di_istate i)]"
    if "db2_printable i" for i
    using cut_fields_join [of "[di_strinstName i, di_strdbName i, di_strversion i]" 3 "IntToString (di_istate i)"] that
    by (auto simp: db2_line_def colons_def db2_printable_def)
  have bk: "atoi (c_str (IntToString (di_istate i))) = di_istate i" if "db2_printable i" for i
    using that atoi_IntToString [of "di_istate i"] clean_c_str [OF IntToString_clean] by (simp add: db2_printable_def)
  have skip: "List.map_filter (cut_fields 3) ls = List.map_filter (cut_fields 3) (filter (\<lambda>l. length (filter (\<lambda>c. c = CHR '':'') l) \<ge> 3) ls)"
    by (simp add: List.map_filter_def cut_fields_None not_less)
  show ?thesis
    unfolding Db2_AnalyseInstInfoScriptRst_def cut_lines_def skip assms(2) using assms(1)
    by (induction dbs) (simp_all add: List.map_filter_def one bk)
qed

text \<open>Without a result file the state query of DB2 takes the front of an empty vector; the other two fail.\<close>

lemma empty_answers:
  assumes "query_root P ROOT_COMMAND_SCRIPT_SAMPLEDB2 (Db2_BuildScriptParam i DB2_FREEZESTATE) ERROR_COMMON_SCRIPT_EXEC_FAILED s = Some (s', Inr [])"
  shows "Db2_QueryFreezeState P i s = None"
  using assms by (simp add: Db2_QueryFreezeState_def bindA_def crashA_def)

end
