(* ===== verification/OracleProps.thy ===== *)
theory OracleProps
  imports OraclePlug DbProps "HOL-Library.Sublist"
begin

text \<open>
  Properties of the Oracle component: which devices it asks for, which LUNs it reports, and what it reads
  from the answers of its scripts.
\<close>

section \<open>Fields\<close>

lemma cut_at_length: "cut_at c n s = Some fs \<Longrightarrow> length fs = Suc n"
  by (induction c n s arbitrary: fs rule: cut_at.induct) (auto split: option.splits)

lemma cut_at_join:
  "length fs = n \<Longrightarrow> (\<And>f. f \<in> set fs \<Longrightarrow> c \<notin> set f) \<Longrightarrow> cut_at c n (join_sep c (fs @ [l])) = Some (fs @ [l])"
proof (induction fs arbitrary: n)
  case (Cons f fs)
  then obtain k where n: "n = Suc k" "length fs = k" by auto
  have j: "join_sep c ((f # fs) @ [l]) = f @ c # join_sep c (fs @ [l])" by (cases fs) simp_all
  have "str_find [c] (f @ c # join_sep c (fs @ [l])) = Some (length f)"
    using Cons.prems(2) by (intro str_find_char_append) simp
  then show ?case using Cons.IH [OF n(2)] Cons.prems(2) by (simp only: j n cut_at.simps) simp
qed simp

section \<open>Devices\<close>

text \<open>The list keeps the first occurrence of every device that is not the end of one already kept.\<close>

fun kept :: "string list \<Rightarrow> string list \<Rightarrow> string list" where
  "kept [] es = es"
| "kept (d # ds) es = kept ds (if list_ex (suffix d) es then es else es @ [d])"

definition first_occurrences :: "'a list \<Rightarrow> 'a list" where
  "first_occurrences xs = rev (remdups (rev xs))"

definition no_suffix :: "string list \<Rightarrow> bool" where
  "no_suffix ds \<longleftrightarrow> list_all (\<lambda>d. list_all (\<lambda>e. d = e \<or> \<not> suffix d e) ds) ds"

definition semicolons :: "string list \<Rightarrow> string" where
  "semicolons ds = concat (map (\<lambda>d. d @ '';'') ds)"

lemma semicolons_simps [simp]:
  "semicolons [] = []" "semicolons (xs @ [d]) = semicolons xs @ d @ '';''" "semicolons (d # ds) = d @ '';'' @ semicolons ds"
  by (simp_all add: semicolons_def)

lemma str_find_prefix: "str_find pat (p @ pat @ t) \<noteq> None"
proof (induction p)
  case Nil
  show ?case
  proof (cases "pat @ t")
    case (Cons c r)
    then have "take (length pat) (c # r) = pat" by (metis append_eq_conv_conj)
    then show ?thesis by (simp only: Cons append_Nil str_find.simps) simp
  qed simp
next
  case (Cons c p)
  then show ?case by (simp only: append_Cons str_find.simps) simp
qed

lemma str_find_occurs: "str_find pat s \<noteq> None \<Longrightarrow> \<exists>p t. s = p @ pat @ t"
proof -
  assume "str_find pat s \<noteq> None"
  then obtain i where i: "str_find pat s = Some i" by auto
  have "s = take i s @ take (length pat) (drop i s) @ drop (length pat) (drop i s)" by (simp only: append_take_drop_id)
  then show ?thesis unfolding str_find_Some [OF i] by blast
qed

lemma first_at: "xs @ c # r = ys @ c # t \<Longrightarrow> c \<notin> set xs \<Longrightarrow> c \<notin> set ys \<Longrightarrow> xs = ys \<and> r = t"
proof (induction xs arbitrary: ys)
  case Nil
  then show ?case by (cases ys) simp_all
next
  case (Cons x xs)
  then show ?case by (cases ys) auto
qed

lemma split_semicolon:
  "CHR '';'' \<notin> set d \<Longrightarrow> CHR '';'' \<notin> set e \<Longrightarrow> e @ '';'' @ r = p @ d @ '';'' @ t \<Longrightarrow>
     suffix d e \<and> r = t \<or> (\<exists>q. p = e @ '';'' @ q \<and> r = q @ d @ '';'' @ t)"
proof (induction e arbitrary: p)
  case Nil
  show ?case
  proof (cases p)
    case pn: Nil
    show ?thesis
    proof (cases d)
      case (Cons c d')
      then have "c = CHR '';''" using Nil.prems(3) pn by simp
      then show ?thesis using Nil.prems(1) Cons by simp
    qed (use Nil.prems(3) pn in simp)
  next
    case (Cons c p')
    then show ?thesis using Nil.prems(3) by auto
  qed
next
  case (Cons c e)
  show ?case
  proof (cases p)
    case Nil
    then have "(c # e) @ CHR '';'' # r = d @ CHR '';'' # t" using Cons.prems(3) by simp
    then have "c # e = d \<and> r = t"
      using first_at [OF _ Cons.prems(2,1)] by blast
    then show ?thesis by simp
  next
    case (Cons c' p')
    with Cons.prems(3) have c: "c' = c" and e: "e @ '';'' @ r = p' @ d @ '';'' @ t" by simp_all
    from Cons.IH [OF Cons.prems(1) _ e] Cons.prems(2)
    have "suffix d e \<and> r = t \<or> (\<exists>q. p' = e @ '';'' @ q \<and> r = q @ d @ '';'' @ t)" by simp
    then show ?thesis using Cons c by (elim disjE) (auto intro: suffix_ConsI)
  qed
qed

lemma find_in_semicolons:
  assumes "CHR '';'' \<notin> set d" "list_all (\<lambda>e. CHR '';'' \<notin> set e) es"
  shows "str_find (d @ '';'') (semicolons es) \<noteq> None \<longleftrightarrow> list_ex (suffix d) es"
proof
  assume "str_find (d @ '';'') (semicolons es) \<noteq> None"
  from str_find_occurs [OF this] obtain p t where "semicolons es = p @ d @ '';'' @ t" by auto
  with assms(2) show "list_ex (suffix d) es"
  proof (induction es arbitrary: p)
    case (Cons e es)
    from split_semicolon [OF assms(1), of e "semicolons es" p t] Cons.prems
    have "suffix d e \<and> semicolons es = t \<or> (\<exists>q. p = e @ '';'' @ q \<and> semicolons es = q @ d @ '';'' @ t)" by simp
    then show ?case using Cons.IH Cons.prems(1) by auto
  qed simp
next
  assume "list_ex (suffix d) es"
  then have "\<exists>p t. semicolons es = p @ (d @ '';'') @ t"
  proof (induction es)
    case (Cons e es)
    show ?case
    proof (cases "suffix d e")
      case True
      then obtain z where "e = z @ d" by (auto simp: suffix_def)
      then have "semicolons (e # es) = z @ (d @ '';'') @ semicolons es" by simp
      then show ?thesis by blast
    next
      case False
      then obtain p t where "semicolons es = p @ (d @ '';'') @ t" using Cons by auto
      then have "semicolons (e # es) = (e @ '';'' @ p) @ (d @ '';'') @ t" by simp
      then show ?thesis by blast
    qed
  qed simp
  then show "str_find (d @ '';'') (semicolons es) \<noteq> None" using str_find_prefix by metis
qed

lemma dev_list_kept:
  "list_all (\<lambda>e. CHR '';'' \<notin> set e) es \<Longrightarrow> list_all (\<lambda>e. CHR '';'' \<notin> set e) ds \<Longrightarrow> dev_list ds (semicolons es) = semicolons (kept ds es)"
proof (induction ds arbitrary: es)
  case (Cons d ds)
  show ?case
  proof (cases "list_ex (suffix d) es")
    case True
    then have "str_find (d @ '';'') (semicolons es) \<noteq> None" using find_in_semicolons Cons.prems by simp
    then show ?thesis using Cons.IH [OF Cons.prems(1)] Cons.prems(2) True by (simp only: dev_list.simps if_False kept.simps if_True) simp
  next
    case False
    then have "str_find (d @ '';'') (semicolons es) = None" using find_in_semicolons [of d es] Cons.prems by auto
    then show ?thesis using Cons.IH [of "es @ [d]"] Cons.prems False by simp
  qed
qed simp

lemma kept_nonempty: "es \<noteq> [] \<or> ds \<noteq> [] \<Longrightarrow> kept ds es \<noteq> []"
proof (induction ds arbitrary: es)
  case (Cons d ds)
  show ?case using Cons.IH by (cases es) simp_all
qed simp

lemma set_kept: "set (kept ds es) \<subseteq> set ds \<union> set es"
  by (induction ds arbitrary: es) (auto split: if_splits, fastforce+)

lemma butlast_semicolons: "es \<noteq> [] \<Longrightarrow> butlast (semicolons es) = join_sep CHR '';'' es"
  by (induction "CHR '';''" es rule: join_sep.induct) (auto simp: butlast_append)

lemma kept_first:
  "no_suffix (es @ ds) \<Longrightarrow> distinct es \<Longrightarrow> kept ds es = es @ filter (\<lambda>d. d \<notin> set es) (first_occurrences ds)"
proof (induction ds arbitrary: es)
  case Nil
  then show ?case by (simp add: first_occurrences_def)
next
  case (Cons d ds)
  have flt: "filter Q (first_occurrences (d # ds)) = (if Q d then [d] else []) @ filter (\<lambda>x. x \<noteq> d \<and> Q x) (first_occurrences ds)" for Q
    by (induction ds rule: rev_induct) (auto simp: first_occurrences_def)
  have e: "list_ex (suffix d) es \<longleftrightarrow> d \<in> set es"
    using Cons.prems(1) by (auto simp: no_suffix_def list_all_iff list_ex_iff)
  show ?case
  proof (cases "d \<in> set es")
    case True
    then have "no_suffix (es @ ds)" using Cons.prems(1) by (auto simp: no_suffix_def list_all_iff)
    moreover have "filter (\<lambda>x. x \<noteq> d \<and> x \<notin> set es) xs = filter (\<lambda>x. x \<notin> set es) xs" for xs
      using True by (intro filter_cong) auto
    ultimately show ?thesis using Cons.IH [of es] Cons.prems(2) True e flt by simp
  next
    case False
    then have "kept ds (es @ [d]) = (es @ [d]) @ filter (\<lambda>x. x \<notin> set (es @ [d])) (first_occurrences ds)"
      using Cons.prems by (intro Cons.IH) auto
    then show ?thesis using False e flt by simp
  qed
qed

text \<open>
  C26. The devices the Oracle component asks the root process for: of the storage list the first occurrence
  of every device, but a device whose name is the end of the name of an earlier one is not asked for (the
  text of the list is searched for its name and a semicolon).
\<close>
theorem oracle_devices_asked:
  assumes "ds \<noteq> []" "list_all (\<lambda>d. CHR '';'' \<notin> set d) ds"
  shows "StrSplit CHR '';'' (butlast (dev_list ds [])) = (if no_suffix ds then first_occurrences ds else kept ds [])"
proof -
  have "dev_list ds [] = semicolons (kept ds [])" using dev_list_kept [of "[]" ds] assms(2) by simp
  moreover have "kept ds [] \<noteq> []" using assms(1) by (intro kept_nonempty) simp
  moreover have "list_all (\<lambda>d. CHR '';'' \<notin> set d) (kept ds [])"
    using set_kept [of ds "[]"] assms(2) by (auto simp: list_all_iff)
  ultimately have "StrSplit CHR '';'' (butlast (dev_list ds [])) = kept ds []"
    using StrSplit_join [of "kept ds []" "CHR '';''"] by (simp add: butlast_semicolons list_all_iff)
  then show ?thesis using kept_first [of "[]" ds] by auto
qed

theorem oracle_devices_asked_witness:
  "StrSplit CHR '';'' (butlast (dev_list [''/dev/sda'', ''/dev/sdb'', ''/dev/sda''] [])) = [''/dev/sda'', ''/dev/sdb'']
   \<and> StrSplit CHR '';'' (butlast (dev_list [''/dev/sdb'', ''sdb''] [])) = [''/dev/sdb'']"
  using oracle_devices_asked [of "[''/dev/sda'', ''/dev/sdb'', ''/dev/sda'']"] oracle_devices_asked [of "[''/dev/sdb'', ''sdb'']"]
  by (simp add: no_suffix_def first_occurrences_def suffix_Cons)

section \<open>LUNs\<close>

text \<open>A LUN of the reply and the storage entry it comes from.\<close>

definition lun_key :: "oracle_lun_info \<Rightarrow> string \<times> string" where
  "lun_key x = (ol_strWWN x, ol_strDeviceName x)"

definition carries :: "(string \<rightharpoonup> luninfo) \<Rightarrow> oracle_lun_info \<Rightarrow> oracle_storage_script_info \<Rightarrow> bool" where
  "carries m x d \<longleftrightarrow> (case m (os_strSystemDevice d) of None \<Rightarrow> False | Some l \<Rightarrow> lun_problem l = None \<and> ol_strWWN x = li_strLUNWWN l)"

definition reports :: "(string \<rightharpoonup> luninfo) \<Rightarrow> oracle_lun_info \<Rightarrow> oracle_storage_script_info \<Rightarrow> bool" where
  "reports m x d \<longleftrightarrow> (case m (os_strSystemDevice d) of
       None \<Rightarrow> False
     | Some l \<Rightarrow> lun_problem l = None \<and> ol_strWWN x = li_strLUNWWN l \<and> ol_strLUNId x = li_strLUNID l
         \<and> ol_strArraySn x = li_strArraySN l \<and> ol_strPvName x = os_strSystemDevice d)"

lemma bindA_Inr: "bindA a f s = Some (s', Inr r) \<longleftrightarrow> (\<exists>s1 x. a s = Some (s1, Inr x) \<and> f x s1 = Some (s', Inr r))"
  by (auto simp: bindA_def split: option.splits sum.splits)

lemma CheckLUNInfoExists_key: "CheckLUNInfoExists luns x \<longleftrightarrow> lun_key x \<in> lun_key ` set luns"
  by (auto simp: CheckLUNInfoExists_def lun_key_def list_ex_iff image_iff) metis

text \<open>One step: the entry is answered and either skipped or its LUN is in the list.\<close>

lemma oracle_lun_step:
  assumes "oracle_lun_loop P dir udev m ty (d # ds) luns s = Some (s', Inr r)"
  obtains s1 luns' where "oracle_lun_loop P dir udev m ty ds luns' s1 = Some (s', Inr r)" "m (os_strSystemDevice d) \<noteq> None"
    "luns' = luns \<and> ty \<noteq> DBADAPTIVE_PRAMA_MUST \<or> luns' = luns \<and> (\<exists>x\<in>set luns. carries m x d)
     \<or> (\<exists>x. luns' = luns @ [x] \<and> reports m x d \<and> lun_key x \<notin> lun_key ` set luns)"
proof -
  from assms obtain s1 rule where u: "(if os_strUDEVRes d \<noteq> [] then GetUDEVInfo P dir (os_strUDEVName d) (os_strUDEVRes d) else retA []) s = Some (s1, Inr rule)"
    and c: "(case m (os_strSystemDevice d) of
       None \<Rightarrow> failA ERROR_COMMON_QUERY_APP_LUN_FAILED
     | Some l \<Rightarrow>
         (case lun_problem l of
            Some e \<Rightarrow> if ty = DBADAPTIVE_PRAMA_MUST then failA e else oracle_lun_loop P dir udev m ty ds luns
          | None \<Rightarrow>
              let info = \<lparr>ol_strInstName = [], ol_strDBName = [], ol_strLUNId = li_strLUNID l, ol_strUUID = [],
                    ol_strArraySn = li_strArraySN l, ol_strWWN = li_strLUNWWN l, ol_strVgName = os_strVgName d,
                    ol_strDeviceName = (if rule \<noteq> [] then udev @ os_strUDEVName d else os_strDeviceName d),
                    ol_strPvName = os_strSystemDevice d, ol_iStorMainType = atoi (c_str (os_strStorMainType d)),
                    ol_iStorSubType = atoi (c_str (os_strStorSubType d)), ol_strDevicePath = os_strDevicePath d,
                    ol_strUDEVRules = rule, ol_strLBA = [], ol_strASMDiskGroup = os_strASMDiskGroup d\<rparr>
              in oracle_lun_loop P dir udev m ty ds (if CheckLUNInfoExists luns info then luns else luns @ [info]))) s1 = Some (s', Inr r)"
    unfolding oracle_lun_loop.simps bindA_Inr by blast
  show ?thesis
  proof (cases "m (os_strSystemDevice d)")
    case None
    then show ?thesis using c by (simp add: failA_def)
  next
    case (Some l)
    show ?thesis
    proof (cases "lun_problem l")
      case (Some e)
      then show ?thesis using c \<open>m _ = Some l\<close> that [of luns s1] by (simp add: failA_def split: if_splits)
    next
      case None
      let ?x = "\<lparr>ol_strInstName = [], ol_strDBName = [], ol_strLUNId = li_strLUNID l, ol_strUUID = [],
        ol_strArraySn = li_strArraySN l, ol_strWWN = li_strLUNWWN l, ol_strVgName = os_strVgName d,
        ol_strDeviceName = (if rule \<noteq> [] then udev @ os_strUDEVName d else os_strDeviceName d),
        ol_strPvName = os_strSystemDevice d, ol_iStorMainType = atoi (c_str (os_strStorMainType d)),
        ol_iStorSubType = atoi (c_str (os_strStorSubType d)), ol_strDevicePath = os_strDevicePath d,
        ol_strUDEVRules = rule, ol_strLBA = [], ol_strASMDiskGroup = os_strASMDiskGroup d\<rparr>"
      have l: "oracle_lun_loop P dir udev m ty ds (if CheckLUNInfoExists luns ?x then luns else luns @ [?x]) s1 = Some (s', Inr r)"
        using c None \<open>m _ = Some l\<close> by (simp only: option.case Let_def)
      have rep: "reports m ?x d" using None \<open>m _ = Some l\<close> by (simp add: reports_def)
      show ?thesis
      proof (cases "CheckLUNInfoExists luns ?x")
        case True
        then obtain y where "y \<in> set luns" "ol_strWWN y = li_strLUNWWN l" by (auto simp: CheckLUNInfoExists_def list_ex_iff)
        then have "\<exists>x\<in>set luns. carries m x d" using None \<open>m _ = Some l\<close> by (auto simp: carries_def)
        then show ?thesis using that [of luns s1] l True \<open>m _ = Some l\<close> by simp
      next
        case False
        then show ?thesis using that [of "luns @ [?x]" s1] l rep \<open>m _ = Some l\<close> unfolding CheckLUNInfoExists_key by auto
      qed
    qed
  qed
qed

lemma reports_carries: "reports m x d \<Longrightarrow> carries m x d"
  by (auto simp: reports_def carries_def split: option.splits)

text \<open>
  C25. The LUNs of a database: whatever the udev rules say, the list that was there is kept, no two LUNs
  have the same identity and device name, every new LUN is the sound answer of the device of a storage
  entry, every entry has an answer, and for the storage a database cannot do without every entry has its
  LUN in the list.
\<close>
theorem oracle_luns_checked:
  assumes "oracle_lun_loop P dir udev m ty ds luns s = Some (s', Inr r)" "distinct (map lun_key luns)"
  shows "distinct (map lun_key r) \<and> prefix luns r \<and> list_all (\<lambda>x. x \<in> set luns \<or> list_ex (reports m x) ds) r
    \<and> list_all (\<lambda>d. m (os_strSystemDevice d) \<noteq> None \<and> (ty = DBADAPTIVE_PRAMA_MUST \<longrightarrow> list_ex (\<lambda>x. carries m x d) r)) ds"
  using assms
proof (induction ds arbitrary: luns s)
  case Nil
  then show ?case by (simp add: retA_def list_all_iff)
next
  case (Cons d ds)
  from Cons.prems(1) obtain s1 luns' where l: "oracle_lun_loop P dir udev m ty ds luns' s1 = Some (s', Inr r)"
    and d: "m (os_strSystemDevice d) \<noteq> None"
    and c: "luns' = luns \<and> ty \<noteq> DBADAPTIVE_PRAMA_MUST \<or> luns' = luns \<and> (\<exists>x\<in>set luns. carries m x d)
     \<or> (\<exists>x. luns' = luns @ [x] \<and> reports m x d \<and> lun_key x \<notin> lun_key ` set luns)"
    by (rule oracle_lun_step)
  have dist: "distinct (map lun_key luns')" using c Cons.prems(2) by auto
  note IH = Cons.IH [OF l dist]
  from c have pre: "prefix luns luns'" "\<forall>x\<in>set luns'. x \<in> set luns \<or> reports m x d" by auto
  from IH have sub: "set luns' \<subseteq> set r" by (auto dest: set_mono_prefix)
  have must: "ty = DBADAPTIVE_PRAMA_MUST \<longrightarrow> (\<exists>x\<in>set r. carries m x d)"
    using c sub by (auto dest: reports_carries)
  show ?case using IH pre d must by (auto simp: list_all_iff list_ex_iff dest: prefix_order.trans)
qed

definition demo_stor :: "string \<Rightarrow> oracle_storage_script_info" where
  "demo_stor d = \<lparr>os_strStorMainType = ''0'', os_strStorSubType = ''1'', os_strSystemDevice = d, os_strDeviceName = ''data'',
     os_strDevicePath = [], os_strVgName = [], os_strASMDiskGroup = [], os_strUDEVRes = [], os_strUDEVName = []\<rparr>"

definition demo_answers :: "string \<rightharpoonup> luninfo" where
  "demo_answers = (case luninfo_map [''/dev/sdb;HUAWEI;V5;210235;7;6200a0'', ''/dev/sdc;HUAWEI;V5;210235;7;6200a0''] Map.empty of
     None \<Rightarrow> Map.empty | Some m \<Rightarrow> m)"

lemma demo_split:
  "StrSplit CHR '';'' ''/dev/sdb;HUAWEI;V5;210235;7;6200a0'' = [''/dev/sdb'', ''HUAWEI'', ''V5'', ''210235'', ''7'', ''6200a0'']"
  "StrSplit CHR '';'' ''/dev/sdc;HUAWEI;V5;210235;7;6200a0'' = [''/dev/sdc'', ''HUAWEI'', ''V5'', ''210235'', ''7'', ''6200a0'']"
  by code_simp+

lemma demo_answers_two:
  "demo_answers ''/dev/sdb'' = Some \<lparr>li_strDeviceName = ''/dev/sdb'', li_strVendor = ''HUAWEI'', li_strProduct = ''V5'',
     li_strArraySN = ''210235'', li_strLUNID = ''7'', li_strLUNWWN = ''6200a0''\<rparr>"
  "demo_answers ''/dev/sdc'' = Some \<lparr>li_strDeviceName = ''/dev/sdc'', li_strVendor = ''HUAWEI'', li_strProduct = ''V5'',
     li_strArraySN = ''210235'', li_strLUNID = ''7'', li_strLUNWWN = ''6200a0''\<rparr>"
  by (simp_all add: demo_answers_def demo_split)

theorem oracle_luns_checked_witness:
  "case oracle_lun_loop (demo_plug []) ''/etc/udev/rules.d/'' ''/dev/'' demo_answers ''must'' [demo_stor ''/dev/sdb'', demo_stor ''/dev/sdc''] [] demo_ps of
     Some (_, Inr [x]) \<Rightarrow> carries demo_answers x (demo_stor ''/dev/sdc'') | _ \<Rightarrow> False"
proof -
  let ?f = "oracle_lun_loop (demo_plug []) ''/etc/udev/rules.d/'' ''/dev/'' demo_answers ''must'' [demo_stor ''/dev/sdb'', demo_stor ''/dev/sdc''] [] demo_ps"
  have "\<exists>s' x. ?f = Some (s', Inr [x])"
    by (simp add: demo_stor_def demo_answers_two lun_problem_def CheckHuaweiLUN_def c_str_def NUL_literal CheckLUNInfoExists_def Let_def) (simp add: retA_def)
  then obtain s' x where f: "?f = Some (s', Inr [x])" by blast
  show ?thesis using oracle_luns_checked [OF f] unfolding f by simp
qed

section \<open>Pluggable databases\<close>

definition pdb_fields :: "string list \<Rightarrow> string list list" where
  "pdb_fields ls = List.map_filter (cut_at CHR '';'' 2) ls"

definition pdb_sound :: "string list \<Rightarrow> bool" where
  "pdb_sound f \<longleftrightarrow> TranslatePDBStatus (f ! 2) \<noteq> None \<and> 0 \<le> atoi (c_str (f ! 0)) \<and> f ! 1 \<noteq> []"

definition pdb_of :: "string list \<Rightarrow> oracle_pdb_rsp_info" where
  "pdb_of f = \<lparr>op_iConID = atoi (c_str (f ! 0)), op_strPdbName = f ! 1, op_iStatus = the (TranslatePDBStatus (f ! 2))\<rparr>"

lemma pdb_rows_fields: "pdb_rows ls = (if list_all pdb_sound (pdb_fields ls) then Some (map pdb_of (pdb_fields ls)) else None)"
  by (induction ls) (auto simp: pdb_fields_def pdb_sound_def pdb_of_def List.map_filter_simps split: option.splits)

text \<open>
  The list of pluggable databases: an empty answer is an error, lines with fewer than three fields are
  skipped, and one line with a state other than mounted or open, a negative number or no name makes
  the whole query an error; otherwise every line is reported, in order.
\<close>
theorem pdb_answer:
  "AnalysePDBInfoScriptRst ls =
     (if ls \<noteq> [] \<and> list_all pdb_sound (pdb_fields ls) then Inr (map pdb_of (pdb_fields ls)) else Inl ERROR_SQLSERVER_DB_NOT_EXIST)"
  by (simp add: AnalysePDBInfoScriptRst_def pdb_rows_fields)

end
