(* ===== verification/AlarmDb.thy ===== *)
theory AlarmDb
  imports FreezeTable
begin

text \<open>
  The tables of the alarms: \<^verbatim>\<open>CAlarmDB\<close> (\<^verbatim>\<open>src/src/alarm/Alarm.cpp\<close>) and \<^verbatim>\<open>CAppFreezeStatus\<close>
  (\<^verbatim>\<open>src/src/alarm/AppFreezeStatus.cpp\<close>). SQLite is the parameter \<open>S\<close> of the database component.
\<close>

section \<open>Data\<close>

record alarm_info =
  ai_iAlarmSN :: int
  ai_iAlarmID :: int
  ai_iAlarmType :: int
  ai_iAlarmLevel :: int
  ai_iAlarmCategoryType :: int
  ai_strStartTime :: string
  ai_strEndTime :: string
  ai_strAlarmParam :: string

definition new_alarm_info :: alarm_info where
  "new_alarm_info = \<lparr>ai_iAlarmSN = -1, ai_iAlarmID = -1, ai_iAlarmType = -1, ai_iAlarmLevel = -1, ai_iAlarmCategoryType = -1,
     ai_strStartTime = [], ai_strEndTime = [], ai_strAlarmParam = []\<rparr>"

record trap_server =
  ts_iPort :: int
  ts_iVersion :: int
  ts_strServerIP :: string
  ts_strListenIP :: string


section \<open>Statements\<close>

definition alarm_columns :: string where
  "alarm_columns = ''AlarmSerialNo,AlarmID,AlarmType,AlarmLevel,AlarmBeginTime,AlarmClearTime,AlarmParam''"

definition sql_alarm_insert :: string where
  "sql_alarm_insert = ''insert into AlarmTable('' @ alarm_columns @ '') values(?,?,?,?,?,?,?);''"
definition sql_alarm_delete :: string where
  "sql_alarm_delete = ''delete from AlarmTable where AlarmSerialNo == ? and AlarmID == ?;''"
definition sql_alarm_update :: string where
  "sql_alarm_update = ''update AlarmTable set AlarmLevel= ?,AlarmParam= ?,AlarmType= ?,AlarmClearTime= ?,AlarmBeginTime= ? where AlarmSerialNo == ? and AlarmID == ?;''"
definition sql_alarm_all :: string where
  "sql_alarm_all = ''select '' @ alarm_columns @ '' from AlarmTable''"
definition sql_alarm_key :: string where
  "sql_alarm_key = ''select '' @ alarm_columns @ '' from AlarmTable where AlarmSerialNo == ? and AlarmID == ?;''"
definition sql_alarm_id :: string where
  "sql_alarm_id = ''select '' @ alarm_columns @ '' from AlarmTable where AlarmID == ?;''"
definition sql_alarm_param :: string where
  "sql_alarm_param = ''select '' @ alarm_columns @ '' from AlarmTable where AlarmParam == ? and AlarmID == ?;''"
definition sql_sn_get :: string where
  "sql_sn_get = ''select AlarmSN from AlarmTypeTable''"
definition sql_sn_insert :: string where
  "sql_sn_insert = ''insert into AlarmTypeTable( AlarmSN) values(?);''"
definition sql_sn_update :: string where
  "sql_sn_update = ''update AlarmTypeTable set AlarmSN = ?;''"
definition sql_trap_insert :: string where
  "sql_trap_insert = ''insert into TrapInfoTable(TrapServerIP, TrapPort, SnmpVersion, AgentIP) values(?, ?, ?, ?);''"
definition sql_trap_delete :: string where
  "sql_trap_delete = ''delete from TrapInfoTable where TrapServerIP == ? and TrapPort == ? and SnmpVersion == ?;''"
definition sql_trap_all :: string where
  "sql_trap_all = ''select TrapServerIP,TrapPort,SnmpVersion,AgentIP from TrapInfoTable''"
definition sql_trap_exists :: string where
  "sql_trap_exists = ''select TrapServerIP,TrapPort,SnmpVersion from TrapInfoTable where TrapServerIP == ? and TrapPort == ? and SnmpVersion == ?;''"
definition CHECKT_TRAP_COL_EXISTS :: string where
  "CHECKT_TRAP_COL_EXISTS = ''select * from [sqlite_master] where name = 'TrapInfoTable' and sql like '%AgentIP%';''"
definition ADD_TRAP_COL :: string where
  "ADD_TRAP_COL = ''alter table [TrapInfoTable] add AgentIP VARCHAR(30) NOT NULL DEFAULT ('Unknown');''"
definition sql_status_insert :: string where
  "sql_status_insert = ''insert into AppStatusTable(Key) values(?);''"
definition sql_status_delete :: string where
  "sql_status_delete = ''delete from AppStatusTable where Key == ?''"
definition sql_status_all :: string where
  "sql_status_all = ''select Key from AppStatusTable''"
definition sql_status_exists :: string where
  "sql_status_exists = ''select Key from AppStatusTable where Key == ?''"

section \<open>Alarms\<close>

definition InsertAlarmInfo :: "('d, 's) sqlite_api \<Rightarrow> string \<Rightarrow> alarm_info \<Rightarrow> 'd cdb \<Rightarrow> 'd cdb \<times> int" where
  "InsertAlarmInfo S path a =
     ExecSql S path sql_alarm_insert [DbParam_int32 (ai_iAlarmSN a), DbParam_int32 (ai_iAlarmID a), DbParam_int32 (ai_iAlarmType a),
       DbParam_int32 (ai_iAlarmLevel a), DbParam_string (ai_strStartTime a), DbParam_string (ai_strEndTime a), DbParam_string (ai_strAlarmParam a)]"

definition DeleteAlarmInfo :: "('d, 's) sqlite_api \<Rightarrow> string \<Rightarrow> int \<Rightarrow> int \<Rightarrow> 'd cdb \<Rightarrow> 'd cdb \<times> int" where
  "DeleteAlarmInfo S path iAlarmSN iAlarmID = ExecSql S path sql_alarm_delete [DbParam_int32 iAlarmSN, DbParam_int32 iAlarmID]"

definition UpdateAlarmInfo :: "('d, 's) sqlite_api \<Rightarrow> string \<Rightarrow> alarm_info \<Rightarrow> 'd cdb \<Rightarrow> 'd cdb \<times> int" where
  "UpdateAlarmInfo S path a =
     ExecSql S path sql_alarm_update [DbParam_int32 (ai_iAlarmLevel a), DbParam_string (ai_strAlarmParam a), DbParam_int32 (ai_iAlarmType a),
       DbParam_string (ai_strEndTime a), DbParam_string (ai_strStartTime a), DbParam_int32 (ai_iAlarmSN a), DbParam_int32 (ai_iAlarmID a)]"

text \<open>Seven texts of the reader become an alarm; its category stays as it was.\<close>

definition alarm_of_fields :: "string list \<Rightarrow> alarm_info \<Rightarrow> alarm_info" where
  "alarm_of_fields f a =
     a\<lparr>ai_iAlarmSN := atoi (f ! 0), ai_iAlarmID := atoi (f ! 1), ai_iAlarmType := atoi (f ! 2), ai_iAlarmLevel := atoi (f ! 3),
       ai_strStartTime := f ! 4, ai_strEndTime := f ! 5, ai_strAlarmParam := f ! 6\<rparr>"

fun alarm_rows :: "nat \<Rightarrow> string list \<Rightarrow> alarm_info list" where
  "alarm_rows 0 r = []"
| "alarm_rows (Suc n) r = (case read_fields 7 r of (r, f) \<Rightarrow> alarm_of_fields f new_alarm_info # alarm_rows n r)"

definition GetAllAlarmInfo :: "('d, 's) sqlite_api \<Rightarrow> string \<Rightarrow> alarm_info list \<Rightarrow> 'd cdb \<Rightarrow> 'd cdb \<times> alarm_info list \<times> int" where
  "GetAllAlarmInfo S path vecAlarmInfo c =
     (case QueryTable S path sql_alarm_all [] empty_query c of
        (c, q, iRet) \<Rightarrow>
          if iRet \<noteq> MP_SUCCESS then (c, vecAlarmInfo, iRet)
          else (c, vecAlarmInfo @ alarm_rows (nat (q_rows q)) (q_reader q), MP_SUCCESS))"

text \<open>
  A query for one alarm: every row overwrites the last. A text that is read when nothing is left keeps the
  value of the row before.
\<close>

fun read_fields_or :: "string list \<Rightarrow> string list \<Rightarrow> string list \<times> string list" where
  "read_fields_or [] r = (r, [])"
| "read_fields_or (d # ds) r = (case reader_get r d of (r, s) \<Rightarrow> (case read_fields_or ds r of (r, ss) \<Rightarrow> (r, s # ss)))"

fun last_alarm :: "nat \<Rightarrow> string list \<Rightarrow> alarm_info \<Rightarrow> alarm_info" where
  "last_alarm 0 r a = a"
| "last_alarm (Suc n) r a =
     (case read_fields_or [[], [], [], [], ai_strStartTime a, ai_strEndTime a, ai_strAlarmParam a] r of
        (r, f) \<Rightarrow> last_alarm n r (alarm_of_fields f a))"

definition GetAlarmInfoBySNAndID :: "('d, 's) sqlite_api \<Rightarrow> string \<Rightarrow> int \<Rightarrow> int \<Rightarrow> alarm_info \<Rightarrow> 'd cdb \<Rightarrow> 'd cdb \<times> alarm_info \<times> int" where
  "GetAlarmInfoBySNAndID S path iAlarmSN iAlarmID a c =
     (case QueryTable S path sql_alarm_key [DbParam_int32 iAlarmSN, DbParam_int32 iAlarmID] empty_query c of
        (c, q, iRet) \<Rightarrow>
          if iRet \<noteq> MP_SUCCESS then (c, a, iRet) else (c, last_alarm (nat (q_rows q)) (q_reader q) a, MP_SUCCESS))"

text \<open>Here the number of the alarm is that of the question, not that of the row.\<close>

definition GetCurrentAlarmInfoByAlarmID :: "('d, 's) sqlite_api \<Rightarrow> string \<Rightarrow> string \<Rightarrow> alarm_info \<Rightarrow> 'd cdb \<Rightarrow> 'd cdb \<times> alarm_info \<times> int" where
  "GetCurrentAlarmInfoByAlarmID S path strAlarmID a c =
     (case QueryTable S path sql_alarm_id [DbParam_string strAlarmID] empty_query c of
        (c, q, iRet) \<Rightarrow>
          if iRet \<noteq> MP_SUCCESS then (c, a, iRet)
          else (c, if 0 < q_rows q then (last_alarm (nat (q_rows q)) (q_reader q) a)\<lparr>ai_iAlarmID := atoi (c_str strAlarmID)\<rparr> else a, MP_SUCCESS))"

text \<open>The first row; no row gives the serial number -1.\<close>

definition GetAlarmInfoByParam :: "('d, 's) sqlite_api \<Rightarrow> string \<Rightarrow> int \<Rightarrow> string \<Rightarrow> alarm_info \<Rightarrow> 'd cdb \<Rightarrow> 'd cdb \<times> alarm_info \<times> int" where
  "GetAlarmInfoByParam S path iAlarmID strAlarmParam a c =
     (case QueryTable S path sql_alarm_param [DbParam_string strAlarmParam, DbParam_int32 iAlarmID] empty_query c of
        (c, q, iRet) \<Rightarrow>
          if iRet \<noteq> MP_SUCCESS then (c, a, iRet)
          else case reader_get (q_reader q) [] of
                 (r, strAlarmSN) \<Rightarrow>
                   if strAlarmSN \<noteq> []
                   then (case read_fields_or [[], [], [], ai_strStartTime a, ai_strEndTime a, ai_strAlarmParam a] r of
                           (r, f) \<Rightarrow> (c, alarm_of_fields (strAlarmSN # f) a, MP_SUCCESS))
                   else (c, a\<lparr>ai_iAlarmSN := -1\<rparr>, MP_SUCCESS))"

section \<open>Serial numbers\<close>

definition GetSN :: "('d, 's) sqlite_api \<Rightarrow> string \<Rightarrow> int \<Rightarrow> 'd cdb \<Rightarrow> 'd cdb \<times> int \<times> int" where
  "GetSN S path iAlarmSn c =
     (case QueryTable S path sql_sn_get [] empty_query c of
        (c, q, iRet) \<Rightarrow>
          if iRet \<noteq> MP_SUCCESS then (c, iAlarmSn, iRet)
          else if q_rows q \<ge> 1 then (c, atoi (snd (reader_get (q_reader q) [])), MP_SUCCESS)
          else case ExecSql S path sql_sn_insert [DbParam_int32 0] c of
                 (c, iRet) \<Rightarrow> if iRet \<noteq> 0 then (c, iAlarmSn, iRet) else (c, 0, MP_SUCCESS))"

definition SetSN :: "('d, 's) sqlite_api \<Rightarrow> string \<Rightarrow> int \<Rightarrow> 'd cdb \<Rightarrow> 'd cdb \<times> int" where
  "SetSN S path iAlarmSn c =
     (case QueryTable S path sql_sn_get [] empty_query c of
        (c, q, iRet) \<Rightarrow>
          if iRet \<noteq> MP_SUCCESS then (c, iRet)
          else case ExecSql S path (if q_rows q \<ge> 1 then sql_sn_update else sql_sn_insert) [DbParam_int32 iAlarmSn] c of
                 (c, iRet) \<Rightarrow> (c, if iRet \<noteq> 0 then iRet else MP_SUCCESS))"

section \<open>Trap servers\<close>

definition CheckTrapInfoTable :: "('d, 's) sqlite_api \<Rightarrow> string \<Rightarrow> 'd cdb \<Rightarrow> 'd cdb \<times> int" where
  "CheckTrapInfoTable S path c =
     (case QueryTable S path CHECKT_TRAP_COL_EXISTS [] empty_query c of
        (c, q, iRet) \<Rightarrow>
          if iRet \<noteq> MP_SUCCESS then (c, iRet)
          else if q_rows q = 0 then ExecSql S path ADD_TRAP_COL [] c
          else (c, MP_SUCCESS))"

definition trap_key :: "trap_server \<Rightarrow> db_param list" where
  "trap_key t = [DbParam_string (ts_strServerIP t), DbParam_int32 (ts_iPort t), DbParam_int32 (ts_iVersion t)]"

definition BeExistInTrapInfo :: "('d, 's) sqlite_api \<Rightarrow> string \<Rightarrow> trap_server \<Rightarrow> 'd cdb \<Rightarrow> 'd cdb \<times> bool" where
  "BeExistInTrapInfo S path t c =
     (case QueryTable S path sql_trap_exists (trap_key t) empty_query c of
        (c, q, iRet) \<Rightarrow> (c, iRet = MP_SUCCESS \<and> 0 < q_rows q))"

definition InsertTrapServer :: "('d, 's) sqlite_api \<Rightarrow> string \<Rightarrow> trap_server \<Rightarrow> 'd cdb \<Rightarrow> 'd cdb \<times> int" where
  "InsertTrapServer S path t c =
     (case CheckTrapInfoTable S path c of
        (c, iRet) \<Rightarrow>
          if iRet \<noteq> MP_SUCCESS then (c, iRet)
          else case BeExistInTrapInfo S path t c of
                 (c, True) \<Rightarrow> (c, MP_SUCCESS)
               | (c, False) \<Rightarrow> ExecSql S path sql_trap_insert (trap_key t @ [DbParam_string (ts_strListenIP t)]) c)"

definition DeleteTrapServer :: "('d, 's) sqlite_api \<Rightarrow> string \<Rightarrow> trap_server \<Rightarrow> 'd cdb \<Rightarrow> 'd cdb \<times> int" where
  "DeleteTrapServer S path t = ExecSql S path sql_trap_delete (trap_key t)"

fun trap_rows :: "nat \<Rightarrow> string list \<Rightarrow> trap_server list" where
  "trap_rows 0 r = []"
| "trap_rows (Suc n) r =
     (case read_fields 4 r of
        (r, f) \<Rightarrow> \<lparr>ts_iPort = atoi (f ! 1), ts_iVersion = atoi (f ! 2), ts_strServerIP = f ! 0, ts_strListenIP = f ! 3\<rparr> # trap_rows n r)"

definition GetAllTrapInfo :: "('d, 's) sqlite_api \<Rightarrow> string \<Rightarrow> trap_server list \<Rightarrow> 'd cdb \<Rightarrow> 'd cdb \<times> trap_server list \<times> int" where
  "GetAllTrapInfo S path vecStServerInfo c =
     (case CheckTrapInfoTable S path c of
        (c, iRet) \<Rightarrow>
          if iRet \<noteq> MP_SUCCESS then (c, vecStServerInfo, iRet)
          else case QueryTable S path sql_trap_all [] empty_query c of
                 (c, q, iRet) \<Rightarrow>
                   if iRet \<noteq> MP_SUCCESS then (c, vecStServerInfo, iRet)
                   else (c, vecStServerInfo @ trap_rows (nat (q_rows q)) (q_reader q), MP_SUCCESS))"

section \<open>States of frozen applications\<close>

definition Status_IsExist :: "('d, 's) sqlite_api \<Rightarrow> string \<Rightarrow> string \<Rightarrow> 'd cdb \<Rightarrow> 'd cdb \<times> bool" where
  "Status_IsExist S path strKey c =
     (case QueryTable S path sql_status_exists [DbParam_string strKey] empty_query c of
        (c, q, iRet) \<Rightarrow> (c, iRet = MP_SUCCESS \<and> 0 < q_rows q))"

definition Status_Insert :: "('d, 's) sqlite_api \<Rightarrow> string \<Rightarrow> string \<Rightarrow> 'd cdb \<Rightarrow> 'd cdb \<times> int" where
  "Status_Insert S path strKey c =
     (case Status_IsExist S path strKey c of
        (c, True) \<Rightarrow> (c, MP_SUCCESS)
      | (c, False) \<Rightarrow> ExecSql S path sql_status_insert [DbParam_string strKey] c)"

definition Status_Delete :: "('d, 's) sqlite_api \<Rightarrow> string \<Rightarrow> string \<Rightarrow> 'd cdb \<Rightarrow> 'd cdb \<times> int" where
  "Status_Delete S path strKey c =
     (case Status_IsExist S path strKey c of
        (c, False) \<Rightarrow> (c, MP_SUCCESS)
      | (c, True) \<Rightarrow> ExecSql S path sql_status_delete [DbParam_string strKey] c)"

definition Status_Get :: "('d, 's) sqlite_api \<Rightarrow> string \<Rightarrow> string \<Rightarrow> 'd cdb \<Rightarrow> 'd cdb \<times> int" where
  "Status_Get S path strKey c =
     (case Status_IsExist S path strKey c of (c, b) \<Rightarrow> (c, if b then DB_FREEZE else DB_UNFREEZE))"

fun status_rows :: "nat \<Rightarrow> string list \<Rightarrow> (string \<times> int) list" where
  "status_rows 0 r = []"
| "status_rows (Suc n) r = (case reader_get r [] of (r, k) \<Rightarrow> (k, DB_FREEZE) # status_rows n r)"

definition Status_GetAll :: "('d, 's) sqlite_api \<Rightarrow> string \<Rightarrow> (string \<times> int) list \<Rightarrow> 'd cdb \<Rightarrow> 'd cdb \<times> (string \<times> int) list \<times> int" where
  "Status_GetAll S path vecStatus c =
     (case QueryTable S path sql_status_all [] empty_query c of
        (c, q, iRet) \<Rightarrow>
          if iRet \<noteq> MP_SUCCESS then (c, vecStatus, iRet)
          else (c, vecStatus @ status_rows (nat (q_rows q)) (q_reader q), MP_SUCCESS))"

end
