(* ===== verification/AlarmTrap.thy ===== *)
theory AlarmTrap
  imports AlarmDb ConfigXml IpcFile
begin

text \<open>
  Alarms and their traps: \<^verbatim>\<open>CTrapSender\<close> (\<^verbatim>\<open>src/src/alarm/Trap.cpp\<close>) and \<^verbatim>\<open>CAlarmConfig\<close>
  (\<^verbatim>\<open>src/src/alarm/Alarm.cpp\<close>). The SNMP library is a record of functions on its own state \<^typ>\<open>'n\<close>; the
  time and the decryption of the passwords are parameters.
\<close>

section \<open>Data\<close>

record snmp_v3_param =
  sp_strPrivPassword :: string
  sp_strAuthPassword :: string
  sp_strSecurityName :: string
  sp_iSecurityModel :: int
  sp_iAuthProtocol :: int
  sp_iPrivProtocol :: int
  sp_strEngineId :: string
  sp_strFilename :: string

record alarm_param =
  ap_iAlarmID :: int
  ap_strAlarmParam :: string

record pdu_security_info =
  pi_iSecurityLevel :: int
  pi_strContextName :: string
  pi_strContextEngineID :: string

datatype vb_value = VbInt int | VbText string

record snmp_pdu =
  pdu_vbs :: "(string \<times> vb_value) list"
  pdu_notify_id :: string
  pdu_notify_enterprise :: string
  pdu_security_level :: int
  pdu_context_name :: string
  pdu_context_engine_id :: string

record snmp_target =
  tg_address :: string
  tg_port :: "16 word"
  tg_version :: int
  tg_security_model :: int
  tg_security_name :: string

record 'n snmp_api =
  sn_startup :: "'n \<Rightarrow> 'n"
  sn_cleanup :: "'n \<Rightarrow> 'n"
  sn_v3mp :: "string \<Rightarrow> int \<Rightarrow> 'n \<Rightarrow> 'n \<times> int option" \<comment> \<open>\<^const>\<open>None\<close>: an exception\<close>
  sn_v3mp_delete :: "'n \<Rightarrow> 'n"
  sn_add_usm_user :: "string \<Rightarrow> int \<Rightarrow> int \<Rightarrow> string \<Rightarrow> string \<Rightarrow> 'n \<Rightarrow> 'n"
  sn_ipv4 :: "string \<Rightarrow> bool"
  sn_open :: "string \<Rightarrow> 'n \<Rightarrow> 'n \<times> int option" \<comment> \<open>\<^const>\<open>None\<close>: an exception\<close>
  sn_delete :: "'n \<Rightarrow> 'n"
  sn_trap :: "snmp_pdu \<Rightarrow> snmp_target \<Rightarrow> 'n \<Rightarrow> 'n"

record ('d, 's, 'n) trap_env =
  te_sql :: "('d, 's) sqlite_api"
  te_dbpath :: string
  te_snmp :: "'n snmp_api"
  te_doc :: xml_doc
  te_decrypt :: "string \<Rightarrow> string"
  te_files :: file_env
  te_disk :: file_world
  te_root :: string
  te_now :: string \<comment> \<open>\<^verbatim>\<open>GetTimeString\<close> of the present time\<close>

record ('d, 'n) trap_world =
  tw_db :: "'d cdb"
  tw_snmp :: 'n

abbreviation CFG_SNMP_SECTION :: string where "CFG_SNMP_SECTION \<equiv> ''SNMP''"
abbreviation MAX_ALARM_ID :: int where "MAX_ALARM_ID \<equiv> 0x7FFFFFFF"
abbreviation ALARM_TYPE_EQUPMENTFAULT :: int where "ALARM_TYPE_EQUPMENTFAULT \<equiv> 2"
abbreviation ALARM_CATEGORY_FAULT :: int where "ALARM_CATEGORY_FAULT \<equiv> 1"
abbreviation ALARM_CATEGORY_RESUME :: int where "ALARM_CATEGORY_RESUME \<equiv> 2"
abbreviation SNMPv3_MP_OK :: int where "SNMPv3_MP_OK \<equiv> 0"
abbreviation SNMP_CLASS_SUCCESS :: int where "SNMP_CLASS_SUCCESS \<equiv> 0"
abbreviation HOSTSN_FILE :: string where "HOSTSN_FILE \<equiv> ''HostSN''"
abbreviation TRAP_UNKNOWN :: string where "TRAP_UNKNOWN \<equiv> ''Unknown''"
abbreviation OID_HUAWEI_TRAP_MODEL :: string where "OID_HUAWEI_TRAP_MODEL \<equiv> ''1.3.6.1.4.1.2011.2.91.10.2.1.0.1''"

text \<open>\<^verbatim>\<open>OID_ISM_ALARM_REPORTING_\<close>: the node code has the number 1, and so on.\<close>

definition report_oid :: "string \<Rightarrow> string" where
  "report_oid n = ''1.3.6.1.4.1.2011.2.91.10.3.1.1.'' @ n"

abbreviation OID_NODECODE :: string where "OID_NODECODE \<equiv> ''1''"
abbreviation OID_FAULTTYPE :: string where "OID_FAULTTYPE \<equiv> ''5''"
abbreviation OID_ALARMID :: string where "OID_ALARMID \<equiv> ''7''"
abbreviation OID_FAULTTIME :: string where "OID_FAULTTIME \<equiv> ''8''"
abbreviation OID_SERIALNO :: string where "OID_SERIALNO \<equiv> ''9''"
abbreviation OID_ADDITIONINFO :: string where "OID_ADDITIONINFO \<equiv> ''10''"
abbreviation OID_FAULTCATEGORY :: string where "OID_FAULTCATEGORY \<equiv> ''11''"

section \<open>Configuration\<close>

definition cfg_string :: "xml_doc \<Rightarrow> string \<Rightarrow> (string \<Rightarrow> string) \<Rightarrow> string" where
  "cfg_string doc key f = (case GetValueString doc CFG_SNMP_SECTION key of Inl _ \<Rightarrow> [] | Inr v \<Rightarrow> f v)"

definition cfg_int :: "xml_doc \<Rightarrow> string \<Rightarrow> int \<Rightarrow> int" where
  "cfg_int doc key d = (case GetValueString doc CFG_SNMP_SECTION key of Inl _ \<Rightarrow> d | Inr v \<Rightarrow> atoi (c_str v))"

definition GetSnmpV3Param :: "('d, 's, 'n) trap_env \<Rightarrow> snmp_v3_param" where
  "GetSnmpV3Param E =
     \<lparr>sp_strPrivPassword = cfg_string (te_doc E) ''private_password'' (te_decrypt E),
      sp_strAuthPassword = cfg_string (te_doc E) ''auth_password'' (te_decrypt E),
      sp_strSecurityName = cfg_string (te_doc E) ''security_name'' id,
      sp_iSecurityModel = cfg_int (te_doc E) ''security_model'' 0,
      sp_iAuthProtocol = cfg_int (te_doc E) ''auth_protocol'' 0,
      sp_iPrivProtocol = cfg_int (te_doc E) ''private_protocol'' 0,
      sp_strEngineId = [], sp_strFilename = []\<rparr>"

definition GetPduSecurInfo :: "('d, 's, 'n) trap_env \<Rightarrow> pdu_security_info" where
  "GetPduSecurInfo E =
     \<lparr>pi_iSecurityLevel = cfg_int (te_doc E) ''security_level'' 3,
      pi_strContextName = cfg_string (te_doc E) ''context_name'' id,
      pi_strContextEngineID = cfg_string (te_doc E) ''engine_id'' id\<rparr>"

definition GetLocalNodeCode :: "('d, 's, 'n) trap_env \<Rightarrow> string" where
  "GetLocalNodeCode E =
     (case Mp_ReadFile (te_files E) (te_disk E) (GetConfFilePath (te_root E) HOSTSN_FILE) [] of
        (vecMacs, iRet) \<Rightarrow> if iRet \<noteq> MP_SUCCESS then [] else case vecMacs of [] \<Rightarrow> [] | m # _ \<Rightarrow> m)"

section \<open>Messages\<close>

definition ConstructPDUCommon :: "('d, 's, 'n) trap_env \<Rightarrow> (string \<times> vb_value) list" where
  "ConstructPDUCommon E =
     [(report_oid OID_NODECODE, VbText (c_str (GetLocalNodeCode E))), (report_oid OID_FAULTTYPE, VbInt ALARM_TYPE_EQUPMENTFAULT),
      (report_oid OID_FAULTTIME, VbText (c_str (te_now E)))]"

definition ConstructPDU :: "('d, 's, 'n) trap_env \<Rightarrow> alarm_info \<Rightarrow> snmp_pdu" where
  "ConstructPDU E a =
     (let i = GetPduSecurInfo E in
      \<lparr>pdu_vbs = [(report_oid OID_ALARMID, VbInt (ai_iAlarmID a)), (report_oid OID_SERIALNO, VbInt (ai_iAlarmSN a)),
         (report_oid OID_ADDITIONINFO, VbText (c_str (ai_strAlarmParam a))), (report_oid OID_FAULTCATEGORY, VbInt (ai_iAlarmCategoryType a))]
         @ ConstructPDUCommon E,
       pdu_notify_id = OID_HUAWEI_TRAP_MODEL, pdu_notify_enterprise = OID_HUAWEI_TRAP_MODEL,
       pdu_security_level = pi_iSecurityLevel i, pdu_context_name = c_str (pi_strContextName i),
       pdu_context_engine_id = c_str (pi_strContextEngineID i)\<rparr>)"

definition SendSingleTrap :: "'n snmp_api \<Rightarrow> snmp_pdu \<Rightarrow> trap_server \<Rightarrow> int \<Rightarrow> string \<Rightarrow> 'n \<Rightarrow> 'n" where
  "SendSingleTrap N pdu t securityModel securityName n =
     (let ip = (if sn_ipv4 N (c_str (ts_strServerIP t))
                then if ts_strListenIP t = TRAP_UNKNOWN then ''0.0.0.0'' else c_str (ts_strListenIP t)
                else ''::'')
      in case sn_open N ip n of
           (n, None) \<Rightarrow> n
         | (n, Some status) \<Rightarrow>
             if status \<noteq> SNMP_CLASS_SUCCESS then sn_delete N n
             else sn_delete N (sn_trap N pdu \<lparr>tg_address = c_str (ts_strServerIP t), tg_port = word_of_int (ts_iPort t),
                    tg_version = ts_iVersion t, tg_security_model = securityModel, tg_security_name = securityName\<rparr> n))"

definition SendTrap :: "('d, 's, 'n) trap_env \<Rightarrow> snmp_pdu \<Rightarrow> trap_server list \<Rightarrow> 'n \<Rightarrow> 'n" where
  "SendTrap E pdu vecServerInfo n =
     (let N = te_snmp E; p = GetSnmpV3Param E in
      case sn_v3mp N (c_str (GetLocalNodeCode E)) 1 (sn_startup N n) of
        (n, None) \<Rightarrow> n
      | (n, Some construct_status) \<Rightarrow>
          if construct_status \<noteq> SNMPv3_MP_OK then sn_v3mp_delete N n
          else sn_cleanup N (sn_v3mp_delete N (fold (\<lambda>t. SendSingleTrap N pdu t (sp_iSecurityModel p) (c_str (sp_strSecurityName p))) vecServerInfo
                 (sn_add_usm_user N (c_str (sp_strSecurityName p)) (sp_iAuthProtocol p) (sp_iPrivProtocol p)
                    (c_str (sp_strAuthPassword p)) (c_str (sp_strPrivPassword p)) n))))"

section \<open>Alarms\<close>

definition NewAlarmRecord :: "('d, 's, 'n) trap_env \<Rightarrow> alarm_param \<Rightarrow> alarm_info \<Rightarrow> 'd cdb \<Rightarrow> 'd cdb \<times> alarm_info \<times> int" where
  "NewAlarmRecord E p a c =
     (case GetSN (te_sql E) (te_dbpath E) 0 c of
        (c, iCurrSN, iRet) \<Rightarrow>
          if iRet \<noteq> MP_SUCCESS then (c, a, iRet)
          else let a = a\<lparr>ai_iAlarmSN := (if iCurrSN = MAX_ALARM_ID then 0 else iCurrSN + 1), ai_iAlarmID := ap_iAlarmID p,
                       ai_strAlarmParam := ap_strAlarmParam p, ai_iAlarmType := ALARM_TYPE_EQUPMENTFAULT, ai_strEndTime := [],
                       ai_strStartTime := te_now E, ai_iAlarmCategoryType := ALARM_CATEGORY_FAULT\<rparr>
               in case InsertAlarmInfo (te_sql E) (te_dbpath E) a c of
                    (c, iRet) \<Rightarrow>
                      if iRet \<noteq> MP_SUCCESS then (c, a, iRet)
                      else case SetSN (te_sql E) (te_dbpath E) (ai_iAlarmSN a) c of (c, iRet) \<Rightarrow> (c, a, iRet))"

text \<open>The servers are told of the alarm; the result of sending is not known.\<close>

definition tell_servers :: "('d, 's, 'n) trap_env \<Rightarrow> alarm_info \<Rightarrow> ('d, 'n) trap_world \<Rightarrow> ('d, 'n) trap_world \<times> int" where
  "tell_servers E a w =
     (case GetAllTrapInfo (te_sql E) (te_dbpath E) [] (tw_db w) of
        (c, vecServerInfo, iRet) \<Rightarrow>
          if iRet \<noteq> MP_SUCCESS then (w\<lparr>tw_db := c\<rparr>, iRet)
          else (w\<lparr>tw_db := c, tw_snmp := SendTrap E (ConstructPDU E a) vecServerInfo (tw_snmp w)\<rparr>, MP_SUCCESS))"

definition SendAlarm :: "('d, 's, 'n) trap_env \<Rightarrow> alarm_param \<Rightarrow> ('d, 'n) trap_world \<Rightarrow> ('d, 'n) trap_world \<times> int" where
  "SendAlarm E p w =
     (case GetAlarmInfoByParam (te_sql E) (te_dbpath E) (ap_iAlarmID p) (ap_strAlarmParam p) new_alarm_info (tw_db w) of
        (c, a, iRet) \<Rightarrow>
          if iRet \<noteq> MP_SUCCESS then (w\<lparr>tw_db := c\<rparr>, iRet)
          else if ai_iAlarmSN a = -1
          then (case NewAlarmRecord E p a c of
                  (c, a, iRet) \<Rightarrow> if iRet \<noteq> MP_SUCCESS then (w\<lparr>tw_db := c\<rparr>, iRet) else tell_servers E a (w\<lparr>tw_db := c\<rparr>))
          else tell_servers E a (w\<lparr>tw_db := c\<rparr>))"

definition ResumeAlarm :: "('d, 's, 'n) trap_env \<Rightarrow> alarm_param \<Rightarrow> ('d, 'n) trap_world \<Rightarrow> ('d, 'n) trap_world \<times> int" where
  "ResumeAlarm E p w =
     (case GetAlarmInfoByParam (te_sql E) (te_dbpath E) (ap_iAlarmID p) (ap_strAlarmParam p)
             (new_alarm_info\<lparr>ai_iAlarmID := ap_iAlarmID p, ai_strAlarmParam := ap_strAlarmParam p\<rparr>) (tw_db w) of
        (c, a, iRet) \<Rightarrow>
          if iRet \<noteq> MP_SUCCESS then (w\<lparr>tw_db := c\<rparr>, iRet)
          else case (if ai_iAlarmSN a \<noteq> -1 then DeleteAlarmInfo (te_sql E) (te_dbpath E) (ai_iAlarmSN a) (ai_iAlarmID a) c else (c, MP_SUCCESS)) of
                 (c, iRet) \<Rightarrow>
                   if iRet \<noteq> MP_SUCCESS then (w\<lparr>tw_db := c\<rparr>, iRet)
                   else tell_servers E (a\<lparr>ai_iAlarmCategoryType := ALARM_CATEGORY_RESUME\<rparr>) (w\<lparr>tw_db := c\<rparr>))"

end
