(* ===== verification/AlarmProps.thy ===== *)
theory AlarmProps
  imports AlarmTrap
begin

text \<open>
  The alarms under the documented behaviour of SQLite, constraints included: what raising and resuming an
  alarm does to the tables and what the servers are told.
\<close>

section \<open>A SQLite that may refuse a statement\<close>

text \<open>As \<^const>\<open>sqlite_ok\<close>, but a statement may violate a constraint: then it fails and changes nothing.\<close>

abbreviation SQLITE_CONSTRAINT :: int where "SQLITE_CONSTRAINT \<equiv> 19"

type_synonym 'd sql_try = "string \<Rightarrow> sql_value list \<Rightarrow> 'd \<Rightarrow> ('d \<times> string list list) option"

definition total :: "'d sql_try \<Rightarrow> 'd sql_sem" where
  "total sem sql vs d = (case sem sql vs d of None \<Rightarrow> (d, []) | Some r \<Rightarrow> r)"

definition never_fails :: "('d, 's) sqlite_api \<Rightarrow> ('d, 's) sqlite_api" where
  "never_fails S = S\<lparr>sq_run := (\<lambda>stmt d. case sq_run S stmt d of (d, rows, rc) \<Rightarrow> (d, rows, SQLITE_DONE))\<rparr>"

definition sqlite_runs :: "('d, 's) sqlite_api \<Rightarrow> string \<Rightarrow> (string \<Rightarrow> sql_value list \<Rightarrow> 's) \<Rightarrow> (string \<rightharpoonup> nat \<times> nat)
    \<Rightarrow> 'd sql_try \<Rightarrow> bool" where
  "sqlite_runs S path prep known sem \<longleftrightarrow>
     sqlite_ok (never_fails S) path prep known (total sem) \<and>
     (\<forall>sql n k vs d. known sql = Some (n, k) \<and> length vs = n \<longrightarrow>
        snd (snd (sq_run S (prep sql vs) d)) = (if sem sql vs d = None then SQLITE_CONSTRAINT else SQLITE_DONE))"

lemma never_fails_fields:
  "sqlite3_open (never_fails S) = sqlite3_open S" "sqlite3_close (never_fails S) = sqlite3_close S"
  "sqlite3_prepare_v2 (never_fails S) = sqlite3_prepare_v2 S" "sqlite3_bind_int (never_fails S) = sqlite3_bind_int S"
  "sqlite3_bind_int64 (never_fails S) = sqlite3_bind_int64 S" "sqlite3_bind_text (never_fails S) = sqlite3_bind_text S"
  "sqlite3_column_count (never_fails S) = sqlite3_column_count S"
  by (simp_all add: never_fails_def)

lemma never_fails_bind: "bind_loop (never_fails S) i dps st strs = bind_loop S i dps st strs"
proof (induction dps arbitrary: i st strs)
  case (Cons dp dps)
  show ?case unfolding bind_loop.simps never_fails_fields Cons.IH by (rule refl)
qed simp

lemma never_fails_same [simp]:
  "Disconnect (never_fails S) c = Disconnect S c" "Connect (never_fails S) path c = Connect S path c"
  "SqlPrepare (never_fails S) sql c = SqlPrepare S sql c" "SqlBind (never_fails S) st dps c = SqlBind S st dps c"
  unfolding Disconnect_def Connect_def SqlPrepare_def SqlBind_def never_fails_fields never_fails_bind by (rule refl)+

lemma runs_step:
  assumes "sqlite_runs S path prep known sem" "known sql = Some (n, k)" "length vs = n"
  shows "sq_run S (prep sql vs) d =
    (fst (total sem sql vs d), map (map Some) (snd (total sem sql vs d)), if sem sql vs d = None then SQLITE_CONSTRAINT else SQLITE_DONE)"
proof -
  have "sq_run (never_fails S) (prep sql vs) d = (fst (total sem sql vs d), map (map Some) (snd (total sem sql vs d)), SQLITE_DONE)"
    by (rule sqlite_okD(8) [OF conjunct1 [OF assms(1) [unfolded sqlite_runs_def]] assms(2,3)])
  moreover have "snd (snd (sq_run S (prep sql vs) d)) = (if sem sql vs d = None then SQLITE_CONSTRAINT else SQLITE_DONE)"
    using conjunct2 [OF assms(1) [unfolded sqlite_runs_def], rule_format, of sql n k vs d] assms(2,3) by simp
  ultimately show ?thesis by (auto simp: never_fails_def split: prod.splits)
qed

lemma ExecSql_run:
  assumes R: "sqlite_runs S path prep known sem" "known sql = Some (length dps, k)"
    and "\<And>r. sem sql (map bound_value dps) (dbfile c) = Some r \<Longrightarrow> snd r = []"
  shows "ExecSql S path sql dps c =
    (case sem sql (map bound_value dps) (dbfile c) of
       None \<Rightarrow> (fst (ExecSql S path sql dps c), MP_FAILED) | Some (d, _) \<Rightarrow> (db_after d c, MP_SUCCESS))"
    "sem sql (map bound_value dps) (dbfile c) = None \<Longrightarrow> dbfile (fst (ExecSql S path sql dps c)) = dbfile c"
proof -
  let ?N = "never_fails S"
  have O: "sqlite_ok ?N path prep known (total sem)" using R(1) by (simp add: sqlite_runs_def)
  obtain h where h: "Connect S path c = (c\<lparr>m_pDB := Some h\<rparr>, MP_SUCCESS)" using Connect_ok [OF O] by auto
  obtain strs where b: "SqlBind S (prep sql []) dps (c\<lparr>m_pDB := Some h\<rparr>) =
      (c\<lparr>m_pDB := Some h, m_stringList := strs\<rparr>, Some (prep sql (map bound_value dps)))"
    using SqlBind_ok [OF O R(2)] by force
  have p: "sqlite3_prepare_v2 S (Some h) sql d = (Some (prep sql []), SQLITE_OK)" for d
    using sqlite_okD(3) [OF O R(2), of h d] by (simp add: never_fails_def)
  have D: "Disconnect S c = (c\<lparr>m_pDB := None\<rparr>, MP_SUCCESS)" for c using Disconnect_ok [OF O, of c] by simp
  note r = runs_step [OF R, of "map bound_value dps"]
  show "ExecSql S path sql dps c =
    (case sem sql (map bound_value dps) (dbfile c) of
       None \<Rightarrow> (fst (ExecSql S path sql dps c), MP_FAILED) | Some (d, _) \<Rightarrow> (db_after d c, MP_SUCCESS))"
    using assms(3) by (auto simp: ExecSql_def h b SqlPrepare_def p SqlExecute_def r D total_def db_after_def split: option.splits)
  show "sem sql (map bound_value dps) (dbfile c) = None \<Longrightarrow> dbfile (fst (ExecSql S path sql dps c)) = dbfile c"
    by (simp add: ExecSql_def h b SqlPrepare_def p SqlExecute_def r D total_def)
qed

lemma QueryTable_run:
  assumes R: "sqlite_runs S path prep known sem" "known sql = Some (length dps, k)" "0 < k"
    and s: "sem sql (map bound_value dps) (dbfile c) = Some (d, rows)" "\<forall>row\<in>set rows. length row = k"
  shows "QueryTable S path sql dps empty_query c =
    (db_after d c, \<lparr>q_reader = concat rows, q_rows = int (length rows), q_cols = int k\<rparr>, MP_SUCCESS)"
proof -
  let ?N = "never_fails S"
  have O: "sqlite_ok ?N path prep known (total sem)" using R(1) by (simp add: sqlite_runs_def)
  have t: "total sem sql (map bound_value dps) (dbfile c) = (d, rows)" using s(1) by (simp add: total_def)
  have "QueryTable S path sql dps empty_query c = QueryTable ?N path sql dps empty_query c"
  proof -
    obtain h where h: "Connect S path c = (c\<lparr>m_pDB := Some h\<rparr>, MP_SUCCESS)" using Connect_ok [OF O] by auto
    obtain strs where b: "SqlBind S (prep sql []) dps (c\<lparr>m_pDB := Some h\<rparr>) =
        (c\<lparr>m_pDB := Some h, m_stringList := strs\<rparr>, Some (prep sql (map bound_value dps)))"
      using SqlBind_ok [OF O R(2)] by force
    have p: "sqlite3_prepare_v2 S (Some h) sql d = (Some (prep sql []), SQLITE_OK)" for d
      using sqlite_okD(3) [OF O R(2), of h d] by (simp add: never_fails_def)
    have n: "sqlite3_column_count ?N = sqlite3_column_count S" by (simp add: never_fails_def)
    have r: "sq_run S (prep sql (map bound_value dps)) (dbfile c) = sq_run ?N (prep sql (map bound_value dps)) (dbfile c)"
      using runs_step [OF R(1,2), of "map bound_value dps"] s(1) by (simp add: never_fails_def)
    have q: "SqlQuery S (prep sql (map bound_value dps)) empty_query (c\<lparr>m_pDB := Some h, m_stringList := strs\<rparr>)
        = SqlQuery ?N (prep sql (map bound_value dps)) empty_query (c\<lparr>m_pDB := Some h, m_stringList := strs\<rparr>)"
      unfolding SqlQuery_def n never_fails_same by (simp add: r)
    show ?thesis unfolding QueryTable_def never_fails_same h SqlPrepare_def never_fails_fields by (simp add: p b q)
  qed
  then show ?thesis using QueryTable_ok [OF O R(2,3), of c empty_query] s(2) by (simp add: t empty_query_def)
qed

section \<open>The tables\<close>

record alarm_tables =
  at_alarms :: "alarm_info list"
  at_sn :: "int list"
  at_traps :: "trap_server list"
  at_col :: bool \<comment> \<open>the table of the servers has the column of the agent\<close>
  at_status :: "string list"

datatype alarm_stmt = AInsert | ADelete | AParam | SnGet | SnInsert | SnUpdate | TInsert | TDelete | TAll | TExists | TCheck | TAdd
  | StInsert | StDelete | StAll | StExists

definition stmt_of :: "string \<Rightarrow> alarm_stmt option" where
  "stmt_of = map_of [(sql_alarm_insert, AInsert), (sql_alarm_delete, ADelete), (sql_alarm_param, AParam), (sql_sn_get, SnGet),
     (sql_sn_insert, SnInsert), (sql_sn_update, SnUpdate), (sql_trap_insert, TInsert), (sql_trap_delete, TDelete), (sql_trap_all, TAll),
     (sql_trap_exists, TExists), (CHECKT_TRAP_COL_EXISTS, TCheck), (ADD_TRAP_COL, TAdd), (sql_status_insert, StInsert),
     (sql_status_delete, StDelete), (sql_status_all, StAll), (sql_status_exists, StExists)]"

fun stmt_shape :: "alarm_stmt \<Rightarrow> nat \<times> nat" where
  "stmt_shape AInsert = (7, 0)" | "stmt_shape ADelete = (2, 0)" | "stmt_shape AParam = (2, 7)" | "stmt_shape SnGet = (0, 1)"
| "stmt_shape SnInsert = (1, 0)" | "stmt_shape SnUpdate = (1, 0)" | "stmt_shape TInsert = (4, 0)" | "stmt_shape TDelete = (3, 0)"
| "stmt_shape TAll = (0, 4)" | "stmt_shape TExists = (3, 3)" | "stmt_shape TCheck = (0, 5)" | "stmt_shape TAdd = (0, 0)"
| "stmt_shape StInsert = (1, 0)" | "stmt_shape StDelete = (1, 0)" | "stmt_shape StAll = (0, 1)" | "stmt_shape StExists = (1, 1)"

definition alarm_text :: "alarm_info \<Rightarrow> string list" where
  "alarm_text a = [IntToString (ai_iAlarmSN a), IntToString (ai_iAlarmID a), IntToString (ai_iAlarmType a), IntToString (ai_iAlarmLevel a),
     ai_strStartTime a, ai_strEndTime a, ai_strAlarmParam a]"

definition trap_text :: "trap_server \<Rightarrow> string list" where
  "trap_text t = [ts_strServerIP t, IntToString (ts_iPort t), IntToString (ts_iVersion t), ts_strListenIP t]"

definition same_server :: "string \<Rightarrow> int \<Rightarrow> int \<Rightarrow> trap_server \<Rightarrow> bool" where
  "same_server ip port v t \<longleftrightarrow> ts_strServerIP t = c_str ip \<and> ts_iPort t = port \<and> ts_iVersion t = v"

text \<open>The primary keys: serial and alarm number; the serial number; address, port and version.\<close>

fun alarm_do :: "alarm_stmt \<Rightarrow> sql_value list \<Rightarrow> alarm_tables \<Rightarrow> (alarm_tables \<times> string list list) option" where
  "alarm_do AInsert vs T = (case vs of
     [SInt sn, SInt i, SInt ty, SInt lv, SText st, SText et, SText pa] \<Rightarrow>
       if list_ex (\<lambda>a. ai_iAlarmSN a = sn \<and> ai_iAlarmID a = i) (at_alarms T) then None
       else Some (T\<lparr>at_alarms := at_alarms T @ [\<lparr>ai_iAlarmSN = sn, ai_iAlarmID = i, ai_iAlarmType = ty, ai_iAlarmLevel = lv,
              ai_iAlarmCategoryType = -1, ai_strStartTime = c_str st, ai_strEndTime = c_str et, ai_strAlarmParam = c_str pa\<rparr>]\<rparr>, [])
   | _ \<Rightarrow> Some (T, []))"
| "alarm_do ADelete vs T = (case vs of
     [SInt sn, SInt i] \<Rightarrow> Some (T\<lparr>at_alarms := filter (\<lambda>a. \<not> (ai_iAlarmSN a = sn \<and> ai_iAlarmID a = i)) (at_alarms T)\<rparr>, [])
   | _ \<Rightarrow> Some (T, []))"
| "alarm_do AParam vs T = (case vs of
     [SText pa, SInt i] \<Rightarrow> Some (T, map alarm_text (filter (\<lambda>a. ai_strAlarmParam a = c_str pa \<and> ai_iAlarmID a = i) (at_alarms T)))
   | _ \<Rightarrow> Some (T, []))"
| "alarm_do SnGet vs T = Some (T, map (\<lambda>n. [IntToString n]) (at_sn T))"
| "alarm_do SnInsert vs T = (case vs of
     [SInt n] \<Rightarrow> if n \<in> set (at_sn T) then None else Some (T\<lparr>at_sn := at_sn T @ [n]\<rparr>, [])
   | _ \<Rightarrow> Some (T, []))"
| "alarm_do SnUpdate vs T = (case vs of
     [SInt n] \<Rightarrow> if length (at_sn T) > 1 then None else Some (T\<lparr>at_sn := map (\<lambda>_. n) (at_sn T)\<rparr>, [])
   | _ \<Rightarrow> Some (T, []))"
| "alarm_do TInsert vs T = (case vs of
     [SText ip, SInt p, SInt v, SText l] \<Rightarrow>
       if list_ex (same_server ip p v) (at_traps T) then None
       else Some (T\<lparr>at_traps := at_traps T @ [\<lparr>ts_iPort = p, ts_iVersion = v, ts_strServerIP = c_str ip, ts_strListenIP = c_str l\<rparr>]\<rparr>, [])
   | _ \<Rightarrow> Some (T, []))"
| "alarm_do TDelete vs T = (case vs of
     [SText ip, SInt p, SInt v] \<Rightarrow> Some (T\<lparr>at_traps := filter (\<lambda>t. \<not> same_server ip p v t) (at_traps T)\<rparr>, [])
   | _ \<Rightarrow> Some (T, []))"
| "alarm_do TAll vs T = Some (T, map trap_text (at_traps T))"
| "alarm_do TExists vs T = (case vs of
     [SText ip, SInt p, SInt v] \<Rightarrow> Some (T, map (take 3 \<circ> trap_text) (filter (same_server ip p v) (at_traps T)))
   | _ \<Rightarrow> Some (T, []))"
| "alarm_do TCheck vs T =
     Some (T, if at_col T then [[''table'', ''TrapInfoTable'', ''TrapInfoTable'', ''4'', ''AgentIP'']] else [])"
| "alarm_do TAdd vs T =
     (if at_col T then None
      else Some (T\<lparr>at_col := True, at_traps := map (\<lambda>t. t\<lparr>ts_strListenIP := ''Unknown''\<rparr>) (at_traps T)\<rparr>, []))"
| "alarm_do StInsert vs T = (case vs of [SText k] \<Rightarrow> Some (T\<lparr>at_status := at_status T @ [c_str k]\<rparr>, []) | _ \<Rightarrow> Some (T, []))"
| "alarm_do StDelete vs T = (case vs of [SText k] \<Rightarrow> Some (T\<lparr>at_status := filter (\<lambda>x. x \<noteq> c_str k) (at_status T)\<rparr>, []) | _ \<Rightarrow> Some (T, []))"
| "alarm_do StAll vs T = Some (T, map (\<lambda>k. [k]) (at_status T))"
| "alarm_do StExists vs T = (case vs of [SText k] \<Rightarrow> Some (T, map (\<lambda>x. [x]) (filter (\<lambda>x. x = c_str k) (at_status T))) | _ \<Rightarrow> Some (T, []))"

definition alarm_known :: "string \<rightharpoonup> nat \<times> nat" where
  "alarm_known sql = map_option stmt_shape (stmt_of sql)"

definition alarm_sem :: "alarm_tables sql_try" where
  "alarm_sem sql vs T = (case stmt_of sql of None \<Rightarrow> Some (T, []) | Some st \<Rightarrow> alarm_do st vs T)"

definition alarm_db :: "(alarm_tables, 's) sqlite_api \<Rightarrow> string \<Rightarrow> bool" where
  "alarm_db S path \<longleftrightarrow> (\<exists>prep. sqlite_runs S path prep alarm_known alarm_sem)"

lemma stmt_of_simps:
  "stmt_of sql_alarm_insert = Some AInsert" "stmt_of sql_alarm_delete = Some ADelete" "stmt_of sql_alarm_param = Some AParam"
  "stmt_of sql_sn_get = Some SnGet" "stmt_of sql_sn_insert = Some SnInsert" "stmt_of sql_sn_update = Some SnUpdate"
  "stmt_of sql_trap_insert = Some TInsert" "stmt_of sql_trap_delete = Some TDelete" "stmt_of sql_trap_all = Some TAll"
  "stmt_of sql_trap_exists = Some TExists" "stmt_of CHECKT_TRAP_COL_EXISTS = Some TCheck" "stmt_of ADD_TRAP_COL = Some TAdd"
  "stmt_of sql_status_insert = Some StInsert" "stmt_of sql_status_delete = Some StDelete" "stmt_of sql_status_all = Some StAll"
  "stmt_of sql_status_exists = Some StExists"
  by code_simp+

text \<open>A statement of the tables, run by \<^verbatim>\<open>ExecSql\<close> or read by \<^verbatim>\<open>QueryTable\<close>.\<close>

lemma alarm_exec:
  assumes "alarm_db S path" "stmt_of sql = Some st" "stmt_shape st = (length dps, 0)"
    "\<And>r. alarm_do st (map bound_value dps) (dbfile c) = Some r \<Longrightarrow> snd r = []"
  shows "case alarm_do st (map bound_value dps) (dbfile c) of
      None \<Rightarrow> \<exists>c'. ExecSql S path sql dps c = (c', MP_FAILED) \<and> dbfile c' = dbfile c
    | Some (d, _) \<Rightarrow> ExecSql S path sql dps c = (db_after d c, MP_SUCCESS)"
proof -
  obtain prep where R: "sqlite_runs S path prep alarm_known alarm_sem" using assms(1) by (auto simp: alarm_db_def)
  have k: "alarm_known sql = Some (length dps, 0)" using assms(2,3) by (simp add: alarm_known_def)
  have s: "alarm_sem sql = alarm_do st" using assms(2) by (simp add: alarm_sem_def fun_eq_iff)
  have e: "ExecSql S path sql dps c =
    (case alarm_do st (map bound_value dps) (dbfile c) of
       None \<Rightarrow> (fst (ExecSql S path sql dps c), MP_FAILED) | Some (d, _) \<Rightarrow> (db_after d c, MP_SUCCESS))"
    "alarm_do st (map bound_value dps) (dbfile c) = None \<Longrightarrow> dbfile (fst (ExecSql S path sql dps c)) = dbfile c"
    using ExecSql_run [OF R k, unfolded s] assms(4) by blast+
  show ?thesis
  proof (cases "alarm_do st (map bound_value dps) (dbfile c)")
    case None
    then have "ExecSql S path sql dps c = (fst (ExecSql S path sql dps c), MP_FAILED)" using e(1) by simp
    then show ?thesis using e(2) None by auto
  next
    case (Some r)
    then show ?thesis using e(1) by (simp split: prod.splits)
  qed
qed

lemma alarm_query:
  assumes "alarm_db S path" "stmt_of sql = Some st" "stmt_shape st = (length dps, k)" "0 < k"
    "alarm_do st (map bound_value dps) (dbfile c) = Some (d, rows)" "\<forall>row\<in>set rows. length row = k"
  shows "QueryTable S path sql dps empty_query c =
    (db_after d c, \<lparr>q_reader = concat rows, q_rows = int (length rows), q_cols = int k\<rparr>, MP_SUCCESS)"
proof -
  obtain prep where R: "sqlite_runs S path prep alarm_known alarm_sem" using assms(1) by (auto simp: alarm_db_def)
  have k: "alarm_known sql = Some (length dps, k)" using assms(2,3) by (simp add: alarm_known_def)
  have s: "alarm_sem sql = alarm_do st" using assms(2) by (simp add: alarm_sem_def fun_eq_iff)
  show ?thesis using QueryTable_run [OF R k assms(4), of c] assms(5,6) by (simp add: s)
qed

text \<open>A SQLite that behaves so.\<close>

definition trying_sqlite :: "(string \<rightharpoonup> nat \<times> nat) \<Rightarrow> 'd sql_try \<Rightarrow> ('d, string \<times> sql_value list) sqlite_api" where
  "trying_sqlite known sem = (simple_sqlite known (total sem))\<lparr>sq_run := (\<lambda>(sql, vs) d.
     (fst (total sem sql vs d), map (map Some) (snd (total sem sql vs d)), if sem sql vs d = None then SQLITE_CONSTRAINT else SQLITE_DONE))\<rparr>"

lemma trying_sqlite_runs: "sqlite_runs (trying_sqlite known sem) path Pair known sem"
  by (simp add: sqlite_runs_def sqlite_ok_def trying_sqlite_def never_fails_def simple_sqlite_def)

lemma trying_alarm_db: "alarm_db (trying_sqlite alarm_known alarm_sem) path"
  unfolding alarm_db_def using trying_sqlite_runs by blast

section \<open>The operations on the tables\<close>

definition int32 :: "int \<Rightarrow> bool" where
  "int32 i \<longleftrightarrow> - (2 ^ 31) \<le> i \<and> i < 2 ^ 31"

definition alarm_fits :: "alarm_info \<Rightarrow> bool" where
  "alarm_fits a \<longleftrightarrow> 0 \<le> ai_iAlarmSN a \<and> int32 (ai_iAlarmSN a) \<and> int32 (ai_iAlarmID a) \<and> int32 (ai_iAlarmType a) \<and> int32 (ai_iAlarmLevel a)
     \<and> ai_iAlarmCategoryType a = -1"

definition trap_fits :: "trap_server \<Rightarrow> bool" where
  "trap_fits t \<longleftrightarrow> int32 (ts_iPort t) \<and> int32 (ts_iVersion t)"

lemma atoi_int32 [simp]: "int32 i \<Longrightarrow> atoi (IntToString i) = i"
  unfolding int32_def by (intro atoi_IntToString) auto

lemma bound_int32 [simp]: "int32 i \<Longrightarrow> bound_value (DbParam_int32 i) = SInt i"
  by (simp add: bound_value_def DbParam_int32_def)

lemma IntToString_nonempty [simp]: "IntToString i \<noteq> []"
  by (subst IntToString_def, subst (1 2) show_nat.simps) simp

lemma c_str_c_str [simp]: "c_str (c_str s) = c_str s"
  by (simp add: c_str_def takeWhile_idem)

lemma find_filter: "List.find Q xs = (case filter Q xs of [] \<Rightarrow> None | x # _ \<Rightarrow> Some x)"
  by (induction xs) auto

lemma db_after_after [simp]: "db_after d (db_after e c) = db_after d c" "dbfile (db_after d c) = d"
  by (simp_all add: db_after_def)

lemma read_fields_or_all: "length ds = length fs \<Longrightarrow> read_fields_or ds (fs @ r) = (r, fs)"
  by (induction ds fs arbitrary: r rule: list_induct2) (auto simp: reader_get_def)

definition matching :: "string \<Rightarrow> int \<Rightarrow> alarm_info \<Rightarrow> bool" where
  "matching pa i a \<longleftrightarrow> ai_strAlarmParam a = c_str pa \<and> ai_iAlarmID a = i"

lemma GetAlarmInfoByParam_tables:
  assumes D: "alarm_db S path" and "int32 i" "\<forall>b\<in>set (at_alarms (dbfile c)). alarm_fits b"
  shows "GetAlarmInfoByParam S path i pa a c =
    (db_after (dbfile c) c,
     case List.find (matching pa i) (at_alarms (dbfile c)) of
       None \<Rightarrow> a\<lparr>ai_iAlarmSN := -1\<rparr> | Some b \<Rightarrow> b\<lparr>ai_iAlarmCategoryType := ai_iAlarmCategoryType a\<rparr>, MP_SUCCESS)"
proof -
  let ?bs = "filter (matching pa i) (at_alarms (dbfile c))"
  have m: "(\<lambda>a. ai_strAlarmParam a = c_str pa \<and> ai_iAlarmID a = i) = matching pa i" by (simp add: matching_def fun_eq_iff)
  have "QueryTable S path sql_alarm_param [DbParam_string pa, DbParam_int32 i] empty_query c =
    (db_after (dbfile c) c, \<lparr>q_reader = concat (map alarm_text ?bs), q_rows = int (length (map alarm_text ?bs)), q_cols = int 7\<rparr>, MP_SUCCESS)"
    by (rule alarm_query [OF D stmt_of_simps(3)]) (use assms(2) in \<open>auto simp: m alarm_text_def\<close>)
  then have q: "GetAlarmInfoByParam S path i pa a c =
    (case reader_get (concat (map alarm_text ?bs)) [] of
       (r, strAlarmSN) \<Rightarrow>
         if strAlarmSN \<noteq> []
         then (case read_fields_or [[], [], [], ai_strStartTime a, ai_strEndTime a, ai_strAlarmParam a] r of
                 (r, f) \<Rightarrow> (db_after (dbfile c) c, alarm_of_fields (strAlarmSN # f) a, MP_SUCCESS))
         else (db_after (dbfile c) c, a\<lparr>ai_iAlarmSN := -1\<rparr>, MP_SUCCESS))"
    by (simp add: GetAlarmInfoByParam_def)
  show ?thesis
  proof (cases ?bs)
    case Nil
    then show ?thesis unfolding q by (simp add: find_filter reader_get_def)
  next
    case (Cons b bs)
    then have "b \<in> set ?bs" by simp
    then have b: "alarm_fits b" using assms(3) by simp
    let ?f = "[IntToString (ai_iAlarmID b), IntToString (ai_iAlarmType b), IntToString (ai_iAlarmLevel b), ai_strStartTime b, ai_strEndTime b, ai_strAlarmParam b]"
    have r: "concat (map alarm_text ?bs) = IntToString (ai_iAlarmSN b) # ?f @ concat (map alarm_text bs)"
      by (simp add: Cons alarm_text_def)
    have "alarm_of_fields (IntToString (ai_iAlarmSN b) # ?f) a = b\<lparr>ai_iAlarmCategoryType := ai_iAlarmCategoryType a\<rparr>"
      using b by (simp add: alarm_of_fields_def alarm_fits_def numeral_eq_Suc)
    then show ?thesis unfolding q r using read_fields_or_all [of "[[], [], [], ai_strStartTime a, ai_strEndTime a, ai_strAlarmParam a]" ?f]
      by (simp add: find_filter Cons reader_get_def)
  qed
qed

lemma GetSN_tables:
  assumes "alarm_db S path" "at_sn (dbfile c) = [n]" "int32 n"
  shows "GetSN S path d c = (db_after (dbfile c) c, n, MP_SUCCESS)"
proof -
  have "QueryTable S path sql_sn_get [] empty_query c =
    (db_after (dbfile c) c, \<lparr>q_reader = concat [[IntToString n]], q_rows = int (length [[IntToString n]]), q_cols = int 1\<rparr>, MP_SUCCESS)"
    by (rule alarm_query [OF assms(1) stmt_of_simps(4)]) (use assms(2) in auto)
  then show ?thesis using assms(3) by (simp add: GetSN_def reader_get_def)
qed

lemma SetSN_tables:
  assumes "alarm_db S path" "at_sn (dbfile c) = [n]" "int32 m"
  shows "SetSN S path m c = (db_after ((dbfile c)\<lparr>at_sn := [m]\<rparr>) c, MP_SUCCESS)"
proof -
  have q: "QueryTable S path sql_sn_get [] empty_query c =
    (db_after (dbfile c) c, \<lparr>q_reader = concat [[IntToString n]], q_rows = int (length [[IntToString n]]), q_cols = int 1\<rparr>, MP_SUCCESS)"
    by (rule alarm_query [OF assms(1) stmt_of_simps(4)]) (use assms(2) in auto)
  have "ExecSql S path sql_sn_update [DbParam_int32 m] (db_after (dbfile c) c) = (db_after ((dbfile c)\<lparr>at_sn := [m]\<rparr>) c, MP_SUCCESS)"
    using alarm_exec [OF assms(1) stmt_of_simps(6), of "[DbParam_int32 m]" "db_after (dbfile c) c"] assms(2,3) by simp
  then show ?thesis by (simp add: SetSN_def q)
qed

text \<open>The table of the servers after the column of the agent was added, if it was missing.\<close>

definition with_col :: "alarm_tables \<Rightarrow> alarm_tables" where
  "with_col T = (if at_col T then T else T\<lparr>at_col := True, at_traps := map (\<lambda>t. t\<lparr>ts_strListenIP := ''Unknown''\<rparr>) (at_traps T)\<rparr>)"

lemma with_col_simps [simp]: "at_alarms (with_col T) = at_alarms T" "at_sn (with_col T) = at_sn T"
  by (simp_all add: with_col_def)

lemma CheckTrapInfoTable_tables:
  assumes "alarm_db S path"
  shows "CheckTrapInfoTable S path c = (db_after (with_col (dbfile c)) c, MP_SUCCESS)"
proof -
  let ?rows = "if at_col (dbfile c) then [[''table'', ''TrapInfoTable'', ''TrapInfoTable'', ''4'', ''AgentIP'']] else []"
  have q: "QueryTable S path CHECKT_TRAP_COL_EXISTS [] empty_query c =
    (db_after (dbfile c) c, \<lparr>q_reader = concat ?rows, q_rows = int (length ?rows), q_cols = int 5\<rparr>, MP_SUCCESS)"
    by (rule alarm_query [OF assms stmt_of_simps(11)]) auto
  show ?thesis
    using alarm_exec [OF assms stmt_of_simps(12), of "[]" "db_after (dbfile c) c"] by (auto simp: CheckTrapInfoTable_def q with_col_def)
qed

lemma trap_rows_all:
  "\<forall>t\<in>set ts. trap_fits t \<Longrightarrow> trap_rows (length ts) (concat (map trap_text ts)) = ts"
proof (induction ts)
  case (Cons t ts)
  have "read_fields 4 (trap_text t @ concat (map trap_text ts)) = (concat (map trap_text ts), trap_text t)"
    by (rule read_fields_row) (simp add: trap_text_def)
  then show ?case using Cons by (simp add: trap_fits_def) (simp add: trap_text_def numeral_eq_Suc)
qed simp

lemma GetAllTrapInfo_tables:
  assumes "alarm_db S path" "\<forall>t\<in>set (at_traps (dbfile c)). trap_fits t"
  shows "GetAllTrapInfo S path ts c = (db_after (with_col (dbfile c)) c, ts @ at_traps (with_col (dbfile c)), MP_SUCCESS)"
proof -
  let ?T = "with_col (dbfile c)"
  have q: "QueryTable S path sql_trap_all [] empty_query (db_after ?T c) =
    (db_after ?T (db_after ?T c), \<lparr>q_reader = concat (map trap_text (at_traps ?T)), q_rows = int (length (map trap_text (at_traps ?T))), q_cols = int 4\<rparr>, MP_SUCCESS)"
    by (rule alarm_query [OF assms(1) stmt_of_simps(9)]) (auto simp: trap_text_def)
  have "\<forall>t\<in>set (at_traps ?T). trap_fits t" using assms(2) by (auto simp: with_col_def trap_fits_def)
  then show ?thesis by (simp add: GetAllTrapInfo_def CheckTrapInfoTable_tables [OF assms(1)] q trap_rows_all)
qed

end
