(* ===== verification/AlarmSpec.thy ===== *)
theory AlarmSpec
  imports AlarmProps
begin

text \<open>
  The specification of the alarms: raising and resuming on the tables, what the servers are told, and the
  invariant that every alarm is in the table once.
\<close>

section \<open>Raising and resuming\<close>

definition tables_ok :: "alarm_tables \<Rightarrow> bool" where
  "tables_ok T \<longleftrightarrow> list_all alarm_fits (at_alarms T) \<and> (case at_sn T of [n] \<Rightarrow> 0 \<le> n \<and> int32 n | _ \<Rightarrow> False) \<and> list_all trap_fits (at_traps T)"

definition next_sn :: "int \<Rightarrow> int" where
  "next_sn n = (if n = MAX_ALARM_ID then 0 else n + 1)"

text \<open>A new alarm as its row; its level is never set.\<close>

definition raised :: "string \<Rightarrow> alarm_param \<Rightarrow> int \<Rightarrow> alarm_info" where
  "raised now p sn = \<lparr>ai_iAlarmSN = sn, ai_iAlarmID = ap_iAlarmID p, ai_iAlarmType = ALARM_TYPE_EQUPMENTFAULT, ai_iAlarmLevel = -1,
     ai_iAlarmCategoryType = -1, ai_strStartTime = c_str now, ai_strEndTime = [], ai_strAlarmParam = c_str (ap_strAlarmParam p)\<rparr>"

definition taken :: "alarm_tables \<Rightarrow> int \<Rightarrow> int \<Rightarrow> bool" where
  "taken T sn i \<longleftrightarrow> list_ex (\<lambda>a. ai_iAlarmSN a = sn \<and> ai_iAlarmID a = i) (at_alarms T)"

definition known_alarm :: "alarm_param \<Rightarrow> alarm_tables \<Rightarrow> alarm_info option" where
  "known_alarm p T = List.find (matching (ap_strAlarmParam p) (ap_iAlarmID p)) (at_alarms T)"

abbreviation tables :: "(alarm_tables, 'n) trap_world \<Rightarrow> alarm_tables" where
  "tables w \<equiv> dbfile (tw_db w)"

text \<open>The world after a success: the tables, and the trap with the category given sent to all servers.\<close>

definition told :: "(alarm_tables, 's, 'n) trap_env \<Rightarrow> alarm_info \<Rightarrow> int \<Rightarrow> alarm_tables \<Rightarrow> (alarm_tables, 'n) trap_world \<Rightarrow> (alarm_tables, 'n) trap_world" where
  "told E a category T w = w\<lparr>tw_db := db_after (with_col T) (tw_db w),
     tw_snmp := SendTrap E (ConstructPDU E (a\<lparr>ai_iAlarmCategoryType := category\<rparr>)) (at_traps (with_col T)) (tw_snmp w)\<rparr>"

lemma next_sn_fits: "0 \<le> n \<Longrightarrow> int32 n \<Longrightarrow> 0 \<le> next_sn n \<and> int32 (next_sn n)"
  by (simp add: next_sn_def int32_def)

lemma tell_servers_tables:
  assumes "alarm_db (te_sql E) (te_dbpath E)" "list_all trap_fits (at_traps (dbfile c))" "T = dbfile c"
  shows "tell_servers E a (w\<lparr>tw_db := c\<rparr>) =
    (w\<lparr>tw_db := db_after (with_col T) c, tw_snmp := SendTrap E (ConstructPDU E a) (at_traps (with_col T)) (tw_snmp w)\<rparr>, MP_SUCCESS)"
  using GetAllTrapInfo_tables [OF assms(1), of c "[]"] assms(2,3) by (simp add: tell_servers_def list_all_iff)

lemma ConstructPDU_text:
  "ConstructPDU E (a\<lparr>ai_strAlarmParam := c_str p, ai_strStartTime := s\<rparr>) = ConstructPDU E (a\<lparr>ai_strAlarmParam := p, ai_strStartTime := t\<rparr>)"
  by (simp add: ConstructPDU_def)

lemma NewAlarmRecord_tables:
  assumes D: "alarm_db (te_sql E) (te_dbpath E)" and T: "at_sn (dbfile c) = [n]" "0 \<le> n" "int32 n" and p: "int32 (ap_iAlarmID p)"
    and a: "ai_iAlarmLevel a = -1"
  shows "if taken (dbfile c) (next_sn n) (ap_iAlarmID p)
    then \<exists>c' a'. NewAlarmRecord E p a c = (c', a', MP_FAILED) \<and> dbfile c' = dbfile c
    else NewAlarmRecord E p a c =
      (db_after ((dbfile c)\<lparr>at_alarms := at_alarms (dbfile c) @ [raised (te_now E) p (next_sn n)], at_sn := [next_sn n]\<rparr>) c,
       (raised (te_now E) p (next_sn n))\<lparr>ai_strStartTime := te_now E, ai_strAlarmParam := ap_strAlarmParam p, ai_iAlarmCategoryType := ALARM_CATEGORY_FAULT\<rparr>,
       MP_SUCCESS)"
proof -
  let ?sn = "next_sn n"
  have sn: "int32 ?sn" using next_sn_fits [OF T(2,3)] by blast
  let ?a = "a\<lparr>ai_iAlarmSN := ?sn, ai_iAlarmID := ap_iAlarmID p, ai_strAlarmParam := ap_strAlarmParam p, ai_iAlarmType := ALARM_TYPE_EQUPMENTFAULT,
     ai_strEndTime := [], ai_strStartTime := te_now E, ai_iAlarmCategoryType := ALARM_CATEGORY_FAULT\<rparr>"
  let ?dps = "[DbParam_int32 (ai_iAlarmSN ?a), DbParam_int32 (ai_iAlarmID ?a), DbParam_int32 (ai_iAlarmType ?a),
       DbParam_int32 (ai_iAlarmLevel ?a), DbParam_string (ai_strStartTime ?a), DbParam_string (ai_strEndTime ?a), DbParam_string (ai_strAlarmParam ?a)]"
  let ?c = "db_after (dbfile c) c"
  have small: "int32 2" "int32 (-1)" by (simp_all add: int32_def)
  have b: "map bound_value ?dps = [SInt ?sn, SInt (ap_iAlarmID p), SInt 2, SInt (-1), SText (te_now E), SText [], SText (ap_strAlarmParam p)]"
    using sn p a small by simp
  have N: "NewAlarmRecord E p a c =
    (case InsertAlarmInfo (te_sql E) (te_dbpath E) ?a ?c of
       (c, iRet) \<Rightarrow> if iRet \<noteq> MP_SUCCESS then (c, ?a, iRet) else case SetSN (te_sql E) (te_dbpath E) ?sn c of (c, iRet) \<Rightarrow> (c, ?a, iRet))"
    unfolding NewAlarmRecord_def GetSN_tables [OF D T(1,3)] prod.case next_sn_def [symmetric] by (simp add: Let_def split: prod.split)
  have e: "InsertAlarmInfo (te_sql E) (te_dbpath E) ?a ?c = ExecSql (te_sql E) (te_dbpath E) sql_alarm_insert ?dps ?c"
    by (simp only: InsertAlarmInfo_def)
  note ins = alarm_exec [OF D stmt_of_simps(1), of ?dps ?c, unfolded b db_after_after alarm_do.simps list.case sql_value.case]
  show ?thesis
  proof (cases "taken (dbfile c) ?sn (ap_iAlarmID p)")
    case True
    then obtain c' where "ExecSql (te_sql E) (te_dbpath E) sql_alarm_insert ?dps ?c = (c', MP_FAILED)" "dbfile c' = dbfile c"
      using ins by (auto simp: taken_def)
    then show ?thesis using True unfolding N e by simp
  next
    case False
    let ?T = "(dbfile c)\<lparr>at_alarms := at_alarms (dbfile c) @ [raised (te_now E) p ?sn]\<rparr>"
    have "ExecSql (te_sql E) (te_dbpath E) sql_alarm_insert ?dps ?c = (db_after ?T c, MP_SUCCESS)"
      using ins False by (simp add: taken_def raised_def c_str_def)
    moreover have "SetSN (te_sql E) (te_dbpath E) ?sn (db_after ?T c) = (db_after (?T\<lparr>at_sn := [?sn]\<rparr>) c, MP_SUCCESS)"
      using SetSN_tables [OF D _ sn, of "db_after ?T c" n] T(1) by simp
    moreover have "?a = (raised (te_now E) p ?sn)\<lparr>ai_strStartTime := te_now E, ai_strAlarmParam := ap_strAlarmParam p,
        ai_iAlarmCategoryType := ALARM_CATEGORY_FAULT\<rparr>"
      using a by (simp add: raised_def)
    ultimately show ?thesis using False unfolding N e by simp
  qed
qed

text \<open>Raising an alarm.\<close>

lemma SendAlarm_tables:
  assumes D: "alarm_db (te_sql E) (te_dbpath E)" and T: "tables_ok (tables w)" "at_sn (tables w) = [n]" and p: "int32 (ap_iAlarmID p)"
  shows "case known_alarm p (tables w) of
      Some a \<Rightarrow> SendAlarm E p w = (told E a (-1) (tables w) w, MP_SUCCESS)
    | None \<Rightarrow>
        if taken (tables w) (next_sn n) (ap_iAlarmID p)
        then \<exists>w'. SendAlarm E p w = (w', MP_FAILED) \<and> tables w' = tables w \<and> tw_snmp w' = tw_snmp w
        else SendAlarm E p w =
          (told E (raised (te_now E) p (next_sn n)) ALARM_CATEGORY_FAULT
             ((tables w)\<lparr>at_alarms := at_alarms (tables w) @ [raised (te_now E) p (next_sn n)], at_sn := [next_sn n]\<rparr>) w, MP_SUCCESS)"
proof -
  let ?T = "tables w"
  have n: "0 \<le> n" "int32 n" and fits: "\<forall>b\<in>set (at_alarms ?T). alarm_fits b" and ts: "list_all trap_fits (at_traps ?T)"
    using T by (auto simp: tables_ok_def list_all_iff)
  note G = GetAlarmInfoByParam_tables [OF D p fits, of "ap_strAlarmParam p" new_alarm_info, folded known_alarm_def]
  show ?thesis
  proof (cases "known_alarm p ?T")
    case (Some a)
    then have "a \<in> set (at_alarms ?T)" unfolding known_alarm_def by (blast dest: find_SomeD)
    then have a: "0 \<le> ai_iAlarmSN a" "ai_iAlarmCategoryType a = -1" using fits by (auto simp: alarm_fits_def)
    then have "SendAlarm E p w = tell_servers E (a\<lparr>ai_iAlarmCategoryType := -1\<rparr>) (w\<lparr>tw_db := db_after ?T (tw_db w)\<rparr>)"
      using G Some by (simp add: SendAlarm_def new_alarm_info_def)
    then show ?thesis using tell_servers_tables [OF D, of "db_after ?T (tw_db w)"] ts Some by (simp add: told_def)
  next
    case None
    let ?c = "db_after ?T (tw_db w)"
    have S: "SendAlarm E p w =
      (case NewAlarmRecord E p (new_alarm_info\<lparr>ai_iAlarmSN := -1\<rparr>) ?c of
         (c, a, iRet) \<Rightarrow> if iRet \<noteq> MP_SUCCESS then (w\<lparr>tw_db := c\<rparr>, iRet) else tell_servers E a (w\<lparr>tw_db := c\<rparr>))"
      using G None by (simp add: SendAlarm_def)
    have N: "at_sn (dbfile ?c) = [n]" "ai_iAlarmLevel (new_alarm_info\<lparr>ai_iAlarmSN := -1\<rparr>) = -1"
      using T(2) by (simp_all add: new_alarm_info_def)
    note R = NewAlarmRecord_tables [OF D N(1) n p N(2)]
    show ?thesis
    proof (cases "taken ?T (next_sn n) (ap_iAlarmID p)")
      case True
      then show ?thesis using R None S by auto
    next
      case False
      let ?T' = "?T\<lparr>at_alarms := at_alarms ?T @ [raised (te_now E) p (next_sn n)], at_sn := [next_sn n]\<rparr>"
      have "ConstructPDU E ((raised (te_now E) p (next_sn n))\<lparr>ai_strStartTime := te_now E, ai_strAlarmParam := ap_strAlarmParam p, ai_iAlarmCategoryType := 1\<rparr>)
          = ConstructPDU E ((raised (te_now E) p (next_sn n))\<lparr>ai_iAlarmCategoryType := 1\<rparr>)"
        by (simp add: ConstructPDU_def raised_def)
      then have "SendAlarm E p w = (told E (raised (te_now E) p (next_sn n)) ALARM_CATEGORY_FAULT ?T' w, MP_SUCCESS)"
        using R False S tell_servers_tables [OF D, of "db_after ?T' (tw_db w)"] ts by (simp add: told_def)
      then show ?thesis using None False by simp
    qed
  qed
qed

text \<open>Resuming an alarm; an alarm that is not known is told to the servers as well, with the serial number -1.\<close>

definition unknown_alarm :: "alarm_param \<Rightarrow> alarm_info" where
  "unknown_alarm p = new_alarm_info\<lparr>ai_iAlarmID := ap_iAlarmID p, ai_strAlarmParam := ap_strAlarmParam p\<rparr>"

lemma ResumeAlarm_tables:
  assumes D: "alarm_db (te_sql E) (te_dbpath E)" and T: "tables_ok (tables w)" and p: "int32 (ap_iAlarmID p)"
  shows "ResumeAlarm E p w =
    (case known_alarm p (tables w) of
       None \<Rightarrow> (told E (unknown_alarm p) ALARM_CATEGORY_RESUME (tables w) w, MP_SUCCESS)
     | Some a \<Rightarrow> (told E a ALARM_CATEGORY_RESUME
         ((tables w)\<lparr>at_alarms := filter (\<lambda>b. \<not> (ai_iAlarmSN b = ai_iAlarmSN a \<and> ai_iAlarmID b = ai_iAlarmID a)) (at_alarms (tables w))\<rparr>) w, MP_SUCCESS))"
proof -
  let ?T = "tables w"
  have fits: "\<forall>b\<in>set (at_alarms ?T). alarm_fits b" and ts: "list_all trap_fits (at_traps ?T)"
    using T by (auto simp: tables_ok_def list_all_iff)
  note G = GetAlarmInfoByParam_tables [OF D p fits, of "ap_strAlarmParam p" "unknown_alarm p", folded known_alarm_def]
  let ?c = "db_after ?T (tw_db w)"
  show ?thesis
  proof (cases "known_alarm p ?T")
    case None
    then have "ResumeAlarm E p w = tell_servers E ((unknown_alarm p)\<lparr>ai_iAlarmCategoryType := 2\<rparr>) (w\<lparr>tw_db := ?c\<rparr>)"
      using G by (simp add: ResumeAlarm_def unknown_alarm_def new_alarm_info_def)
    then show ?thesis using tell_servers_tables [OF D, of ?c] ts None by (simp add: told_def)
  next
    case (Some a)
    then have "a \<in> set (at_alarms ?T)" unfolding known_alarm_def by (blast dest: find_SomeD)
    then have a: "0 \<le> ai_iAlarmSN a" "int32 (ai_iAlarmSN a)" "int32 (ai_iAlarmID a)" using fits by (auto simp: alarm_fits_def)
    let ?T' = "?T\<lparr>at_alarms := filter (\<lambda>b. \<not> (ai_iAlarmSN b = ai_iAlarmSN a \<and> ai_iAlarmID b = ai_iAlarmID a)) (at_alarms ?T)\<rparr>"
    have "DeleteAlarmInfo (te_sql E) (te_dbpath E) (ai_iAlarmSN a) (ai_iAlarmID a) ?c = (db_after ?T' (tw_db w), MP_SUCCESS)"
      using alarm_exec [OF D stmt_of_simps(2), of "[DbParam_int32 (ai_iAlarmSN a), DbParam_int32 (ai_iAlarmID a)]" ?c] a
      by (simp add: DeleteAlarmInfo_def)
    then have "ResumeAlarm E p w = tell_servers E (a\<lparr>ai_iAlarmCategoryType := 2\<rparr>) (w\<lparr>tw_db := db_after ?T' (tw_db w)\<rparr>)"
      using G Some a(1) by (simp add: ResumeAlarm_def unknown_alarm_def)
    then show ?thesis using tell_servers_tables [OF D, of "db_after ?T' (tw_db w)"] ts Some by (simp add: told_def)
  qed
qed

section \<open>The alarms are a set\<close>

datatype alarm_op = Raise alarm_param | Resume alarm_param

fun alarm_step :: "('d, 's, 'n) trap_env \<Rightarrow> alarm_op \<Rightarrow> ('d, 'n) trap_world \<Rightarrow> ('d, 'n) trap_world \<times> int" where
  "alarm_step E (Raise p) w = SendAlarm E p w"
| "alarm_step E (Resume p) w = ResumeAlarm E p w"

fun alarm_run :: "('d, 's, 'n) trap_env \<Rightarrow> alarm_op list \<Rightarrow> ('d, 'n) trap_world \<Rightarrow> ('d, 'n) trap_world \<times> int list" where
  "alarm_run E [] w = (w, [])"
| "alarm_run E (x # xs) w = (case alarm_step E x w of (w, r) \<Rightarrow> case alarm_run E xs w of (w, rs) \<Rightarrow> (w, r # rs))"

fun op_param :: "alarm_op \<Rightarrow> alarm_param" where
  "op_param (Raise p) = p" | "op_param (Resume p) = p"

definition param_key :: "alarm_param \<Rightarrow> string \<times> int" where
  "param_key p = (c_str (ap_strAlarmParam p), ap_iAlarmID p)"

definition alarm_keys :: "alarm_tables \<Rightarrow> (string \<times> int) list" where
  "alarm_keys T = map (\<lambda>a. (ai_strAlarmParam a, ai_iAlarmID a)) (at_alarms T)"

text \<open>The specification: a set; an operation that fails leaves it as it was.\<close>

fun alarm_spec :: "(alarm_op \<times> int) list \<Rightarrow> (string \<times> int) set \<Rightarrow> (string \<times> int) set" where
  "alarm_spec [] A = A"
| "alarm_spec ((Raise p, r) # xs) A = alarm_spec xs (if r = MP_SUCCESS then insert (param_key p) A else A)"
| "alarm_spec ((Resume p, r) # xs) A = alarm_spec xs (if r = MP_SUCCESS then A - {param_key p} else A)"

definition tables_inv :: "alarm_tables \<Rightarrow> bool" where
  "tables_inv T \<longleftrightarrow> tables_ok T \<and> distinct (alarm_keys T) \<and> distinct (map (\<lambda>a. (ai_iAlarmSN a, ai_iAlarmID a)) (at_alarms T))"

lemma matching_key: "matching (ap_strAlarmParam p) (ap_iAlarmID p) a \<longleftrightarrow> (ai_strAlarmParam a, ai_iAlarmID a) = param_key p"
  by (auto simp: matching_def param_key_def)

lemma known_alarm_key: "known_alarm p T = None \<longleftrightarrow> param_key p \<notin> set (alarm_keys T)"
  by (auto simp: known_alarm_def find_eq_None matching_key alarm_keys_def image_iff)

lemma known_alarm_Some: "known_alarm p T = Some a \<Longrightarrow> a \<in> set (at_alarms T) \<and> (ai_strAlarmParam a, ai_iAlarmID a) = param_key p"
  unfolding known_alarm_def by (drule find_SomeD) (simp add: matching_key)

lemma tables_told [simp]: "tables (told E a k T w) = with_col T"
  by (simp add: told_def)

lemma tables_inv_col: "tables_inv T \<Longrightarrow> tables_inv (with_col T)"
  by (auto simp: tables_inv_def tables_ok_def alarm_keys_def with_col_def trap_fits_def list_all_iff)

lemma alarm_keys_col [simp]: "alarm_keys (with_col T) = alarm_keys T"
  by (simp add: alarm_keys_def)

lemma small_ints [simp]: "int32 2" "int32 (-1)" "int32 0"
  by (simp_all add: int32_def)

lemma SendAlarm_inv:
  assumes D: "alarm_db (te_sql E) (te_dbpath E)" and T: "tables_inv (tables w)" and p: "int32 (ap_iAlarmID p)"
    and S: "SendAlarm E p w = (w', r)"
  shows "tables_inv (tables w') \<and> set (alarm_keys (tables w')) = (if r = MP_SUCCESS then insert (param_key p) (set (alarm_keys (tables w))) else set (alarm_keys (tables w)))"
proof -
  from T obtain n where n: "at_sn (tables w) = [n]" "0 \<le> n" "int32 n" and ok: "tables_ok (tables w)"
    by (auto simp: tables_inv_def tables_ok_def split: list.splits)
  note R = SendAlarm_tables [OF D ok n(1) p]
  show ?thesis
  proof (cases "known_alarm p (tables w)")
    case (Some a)
    then have "param_key p \<in> set (alarm_keys (tables w))" using known_alarm_key [of p "tables w"] by auto
    then show ?thesis using R Some S tables_inv_col [OF T] by auto
  next
    case None
    show ?thesis
    proof (cases "taken (tables w) (next_sn n) (ap_iAlarmID p)")
      case True
      then show ?thesis using R None S T by auto
    next
      case False
      let ?T = "(tables w)\<lparr>at_alarms := at_alarms (tables w) @ [raised (te_now E) p (next_sn n)], at_sn := [next_sn n]\<rparr>"
      have w': "w' = told E (raised (te_now E) p (next_sn n)) ALARM_CATEGORY_FAULT ?T w" "r = MP_SUCCESS" using R None False S by auto
      have "tables_inv ?T"
        using T n None False p next_sn_fits [OF n(2,3)] unfolding known_alarm_key
        by (auto simp: tables_inv_def tables_ok_def alarm_keys_def taken_def raised_def alarm_fits_def param_key_def list_ex_iff)
      then have "tables_inv (with_col ?T)" by (rule tables_inv_col)
      then show ?thesis by (simp add: w') (simp add: alarm_keys_def raised_def param_key_def)
    qed
  qed
qed

lemma ResumeAlarm_inv:
  assumes D: "alarm_db (te_sql E) (te_dbpath E)" and T: "tables_inv (tables w)" and p: "int32 (ap_iAlarmID p)"
    and S: "ResumeAlarm E p w = (w', r)"
  shows "tables_inv (tables w') \<and> r = MP_SUCCESS \<and> set (alarm_keys (tables w')) = set (alarm_keys (tables w)) - {param_key p}"
proof -
  have ok: "tables_ok (tables w)" using T by (simp add: tables_inv_def)
  note R = ResumeAlarm_tables [OF D ok p]
  show ?thesis
  proof (cases "known_alarm p (tables w)")
    case None
    then have "param_key p \<notin> set (alarm_keys (tables w))" using known_alarm_key [of p "tables w"] by auto
    then show ?thesis using R None S tables_inv_col [OF T] by auto
  next
    case (Some a)
    let ?xs = "at_alarms (tables w)"
    let ?Q = "\<lambda>b. \<not> (ai_iAlarmSN b = ai_iAlarmSN a \<and> ai_iAlarmID b = ai_iAlarmID a)"
    let ?T = "(tables w)\<lparr>at_alarms := filter ?Q ?xs\<rparr>"
    have a: "a \<in> set ?xs" "(ai_strAlarmParam a, ai_iAlarmID a) = param_key p" using known_alarm_Some [OF Some] by auto
    have inj: "inj_on (\<lambda>a. (ai_iAlarmSN a, ai_iAlarmID a)) (set ?xs)" "inj_on (\<lambda>a. (ai_strAlarmParam a, ai_iAlarmID a)) (set ?xs)"
      using T by (auto simp: tables_inv_def alarm_keys_def distinct_map)
    have q: "?Q b \<longleftrightarrow> b \<noteq> a" if "b \<in> set ?xs" for b using inj_onD [OF inj(1) _ that a(1)] by auto
    then have f: "filter ?Q ?xs = filter (\<lambda>b. b \<noteq> a) ?xs" by (rule filter_cong [OF refl])
    have k: "set (alarm_keys ?T) = set (alarm_keys (tables w)) - {param_key p}"
    proof -
      let ?g = "\<lambda>a. (ai_strAlarmParam a, ai_iAlarmID a)"
      have "set (alarm_keys ?T) = ?g ` (set ?xs - {a})" by (simp only: alarm_keys_def alarm_tables.simps f) (simp add: set_diff_eq)
      also have "\<dots> = ?g ` set ?xs - ?g ` {a}" using inj_on_image_set_diff [OF inj(2), of "set ?xs" "{a}"] a(1) by simp
      finally show ?thesis using a(2) by (simp add: alarm_keys_def)
    qed
    have "tables_inv ?T" using T
      by (auto simp: tables_inv_def tables_ok_def alarm_keys_def list_all_iff distinct_map_filter)
    then show ?thesis using R Some S tables_inv_col [of ?T] k by auto
  qed
qed

text \<open>
  C27. The alarms refine a set: over any sequence of alarms that are raised and resumed, the alarms in the
  table are those of a set to which a raise that succeeds adds its identity and from which a resume removes
  it; no alarm is there twice, and the tables stay in order.
\<close>
theorem alarms_refine_set:
  assumes "alarm_db (te_sql E) (te_dbpath E)" "tables_inv (tables w)" "list_all (\<lambda>x. int32 (ap_iAlarmID (op_param x))) xs"
  shows "case alarm_run E xs w of
    (w', rs) \<Rightarrow> tables_inv (tables w') \<and> set (alarm_keys (tables w')) = alarm_spec (zip xs rs) (set (alarm_keys (tables w)))"
  using assms(2,3)
proof (induction xs arbitrary: w)
  case (Cons x xs)
  obtain w1 r where x: "alarm_step E x w = (w1, r)" by force
  obtain w2 rs where xs: "alarm_run E xs w1 = (w2, rs)" by force
  show ?case
  proof (cases x)
    case (Raise p)
    then have S: "SendAlarm E p w = (w1, r)" using x by simp
    have p: "int32 (ap_iAlarmID p)" using Cons.prems(2) Raise by simp
    note I = SendAlarm_inv [OF assms(1) Cons.prems(1) p S]
    from Cons.IH [of w1] I Cons.prems(2) xs show ?thesis by (simp add: x Raise S)
  next
    case (Resume p)
    then have S: "ResumeAlarm E p w = (w1, r)" using x by simp
    have p: "int32 (ap_iAlarmID p)" using Cons.prems(2) Resume by simp
    note I = ResumeAlarm_inv [OF assms(1) Cons.prems(1) p S]
    from Cons.IH [of w1] I Cons.prems(2) xs show ?thesis by (simp add: x Resume S)
  qed
qed simp

definition demo_snmp :: "nat snmp_api" where
  "demo_snmp = \<lparr>sn_startup = id, sn_cleanup = id, sn_v3mp = (\<lambda>e b n. (n, Some 0)), sn_v3mp_delete = id, sn_add_usm_user = (\<lambda>_ _ _ _ _. id),
     sn_ipv4 = (\<lambda>_. True), sn_open = (\<lambda>_ n. (n, Some 0)), sn_delete = id, sn_trap = (\<lambda>_ _. Suc)\<rparr>"

definition demo_trap_env :: "file_env \<Rightarrow> file_world \<Rightarrow> (alarm_tables, string \<times> sql_value list, nat) trap_env" where
  "demo_trap_env F W = \<lparr>te_sql = trying_sqlite alarm_known alarm_sem, te_dbpath = ''agent.db'', te_snmp = demo_snmp, te_doc = [], te_decrypt = id,
     te_files = F, te_disk = W, te_root = ''/opt'', te_now = ''2018-01-01 00:00:00''\<rparr>"

definition demo_file_env :: file_env where
  "demo_file_env = \<lparr>fe_fopen_r = (\<lambda>_. True), fe_buffer = (\<lambda>_. True), fe_fclose = (\<lambda>_. True), fe_stat = (\<lambda>_. True), fe_remove = (\<lambda>_. True),
     fe_fopen_a = (\<lambda>_. True), fe_fflush = (\<lambda>_. None), fe_chmod = (\<lambda>_. True), fe_chown = (\<lambda>_. True), fe_self = (0, 0), fe_umask = 0, fe_passwd = []\<rparr>"

definition demo_file_world :: file_world where
  "demo_file_world = \<lparr>fw_text = Map.empty, fw_owner = Map.empty, fw_mode = Map.empty\<rparr>"

definition demo_trap_world :: "(alarm_tables, nat) trap_world" where
  "demo_trap_world = \<lparr>tw_db = \<lparr>m_pDB = None, m_stringList = [], dbfile = \<lparr>at_alarms = [], at_sn = [0],
     at_traps = [\<lparr>ts_iPort = 162, ts_iVersion = 3, ts_strServerIP = ''10.0.0.1'', ts_strListenIP = ''10.0.0.2''\<rparr>], at_col = True, at_status = []\<rparr>\<rparr>,
     tw_snmp = 0\<rparr>"

definition demo_alarm :: alarm_param where
  "demo_alarm = \<lparr>ap_iAlarmID = 0x3230019, ap_strAlarmParam = ''orcl''\<rparr>"

lemma demo_alarm_db: "alarm_db (te_sql (demo_trap_env F W)) (te_dbpath (demo_trap_env F W))"
  by (simp add: demo_trap_env_def trying_alarm_db)

lemma demo_tables_inv: "tables_inv (tables demo_trap_world)" "int32 (ap_iAlarmID demo_alarm)" "at_sn (tables demo_trap_world) = [0]"
  by (simp_all add: demo_trap_world_def tables_inv_def tables_ok_def alarm_keys_def int32_def trap_fits_def demo_alarm_def)

lemma demo_alarm_keys: "alarm_keys (tables demo_trap_world) = []"
  by (simp add: alarm_keys_def demo_trap_world_def)

theorem alarms_refine_set_witness:
  "case alarm_run (demo_trap_env demo_file_env demo_file_world) [Raise demo_alarm, Resume demo_alarm, Raise demo_alarm, Raise demo_alarm] demo_trap_world of
     (w, rs) \<Rightarrow> tables_inv (tables w)
       \<and> set (alarm_keys (tables w)) = alarm_spec (zip [Raise demo_alarm, Resume demo_alarm, Raise demo_alarm, Raise demo_alarm] rs) {}"
  using alarms_refine_set [of "demo_trap_env demo_file_env demo_file_world" demo_trap_world
      "[Raise demo_alarm, Resume demo_alarm, Raise demo_alarm, Raise demo_alarm]", OF demo_alarm_db demo_tables_inv(1)] demo_tables_inv(2)
  by (simp add: demo_alarm_keys)

text \<open>
  C28. The life of an alarm: a new alarm takes the next serial number and is sent to all servers with the
  category of a fault; while it is there the same alarm is sent again with the category -1; and when it is
  resumed it is sent with the category of a recovery and its serial number.
\<close>
theorem alarm_life:
  assumes "alarm_db (te_sql E) (te_dbpath E)" "tables_inv (tables w)" "at_sn (tables w) = [n]" "int32 (ap_iAlarmID p)"
    "known_alarm p (tables w) = None" "SendAlarm E p w = (w1, MP_SUCCESS)"
  defines "a \<equiv> raised (te_now E) p (next_sn n)"
  shows "w1 = told E a ALARM_CATEGORY_FAULT ((tables w)\<lparr>at_alarms := at_alarms (tables w) @ [a], at_sn := [next_sn n]\<rparr>) w
    \<and> SendAlarm E p w1 = (told E a (-1) (tables w1) w1, MP_SUCCESS)
    \<and> ResumeAlarm E p w1 = (told E a ALARM_CATEGORY_RESUME ((tables w1)\<lparr>at_alarms := at_alarms (tables w)\<rparr>) w1, MP_SUCCESS)"
proof -
  have ok: "tables_ok (tables w)" using assms(2) by (simp add: tables_inv_def)
  let ?T = "(tables w)\<lparr>at_alarms := at_alarms (tables w) @ [a], at_sn := [next_sn n]\<rparr>"
  have nt: "\<not> taken (tables w) (next_sn n) (ap_iAlarmID p)"
    using SendAlarm_tables [OF assms(1) ok assms(3,4)] assms(5,6) by auto
  then have w1: "w1 = told E a ALARM_CATEGORY_FAULT ?T w"
    using SendAlarm_tables [OF assms(1) ok assms(3,4)] assms(5,6) by (simp add: a_def)
  have inv: "tables_inv (tables w1)" using SendAlarm_inv [OF assms(1,2,4,6)] by blast
  then have ok1: "tables_ok (tables w1)" by (simp add: tables_inv_def)
  have "matching (ap_strAlarmParam p) (ap_iAlarmID p) a" by (simp add: matching_def a_def raised_def)
  moreover have "List.find (matching (ap_strAlarmParam p) (ap_iAlarmID p)) (at_alarms (tables w)) = None"
    using assms(5) by (simp add: known_alarm_def)
  ultimately have k: "known_alarm p (tables w1) = Some a" by (simp add: w1 known_alarm_def find_append)
  have al: "at_alarms (tables w1) = at_alarms (tables w) @ [a]" "at_sn (tables w1) = [next_sn n]" by (simp_all add: w1)
  have f: "filter (\<lambda>b. \<not> (ai_iAlarmSN b = ai_iAlarmSN a \<and> ai_iAlarmID b = ai_iAlarmID a)) (at_alarms (tables w1)) = at_alarms (tables w)"
    using nt by (auto simp: al a_def raised_def taken_def list_ex_iff intro!: filter_True)
  have "SendAlarm E p w1 = (told E a (-1) (tables w1) w1, MP_SUCCESS)"
    using SendAlarm_tables [OF assms(1) ok1 al(2) assms(4)] by (simp only: k option.case)
  moreover have "ResumeAlarm E p w1 = (told E a ALARM_CATEGORY_RESUME ((tables w1)\<lparr>at_alarms := at_alarms (tables w)\<rparr>) w1, MP_SUCCESS)"
    using ResumeAlarm_tables [OF assms(1) ok1 assms(4)] by (simp only: k f option.case)
  ultimately show ?thesis using w1 by blast
qed

theorem alarm_life_witness:
  "case SendAlarm (demo_trap_env demo_file_env demo_file_world) demo_alarm demo_trap_world of
     (w, iRet) \<Rightarrow> iRet = MP_SUCCESS
       \<and> SendAlarm (demo_trap_env demo_file_env demo_file_world) demo_alarm w
         = (told (demo_trap_env demo_file_env demo_file_world) (raised ''2018-01-01 00:00:00'' demo_alarm 1) (-1) (tables w) w, MP_SUCCESS)"
proof -
  let ?E = "demo_trap_env demo_file_env demo_file_world"
  note ok = demo_tables_inv(1) [unfolded tables_inv_def, THEN conjunct1]
  have k: "known_alarm demo_alarm (tables demo_trap_world) = None" "\<not> taken (tables demo_trap_world) (next_sn 0) (ap_iAlarmID demo_alarm)"
    by (simp_all add: known_alarm_def taken_def demo_trap_world_def)
  obtain w where w: "SendAlarm ?E demo_alarm demo_trap_world = (w, MP_SUCCESS)"
    using SendAlarm_tables [OF demo_alarm_db ok demo_tables_inv(3,2)] k by simp
  have n: "next_sn 0 = 1" by (simp add: next_sn_def)
  have t: "te_now ?E = ''2018-01-01 00:00:00''" by (simp add: demo_trap_env_def)
  show ?thesis
    using alarm_life [OF demo_alarm_db demo_tables_inv(1,3,2) k(1) w, THEN conjunct2, THEN conjunct1]
    unfolding w t n by simp
qed

end
