(* ===== verification/ConfigFile.thy ===== *)
theory ConfigFile
  imports ConfigXml Db
begin

text \<open>
  The parser of the configuration file as a whole (\<^verbatim>\<open>CConfigXmlParser\<close>,
  \<^verbatim>\<open>src/src/common/ConfigXmlParse.cpp\<close>): the document it holds, the reload when the file has changed, and
  the values that are set and saved. TinyXML and the file system are parameters: whether the file exists,
  its time of change, the document that is loaded from it and the effect of saving one.
\<close>

section \<open>Documents\<close>

text \<open>An element: its name, its attributes in order, its child elements.\<close>

datatype cfg_elem = Elem (xname: string) (xattrs: "(string \<times> string) list") (xkids: "cfg_elem list")

definition item_of :: "cfg_elem \<Rightarrow> xml_item" where
  "item_of e = (xname e, case xattrs e of [] \<Rightarrow> None | (_, v) # _ \<Rightarrow> Some v)"

definition section_of :: "cfg_elem \<Rightarrow> xml_section" where
  "section_of e = (xname e, map item_of (xkids e))"

text \<open>\<^verbatim>\<open>GetChildElement\<close> as an element; its name and items are those of \<^const>\<open>GetChildElement\<close>.\<close>

fun child_element :: "cfg_elem list \<Rightarrow> string \<Rightarrow> cfg_elem option" where
  "child_element [] strSection = None"
| "child_element (e # es) strSection =
     (if xname e = [] then child_element es strSection
      else if xname e = c_str strSection then Some e
      else child_element es strSection)"

text \<open>The first item with the key gets the value as its first attribute; without an attribute nothing changes.\<close>

fun set_item :: "string \<Rightarrow> string \<Rightarrow> cfg_elem list \<Rightarrow> cfg_elem list option" where
  "set_item strKey strValue [] = None"
| "set_item strKey strValue (Elem n as ks # es) =
     (if n = [] \<or> n \<noteq> c_str strKey then map_option ((#) (Elem n as ks)) (set_item strKey strValue es)
      else case as of [] \<Rightarrow> None | (a, _) # as' \<Rightarrow> Some (Elem n ((a, c_str strValue) # as') ks # es))"

fun in_child :: "string \<Rightarrow> (cfg_elem list \<Rightarrow> cfg_elem list option) \<Rightarrow> cfg_elem list \<Rightarrow> cfg_elem list option" where
  "in_child strSection f [] = None"
| "in_child strSection f (Elem n as ks # es) =
     (if n = [] \<or> n \<noteq> c_str strSection then map_option ((#) (Elem n as ks)) (in_child strSection f es)
      else map_option (\<lambda>ks. Elem n as ks # es) (f ks))"

section \<open>The parser\<close>

record 'w config_env =
  ce_exists :: "'w \<Rightarrow> string \<Rightarrow> bool"
  ce_mtime :: "'w \<Rightarrow> string \<Rightarrow> int option"
  ce_new :: "'w \<Rightarrow> bool"
  ce_load :: "'w \<Rightarrow> string \<Rightarrow> cfg_elem option \<times> bool" \<comment> \<open>the root and the result of \<^verbatim>\<open>LoadFile\<close>\<close>
  ce_save :: "string \<Rightarrow> cfg_elem option \<Rightarrow> 'w \<Rightarrow> 'w"

text \<open>\<^verbatim>\<open>m_pDoc\<close>: a null pointer, or a document with its root.\<close>

record config_parser =
  m_strCfgFilePath :: string
  m_lastTime :: int
  m_pDoc :: "cfg_elem option option"

text \<open>When the time of the file cannot be read the result is \<^verbatim>\<open>MP_FALSE\<close>, which is \<^verbatim>\<open>MP_SUCCESS\<close>.\<close>

definition cfg_stamp :: "'w config_env \<Rightarrow> 'w \<Rightarrow> config_parser \<Rightarrow> config_parser \<times> int" where
  "cfg_stamp E w c =
     (case ce_mtime E w (m_strCfgFilePath c) of None \<Rightarrow> (c, MP_SUCCESS) | Some t \<Rightarrow> (c\<lparr>m_lastTime := t\<rparr>, MP_SUCCESS))"

definition Config_Load :: "'w config_env \<Rightarrow> 'w \<Rightarrow> config_parser \<Rightarrow> config_parser \<times> int" where
  "Config_Load E w c =
     (if \<not> ce_exists E w (m_strCfgFilePath c) then (c, ERROR_COMMON_READ_CONFIG_FAILED)
      else if \<not> ce_new E w then (c\<lparr>m_pDoc := None\<rparr>, ERROR_COMMON_READ_CONFIG_FAILED)
      else case ce_load E w (m_strCfgFilePath c) of
             (root, loaded) \<Rightarrow>
               if \<not> loaded then (c\<lparr>m_pDoc := Some root\<rparr>, ERROR_COMMON_READ_CONFIG_FAILED)
               else cfg_stamp E w (c\<lparr>m_pDoc := Some root\<rparr>))"


definition IsModified :: "'w config_env \<Rightarrow> 'w \<Rightarrow> config_parser \<Rightarrow> bool" where
  "IsModified E w c \<longleftrightarrow> m_strCfgFilePath c \<noteq> [] \<and>
     (case ce_mtime E w (m_strCfgFilePath c) of None \<Rightarrow> False | Some t \<Rightarrow> t \<noteq> m_lastTime c)"

definition kids_of :: "cfg_elem option \<Rightarrow> cfg_elem list" where
  "kids_of root = (case root of None \<Rightarrow> [] | Some e \<Rightarrow> xkids e)"

definition reloaded :: "'w config_env \<Rightarrow> 'w \<Rightarrow> config_parser \<Rightarrow> config_parser" where
  "reloaded E w c = (if IsModified E w c then fst (Config_Load E w c) else c)"

text \<open>The results: \<^const>\<open>None\<close> for a null document; otherwise the parser after a reload, with an error or a value.\<close>

definition Config_GetValueString :: "'w config_env \<Rightarrow> 'w \<Rightarrow> string \<Rightarrow> string \<Rightarrow> config_parser \<Rightarrow> (config_parser \<times> (int + string)) option" where
  "Config_GetValueString E w strSection strKey c =
     (let c = reloaded E w c in
      case m_pDoc c of None \<Rightarrow> None | Some root \<Rightarrow> Some (c, GetValueString (map section_of (kids_of root)) strSection strKey))"

definition Config_GetValueString2 :: "'w config_env \<Rightarrow> 'w \<Rightarrow> string \<Rightarrow> string \<Rightarrow> string \<Rightarrow> config_parser \<Rightarrow> (config_parser \<times> (int + string)) option" where
  "Config_GetValueString2 E w strParentSection strChildSection strKey c =
     (let c = reloaded E w c in
      case m_pDoc c of
        None \<Rightarrow> None
      | Some root \<Rightarrow> Some (c, case child_element (kids_of root) strParentSection of
            None \<Rightarrow> Inl ERROR_COMMON_READ_CONFIG_FAILED
          | Some e \<Rightarrow> GetValueString (map section_of (xkids e)) strChildSection strKey))"

definition as_int32 :: "(config_parser \<times> (int + string)) option \<Rightarrow> (config_parser \<times> (int + int)) option" where
  "as_int32 r = map_option (apsnd (map_sum (\<lambda>_. ERROR_COMMON_READ_CONFIG_FAILED) (\<lambda>v. atoi (c_str v)))) r"
definition as_int64 :: "(config_parser \<times> (int + string)) option \<Rightarrow> (config_parser \<times> (int + int)) option" where
  "as_int64 r = map_option (apsnd (map_sum (\<lambda>_. ERROR_COMMON_READ_CONFIG_FAILED) (\<lambda>v. atol (c_str v)))) r"
definition as_bool :: "(config_parser \<times> (int + string)) option \<Rightarrow> (config_parser \<times> (int + bool)) option" where
  "as_bool r = map_option (apsnd (map_sum (\<lambda>_. ERROR_COMMON_READ_CONFIG_FAILED) (\<lambda>v. atoi (c_str v) \<noteq> 0))) r"

definition Config_GetValueInt32 :: "'w config_env \<Rightarrow> 'w \<Rightarrow> string \<Rightarrow> string \<Rightarrow> config_parser \<Rightarrow> (config_parser \<times> (int + int)) option" where
  "Config_GetValueInt32 E w sec k c = as_int32 (Config_GetValueString E w sec k c)"
definition Config_GetValueInt64 :: "'w config_env \<Rightarrow> 'w \<Rightarrow> string \<Rightarrow> string \<Rightarrow> config_parser \<Rightarrow> (config_parser \<times> (int + int)) option" where
  "Config_GetValueInt64 E w sec k c = as_int64 (Config_GetValueString E w sec k c)"
definition Config_GetValueBool :: "'w config_env \<Rightarrow> 'w \<Rightarrow> string \<Rightarrow> string \<Rightarrow> config_parser \<Rightarrow> (config_parser \<times> (int + bool)) option" where
  "Config_GetValueBool E w sec k c = as_bool (Config_GetValueString E w sec k c)"
definition Config_GetValueInt32_2 :: "'w config_env \<Rightarrow> 'w \<Rightarrow> string \<Rightarrow> string \<Rightarrow> string \<Rightarrow> config_parser \<Rightarrow> (config_parser \<times> (int + int)) option" where
  "Config_GetValueInt32_2 E w p sec k c = as_int32 (Config_GetValueString2 E w p sec k c)"
definition Config_GetValueInt64_2 :: "'w config_env \<Rightarrow> 'w \<Rightarrow> string \<Rightarrow> string \<Rightarrow> string \<Rightarrow> config_parser \<Rightarrow> (config_parser \<times> (int + int)) option" where
  "Config_GetValueInt64_2 E w p sec k c = as_int64 (Config_GetValueString2 E w p sec k c)"
definition Config_GetValueBool_2 :: "'w config_env \<Rightarrow> 'w \<Rightarrow> string \<Rightarrow> string \<Rightarrow> string \<Rightarrow> config_parser \<Rightarrow> (config_parser \<times> (int + bool)) option" where
  "Config_GetValueBool_2 E w p sec k c = as_bool (Config_GetValueString2 E w p sec k c)"

text \<open>
  Setting a value works on the document in memory, which is not reloaded first, and saves it; the result
  of saving is ignored.
\<close>

definition cfg_set :: "'w config_env \<Rightarrow> (cfg_elem list \<Rightarrow> cfg_elem list option) \<Rightarrow> 'w \<Rightarrow> config_parser \<Rightarrow> ('w \<times> config_parser \<times> int) option" where
  "cfg_set E f w c =
     (if \<not> ce_exists E w (m_strCfgFilePath c) then Some (w, c, ERROR_COMMON_READ_CONFIG_FAILED)
      else case m_pDoc c of
             None \<Rightarrow> None
           | Some None \<Rightarrow> Some (w, c, ERROR_COMMON_READ_CONFIG_FAILED)
           | Some (Some (Elem n as ks)) \<Rightarrow>
               (case f ks of
                  None \<Rightarrow> Some (w, c, ERROR_COMMON_READ_CONFIG_FAILED)
                | Some ks \<Rightarrow>
                    let c = c\<lparr>m_pDoc := Some (Some (Elem n as ks))\<rparr>; w = ce_save E (m_strCfgFilePath c) (Some (Elem n as ks)) w
                    in Some (w, cfg_stamp E w c)))"

definition Config_SetValue :: "'w config_env \<Rightarrow> string \<Rightarrow> string \<Rightarrow> string \<Rightarrow> 'w \<Rightarrow> config_parser \<Rightarrow> ('w \<times> config_parser \<times> int) option" where
  "Config_SetValue E strSection strKey strValue = cfg_set E (in_child strSection (set_item strKey strValue))"

definition Config_SetValue2 :: "'w config_env \<Rightarrow> string \<Rightarrow> string \<Rightarrow> string \<Rightarrow> string \<Rightarrow> 'w \<Rightarrow> config_parser \<Rightarrow> ('w \<times> config_parser \<times> int) option" where
  "Config_SetValue2 E strParentSection strChildSection strKey strValue =
     cfg_set E (in_child strParentSection (in_child strChildSection (set_item strKey strValue)))"

section \<open>What is set is read\<close>












text \<open>An edit of the file since the last load is lost: setting a value saves the document in memory.\<close>

lemma set_loses_edit:
  assumes "Config_SetValue E sec k v w c = Some (w', c', MP_SUCCESS)" "m_pDoc c = m_pDoc d" "m_strCfgFilePath c = m_strCfgFilePath d"
    "ce_exists E u (m_strCfgFilePath c)"
  obtains root where "w' = ce_save E (m_strCfgFilePath c) root w"
    "\<exists>c''. Config_SetValue E sec k v u d = Some (ce_save E (m_strCfgFilePath c) root u, c'', MP_SUCCESS)"
  using assms
  by (auto simp: Config_SetValue_def cfg_set_def Let_def cfg_stamp_def split: if_splits option.splits cfg_elem.splits)

end
