(* ===== verification/HostApp.thy ===== *)
theory HostApp
  imports OracleApp AlarmTrap
begin

text \<open>
  The host: \<^verbatim>\<open>CHost\<close> and \<^verbatim>\<open>CLogCollector\<close> (\<^verbatim>\<open>src/src/host/Host.cpp\<close>), Linux builds, with the functions
  they use of \<^verbatim>\<open>CMpFile\<close>, \<^verbatim>\<open>CUuidNum\<close> and \<^verbatim>\<open>Utils.cpp\<close>. The operating system is a record of parameters:
  the name of the host, the bytes of a new UUID, folders, the time, and whether a thread starts.
\<close>

abbreviation HOST_TYPE_REDHAT :: int where "HOST_TYPE_REDHAT \<equiv> 2"
abbreviation HOST_TYPE_SUSE :: int where "HOST_TYPE_SUSE \<equiv> 6"
abbreviation HOST_TYPE_ROCKY :: int where "HOST_TYPE_ROCKY \<equiv> 7"
abbreviation HOST_TYPE_OEL :: int where "HOST_TYPE_OEL \<equiv> 8"
abbreviation HOST_TYPE_ISOFT :: int where "HOST_TYPE_ISOFT \<equiv> 9"
abbreviation MAX_PATH_LEN :: nat where "MAX_PATH_LEN \<equiv> 260"
abbreviation ARRAY_VENDER_HUAWEI :: string where "ARRAY_VENDER_HUAWEI \<equiv> ''HUAWEI''"
abbreviation VENDOR_ULTRAPATH_HUAWEI :: string where "VENDOR_ULTRAPATH_HUAWEI \<equiv> ''up''"
abbreviation ARRAY_VENDER_HUASY :: string where "ARRAY_VENDER_HUASY \<equiv> ''HUASY''"
abbreviation MAX_PORT_NUM :: int where "MAX_PORT_NUM \<equiv> 65535"
abbreviation SNMP_V1 :: int where "SNMP_V1 \<equiv> 1"
abbreviation SNMP_V3 :: int where "SNMP_V3 \<equiv> 3"
abbreviation AGENT_LOG_ZIP_NAME :: string where "AGENT_LOG_ZIP_NAME \<equiv> ''sysinfo''"
abbreviation ZIP_SUFFIX :: string where "ZIP_SUFFIX \<equiv> ''.tar.gz''"
abbreviation MAX_ZIP_LOG_NUM :: nat where "MAX_ZIP_LOG_NUM \<equiv> 10"

datatype linux_build = REDHAT | ISOFT | SUSE | ROCKY

record host_env =
  he_build :: linux_build
  he_hostname :: "string \<times> int" \<comment> \<open>the buffer of \<^verbatim>\<open>gethostname\<close> and zero, or the error number\<close>
  he_uuid :: "8 word list"
  he_readdir :: "file_world \<Rightarrow> string \<Rightarrow> string list option"
  he_lstat :: "file_world \<Rightarrow> string \<Rightarrow> bool option" \<comment> \<open>whether the path is a folder\<close>
  he_tz :: "int \<times> string" \<comment> \<open>\<^verbatim>\<open>tm_isdst\<close> and what \<^verbatim>\<open>strftime\<close> writes for \<^verbatim>\<open>%z\<close>\<close>
  he_now :: string \<comment> \<open>\<^verbatim>\<open>GetTimeString\<close> of the present time\<close>
  he_thread :: int \<comment> \<open>the result of starting a thread\<close>

record host_info =
  hi_name :: string
  hi_sn :: string
  hi_version :: string
  hi_os :: int

record initiator_info =
  ii_iscsis :: "string list"
  ii_fcs :: "string list"

record host_lun_info =
  hl_arrayVendor :: string
  hl_lunId :: string
  hl_wwn :: string
  hl_arraySn :: string
  hl_arrayVersion :: string
  hl_arrayModel :: string
  hl_deviceName :: string
  hl_diskNumber :: string

record timezone_info =
  tz_iIsDST :: int
  tz_strTzBias :: string

section \<open>Folders\<close>

text \<open>\<^verbatim>\<open>GetFolderFile\<close>: the files found before a failure stay in the list.\<close>

fun folder_files :: "(string \<Rightarrow> bool option) \<Rightarrow> string \<Rightarrow> string list \<Rightarrow> string list \<Rightarrow> string list \<times> int" where
  "folder_files lstat strFolder [] vecFileList = (vecFileList, MP_SUCCESS)"
| "folder_files lstat strFolder (d # ds) vecFileList =
     (case snprintf_s (MAX_PATH_LEN - 1) (c_str strFolder @ ''/'' @ d) of
        None \<Rightarrow> (vecFileList, MP_FAILED)
      | Some acFullName \<Rightarrow>
          (case lstat acFullName of
             None \<Rightarrow> (vecFileList, MP_FAILED)
           | Some dir \<Rightarrow> folder_files lstat strFolder ds
               (if \<not> dir \<and> d \<noteq> ''.'' \<and> d \<noteq> ''..'' then vecFileList @ [d] else vecFileList)))"

definition GetFolderFile :: "host_env \<Rightarrow> file_world \<Rightarrow> string \<Rightarrow> string list \<Rightarrow> string list \<times> int" where
  "GetFolderFile H W strFolder vecFileList =
     (case he_readdir H W (c_str strFolder) of
        None \<Rightarrow> (vecFileList, MP_FAILED)
      | Some ds \<Rightarrow> folder_files (he_lstat H W) strFolder ds vecFileList)"

section \<open>The number of the host\<close>

definition hex_upper :: "nat \<Rightarrow> char" where
  "hex_upper n = ''0123456789ABCDEF'' ! n"

definition FormatUuid :: "8 word list \<Rightarrow> string" where
  "FormatUuid uuid = concat (map (\<lambda>b. [hex_upper (unat b div 16), hex_upper (unat b mod 16)]) uuid)"

definition GetUuidNumber :: "host_env \<Rightarrow> string \<Rightarrow> string \<times> int" where
  "GetUuidNumber H strUuid = (strUuid @ FormatUuid (he_uuid H), MP_SUCCESS)"

definition SetHostSN :: "file_env \<Rightarrow> string \<Rightarrow> string list \<Rightarrow> file_world \<Rightarrow> file_world \<times> int" where
  "SetHostSN F m_hostsnFile vecInput W =
     (case Ipc_WriteFile F m_hostsnFile vecInput W of
        (W, iRet) \<Rightarrow>
          if iRet \<noteq> MP_SUCCESS then (W, iRet)
          else if \<not> fe_chmod F m_hostsnFile then (W, MP_FAILED)
          else (W\<lparr>fw_mode := (fw_mode W)(m_hostsnFile := Some 0x180)\<rparr>, MP_SUCCESS))"

definition ReadHostSNInfo :: "file_env \<Rightarrow> string \<Rightarrow> string list \<Rightarrow> file_world \<Rightarrow> string list \<times> int" where
  "ReadHostSNInfo F root vecMacs W =
     (case Mp_ReadFile F W (GetConfFilePath root HOSTSN_FILE) vecMacs of
        (vecMacs, iRet) \<Rightarrow> (vecMacs, if iRet \<noteq> MP_SUCCESS then iRet else if vecMacs = [] then MP_FAILED else iRet))"

definition GetHostSN :: "file_env \<Rightarrow> host_env \<Rightarrow> string \<Rightarrow> string \<Rightarrow> file_world \<Rightarrow> file_world \<times> string \<times> int" where
  "GetHostSN F H root strSN W =
     (case ReadHostSNInfo F root [] W of
        (vecMacs, iRet) \<Rightarrow>
          if iRet \<noteq> MP_SUCCESS
          then (case GetUuidNumber H strSN of
                  (strSN, iRet) \<Rightarrow>
                    if iRet \<noteq> MP_SUCCESS \<or> strSN = [] then (W, strSN, iRet)
                    else case SetHostSN F (GetConfFilePath root HOSTSN_FILE) [strSN] W of
                           (W, iRet) \<Rightarrow> (W, strSN, iRet))
          else case vecMacs of [] \<Rightarrow> (W, strSN, MP_FAILED) | strSN # _ \<Rightarrow> (W, strSN, MP_SUCCESS))"

section \<open>Name and version\<close>

definition GetAgentVersion :: "string \<times> string \<times> int" where
  "GetAgentVersion =
     (let strAgentVersion = ''V100R001C00''; strBuildNum = ''1.0.0'' in
      (strAgentVersion, strBuildNum, if strAgentVersion \<noteq> [] \<and> strBuildNum \<noteq> [] then MP_SUCCESS else MP_FAILED))"

text \<open>\<^verbatim>\<open>ExecSystemWithEcho\<close> into a vector that may hold lines already.\<close>

definition echo_onto :: "'j plug_env \<Rightarrow> string \<Rightarrow> string list \<Rightarrow> ('j, string list \<times> int) act" where
  "echo_onto P strCmd v s =
     (case ps_root s of (i, W) \<Rightarrow>
      case ExecSystemWithEcho (pe_exec P) (pe_root P) strCmd v True W of
        (W, v, iRet) \<Rightarrow> Some (s\<lparr>ps_root := (i, W)\<rparr>, Inr (v, iRet)))"

definition os_version :: "'j plug_env \<Rightarrow> int \<Rightarrow> nat \<Rightarrow> string \<Rightarrow> string list \<Rightarrow> (string list \<Rightarrow> string) \<Rightarrow> ('j, int \<times> string) act" where
  "os_version P iOSType iRltCount strCmd vecRlt f =
     bindA (echo_onto P strCmd vecRlt) (\<lambda>(vecRlt, iRet).
     if iRet \<noteq> MP_SUCCESS \<or> iRltCount \<noteq> length vecRlt then failA MP_FAILED else retA (iOSType, f vecRlt))"

definition file_there :: "string \<Rightarrow> ('j, bool) act" where
  "file_there p s = Some (s, Inr (Mp_FileExist (snd (ps_root s)) (c_str p)))"

definition GetHostOS :: "'j plug_env \<Rightarrow> host_env \<Rightarrow> ('j, int \<times> string) act" where
  "GetHostOS P H =
     (case he_build H of
        REDHAT \<Rightarrow> bindA (file_there ''/etc/oracle-release'') (\<lambda>oracle.
          if oracle
          then os_version P HOST_TYPE_OEL 1 (''cat /etc/oracle-release 2>/dev/null | awk '{print $NF}'' @ [CHR 0x27]) [] hd
          else os_version P HOST_TYPE_REDHAT 1
            (''cat /etc/redhat-release 2>/dev/null | awk -F '(' '{print $1}' | awk '{print $NF}'' @ [CHR 0x27]) [] hd)
      | ISOFT \<Rightarrow> os_version P HOST_TYPE_ISOFT 1 (''cat /etc/isoft-release | awk '{print$5}'' @ [CHR 0x27]) [] hd
      | SUSE \<Rightarrow> os_version P HOST_TYPE_SUSE 2 (''cat /etc/SuSE-release 2>/dev/null | awk  '$2 == '' @ [CHR 0x22] @ ''='' @ [CHR 0x22] @ '' {print $3}'' @ [CHR 0x27]) []
          (\<lambda>v. hd v @ ''.'' @ last v)
      | ROCKY \<Rightarrow>
          (let awk = '' | awk '{print $NF}' | awk -F '.' '{print $1'' @ [CHR 0x22] @ ''.'' @ [CHR 0x22] @ ''$2}'' @ [CHR 0x27] in
           bindA (echo_onto P (''cat /etc/linx-release 2>/dev/null'' @ awk) []) (\<lambda>(vecRlt, iRet).
           if iRet = MP_SUCCESS \<and> length vecRlt = 1 then retA (HOST_TYPE_ROCKY, hd vecRlt)
           else os_version P HOST_TYPE_ROCKY 1 (''cat /etc/debian_version 2>/dev/null'' @ awk) vecRlt hd)))"

definition GetInfo :: "'j plug_env \<Rightarrow> host_env \<Rightarrow> ('j, host_info) act" where
  "GetInfo P H =
     thenA (whenA (snd (he_hostname H) \<noteq> MP_SUCCESS) ERROR_HOST_GETINFO_FAILED)
     (bindA (\<lambda>s. case ps_root s of (i, W) \<Rightarrow>
         case GetHostSN (xe_files (pe_exec P)) H (pe_root P) [] W of
           (W, strSN, iRet) \<Rightarrow> Some (s\<lparr>ps_root := (i, W)\<rparr>, Inr (strSN, iRet))) (\<lambda>(strSN, iRet).
     thenA (whenA (iRet \<noteq> MP_SUCCESS) ERROR_HOST_GETINFO_FAILED)
     (bindA (elseA (GetHostOS P H) ERROR_HOST_GETINFO_FAILED) (\<lambda>(iOsType, strOSVersion).
     retA \<lparr>hi_name = c_str (fst (he_hostname H)), hi_sn = strSN, hi_version = strOSVersion, hi_os = iOsType\<rparr>))))"

section \<open>Disks\<close>

text \<open>
  \<^verbatim>\<open>GetLunInfo\<close> with its out parameters on every way out: they keep what was set before a failure, and
  the loop over the disks passes the same variables again.
\<close>

definition GetLunInfo_out :: "'j plug_env \<Rightarrow> string \<Rightarrow> string \<Rightarrow> string \<Rightarrow> ('j, string \<times> string \<times> int) act" where
  "GetLunInfo_out P strDev strLunWWN strLunID =
     bindA (root_exec P ROOT_COMMAND_83PAGE strDev (Some [])) (\<lambda>(vecResult, iRet).
     if iRet \<noteq> MP_SUCCESS then retA (strLunWWN, strLunID, iRet)
     else if vecResult = [] then retA (strLunWWN, strLunID, MP_FAILED)
     else let strLunWWN = nth_or vecResult 0 strLunWWN; strLunID = nth_or vecResult 1 strLunID in
      bindA (root_exec P ROOT_COMMAND_00PAGE strDev (Some [])) (\<lambda>(vecResult1, iRet).
      if iRet \<noteq> MP_SUCCESS then retA (strLunWWN, strLunID, iRet)
      else if vecResult1 = [] then retA (strLunWWN, strLunID, MP_FAILED)
      else if IsSupportXXPage ''c8'' vecResult1
      then bindA (root_exec P ROOT_COMMAND_C8PAGE strDev (Some [])) (\<lambda>(vecResult2, iRet).
           retA (if iRet \<noteq> MP_SUCCESS then (strLunWWN, strLunID, iRet) else (strLunWWN, nth_or vecResult2 0 strLunID, MP_SUCCESS)))
      else retA (strLunWWN, strLunID, MP_SUCCESS)))"

definition tryA :: "('j, 'a) act \<Rightarrow> ('j, 'a option) act" where
  "tryA m s = (case m s of None \<Rightarrow> None | Some (s, Inl e) \<Rightarrow> Some (s, Inr None) | Some (s, Inr a) \<Rightarrow> Some (s, Inr (Some a)))"

definition huawei_vendor :: "string \<Rightarrow> bool" where
  "huawei_vendor strVendor \<longleftrightarrow>
     c_str strVendor = ARRAY_VENDER_HUAWEI \<or> c_str strVendor = VENDOR_ULTRAPATH_HUAWEI \<or> c_str strVendor = ARRAY_VENDER_HUASY"

fun disk_info_loop :: "'j plug_env \<Rightarrow> string list \<Rightarrow> string \<Rightarrow> string \<Rightarrow> string \<Rightarrow> string \<Rightarrow> ('j, host_lun_info list) act" where
  "disk_info_loop P [] strVendor strProduct strLunWWN strLunID = retA []"
| "disk_info_loop P (d # ds) strVendor strProduct strLunWWN strLunID =
     (let strDevName = ''/dev/'' @ d in
      bindA (tryA (GetArrayVendorAndProduct P strDevName strVendor strProduct)) (\<lambda>r.
      case r of
        None \<Rightarrow> disk_info_loop P ds strVendor strProduct strLunWWN strLunID
      | Some (v, p) \<Rightarrow>
          let strVendor = trim_in_place v; strProduct = trim_in_place p in
          if \<not> huawei_vendor strVendor then disk_info_loop P ds strVendor strProduct strLunWWN strLunID
          else bindA (tryA (GetArraySN P strDevName)) (\<lambda>r.
               case r of
                 None \<Rightarrow> disk_info_loop P ds strVendor strProduct strLunWWN strLunID
               | Some strSN \<Rightarrow>
                   bindA (GetLunInfo_out P strDevName strLunWWN strLunID) (\<lambda>(strLunWWN, strLunID, iRet).
                   if iRet \<noteq> MP_SUCCESS then disk_info_loop P ds strVendor strProduct strLunWWN strLunID
                   else bindA (disk_info_loop P ds strVendor strProduct strLunWWN strLunID) (\<lambda>v.
                        retA (\<lparr>hl_arrayVendor = strVendor, hl_lunId = strLunID, hl_wwn = strLunWWN, hl_arraySn = strSN,
                                hl_arrayVersion = [], hl_arrayModel = strProduct, hl_deviceName = strDevName, hl_diskNumber = []\<rparr> # v))))))"

definition GetDiskInfo :: "'j plug_env \<Rightarrow> ('j, host_lun_info list) act" where
  "GetDiskInfo P =
     bindA (catchA (GetAllDiskName P) (\<lambda>e. failA (TRANSFORM_RETURN_CODE e ERROR_DISK_GET_DISK_INFO_FAILED))) (\<lambda>vecDiskName.
     disk_info_loop P vecDiskName [] [] [] [])"

definition ScanDisk :: "'j plug_env \<Rightarrow> ('j, unit) act" where
  "ScanDisk P =
     bindA (\<lambda>s. case ps_root s of (i, W) \<Rightarrow> case UniqueID_GetString i of (i, u) \<Rightarrow> Some (s\<lparr>ps_root := (i, W)\<rparr>, Inr u)) (\<lambda>strUniqueID.
     bindA (root_exec P ROOT_COMMAND_SCRIPT_SCANDISK (BlankComma (pe_root P) @ '' '' @ strUniqueID) None) (\<lambda>(_, iRet).
     whenA (iRet \<noteq> MP_SUCCESS) ERROR_DISK_SCAN_FAILED))"

section \<open>Time zone and initiators\<close>

text \<open>A zone of four characters has no sign; a plus is put in front of it.\<close>

definition GetTimeZone :: "host_env \<Rightarrow> int + timezone_info" where
  "GetTimeZone H =
     (case he_tz H of (tm_isdst, ctzBias) \<Rightarrow>
      if length ctzBias \<noteq> 5 \<and> length ctzBias \<noteq> 4 then Inl MP_FAILED
      else Inr \<lparr>tz_iIsDST = (if 0 < tm_isdst then 1 else 0), tz_strTzBias = (if length ctzBias = 4 then ''+'' else []) @ ctzBias\<rparr>)"

definition both_failed :: "int \<Rightarrow> int \<Rightarrow> int" where
  "both_failed iRetIscsi iRetFc =
     (if iRetIscsi \<noteq> ERROR_COMMON_SCRIPT_FILE_NOT_EXIST \<and> iRetFc \<noteq> ERROR_COMMON_SCRIPT_FILE_NOT_EXIST
      then if iRetIscsi \<noteq> ERROR_COMMON_SCRIPT_EXEC_FAILED \<and> iRetFc \<noteq> ERROR_COMMON_SCRIPT_EXEC_FAILED
           then ERROR_HOST_GET_INIATOR_FAILED else ERROR_COMMON_SCRIPT_EXEC_FAILED
      else ERROR_COMMON_SCRIPT_FILE_NOT_EXIST)"

definition initiators :: "'j plug_env \<Rightarrow> string \<Rightarrow> ('j, string list \<times> int) act" where
  "initiators P strParam =
     bindA (root_exec P ROOT_COMMAND_SCRIPT_INIT strParam (Some [])) (\<lambda>(vecResult, iRet).
     let iRet = TRANSFORM_RETURN_CODE iRet ERROR_HOST_GET_INIATOR_FAILED in
     retA (if iRet \<noteq> MP_SUCCESS then [] else map trim_in_place vecResult, iRet))"

definition GetInitiators :: "'j plug_env \<Rightarrow> ('j, initiator_info) act" where
  "GetInitiators P =
     bindA (initiators P ''iscsis'') (\<lambda>(iscsis, iRetIscsi).
     bindA (initiators P ''fcs'') (\<lambda>(fcs, iRetFc).
     if iRetIscsi \<noteq> MP_SUCCESS \<and> iRetFc \<noteq> MP_SUCCESS then failA (both_failed iRetIscsi iRetFc)
     else retA \<lparr>ii_iscsis = iscsis, ii_fcs = fcs\<rparr>))"

section \<open>Trap servers\<close>

definition MP_RETURN :: "'c \<times> int \<Rightarrow> int \<Rightarrow> 'c \<times> int" where
  "MP_RETURN r code = (fst r, if snd r = MP_FAILED then code else snd r)"

definition server_ok :: "trap_server \<Rightarrow> bool" where
  "server_ok t \<longleftrightarrow> IsIPV4 (ts_strServerIP t) \<and> \<not> (ts_iPort t > MAX_PORT_NUM \<or> ts_iPort t < 0)
     \<and> \<not> (ts_iVersion t > SNMP_V3 \<or> ts_iVersion t < SNMP_V1)"

definition Host_RegTrapServer :: "('d, 's) sqlite_api \<Rightarrow> string \<Rightarrow> trap_server \<Rightarrow> 'd cdb \<Rightarrow> 'd cdb \<times> int" where
  "Host_RegTrapServer S path t c =
     (if \<not> server_ok t then (c, ERROR_COMMON_INVALID_PARAM)
      else MP_RETURN (InsertTrapServer S path t c) ERROR_HOST_REG_TRAPSERVER_FAILED)"

definition Host_UnRegTrapServer :: "('d, 's) sqlite_api \<Rightarrow> string \<Rightarrow> trap_server \<Rightarrow> 'd cdb \<Rightarrow> 'd cdb \<times> int" where
  "Host_UnRegTrapServer S path t c =
     (if \<not> server_ok t then (c, ERROR_COMMON_INVALID_PARAM)
      else MP_RETURN (DeleteTrapServer S path t c) ERROR_HOST_UNREG_TRAPSERVER_FAILED)"

definition Host_VerifySnmp :: "('d, 's, 'n) trap_env \<Rightarrow> snmp_v3_param \<Rightarrow> int" where
  "Host_VerifySnmp E p =
     (let l = GetSnmpV3Param E in
      if sp_strAuthPassword p \<noteq> sp_strAuthPassword l \<or> sp_strPrivPassword p \<noteq> sp_strPrivPassword l
         \<or> sp_strSecurityName p \<noteq> sp_strSecurityName l \<or> sp_iAuthProtocol p \<noteq> sp_iAuthProtocol l \<or> sp_iPrivProtocol p \<noteq> sp_iPrivProtocol l
      then ERROR_HOST_VERIFY_SNMP_FAILED else MP_SUCCESS)"

section \<open>Scripts of third parties\<close>

definition Host_QueryThirdPartyScripts :: "'j plug_env \<Rightarrow> host_env \<Rightarrow> ('j, string list) act" where
  "Host_QueryThirdPartyScripts P H s =
     (case GetFolderFile H (snd (ps_root s)) (GetBinPath (pe_root P) @ PATH_SEPARATOR @ ''thirdparty'') [] of
        (vectFileList, iRet) \<Rightarrow>
          thenA (checkA (TRANSFORM_RETURN_CODE iRet ERROR_HOST_THIRDPARTY_GETFILE_FAILED)) (retA vectFileList) s)"

text \<open>The lines that the script left are there also when it failed.\<close>

definition Host_ExecThirdPartyScript :: "'j plug_env \<Rightarrow> string \<Rightarrow> string \<Rightarrow> ('j, string list \<times> int) act" where
  "Host_ExecThirdPartyScript P fileName paramValues =
     (let fileName = trim_in_place fileName; paramValues = trim_in_place paramValues in
      if fileName = [] then retA ([], ERROR_COMMON_INVALID_PARAM)
      else bindA (root_exec P ROOT_COMMAND_THIRDPARTY (fileName @ '':'' @ paramValues) (Some [])) (\<lambda>(vecResult, iRet).
           retA (vecResult, TRANSFORM_RETURN_CODE iRet ERROR_HOST_THIRDPARTY_EXEC_FAILED)))"

section \<open>Collecting the logs\<close>

datatype log_status = LOG_INIT | LOG_COLLECTING

record log_collector =
  m_status :: log_status
  m_strLogName :: string

definition new_log_collector :: log_collector where
  "new_log_collector = \<lparr>m_status = LOG_INIT, m_strLogName = []\<rparr>"

definition CanDownloadLog :: "log_collector \<Rightarrow> bool" where
  "CanDownloadLog l \<longleftrightarrow> m_status l = LOG_INIT"

text \<open>\<^verbatim>\<open>strcmp\<close>: whether the first text is behind the second, byte by byte.\<close>

fun str_greater :: "string \<Rightarrow> string \<Rightarrow> bool" where
  "str_greater [] b = False"
| "str_greater (x # a) [] = True"
| "str_greater (x # a) (y # b) = ((of_char x :: nat) > of_char y \<or> x = y \<and> str_greater a b)"

definition oldest_zip :: "string list \<Rightarrow> string" where
  "oldest_zip fs = fold (\<lambda>f o'. if str_greater (c_str o') (c_str f) then f else o') fs ''z''"

text \<open>The folder of the agent for its files must be read; the oldest of ten collections is removed.\<close>

definition CollectLog :: "file_env \<Rightarrow> host_env \<Rightarrow> string \<Rightarrow> log_collector \<Rightarrow> file_world \<Rightarrow> (log_collector \<times> file_world) \<times> int" where
  "CollectLog F H root l W =
     (if m_status l \<noteq> LOG_INIT then ((l, W), ERROR_HOST_LOG_IS_BEENING_COLLECTED)
      else case GetFolderFile H W (GetTmpPath root) [] of
             (vecFileList, iRet) \<Rightarrow>
               if iRet \<noteq> MP_SUCCESS then ((l, W), iRet)
               else let zips = filter (\<lambda>f. str_find AGENT_LOG_ZIP_NAME f \<noteq> None) vecFileList;
                        W = (if length zips \<ge> MAX_ZIP_LOG_NUM then fst (DelFile F (c_str (GetTmpFilePath root (oldest_zip zips))) W) else W);
                        strTime = filter (\<lambda>c. c \<in> set ''0123456789'') (he_now H)
                    in ((l\<lparr>m_status := LOG_COLLECTING, m_strLogName := AGENT_LOG_ZIP_NAME @ strTime @ ZIP_SUFFIX\<rparr>, W), he_thread H))"

definition PackageLog :: "'j plug_env \<Rightarrow> string \<Rightarrow> ('j, unit) act" where
  "PackageLog P strLogName =
     bindA (root_exec P ROOT_COMMAND_SCRIPT_PACKAGELOG
         (case str_find ZIP_SUFFIX strLogName of None \<Rightarrow> strLogName | Some pos \<Rightarrow> take pos strLogName) None) (\<lambda>(_, iRet).
     checkA iRet)"

text \<open>The thread that collects, with what is left of the agent when it ends.\<close>

definition LogCollectThread :: "'j plug_env \<Rightarrow> log_collector \<Rightarrow> 'j plug_state \<Rightarrow> (log_collector \<times> 'j plug_state) option" where
  "LogCollectThread P l s = map_option (\<lambda>(s, _). (l\<lparr>m_status := LOG_INIT\<rparr>, s)) (PackageLog P (m_strLogName l) s)"

end
