(* ===== verification/HostPlug.thy ===== *)
theory HostPlug
  imports HostApp OraclePlug Http
begin

text \<open>
  The actions of \<^verbatim>\<open>CHostPlugin\<close> (\<^verbatim>\<open>src/src/plugins/host/HostPlugin.cpp\<close>), Linux. An action of the alarm
  database or of the collector of logs works on that state beside the state of the other actions.
\<close>

abbreviation REST_PARAM_HOST_VERSION :: string where "REST_PARAM_HOST_VERSION \<equiv> ''version''"
abbreviation REST_PARAM_HOST_LOG_EXPORT_NAME :: string where "REST_PARAM_HOST_LOG_EXPORT_NAME \<equiv> ''sysInfoFile''"
abbreviation SNMP_PROTOCOL_USER :: string where "SNMP_PROTOCOL_USER \<equiv> ''HTTP_SNMPUSERNAME''"
abbreviation SNMP_AUTH_PW :: string where "SNMP_AUTH_PW \<equiv> ''HTTP_AUTHPASSWORD''"
abbreviation SNMP_ENCRYPT_PW :: string where "SNMP_ENCRYPT_PW \<equiv> ''HTTP_ENCRYPTPASSWORD''"
abbreviation LISTEN_ADDR :: string where "LISTEN_ADDR \<equiv> ''SERVER_ADDR''"

text \<open>The characters that a file name may not have.\<close>

definition file_name_exclude :: string where
  "file_name_exclude = CHR 0x5C # ''/:*?'' @ CHR 0x22 # ''<>|''"

section \<open>Scripts of third parties\<close>

definition script_path :: "'j plug_env \<Rightarrow> string \<Rightarrow> string" where
  "script_path P fileName = GetBinPath (pe_root P) @ PATH_SEPARATOR @ ''thirdparty'' @ PATH_SEPARATOR @ fileName"

text \<open>The checks of a script name and its parameters.\<close>

definition check_script :: "'j plug_env \<Rightarrow> string \<Rightarrow> string \<Rightarrow> ('j, unit) act" where
  "check_script P fileName paramValues =
     thenA (checkA (CheckParamString fileName 1 254 [] file_name_exclude))
     (thenA (whenA (\<not> CheckCmdDelimiter paramValues) ERROR_COMMON_INVALID_PARAM)
     (checkA (CheckPathString (script_path P fileName))))"

definition HostPlugin_QueryThirdPartyScripts :: "'j plug_env \<Rightarrow> host_env \<Rightarrow> ('j, unit) act" where
  "HostPlugin_QueryThirdPartyScripts P H =
     bindA (Host_QueryThirdPartyScripts P H) (\<lambda>fs. append_rsp P (map (\<lambda>f. jstr (pe_mk P) (c_str f)) fs))"

definition HostPlugin_ExecThirdPartyScript :: "'j plug_env \<Rightarrow> 'j request_msg \<Rightarrow> ('j, unit) act" where
  "HostPlugin_ExecThirdPartyScript P req =
     bindA (get_string P (m_msgBody req) ''fileName'') (\<lambda>fileName.
     bindA (get_string P (m_msgBody req) ''params'') (\<lambda>paramValues.
     thenA (check_script P fileName paramValues)
     (bindA (Host_ExecThirdPartyScript P fileName paramValues) (\<lambda>(vecResult, iRet).
      if MP_SUCCESS \<noteq> iRet
      then thenA (append_rsp P (map (\<lambda>v. jobj (pe_mk P) [(''errorMessage'', jstr (pe_mk P) v)]) vecResult)) (failA iRet)
      else retA ()))))"

definition script_there :: "'j plug_env \<Rightarrow> string \<Rightarrow> ('j, unit) act" where
  "script_there P fileName =
     bindA (file_there (script_path P fileName)) (\<lambda>ex. whenA (\<not> ex) ERROR_COMMON_SCRIPT_FILE_NOT_EXIST)"

definition HostPlugin_ExecFreezeScript :: "'j plug_env \<Rightarrow> 'j request_msg \<Rightarrow> ('j, unit) act" where
  "HostPlugin_ExecFreezeScript P req =
     (let jv = m_msgBody req in
      bindA (get_string P jv ''freezeFile'') (\<lambda>fileName.
      thenA (script_there P fileName)
      (bindA (get_optional P jv ''freezeParams'') (\<lambda>paramValues.
       bindA (get_string P jv ''unfreezeFile'') (\<lambda>strScriptName.
       thenA (script_there P strScriptName)
       (bindA (get_string P jv ''queryFile'') (\<lambda>strScriptName.
        thenA (script_there P strScriptName)
        (thenA (check_script P fileName paramValues)
        (bindA (Host_ExecThirdPartyScript P fileName paramValues) (\<lambda>(_, iRet). checkA iRet))))))))))"

definition HostPlugin_ExecThawScript :: "'j plug_env \<Rightarrow> 'j request_msg \<Rightarrow> ('j, unit) act" where
  "HostPlugin_ExecThawScript P req =
     (let jv = m_msgBody req in
      bindA (get_string P jv ''unfreezeFile'') (\<lambda>fileName.
      bindA (get_optional P jv ''unfreezeParam'') (\<lambda>paramValues.
      thenA (check_script P fileName paramValues)
      (bindA (Host_ExecThirdPartyScript P fileName paramValues) (\<lambda>(_, iRet). checkA iRet)))))"

definition HostPlugin_QueryFreezeStatusScript :: "'j plug_env \<Rightarrow> 'j request_msg \<Rightarrow> ('j, unit) act" where
  "HostPlugin_QueryFreezeStatusScript P req =
     (let fileName = GetSpecialQueryParam ''queryFile'' (m_url req); paramValues = GetSpecialQueryParam ''queryParam'' (m_url req) in
      thenA (check_script P fileName paramValues)
      (bindA (Host_ExecThirdPartyScript P fileName paramValues) (\<lambda>(vecResult, iRet).
       thenA (checkA iRet)
       (case vecResult of
          [] \<Rightarrow> failA ERROR_COMMON_OPER_FAILED
        | v # _ \<Rightarrow> set_rsp P ''state'' (jint (pe_mk P) (atoi (c_str v)))))))"

section \<open>The host\<close>

definition HostPlugin_QueryAgentVersion :: "'j plug_env \<Rightarrow> ('j, unit) act" where
  "HostPlugin_QueryAgentVersion P =
     (case GetAgentVersion of (strAgentVersion, strBuildNum, iRet) \<Rightarrow>
        thenA (whenA (iRet \<noteq> MP_SUCCESS) ERROR_COMMON_READ_CONFIG_FAILED)
        (thenA (set_rsp P REST_PARAM_HOST_VERSION (jstr (pe_mk P) strAgentVersion)) (set_rsp P ''buildNum'' (jstr (pe_mk P) strBuildNum))))"

definition HostPlugin_QueryHostInfo :: "'j plug_env \<Rightarrow> host_env \<Rightarrow> ('j, unit) act" where
  "HostPlugin_QueryHostInfo P H =
     bindA (GetInfo P H) (\<lambda>i.
     thenA (set_rsp P ''name'' (jstr (pe_mk P) (hi_name i)))
     (thenA (set_rsp P ''os'' (jint (pe_mk P) (hi_os i)))
     (thenA (set_rsp P ''sn'' (jstr (pe_mk P) (hi_sn i)))
     (set_rsp P REST_PARAM_HOST_VERSION (jstr (pe_mk P) (hi_version i))))))"

definition HostPlugin_QueryDiskInfo :: "'j plug_env \<Rightarrow> ('j, unit) act" where
  "HostPlugin_QueryDiskInfo P =
     (let K = pe_mk P in
      bindA (GetDiskInfo P) (\<lambda>v. append_rsp P (map (\<lambda>l. jobj K
        [(''lunId'', jstr K (hl_lunId l)), (''wwn'', jstr K (hl_wwn l)), (''arraySn'', jstr K (hl_arraySn l)),
         (''arrayVendor'', jstr K (hl_arrayVendor l)), (''arrayModel'', jstr K (hl_arrayModel l)),
         (''deviceName'', jstr K (hl_deviceName l)), (''diskNumber'', jstr K (hl_diskNumber l))]) v)))"

definition HostPlugin_QueryTimeZone :: "'j plug_env \<Rightarrow> host_env \<Rightarrow> ('j, unit) act" where
  "HostPlugin_QueryTimeZone P H =
     (case GetTimeZone H of
        Inl _ \<Rightarrow> failA ERROR_HOST_GET_TIMEZONE_FAILED
      | Inr t \<Rightarrow> thenA (set_rsp P ''isDST'' (jint (pe_mk P) (tz_iIsDST t))) (set_rsp P ''tzBias'' (jstr (pe_mk P) (tz_strTzBias t))))"

text \<open>Each text is appended to the member of the reply, which is null before the first.\<close>

definition append_member :: "'j plug_env \<Rightarrow> string \<Rightarrow> string \<Rightarrow> 'j \<Rightarrow> 'j" where
  "append_member P k v j =
     jset (pe_mk P) j k (jappend (pe_mk P) (if isMember (pe_json P) j k then member (pe_json P) j k else jnull (pe_mk P)) (jstr (pe_mk P) v))"

definition HostPlugin_QueryInitiators :: "'j plug_env \<Rightarrow> ('j, unit) act" where
  "HostPlugin_QueryInitiators P =
     bindA (GetInitiators P) (\<lambda>i s.
     Some (s\<lparr>ps_rsp := fold (append_member P ''iscsis'') (ii_iscsis i) (fold (append_member P ''fcs'') (ii_fcs i) (ps_rsp s))\<rparr>, Inr ()))"

definition HostPlugin_ScanDisk :: "'j plug_env \<Rightarrow> ('j, unit) act" where
  "HostPlugin_ScanDisk P = ScanDisk P"

section \<open>Trap servers\<close>

text \<open>The server of a request; without a listen address it is unknown.\<close>

definition server_body :: "'j plug_env \<Rightarrow> 'j request_msg \<Rightarrow> ('j, trap_server) act" where
  "server_body P req =
     bindA (get_string P (m_msgBody req) ''ip'') (\<lambda>ip.
     bindA (get_int P (m_msgBody req) ''port'') (\<lambda>port.
     bindA (get_int P (m_msgBody req) ''snmpType'') (\<lambda>version.
     retA \<lparr>ts_iPort = port, ts_iVersion = version, ts_strServerIP = ip, ts_strListenIP = []\<rparr>)))"

definition check_server :: "trap_server \<Rightarrow> ('j, unit) act" where
  "check_server t =
     thenA (checkA (CheckParamStringIsIP (ts_strServerIP t)))
     (thenA (checkA (CheckParamInteger32 (ts_iPort t) 0 65535 []))
     (checkA (CheckParamInteger32 (ts_iVersion t) 1 3 [])))"

definition listen_server :: "'j plug_env \<Rightarrow> 'j request_msg \<Rightarrow> ('j, trap_server) act" where
  "listen_server P req =
     bindA (server_body P req) (\<lambda>t.
     bindA (get_head P LISTEN_ADDR req) (\<lambda>h.
     let t = t\<lparr>ts_strListenIP := (if h = [] then UNKNOWN else h)\<rparr> in thenA (check_server t) (retA t)))"

text \<open>An action on the database of alarms, with the request that it takes.\<close>

definition on_db :: "('j, 'a) act \<Rightarrow> ('a \<Rightarrow> 'd cdb \<Rightarrow> 'd cdb \<times> int) \<Rightarrow> 'd cdb \<times> 'j plug_state
    \<Rightarrow> (('d cdb \<times> 'j plug_state) \<times> (int + unit)) option" where
  "on_db m f cs =
     (case cs of (c, s) \<Rightarrow>
      case m s of
        None \<Rightarrow> None
      | Some (s, Inl e) \<Rightarrow> Some ((c, s), Inl e)
      | Some (s, Inr a) \<Rightarrow> (case f a c of (c, iRet) \<Rightarrow> Some ((c, s), if iRet \<noteq> MP_SUCCESS then Inl iRet else Inr ())))"

definition HostPlugin_RegTrapServer :: "('d, 's) sqlite_api \<Rightarrow> string \<Rightarrow> 'j plug_env \<Rightarrow> 'j request_msg \<Rightarrow> 'd cdb \<times> 'j plug_state
    \<Rightarrow> (('d cdb \<times> 'j plug_state) \<times> (int + unit)) option" where
  "HostPlugin_RegTrapServer S path P req = on_db (listen_server P req) (Host_RegTrapServer S path)"

definition HostPlugin_UnRegTrapServer :: "('d, 's) sqlite_api \<Rightarrow> string \<Rightarrow> 'j plug_env \<Rightarrow> 'j request_msg \<Rightarrow> 'd cdb \<times> 'j plug_state
    \<Rightarrow> (('d cdb \<times> 'j plug_state) \<times> (int + unit)) option" where
  "HostPlugin_UnRegTrapServer S path P req =
     on_db (bindA (server_body P req) (\<lambda>t. thenA (check_server t) (retA t))) (Host_UnRegTrapServer S path)"

definition HostPlugin_VerifySnmp :: "('d, 's, 'n) trap_env \<Rightarrow> 'j plug_env \<Rightarrow> 'j request_msg \<Rightarrow> ('j, unit) act" where
  "HostPlugin_VerifySnmp E P req =
     bindA (get_head P SNMP_PROTOCOL_USER req) (\<lambda>name.
     bindA (get_head P SNMP_AUTH_PW req) (\<lambda>auth.
     bindA (get_head P SNMP_ENCRYPT_PW req) (\<lambda>priv.
     bindA (get_int P (m_msgBody req) ''authType'') (\<lambda>a.
     bindA (get_int P (m_msgBody req) ''encryptType'') (\<lambda>e.
     thenA (checkA (CheckParamInteger32 a 1 5 []))
     (thenA (checkA (CheckParamInteger32 e 1 4 []))
     (checkA (Host_VerifySnmp E \<lparr>sp_strPrivPassword = priv, sp_strAuthPassword = auth, sp_strSecurityName = name, sp_iSecurityModel = 0,
        sp_iAuthProtocol = a, sp_iPrivProtocol = e, sp_strEngineId = [], sp_strFilename = []\<rparr>))))))))"

section \<open>Logs\<close>

definition HostPlugin_CollectAgentLog :: "'j plug_env \<Rightarrow> host_env \<Rightarrow> log_collector \<times> 'j plug_state \<Rightarrow> (log_collector \<times> 'j plug_state) \<times> (int + unit)" where
  "HostPlugin_CollectAgentLog P H ls =
     (case ls of (l, s) \<Rightarrow> case ps_root s of (i, W) \<Rightarrow>
      case CollectLog (xe_files (pe_exec P)) H (pe_root P) l W of
        ((l, W), iRet) \<Rightarrow>
          (let s = s\<lparr>ps_root := (i, W)\<rparr> in
           if iRet \<noteq> MP_SUCCESS then ((l, s), Inl iRet)
           else ((l, s\<lparr>ps_rsp := jset (pe_mk P) (ps_rsp s) REST_PARAM_HOST_LOG_EXPORT_NAME (jstr (pe_mk P) (m_strLogName l))\<rparr>), Inr ())))"

text \<open>The file to export, as an attachment.\<close>

definition HostPlugin_ExportAgentLog :: "'j plug_env \<Rightarrow> log_collector \<Rightarrow> 'j request_msg \<Rightarrow> ('j, rsp_type) act" where
  "HostPlugin_ExportAgentLog P l req =
     bindA (get_string P (m_msgBody req) REST_PARAM_HOST_LOG_EXPORT_NAME) (\<lambda>strLogFileName.
     thenA (checkA (CheckParamString strLogFileName 1 254 [] file_name_exclude))
     (thenA (checkA (CheckParamStringEnd strLogFileName 1 254 ''.tar.gz''))
     (thenA (checkA (CheckPathString (GetTmpPath (pe_root P) @ PATH_SEPARATOR @ strLogFileName)))
     (thenA (whenA (\<not> CanDownloadLog l) ERROR_HOST_LOG_IS_BEENING_COLLECTED)
     (thenA (set_rsp P REST_PARAM_ATTACHMENT_NAME (jstr (pe_mk P) strLogFileName))
     (thenA (set_rsp P REST_PARAM_ATTACHMENT_PATH (jstr (pe_mk P) (GetTmpFilePath (pe_root P) strLogFileName)))
     (retA RSP_ATTACHMENT_TYPE)))))))"

end
