(* ===== verification/DeviceApp.thy ===== *)
theory DeviceApp
  imports HostPlug Plugins
begin

text \<open>
  Devices of a host, Linux: UDEV rules (\<^verbatim>\<open>Udev.cpp\<close>), links (\<^verbatim>\<open>Link.cpp\<close>), permissions
  (\<^verbatim>\<open>Permission.cpp\<close>), ASM (\<^verbatim>\<open>Asm.cpp\<close>) and raw devices (\<^verbatim>\<open>Raw.cpp\<close>), all under \<^verbatim>\<open>src/src/device\<close>, and
  \<^verbatim>\<open>CDisk::GetDevNameByWWN\<close>. What they ask the operating system is a record of parameters.
\<close>

abbreviation SECTION_NUM_TAG :: string where "SECTION_NUM_TAG \<equiv> ''123456789''"
abbreviation CHECK_RAW_DEVICE_COUNT :: nat where "CHECK_RAW_DEVICE_COUNT \<equiv> 1000"
abbreviation RAW_MAJOR :: int where "RAW_MAJOR \<equiv> 162"
abbreviation FILENAME_UDEVRULES :: string where "FILENAME_UDEVRULES \<equiv> ''99-oracle-asmdevices.rules''"
abbreviation dquote :: char where "dquote \<equiv> CHR 0x22"
abbreviation squote :: char where "squote \<equiv> CHR 0x27"

record device_env =
  dv_isdir :: "file_world \<Rightarrow> string \<Rightarrow> bool"
  dv_readlink :: "file_world \<Rightarrow> string \<Rightarrow> string option"
  dv_stat :: "file_world \<Rightarrow> string \<Rightarrow> (bool \<times> int \<times> int) option" \<comment> \<open>a character device, its major and minor number\<close>
  dv_appears :: "file_world \<Rightarrow> string \<Rightarrow> nat \<Rightarrow> bool" \<comment> \<open>whether a file is there at a look of \<^verbatim>\<open>WaitForFile\<close>\<close>
  dv_group :: "string \<Rightarrow> string option" \<comment> \<open>the first group of a user\<close>
  dv_mounts :: "file_world \<Rightarrow> (string \<times> string \<times> string) list option" \<comment> \<open>what \<^verbatim>\<open>getmntent\<close> reads of \<^verbatim>\<open>/proc/mounts\<close>\<close>
  dv_suse :: bool
  dv_fre_supp :: bool
  dv_host :: host_env

section \<open>Actions\<close>

text \<open>\<^verbatim>\<open>ROOT_EXEC\<close> without and with results, and a call whose code is an answer and not a way out.\<close>

definition root_do :: "'j plug_env \<Rightarrow> int \<Rightarrow> string \<Rightarrow> ('j, unit) act" where
  "root_do P iCommandID strParam = bindA (root_exec P iCommandID strParam None) (\<lambda>(_, iRet). checkA iRet)"

definition root_ask :: "'j plug_env \<Rightarrow> int \<Rightarrow> string \<Rightarrow> ('j, string list) act" where
  "root_ask P iCommandID strParam =
     bindA (root_exec P iCommandID strParam (Some [])) (\<lambda>(v, iRet). thenA (checkA iRet) (retA v))"

definition transA :: "('j, 'a) act \<Rightarrow> int \<Rightarrow> ('j, 'a) act" where
  "transA m code = catchA m (\<lambda>e. failA (TRANSFORM_RETURN_CODE e code))"

definition codeA :: "('j, unit) act \<Rightarrow> ('j, int) act" where
  "codeA m s = (case m s of None \<Rightarrow> None | Some (s, Inl e) \<Rightarrow> Some (s, Inr e) | Some (s, Inr _) \<Rightarrow> Some (s, Inr MP_SUCCESS))"

definition eitherA :: "('j, 'a) act \<Rightarrow> ('j, int + 'a) act" where
  "eitherA m s = (case m s of None \<Rightarrow> None | Some (s, r) \<Rightarrow> Some (s, Inr r))"

definition worldA :: "(file_world \<Rightarrow> 'a) \<Rightarrow> ('j, 'a) act" where
  "worldA f s = Some (s, Inr (f (snd (ps_root s))))"

definition sys :: "'j plug_env \<Rightarrow> string \<Rightarrow> ('j, int) act" where
  "sys P strCmd s =
     (case ps_root s of (i, W) \<Rightarrow>
      case ExecSystemWithoutEcho (pe_exec P) (pe_root P) strCmd True W of (W, iRet) \<Rightarrow> Some (s\<lparr>ps_root := (i, W)\<rparr>, Inr iRet))"

definition dir_exist :: "device_env \<Rightarrow> string \<Rightarrow> ('j, bool) act" where
  "dir_exist D p = worldA (\<lambda>W. dv_isdir D W (c_str p))"

definition WaitForFile :: "device_env \<Rightarrow> file_world \<Rightarrow> string \<Rightarrow> nat \<Rightarrow> bool" where
  "WaitForFile D W p iSleepCount = list_ex (dv_appears D W p) [0..<iSleepCount]"

section \<open>The device of a LUN\<close>

text \<open>
  The name in and out: it keeps its value when no disk has the LUN, and a name that was there already
  hides that nothing was found.
\<close>

fun dev_by_wwn :: "'j plug_env \<Rightarrow> string \<Rightarrow> string list \<Rightarrow> string \<Rightarrow> string \<Rightarrow> string \<Rightarrow> string \<Rightarrow> string \<Rightarrow> ('j, string) act" where
  "dev_by_wwn P strWWN [] strDevName strVendor strProduct strLunWWN strLunID = retA strDevName"
| "dev_by_wwn P strWWN (d # ds) strDevName strVendor strProduct strLunWWN strLunID =
     (let strNewDiskName = ''/dev/'' @ d in
      bindA (tryA (GetArrayVendorAndProduct P strNewDiskName strVendor strProduct)) (\<lambda>r.
      case r of
        None \<Rightarrow> dev_by_wwn P strWWN ds strDevName strVendor strProduct strLunWWN strLunID
      | Some (v, p) \<Rightarrow>
          let strVendor = trim_in_place v; strProduct = trim_in_place p in
          if \<not> huawei_vendor strVendor then dev_by_wwn P strWWN ds strDevName strVendor strProduct strLunWWN strLunID
          else bindA (GetLunInfo P strNewDiskName strLunWWN strLunID) (\<lambda>(strLunWWN, strLunID).
               if str_find strLunWWN strWWN \<noteq> None then retA d
               else dev_by_wwn P strWWN ds strDevName strVendor strProduct strLunWWN strLunID)))"

definition GetDevNameByWWN :: "'j plug_env \<Rightarrow> string \<Rightarrow> string \<Rightarrow> ('j, string) act" where
  "GetDevNameByWWN P strDevName strWWN =
     bindA (GetAllDiskName P) (\<lambda>vecDiskName.
     bindA (dev_by_wwn P strWWN vecDiskName strDevName [] [] [] []) (\<lambda>strDevName.
     thenA (whenA (strDevName = []) ERROR_COMMON_DEVICE_NOT_EXIST) (retA strDevName)))"

section \<open>UDEV rules\<close>

definition GetUdevRulesFileName :: "'j plug_env \<Rightarrow> ('j, string) act" where
  "GetUdevRulesFileName P =
     bindA (root_ask P ROOT_COMMAND_CAT
       ('' /etc/udev/udev.conf|grep udev_rules|grep -v '#'|awk -F '' @ dquote # ''='' @ dquote # '' '{print $2}'' @ [squote])) (\<lambda>vecResult.
     retA (case vecResult of
             [] \<Rightarrow> ''/etc/udev/rules.d/99-oracle-asmdevices.rules''
           | d # _ \<Rightarrow> filter (\<lambda>c. c \<noteq> dquote \<and> c \<noteq> CHR '' '') d @ FILENAME_UDEVRULES))"

definition escape :: "string \<Rightarrow> string \<Rightarrow> string" where
  "escape cs s = concat (map (\<lambda>c. if c \<in> set cs then [CHR 0x5C, c] else [c]) s)"

text \<open>The rule with the WWN of the LUN behind \<open>RESULT=="3\<close>, when there is such a place in it.\<close>

definition rule_with_wwn :: "string \<Rightarrow> string \<Rightarrow> string option" where
  "rule_with_wwn strUdevRule strLowerWWN =
     (case str_find (''RESULT=='' @ dquote # ''3'') strUdevRule of
        None \<Rightarrow> None
      | Some i \<Rightarrow>
          let idxSep = i + 10 in
          (case str_find [dquote] (drop idxSep strUdevRule) of
             None \<Rightarrow> None
           | Some j \<Rightarrow> Some (take idxSep strUdevRule @ strLowerWWN @ drop (idxSep + j) strUdevRule)))"

definition udev_add :: "'j plug_env \<Rightarrow> string \<Rightarrow> string \<Rightarrow> ('j, unit) act" where
  "udev_add P strUdevRulesFileName strRealUdevRule =
     bindA (transA (root_ask P ROOT_COMMAND_CAT
         ('' '' @ strUdevRulesFileName @ ''| grep '' @ squote # ''^'' @ escape ''*'' strRealUdevRule @ ''$'' @ [squote])) ERROR_DEVICE_UDEV_CREATE_FAILED) (\<lambda>vecResult.
     if vecResult \<noteq> [] then retA ()
     else run_root P ROOT_COMMAND_ECHO
       ('' '' @ escape (dquote # ''$'') strRealUdevRule @ ''>> '' @ dquote # strUdevRulesFileName @ [dquote]) ERROR_DEVICE_UDEV_CREATE_FAILED)"

text \<open>\<^verbatim>\<open>ToLower\<close> works on the text of the caller: the WWN is returned with the code.\<close>

definition lower_in_place :: "string \<Rightarrow> string" where
  "lower_in_place s = ToLower (c_str s) @ drop (length (c_str s)) s"

definition Udev_Create :: "'j plug_env \<Rightarrow> string \<Rightarrow> string \<Rightarrow> ('j, string \<times> int) act" where
  "Udev_Create P strUdevRule strWWN =
     bindA (eitherA (transA (GetUdevRulesFileName P) ERROR_DEVICE_UDEV_CREATE_FAILED)) (\<lambda>r.
     case r of
       Inl iRet \<Rightarrow> retA (strWWN, iRet)
     | Inr strUdevRulesFileName \<Rightarrow>
         (case rule_with_wwn strUdevRule (ToLower (c_str strWWN)) of
            None \<Rightarrow> retA (strWWN, ERROR_DEVICE_UDEV_CREATE_FAILED)
          | Some strRealUdevRule \<Rightarrow>
              bindA (codeA (udev_add P strUdevRulesFileName strRealUdevRule)) (\<lambda>iRet. retA (lower_in_place strWWN, iRet))))"

definition Udev_Delete :: "'j plug_env \<Rightarrow> string \<Rightarrow> string \<Rightarrow> ('j, string \<times> int) act" where
  "Udev_Delete P strUdevRule strWWN =
     bindA (eitherA (transA (GetUdevRulesFileName P) ERROR_DEVICE_UDEV_DELETE_FAILED)) (\<lambda>r.
     case r of
       Inl iRet \<Rightarrow> retA (strWWN, iRet)
     | Inr strUdevRulesFileName \<Rightarrow>
         bindA (codeA (run_root P ROOT_COMMAND_SED ('' -i /'' @ ToLower (c_str strWWN) @ ''/d '' @ strUdevRulesFileName)
           ERROR_DEVICE_UDEV_DELETE_FAILED)) (\<lambda>iRet. retA (lower_in_place strWWN, iRet)))"

definition Udev_ReloadRules :: "'j plug_env \<Rightarrow> ('j, unit) act" where
  "Udev_ReloadRules P =
     bindA (root_exec P ROOT_COMMAND_UDEV_RELOAD_RULES [] None) (\<lambda>(_, iRet). if iRet \<noteq> MP_SUCCESS then failA MP_FAILED else retA ())"

section \<open>Links\<close>

record link_info =
  li_wwn :: string
  li_slaveDevName :: string
  li_softLinkName :: string

definition GetDeviceUsedByLink :: "device_env \<Rightarrow> string \<Rightarrow> ('j, string) act" where
  "GetDeviceUsedByLink D strLinkFileName =
     bindA (worldA (\<lambda>W. dv_readlink D W (c_str strLinkFileName))) (\<lambda>r.
     case r of None \<Rightarrow> failA MP_FAILED | Some t \<Rightarrow> retA (c_str (take 1024 t)))"

definition Link_Create :: "device_env \<Rightarrow> 'j plug_env \<Rightarrow> link_info \<Rightarrow> ('j, unit) act" where
  "Link_Create D P l =
     bindA (file_there (li_slaveDevName l)) (\<lambda>ex.
     thenA (whenA (\<not> ex) ERROR_COMMON_DEVICE_NOT_EXIST)
     (bindA (dir_exist D (li_softLinkName l)) (\<lambda>dir.
     thenA (whenA dir ERROR_DEVICE_LINK_USED_BY_OTHER_DEV)
     (bindA (file_there (li_softLinkName l)) (\<lambda>ex.
     if ex
     then bindA (transA (GetDeviceUsedByLink D (li_softLinkName l)) ERROR_DEVICE_FILESYS_GET_DEV_FAILED) (\<lambda>strUsedDevByLink.
          whenA (strUsedDevByLink \<noteq> li_slaveDevName l) ERROR_DEVICE_LINK_USED_BY_OTHER_DEV)
     else run_root P ROOT_COMMAND_LN (li_slaveDevName l @ '' '' @ li_softLinkName l) ERROR_DEVICE_LINK_CREATE_FAILED)))))"

definition Link_Delete :: "'j plug_env \<Rightarrow> link_info \<Rightarrow> ('j, unit) act" where
  "Link_Delete P l =
     bindA (file_there (li_softLinkName l)) (\<lambda>ex.
     if \<not> ex then retA () else run_root P ROOT_COMMAND_RM (li_softLinkName l) ERROR_DEVICE_LINK_DELETE_FAILED)"

section \<open>Permissions and ASM\<close>

record permission_info =
  pm_strDevName :: string
  pm_strUserName :: string
  pm_strMod :: string

definition Permission_Chown :: "device_env \<Rightarrow> 'j plug_env \<Rightarrow> permission_info \<Rightarrow> ('j, unit) act" where
  "Permission_Chown D P i =
     (case dv_group D (c_str (pm_strUserName i)) of
        None \<Rightarrow> failA MP_FAILED
      | Some strGroupName \<Rightarrow> root_do P ROOT_COMMAND_CHOWN (pm_strUserName i @ '':'' @ strGroupName @ '' '' @ pm_strDevName i))"

definition Permission_Chmod :: "'j plug_env \<Rightarrow> permission_info \<Rightarrow> ('j, unit) act" where
  "Permission_Chmod P i = root_do P ROOT_COMMAND_CHMOD (pm_strMod i @ '' '' @ pm_strDevName i)"

definition Permission_Set :: "device_env \<Rightarrow> 'j plug_env \<Rightarrow> permission_info \<Rightarrow> ('j, unit) act" where
  "Permission_Set D P i =
     thenA (if pm_strMod i \<noteq> [] then transA (Permission_Chmod P i) ERROR_DEVICE_PERMISSION_SET_FAILED else retA ())
     (if pm_strUserName i \<noteq> [] then transA (Permission_Chown D P i) ERROR_DEVICE_PERMISSION_SET_FAILED else retA ())"

definition AsmLibScan :: "'j plug_env \<Rightarrow> ('j, unit) act" where
  "AsmLibScan P = run_root P ROOT_COMMAND_SCANASMLIB [] ERROR_DEVICE_ASM_SCAN_ASMLIB_FAILED"

section \<open>Raw devices\<close>

record raw_info =
  ri_strLunWWN :: string
  ri_strDevName :: string
  ri_strRawDevPath :: string

definition StartRawService :: "device_env \<Rightarrow> 'j plug_env \<Rightarrow> ('j, unit) act" where
  "StartRawService D P =
     (if dv_suse D
      then bindA (root_exec P ROOT_COMMAND_LSMOD (''|grep '' @ squote # ''^raw'' @ [squote]) None) (\<lambda>(_, iRet).
           if iRet = MP_SUCCESS then retA () else root_do P ROOT_COMMAND_SERVICE ''raw start'')
      else retA ())"

definition GetBoundedDevVersions :: "device_env \<Rightarrow> 'j plug_env \<Rightarrow> string \<Rightarrow> ('j, int \<times> int) act" where
  "GetBoundedDevVersions D P strRawDevPath =
     bindA (worldA (\<lambda>W. dv_stat D W (c_str strRawDevPath))) (\<lambda>sb.
     case sb of
       None \<Rightarrow> failA MP_FAILED
     | Some (is_chr, iMajor, iMinor) \<Rightarrow>
         thenA (whenA (\<not> is_chr) MP_FAILED)
         (thenA (whenA (iMajor \<noteq> RAW_MAJOR) MP_FAILED)
         (bindA (root_ask P ROOT_COMMAND_RAW_MINOR_MAJOR (IntToString iMinor)) (\<lambda>vecRlt.
          case vecRlt of
            [a, b] \<Rightarrow> retA (atoi (c_str a), atoi (c_str b))
          | _ \<Rightarrow> failA MP_FAILED))))"

text \<open>The first file of the folder with the two numbers; a file without numbers ends the search.\<close>

fun find_device :: "device_env \<Rightarrow> file_world \<Rightarrow> string list \<Rightarrow> int \<times> int \<Rightarrow> int + string" where
  "find_device D W [] n = Inr []"
| "find_device D W (f # fs) n =
     (let strFilePath = ''/dev'' @ PATH_SEPARATOR @ f in
      case dv_stat D W (c_str strFilePath) of
        None \<Rightarrow> Inl MP_FAILED
      | Some (_, m) \<Rightarrow> if m = n then Inr strFilePath else find_device D W fs n)"

definition GetDeviceUsedByRaw :: "device_env \<Rightarrow> 'j plug_env \<Rightarrow> string \<Rightarrow> ('j, string) act" where
  "GetDeviceUsedByRaw D P strRawDevPath =
     bindA (GetBoundedDevVersions D P strRawDevPath) (\<lambda>n.
     bindA (worldA (\<lambda>W. GetFolderFile (dv_host D) W ''/dev'' [])) (\<lambda>(vecFileNames, iRet).
     thenA (checkA iRet)
     (bindA (worldA (\<lambda>W. find_device D W vecFileNames n)) (\<lambda>r. case r of Inl e \<Rightarrow> failA e | Inr d \<Rightarrow> retA d))))"

definition Raw_Delete :: "'j plug_env \<Rightarrow> raw_info \<Rightarrow> ('j, unit) act" where
  "Raw_Delete P i =
     bindA (file_there (ri_strRawDevPath i)) (\<lambda>ex.
     if \<not> ex then retA () else run_root P ROOT_COMMAND_RAW (ri_strRawDevPath i @ '' 0 0'') ERROR_DEVICE_RAW_DELETE_FAILED)"

text \<open>
  The device is looked up by the WWN of its LUN, but the name that is found is not used: the raw device
  is bound to the name of the request.
\<close>

definition bind_raw :: "device_env \<Rightarrow> 'j plug_env \<Rightarrow> raw_info \<Rightarrow> ('j, unit) act" where
  "bind_raw D P i =
     thenA (transA (GetDevNameByWWN P [] (ri_strLunWWN i)) ERROR_COMMON_NOT_HUAWEI_LUN)
     (thenA (run_root P ROOT_COMMAND_RAW (ri_strRawDevPath i @ '' '' @ ri_strDevName i) ERROR_DEVICE_RAW_CREATE_FAILED)
     (bindA (worldA (\<lambda>W. WaitForFile D W (c_str (ri_strRawDevPath i)) CHECK_RAW_DEVICE_COUNT)) (\<lambda>ex.
      whenA (\<not> ex) ERROR_COMMON_DEVICE_NOT_EXIST)))"

definition Raw_Create :: "device_env \<Rightarrow> 'j plug_env \<Rightarrow> raw_info \<Rightarrow> ('j, unit) act" where
  "Raw_Create D P i =
     thenA (transA (StartRawService D P) ERROR_DEVICE_RAW_START_FAILED)
     (bindA (file_there (ri_strRawDevPath i)) (\<lambda>ex.
      if \<not> ex then bind_raw D P i
      else bindA (transA (GetDeviceUsedByRaw D P (ri_strRawDevPath i)) ERROR_DEVICE_FILESYS_GET_DEV_FAILED) (\<lambda>strUsedDevByRaw.
           if ri_strDevName i = strUsedDevByRaw then retA ()
           else if strUsedDevByRaw \<noteq> [] then failA ERROR_DEVICE_RAW_USED_BY_OTHER_DEV
           else thenA (transA (Raw_Delete P i) ERROR_DEVICE_RAW_DELETE_FAILED) (bind_raw D P i))))"

end
