(* ===== verification/LvmApp.thy ===== *)
theory LvmApp
  imports DeviceApp
begin

text \<open>
  Volume groups: \<^verbatim>\<open>CLvm\<close> (\<^verbatim>\<open>src/src/device/Lvm.cpp\<close>) as it is compiled on Linux, where the functions for the
  other systems are there too but for their parts under \<^verbatim>\<open>HP_UX_IA\<close> and \<^verbatim>\<open>SOLARIS\<close>.
\<close>

abbreviation VOLUME_TYPE_SIMPLE :: int where "VOLUME_TYPE_SIMPLE \<equiv> 0"
abbreviation VOLUME_TYPE_LINUX_LVM :: int where "VOLUME_TYPE_LINUX_LVM \<equiv> 1"
abbreviation VOLUME_TYPE_LINUX_VXVM :: int where "VOLUME_TYPE_LINUX_VXVM \<equiv> 2"
abbreviation VOLUME_TYPE_AIX_LVM :: int where "VOLUME_TYPE_AIX_LVM \<equiv> 3"
abbreviation VOLUME_TYPE_HP_LVM :: int where "VOLUME_TYPE_HP_LVM \<equiv> 4"
abbreviation ALONE_TO_ALONE :: int where "ALONE_TO_ALONE \<equiv> 0"
abbreviation ALONE_TO_CLUSTER :: int where "ALONE_TO_CLUSTER \<equiv> 1"
abbreviation CLUSTER_TO_CLUSTER :: int where "CLUSTER_TO_CLUSTER \<equiv> 3"
abbreviation CLUSTER_TO_ALONE :: int where "CLUSTER_TO_ALONE \<equiv> 2"

record vg_info =
  vg_strVolType :: string
  vg_strVgName :: string
  vg_strMapInfo :: string
  vg_vecPvs :: "string list"

section \<open>Queries\<close>

definition QueryVgInfo_LLVM :: "'j plug_env \<Rightarrow> vg_info \<Rightarrow> ('j, vg_info) act" where
  "QueryVgInfo_LLVM P v =
     bindA (root_exec P ROOT_COMMAND_PVS
       ('' | awk '' @ squote # ''$2 == '' @ dquote # vg_strVgName v @ dquote # '' {print $1}'' @ [squote]) (Some [])) (\<lambda>(vecPvname, iRet).
     if iRet \<noteq> MP_SUCCESS \<or> vecPvname = [] then failA ERROR_DEVICE_LVM_QUERY_VG_STATUS_FAILED
     else retA (v\<lparr>vg_vecPvs := vg_vecPvs v @ vecPvname\<rparr>))"

definition QueryVgInfo :: "'j plug_env \<Rightarrow> vg_info \<Rightarrow> ('j, vg_info) act" where
  "QueryVgInfo P v =
     (let iVolType = atoi (c_str (vg_strVolType v)) in
      if iVolType = VOLUME_TYPE_LINUX_LVM then QueryVgInfo_LLVM P v
      else if iVolType = VOLUME_TYPE_HP_LVM then retA v
      else failA ERROR_COMMON_INVALID_PARAM)"

definition IsVgExported :: "'j plug_env \<Rightarrow> string \<Rightarrow> ('j, bool) act" where
  "IsVgExported P strVgName =
     bindA (root_ask P ROOT_COMMAND_VGDISPLAY
       (squote # strVgName @ squote # '' 2>/dev/null | grep '' @ squote # ''VG Status'' @ squote # '' | awk '' @ squote # ''{print $3}'' @ [squote])) (\<lambda>vecEcho.
     if vecEcho = [] then failA MP_FAILED
     else retA (list_ex (\<lambda>strState. str_find ''exported'' strState \<noteq> None) vecEcho))"

definition IsVgExist :: "'j plug_env \<Rightarrow> string \<Rightarrow> ('j, bool) act" where
  "IsVgExist P strVgName = bindA (root_exec P ROOT_COMMAND_VGS strVgName None) (\<lambda>(_, iRet). retA (iRet = MP_SUCCESS))"

text \<open>
  The names of the groups of a disk or of a volume, into a vector that may hold names already; of the
  partitions of a disk the codes are not looked at.
\<close>

fun pvs_loop :: "'j plug_env \<Rightarrow> string list \<Rightarrow> string list \<Rightarrow> ('j, string list) act" where
  "pvs_loop P [] vecVgName = retA vecVgName"
| "pvs_loop P (d # ds) vecVgName =
     bindA (root_exec P ROOT_COMMAND_PVS
       (squote # ''/dev/'' @ d @ squote # ''| grep -v '' @ squote # ''PV'' @ squote # '' | awk '' @ squote # ''{print $2}'' @ [squote]) (Some vecVgName)) (\<lambda>(vecVgName, _).
     pvs_loop P ds vecVgName)"

definition GetVgName_LLVM :: "'j plug_env \<Rightarrow> string \<Rightarrow> string list \<Rightarrow> ('j, string list) act" where
  "GetVgName_LLVM P strDevice vecVgName =
     bindA
       (if IsSdisk strDevice
        then bindA (echo P (''cat /proc/partitions  | grep -e '' @ squote # strDevice @ squote # ''|awk '' @ squote # ''{print $4}'' @ [squote])) (\<lambda>(vecDiskName, iRet).
             thenA (checkA iRet)
             (thenA (whenA (vecDiskName = []) MP_FAILED)
             (pvs_loop P vecDiskName vecVgName)))
        else bindA (root_exec P ROOT_COMMAND_LVS
               (squote # strDevice @ squote # ''| grep -v '' @ squote # ''LV'' @ squote # '' | awk '' @ squote # ''{print $2}'' @ [squote]) (Some vecVgName)) (\<lambda>(vecVgName, iRet).
             thenA (checkA iRet) (retA vecVgName)))
     (\<lambda>vecVgName. if vecVgName = [] then failA MP_FAILED else retA vecVgName)"

definition GetVgName_ALVM :: "'j plug_env \<Rightarrow> string \<Rightarrow> ('j, string) act" where
  "GetVgName_ALVM P strDevice =
     bindA (echo P (''lspv | awk '' @ squote # ''$1=='' @ dquote # strDevice @ dquote # '' {print $1}'' @ [squote])) (\<lambda>(vecDevName, iRet).
     thenA (checkA iRet)
     (bindA (echo P (if vecDevName = []
         then ''lslv -L '' @ squote # strDevice @ squote # '' | grep '' @ squote # ''VOLUME GROUP:'' @ squote # '' | awk '' @ squote # ''{print $6}'' @ [squote]
         else ''lspv | awk '' @ squote # ''$1=='' @ dquote # strDevice @ dquote # '' {print $3}'' @ [squote])) (\<lambda>(vecVgName, iRet).
      thenA (checkA iRet) (caseA (case vecVgName of [] \<Rightarrow> None | v # _ \<Rightarrow> Some v) MP_FAILED))))"

text \<open>A group that no line of \<^verbatim>\<open>vxdg list\<close> starts with is exported; a line without a blank ends the query.\<close>

fun vxdg_lines :: "string \<Rightarrow> string list \<Rightarrow> int + bool" where
  "vxdg_lines strVgName [] = Inr True"
| "vxdg_lines strVgName (l # ls) =
     (case str_find '' '' l of
        None \<Rightarrow> Inl ERROR_DEVICE_VXVM_QUERY_DG_STATUS_FAILED
      | Some idxSep \<Rightarrow> if take idxSep l = strVgName then Inr False else vxdg_lines strVgName ls)"

definition IsVgExported_VXVM :: "'j plug_env \<Rightarrow> string \<Rightarrow> ('j, bool) act" where
  "IsVgExported_VXVM P strVgName =
     bindA (root_exec P ROOT_COMMAND_VXDG_LIST [] (Some [])) (\<lambda>(vecVgInfo, iRet).
     if iRet \<noteq> MP_SUCCESS \<or> vecVgInfo = [] then failA ERROR_DEVICE_VXVM_QUERY_DG_STATUS_FAILED
     else case vxdg_lines strVgName vecVgInfo of Inl e \<Rightarrow> failA e | Inr b \<Rightarrow> retA b)"

section \<open>Import\<close>

text \<open>
  The loops \<^verbatim>\<open>while (--cycle)\<close> from three: at most two rounds; a round says whether it was the last one.
\<close>

fun cycles :: "nat \<Rightarrow> ('j, bool) act \<Rightarrow> int \<Rightarrow> ('j, unit) act" where
  "cycles 0 round code = failA code"
| "cycles (Suc n) round code = bindA round (\<lambda>last. if last then retA () else cycles n round code)"

text \<open>The device, the names and the name found stay from one LUN to the next.\<close>

fun vg_status_loop :: "'j plug_env \<Rightarrow> string \<Rightarrow> string list \<Rightarrow> string \<Rightarrow> string list \<Rightarrow> string \<Rightarrow> nat \<Rightarrow> ('j, nat) act" where
  "vg_status_loop P strVgName [] strDeviceName vecRealVgName strRealVgName iSuccessTimes = retA iSuccessTimes"
| "vg_status_loop P strVgName (w # ws) strDeviceName vecRealVgName strRealVgName iSuccessTimes =
     bindA (transA (GetDevNameByWWN P strDeviceName w) ERROR_COMMON_NOT_HUAWEI_LUN) (\<lambda>strDeviceName.
     bindA (transA (GetVgName_LLVM P strDeviceName vecRealVgName) ERROR_DEVICE_LVM_QUERY_VG_STATUS_FAILED) (\<lambda>vecRealVgName.
     let strRealVgName = (if strVgName \<in> set vecRealVgName then strVgName else strRealVgName) in
     thenA (whenA (strRealVgName = []) ERROR_COMMON_INVALID_PARAM)
     (bindA (transA (IsVgExported P strRealVgName) ERROR_DEVICE_LVM_QUERY_VG_STATUS_FAILED) (\<lambda>bIsExported.
      vg_status_loop P strVgName ws strDeviceName vecRealVgName strRealVgName
        (if bIsExported then iSuccessTimes else iSuccessTimes + 1)))))"

definition CheckVgStatus_LLVM :: "'j plug_env \<Rightarrow> string \<Rightarrow> string list \<Rightarrow> ('j, nat) act" where
  "CheckVgStatus_LLVM P strVgName vecWWN = vg_status_loop P strVgName vecWWN [] [] [] 0"

definition ImportVg_LLVM :: "'j plug_env \<Rightarrow> string \<Rightarrow> string list \<Rightarrow> ('j, unit) act" where
  "ImportVg_LLVM P strVgName vecWWN =
     cycles 2 (bindA (CheckVgStatus_LLVM P strVgName vecWWN) (\<lambda>iSuccessTimes.
       if length vecWWN = iSuccessTimes then retA True
       else bindA (root_exec P ROOT_COMMAND_VGIMPORT strVgName None) (\<lambda>(_, iRet). retA (iRet = MP_SUCCESS))))
     ERROR_DEVICE_LVM_IMPORT_VG_FAILED"

definition WriteVgMapInfo :: "'j plug_env \<Rightarrow> string \<Rightarrow> string \<Rightarrow> ('j, unit) act" where
  "WriteVgMapInfo P strMapInfo strMapInfoFile =
     (case str_find [CHR 0x0A] strMapInfo of
        None \<Rightarrow> failA MP_FAILED
      | Some idxSep \<Rightarrow>
          thenA (root_do P ROOT_COMMAND_ECHO ('' '' @ dquote # take idxSep strMapInfo @ dquote # ''>'' @ strMapInfoFile))
          (root_do P ROOT_COMMAND_ECHO ('' '' @ dquote # drop (idxSep + 1) strMapInfo @ dquote # ''>>'' @ strMapInfoFile)))"

text \<open>
  On Linux \<^verbatim>\<open>GetSecPvName\<close> and \<^verbatim>\<open>GetVgName_HLVM\<close> leave their results as they are, so that no group is found and
  every name of a second disk is empty; there is a WWN for every name of a first disk, or the iterator
  runs over the end.
\<close>

fun hlvm_loop :: "'j plug_env \<Rightarrow> string list \<Rightarrow> string list \<Rightarrow> string \<Rightarrow> string \<Rightarrow> ('j, string) act" where
  "hlvm_loop P [] ws strLegacyDisk strAllSecPvName = retA strAllSecPvName"
| "hlvm_loop P (p # ps) [] strLegacyDisk strAllSecPvName = crashA"
| "hlvm_loop P (p # ps) (w # ws) strLegacyDisk strAllSecPvName =
     bindA (transA (GetDevNameByWWN P strLegacyDisk w) ERROR_COMMON_NOT_HUAWEI_LUN) (\<lambda>strLegacyDisk.
     hlvm_loop P ps ws strLegacyDisk (strAllSecPvName @ '' ''))"

definition ImportVg_HLVM :: "'j plug_env \<Rightarrow> string list \<Rightarrow> string \<Rightarrow> string \<Rightarrow> string list \<Rightarrow> ('j, unit) act" where
  "ImportVg_HLVM P vecPriPvName strVgName strMapInfo vecWWN =
     (let strMapInfoFile = dquote # GetTmpPath (pe_root P) @ PATH_SEPARATOR @ strVgName @ ''.map'' @ [dquote] in
      thenA (elseA (WriteVgMapInfo P strMapInfo strMapInfoFile) ERROR_DEVICE_LVM_IMPORT_VG_FAILED)
      (bindA (hlvm_loop P vecPriPvName vecWWN [] []) (\<lambda>strAllSecPvName.
       if vecPriPvName = [] then retA ()
       else run_root P ROOT_COMMAND_VGIMPORT ('' -m '' @ strMapInfoFile @ '' -v '' @ strVgName @ '' '' @ strAllSecPvName)
         ERROR_DEVICE_LVM_IMPORT_VG_FAILED)))"

fun alvm_loop :: "'j plug_env \<Rightarrow> string \<Rightarrow> string list \<Rightarrow> string \<Rightarrow> nat \<Rightarrow> ('j, string \<times> nat) act" where
  "alvm_loop P strVgName [] strDeviceName iSuccessTimes = retA (strDeviceName, iSuccessTimes)"
| "alvm_loop P strVgName (w # ws) strDeviceName iSuccessTimes =
     bindA (transA (GetDevNameByWWN P strDeviceName w) ERROR_COMMON_NOT_HUAWEI_LUN) (\<lambda>strDeviceName.
     bindA (transA (GetVgName_ALVM P strDeviceName) ERROR_DEVICE_LVM_QUERY_VG_STATUS_FAILED) (\<lambda>strRealVgName.
     if strRealVgName = ''None'' then alvm_loop P strVgName ws strDeviceName iSuccessTimes
     else thenA (whenA (strRealVgName \<noteq> strVgName) ERROR_COMMON_INVALID_PARAM)
       (alvm_loop P strVgName ws strDeviceName (iSuccessTimes + 1))))"

definition ImportVg_ALVM :: "'j plug_env \<Rightarrow> string \<Rightarrow> string list \<Rightarrow> ('j, unit) act" where
  "ImportVg_ALVM P strVgName vecWWN =
     bindA (alvm_loop P strVgName vecWWN [] 0) (\<lambda>(strDeviceName, iSuccessTimes).
     if length vecWWN = iSuccessTimes then retA ()
     else run_root P ROOT_COMMAND_IMPORTVG (''-y '' @ strVgName @ '' -n '' @ strDeviceName) ERROR_DEVICE_LVM_IMPORT_VG_FAILED)"

definition ImportVg_VXVM :: "'j plug_env \<Rightarrow> string \<Rightarrow> ('j, unit) act" where
  "ImportVg_VXVM P strVgName =
     bindA (transA (IsVgExported_VXVM P strVgName) ERROR_DEVICE_VXVM_QUERY_DG_STATUS_FAILED) (\<lambda>bIsExported.
     if bIsExported then run_root P ROOT_COMMAND_VXDG_IMPORT strVgName ERROR_DEVICE_VXVM_IMPORT_DG_FAILED else retA ())"

definition ImportVg :: "'j plug_env \<Rightarrow> string list \<Rightarrow> string \<Rightarrow> int \<Rightarrow> string \<Rightarrow> string list \<Rightarrow> ('j, unit) act" where
  "ImportVg P vecPriPvName strVgName iVolType strMapInfo vecWWN =
     (if iVolType = VOLUME_TYPE_LINUX_LVM then ImportVg_LLVM P strVgName vecWWN
      else if iVolType = VOLUME_TYPE_AIX_LVM then ImportVg_ALVM P strVgName vecWWN
      else if iVolType = VOLUME_TYPE_HP_LVM then ImportVg_HLVM P vecPriPvName strVgName strMapInfo vecWWN
      else if iVolType = VOLUME_TYPE_LINUX_VXVM then ImportVg_VXVM P strVgName
      else failA MP_FAILED)"

section \<open>Export\<close>

definition ExportVg_LLVM :: "'j plug_env \<Rightarrow> string \<Rightarrow> ('j, unit) act" where
  "ExportVg_LLVM P strVgName =
     cycles 2 (bindA (IsVgExist P strVgName) (\<lambda>ex.
       if \<not> ex then retA True
       else bindA (transA (IsVgExported P strVgName) ERROR_DEVICE_LVM_EXPORT_VG_FAILED) (\<lambda>bExported.
            if bExported then retA True
            else bindA (root_exec P ROOT_COMMAND_VGEXPORT strVgName None) (\<lambda>(_, iRet). retA (iRet = MP_SUCCESS)))))
     ERROR_DEVICE_LVM_EXPORT_VG_FAILED"

definition ExportVg_HLVM :: "'j plug_env \<Rightarrow> string \<Rightarrow> ('j, unit) act" where
  "ExportVg_HLVM P strVgName =
     bindA (transA (IsVgExported P strVgName) ERROR_DEVICE_LVM_EXPORT_VG_FAILED) (\<lambda>bExported.
     if bExported then retA () else run_root P ROOT_COMMAND_VGEXPORT strVgName ERROR_DEVICE_LVM_EXPORT_VG_FAILED)"

fun remove_devices :: "'j plug_env \<Rightarrow> string list \<Rightarrow> ('j, unit) act" where
  "remove_devices P [] = retA ()"
| "remove_devices P (d # ds) = bindA (root_exec P ROOT_COMMAND_RMDEV (''-dl '' @ d) None) (\<lambda>_. remove_devices P ds)"

definition ExportVg_ALVM :: "'j plug_env \<Rightarrow> string \<Rightarrow> ('j, unit) act" where
  "ExportVg_ALVM P strVgName =
     bindA (echo P (''lsvg | awk '' @ squote # ''$1=='' @ dquote # strVgName @ dquote # [squote])) (\<lambda>(vgs, iRet).
     thenA (whenA (iRet \<noteq> MP_SUCCESS) ERROR_DEVICE_LVM_EXPORT_VG_FAILED)
     (bindA (echo P (''lspv | awk '' @ squote # ''$3=='' @ dquote # strVgName @ dquote # '' {print $1}'' @ [squote])) (\<lambda>(vecRlt, iRet).
      thenA (whenA (iRet \<noteq> MP_SUCCESS) ERROR_DEVICE_LVM_EXPORT_VG_FAILED)
      (thenA (if vgs = [] \<and> vecRlt = [] then retA () else run_root P ROOT_COMMAND_EXPORTVG strVgName ERROR_DEVICE_LVM_EXPORT_VG_FAILED)
      (remove_devices P vecRlt)))))"

definition ExportVg_VXVM :: "'j plug_env \<Rightarrow> string \<Rightarrow> ('j, unit) act" where
  "ExportVg_VXVM P strVgName =
     bindA (transA (IsVgExported_VXVM P strVgName) ERROR_DEVICE_VXVM_QUERY_DG_STATUS_FAILED) (\<lambda>bIsExported.
     if bIsExported then retA () else run_root P ROOT_COMMAND_VXDG_DEPORT strVgName ERROR_DEVICE_VXVM_EXPORT_DG_FAILED)"

definition ExportVg :: "'j plug_env \<Rightarrow> string \<Rightarrow> int \<Rightarrow> ('j, unit) act" where
  "ExportVg P strVgName iVolType =
     (if iVolType = VOLUME_TYPE_LINUX_LVM then ExportVg_LLVM P strVgName
      else if iVolType = VOLUME_TYPE_AIX_LVM then ExportVg_ALVM P strVgName
      else if iVolType = VOLUME_TYPE_HP_LVM then ExportVg_HLVM P strVgName
      else if iVolType = VOLUME_TYPE_LINUX_VXVM then ExportVg_VXVM P strVgName
      else failA MP_FAILED)"

section \<open>Activation\<close>

definition vgchange :: "'j plug_env \<Rightarrow> string \<Rightarrow> ('j, unit) act" where
  "vgchange P strParam = run_root P ROOT_COMMAND_VGCHANGE strParam ERROR_DEVICE_LVM_ACTIVE_VG_FAILED"

definition ActivateVg_LLVM :: "'j plug_env \<Rightarrow> string \<Rightarrow> ('j, unit) act" where
  "ActivateVg_LLVM P strVgName = vgchange P (''-a y '' @ strVgName)"

definition ActivateVg_ALVM :: "'j plug_env \<Rightarrow> string \<Rightarrow> ('j, unit) act" where
  "ActivateVg_ALVM P strVgName =
     bindA (sys P (''lsvg '' @ strVgName)) (\<lambda>iRet.
     if iRet = MP_SUCCESS then retA () else root_do P ROOT_COMMAND_VARYONVG strVgName)"

definition ActivateVg_HLVM :: "'j plug_env \<Rightarrow> string \<Rightarrow> string \<Rightarrow> int \<Rightarrow> ('j, unit) act" where
  "ActivateVg_HLVM P strVgName strVgActiveMode iRecoverType =
     (let alone = '' -a y '' @ strVgName; mode = '' '' @ strVgActiveMode @ '' '' @ strVgName in
      if iRecoverType = ALONE_TO_ALONE then vgchange P alone
      else if iRecoverType = ALONE_TO_CLUSTER then thenA (vgchange P ('' -c y '' @ strVgName)) (vgchange P mode)
      else if iRecoverType = CLUSTER_TO_CLUSTER then vgchange P mode
      else if iRecoverType = CLUSTER_TO_ALONE then thenA (vgchange P ('' -c n '' @ strVgName)) (vgchange P alone)
      else vgchange P [])"

definition ActivateVg_VXVM :: "'j plug_env \<Rightarrow> string \<Rightarrow> ('j, unit) act" where
  "ActivateVg_VXVM P strVgName = run_root P ROOT_COMMAND_VXVOL (''-g '' @ strVgName @ '' startall'') ERROR_DEVICE_VXVM_ACTIVE_DG_FAILED"

definition ActivateVg :: "'j plug_env \<Rightarrow> string \<Rightarrow> int \<Rightarrow> string \<Rightarrow> int \<Rightarrow> ('j, unit) act" where
  "ActivateVg P strVgName iVolType strVgActiveMode iRecoverType =
     (if iVolType = VOLUME_TYPE_LINUX_LVM then ActivateVg_LLVM P strVgName
      else if iVolType = VOLUME_TYPE_AIX_LVM then ActivateVg_ALVM P strVgName
      else if iVolType = VOLUME_TYPE_LINUX_VXVM then ActivateVg_VXVM P strVgName
      else if iVolType = VOLUME_TYPE_HP_LVM then ActivateVg_HLVM P strVgName strVgActiveMode iRecoverType
      else failA MP_FAILED)"

definition DeActivateVg_LLVM :: "'j plug_env \<Rightarrow> string \<Rightarrow> ('j, unit) act" where
  "DeActivateVg_LLVM P strVgName =
     cycles 2 (bindA (IsVgExist P strVgName) (\<lambda>ex.
       if \<not> ex then retA True
       else bindA (transA (IsVgExported P strVgName) ERROR_DEVICE_LVM_QUERY_VG_STATUS_FAILED) (\<lambda>bExported.
            if bExported then retA True
            else bindA (root_exec P ROOT_COMMAND_VGCHANGE (''-a n '' @ strVgName) None) (\<lambda>(_, iRet). retA (iRet = MP_SUCCESS)))))
     ERROR_DEVICE_LVM_DEACTIVE_VG_FAILED"

definition DeActivateVg_ALVM :: "'j plug_env \<Rightarrow> string \<Rightarrow> ('j, unit) act" where
  "DeActivateVg_ALVM P strVgName =
     bindA (sys P (''lsvg '' @ strVgName)) (\<lambda>iRet.
     if iRet \<noteq> MP_SUCCESS then retA () else run_root P ROOT_COMMAND_VARYOFFVG strVgName ERROR_DEVICE_LVM_DEACTIVE_VG_FAILED)"

definition DeActivateVg_VXVM :: "'j plug_env \<Rightarrow> string \<Rightarrow> ('j, unit) act" where
  "DeActivateVg_VXVM P strVgName = run_root P ROOT_COMMAND_VXVOL (''-g '' @ strVgName @ '' stopall'') ERROR_DEVICE_VXVM_DEACTIVE_DG_FAILED"

definition DeActivateVg_HLVM :: "'j plug_env \<Rightarrow> string \<Rightarrow> ('j, unit) act" where
  "DeActivateVg_HLVM P strVgName =
     bindA (sys P (''vgdisplay '' @ strVgName)) (\<lambda>iRet.
     if iRet \<noteq> MP_SUCCESS then retA ()
     else bindA (IsVgExported P strVgName) (\<lambda>bExported.
          if bExported then retA () else root_do P ROOT_COMMAND_VGCHANGE ('' -a n '' @ strVgName)))"

definition DeActivateVg :: "'j plug_env \<Rightarrow> string \<Rightarrow> int \<Rightarrow> ('j, unit) act" where
  "DeActivateVg P strVgName iVolType =
     (if iVolType = VOLUME_TYPE_LINUX_LVM then DeActivateVg_LLVM P strVgName
      else if iVolType = VOLUME_TYPE_AIX_LVM then DeActivateVg_ALVM P strVgName
      else if iVolType = VOLUME_TYPE_LINUX_VXVM then DeActivateVg_VXVM P strVgName
      else if iVolType = VOLUME_TYPE_HP_LVM then DeActivateVg_HLVM P strVgName
      else failA MP_FAILED)"

definition ScanDisks_VXVM :: "'j plug_env \<Rightarrow> ('j, unit) act" where
  "ScanDisks_VXVM P = run_root P ROOT_COMMAND_VXDISK ''scandisks'' ERROR_DEVICE_VXVM_SCAN_DISK_FAILED"

end
