(* ===== verification/FileSysApp.thy ===== *)
theory FileSysApp
  imports LvmApp
begin

text \<open>
  File systems: \<^verbatim>\<open>CFileSys\<close> (\<^verbatim>\<open>src/src/device/FileSys.cpp\<close>), Linux. Mounted file systems are what
  \<^verbatim>\<open>getmntent\<close> reads; which of them are frozen is kept in the table of application states, so that
  freezing and thawing work on the connection to the database beside the state of the other actions.
\<close>

abbreviation SIMPLE_MARK :: string where "SIMPLE_MARK \<equiv> ''/dev/sd''"
abbreviation LVM_MARK :: string where "LVM_MARK \<equiv> ''/dev/mapper/''"
abbreviation VXVM_MARK :: string where "VXVM_MARK \<equiv> ''/dev/vx/dsk/''"
abbreviation DEV_LENGTH :: nat where "DEV_LENGTH \<equiv> 5"

record mount_info =
  mi_deviceName :: string
  mi_mountPoint :: string
  mi_volumeType :: int

record mount_failed_info =
  mf_deviceName :: string
  mf_errCode :: int

record file_sys_info =
  fs_deviceName :: string
  fs_mountpoint :: string
  fs_fileSysType :: string
  fs_capacity :: int
  fs_volType :: int

section \<open>Mounted file systems\<close>

text \<open>Entries with an empty field are skipped.\<close>

definition GetAllMountInfo :: "device_env \<Rightarrow> file_world \<Rightarrow> (string \<times> string \<times> string) list option" where
  "GetAllMountInfo D W = map_option (filter (\<lambda>(d, m, t). d \<noteq> [] \<and> m \<noteq> [] \<and> t \<noteq> [])) (dv_mounts D W)"

text \<open>The mounted file systems, which must not be empty.\<close>

definition mounts :: "device_env \<Rightarrow> ('j, (string \<times> string \<times> string) list) act" where
  "mounts D = bindA (worldA (GetAllMountInfo D)) (\<lambda>r.
     case r of None \<Rightarrow> failA MP_FAILED | Some ms \<Rightarrow> thenA (whenA (ms = []) MP_FAILED) (retA ms))"

text \<open>Whether a device is mounted at a mount point; at another one it is an error.\<close>

definition mounted_at :: "string \<Rightarrow> string \<Rightarrow> (string \<times> string \<times> string) list \<Rightarrow> (int + bool) option" where
  "mounted_at strDev strMountPoint ms =
     map_option (\<lambda>(d, m, t). if strMountPoint = m then Inr True else Inl ERROR_DEVICE_FILESYS_MOUTN_DEV_IS_MOUNTED)
       (find (\<lambda>(d, m, t). strDev = d) ms)"

definition CheckUdevDevStatus :: "device_env \<Rightarrow> 'j plug_env \<Rightarrow> string \<Rightarrow> string \<Rightarrow> ('j, bool) act" where
  "CheckUdevDevStatus D P strDev strMountPoint =
     bindA (file_there strDev) (\<lambda>ex.
     if \<not> ex then retA False
     else bindA (root_ask P ROOT_COMMAND_LS ('' '' @ strDev @ ''| awk '' @ squote # ''{print $1}'' @ squote # ''|cut -c1'')) (\<lambda>vecResult.
     case vecResult of
       [] \<Rightarrow> failA MP_FAILED
     | strFileType # _ \<Rightarrow>
         if strFileType \<noteq> ''l'' then retA False
         else bindA (root_ask P ROOT_COMMAND_LS ('' '' @ strDev @ ''| awk '' @ squote # ''{print $NF}'' @ squote # ''|awk -F '' @ squote # ''/'' @ squote # '' '' @ squote # ''{print $NF}'' @ [squote])) (\<lambda>vecResult.
         case vecResult of
           [] \<Rightarrow> failA MP_FAILED
         | d # _ \<Rightarrow>
             bindA (mounts D) (\<lambda>ms.
             case mounted_at (''/dev/'' @ d) strMountPoint ms of
               None \<Rightarrow> retA False
             | Some (Inl e) \<Rightarrow> failA e
             | Some (Inr b) \<Rightarrow> retA b))))"

definition CheckDevStatus :: "device_env \<Rightarrow> 'j plug_env \<Rightarrow> string \<Rightarrow> string \<Rightarrow> ('j, bool) act" where
  "CheckDevStatus D P strDev strMountPoint =
     bindA (mounts D) (\<lambda>ms.
     case mounted_at strDev strMountPoint ms of
       None \<Rightarrow> CheckUdevDevStatus D P strDev strMountPoint
     | Some (Inl e) \<Rightarrow> failA e
     | Some (Inr b) \<Rightarrow> retA b)"

definition CheckMountPointStatus :: "device_env \<Rightarrow> string \<Rightarrow> ('j, unit) act" where
  "CheckMountPointStatus D strMountPoint =
     bindA (mounts D) (\<lambda>ms.
     whenA (list_ex (\<lambda>(d, m, t). strMountPoint = m) ms) ERROR_DEVICE_FILESYS_MOUNT_POINT_OCCUPIED)"

definition CheckMountedStatus :: "device_env \<Rightarrow> 'j plug_env \<Rightarrow> string \<Rightarrow> string \<Rightarrow> ('j, bool) act" where
  "CheckMountedStatus D P strDevPath strMountPoint =
     bindA (CheckDevStatus D P strDevPath strMountPoint) (\<lambda>bIsMounted.
     if bIsMounted then retA True
     else bindA (dir_exist D strMountPoint) (\<lambda>dir.
          thenA (whenA (\<not> dir) ERROR_DEVICE_FILESYS_MOUNT_POINT_NOT_EXIST)
          (thenA (CheckMountPointStatus D strMountPoint) (retA False))))"

definition FileSys_Mount :: "device_env \<Rightarrow> 'j plug_env \<Rightarrow> mount_info \<Rightarrow> ('j, unit) act" where
  "FileSys_Mount D P m =
     bindA (transA (CheckMountedStatus D P (mi_deviceName m) (mi_mountPoint m)) ERROR_DEVICE_FILESYS_MOUNT_FAILED) (\<lambda>bIsMounted.
     if bIsMounted then retA ()
     else run_root P ROOT_COMMAND_MOUNT (mi_deviceName m @ '' '' @ dquote # mi_mountPoint m @ [dquote]) ERROR_DEVICE_FILESYS_MOUNT_FAILED)"

text \<open>A mount point that does not exist is not mounted.\<close>

definition FileSys_UMount :: "device_env \<Rightarrow> 'j plug_env \<Rightarrow> mount_info \<Rightarrow> ('j, unit) act" where
  "FileSys_UMount D P m =
     bindA (catchA (transA (CheckMountedStatus D P (mi_deviceName m) (mi_mountPoint m)) ERROR_DEVICE_FILESYS_UNMOUNT_FAILED)
       (\<lambda>e. if e = ERROR_DEVICE_FILESYS_MOUNT_POINT_NOT_EXIST then retA False else failA e)) (\<lambda>bIsMounted.
     if \<not> bIsMounted then retA ()
     else run_root P ROOT_COMMAND_UMOUNT (mi_deviceName m) ERROR_DEVICE_FILESYS_UNMOUNT_FAILED)"

text \<open>The lists of \<^verbatim>\<open>Mount\<close> and \<^verbatim>\<open>UMount\<close>: only \<^verbatim>\<open>UMount\<close> notes what failed.\<close>

fun Mount_list :: "device_env \<Rightarrow> 'j plug_env \<Rightarrow> mount_info list \<Rightarrow> mount_failed_info list \<Rightarrow> ('j, mount_failed_info list) act" where
  "Mount_list D P [] vecFailedInfos = retA vecFailedInfos"
| "Mount_list D P (m # ms) vecFailedInfos =
     bindA (codeA (FileSys_Mount D P m)) (\<lambda>iRet. Mount_list D P ms vecFailedInfos)"

fun UMount_list :: "device_env \<Rightarrow> 'j plug_env \<Rightarrow> mount_info list \<Rightarrow> mount_failed_info list \<Rightarrow> ('j, mount_failed_info list) act" where
  "UMount_list D P [] vecFailedInfos = retA vecFailedInfos"
| "UMount_list D P (m # ms) vecFailedInfos =
     bindA (codeA (FileSys_UMount D P m)) (\<lambda>iRet.
     UMount_list D P ms (if iRet \<noteq> MP_SUCCESS then vecFailedInfos @ [\<lparr>mf_deviceName = mi_deviceName m, mf_errCode = iRet\<rparr>] else vecFailedInfos))"

section \<open>Information\<close>

definition GetVolumeType :: "'j plug_env \<Rightarrow> string \<Rightarrow> ('j, int) act" where
  "GetVolumeType P strDevname =
     (if str_find LVM_MARK strDevname \<noteq> None then retA VOLUME_TYPE_LINUX_LVM
      else if str_find VXVM_MARK strDevname \<noteq> None then retA VOLUME_TYPE_LINUX_VXVM
      else if str_find SIMPLE_MARK strDevname \<noteq> None
      then bindA (echo P (''cat /proc/partitions | grep -w '' @ squote # drop DEV_LENGTH strDevname @ [squote])) (\<lambda>(vecDevNameInfos, iRet).
           if iRet \<noteq> MP_SUCCESS \<or> vecDevNameInfos = [] then failA MP_FAILED else retA VOLUME_TYPE_SIMPLE)
      else failA MP_FAILED)"

definition GetFileSysInfos :: "device_env \<Rightarrow> 'j plug_env \<Rightarrow> string \<Rightarrow> ('j, file_sys_info) act" where
  "GetFileSysInfos D P strDevname =
     bindA (GetVolumeType P strDevname) (\<lambda>iVolType.
     bindA (mounts D) (\<lambda>ms.
     case find (\<lambda>(d, m, t). strDevname = d) ms of
       None \<Rightarrow> failA MP_FAILED
     | Some (d, m, t) \<Rightarrow>
         bindA (echo P (''df -k '' @ strDevname @ '' | grep -n '' @ squote # squote # '' | awk '' @ squote # ''{print $2}'' @ [squote])) (\<lambda>(v, iRet).
         if iRet \<noteq> MP_SUCCESS \<or> v = [] then failA MP_FAILED
         else retA \<lparr>fs_deviceName = strDevname, fs_mountpoint = m, fs_fileSysType = t,
                fs_capacity = atol (c_str (last v)) * 1024, fs_volType = iVolType\<rparr>)))"

fun file_sys_loop :: "device_env \<Rightarrow> 'j plug_env \<Rightarrow> string list \<Rightarrow> ('j, file_sys_info list) act" where
  "file_sys_loop D P [] = retA []"
| "file_sys_loop D P (d # ds) =
     bindA (tryA (GetFileSysInfos D P d)) (\<lambda>r. bindA (file_sys_loop D P ds) (\<lambda>v. retA (case r of None \<Rightarrow> v | Some i \<Rightarrow> i # v)))"

definition QueryFileSysInfo :: "device_env \<Rightarrow> 'j plug_env \<Rightarrow> ('j, file_sys_info list) act" where
  "QueryFileSysInfo D P =
     bindA (elseA (root_ask P ROOT_COMMAND_MOUNT ('' | awk '' @ squote # ''{print $1}'' @ squote # '' | grep -w /dev''))
       ERROR_DEVICE_FILESYS_QUERY_INFO_FAILED) (\<lambda>vecFileSysMount.
     file_sys_loop D P vecFileSysMount)"

section \<open>The disks of a mount point\<close>

definition GetDevNameByPartition :: "string \<Rightarrow> string" where
  "GetDevNameByPartition strPartition =
     (case first_of ''1234567890'' strPartition of Some i \<Rightarrow> take i strPartition | None \<Rightarrow> strPartition)"

definition add_last :: "string \<Rightarrow> string list \<Rightarrow> string list" where
  "add_last d ds = filter (\<lambda>x. x \<noteq> d) ds @ [d]"

definition GetDevNameByMountPoint :: "device_env \<Rightarrow> 'j plug_env \<Rightarrow> string \<Rightarrow> ('j, string list) act" where
  "GetDevNameByMountPoint D P strMountPoint =
     bindA (mounts D) (\<lambda>ms.
     case find (\<lambda>(d, m, t). strMountPoint = m) ms of
       None \<Rightarrow> failA MP_FAILED
     | Some (strDev, m, t) \<Rightarrow>
         bindA (GetVolumeType P strDev) (\<lambda>iVolType.
         if iVolType = VOLUME_TYPE_SIMPLE then retA [GetDevNameByPartition strDev]
         else if iVolType = VOLUME_TYPE_LINUX_LVM
         then bindA (root_ask P ROOT_COMMAND_LVS
                ('' '' @ dquote # strDev @ dquote # '' | sed -n '' @ squote # ''2p'' @ squote # '' | awk -F '' @ dquote # '' '' @ dquote # '' '' @ squote # ''{print $2}'' @ [squote])) (\<lambda>VecVgName.
              case VecVgName of
                [] \<Rightarrow> failA MP_FAILED
              | vg # _ \<Rightarrow>
                  bindA (root_ask P ROOT_COMMAND_PVS ('' | awk '' @ squote # ''$2 == '' @ dquote # vg @ dquote # '' {print $1}'' @ [squote])) (\<lambda>vecDevNames.
                  if vecDevNames = [] then failA MP_FAILED
                  else retA (fold (\<lambda>d. add_last (GetDevNameByPartition d)) vecDevNames [])))
         else failA ERROR_COMMON_FUNC_UNIMPLEMENT))"

text \<open>The vendor and the product of a disk are passed on to the query of the next.\<close>

fun CheckLocalLun :: "'j plug_env \<Rightarrow> string list \<Rightarrow> string \<Rightarrow> string \<Rightarrow> ('j, bool) act" where
  "CheckLocalLun P [] strVendor strProduct = retA True"
| "CheckLocalLun P (d # ds) strVendor strProduct =
     bindA (tryA (GetArrayVendorAndProduct P d strVendor strProduct)) (\<lambda>r.
     case r of
       None \<Rightarrow> retA False
     | Some (v, p) \<Rightarrow>
         let strVendor = trim_in_place v; strProduct = trim_in_place p in
         if \<not> huawei_vendor strVendor then retA False else CheckLocalLun P ds strVendor strProduct)"

section \<open>Freezing and thawing\<close>

text \<open>Actions on a second state, the connection to the database.\<close>

type_synonym ('c, 'j, 'a) dact = "'c \<times> 'j plug_state \<Rightarrow> (('c \<times> 'j plug_state) \<times> (int + 'a)) option"

definition retD :: "'a \<Rightarrow> ('c, 'j, 'a) dact" where
  "retD a x = Some (x, Inr a)"

definition failD :: "int \<Rightarrow> ('c, 'j, 'a) dact" where
  "failD e x = Some (x, Inl e)"

definition bindD :: "('c, 'j, 'a) dact \<Rightarrow> ('a \<Rightarrow> ('c, 'j, 'b) dact) \<Rightarrow> ('c, 'j, 'b) dact" where
  "bindD m f x = (case m x of None \<Rightarrow> None | Some (x, Inl e) \<Rightarrow> Some (x, Inl e) | Some (x, Inr a) \<Rightarrow> f a x)"

definition actD :: "('j, 'a) act \<Rightarrow> ('c, 'j, 'a) dact" where
  "actD m x = map_option (\<lambda>(s, r). ((fst x, s), r)) (m (snd x))"

definition dbD :: "('c \<Rightarrow> 'c \<times> 'a) \<Rightarrow> ('c, 'j, 'a) dact" where
  "dbD f x = (case f (fst x) of (c, a) \<Rightarrow> Some ((c, snd x), Inr a))"

definition whenD :: "bool \<Rightarrow> int \<Rightarrow> ('c, 'j, unit) dact" where
  "whenD b e = (if b then failD e else retD ())"

definition codeD :: "('c, 'j, unit) dact \<Rightarrow> ('c, 'j, int) dact" where
  "codeD m x = (case m x of None \<Rightarrow> None | Some (x, Inl e) \<Rightarrow> Some (x, Inr e) | Some (x, Inr _) \<Rightarrow> Some (x, Inr MP_SUCCESS))"

fun thaw_check :: "('d, 's) sqlite_api \<Rightarrow> string \<Rightarrow> device_env \<Rightarrow> string list \<Rightarrow> ('d cdb, 'j, unit) dact" where
  "thaw_check S path D [] = retD ()"
| "thaw_check S path D (m # ms) =
     bindD (actD (dir_exist D m)) (\<lambda>dir.
     bindD (whenD (\<not> dir) ERROR_DEVICE_FILESYS_MOUNT_POINT_NOT_EXIST) (\<lambda>_.
     bindD (dbD (Status_Get S path m)) (\<lambda>iStatus.
     bindD (whenD (iStatus \<noteq> DB_FREEZE) ERROR_COMMON_APP_THAW_FAILED) (\<lambda>_. thaw_check S path D ms))))"

fun thaw_loop :: "('d, 's) sqlite_api \<Rightarrow> string \<Rightarrow> 'j plug_env \<Rightarrow> string list \<Rightarrow> ('d cdb, 'j, unit) dact" where
  "thaw_loop S path P [] = retD ()"
| "thaw_loop S path P (m # ms) =
     bindD (actD (root_exec P ROOT_COMMAND_FILESYS_THAW m None)) (\<lambda>(_, iRet).
     bindD (whenD (iRet \<noteq> MP_SUCCESS) ERROR_COMMON_APP_THAW_FAILED) (\<lambda>_.
     bindD (dbD (Status_Delete S path m)) (\<lambda>iRet.
     bindD (whenD (iRet \<noteq> MP_SUCCESS) iRet) (\<lambda>_. thaw_loop S path P ms))))"

definition FileSys_UnFreeze :: "('d, 's) sqlite_api \<Rightarrow> string \<Rightarrow> device_env \<Rightarrow> 'j plug_env \<Rightarrow> string list \<Rightarrow> ('d cdb, 'j, unit) dact" where
  "FileSys_UnFreeze S path D P vecDriveLetters =
     bindD (whenD (vecDriveLetters = []) ERROR_COMMON_INVALID_PARAM) (\<lambda>_.
     bindD (whenD (\<not> dv_fre_supp D) ERROR_COMMON_FUNC_UNIMPLEMENT) (\<lambda>_.
     bindD (thaw_check S path D vecDriveLetters) (\<lambda>_. thaw_loop S path P vecDriveLetters)))"

text \<open>An empty list of disks ends the freeze with the code of the query, which is success.\<close>

fun freeze_check :: "('d, 's) sqlite_api \<Rightarrow> string \<Rightarrow> device_env \<Rightarrow> 'j plug_env \<Rightarrow> string list \<Rightarrow> ('d cdb, 'j, unit) dact" where
  "freeze_check S path D P [] = retD ()"
| "freeze_check S path D P (m # ms) =
     bindD (actD (dir_exist D m)) (\<lambda>dir.
     bindD (whenD (\<not> dir) ERROR_DEVICE_FILESYS_MOUNT_POINT_NOT_EXIST) (\<lambda>_.
     bindD (actD (transA (GetDevNameByMountPoint D P m) ERROR_DEVICE_FILESYS_GET_DEV_FAILED)) (\<lambda>lstDevNames.
     bindD (whenD (lstDevNames = []) MP_SUCCESS) (\<lambda>_.
     bindD (actD (CheckLocalLun P lstDevNames [] [])) (\<lambda>local.
     bindD (whenD (\<not> local) ERROR_COMMON_NOT_HUAWEI_LUN) (\<lambda>_.
     bindD (dbD (Status_Get S path m)) (\<lambda>iStatus.
     bindD (whenD (iStatus \<noteq> DB_UNFREEZE) ERROR_COMMON_APP_FREEZE_FAILED) (\<lambda>_. freeze_check S path D P ms))))))))"

fun freeze_loop :: "('d, 's) sqlite_api \<Rightarrow> string \<Rightarrow> device_env \<Rightarrow> 'j plug_env \<Rightarrow> string list \<Rightarrow> string list \<Rightarrow> ('d cdb, 'j, unit) dact" where
  "freeze_loop S path D P vctDriLettersSucc [] = retD ()"
| "freeze_loop S path D P vctDriLettersSucc (m # ms) =
     (let v = vctDriLettersSucc @ [m] in
      bindD (dbD (Status_Insert S path m)) (\<lambda>iRet.
      if iRet \<noteq> MP_SUCCESS
      then bindD (codeD (FileSys_UnFreeze S path D P v)) (\<lambda>_. failD ERROR_COMMON_APP_FREEZE_FAILED)
      else bindD (actD (root_exec P ROOT_COMMAND_FILESYS_FREEZE m None)) (\<lambda>(_, iRet).
           if iRet \<noteq> MP_SUCCESS
           then bindD (if vctDriLettersSucc \<noteq> [] then codeD (FileSys_UnFreeze S path D P v) else retD MP_SUCCESS) (\<lambda>_.
                failD ERROR_COMMON_APP_FREEZE_FAILED)
           else freeze_loop S path D P v ms)))"

definition FileSys_Freeze :: "('d, 's) sqlite_api \<Rightarrow> string \<Rightarrow> device_env \<Rightarrow> 'j plug_env \<Rightarrow> string list \<Rightarrow> ('d cdb, 'j, unit) dact" where
  "FileSys_Freeze S path D P vecDriveLetters =
     bindD (whenD (vecDriveLetters = []) ERROR_COMMON_INVALID_PARAM) (\<lambda>_.
     bindD (whenD (\<not> dv_fre_supp D) ERROR_COMMON_FUNC_UNIMPLEMENT) (\<lambda>_.
     bindD (freeze_check S path D P vecDriveLetters) (\<lambda>_. freeze_loop S path D P [] vecDriveLetters)))"

fun freeze_state_loop :: "('d, 's) sqlite_api \<Rightarrow> string \<Rightarrow> string list \<Rightarrow> 'd cdb \<Rightarrow> 'd cdb \<times> int" where
  "freeze_state_loop S path [] c = (c, DB_FREEZE)"
| "freeze_state_loop S path (m # ms) c =
     (if m = [] then freeze_state_loop S path ms c
      else case Status_Get S path m c of
             (c, iStatus) \<Rightarrow> if iStatus \<noteq> DB_FREEZE then (c, DB_UNFREEZE) else freeze_state_loop S path ms c)"

definition FileSys_QueryFreezeState :: "('d, 's) sqlite_api \<Rightarrow> string \<Rightarrow> device_env \<Rightarrow> string list \<Rightarrow> 'd cdb \<Rightarrow> 'd cdb \<times> int" where
  "FileSys_QueryFreezeState S path D vecDriveLetters c =
     (if dv_fre_supp D then freeze_state_loop S path vecDriveLetters c else (c, ERROR_COMMON_FUNC_UNIMPLEMENT))"

end
