(* ===== verification/DevicePlug.thy ===== *)
theory DevicePlug
  imports FileSysApp
begin

text \<open>
  The actions of \<^verbatim>\<open>CDevicePlugin\<close> (\<^verbatim>\<open>src/src/plugins/device/DevicePlugin.cpp\<close>), Linux. The actions on a list
  of devices share one loop: an element that fails is answered with its code, and the code of the whole
  is -1 when there was one; an element that is not well formed ends the action.
\<close>

abbreviation REST_PARAM_DEVICE_DEV_NAME :: string where "REST_PARAM_DEVICE_DEV_NAME \<equiv> ''deviceName''"
abbreviation REST_PARAM_DEVICE_MOUNT_POINT :: string where "REST_PARAM_DEVICE_MOUNT_POINT \<equiv> ''mountPoint''"
abbreviation REST_PARAM_DEVICE_VOL_TYPE :: string where "REST_PARAM_DEVICE_VOL_TYPE \<equiv> ''volType''"
abbreviation REST_PARAM_DEVICE_ERROR_CODE :: string where "REST_PARAM_DEVICE_ERROR_CODE \<equiv> ''errorCode''"
abbreviation REST_PARAM_DEVICE_WWN :: string where "REST_PARAM_DEVICE_WWN \<equiv> ''wwn''"
abbreviation REST_PARAM_DEVICE_LINKNAME :: string where "REST_PARAM_DEVICE_LINKNAME \<equiv> ''linkName''"
abbreviation REST_PARAM_DEVICE_UDEVRULE :: string where "REST_PARAM_DEVICE_UDEVRULE \<equiv> ''udevRule''"
abbreviation REST_PARAM_DEVICE_DISK_NAMES :: string where "REST_PARAM_DEVICE_DISK_NAMES \<equiv> ''diskNames''"
abbreviation REST_PARAM_DEVICE_VGNAME :: string where "REST_PARAM_DEVICE_VGNAME \<equiv> ''vgName''"
abbreviation REST_PARAM_DEVICE_VGNAMES :: string where "REST_PARAM_DEVICE_VGNAMES \<equiv> ''vgNames''"
abbreviation REST_PARAM_DEVICE_MAPINFO :: string where "REST_PARAM_DEVICE_MAPINFO \<equiv> ''mapInfo''"
abbreviation REST_PARAM_DEVICE_DEV_PATH :: string where "REST_PARAM_DEVICE_DEV_PATH \<equiv> ''devicePath''"
abbreviation REST_PARAM_DEVICE_DEV_USERNAME :: string where "REST_PARAM_DEVICE_DEV_USERNAME \<equiv> ''userName''"
abbreviation REST_PARAM_DEVICE_DEV_PRIMODE :: string where "REST_PARAM_DEVICE_DEV_PRIMODE \<equiv> ''privMode''"
abbreviation wwn_digits :: string where "wwn_digits \<equiv> ''0123456789abcdefABCDEF''"

section \<open>Lists of devices\<close>

text \<open>What is done with an element: its code and the members of the answer when it failed.\<close>

type_synonym ('j) item = "'j \<Rightarrow> ('j, int \<times> (string \<times> 'j) list) act"

fun batch_loop :: "'j plug_env \<Rightarrow> ('a \<Rightarrow> ('j, int \<times> (string \<times> 'j) list) act) \<Rightarrow> 'a list \<Rightarrow> int \<Rightarrow> ('j, int) act" where
  "batch_loop P f [] iRetRst = retA iRetRst"
| "batch_loop P f (v # vs) iRetRst =
     bindA (f v) (\<lambda>(iRet, kvs).
     if iRet \<noteq> MP_SUCCESS
     then thenA (append_rsp P [jobj (pe_mk P) ((REST_PARAM_DEVICE_ERROR_CODE, jint (pe_mk P) iRet) # kvs)]) (batch_loop P f vs MP_FAILED)
     else batch_loop P f vs iRetRst)"

definition batch :: "'j plug_env \<Rightarrow> ('a \<Rightarrow> ('j, int \<times> (string \<times> 'j) list) act) \<Rightarrow> 'a list \<Rightarrow> ('j, unit) act" where
  "batch P f vs = bindA (batch_loop P f vs MP_SUCCESS) checkA"

definition array_jsons :: "'j plug_env \<Rightarrow> 'j \<Rightarrow> ('j, 'j list) act" where
  "array_jsons P j = (case GetArrayJson (pe_json P) j [] of (iRet, v) \<Rightarrow> thenA (checkA iRet) (retA v))"

definition CHECK_JSON_ARRAY :: "'j plug_env \<Rightarrow> 'j \<Rightarrow> ('j, unit) act" where
  "CHECK_JSON_ARRAY P j = whenA (\<not> isArray (pe_json P) j \<or> arr_size (pe_json P) j = 0) ERROR_COMMON_INVALID_PARAM"

section \<open>File systems\<close>

definition DevicePlugin_FileSysQueryInfo :: "device_env \<Rightarrow> 'j plug_env \<Rightarrow> ('j, unit) act" where
  "DevicePlugin_FileSysQueryInfo D P =
     (let K = pe_mk P in
      bindA (QueryFileSysInfo D P) (\<lambda>v. append_rsp P (map (\<lambda>i. jobj K
        [(REST_PARAM_DEVICE_DEV_NAME, jstr K (fs_deviceName i)), (REST_PARAM_DEVICE_MOUNT_POINT, jstr K (fs_mountpoint i)),
         (''fileSystemType'', jstr K (fs_fileSysType i)), (REST_PARAM_DEVICE_VOL_TYPE, jint K (fs_volType i)),
         (''capacity'', jint K (fs_capacity i))]) v)))"

definition get_mount :: "'j plug_env \<Rightarrow> 'j \<Rightarrow> ('j, mount_info) act" where
  "get_mount P j =
     bindA (get_string P j REST_PARAM_DEVICE_DEV_NAME) (\<lambda>d.
     bindA (get_string P j REST_PARAM_DEVICE_MOUNT_POINT) (\<lambda>m.
     bindA (get_int P j REST_PARAM_DEVICE_VOL_TYPE) (\<lambda>t.
     thenA (checkA (CheckFileSysMountParam d t m)) (retA \<lparr>mi_deviceName = d, mi_mountPoint = m, mi_volumeType = t\<rparr>))))"

definition mount_item :: "'j plug_env \<Rightarrow> (mount_info \<Rightarrow> ('j, unit) act) \<Rightarrow> 'j item" where
  "mount_item P oper j =
     bindA (get_mount P j) (\<lambda>m. bindA (codeA (oper m)) (\<lambda>iRet.
     retA (iRet, [(REST_PARAM_DEVICE_DEV_NAME, jstr (pe_mk P) (mi_deviceName m))])))"

definition DevicePlugin_FileSysMount :: "device_env \<Rightarrow> 'j plug_env \<Rightarrow> 'j request_msg \<Rightarrow> ('j, unit) act" where
  "DevicePlugin_FileSysMount D P req = bindA (get_mount P (m_msgBody req)) (FileSys_Mount D P)"

definition DevicePlugin_FileSysBatchMount :: "device_env \<Rightarrow> 'j plug_env \<Rightarrow> 'j request_msg \<Rightarrow> ('j, unit) act" where
  "DevicePlugin_FileSysBatchMount D P req = batch P (mount_item P (FileSys_Mount D P)) (elems (pe_json P) (m_msgBody req))"

definition DevicePlugin_FileSysUmount :: "device_env \<Rightarrow> 'j plug_env \<Rightarrow> 'j request_msg \<Rightarrow> ('j, unit) act" where
  "DevicePlugin_FileSysUmount D P req = bindA (get_mount P (m_msgBody req)) (FileSys_UMount D P)"

definition DevicePlugin_FileSysBatchUmount :: "device_env \<Rightarrow> 'j plug_env \<Rightarrow> 'j request_msg \<Rightarrow> ('j, unit) act" where
  "DevicePlugin_FileSysBatchUmount D P req = batch P (mount_item P (FileSys_UMount D P)) (elems (pe_json P) (m_msgBody req))"

definition DevicePlugin_DriveLetterBatchDelete :: "('j, unit) act" where
  "DevicePlugin_DriveLetterBatchDelete = failA ERROR_COMMON_FUNC_UNIMPLEMENT"

definition check_disks :: "'j plug_env \<Rightarrow> 'j request_msg \<Rightarrow> ('j, string list) act" where
  "check_disks P req =
     bindA (get_strings P (m_msgBody req) REST_PARAM_DEVICE_DISK_NAMES) (\<lambda>v.
     thenA (mapA (\<lambda>m. checkA (CheckFileSysFreezeParam m)) v) (retA v))"

definition DevicePlugin_Freeze :: "('d, 's) sqlite_api \<Rightarrow> string \<Rightarrow> device_env \<Rightarrow> 'j plug_env \<Rightarrow> 'j request_msg \<Rightarrow> ('d cdb, 'j, unit) dact" where
  "DevicePlugin_Freeze S path D P req = bindD (actD (check_disks P req)) (FileSys_Freeze S path D P)"

definition DevicePlugin_UnFreeze :: "('d, 's) sqlite_api \<Rightarrow> string \<Rightarrow> device_env \<Rightarrow> 'j plug_env \<Rightarrow> 'j request_msg \<Rightarrow> ('d cdb, 'j, unit) dact" where
  "DevicePlugin_UnFreeze S path D P req = bindD (actD (check_disks P req)) (FileSys_UnFreeze S path D P)"

definition DevicePlugin_QueryFreezeState :: "('d, 's) sqlite_api \<Rightarrow> string \<Rightarrow> device_env \<Rightarrow> 'j plug_env \<Rightarrow> 'j request_msg \<Rightarrow> ('d cdb, 'j, unit) dact" where
  "DevicePlugin_QueryFreezeState S path D P req =
     (let vecDriveLetters = StrSplit CHR '':'' (GetSpecialQueryParam REST_PARAM_DEVICE_DISK_NAMES (m_url req)) in
      bindD (actD (mapA (\<lambda>m. if m \<noteq> [] then checkA (CheckFileSysFreezeParam m) else retA ()) vecDriveLetters)) (\<lambda>_.
      bindD (dbD (FileSys_QueryFreezeState S path D vecDriveLetters)) (\<lambda>iStatus.
      if iStatus \<noteq> ERROR_COMMON_FUNC_UNIMPLEMENT then actD (set_rsp P ''state'' (jint (pe_mk P) iStatus)) else failD iStatus)))"

section \<open>Links\<close>

definition get_link :: "'j plug_env \<Rightarrow> 'j \<Rightarrow> ('j, link_info) act" where
  "get_link P j =
     bindA (get_string P j REST_PARAM_DEVICE_WWN) (\<lambda>w.
     bindA (get_string P j REST_PARAM_DEVICE_DEV_NAME) (\<lambda>d.
     bindA (get_string P j REST_PARAM_DEVICE_LINKNAME) (\<lambda>l.
     thenA (checkA (CheckParamString w 1 64 wwn_digits []))
     (thenA (checkA (CheckPathString_pre d ''/''))
     (thenA (checkA (CheckPathString_pre l ''/''))
     (retA \<lparr>li_wwn = w, li_slaveDevName = d, li_softLinkName = l\<rparr>))))))"

definition link_item :: "'j plug_env \<Rightarrow> (link_info \<Rightarrow> ('j, unit) act) \<Rightarrow> 'j item" where
  "link_item P oper j =
     bindA (get_link P j) (\<lambda>l. bindA (codeA (oper l)) (\<lambda>iRet.
     retA (iRet, [(REST_PARAM_DEVICE_WWN, jstr (pe_mk P) (li_wwn l))])))"

definition DevicePlugin_LinkCreate :: "device_env \<Rightarrow> 'j plug_env \<Rightarrow> 'j request_msg \<Rightarrow> ('j, unit) act" where
  "DevicePlugin_LinkCreate D P req = bindA (get_link P (m_msgBody req)) (Link_Create D P)"

definition DevicePlugin_LinkDelete :: "'j plug_env \<Rightarrow> 'j request_msg \<Rightarrow> ('j, unit) act" where
  "DevicePlugin_LinkDelete P req = bindA (get_link P (m_msgBody req)) (Link_Delete P)"

definition DevicePlugin_LinkBatchCreate :: "device_env \<Rightarrow> 'j plug_env \<Rightarrow> 'j request_msg \<Rightarrow> ('j, unit) act" where
  "DevicePlugin_LinkBatchCreate D P req = batch P (link_item P (Link_Create D P)) (elems (pe_json P) (m_msgBody req))"

definition DevicePlugin_LinkBatchDelete :: "'j plug_env \<Rightarrow> 'j request_msg \<Rightarrow> ('j, unit) act" where
  "DevicePlugin_LinkBatchDelete P req = batch P (link_item P (Link_Delete P)) (elems (pe_json P) (m_msgBody req))"

section \<open>Volume groups\<close>

definition check_vg :: "string \<Rightarrow> ('j, unit) act" where
  "check_vg vg = checkA (CheckParamString vg 1 254 [] file_name_exclude)"

definition check_vol_type :: "int \<Rightarrow> ('j, unit) act" where
  "check_vol_type iVolType = checkA (CheckParamInteger32 iVolType 0 4 [])"

definition DevicePlugin_LVMQueryVgs :: "'j plug_env \<Rightarrow> 'j request_msg \<Rightarrow> ('j, unit) act" where
  "DevicePlugin_LVMQueryVgs P req =
     (let vg = GetSpecialQueryParam REST_PARAM_DEVICE_VGNAME (m_url req);
          t = GetSpecialQueryParam REST_PARAM_DEVICE_VOL_TYPE (m_url req); K = pe_mk P in
      thenA (check_vg vg)
      (thenA (checkA (CheckParamString t 1 1 ''01234'' []))
      (bindA (QueryVgInfo P \<lparr>vg_strVolType = t, vg_strVgName = vg, vg_strMapInfo = [], vg_vecPvs = []\<rparr>) (\<lambda>v.
       thenA (set_rsp P REST_PARAM_DEVICE_VGNAME (jstr K (vg_strVgName v)))
       (thenA (set_rsp P REST_PARAM_DEVICE_VOL_TYPE (jstr K (vg_strVolType v)))
       (thenA (set_rsp P REST_PARAM_DEVICE_MAPINFO (jstr K (vg_strMapInfo v)))
       (\<lambda>s. Some (s\<lparr>ps_rsp := fold (append_member P ''pvs'') (vg_vecPvs v) (ps_rsp s)\<rparr>, Inr ()))))))))"

definition DevicePlugin_LVMExportVgs :: "'j plug_env \<Rightarrow> 'j request_msg \<Rightarrow> ('j, unit) act" where
  "DevicePlugin_LVMExportVgs P req =
     bindA (get_string P (m_msgBody req) REST_PARAM_DEVICE_VGNAME) (\<lambda>vg.
     bindA (get_int P (m_msgBody req) REST_PARAM_DEVICE_VOL_TYPE) (\<lambda>t.
     thenA (check_vg vg) (thenA (check_vol_type t) (ExportVg P vg t))))"

definition get_pv :: "'j plug_env \<Rightarrow> 'j \<Rightarrow> ('j, string \<times> string) act" where
  "get_pv P j =
     bindA (get_string P j ''pvName'') (\<lambda>pv.
     bindA (get_string P j REST_PARAM_DEVICE_WWN) (\<lambda>w.
     thenA (checkA (CheckParamString w 1 64 wwn_digits [])) (retA (pv, w))))"

definition DevicePlugin_LVMImportVgs :: "'j plug_env \<Rightarrow> 'j request_msg \<Rightarrow> ('j, unit) act" where
  "DevicePlugin_LVMImportVgs P req =
     (let j = m_msgBody req in
      bindA (get_string P j REST_PARAM_DEVICE_VGNAME) (\<lambda>vg.
      bindA (get_int P j REST_PARAM_DEVICE_VOL_TYPE) (\<lambda>t.
      bindA (get_string P j REST_PARAM_DEVICE_MAPINFO) (\<lambda>strMapInfo.
      thenA (check_vg vg)
      (thenA (check_vol_type t)
      (case GetJsonArrayJson (pe_json P) j ''pvInfo'' [] of
         (iRet, vecValue) \<Rightarrow>
           thenA (checkA iRet)
           (bindA (mapA (get_pv P) vecValue) (\<lambda>pvs. ImportVg P (map fst pvs) vg t strMapInfo (map snd pvs)))))))))"

definition vg_item :: "'j plug_env \<Rightarrow> (string \<Rightarrow> ('j, unit) act) \<Rightarrow> string \<Rightarrow> ('j, int \<times> (string \<times> 'j) list) act" where
  "vg_item P oper vg =
     thenA (check_vg vg) (bindA (codeA (oper vg)) (\<lambda>iRet. retA (iRet, [(REST_PARAM_DEVICE_VGNAME, jstr (pe_mk P) vg)])))"

definition DevicePlugin_LVMActivateVgs :: "'j plug_env \<Rightarrow> 'j request_msg \<Rightarrow> ('j, unit) act" where
  "DevicePlugin_LVMActivateVgs P req =
     (let j = m_msgBody req in
      bindA (get_int P j REST_PARAM_DEVICE_VOL_TYPE) (\<lambda>t.
      bindA (get_string P j ''vgActiveMode'') (\<lambda>mode.
      bindA (get_int P j ''recoverType'') (\<lambda>r.
      thenA (check_vol_type t)
      (thenA (checkA (CheckParamInteger32 r 0 3 []))
      (thenA (if mode \<noteq> [] then checkA (CheckParamString mode 1 254 '' -ae'' []) else retA ())
      (bindA (get_strings P j REST_PARAM_DEVICE_VGNAMES) (\<lambda>vgs.
       batch P (vg_item P (\<lambda>vg. ActivateVg P vg t mode r)) vgs))))))))"

definition DevicePlugin_LVMDeactivateVgs :: "'j plug_env \<Rightarrow> 'j request_msg \<Rightarrow> ('j, unit) act" where
  "DevicePlugin_LVMDeactivateVgs P req =
     bindA (get_int P (m_msgBody req) REST_PARAM_DEVICE_VOL_TYPE) (\<lambda>t.
     thenA (check_vol_type t)
     (bindA (get_strings P (m_msgBody req) REST_PARAM_DEVICE_VGNAMES) (\<lambda>vgs.
      batch P (vg_item P (\<lambda>vg. DeActivateVg P vg t)) vgs)))"

definition DevicePlugin_LVMQueryLVs :: "('j, unit) act" where
  "DevicePlugin_LVMQueryLVs = retA ()"

definition DevicePlugin_LVMScanDisks :: "'j plug_env \<Rightarrow> ('j, unit) act" where
  "DevicePlugin_LVMScanDisks P = ScanDisks_VXVM P"

section \<open>UDEV rules and ASM\<close>

definition get_rule :: "'j plug_env \<Rightarrow> 'j \<Rightarrow> ('j, string \<times> string) act" where
  "get_rule P j =
     bindA (get_string P j REST_PARAM_DEVICE_WWN) (\<lambda>w.
     bindA (get_string P j REST_PARAM_DEVICE_UDEVRULE) (\<lambda>r.
     thenA (checkA (CheckParamString w 1 64 wwn_digits [])) (retA (r, w))))"

definition rule_item :: "'j plug_env \<Rightarrow> (string \<Rightarrow> string \<Rightarrow> ('j, string \<times> int) act) \<Rightarrow> 'j item" where
  "rule_item P oper j =
     bindA (get_rule P j) (\<lambda>(r, w). bindA (oper r w) (\<lambda>(w, iRet).
     retA (iRet, [(REST_PARAM_DEVICE_UDEVRULE, jstr (pe_mk P) r), (REST_PARAM_DEVICE_WWN, jstr (pe_mk P) w)])))"

definition DevicePlugin_UDEVCreateRules :: "'j plug_env \<Rightarrow> 'j request_msg \<Rightarrow> ('j, unit) act" where
  "DevicePlugin_UDEVCreateRules P req =
     bindA (get_rule P (m_msgBody req)) (\<lambda>(r, w). bindA (Udev_Create P r w) (\<lambda>(_, iRet).
     thenA (checkA iRet) (Udev_ReloadRules P)))"

definition DevicePlugin_UDEVDeleteRules :: "'j plug_env \<Rightarrow> 'j request_msg \<Rightarrow> ('j, unit) act" where
  "DevicePlugin_UDEVDeleteRules P req =
     bindA (get_rule P (m_msgBody req)) (\<lambda>(r, w). bindA (Udev_Delete P r w) (\<lambda>(_, iRet). checkA iRet))"

text \<open>The rules are reloaded whatever failed, and its own failure is not answered.\<close>

definition DevicePlugin_UDEVBatchCreateRules :: "'j plug_env \<Rightarrow> 'j request_msg \<Rightarrow> ('j, unit) act" where
  "DevicePlugin_UDEVBatchCreateRules P req =
     thenA (CHECK_JSON_ARRAY P (m_msgBody req))
     (bindA (batch_loop P (rule_item P (Udev_Create P)) (elems (pe_json P) (m_msgBody req)) MP_SUCCESS) (\<lambda>iRetRst.
     thenA (codeA (Udev_ReloadRules P)) (checkA iRetRst)))"

definition DevicePlugin_UDEVBatchDeleteRules :: "'j plug_env \<Rightarrow> 'j request_msg \<Rightarrow> ('j, unit) act" where
  "DevicePlugin_UDEVBatchDeleteRules P req =
     thenA (CHECK_JSON_ARRAY P (m_msgBody req)) (batch P (rule_item P (Udev_Delete P)) (elems (pe_json P) (m_msgBody req)))"

definition DevicePlugin_ScanASMLib :: "'j plug_env \<Rightarrow> ('j, unit) act" where
  "DevicePlugin_ScanASMLib P = AsmLibScan P"

section \<open>Raw devices and permissions\<close>

definition get_raw :: "'j plug_env \<Rightarrow> 'j \<Rightarrow> ('j, raw_info) act" where
  "get_raw P j =
     bindA (get_string P j REST_PARAM_DEVICE_WWN) (\<lambda>w.
     bindA (get_string P j REST_PARAM_DEVICE_DEV_NAME) (\<lambda>d.
     bindA (get_string P j REST_PARAM_DEVICE_DEV_PATH) (\<lambda>p.
     thenA (checkA (CheckParamString w 1 64 wwn_digits []))
     (thenA (checkA (CheckPathString_pre d ''/''))
     (thenA (checkA (CheckPathString_pre p ''/''))
     (retA \<lparr>ri_strLunWWN = w, ri_strDevName = d, ri_strRawDevPath = p\<rparr>))))))"

definition raw_item :: "'j plug_env \<Rightarrow> (raw_info \<Rightarrow> ('j, unit) act) \<Rightarrow> 'j item" where
  "raw_item P oper j =
     bindA (get_raw P j) (\<lambda>i. bindA (codeA (oper i)) (\<lambda>iRet.
     retA (iRet, [(REST_PARAM_DEVICE_WWN, jstr (pe_mk P) (ri_strLunWWN i)), (REST_PARAM_DEVICE_DEV_NAME, jstr (pe_mk P) (ri_strDevName i)),
       (REST_PARAM_DEVICE_DEV_PATH, jstr (pe_mk P) (ri_strRawDevPath i))])))"

definition DevicePlugin_RawDeviceCreate :: "device_env \<Rightarrow> 'j plug_env \<Rightarrow> 'j request_msg \<Rightarrow> ('j, unit) act" where
  "DevicePlugin_RawDeviceCreate D P req = bindA (get_raw P (m_msgBody req)) (Raw_Create D P)"

definition DevicePlugin_RawDeviceDelete :: "'j plug_env \<Rightarrow> 'j request_msg \<Rightarrow> ('j, unit) act" where
  "DevicePlugin_RawDeviceDelete P req = bindA (get_raw P (m_msgBody req)) (Raw_Delete P)"

definition DevicePlugin_RawDeviceBatchCreate :: "device_env \<Rightarrow> 'j plug_env \<Rightarrow> 'j request_msg \<Rightarrow> ('j, unit) act" where
  "DevicePlugin_RawDeviceBatchCreate D P req = bindA (array_jsons P (m_msgBody req)) (batch P (raw_item P (Raw_Create D P)))"

definition DevicePlugin_RawDeviceBatchDelete :: "'j plug_env \<Rightarrow> 'j request_msg \<Rightarrow> ('j, unit) act" where
  "DevicePlugin_RawDeviceBatchDelete P req = bindA (array_jsons P (m_msgBody req)) (batch P (raw_item P (Raw_Delete P)))"

text \<open>Name and mode are optional members, but an empty text passes neither check.\<close>

definition permission_item :: "device_env \<Rightarrow> 'j plug_env \<Rightarrow> 'j item" where
  "permission_item D P j =
     bindA (get_string P j REST_PARAM_DEVICE_DEV_NAME) (\<lambda>d.
     bindA (get_optional P j REST_PARAM_DEVICE_DEV_USERNAME) (\<lambda>u.
     bindA (get_optional P j REST_PARAM_DEVICE_DEV_PRIMODE) (\<lambda>m.
     thenA (checkA (CheckPathString_pre d ''/''))
     (thenA (checkA (CheckParamString u 1 8 [] []))
     (thenA (checkA (CheckParamString m 3 3 ''01234567'' []))
     (bindA (codeA (Permission_Set D P \<lparr>pm_strDevName = d, pm_strUserName = u, pm_strMod = m\<rparr>)) (\<lambda>iRet.
      retA (iRet, [(REST_PARAM_DEVICE_DEV_NAME, jstr (pe_mk P) d), (REST_PARAM_DEVICE_DEV_USERNAME, jstr (pe_mk P) u),
        (REST_PARAM_DEVICE_DEV_PRIMODE, jstr (pe_mk P) m)]))))))))"

definition DevicePlugin_Permission :: "device_env \<Rightarrow> 'j plug_env \<Rightarrow> 'j request_msg \<Rightarrow> ('j, unit) act" where
  "DevicePlugin_Permission D P req = bindA (array_jsons P (m_msgBody req)) (batch P (permission_item D P))"

end
