(* ===== verification/DeviceSilent.thy ===== *)
theory DeviceSilent
  imports DevicePlug
begin

text \<open>
  Actions that are \<open>silent\<close>: they neither read nor write the reply, and keep the counter of unique numbers in
  its range. The collection \<open>silents\<close> proves it of an action by its composition.
\<close>

section \<open>Silent actions\<close>

definition counter_ok :: "'j plug_state \<Rightarrow> bool" where
  "counter_ok s \<longleftrightarrow> 0 \<le> fst (ps_root s) \<and> fst (ps_root s) < MAX_UNIQUE_ID"

definition silent :: "('j, 'a) act \<Rightarrow> bool" where
  "silent m \<longleftrightarrow> (\<forall>s r. m (s\<lparr>ps_rsp := r\<rparr>) = map_option (apfst (\<lambda>s. s\<lparr>ps_rsp := r\<rparr>)) (m s)) \<and>
     (\<forall>s s' x. m s = Some (s', x) \<longrightarrow> counter_ok s \<longrightarrow> counter_ok s')"

named_theorems silents

lemma silentI:
  assumes "\<And>s r. m (s\<lparr>ps_rsp := r\<rparr>) = map_option (apfst (\<lambda>s. s\<lparr>ps_rsp := r\<rparr>)) (m s)"
    and "\<And>s s' x. m s = Some (s', x) \<Longrightarrow> counter_ok s \<Longrightarrow> counter_ok s'"
  shows "silent m"
  using assms by (auto simp: silent_def)

lemma silent_rsp: "silent m \<Longrightarrow> m (s\<lparr>ps_rsp := r\<rparr>) = map_option (apfst (\<lambda>s. s\<lparr>ps_rsp := r\<rparr>)) (m s)"
  by (simp add: silent_def)

lemma silent_keeps:
  assumes "silent m" "m s = Some (s', x)"
  shows "ps_rsp s' = ps_rsp s"
proof -
  have "s\<lparr>ps_rsp := ps_rsp s\<rparr> = s" by simp
  then have "Some (s', x) = Some (s'\<lparr>ps_rsp := ps_rsp s\<rparr>, x)" using silent_rsp [OF assms(1), where s = s and r = "ps_rsp s"] assms(2) by simp
  then show ?thesis by (metis Pair_inject option.inject plug_state.select_convs(2) plug_state.surjective plug_state.update_convs(2))
qed

lemma silent_counter: "silent m \<Longrightarrow> m s = Some (s', x) \<Longrightarrow> counter_ok s \<Longrightarrow> counter_ok s'"
  unfolding silent_def by blast

lemma silent_ret [silents]: "silent (retA a)" "silent (failA e)" "silent crashA"
  by (auto intro!: silentI simp: retA_def failA_def crashA_def)

lemma silent_bind [silents]:
  assumes "silent m" "\<And>a. silent (f a)"
  shows "silent (bindA m f)"
proof (rule silentI)
  show "bindA m f (s\<lparr>ps_rsp := r\<rparr>) = map_option (apfst (\<lambda>s. s\<lparr>ps_rsp := r\<rparr>)) (bindA m f s)" for s r
    using assms by (auto simp: bindA_def silent_rsp split: option.splits sum.splits)
  show "bindA m f s = Some (s', x) \<Longrightarrow> counter_ok s \<Longrightarrow> counter_ok s'" for s s' x
    using silent_counter [OF assms(1)] silent_counter [OF assms(2)]
    by (auto simp: bindA_def split: option.splits sum.splits)
qed

lemma silent_else [silents]:
  assumes "silent m"
  shows "silent (elseA m e)"
proof (rule silentI)
  show "elseA m e (s\<lparr>ps_rsp := r\<rparr>) = map_option (apfst (\<lambda>s. s\<lparr>ps_rsp := r\<rparr>)) (elseA m e s)" for s r
    using assms by (auto simp: elseA_def silent_rsp split: option.splits sum.splits)
  show "elseA m e s = Some (s', x) \<Longrightarrow> counter_ok s \<Longrightarrow> counter_ok s'" for s s' x
    using silent_counter [OF assms] by (auto simp: elseA_def split: option.splits sum.splits)
qed

lemma silent_try [silents]:
  assumes "silent m"
  shows "silent (tryA m)"
proof (rule silentI)
  show "tryA m (s\<lparr>ps_rsp := r\<rparr>) = map_option (apfst (\<lambda>s. s\<lparr>ps_rsp := r\<rparr>)) (tryA m s)" for s r
    using assms by (auto simp: tryA_def silent_rsp split: option.splits sum.splits)
  show "tryA m s = Some (s', x) \<Longrightarrow> counter_ok s \<Longrightarrow> counter_ok s'" for s s' x
    using silent_counter [OF assms] by (auto simp: tryA_def split: option.splits sum.splits)
qed

lemma silent_catch [silents]:
  assumes "silent m" "\<And>e. silent (h e)"
  shows "silent (catchA m h)"
proof (rule silentI)
  show "catchA m h (s\<lparr>ps_rsp := r\<rparr>) = map_option (apfst (\<lambda>s. s\<lparr>ps_rsp := r\<rparr>)) (catchA m h s)" for s r
    using assms by (auto simp: catchA_def silent_rsp split: option.splits sum.splits)
  show "catchA m h s = Some (s', x) \<Longrightarrow> counter_ok s \<Longrightarrow> counter_ok s'" for s s' x
    using silent_counter [OF assms(1)] silent_counter [OF assms(2)] by (auto simp: catchA_def split: option.splits sum.splits)
qed

lemma silent_either [silents]:
  assumes "silent m"
  shows "silent (eitherA m)"
proof (rule silentI)
  show "eitherA m (s\<lparr>ps_rsp := r\<rparr>) = map_option (apfst (\<lambda>s. s\<lparr>ps_rsp := r\<rparr>)) (eitherA m s)" for s r
    using assms by (auto simp: eitherA_def silent_rsp split: option.splits sum.splits)
  show "eitherA m s = Some (s', x) \<Longrightarrow> counter_ok s \<Longrightarrow> counter_ok s'" for s s' x
    using silent_counter [OF assms] by (auto simp: eitherA_def split: option.splits sum.splits)
qed

lemma silent_code [silents]:
  assumes "silent m"
  shows "silent (codeA m)"
proof (rule silentI)
  show "codeA m (s\<lparr>ps_rsp := r\<rparr>) = map_option (apfst (\<lambda>s. s\<lparr>ps_rsp := r\<rparr>)) (codeA m s)" for s r
    using assms by (auto simp: codeA_def silent_rsp split: option.splits sum.splits)
  show "codeA m s = Some (s', x) \<Longrightarrow> counter_ok s \<Longrightarrow> counter_ok s'" for s s' x
    using silent_counter [OF assms] by (auto simp: codeA_def split: option.splits sum.splits)
qed

lemma silent_simple [silents]: "silent (worldA f)" "silent (file_there p)"
  by (auto intro!: silentI simp: worldA_def file_there_def)

lemma RootCaller_counter: "RootCaller_Exec X root c p v (i, W) = ((i', W'), r) \<Longrightarrow> i' = (i + 1) mod MAX_UNIQUE_ID"
  by (auto simp: RootCaller_Exec_def UniqueID_GetString_def Let_def split: prod.splits option.splits if_splits)

lemma silent_root [silents]: "silent (root_exec P c p v)"
proof (rule silentI)
  show "root_exec P c p v (s\<lparr>ps_rsp := r\<rparr>) = map_option (apfst (\<lambda>s. s\<lparr>ps_rsp := r\<rparr>)) (root_exec P c p v s)" for s r
    by (simp add: root_exec_def split: prod.splits)
  show "counter_ok s'" if r: "root_exec P c p v s = Some (s', x)" for s s' x
  proof -
    obtain i W i' W' q where q: "ps_root s = (i, W)" "RootCaller_Exec (pe_exec P) (pe_root P) c p v (i, W) = ((i', W'), q)"
      by (metis surj_pair)
    then have "ps_root s' = (i', W')" using r by (auto simp: root_exec_def split: prod.splits)
    then show ?thesis using RootCaller_counter [OF q(2)] by (simp add: counter_ok_def)
  qed
qed

lemma silent_shell [silents]: "silent (echo P c)" "silent (sys P c)"
  by (auto intro!: silentI simp: echo_def sys_def counter_ok_def split: prod.splits)

lemma silent_cases [silents]:
  "silent m \<Longrightarrow> silent n \<Longrightarrow> silent (if b then m else n)"
  "(\<And>a b. silent (f a b)) \<Longrightarrow> silent (case p of (a, b) \<Rightarrow> f a b)"
  "silent m \<Longrightarrow> (\<And>a. silent (g a)) \<Longrightarrow> silent (case x of None \<Rightarrow> m | Some a \<Rightarrow> g a)"
  "silent m \<Longrightarrow> (\<And>a l. silent (k a l)) \<Longrightarrow> silent (case l of [] \<Rightarrow> m | a # l \<Rightarrow> k a l)"
  "(\<And>a. silent (u a)) \<Longrightarrow> (\<And>b. silent (w b)) \<Longrightarrow> silent (case z of Inl a \<Rightarrow> u a | Inr b \<Rightarrow> w b)"
  by (auto split: prod.split option.split list.split sum.split)

lemma silent_checks [silents]: "silent (checkA e)" "silent (whenA b e)" "silent (caseA x e)"
  by (simp_all add: checkA_def whenA_def caseA_def silent_ret split: option.split)

lemma silent_then [silents]: "silent m \<Longrightarrow> silent n \<Longrightarrow> silent (thenA m n)"
  by (simp add: thenA_def silent_bind)

lemma silent_calls [silents]:
  "silent (root_do P c p)" "silent (root_ask P c p)" "silent (run_root P c p e)" "silent m \<Longrightarrow> silent (transA m e)"
  "silent (get_string P j k)" "silent (get_int P j k)" "silent (dir_exist D p)"
  by (auto simp: root_do_def root_ask_def run_root_def transA_def get_string_def get_int_def dir_exist_def intro!: silents)

lemma silent_disks [silents]:
  "silent (GetArrayVendorAndProduct P d v p)" "silent (GetLunInfo P d w l)" "silent (IsCmdDevice P d)" "silent (IsDeviceExist P d)"
  by (auto simp: GetArrayVendorAndProduct_def GetLunInfo_def IsCmdDevice_def IsDeviceExist_def Let_def intro!: silents)

lemma silent_all_disks [silents]: "silent (keep_disks P ds)" "silent (GetAllDiskName P)"
proof -
  show k: "silent (keep_disks P ds)" for ds by (induction ds) (auto intro!: silents)
  then show "silent (GetAllDiskName P)" by (auto simp: GetAllDiskName_def intro!: silents k)
qed

lemma silent_dev_by_wwn [silents]: "silent (dev_by_wwn P x ds d v p w l)"
  by (induction ds arbitrary: v p w l) (auto simp: Let_def intro!: silents)

lemma silent_device [silents]: "silent (GetDevNameByWWN P d w)"
  by (auto simp: GetDevNameByWWN_def intro!: silents)

lemma silent_mounts [silents]: "silent (mounts D)"
  by (auto simp: mounts_def intro!: silents)

lemma silent_partition [silents]: "silent (GetVolumeType P d)" "silent (GetDevNameByMountPoint D P m)"
proof -
  show v: "silent (GetVolumeType P d)" for d by (auto simp: GetVolumeType_def intro!: silents)
  show "silent (GetDevNameByMountPoint D P m)"
    by (auto simp: GetDevNameByMountPoint_def root_ask_def intro!: silents v)
qed

lemma silent_local [silents]: "silent (CheckLocalLun P ds v p)"
  by (induction ds arbitrary: v p) (auto simp: Let_def intro!: silents)

lemma silent_links [silents]: "silent (GetDeviceUsedByLink D l)" "silent (Link_Create D P i)" "silent (Link_Delete P i)"
  by (auto simp: GetDeviceUsedByLink_def Link_Create_def Link_Delete_def intro!: silents)

lemma silent_raws [silents]: "silent (Raw_Create D P i)" "silent (Raw_Delete P i)"
  by (auto simp: Raw_Create_def Raw_Delete_def StartRawService_def GetDeviceUsedByRaw_def GetBoundedDevVersions_def bind_raw_def
      intro!: silents)

lemma silent_mount [silents]: "silent (FileSys_Mount D P m)" "silent (FileSys_UMount D P m)"
  by (auto simp: FileSys_Mount_def FileSys_UMount_def CheckMountedStatus_def CheckDevStatus_def CheckUdevDevStatus_def
      CheckMountPointStatus_def intro!: silents)

lemma silent_items [silents]:
  "(\<And>l. silent (f l)) \<Longrightarrow> silent (link_item P f j)" "(\<And>i. silent (g i)) \<Longrightarrow> silent (raw_item P g j)"
  "(\<And>m. silent (h m)) \<Longrightarrow> silent (mount_item P h j)"
  by (auto simp: link_item_def get_link_def raw_item_def get_raw_def mount_item_def get_mount_def intro!: silents)

end
