(* ===== verification/AlarmStore.thy ===== *)
theory AlarmStore
  imports AlarmSpec HostApp
begin

text \<open>
  The tables of the trap servers and of the frozen applications are finite maps. The interface that both
  share is the locale \<open>map_store\<close>: an entry is put unless its key is there, and removed by its key. A run
  of operations refines a run on the map; the locale is interpreted on the operations of the host and on
  those of \<^verbatim>\<open>CAppFreezeStatus\<close>.
\<close>

section \<open>The interface\<close>

datatype 'e store_op = Put (entry: 'e) | Remove (entry: 'e)

fun store_run :: "('e \<Rightarrow> 'c \<Rightarrow> 'c \<times> int) \<Rightarrow> ('e \<Rightarrow> 'c \<Rightarrow> 'c \<times> int) \<Rightarrow> 'e store_op list \<Rightarrow> 'c \<Rightarrow> 'c \<times> int list" where
  "store_run ins del [] c = (c, [])"
| "store_run ins del (x # xs) c =
     (case (case x of Put e \<Rightarrow> ins e c | Remove e \<Rightarrow> del e c) of (c, r) \<Rightarrow>
      case store_run ins del xs c of (c, rs) \<Rightarrow> (c, r # rs))"

text \<open>The specification: the first entry of a key stays until it is removed.\<close>

fun store_spec :: "('e \<Rightarrow> bool) \<Rightarrow> ('e \<Rightarrow> 'k) \<Rightarrow> ('e \<Rightarrow> 'v) \<Rightarrow> 'e store_op list \<Rightarrow> ('k \<rightharpoonup> 'v) \<Rightarrow> ('k \<rightharpoonup> 'v)" where
  "store_spec ok key val [] m = m"
| "store_spec ok key val (Put e # xs) m =
     store_spec ok key val xs (if ok e \<and> m (key e) = None then m(key e \<mapsto> val e) else m)"
| "store_spec ok key val (Remove e # xs) m =
     store_spec ok key val xs (if ok e then m(key e := None) else m)"

locale map_store =
  fixes ins del :: "'e \<Rightarrow> 'd cdb \<Rightarrow> 'd cdb \<times> int"
    and abs_map :: "'d \<Rightarrow> 'k \<rightharpoonup> 'v" and inv :: "'d \<Rightarrow> bool" and ok :: "'e \<Rightarrow> bool"
    and key :: "'e \<Rightarrow> 'k" and val :: "'e \<Rightarrow> 'v" and others :: "'d \<Rightarrow> 'f" and bad :: int
  assumes ins_ok: "inv (dbfile c) \<Longrightarrow> ok e \<Longrightarrow> \<exists>d. ins e c = (db_after d c, MP_SUCCESS) \<and> inv d \<and> others d = others (dbfile c)
      \<and> abs_map d = (if abs_map (dbfile c) (key e) = None then (abs_map (dbfile c))(key e \<mapsto> val e) else abs_map (dbfile c))"
    and del_ok: "inv (dbfile c) \<Longrightarrow> ok e \<Longrightarrow> \<exists>d. del e c = (db_after d c, MP_SUCCESS) \<and> inv d \<and> others d = others (dbfile c)
      \<and> abs_map d = (abs_map (dbfile c))(key e := None)"
    and refused: "\<not> ok e \<Longrightarrow> ins e c = (c, bad)" "\<not> ok e \<Longrightarrow> del e c = (c, bad)"
begin

lemma run_refines:
  assumes "inv (dbfile c)"
  shows "case store_run ins del xs c of (c', rs) \<Rightarrow>
    inv (dbfile c') \<and> abs_map (dbfile c') = store_spec ok key val xs (abs_map (dbfile c))
    \<and> rs = map (\<lambda>x. if ok (entry x) then MP_SUCCESS else bad) xs \<and> others (dbfile c') = others (dbfile c)"
  using assms
proof (induction xs arbitrary: c)
  case (Cons x xs)
  show ?case
  proof (cases x)
    case (Put e)
    show ?thesis
    proof (cases "ok e")
      case True
      then obtain d where d: "ins e c = (db_after d c, MP_SUCCESS)" "inv d" "others d = others (dbfile c)"
        "abs_map d = (if abs_map (dbfile c) (key e) = None then (abs_map (dbfile c))(key e \<mapsto> val e) else abs_map (dbfile c))"
        using ins_ok [OF Cons.prems] by blast
      show ?thesis using Cons.IH [of "db_after d c"] d True by (simp add: Put split: prod.splits)
    next
      case False
      then show ?thesis using Cons.IH [OF Cons.prems] by (simp add: Put refused split: prod.splits)
    qed
  next
    case (Remove e)
    show ?thesis
    proof (cases "ok e")
      case True
      then obtain d where d: "del e c = (db_after d c, MP_SUCCESS)" "inv d" "others d = others (dbfile c)"
        "abs_map d = (abs_map (dbfile c))(key e := None)"
        using del_ok [OF Cons.prems] by blast
      show ?thesis using Cons.IH [of "db_after d c"] d True by (simp add: Remove fun_upd_def split: prod.splits)
    next
      case False
      then show ?thesis using Cons.IH [OF Cons.prems] by (simp add: Remove refused split: prod.splits)
    qed
  qed
qed simp

end

section \<open>Trap servers\<close>

definition server_key :: "trap_server \<Rightarrow> string \<times> int \<times> int" where
  "server_key t = (c_str (ts_strServerIP t), ts_iPort t, ts_iVersion t)"

definition server_listen :: "trap_server \<Rightarrow> string" where
  "server_listen t = c_str (ts_strListenIP t)"

definition stored_key :: "trap_server \<Rightarrow> string \<times> int \<times> int" where
  "stored_key t = (ts_strServerIP t, ts_iPort t, ts_iVersion t)"

definition servers :: "alarm_tables \<Rightarrow> string \<times> int \<times> int \<rightharpoonup> string" where
  "servers T = map_of (map (\<lambda>t. (stored_key t, ts_strListenIP t)) (at_traps (with_col T)))"

definition servers_inv :: "alarm_tables \<Rightarrow> bool" where
  "servers_inv T \<longleftrightarrow> distinct (map stored_key (at_traps T))"

definition no_servers :: "alarm_tables \<Rightarrow> alarm_info list \<times> int list \<times> string list" where
  "no_servers T = (at_alarms T, at_sn T, at_status T)"

lemma same_server_key: "same_server (ts_strServerIP e) (ts_iPort e) (ts_iVersion e) t \<longleftrightarrow> stored_key t = server_key e"
  by (auto simp: same_server_def stored_key_def server_key_def)

lemma with_col_keys: "map stored_key (at_traps (with_col T)) = map stored_key (at_traps T)"
  by (simp add: with_col_def stored_key_def)

lemma with_col_with_col [simp]: "with_col (with_col T) = with_col T" "no_servers (with_col T) = no_servers T"
  "servers (with_col T) = servers T"
  by (simp_all add: with_col_def no_servers_def servers_def)

lemma servers_inv_col [simp]: "servers_inv (with_col T) = servers_inv T"
  by (simp add: servers_inv_def with_col_keys)

lemma servers_None: "servers T k = None \<longleftrightarrow> k \<notin> stored_key ` set (at_traps T)"
proof -
  have "servers T k = None \<longleftrightarrow> k \<notin> stored_key ` set (at_traps (with_col T))" by (force simp: servers_def map_of_eq_None_iff)
  also have "\<dots> \<longleftrightarrow> k \<notin> stored_key ` set (at_traps T)" using with_col_keys [of T] by (metis list.set_map)
  finally show ?thesis .
qed

lemma map_of_filter_key: "map_of (map (\<lambda>t. (g t, h t)) (filter (\<lambda>t. g t \<noteq> k) ts)) = (map_of (map (\<lambda>t. (g t, h t)) ts))(k := None)"
  by (induction ts) (auto simp: fun_eq_iff)

lemma map_of_snoc: "map_of (ts @ [(k, v)]) = (if map_of ts k = None then (map_of ts)(k \<mapsto> v) else map_of ts)"
  by (auto simp: fun_eq_iff map_add_def split: option.splits)

lemma server_ok_fits: "server_ok e \<Longrightarrow> int32 (ts_iPort e) \<and> int32 (ts_iVersion e)"
  by (auto simp: server_ok_def int32_def)

lemma BeExistInTrapInfo_tables:
  assumes "alarm_db S path" "server_ok e"
  shows "BeExistInTrapInfo S path e c = (db_after (dbfile c) c, servers (dbfile c) (server_key e) \<noteq> None)"
proof -
  let ?ts = "filter (same_server (ts_strServerIP e) (ts_iPort e) (ts_iVersion e)) (at_traps (dbfile c))"
  have "QueryTable S path sql_trap_exists (trap_key e) empty_query c =
    (db_after (dbfile c) c, \<lparr>q_reader = concat (map (take 3 \<circ> trap_text) ?ts), q_rows = int (length (map (take 3 \<circ> trap_text) ?ts)), q_cols = int 3\<rparr>, MP_SUCCESS)"
    by (rule alarm_query [OF assms(1) stmt_of_simps(10)])
      (use server_ok_fits [OF assms(2)] in \<open>auto simp: trap_key_def trap_text_def same_server_def\<close>)
  moreover have "?ts \<noteq> [] \<longleftrightarrow> server_key e \<in> stored_key ` set (at_traps (dbfile c))"
    unfolding same_server_key by (force simp: filter_empty_conv)
  then have "servers (dbfile c) (server_key e) \<noteq> None \<longleftrightarrow> 0 < length ?ts" unfolding servers_None by simp
  ultimately show ?thesis by (simp add: BeExistInTrapInfo_def)
qed

lemma Host_Reg_tables:
  assumes D: "alarm_db S path" and T: "servers_inv (dbfile c)" and e: "server_ok e"
  shows "\<exists>d. Host_RegTrapServer S path e c = (db_after d c, MP_SUCCESS) \<and> servers_inv d \<and> no_servers d = no_servers (dbfile c)
      \<and> servers d = (if servers (dbfile c) (server_key e) = None then (servers (dbfile c))(server_key e \<mapsto> server_listen e) else servers (dbfile c))"
proof -
  let ?T = "with_col (dbfile c)"
  have R: "Host_RegTrapServer S path e c = MP_RETURN
    (case BeExistInTrapInfo S path e (db_after ?T c) of
       (c, True) \<Rightarrow> (c, MP_SUCCESS)
     | (c, False) \<Rightarrow> ExecSql S path sql_trap_insert (trap_key e @ [DbParam_string (ts_strListenIP e)]) c) ERROR_HOST_REG_TRAPSERVER_FAILED"
    using e by (simp add: Host_RegTrapServer_def InsertTrapServer_def CheckTrapInfoTable_tables [OF D])
  note B = BeExistInTrapInfo_tables [OF D e, of "db_after ?T c"]
  show ?thesis
  proof (cases "servers (dbfile c) (server_key e)")
    case (Some l)
    then have "Host_RegTrapServer S path e c = (db_after ?T c, MP_SUCCESS)" unfolding R B by (simp add: MP_RETURN_def)
    then show ?thesis using T Some by (intro exI [of _ ?T]) simp
  next
    case None
    then have new: "server_key e \<notin> stored_key ` set (at_traps ?T)" using servers_None [of ?T] by simp
    let ?t = "\<lparr>ts_iPort = ts_iPort e, ts_iVersion = ts_iVersion e, ts_strServerIP = c_str (ts_strServerIP e), ts_strListenIP = c_str (ts_strListenIP e)\<rparr>"
    let ?d = "?T\<lparr>at_traps := at_traps ?T @ [?t]\<rparr>"
    have t: "stored_key ?t = server_key e" "ts_strListenIP ?t = server_listen e"
      by (simp_all add: stored_key_def server_key_def server_listen_def)
    have free: "\<not> list_ex (same_server (ts_strServerIP e) (ts_iPort e) (ts_iVersion e)) (at_traps ?T)"
      using new same_server_key [of e] by (auto simp: list_ex_iff image_iff)
    have "ExecSql S path sql_trap_insert (trap_key e @ [DbParam_string (ts_strListenIP e)]) (db_after ?T c) = (db_after ?d c, MP_SUCCESS)"
      using alarm_exec [OF D stmt_of_simps(7), of "trap_key e @ [DbParam_string (ts_strListenIP e)]" "db_after ?T c"] server_ok_fits [OF e] free
      unfolding trap_key_def append_Cons append_Nil by simp
    then have "Host_RegTrapServer S path e c = (db_after ?d c, MP_SUCCESS)" unfolding R B using None by (simp add: MP_RETURN_def)
    moreover have col: "with_col ?d = ?d" by (simp add: with_col_def)
    moreover have "servers ?d = (servers (dbfile c))(server_key e \<mapsto> server_listen e)"
      unfolding servers_def col using None map_of_snoc [of _ "server_key e" "server_listen e"] t by (simp add: servers_def del: map_of_append)
    moreover have "servers_inv ?d"
    proof -
      have "distinct (map stored_key (at_traps ?T))" using T by (simp add: servers_inv_def with_col_keys)
      then show ?thesis using new t(1) by (simp add: servers_inv_def)
    qed
    moreover have "no_servers ?d = no_servers (dbfile c)" by (simp add: no_servers_def with_col_def)
    ultimately show ?thesis using None by auto
  qed
qed

lemma Host_UnReg_tables:
  assumes D: "alarm_db S path" and T: "servers_inv (dbfile c)" and e: "server_ok e"
  shows "\<exists>d. Host_UnRegTrapServer S path e c = (db_after d c, MP_SUCCESS) \<and> servers_inv d \<and> no_servers d = no_servers (dbfile c)
      \<and> servers d = (servers (dbfile c))(server_key e := None)"
proof -
  let ?T = "dbfile c" and ?Q = "\<lambda>t. stored_key t \<noteq> server_key e"
  let ?d = "?T\<lparr>at_traps := filter ?Q (at_traps ?T)\<rparr>"
  have f: "filter (\<lambda>t. \<not> same_server (ts_strServerIP e) (ts_iPort e) (ts_iVersion e) t) (at_traps ?T) = filter ?Q (at_traps ?T)"
    using same_server_key [of e] by simp
  have "ExecSql S path sql_trap_delete (trap_key e) c = (db_after ?d c, MP_SUCCESS)"
    using alarm_exec [OF D stmt_of_simps(8), of "trap_key e" c] server_ok_fits [OF e] f unfolding trap_key_def by simp
  then have "Host_UnRegTrapServer S path e c = (db_after ?d c, MP_SUCCESS)"
    using e by (simp add: Host_UnRegTrapServer_def DeleteTrapServer_def MP_RETURN_def)
  moreover have "at_traps (with_col ?d) = filter ?Q (at_traps (with_col ?T))"
    by (auto simp: with_col_def stored_key_def filter_map o_def)
  then have "servers ?d = (servers ?T)(server_key e := None)" by (simp add: servers_def map_of_filter_key)
  moreover have "servers_inv ?d" using T by (simp add: servers_inv_def distinct_map_filter)
  moreover have "no_servers ?d = no_servers ?T" by (simp add: no_servers_def)
  ultimately show ?thesis by blast
qed

interpretation traps: map_store "Host_RegTrapServer S path" "Host_UnRegTrapServer S path" servers
    "\<lambda>T. alarm_db S path \<and> servers_inv T" server_ok server_key server_listen no_servers ERROR_COMMON_INVALID_PARAM
  for S :: "(alarm_tables, 's) sqlite_api" and path
  by unfold_locales
    (use Host_Reg_tables Host_UnReg_tables in \<open>blast, blast, simp_all add: Host_RegTrapServer_def Host_UnRegTrapServer_def\<close>)

section \<open>Frozen applications\<close>

definition frozen_apps :: "alarm_tables \<Rightarrow> string \<rightharpoonup> unit" where
  "frozen_apps T = (\<lambda>k. if k \<in> set (at_status T) then Some () else None)"

definition no_status :: "alarm_tables \<Rightarrow> alarm_info list \<times> int list \<times> trap_server list \<times> bool" where
  "no_status T = (at_alarms T, at_sn T, at_traps T, at_col T)"

lemma Status_IsExist_tables:
  assumes "alarm_db S path"
  shows "Status_IsExist S path k c = (db_after (dbfile c) c, frozen_apps (dbfile c) (c_str k) \<noteq> None)"
proof -
  let ?ks = "filter (\<lambda>x. x = c_str k) (at_status (dbfile c))"
  have "QueryTable S path sql_status_exists [DbParam_string k] empty_query c =
    (db_after (dbfile c) c, \<lparr>q_reader = concat (map (\<lambda>x. [x]) ?ks), q_rows = int (length (map (\<lambda>x. [x]) ?ks)), q_cols = int 1\<rparr>, MP_SUCCESS)"
    by (rule alarm_query [OF assms stmt_of_simps(16)]) auto
  moreover have "0 < length ?ks \<longleftrightarrow> c_str k \<in> set (at_status (dbfile c))" by (simp add: filter_empty_conv)
  ultimately show ?thesis by (simp add: Status_IsExist_def frozen_apps_def)
qed

lemma Status_Insert_tables:
  assumes D: "alarm_db S path" and T: "distinct (at_status (dbfile c))"
  shows "\<exists>d. Status_Insert S path k c = (db_after d c, MP_SUCCESS) \<and> distinct (at_status d) \<and> no_status d = no_status (dbfile c)
    \<and> frozen_apps d = (if frozen_apps (dbfile c) (c_str k) = None then (frozen_apps (dbfile c))(c_str k \<mapsto> ()) else frozen_apps (dbfile c))"
proof (cases "frozen_apps (dbfile c) (c_str k)")
  case None
  let ?d = "(dbfile c)\<lparr>at_status := at_status (dbfile c) @ [c_str k]\<rparr>"
  have "Status_Insert S path k c = (db_after ?d c, MP_SUCCESS)"
    using alarm_exec [OF D stmt_of_simps(13), of "[DbParam_string k]" "db_after (dbfile c) c"] None
    by (simp add: Status_Insert_def Status_IsExist_tables [OF D])
  moreover have "c_str k \<notin> set (at_status (dbfile c))" using None by (simp add: frozen_apps_def split: if_splits)
  ultimately show ?thesis using T None by (intro exI [of _ ?d]) (auto simp: no_status_def frozen_apps_def fun_eq_iff)
next
  case (Some u)
  then show ?thesis using T by (intro exI [of _ "dbfile c"]) (simp add: Status_Insert_def Status_IsExist_tables [OF D])
qed

lemma Status_Delete_tables:
  assumes D: "alarm_db S path" and T: "distinct (at_status (dbfile c))"
  shows "\<exists>d. Status_Delete S path k c = (db_after d c, MP_SUCCESS) \<and> distinct (at_status d) \<and> no_status d = no_status (dbfile c)
    \<and> frozen_apps d = (frozen_apps (dbfile c))(c_str k := None)"
proof (cases "frozen_apps (dbfile c) (c_str k)")
  case None
  then have "frozen_apps (dbfile c) = (frozen_apps (dbfile c))(c_str k := None)" by (simp add: fun_eq_iff)
  then show ?thesis using T None by (intro exI [of _ "dbfile c"]) (simp add: Status_Delete_def Status_IsExist_tables [OF D])
next
  case (Some u)
  let ?d = "(dbfile c)\<lparr>at_status := filter (\<lambda>x. x \<noteq> c_str k) (at_status (dbfile c))\<rparr>"
  have "Status_Delete S path k c = (db_after ?d c, MP_SUCCESS)"
    using alarm_exec [OF D stmt_of_simps(14), of "[DbParam_string k]" "db_after (dbfile c) c"] Some
    by (simp add: Status_Delete_def Status_IsExist_tables [OF D])
  then show ?thesis using T by (intro exI [of _ ?d]) (auto simp: no_status_def frozen_apps_def fun_eq_iff)
qed

interpretation status: map_store "Status_Insert S path" "Status_Delete S path" frozen_apps
    "\<lambda>T. alarm_db S path \<and> distinct (at_status T)" "\<lambda>_. True" c_str "\<lambda>_. ()" no_status MP_FAILED
  for S :: "(alarm_tables, 's) sqlite_api" and path
  by unfold_locales (use Status_Insert_tables Status_Delete_tables in \<open>blast, blast, simp_all\<close>)

lemma Status_Get_tables:
  "alarm_db S path \<Longrightarrow> Status_Get S path k c = (db_after (dbfile c) c, if frozen_apps (dbfile c) (c_str k) = None then DB_UNFREEZE else DB_FREEZE)"
  by (simp add: Status_Get_def Status_IsExist_tables)

section \<open>Properties\<close>

text \<open>
  C30. The trap servers refine a map from address, port and version to the listen address: over any sequence
  of servers that are registered and removed, a server that is registered again keeps the listen address
  of its first registration, invalid servers are refused and change nothing, no server is stored twice, and
  the alarms and states stay as they are.
\<close>
theorem trap_servers_refine_map:
  assumes "alarm_db S path" "servers_inv (dbfile c)"
  shows "case store_run (Host_RegTrapServer S path) (Host_UnRegTrapServer S path) xs c of (c', rs) \<Rightarrow>
    servers_inv (dbfile c') \<and> servers (dbfile c') = store_spec server_ok server_key server_listen xs (servers (dbfile c))
    \<and> rs = map (\<lambda>x. if server_ok (entry x) then MP_SUCCESS else ERROR_COMMON_INVALID_PARAM) xs
    \<and> no_servers (dbfile c') = no_servers (dbfile c)"
  using traps.run_refines [where S = S and path = path and c = c and xs = xs] assms by (simp split: prod.splits)

text \<open>
  C31. The states of the applications refine a set: over any sequence of insertions and deletions an
  application is reported as frozen exactly when it was inserted last, and no other table changes.
\<close>
theorem app_status_refines_set:
  assumes "alarm_db S path" "distinct (at_status (dbfile c))"
  shows "case store_run (Status_Insert S path) (Status_Delete S path) xs c of (c', rs) \<Rightarrow>
    snd (Status_Get S path k c') =
      (if store_spec (\<lambda>_. True) c_str (\<lambda>_. ()) xs (frozen_apps (dbfile c)) (c_str k) = None then DB_UNFREEZE else DB_FREEZE)
    \<and> distinct (at_status (dbfile c')) \<and> no_status (dbfile c') = no_status (dbfile c) \<and> rs = map (\<lambda>_. MP_SUCCESS) xs"
  using status.run_refines [where S = S and path = path and c = c and xs = xs] assms
  by (auto simp: Status_Get_tables [OF assms(1)] split: prod.splits)

definition demo_server :: "string \<Rightarrow> trap_server" where
  "demo_server l = \<lparr>ts_iPort = 162, ts_iVersion = 3, ts_strServerIP = ''10.0.0.1'', ts_strListenIP = l\<rparr>"

definition demo_tables :: "alarm_tables cdb" where
  "demo_tables = \<lparr>m_pDB = None, m_stringList = [], dbfile = \<lparr>at_alarms = [], at_sn = [0], at_traps = [], at_col = False, at_status = []\<rparr>\<rparr>"

lemma demo_server_ok: "server_ok (demo_server l)" "server_key (demo_server l) = (''10.0.0.1'', 162, 3)"
proof -
  have "IsIPV4 ''10.0.0.1''" by code_simp
  then show "server_ok (demo_server l)" by (simp add: server_ok_def demo_server_def)
  show "server_key (demo_server l) = (''10.0.0.1'', 162, 3)" by (simp add: server_key_def demo_server_def c_str_def NUL_literal)
qed

theorem trap_servers_refine_map_witness:
  "case store_run (Host_RegTrapServer (trying_sqlite alarm_known alarm_sem) ''agent.db'') (Host_UnRegTrapServer (trying_sqlite alarm_known alarm_sem) ''agent.db'')
     [Put (demo_server ''10.0.0.7''), Put (demo_server ''10.0.0.8'')] demo_tables of (c, rs) \<Rightarrow>
   rs = [MP_SUCCESS, MP_SUCCESS] \<and> servers (dbfile c) (''10.0.0.1'', 162, 3) = Some ''10.0.0.7''"
proof -
  have "servers_inv (dbfile demo_tables)" "servers (dbfile demo_tables) = Map.empty"
    by (simp_all add: demo_tables_def servers_inv_def servers_def with_col_def)
  with trap_servers_refine_map [OF trying_alarm_db, of demo_tables "[Put (demo_server ''10.0.0.7''), Put (demo_server ''10.0.0.8'')]" "''agent.db''"]
  show ?thesis
    by (simp add: demo_server_ok split: prod.splits) (simp add: server_listen_def demo_server_def c_str_def NUL_literal)
qed

theorem app_status_refines_set_witness:
  "case store_run (Status_Insert (trying_sqlite alarm_known alarm_sem) ''agent.db'') (Status_Delete (trying_sqlite alarm_known alarm_sem) ''agent.db'')
     [Put ''orcl'', Put ''orcl'', Remove ''orcl'', Put ''sybase''] demo_tables of (c, rs) \<Rightarrow>
   snd (Status_Get (trying_sqlite alarm_known alarm_sem) ''agent.db'' ''orcl'' c) = DB_UNFREEZE"
proof -
  have d: "distinct (at_status (dbfile demo_tables))" by (simp add: demo_tables_def)
  show ?thesis
    using app_status_refines_set [OF trying_alarm_db d, where path = "''agent.db''" and xs = "[Put ''orcl'', Put ''orcl'', Remove ''orcl'', Put ''sybase'']" and k = "''orcl''"]
    by (simp add: c_str_def NUL_literal split: prod.splits)
qed

end
