(* ===== verification/HostProps.thy ===== *)
theory HostProps
  imports HostPlug AlarmStore DbProps
begin

text \<open>
  Properties of the host: the collector of logs as a state machine, whose steps are requests and the end of
  a collecting thread; and the number of the host, which stays the same.
\<close>

section \<open>The collector of logs\<close>

text \<open>The state of the collector and the number of threads that collect.\<close>

inductive log_step :: "'j plug_env \<Rightarrow> log_collector \<times> nat \<Rightarrow> log_collector \<times> nat \<Rightarrow> bool" for P where
  collect: "HostPlugin_CollectAgentLog P H (l, s) = ((l', s'), r) \<Longrightarrow> log_step P (l, n) (l', if r = Inr () then Suc n else n)"
| collected: "LogCollectThread P l s = Some (l', s') \<Longrightarrow> log_step P (l, Suc n) (l', n)"

inductive_cases log_stepE: "log_step P (l, n) x"

lemma CollectAgentLog_busy:
  "m_status l = LOG_COLLECTING \<Longrightarrow>
    HostPlugin_CollectAgentLog P H (l, s) = ((l, s), Inl ERROR_HOST_LOG_IS_BEENING_COLLECTED)"
  by (cases "ps_root s") (simp add: HostPlugin_CollectAgentLog_def CollectLog_def Let_def)

lemma CollectAgentLog_free:
  assumes "m_status l = LOG_INIT" "HostPlugin_CollectAgentLog P H (l, s) = ((l', s'), r)"
  shows "if snd (GetFolderFile H (snd (ps_root s)) (GetTmpPath (pe_root P)) []) \<noteq> MP_SUCCESS then l' = l \<and> r \<noteq> Inr ()
    else m_status l' = LOG_COLLECTING \<and> r = (if he_thread H \<noteq> MP_SUCCESS then Inl (he_thread H) else Inr ())"
  using assms by (auto simp: HostPlugin_CollectAgentLog_def CollectLog_def Let_def split: prod.splits if_splits)

lemma CollectAgentLog_states:
  assumes "HostPlugin_CollectAgentLog P H (l, s) = ((l', s'), r)"
  shows "m_status l = LOG_COLLECTING \<and> l' = l \<and> r \<noteq> Inr () \<or> m_status l = LOG_INIT \<and> (m_status l' = LOG_COLLECTING \<or> l' = l \<and> r \<noteq> Inr ())"
proof (cases "m_status l")
  case LOG_INIT
  then show ?thesis using CollectAgentLog_free [OF LOG_INIT assms] by (auto split: if_splits)
next
  case LOG_COLLECTING
  then show ?thesis using CollectAgentLog_busy [OF LOG_COLLECTING, of P H s] assms by simp
qed

lemma LogCollectThread_status: "LogCollectThread P l s = Some (l', s') \<Longrightarrow> m_status l' = LOG_INIT"
  by (auto simp: LogCollectThread_def)




text \<open>Collecting without a thread is a state that nothing leaves.\<close>

lemma log_stuck_step: "log_step P (l, 0) x \<Longrightarrow> m_status l = LOG_COLLECTING \<Longrightarrow> x = (l, 0)"
  by (erule log_stepE) (auto dest: CollectAgentLog_states)

lemma log_stuck: "(log_step P)\<^sup>*\<^sup>* (l, 0) x \<Longrightarrow> m_status l = LOG_COLLECTING \<Longrightarrow> x = (l, 0)"
  by (induction rule: rtranclp_induct) (auto dest: log_stuck_step)

lemma ExportAgentLog_busy:
  "m_status l = LOG_COLLECTING \<Longrightarrow> HostPlugin_ExportAgentLog P l req s \<noteq> Some (s', Inr t)"
  by (auto simp: HostPlugin_ExportAgentLog_def CanDownloadLog_def thenA_def bindA_def checkA_def retA_def failA_def
      split: option.splits sum.splits if_splits)

section \<open>The number of the host\<close>

lemma GetHostSN_known:
  assumes "Mp_ReadFile F W (GetConfFilePath root HOSTSN_FILE) [] = (sn # ls, MP_SUCCESS)"
  shows "GetHostSN F H root d W = (W, sn, MP_SUCCESS)"
  using assms by (simp add: GetHostSN_def ReadHostSNInfo_def)

lemma hex_upper_clean: "n < 16 \<Longrightarrow> hex_upper n \<noteq> CHR 0x0A \<and> hex_upper n \<noteq> NUL"
  by (auto simp: hex_upper_def less_Suc_eq numeral_eq_Suc NUL_literal)

lemma FormatUuid_clean: "clean_line (FormatUuid us)"
proof (induction us)
  case (Cons b us)
  have "unat b div 16 < 16" "unat b mod 16 < 16" using unsigned_less [where 'a = nat, of b] by simp_all
  then show ?case
    using Cons hex_upper_clean [of "unat b div 16"] hex_upper_clean [of "unat b mod 16"] by (auto simp: FormatUuid_def clean_line_def)
qed (simp add: FormatUuid_def clean_line_def)

lemma FormatUuid_length: "length (FormatUuid us) = 2 * length us"
  by (induction us) (simp_all add: FormatUuid_def)

lemma GetHostSN_new:
  assumes F: "path_ok F p" and p: "p = GetConfFilePath root HOSTSN_FILE" and "fw_text W p = None" "he_uuid H \<noteq> []"
  obtains W' where "GetHostSN F H root [] W = (W', FormatUuid (he_uuid H), MP_SUCCESS)"
    "fw_text W' = (fw_text W)(p \<mapsto> print_lines [FormatUuid (he_uuid H)])" "fw_mode W' p = Some 0x180"
proof -
  let ?sn = "FormatUuid (he_uuid H)"
  have "Mp_ReadFile F W p [] = ([], MP_FAILED)" using assms(3) by (simp add: Mp_ReadFile_def)
  then have r: "ReadHostSNInfo F root [] W = ([], MP_FAILED)" by (simp add: ReadHostSNInfo_def p)
  have "length ?sn \<noteq> 0" using assms(4) by (simp add: FormatUuid_length)
  then have sn: "?sn \<noteq> []" by auto
  obtain W1 where W1: "Ipc_WriteFile F p [?sn] W = (W1, MP_SUCCESS)" "fw_text W1 = (fw_text W)(p \<mapsto> print_lines [?sn])"
    using Ipc_WriteFile_ok [OF F, of "[?sn]" W] by (metis prod.collapse)
  have s: "SetHostSN F p [?sn] W = (W1\<lparr>fw_mode := (fw_mode W1)(p \<mapsto> 0x180)\<rparr>, MP_SUCCESS)"
    using F by (simp add: SetHostSN_def W1(1) path_ok_def)
  show thesis
    by (rule that [of "W1\<lparr>fw_mode := (fw_mode W1)(p \<mapsto> 0x180)\<rparr>"])
      (use sn s in \<open>simp_all add: GetHostSN_def r GetUuidNumber_def W1(2) flip: p\<close>)
qed

section \<open>Properties\<close>

text \<open>
  The number of the host stays: when there is no number, the first call makes one from a new UUID and
  keeps it in a file that only its owner reads, and every later call gives that number, whatever UUID
  would be new then.
\<close>
theorem host_number_stays:
  assumes "path_ok F (GetConfFilePath root HOSTSN_FILE)" "fw_text W (GetConfFilePath root HOSTSN_FILE) = None" "he_uuid H \<noteq> []"
  shows "case GetHostSN F H root [] W of (W1, sn, iRet) \<Rightarrow>
    iRet = MP_SUCCESS \<and> sn = FormatUuid (he_uuid H) \<and> length sn = 2 * length (he_uuid H)
    \<and> fw_mode W1 (GetConfFilePath root HOSTSN_FILE) = Some 0x180 \<and> GetHostSN F H2 root d W1 = (W1, sn, MP_SUCCESS)"
proof -
  obtain W' where W': "GetHostSN F H root [] W = (W', FormatUuid (he_uuid H), MP_SUCCESS)"
    "fw_text W' = (fw_text W)(GetConfFilePath root HOSTSN_FILE \<mapsto> print_lines [FormatUuid (he_uuid H)])"
    "fw_mode W' (GetConfFilePath root HOSTSN_FILE) = Some 0x180"
    by (rule GetHostSN_new [OF assms(1) refl assms(2,3)])
  have "file_lines (print_lines [FormatUuid (he_uuid H)]) = [FormatUuid (he_uuid H)]"
    by (rule file_lines_print) (use FormatUuid_clean [of "he_uuid H"] in \<open>auto simp: clean_line_def\<close>)
  then have "Mp_ReadFile F W' (GetConfFilePath root HOSTSN_FILE) [] = (FormatUuid (he_uuid H) # [], MP_SUCCESS)"
    using assms(1) W'(2) print_lines_not_Nil [of "[FormatUuid (he_uuid H)]"] by (simp add: Mp_ReadFile_def path_ok_def)
  from GetHostSN_known [OF this] show ?thesis using W' by (simp add: FormatUuid_length)
qed

text \<open>
  C32. A collection of logs whose thread does not start blocks the logs: the request is answered with the
  code of the failure, and in every run of requests and threads after it, each collection and each export
  is refused, because no thread is there to set the state back.
\<close>
theorem failed_thread_blocks_logs:
  assumes "m_status l = LOG_INIT" "HostPlugin_CollectAgentLog P H (l, s) = ((l1, s1), r)"
    and "snd (GetFolderFile H (snd (ps_root s)) (GetTmpPath (pe_root P)) []) = MP_SUCCESS" "he_thread H \<noteq> MP_SUCCESS"
    and "(log_step P)\<^sup>*\<^sup>* (l1, 0) (l2, n)"
  shows "r = Inl (he_thread H) \<and> n = 0
    \<and> HostPlugin_CollectAgentLog P H2 (l2, s2) = ((l2, s2), Inl ERROR_HOST_LOG_IS_BEENING_COLLECTED)
    \<and> HostPlugin_ExportAgentLog P l2 req s2 \<noteq> Some (s3, Inr t)"
proof -
  have l1: "m_status l1 = LOG_COLLECTING" "r = Inl (he_thread H)"
    using CollectAgentLog_free [OF assms(1,2)] assms(3,4) by simp_all
  from log_stuck [OF assms(5) l1(1)] have "l2 = l1" "n = 0" by simp_all
  then show ?thesis using l1 CollectAgentLog_busy [OF l1(1), of P H2 s2] ExportAgentLog_busy [OF l1(1), of P req s2 s3 t] by simp
qed



section \<open>Witnesses\<close>

definition demo_host :: "8 word list \<Rightarrow> int \<Rightarrow> host_env" where
  "demo_host uuid thread = \<lparr>he_build = SUSE, he_hostname = (''host'', 0), he_uuid = uuid, he_readdir = (\<lambda>_ _. Some []), he_lstat = (\<lambda>_ _. Some False),
     he_tz = (0, ''+0800''), he_now = ''2018-01-01 00:00:00'', he_thread = thread\<rparr>"

theorem failed_thread_blocks_logs_witness:
  "case HostPlugin_CollectAgentLog (demo_plug []) (demo_host [] 11) (new_log_collector, demo_ps) of
     ((l, s), r) \<Rightarrow> r = Inl 11
       \<and> HostPlugin_CollectAgentLog (demo_plug []) (demo_host [] 0) (l, demo_ps) = ((l, demo_ps), Inl ERROR_HOST_LOG_IS_BEENING_COLLECTED)"
proof -
  obtain l s r where c: "HostPlugin_CollectAgentLog (demo_plug []) (demo_host [] 11) (new_log_collector, demo_ps) = ((l, s), r)"
    by (metis surj_pair)
  have f: "snd (GetFolderFile (demo_host [] 11) W d []) = MP_SUCCESS" "he_thread (demo_host [] 11) = 11" for W d
    by (simp_all add: GetFolderFile_def demo_host_def)
  have i: "m_status new_log_collector = LOG_INIT" by (simp add: new_log_collector_def)
  show ?thesis
    unfolding c using failed_thread_blocks_logs [OF i c f(1) _ rtranclp.rtrancl_refl, of "demo_host [] 0" demo_ps] f(2) by simp
qed


end
