(* ===== verification/DeviceProps.thy ===== *)
theory DeviceProps
  imports DeviceSilent HostProps
begin

text \<open>
  Properties of the actions on devices: the freeze of file systems, followed through the root process to
  the table of states, the actions on lists of devices, and the device of a LUN.
\<close>

section \<open>Freezing through the root process\<close>
























section \<open>Lists of devices\<close>

text \<open>The reference: the items one by one, without an answer; the code that ended them, if one did.\<close>

fun run_items :: "('a \<Rightarrow> ('j, 'b) act) \<Rightarrow> 'a list \<Rightarrow> 'j plug_state \<Rightarrow> ('j plug_state \<times> 'b list \<times> int option) option" where
  "run_items f [] s = Some (s, [], None)"
| "run_items f (v # vs) s =
     (case f v s of
        None \<Rightarrow> None
      | Some (s, Inl e) \<Rightarrow> Some (s, [], Some e)
      | Some (s, Inr b) \<Rightarrow> map_option (\<lambda>(s, bs, e). (s, b # bs, e)) (run_items f vs s))"

definition failed_items :: "(int \<times> (string \<times> 'j) list) list \<Rightarrow> (int \<times> (string \<times> 'j) list) list" where
  "failed_items rs = filter (\<lambda>(iRet, kvs). iRet \<noteq> MP_SUCCESS) rs"

definition answer_failed :: "'j plug_env \<Rightarrow> (int \<times> (string \<times> 'j) list) list \<Rightarrow> 'j \<Rightarrow> 'j" where
  "answer_failed P rs =
     fold (\<lambda>(iRet, kvs) j. jappend (pe_mk P) j (jobj (pe_mk P) ((REST_PARAM_DEVICE_ERROR_CODE, jint (pe_mk P) iRet) # kvs))) (failed_items rs)"

lemma batch_loop_items:
  assumes "\<And>v. silent (f v)"
  shows "batch_loop P f vs k (s\<lparr>ps_rsp := r\<rparr>) =
    map_option (\<lambda>(s', rs, e). (s'\<lparr>ps_rsp := answer_failed P rs r\<rparr>,
      case e of Some e \<Rightarrow> Inl e | None \<Rightarrow> Inr (if failed_items rs = [] then k else MP_FAILED))) (run_items f vs s)"
proof (induction vs arbitrary: s r k)
  case Nil
  show ?case by (simp add: retA_def answer_failed_def failed_items_def)
next
  case (Cons v vs)
  have f: "f v (s\<lparr>ps_rsp := r\<rparr>) = map_option (apfst (\<lambda>s. s\<lparr>ps_rsp := r\<rparr>)) (f v s)" by (rule silent_rsp [OF assms])
  show ?case
  proof (cases "f v s")
    case None
    then show ?thesis by (simp add: bindA_def f)
  next
    case (Some x)
    obtain s1 y where x: "x = (s1, y)" by (cases x)
    show ?thesis
    proof (cases y)
      case (Inl e)
      then show ?thesis using Some x by (simp add: bindA_def f answer_failed_def failed_items_def)
    next
      case (Inr b)
      obtain i kvs where b: "b = (i, kvs)" by (cases b)
      show ?thesis
        using Some x Inr b
        by (cases "run_items f vs s1")
          (auto simp: bindA_def f append_rsp_def thenA_def Cons.IH answer_failed_def failed_items_def split: option.split)
    qed
  qed
qed

definition device_items :: "device_env \<Rightarrow> 'j plug_env \<Rightarrow> 'j item set" where
  "device_items D P = {link_item P (Link_Create D P), link_item P (Link_Delete P), raw_item P (Raw_Create D P), raw_item P (Raw_Delete P),
     mount_item P (FileSys_Mount D P), mount_item P (FileSys_UMount D P)}"

lemma silent_device_items: "f \<in> device_items D P \<Longrightarrow> silent (f v)"
  by (auto simp: device_items_def intro!: silents)

lemma dev_by_wwn_old:
  assumes "[] \<notin> set ds"
  shows "dev_by_wwn P w ds d v p u l s = map_option (apsnd (map_sum id (\<lambda>r. if r = [] then d else r))) (dev_by_wwn P w ds [] v p u l s)"
  using assms
  by (induction ds arbitrary: v p u l s)
    (auto simp: retA_def bindA_def Let_def split: option.splits sum.splits prod.splits)

section \<open>Properties\<close>


text \<open>
  The actions on lists of links, raw devices and mounts carry out the items in the order of the request
  and answer one element with the code for each that failed, and for no other; the action itself fails
  when one of them did. An item that is not well formed ends the action with its code, and the items
  before it stay carried out.
\<close>
theorem batch_answers_failures:
  assumes "f \<in> device_items D P"
  shows "batch P f vs s =
    map_option (\<lambda>(s', rs, e). (s'\<lparr>ps_rsp := answer_failed P rs (ps_rsp s)\<rparr>,
      case e of Some e \<Rightarrow> Inl e | None \<Rightarrow> if failed_items rs = [] then Inr () else Inl MP_FAILED)) (run_items f vs s)"
proof -
  have s: "s\<lparr>ps_rsp := ps_rsp s\<rparr> = s" by simp
  have "batch_loop P f vs MP_SUCCESS s = map_option (\<lambda>(s', rs, e). (s'\<lparr>ps_rsp := answer_failed P rs (ps_rsp s)\<rparr>,
      case e of Some e \<Rightarrow> Inl e | None \<Rightarrow> Inr (if failed_items rs = [] then MP_SUCCESS else MP_FAILED))) (run_items f vs s)"
    using batch_loop_items [where f = f and P = P and vs = vs and k = MP_SUCCESS and s = s and r = "ps_rsp s"] silent_device_items [OF assms] unfolding s by blast
  then show ?thesis
    by (auto simp: batch_def bindA_def checkA_def retA_def failA_def split: option.split)
qed

text \<open>
  The device of a LUN that no disk has: asked with an empty name the query fails, and asked with the
  name of an earlier device, as the import of volume groups does for the second LUN and on, it succeeds
  with that earlier device.
\<close>
theorem missing_lun_keeps_device:
  assumes "GetAllDiskName P s = Some (s1, Inr ds)" "[] \<notin> set ds" "dev_by_wwn P w ds [] [] [] [] [] s1 = Some (s2, Inr [])" "d \<noteq> []"
  shows "GetDevNameByWWN P [] w s = Some (s2, Inl ERROR_COMMON_DEVICE_NOT_EXIST) \<and> GetDevNameByWWN P d w s = Some (s2, Inr d)"
  using dev_by_wwn_old [OF assms(2), of P w d "[]" "[]" "[]" "[]" s1] assms(1,3,4)
  by (simp add: GetDevNameByWWN_def bindA_def thenA_def whenA_def retA_def failA_def)

section \<open>Witnesses\<close>








text \<open>A host whose commands print nothing has no disks.\<close>

definition quiet_plug :: "dj plug_env" where
  "quiet_plug = (demo_plug [])\<lparr>pe_exec := (demo_exec 500)\<lparr>xe_shell := \<lambda>cmd W. (W, Ran [] (Some (Exited 0)))\<rparr>\<rparr>"

end
