(* ===== verification/ClusterApp.thy ===== *)
theory ClusterApp
  imports OraclePlug HostPlug DeviceApp
begin

text \<open>
  Clusters of hosts: \<^verbatim>\<open>CCluster\<close> (\<^verbatim>\<open>src/src/cluster/Cluster.cpp\<close>) and the actions of \<^verbatim>\<open>CClusterPlugin\<close>
  (\<^verbatim>\<open>src/src/plugins/cluster/ClusterPlugin.cpp\<close>) as compiled on Linux, where VCS, PowerHA, ServiceGuard,
  RHCS and SunCluster are asked and started through the root process. What waits for a cluster asks at
  most ten times; the pauses of thirty seconds between the questions have no effect on the answers of the
  model. The SQL Server clusters of Windows are not modelled.
\<close>

abbreviation DB_ORACLE :: string where "DB_ORACLE \<equiv> ''1''"
abbreviation DB_DB2 :: string where "DB_DB2 \<equiv> ''3''"
abbreviation DB_CACHE :: string where "DB_CACHE \<equiv> ''15''"
abbreviation CLUSTER_VCS :: int where "CLUSTER_VCS \<equiv> 2"
abbreviation CLUSTER_POWERHA :: int where "CLUSTER_POWERHA \<equiv> 4"
abbreviation CLUSTER_SERVICEGUARD :: int where "CLUSTER_SERVICEGUARD \<equiv> 5"
abbreviation CLUSTER_RHCS :: int where "CLUSTER_RHCS \<equiv> 6"
abbreviation CLUSTER_SUNCLUSTER :: int where "CLUSTER_SUNCLUSTER \<equiv> 7"
abbreviation SCRIPTPARAM_STARTRESGRP :: string where "SCRIPTPARAM_STARTRESGRP \<equiv> ''1''"
abbreviation SCRIPTPARAM_STOPRESGRP :: string where "SCRIPTPARAM_STOPRESGRP \<equiv> ''0''"
abbreviation SCRIPTPARAM_CLUSTERTYPE :: string where "SCRIPTPARAM_CLUSTERTYPE \<equiv> ''CLUSTERTYPE=''"
abbreviation SCRIPTPARAM_RESGRPNAME :: string where "SCRIPTPARAM_RESGRPNAME \<equiv> ''RESGRPNAME=''"
abbreviation SCRIPTPARAM_DEVGRPNAME :: string where "SCRIPTPARAM_DEVGRPNAME \<equiv> ''DEVGRPNAME=''"
abbreviation REST_PARAM_CLUSTER_RESGRPNAME :: string where "REST_PARAM_CLUSTER_RESGRPNAME \<equiv> ''resourceGroup''"
abbreviation REST_PARAM_CLUSTER_DEVGRPNAME :: string where "REST_PARAM_CLUSTER_DEVGRPNAME \<equiv> ''deviceGroup''"
abbreviation REST_PARAM_CLUSTER_CLUSTERTYPE :: string where "REST_PARAM_CLUSTER_CLUSTERTYPE \<equiv> ''clusterType''"
abbreviation REST_PARAM_CLUSTER_RESOURCENAME :: string where "REST_PARAM_CLUSTER_RESOURCENAME \<equiv> ''resourceName''"
abbreviation REST_PARAM_CLUSTER_DBNAME :: string where "REST_PARAM_CLUSTER_DBNAME \<equiv> ''dbName''"
abbreviation REST_PARAM_CLUSTER_INSTNAME :: string where "REST_PARAM_CLUSTER_INSTNAME \<equiv> ''instName''"
abbreviation REST_PARAM_CLUSTER_APPTYPE :: string where "REST_PARAM_CLUSTER_APPTYPE \<equiv> ''appType''"

record db_info =
  cq_strinstName :: string
  cq_strdbName :: string
  cq_strdbUsername :: string
  cq_strdbPassword :: string

record cluster_info =
  ci_strClusterName :: string
  ci_strResGrpName :: string
  ci_vecDevGrpName :: "string list"
  ci_vecResourceName :: "string list"
  ci_strVgActiveMode :: string
  ci_strNetWorkName :: string

section \<open>Parameters and answers of the scripts\<close>

text \<open>
  One variable holds the row being read, and \<^verbatim>\<open>StrSplit\<close> appends to its device groups: they are those of
  the rows before as well.
\<close>

fun cluster_rows :: "string list \<Rightarrow> string list \<Rightarrow> cluster_info list" where
  "cluster_rows vecDevGrpName [] = []"
| "cluster_rows vecDevGrpName (l # ls) =
     (case cut_fields 3 l of
        Some [strClusterName, strResGrpName, strAllDevGrp, strVgActiveMode] \<Rightarrow>
          (let v = vecDevGrpName @ StrSplit CHR ''+'' strAllDevGrp in
           \<lparr>ci_strClusterName = strClusterName, ci_strResGrpName = strResGrpName, ci_vecDevGrpName = v, ci_vecResourceName = [],
             ci_strVgActiveMode = strVgActiveMode, ci_strNetWorkName = []\<rparr> # cluster_rows v ls)
      | _ \<Rightarrow> cluster_rows vecDevGrpName ls)"

definition AnalyseClusterInfoScriptRst :: "string list \<Rightarrow> cluster_info list" where
  "AnalyseClusterInfoScriptRst vecResult = cluster_rows [] vecResult"

text \<open>The device groups, joined by a plus; empty names at the front leave nothing.\<close>

definition join_devs :: "string list \<Rightarrow> string" where
  "join_devs vecDevGrp = foldl (\<lambda>s g. if s = [] then g else s @ ''+'' @ g) [] vecDevGrp"

definition BuildResGrpScriptParam :: "string \<Rightarrow> string list \<Rightarrow> string \<Rightarrow> string \<Rightarrow> string" where
  "BuildResGrpScriptParam strResGrp vecDevGrp strClusterType strOperType =
     colons [SCRIPTPARAM_RESGRPNAME @ strResGrp, SCRIPTPARAM_DEVGRPNAME @ join_devs vecDevGrp,
       SCRIPTPARAM_CLUSTERTYPE @ strClusterType, SCRIPTPARAM_OPERTYPE @ strOperType]"

definition BuildClusterInfoScriptParam :: "db_info \<Rightarrow> string \<Rightarrow> string" where
  "BuildClusterInfoScriptParam i strClusterType =
     colons [SCRIPTPARAM_INSTNAME @ cq_strinstName i, SCRIPTPARAM_DBNAME @ cq_strdbName i,
       SCRIPTPARAM_DBUSERNAME @ cq_strdbUsername i, SCRIPTPARAM_DBPASSWORD @ cq_strdbPassword i,
       SCRIPTPARAM_CLUSTERTYPE @ strClusterType]"

section \<open>Waiting for a state\<close>

text \<open>Ask until the first line is good, at most the number of rounds given.\<close>

fun ask_rounds :: "'j plug_env \<Rightarrow> int \<Rightarrow> string \<Rightarrow> (string \<Rightarrow> bool) \<Rightarrow> nat \<Rightarrow> ('j, unit) act" where
  "ask_rounds P iCmd strQueryParam good 0 = failA ERROR_CLUSTER_START_SERVICE_FAILED"
| "ask_rounds P iCmd strQueryParam good (Suc n) =
     bindA (root_exec P iCmd strQueryParam (Some [])) (\<lambda>(vecResult, iRet).
     if iRet \<noteq> MP_SUCCESS then failA ERROR_CLUSTER_QUERY_SERVICE_STATE_FAILED
     else if vecResult \<noteq> [] \<and> good (hd vecResult) then retA ()
     else ask_rounds P iCmd strQueryParam good n)"

definition CheckClusterState :: "'j plug_env \<Rightarrow> int \<Rightarrow> string \<Rightarrow> string \<Rightarrow> ('j, unit) act" where
  "CheckClusterState P iCmd strQueryParam strNormalState = ask_rounds P iCmd strQueryParam (\<lambda>s. s = strNormalState) 10"

definition CheckResGrpState :: "'j plug_env \<Rightarrow> int \<Rightarrow> string \<Rightarrow> string \<Rightarrow> ('j, unit) act" where
  "CheckResGrpState P iCmd strQueryParam strStableState =
     ask_rounds P iCmd strQueryParam (\<lambda>s. str_find s strStableState \<noteq> None) 10"

text \<open>The host name, or the code given when the system does not know it.\<close>

definition host_name :: "host_env \<Rightarrow> int \<Rightarrow> ('j, string) act" where
  "host_name H code = (if snd (he_hostname H) \<noteq> MP_SUCCESS then failA code else retA (c_str (fst (he_hostname H))))"

text \<open>A command whose failure is answered with one code, with and without its results.\<close>

definition root_or :: "'j plug_env \<Rightarrow> int \<Rightarrow> string \<Rightarrow> int \<Rightarrow> ('j, unit) act" where
  "root_or P iCmd strParam code = bindA (root_exec P iCmd strParam None) (\<lambda>(_, iRet). whenA (iRet \<noteq> MP_SUCCESS) code)"

definition ask_or :: "'j plug_env \<Rightarrow> int \<Rightarrow> string \<Rightarrow> int \<Rightarrow> ('j, string list) act" where
  "ask_or P iCmd strParam code =
     bindA (root_exec P iCmd strParam (Some [])) (\<lambda>(v, iRet). thenA (whenA (iRet \<noteq> MP_SUCCESS) code) (retA v))"

section \<open>Starting a cluster\<close>

text \<open>What is started is asked first: no answer is a failure, and the normal state is left alone.\<close>

definition unless_running :: "'j plug_env \<Rightarrow> int \<Rightarrow> string \<Rightarrow> string \<Rightarrow> ('j, unit) act \<Rightarrow> ('j, unit) act" where
  "unless_running P iCmd strParam strNormalState start =
     bindA (ask_or P iCmd strParam ERROR_CLUSTER_QUERY_SERVICE_STATE_FAILED) (\<lambda>vecResult.
     if vecResult = [] then failA ERROR_CLUSTER_QUERY_SERVICE_STATE_FAILED
     else if hd vecResult = strNormalState then retA () else start)"

definition StartVCSCluster :: "host_env \<Rightarrow> 'j plug_env \<Rightarrow> ('j, unit) act" where
  "StartVCSCluster H P =
     bindA (host_name H ERROR_CLUSTER_QUERY_NODE_FAILED) (\<lambda>strHostName.
     let strParam = '' -state '' @ strHostName in
     unless_running P ROOT_COMMAND_HASYS strParam ''RUNNING''
       (thenA (root_or P ROOT_COMMAND_HASTART [] ERROR_CLUSTER_START_SERVICE_FAILED)
       (CheckClusterState P ROOT_COMMAND_HASYS strParam ''RUNNING'')))"

definition StartServiceGuardCluster :: "host_env \<Rightarrow> 'j plug_env \<Rightarrow> string \<Rightarrow> ('j, unit) act" where
  "StartServiceGuardCluster H P strResGrpName =
     bindA (host_name H ERROR_CLUSTER_QUERY_NODE_FAILED) (\<lambda>strLocalHostName.
     let strParam = '' -l node | grep '' @ strLocalHostName @ '' |awk '{print $NF}'' @ [squote] in
     unless_running P ROOT_COMMAND_CMVIEWCL strParam ''running''
       (thenA (root_or P ROOT_COMMAND_CMRUNCL '' -v'' ERROR_CLUSTER_START_SERVICE_FAILED)
       (thenA (CheckClusterState P ROOT_COMMAND_CMVIEWCL strParam ''running'')
       (CheckResGrpState P ROOT_COMMAND_CMVIEWCL
          ('' -p '' @ strResGrpName @ '' |grep '' @ strResGrpName @ '' |awk '{print $3}'' @ [squote]) ''running+halted+failed''))))"

definition StartPowerHACluster :: "'j plug_env \<Rightarrow> ('j, unit) act" where
  "StartPowerHACluster P =
     bindA (ask_or P ROOT_COMMAND_CLLSNODE (''| grep Node |awk '{print $2}'' @ [squote]) ERROR_CLUSTER_QUERY_NODE_FAILED) (\<lambda>nodes.
     if nodes = [] then failA ERROR_CLUSTER_QUERY_NODE_FAILED
     else
     let strNodeList = join_sep CHR '','' nodes;
         strParam = '' -ls clstrmgrES | sed -n '1p' | awk '{print $3}'' @ [squote] in
     unless_running P ROOT_COMMAND_LSSRC strParam ''ST_STABLE''
       (thenA (root_or P ROOT_COMMAND_STARTPOWERHA ('' '-N' -cspoc-n '' @ [squote] @ strNodeList @ [squote] @ '' '-A' '-b' '-i' '-C yes'' @ [squote])
                   ERROR_CLUSTER_START_SERVICE_FAILED)
       (CheckClusterState P ROOT_COMMAND_LSSRC strParam ''ST_STABLE'')))"

text \<open>A failed start of \<^verbatim>\<open>clvmd\<close> is an error only when the daemon does not run already.\<close>

definition StartCLvm :: "'j plug_env \<Rightarrow> ('j, unit) act" where
  "StartCLvm P =
     bindA (echo_onto P (''cat /etc/lvm/lvm.conf | grep locking_type | grep -v '' @ [dquote] @ ''#'' @ [dquote]) []) (\<lambda>(vecRlt, iRet).
     if iRet = MP_SUCCESS \<and> length vecRlt = 1 \<and> str_find ''3'' (hd vecRlt) \<noteq> None then
       bindA (root_exec P ROOT_COMMAND_RHCS_SERVICE ''clvmd start'' None) (\<lambda>(_, iRet).
       bindA (sys P ''ps -ef | grep clvmd | grep -v grep'') (\<lambda>iRet1.
       whenA (iRet \<noteq> MP_SUCCESS \<and> iRet1 \<noteq> MP_SUCCESS) ERROR_CLUSTER_START_SERVICE_FAILED))
     else retA ())"

definition GetRHCSClusterState :: "'j plug_env \<Rightarrow> string \<Rightarrow> ('j, bool) act" where
  "GetRHCSClusterState P strHostName =
     bindA (root_ask P ROOT_COMMAND_RHCS_CLUSTAT (''|awk '$1=='' @ [dquote] @ strHostName @ [dquote] @ '' {print $3$4$5}'' @ [squote])) (\<lambda>vecResult.
     retA (vecResult \<noteq> [] \<and> str_find ''Online'' (hd vecResult) \<noteq> None \<and> str_find ''rgmanager'' (hd vecResult) \<noteq> None))"

fun rhcs_rounds :: "'j plug_env \<Rightarrow> string \<Rightarrow> nat \<Rightarrow> ('j, unit) act" where
  "rhcs_rounds P strHostName 0 = failA ERROR_CLUSTER_START_SERVICE_FAILED"
| "rhcs_rounds P strHostName (Suc n) =
     bindA (elseA (GetRHCSClusterState P strHostName) ERROR_CLUSTER_START_SERVICE_FAILED) (\<lambda>bIsStart.
     if bIsStart then retA () else rhcs_rounds P strHostName n)"

definition WaitRHCSClusterStart :: "'j plug_env \<Rightarrow> string \<Rightarrow> ('j, unit) act" where
  "WaitRHCSClusterStart P strHostName = rhcs_rounds P strHostName 10"

definition StartRHCSService :: "'j plug_env \<Rightarrow> ('j, unit) act" where
  "StartRHCSService P =
     thenA (root_or P ROOT_COMMAND_RHCS_SERVICE ''cman start'' ERROR_CLUSTER_START_SERVICE_FAILED)
     (thenA (StartCLvm P)
     (root_or P ROOT_COMMAND_RHCS_SERVICE ''rgmanager start'' ERROR_CLUSTER_START_SERVICE_FAILED))"

definition StartRHCSCluster :: "host_env \<Rightarrow> 'j plug_env \<Rightarrow> ('j, unit) act" where
  "StartRHCSCluster H P =
     bindA (host_name H ERROR_CLUSTER_START_SERVICE_FAILED) (\<lambda>strLocalHostName.
     bindA (elseA (GetRHCSClusterState P strLocalHostName) ERROR_CLUSTER_START_SERVICE_FAILED) (\<lambda>bIsStart.
     if bIsStart then retA ()
     else thenA (StartRHCSService P) (WaitRHCSClusterStart P strLocalHostName)))"

text \<open>A SunCluster is not started, which is a success.\<close>

definition Cluster_StartCluster :: "host_env \<Rightarrow> 'j plug_env \<Rightarrow> int \<Rightarrow> string \<Rightarrow> ('j, unit) act" where
  "Cluster_StartCluster H P iClusterType strResGrpName =
     (if iClusterType = CLUSTER_VCS then StartVCSCluster H P
      else if iClusterType = CLUSTER_POWERHA then StartPowerHACluster P
      else if iClusterType = CLUSTER_SERVICEGUARD then StartServiceGuardCluster H P strResGrpName
      else if iClusterType = CLUSTER_RHCS then StartRHCSCluster H P
      else if iClusterType = CLUSTER_SUNCLUSTER then retA ()
      else failA ERROR_COMMON_INVALID_PARAM)"

section \<open>Resource groups and the active host\<close>

definition res_grp_command :: "string \<Rightarrow> int option" where
  "res_grp_command strDBType =
     (if strDBType = DB_ORACLE then Some ROOT_COMMAND_SCRIPT_ORACLERESOURCEGROUP
      else if strDBType = DB_DB2 then Some ROOT_COMMAND_SCRIPT_DB2RESOURCEGROUP else None)"

definition StartResGrp :: "'j plug_env \<Rightarrow> string \<Rightarrow> string list \<Rightarrow> string \<Rightarrow> string \<Rightarrow> ('j, unit) act" where
  "StartResGrp P strResGrpName vecDevGrpName strClusterType strDBType =
     (case res_grp_command strDBType of
        None \<Rightarrow> failA ERROR_COMMON_INVALID_PARAM
      | Some iCmd \<Rightarrow> run_root P iCmd (BuildResGrpScriptParam strResGrpName vecDevGrpName strClusterType SCRIPTPARAM_STARTRESGRP)
          ERROR_CLUSTER_PACKAGE_ONLINE_FAILED)"

definition StopResGrp :: "'j plug_env \<Rightarrow> string \<Rightarrow> string list \<Rightarrow> string \<Rightarrow> string \<Rightarrow> ('j, unit) act" where
  "StopResGrp P strResGrpName vecDevGrpName strClusterType strDBType =
     (case res_grp_command strDBType of
        None \<Rightarrow> failA ERROR_COMMON_INVALID_PARAM
      | Some iCmd \<Rightarrow> run_root P iCmd (BuildResGrpScriptParam strResGrpName vecDevGrpName strClusterType SCRIPTPARAM_STOPRESGRP)
          ERROR_CLUSTER_PACKAGE_ONLINE_FAILED)"

definition active_query :: "string \<Rightarrow> int \<Rightarrow> (int \<times> string) option" where
  "active_query g iClusterType =
     (if iClusterType = CLUSTER_VCS then
        Some (ROOT_COMMAND_HARES, '' -state|awk '{if ($1=='' @ [dquote] @ g @ [dquote] @ '') print $0}'|grep 'ONLINE'|awk '{print $3}'' @ [squote])
      else if iClusterType = CLUSTER_POWERHA then Some (ROOT_COMMAND_CLFINDRES, '' '' @ g @ '' | grep -n -e 'ONLINE' | awk '{print $3}'' @ [squote])
      else if iClusterType = CLUSTER_SERVICEGUARD then
        Some (ROOT_COMMAND_CMVIEWCL, '' -p '' @ g @ '' | grep '' @ [squote] @ g @ [squote] @ ''|awk '{print $NF}' '')
      else if iClusterType = CLUSTER_RHCS then
        Some (ROOT_COMMAND_RHCS_CLUSTAT, '' -s '' @ g @ '' | grep '' @ [squote] @ g @ [squote] @ ''|awk '{print $2}' '')
      else if iClusterType = CLUSTER_SUNCLUSTER then
        Some (ROOT_COMMNAD_CLRG, '' status '' @ g @ '' | grep Online | nawk '{print $(NF/2)}'' @ [squote])
      else None)"

text \<open>A name in parentheses, as RHCS answers it.\<close>

definition strip_parens :: "int \<Rightarrow> string \<Rightarrow> string" where
  "strip_parens iClusterType h =
     (if iClusterType = CLUSTER_RHCS \<and> 2 \<le> length h \<and> hd h = CHR ''('' \<and> last h = CHR '')'' then butlast (tl h) else h)"

definition IsActiveNode :: "host_env \<Rightarrow> 'j plug_env \<Rightarrow> string \<Rightarrow> int \<Rightarrow> ('j, bool) act" where
  "IsActiveNode H P strResGrpName iClusterType =
     bindA (host_name H ERROR_CLUSTER_QUERY_NODE_FAILED) (\<lambda>strLocalHostName.
     bindA (case active_query strResGrpName iClusterType of None \<Rightarrow> retA [] | Some (iCmd, strParam) \<Rightarrow> root_ask P iCmd strParam) (\<lambda>vecResult.
     if vecResult = [] then failA ERROR_CLUSTER_QUERY_ACTIVE_HOST_FAILED
     else retA (strip_parens iClusterType (hd vecResult) = strLocalHostName)))"

definition Cluster_QueryClusterInfo :: "'j plug_env \<Rightarrow> db_info \<Rightarrow> string \<Rightarrow> string \<Rightarrow> ('j, cluster_info list) act" where
  "Cluster_QueryClusterInfo P i strClusterType strDBType =
     (let ask = (\<lambda>iCmd. bindA (query_root P iCmd (BuildClusterInfoScriptParam i strClusterType) ERROR_COMMON_SCRIPT_EXEC_FAILED)
                   (\<lambda>v. retA (AnalyseClusterInfoScriptRst v))) in
      if strDBType = DB_ORACLE then ask ROOT_COMMAND_SCRIPT_QUERYORACLECLUSTERINFO
      else if strDBType = DB_DB2 then ask ROOT_COMMAND_SCRIPT_QUERYDB2CLUSTERINFO
      else if strDBType = DB_CACHE then ask ROOT_COMMAND_SCRIPT_QUERYCACHECLUSTERINFO
      else failA ERROR_COMMON_INVALID_PARAM)"

section \<open>Actions\<close>

definition ClusterPlugin_QueryActiveHost :: "host_env \<Rightarrow> 'j plug_env \<Rightarrow> 'j request_msg \<Rightarrow> ('j, unit) act" where
  "ClusterPlugin_QueryActiveHost H P req =
     (let strResGrpName = GetSpecialQueryParam REST_PARAM_CLUSTER_RESGRPNAME (m_url req);
          strClusterType = GetSpecialQueryParam REST_PARAM_CLUSTER_CLUSTERTYPE (m_url req) in
      thenA (checkA (CheckParamString strResGrpName 1 254 [] []))
      (thenA (checkA (CheckParamString strClusterType 1 1 ''1234567'' []))
      (bindA (IsActiveNode H P strResGrpName (atoi strClusterType)) (\<lambda>bIsActive.
       set_rsp P ''isActive'' (jbool (pe_mk P) bIsActive)))))"

definition Cluster_GetDBInfo :: "request_url \<Rightarrow> db_info \<times> string \<times> string" where
  "Cluster_GetDBInfo u =
     (\<lparr>cq_strinstName = GetSpecialQueryParam REST_PARAM_CLUSTER_INSTNAME u, cq_strdbName = GetSpecialQueryParam REST_PARAM_CLUSTER_DBNAME u,
        cq_strdbUsername = [], cq_strdbPassword = []\<rparr>,
      GetSpecialQueryParam REST_PARAM_CLUSTER_APPTYPE u, GetSpecialQueryParam REST_PARAM_CLUSTER_CLUSTERTYPE u)"

definition Cluster_GetDBAuthParam :: "'j plug_env \<Rightarrow> 'j request_msg \<Rightarrow> ('j, string \<times> string) act" where
  "Cluster_GetDBAuthParam P req =
     bindA (head_trimmed P HTTPPARAM_DBUSERNAME req) (\<lambda>u.
     bindA (head_trimmed P HTTPPARAM_DBPASSWORD req) (\<lambda>p. retA (u, p)))"

text \<open>One value is set for every row and appended.\<close>

definition json_texts :: "'j json_mk \<Rightarrow> string list \<Rightarrow> 'j" where
  "json_texts K v = foldl (\<lambda>j s. jappend K j (jstr K s)) (jnull K) v"

definition row_json :: "'j json_mk \<Rightarrow> cluster_info \<Rightarrow> 'j \<Rightarrow> 'j" where
  "row_json K i jValue = fold (\<lambda>(k, v) j. jset K j k v)
     [(''clusterName'', jstr K (ci_strClusterName i)), (REST_PARAM_CLUSTER_RESGRPNAME, jstr K (ci_strResGrpName i)),
      (''vgActiveMode'', jstr K (ci_strVgActiveMode i)), (''networkName'', jstr K (ci_strNetWorkName i)),
      (REST_PARAM_CLUSTER_RESOURCENAME, json_texts K (ci_vecResourceName i)), (REST_PARAM_CLUSTER_DEVGRPNAME, json_texts K (ci_vecDevGrpName i))]
     jValue"

fun rows_json :: "'j json_mk \<Rightarrow> cluster_info list \<Rightarrow> 'j \<Rightarrow> 'j list" where
  "rows_json K [] jValue = []"
| "rows_json K (i # is) jValue = (let jValue = row_json K i jValue in jValue # rows_json K is jValue)"

definition ClusterPlugin_QueryClusterInfo :: "'j plug_env \<Rightarrow> 'j request_msg \<Rightarrow> ('j, unit) act" where
  "ClusterPlugin_QueryClusterInfo P req =
     (case Cluster_GetDBInfo (m_url req) of
        (i, strDBType, strClusterType) \<Rightarrow>
          bindA (Cluster_GetDBAuthParam P req) (\<lambda>(u, p).
          thenA (whenA (atoi strDBType \<notin> {1, 2, 3, 4, 15}) MP_FAILED)
          (thenA (checkA (CheckParamString strClusterType 1 1 ''1234567'' []))
          (bindA (Cluster_QueryClusterInfo P (i\<lparr>cq_strdbUsername := u, cq_strdbPassword := p\<rparr>) strClusterType strDBType) (\<lambda>v.
           append_rsp P (rows_json (pe_mk P) v (jnull (pe_mk P))))))))"

definition ClusterPlugin_StartCluster :: "host_env \<Rightarrow> 'j plug_env \<Rightarrow> 'j request_msg \<Rightarrow> ('j, unit) act" where
  "ClusterPlugin_StartCluster H P req =
     bindA (get_string P (m_msgBody req) REST_PARAM_CLUSTER_CLUSTERTYPE) (\<lambda>strClusterType.
     bindA (get_string P (m_msgBody req) REST_PARAM_CLUSTER_RESGRPNAME) (\<lambda>strResGrpName.
     thenA (checkA (CheckParamString strClusterType 1 1 ''1234567'' []))
     (thenA (checkA (CheckParamString strResGrpName 1 254 [] []))
     (Cluster_StartCluster H P (atoi strClusterType) strResGrpName))))"

text \<open>The names in a member that must be there; one that is not an array holds none.\<close>

definition CHECK_JSON_VALUE :: "'j plug_env \<Rightarrow> 'j \<Rightarrow> string \<Rightarrow> ('j, unit) act" where
  "CHECK_JSON_VALUE P j k = whenA (\<not> isMember (pe_json P) j k) ERROR_COMMON_INVALID_PARAM"

definition checked_names :: "'j plug_env \<Rightarrow> 'j \<Rightarrow> string \<Rightarrow> ('j, string list) act" where
  "checked_names P j k =
     (let J = pe_json P; v = member J j k in
      if isArray J v then mapA (\<lambda>e. thenA (checkA (CheckParamString (asString J e) 1 254 [] [])) (retA (asString J e))) (elems J v)
      else retA [])"

text \<open>What starting and stopping a resource group read: group, device groups, type of the cluster and of the database.\<close>

definition res_grp_request :: "'j plug_env \<Rightarrow> 'j request_msg \<Rightarrow> ('j, string \<times> string list \<times> string \<times> string) act" where
  "res_grp_request P req =
     (let j = m_msgBody req in
      bindA (get_string P j REST_PARAM_CLUSTER_CLUSTERTYPE) (\<lambda>strClusterType.
      bindA (get_string P j REST_PARAM_CLUSTER_RESGRPNAME) (\<lambda>strResGrpName.
      bindA (get_string P j REST_PARAM_CLUSTER_APPTYPE) (\<lambda>strDBType.
      thenA (CHECK_JSON_VALUE P j REST_PARAM_CLUSTER_RESOURCENAME)
      (thenA (checkA (CheckParamString strClusterType 1 1 ''1234567'' []))
      (thenA (checkA (CheckParamString strDBType 1 1 ''1234'' []))
      (thenA (checkA (CheckParamString strResGrpName 1 254 [] []))
      (thenA (checked_names P j REST_PARAM_CLUSTER_RESOURCENAME)
      (thenA (CHECK_JSON_VALUE P j REST_PARAM_CLUSTER_DEVGRPNAME)
      (bindA (checked_names P j REST_PARAM_CLUSTER_DEVGRPNAME) (\<lambda>vecDevGrp.
       retA (strResGrpName, vecDevGrp, strClusterType, strDBType))))))))))))"

definition ClusterPlugin_StartResouceGroup :: "'j plug_env \<Rightarrow> 'j request_msg \<Rightarrow> ('j, unit) act" where
  "ClusterPlugin_StartResouceGroup P req =
     bindA (res_grp_request P req) (\<lambda>(strResGrpName, vecDevGrp, strClusterType, strDBType).
     StartResGrp P strResGrpName vecDevGrp strClusterType strDBType)"

definition ClusterPlugin_StopResouceGroup :: "'j plug_env \<Rightarrow> 'j request_msg \<Rightarrow> ('j, unit) act" where
  "ClusterPlugin_StopResouceGroup P req =
     bindA (res_grp_request P req) (\<lambda>(strResGrpName, vecDevGrp, strClusterType, strDBType).
     StopResGrp P strResGrpName vecDevGrp strClusterType strDBType)"

end
