(* ===== verification/BackupApp.thy ===== *)
theory BackupApp
  imports OraclePlug HostPlug DeviceApp
begin

text \<open>
  Backups that do not ask for the type of an application: \<^verbatim>\<open>CApp\<close> (\<^verbatim>\<open>src/src/apps/app/App.cpp\<close>) and the
  actions of \<^verbatim>\<open>CAppPlugin\<close> (\<^verbatim>\<open>src/src/plugins/app/AppPlugin.cpp\<close>), Linux, where the only application is
  Oracle. The functions answer a code beside the list of what failed; the actions read the first element
  of that list whenever the code is an error.
\<close>

abbreviation REST_PARAM_APP_INSTNAME :: string where "REST_PARAM_APP_INSTNAME \<equiv> ''instName''"
abbreviation REST_PARAM_APP_DBNAME :: string where "REST_PARAM_APP_DBNAME \<equiv> ''dbName''"
abbreviation REST_PARAM_APP_VERSION :: string where "REST_PARAM_APP_VERSION \<equiv> ''version''"
abbreviation REST_PARAM_APP_STORAGE_GROUP :: string where "REST_PARAM_APP_STORAGE_GROUP \<equiv> ''storageGroup''"
abbreviation REST_PARAM_APP_BACKUP_SUCC :: string where "REST_PARAM_APP_BACKUP_SUCC \<equiv> ''backupSucc''"
abbreviation REST_PARAM_APP_TIME :: string where "REST_PARAM_APP_TIME \<equiv> ''time''"
abbreviation REST_PARAM_APP_ERROR_CODE :: string where "REST_PARAM_APP_ERROR_CODE \<equiv> ''errorCode''"
abbreviation LLONG_MAX :: int where "LLONG_MAX \<equiv> 9223372036854775807"

datatype APP_TYPE_E = APP_TYPE_ORACLE | APP_TYPE_SQLSERVER | APP_TYPE_EXCHANGE | APP_TYPE_DB2 | APP_TYPE_BUTT

record app_info =
  ai_enAppType :: APP_TYPE_E
  ai_strInstName :: string
  ai_strDBName :: string
  ai_strVersion :: string
  ai_strStorageGroup :: string

record app_auth_info =
  aa_strUserName :: string
  aa_strPasswd :: string

record app_failed_info =
  af_iErrorCode :: int
  af_strDbName :: string

section \<open>Oracle instances\<close>

text \<open>The instances of the host, \<^const>\<open>None\<close> when Oracle is not installed; the code when a query fails.\<close>

definition oracle_insts :: "'j plug_env \<Rightarrow> ('j, int + oracle_inst_info list option) act" where
  "oracle_insts P =
     eitherA (bindA (Oracle_IsInstalled P) (\<lambda>bIsInstalled.
       if \<not> bIsInstalled then retA None else bindA (Oracle_GetDBInfo P) (\<lambda>v. retA (Some v))))"

definition app_db :: "app_auth_info \<Rightarrow> oracle_inst_info \<Rightarrow> oracle_db_info" where
  "app_db a i = no_oracle_db\<lparr>od_iGetArchiveLUN := 0, od_iIncludeArchLog := 0, od_strDBUsername := aa_strUserName a,
     od_strDBPassword := aa_strPasswd a, od_strInstName := oi_strInstName i\<rparr>"

definition app_failed :: "int \<Rightarrow> oracle_inst_info \<Rightarrow> app_failed_info" where
  "app_failed iRet i = \<lparr>af_iErrorCode = iRet, af_strDbName = oi_strInstName i\<rparr>"

text \<open>What is done with the instances; their absence is a success.\<close>

definition on_insts :: "'j plug_env \<Rightarrow> (oracle_inst_info list \<Rightarrow> ('j, int \<times> app_failed_info list) act) \<Rightarrow> ('j, int \<times> app_failed_info list) act" where
  "on_insts P f = bindA (oracle_insts P) (\<lambda>r.
     case r of Inl iRet \<Rightarrow> retA (iRet, []) | Inr None \<Rightarrow> retA (MP_SUCCESS, []) | Inr (Some v) \<Rightarrow> f v)"

fun freeze_insts :: "'j plug_env \<Rightarrow> app_auth_info \<Rightarrow> oracle_inst_info list \<Rightarrow> ('j, int \<times> app_failed_info list) act" where
  "freeze_insts P a [] = retA (MP_SUCCESS, [])"
| "freeze_insts P a (i # is) =
     bindA (codeA (Oracle_Freeze P (app_db a i))) (\<lambda>iRet.
     if iRet \<noteq> MP_SUCCESS then retA (iRet, [app_failed iRet i]) else freeze_insts P a is)"

definition FreezeOracle :: "'j plug_env \<Rightarrow> app_auth_info \<Rightarrow> ('j, int \<times> app_failed_info list) act" where
  "FreezeOracle P a = on_insts P (freeze_insts P a)"

fun unfreeze_insts :: "'j plug_env \<Rightarrow> app_auth_info \<Rightarrow> oracle_inst_info list \<Rightarrow> ('j, app_failed_info list) act" where
  "unfreeze_insts P a [] = retA []"
| "unfreeze_insts P a (i # is) =
     bindA (codeA (thenA (Oracle_Thaw P (app_db a i)) (ArchiveDB P (app_db a i)))) (\<lambda>iRet.
     bindA (unfreeze_insts P a is) (\<lambda>v. retA (if iRet \<noteq> MP_SUCCESS then app_failed iRet i # v else v)))"

definition UnFreezeOracle :: "'j plug_env \<Rightarrow> app_auth_info \<Rightarrow> ('j, int \<times> app_failed_info list) act" where
  "UnFreezeOracle P a = on_insts P (\<lambda>is. bindA (unfreeze_insts P a is) (\<lambda>v.
     retA (if v = [] then MP_SUCCESS else ERROR_COMMON_APP_THAW_FAILED, v)))"

text \<open>An instance whose state cannot be asked is thawed and started like a frozen one.\<close>

fun unfreeze_ex_insts :: "'j plug_env \<Rightarrow> app_auth_info \<Rightarrow> oracle_inst_info list \<Rightarrow> ('j, unit) act" where
  "unfreeze_ex_insts P a [] = retA ()"
| "unfreeze_ex_insts P a (i # is) =
     bindA (tryA (Oracle_QueryFreezeState P (app_db a i))) (\<lambda>r.
     if r = Some DB_UNFREEZE then unfreeze_ex_insts P a is
     else thenA (Oracle_Thaw P (app_db a i)) (thenA (StartOracleInstance P (app_db a i)) (unfreeze_ex_insts P a is)))"

definition UnFreezeExOracle :: "'j plug_env \<Rightarrow> app_auth_info \<Rightarrow> ('j, unit) act" where
  "UnFreezeExOracle P a = bindA (oracle_insts P) (\<lambda>r.
     case r of Inl iRet \<Rightarrow> failA iRet | Inr None \<Rightarrow> retA () | Inr (Some v) \<Rightarrow> unfreeze_ex_insts P a v)"

text \<open>Every instance is tried, and the code is that of the last one.\<close>

fun truncate_insts :: "(int \<Rightarrow> mp_tm option) \<Rightarrow> 'j plug_env \<Rightarrow> app_auth_info \<Rightarrow> int \<Rightarrow> oracle_inst_info list \<Rightarrow> int
    \<Rightarrow> ('j, int \<times> app_failed_info list) act" where
  "truncate_insts localtime P a tTruncateTime [] iRet = retA (iRet, [])"
| "truncate_insts localtime P a tTruncateTime (i # is) iRet =
     bindA (codeA (TruncateArchiveLog localtime P (app_db a i) tTruncateTime)) (\<lambda>iRet.
     bindA (truncate_insts localtime P a tTruncateTime is iRet) (\<lambda>(iLast, v).
     retA (iLast, if iRet \<noteq> MP_SUCCESS then app_failed iRet i # v else v)))"

definition TruncateOracleLog :: "(int \<Rightarrow> mp_tm option) \<Rightarrow> 'j plug_env \<Rightarrow> app_auth_info \<Rightarrow> int \<Rightarrow> ('j, int \<times> app_failed_info list) act" where
  "TruncateOracleLog localtime P a tTruncateTime =
     on_insts P (\<lambda>is. truncate_insts localtime P a tTruncateTime is MP_SUCCESS)"

fun frozen_state :: "'j plug_env \<Rightarrow> app_auth_info \<Rightarrow> oracle_inst_info list \<Rightarrow> ('j, int) act" where
  "frozen_state P a [] = retA DB_UNFREEZE"
| "frozen_state P a (i # is) =
     bindA (tryA (Oracle_QueryFreezeState P (app_db a i))) (\<lambda>r.
     case r of
       None \<Rightarrow> frozen_state P a is
     | Some iState \<Rightarrow> if iState \<noteq> DB_UNFREEZE then retA iState else frozen_state P a is)"

definition QueryOracleFreezeState :: "'j plug_env \<Rightarrow> app_auth_info \<Rightarrow> ('j, int) act" where
  "QueryOracleFreezeState P a = bindA (oracle_insts P) (\<lambda>r.
     case r of Inl iRet \<Rightarrow> failA iRet | Inr None \<Rightarrow> retA DB_UNFREEZE | Inr (Some v) \<Rightarrow> frozen_state P a v)"

definition QueryOracleInfo :: "'j plug_env \<Rightarrow> ('j, app_info list) act" where
  "QueryOracleInfo P = bindA (oracle_insts P) (\<lambda>r.
     case r of
       Inl iRet \<Rightarrow> failA iRet
     | Inr None \<Rightarrow> retA []
     | Inr (Some v) \<Rightarrow> retA (map (\<lambda>i. \<lparr>ai_enAppType = APP_TYPE_ORACLE, ai_strInstName = oi_strInstName i, ai_strDBName = oi_strDBName i,
         ai_strVersion = oi_strVersion i, ai_strStorageGroup = []\<rparr>) v))"

section \<open>Actions\<close>

definition App_GetDBAuthInfo :: "'j plug_env \<Rightarrow> 'j request_msg \<Rightarrow> ('j, app_auth_info) act" where
  "App_GetDBAuthInfo P req =
     bindA (head_trimmed P HTTPPARAM_DBUSERNAME req) (\<lambda>u.
     bindA (head_trimmed P HTTPPARAM_DBPASSWORD req) (\<lambda>p. retA \<lparr>aa_strUserName = u, aa_strPasswd = p\<rparr>))"

text \<open>An information is appended to the member of its type.\<close>

definition AddAppInfoToResult :: "'j plug_env \<Rightarrow> app_info \<Rightarrow> 'j \<Rightarrow> 'j option" where
  "AddAppInfoToResult P i j =
     (let K = pe_mk P;
          base = [(REST_PARAM_APP_VERSION, jstr K (ai_strVersion i)), (REST_PARAM_APP_DBNAME, jstr K (ai_strDBName i))];
          inst = base @ [(REST_PARAM_APP_INSTNAME, jstr K (ai_strInstName i))];
          add = (\<lambda>k kvs. Some (jset K j k (jappend K (if isMember (pe_json P) j k then member (pe_json P) j k else jnull K) (jobj K kvs))))
      in case ai_enAppType i of
           APP_TYPE_ORACLE \<Rightarrow> add ''oracle'' inst
         | APP_TYPE_SQLSERVER \<Rightarrow> add ''sqlserver'' inst
         | APP_TYPE_EXCHANGE \<Rightarrow> add ''exchange'' (base @ [(REST_PARAM_APP_STORAGE_GROUP, jstr K (ai_strStorageGroup i))])
         | APP_TYPE_DB2 \<Rightarrow> add ''db2'' inst
         | APP_TYPE_BUTT \<Rightarrow> None)"

fun AddAppInfosToResult :: "'j plug_env \<Rightarrow> app_info list \<Rightarrow> 'j \<Rightarrow> 'j" where
  "AddAppInfosToResult P [] j = j"
| "AddAppInfosToResult P (i # is) j = (case AddAppInfoToResult P i j of None \<Rightarrow> j | Some j \<Rightarrow> AddAppInfosToResult P is j)"

definition AppPlugin_QueryInfo :: "'j plug_env \<Rightarrow> ('j, unit) act" where
  "AppPlugin_QueryInfo P =
     bindA (QueryOracleInfo P) (\<lambda>v s. Some (s\<lparr>ps_rsp := AddAppInfosToResult P v (ps_rsp s)\<rparr>, Inr ()))"

text \<open>The first failed application is read from the list without a look whether there is one.\<close>

definition app_answer :: "'j plug_env \<Rightarrow> int \<times> app_failed_info list \<Rightarrow> ('j, unit) act" where
  "app_answer P r =
     (case r of (iRet, vecAppFailedList) \<Rightarrow>
        if iRet = MP_SUCCESS then retA ()
        else case vecAppFailedList of
               [] \<Rightarrow> crashA
             | f # _ \<Rightarrow>
                 thenA (append_rsp P [jobj (pe_mk P) [(REST_PARAM_APP_ERROR_CODE, jint (pe_mk P) (af_iErrorCode f)),
                   (REST_PARAM_APP_DBNAME, jstr (pe_mk P) (af_strDbName f))]])
                 (failA iRet))"

definition AppPlugin_Freeze :: "'j plug_env \<Rightarrow> int \<Rightarrow> 'j request_msg \<Rightarrow> ('j, unit) act" where
  "AppPlugin_Freeze P tFreezeTime req =
     bindA (App_GetDBAuthInfo P req) (\<lambda>a.
     bindA (FreezeOracle P a) (\<lambda>r.
     thenA (app_answer P r) (set_rsp P REST_PARAM_APP_TIME (jint (pe_mk P) tFreezeTime))))"

definition AppPlugin_UnFreeze :: "'j plug_env \<Rightarrow> 'j request_msg \<Rightarrow> ('j, unit) act" where
  "AppPlugin_UnFreeze P req = bindA (App_GetDBAuthInfo P req) (\<lambda>a. bindA (UnFreezeOracle P a) (app_answer P))"

definition AppPlugin_EndBackup :: "'j plug_env \<Rightarrow> 'j request_msg \<Rightarrow> ('j, unit) act" where
  "AppPlugin_EndBackup P req =
     bindA (App_GetDBAuthInfo P req) (\<lambda>a.
     bindA (get_int P (m_msgBody req) REST_PARAM_APP_BACKUP_SUCC) (\<lambda>iBackupSucc.
     checkA (CheckParamInteger32 iBackupSucc 0 1 [])))"

definition AppPlugin_TruncateLog :: "(int \<Rightarrow> mp_tm option) \<Rightarrow> 'j plug_env \<Rightarrow> 'j request_msg \<Rightarrow> ('j, unit) act" where
  "AppPlugin_TruncateLog localtime P req =
     bindA (App_GetDBAuthInfo P req) (\<lambda>a.
     case GetJsonInt64 (pe_json P) (m_msgBody req) REST_PARAM_APP_TIME 0 of
       (iRet, i64Tmp) \<Rightarrow>
         thenA (checkA iRet)
         (thenA (checkA (CheckParamInteger64 i64Tmp 1 (LLONG_MAX - 1) []))
         (bindA (TruncateOracleLog localtime P a i64Tmp) (app_answer P))))"

definition AppPlugin_QueryFreezeState :: "'j plug_env \<Rightarrow> 'j request_msg \<Rightarrow> ('j, unit) act" where
  "AppPlugin_QueryFreezeState P req =
     bindA (App_GetDBAuthInfo P req) (\<lambda>a.
     bindA (QueryOracleFreezeState P a) (\<lambda>iFreezeState. set_rsp P ''state'' (jint (pe_mk P) iFreezeState)))"

definition AppPlugin_UnFreezeEx :: "'j plug_env \<Rightarrow> 'j request_msg \<Rightarrow> ('j, unit) act" where
  "AppPlugin_UnFreezeEx P req = bindA (App_GetDBAuthInfo P req) (UnFreezeExOracle P)"

end
