(* ===== verification/BackupProps.thy ===== *)
theory BackupProps
  imports BackupApp DbProps
begin

text \<open>
  Properties of the backups that do not ask for the type of an application: what a query that fails does to
  the actions, and what the truncation of logs reports.
\<close>

section \<open>Instances\<close>

lemma oracle_insts_error:
  assumes "oracle_insts P s = Some (s', Inr (Inl e))"
  shows "e \<noteq> MP_SUCCESS"
  using assms
  by (auto simp: oracle_insts_def eitherA_def Oracle_IsInstalled_def Oracle_GetDBInfo_def query_root_def AnalyseDatabaseNameByConfFile_def
      root_exec_def bindA_def retA_def failA_def TRANSFORM_RETURN_CODE_def Let_def elseA_def catchA_def checkA_def thenA_def
      split: option.splits sum.splits prod.splits if_splits)

lemma truncate_snoc:
  assumes "truncate_insts localtime P a t is k s = Some (s1, Inr (k1, v))"
    and "codeA (TruncateArchiveLog localtime P (app_db a i) t) s1 = Some (s2, Inr r)"
  shows "truncate_insts localtime P a t (is @ [i]) k s = Some (s2, Inr (r, v @ (if r \<noteq> MP_SUCCESS then [app_failed r i] else [])))"
  using assms
  by (induction "is" arbitrary: k s k1 v)
    (auto simp: bindA_def retA_def split: option.splits sum.splits prod.splits if_splits)

section \<open>Properties\<close>

text \<open>
  C35. A query for the instances of Oracle that fails brings the agent down: the freeze and the thaw of all
  applications read the first element of a list of failures that is empty then. Only the extended thaw
  answers the code.
\<close>
theorem failed_query_crashes_backup:
  assumes "App_GetDBAuthInfo P req s = Some (s1, Inr a)" "oracle_insts P s1 = Some (s2, Inr (Inl e))"
  shows "AppPlugin_Freeze P now req s = None \<and> AppPlugin_UnFreeze P req s = None \<and> AppPlugin_UnFreezeEx P req s = Some (s2, Inl e)"
  using assms oracle_insts_error [OF assms(2)]
  by (simp add: AppPlugin_Freeze_def AppPlugin_UnFreeze_def AppPlugin_UnFreezeEx_def FreezeOracle_def UnFreezeOracle_def UnFreezeExOracle_def
      on_insts_def app_answer_def thenA_def bindA_def retA_def crashA_def failA_def)

text \<open>
  The truncation of logs reports its last instance: when the logs of the last instance are truncated the
  action succeeds and answers nothing, whatever failed before.
\<close>
theorem truncate_reports_last:
  assumes "truncate_insts localtime P a t is MP_SUCCESS s = Some (s1, Inr (iRet, v))"
    and "TruncateArchiveLog localtime P (app_db a i) t s1 = Some (s2, Inr ())"
    and "oracle_insts P s0 = Some (s, Inr (Inr (Some (is @ [i]))))"
  shows "bindA (TruncateOracleLog localtime P a t) (app_answer P) s0 = Some (s2, Inr ())"
proof -
  have "codeA (TruncateArchiveLog localtime P (app_db a i) t) s1 = Some (s2, Inr MP_SUCCESS)" using assms(2) by (simp add: codeA_def)
  from truncate_snoc [OF assms(1) this] show ?thesis
    using assms(3) by (simp add: TruncateOracleLog_def on_insts_def app_answer_def bindA_def retA_def)
qed

section \<open>Witnesses\<close>

text \<open>A host with two instances, whose script for the first of them fails.\<close>

definition backup_shell :: "string \<Rightarrow> file_world \<Rightarrow> file_world \<times> popen_result" where
  "backup_shell cmd W =
     (if str_find ''-u 7'' cmd \<noteq> None then (W, Ran [] (Some (Exited 1)))
      else if str_find ''-u 6'' cmd \<noteq> None
      then (W\<lparr>fw_text := (fw_text W)(''/opt/tmp/result_tmp6'' \<mapsto> ''11;a;db1;1;0;/home'' @ [CHR 0x0A] @ ''11;b;db2;1;0;/home'' @ [CHR 0x0A])\<rparr>, Ran [] (Some (Exited 0)))
      else (W, Ran [] (Some (Exited 0))))"

definition backup_plug :: "(string \<Rightarrow> file_world \<Rightarrow> file_world \<times> popen_result) \<Rightarrow> dj plug_env" where
  "backup_plug sh = (demo_plug [])\<lparr>pe_exec := (demo_exec 500)\<lparr>xe_shell := sh\<rparr>\<rparr>"

definition backup_inst :: "string \<Rightarrow> string \<Rightarrow> oracle_inst_info" where
  "backup_inst inst db = \<lparr>oi_strInstName = inst, oi_strDBName = db, oi_strVersion = ''11'', oi_iState = 1, oi_iIsASMDB = 0,
     oi_iArchiveLogMode = None, oi_strOracleHome = ''/home''\<rparr>"

definition backup_time :: "int \<Rightarrow> mp_tm option" where
  "backup_time t = Some \<lparr>tm_year = 118, tm_mon = 0, tm_mday = 1, tm_hour = 0, tm_min = 0, tm_sec = 0\<rparr>"

definition backup_auth :: app_auth_info where
  "backup_auth = \<lparr>aa_strUserName = ''sys'', aa_strPasswd = ''pw''\<rparr>"

lemma backup_insts:
  "map_option snd (oracle_insts (backup_plug backup_shell) demo_ps) = Some (Inr (Inr (Some ([backup_inst ''a'' ''db1''] @ [backup_inst ''b'' ''db2'']))))"
  by code_simp

lemma backup_first:
  "map_option snd (truncate_insts backup_time (backup_plug backup_shell) backup_auth 5 [backup_inst ''a'' ''db1''] MP_SUCCESS
     (fst (the (oracle_insts (backup_plug backup_shell) demo_ps)))) =
   Some (Inr (ERROR_COMMON_SCRIPT_EXEC_FAILED, [app_failed ERROR_COMMON_SCRIPT_EXEC_FAILED (backup_inst ''a'' ''db1'')]))"
  by code_simp

lemma backup_second:
  "map_option snd (TruncateArchiveLog backup_time (backup_plug backup_shell) (app_db backup_auth (backup_inst ''b'' ''db2'')) 5
     (fst (the (truncate_insts backup_time (backup_plug backup_shell) backup_auth 5 [backup_inst ''a'' ''db1''] MP_SUCCESS
       (fst (the (oracle_insts (backup_plug backup_shell) demo_ps))))))) = Some (Inr ())"
  by code_simp

lemma map_snd_SomeD: "map_option snd x = Some b \<Longrightarrow> x = Some (fst (the x), b)"
  by (cases x) auto

lemma backup_refused:
  "map_option snd (App_GetDBAuthInfo (backup_plug (\<lambda>cmd W. (W, Ran [] (Some (Exited 1))))) demo_req demo_ps) = Some (Inr \<lparr>aa_strUserName = [], aa_strPasswd = []\<rparr>)"
  "map_option snd (oracle_insts (backup_plug (\<lambda>cmd W. (W, Ran [] (Some (Exited 1)))))
     (fst (the (App_GetDBAuthInfo (backup_plug (\<lambda>cmd W. (W, Ran [] (Some (Exited 1))))) demo_req demo_ps)))) = Some (Inr (Inl ERROR_COMMON_SCRIPT_EXEC_FAILED))"
  by code_simp+

theorem failed_query_crashes_backup_witness:
  "AppPlugin_Freeze (backup_plug (\<lambda>cmd W. (W, Ran [] (Some (Exited 1))))) 0 demo_req demo_ps = None"
  by (rule conjunct1 [OF failed_query_crashes_backup [OF map_snd_SomeD [OF backup_refused(1)] map_snd_SomeD [OF backup_refused(2)]]])

end
