(* ===== verification/ClusterProps.thy ===== *)
theory ClusterProps
  imports ClusterApp BackupProps HostProps
begin

text \<open>
  Properties of the clusters: what the rows of an answer carry, the parameters of the scripts, and that a
  start that succeeds has seen the cluster run.
\<close>

section \<open>Rows\<close>

text \<open>A row as the script prints it.\<close>

type_synonym cluster_row = "string \<times> string \<times> string list \<times> string"

definition row_line :: "cluster_row \<Rightarrow> string" where
  "row_line r = (case r of (c, g, ds, m) \<Rightarrow> colons [c, g, join_sep CHR ''+'' ds, m])"

definition row_ok :: "cluster_row \<Rightarrow> bool" where
  "row_ok r \<longleftrightarrow> (case r of (c, g, ds, m) \<Rightarrow>
     CHR '':'' \<notin> set c \<and> CHR '':'' \<notin> set g \<and> ds \<noteq> [] \<and> list_all (\<lambda>d. CHR '':'' \<notin> set d \<and> CHR ''+'' \<notin> set d) ds)"

definition row_info :: "string list \<Rightarrow> cluster_row \<Rightarrow> cluster_info" where
  "row_info devs r = (case r of (c, g, ds, m) \<Rightarrow>
     \<lparr>ci_strClusterName = c, ci_strResGrpName = g, ci_vecDevGrpName = devs, ci_vecResourceName = [], ci_strVgActiveMode = m, ci_strNetWorkName = []\<rparr>)"

definition row_devs :: "cluster_row \<Rightarrow> string list" where
  "row_devs r = fst (snd (snd r))"

lemma set_join_sep: "set (join_sep c ps) \<subseteq> insert c (\<Union> (set ` set ps))"
  by (induction c ps rule: join_sep.induct) auto

lemma cut_row_line:
  assumes "row_ok (c, g, ds, m)"
  shows "cut_fields 3 (row_line (c, g, ds, m)) = Some [c, g, join_sep CHR ''+'' ds, m]"
proof -
  have "CHR '':'' \<notin> set (join_sep CHR ''+'' ds)"
    using assms set_join_sep [of "CHR ''+''" ds] by (auto simp: row_ok_def list_all_iff)
  then show ?thesis
    using cut_fields_join [of "[c, g, join_sep CHR ''+'' ds]" 3 m] assms
    by (auto simp: row_line_def colons_def row_ok_def)
qed

lemma cluster_rows_Cons:
  assumes "row_ok r"
  shows "cluster_rows v (row_line r # ls) = row_info (v @ row_devs r) r # cluster_rows (v @ row_devs r) ls"
proof -
  obtain c g ds m where r: "r = (c, g, ds, m)" by (cases r)
  have "StrSplit CHR ''+'' (join_sep CHR ''+'' ds) = ds"
    using assms by (intro StrSplit_join) (auto simp: r row_ok_def list_all_iff)
  then show ?thesis
    using cut_row_line [of c g ds m] assms by (simp add: r row_info_def row_devs_def Let_def)
qed

lemma upt_Suc_Cons: "[0..<Suc n] = 0 # map Suc [0..<n]"
  by (simp add: upt_conv_Cons map_Suc_upt)

lemma cluster_rows_lines:
  "list_all row_ok rs \<Longrightarrow> cluster_rows v (map row_line rs) =
     map (\<lambda>i. row_info (v @ concat (map row_devs (take (Suc i) rs))) (rs ! i)) [0..<length rs]"
proof (induction rs arbitrary: v)
  case (Cons r rs)
  then have "row_ok r" "list_all row_ok rs" by simp_all
  then show ?case
    using Cons.IH [of "v @ row_devs r"]
    by (simp only: list.map cluster_rows_Cons length_Cons upt_Suc_Cons) (simp add: o_def)
qed simp

section \<open>Parameters of the resource group scripts\<close>

lemma foldl_join: "s \<noteq> [] \<Longrightarrow> foldl (\<lambda>s g. if s = [] then g else s @ ''+'' @ g) s gs = join_sep CHR ''+'' (s # gs)"
proof (induction gs arbitrary: s)
  case (Cons g gs)
  have "join_sep CHR ''+'' ((s @ CHR ''+'' # g) # gs) = join_sep CHR ''+'' (s # g # gs)" by (cases gs) simp_all
  then show ?case using Cons.IH [of "s @ CHR ''+'' # g"] Cons.prems by simp
qed simp

lemma join_devs_join: "hd gs \<noteq> [] \<Longrightarrow> gs \<noteq> [] \<Longrightarrow> join_devs gs = join_sep CHR ''+'' gs"
  by (cases gs) (simp_all add: join_devs_def foldl_join)

lemma join_devs_split:
  assumes "gs \<noteq> []" "list_all (\<lambda>g. g \<noteq> [] \<and> CHR ''+'' \<notin> set g) gs"
  shows "StrSplit CHR ''+'' (join_devs gs) = gs"
proof -
  have "join_devs gs = join_sep CHR ''+'' gs" using assms by (intro join_devs_join) (cases gs, simp_all)+
  then show ?thesis using assms StrSplit_join [of gs "CHR ''+''"] by (simp add: list_all_iff)
qed

text \<open>The script finds the parameters again, and the device groups in the second of them.\<close>

lemma res_grp_parameters_arrive:
  assumes "CHR '':'' \<notin> set g" "CHR '':'' \<notin> set t" "CHR '':'' \<notin> set oper" "gs \<noteq> []"
    and "list_all (\<lambda>d. d \<noteq> [] \<and> CHR ''+'' \<notin> set d \<and> CHR '':'' \<notin> set d) gs"
  shows "StrSplit CHR '':'' (BuildResGrpScriptParam g gs t oper) =
      [''RESGRPNAME='' @ g, ''DEVGRPNAME='' @ join_devs gs, ''CLUSTERTYPE='' @ t, ''OPERTYPE='' @ oper] \<and>
    StrSplit CHR ''+'' (join_devs gs) = gs"
proof -
  have j: "join_devs gs = join_sep CHR ''+'' gs" using assms by (intro join_devs_join) (cases gs, simp_all)+
  then have "CHR '':'' \<notin> set (join_devs gs)"
    using set_join_sep [of "CHR ''+''" gs] assms(5) by (auto simp: list_all_iff)
  moreover have "list_all (\<lambda>g. g \<noteq> [] \<and> CHR ''+'' \<notin> set g) gs" using assms(5) by (simp add: list_all_iff)
  ultimately show ?thesis
    using join_devs_split [of gs] assms by (simp add: BuildResGrpScriptParam_def StrSplit_colons)
qed

text \<open>A name with a colon is the name, an operation and another field: what starts a group reads as a stop.\<close>

lemma colon_name_injects:
  "StrSplit CHR '':'' (BuildResGrpScriptParam ''g:OPERTYPE=0'' [''d''] ''2'' SCRIPTPARAM_STARTRESGRP) =
     [''RESGRPNAME=g'', ''OPERTYPE=0'', ''DEVGRPNAME=d'', ''CLUSTERTYPE=2'', ''OPERTYPE=1''] \<and>
   CheckParamString ''g:OPERTYPE=0'' 1 254 [] [] = MP_SUCCESS"
  by code_simp

section \<open>Starting\<close>

text \<open>What the last action of a start asked, and what it was answered.\<close>

definition last_seen :: "'j plug_env \<Rightarrow> int \<Rightarrow> string \<Rightarrow> (string \<Rightarrow> bool) \<Rightarrow> 'j plug_state \<Rightarrow> bool" where
  "last_seen P iCmd strParam good s' \<longleftrightarrow>
     (\<exists>s v. root_exec P iCmd strParam (Some []) s = Some (s', Inr (v, MP_SUCCESS)) \<and> v \<noteq> [] \<and> good (hd v))"

lemma bindA_Some: "bindA m f s = Some (s', Inr b) \<longleftrightarrow> (\<exists>s1 a. m s = Some (s1, Inr a) \<and> f a s1 = Some (s', Inr b))"
  by (auto simp: bindA_def split: option.splits sum.splits)

lemma thenA_Some: "thenA m k s = Some (s', Inr b) \<longleftrightarrow> (\<exists>s1 a. m s = Some (s1, Inr a) \<and> k s1 = Some (s', Inr b))"
  by (simp add: thenA_def bindA_Some)

lemma failA_Some [simp]: "failA e s \<noteq> Some (s', Inr b)"
  by (simp add: failA_def)

lemma retA_Some: "retA a s = Some (s', Inr b) \<longleftrightarrow> s' = s \<and> b = a"
  by (auto simp: retA_def)

lemma whenA_Some: "whenA c e s = Some (s', Inr b) \<longleftrightarrow> s' = s \<and> \<not> c"
  by (auto simp: whenA_def retA_def failA_def)

lemma checkA_Some: "checkA e s = Some (s', Inr b) \<longleftrightarrow> s' = s \<and> e = MP_SUCCESS"
  by (auto simp: checkA_def retA_def failA_def)

lemma elseA_Some: "elseA m e s = Some (s', Inr b) \<longleftrightarrow> m s = Some (s', Inr b)"
  by (auto simp: elseA_def split: option.splits sum.splits)

lemmas act_Some = bindA_Some thenA_Some retA_Some whenA_Some checkA_Some elseA_Some

lemma ask_or_Some:
  "ask_or P iCmd p code s = Some (s', Inr v) \<longleftrightarrow> root_exec P iCmd p (Some []) s = Some (s', Inr (v, MP_SUCCESS))"
  by (auto simp: ask_or_def act_Some split_beta)

lemma ask_rounds_seen: "ask_rounds P iCmd p good n s = Some (s', Inr ()) \<Longrightarrow> last_seen P iCmd p good s'"
proof (induction n arbitrary: s)
  case (Suc n)
  then obtain s1 v iRet where a: "root_exec P iCmd p (Some []) s = Some (s1, Inr (v, iRet))"
    and b: "(if iRet \<noteq> MP_SUCCESS then failA ERROR_CLUSTER_QUERY_SERVICE_STATE_FAILED
       else if v \<noteq> [] \<and> good (hd v) then retA () else ask_rounds P iCmd p good n) s1 = Some (s', Inr ())"
    by (auto simp: bindA_Some)
  show ?case
  proof (cases "v \<noteq> [] \<and> good (hd v)")
    case True
    with b have "iRet = MP_SUCCESS" "s' = s1" by (auto simp: retA_Some split: if_splits)
    with a True show ?thesis by (auto simp: last_seen_def)
  next
    case False
    with b have "ask_rounds P iCmd p good n s1 = Some (s', Inr ())" by (auto split: if_splits)
    then show ?thesis by (rule Suc.IH)
  qed
qed simp

definition rhcs_param :: "string \<Rightarrow> string" where
  "rhcs_param h = ''|awk '$1=='' @ [dquote] @ h @ [dquote] @ '' {print $3$4$5}'' @ [squote]"

definition rhcs_good :: "string \<Rightarrow> bool" where
  "rhcs_good l \<longleftrightarrow> str_find ''Online'' l \<noteq> None \<and> str_find ''rgmanager'' l \<noteq> None"

lemma rhcs_state_seen:
  "GetRHCSClusterState P h s = Some (s', Inr True) \<Longrightarrow> last_seen P ROOT_COMMAND_RHCS_CLUSTAT (rhcs_param h) rhcs_good s'"
  unfolding GetRHCSClusterState_def root_ask_def last_seen_def rhcs_param_def [symmetric] rhcs_good_def
  by (auto simp: act_Some split_beta)

lemma rhcs_rounds_seen:
  "rhcs_rounds P h n s = Some (s', Inr ()) \<Longrightarrow> last_seen P ROOT_COMMAND_RHCS_CLUSTAT (rhcs_param h) rhcs_good s'"
proof (induction n arbitrary: s)
  case (Suc n)
  then obtain s1 b where a: "GetRHCSClusterState P h s = Some (s1, Inr b)"
    and b: "(if b then retA () else rhcs_rounds P h n) s1 = Some (s', Inr ())"
    by (auto simp: act_Some)
  show ?case
  proof (cases b)
    case True
    then show ?thesis using a b rhcs_state_seen [of P h s s1] by (simp add: retA_Some)
  next
    case False
    then show ?thesis using Suc.IH [of s1] b by simp
  qed
qed simp

text \<open>The question of a type of cluster and the answer it waits for.\<close>

definition started_query :: "int \<Rightarrow> string \<Rightarrow> int \<times> string \<times> (string \<Rightarrow> bool)" where
  "started_query iClusterType h =
     (if iClusterType = CLUSTER_VCS then (ROOT_COMMAND_HASYS, '' -state '' @ h, \<lambda>l. l = ''RUNNING'')
      else if iClusterType = CLUSTER_POWERHA then
        (ROOT_COMMAND_LSSRC, '' -ls clstrmgrES | sed -n '1p' | awk '{print $3}'' @ [squote], \<lambda>l. l = ''ST_STABLE'')
      else (ROOT_COMMAND_RHCS_CLUSTAT, rhcs_param h, rhcs_good))"

lemma unless_running_seen:
  assumes "unless_running P iCmd p normal start s = Some (s', Inr ())"
    and "\<And>s. start s = Some (s', Inr ()) \<Longrightarrow> last_seen P iCmd p (\<lambda>l. l = normal) s'"
  shows "last_seen P iCmd p (\<lambda>l. l = normal) s'"
proof -
  obtain s1 v where a: "root_exec P iCmd p (Some []) s = Some (s1, Inr (v, MP_SUCCESS))"
    and b: "(if v = [] then failA ERROR_CLUSTER_QUERY_SERVICE_STATE_FAILED else if hd v = normal then retA () else start) s1 = Some (s', Inr ())"
    using assms(1) unfolding unless_running_def bindA_Some ask_or_Some by blast
  show ?thesis
  proof (cases "v \<noteq> [] \<and> hd v = normal")
    case True
    then show ?thesis using a b by (auto simp: last_seen_def retA_Some)
  next
    case False
    then show ?thesis using assms(2) [of s1] b by (auto split: if_splits)
  qed
qed

lemma CheckClusterState_seen:
  "thenA m (CheckClusterState P iCmd p normal) s = Some (s', Inr ()) \<Longrightarrow> last_seen P iCmd p (\<lambda>l. l = normal) s'"
  by (auto simp: thenA_Some CheckClusterState_def intro: ask_rounds_seen)

lemma start_seen:
  "unless_running P iCmd p normal (thenA m (CheckClusterState P iCmd p normal)) s = Some (s', Inr ()) \<Longrightarrow>
   last_seen P iCmd p (\<lambda>l. l = normal) s'"
  by (erule unless_running_seen) (rule CheckClusterState_seen)

lemma vcs_seen:
  assumes "StartVCSCluster H P s = Some (s', Inr ())"
  shows "last_seen P ROOT_COMMAND_HASYS ('' -state '' @ c_str (fst (he_hostname H))) (\<lambda>l. l = ''RUNNING'') s'"
proof -
  from assms obtain s1 h where "host_name H ERROR_CLUSTER_QUERY_NODE_FAILED s = Some (s1, Inr h)"
    and b: "unless_running P ROOT_COMMAND_HASYS ('' -state '' @ h) ''RUNNING''
      (thenA (root_or P ROOT_COMMAND_HASTART [] ERROR_CLUSTER_START_SERVICE_FAILED)
        (CheckClusterState P ROOT_COMMAND_HASYS ('' -state '' @ h) ''RUNNING'')) s1 = Some (s', Inr ())"
    unfolding StartVCSCluster_def Let_def bindA_Some by blast
  moreover have "h = c_str (fst (he_hostname H))" using calculation(1) by (auto simp: host_name_def retA_Some split: if_splits)
  ultimately show ?thesis using start_seen by fast
qed

lemma powerha_seen:
  assumes "StartPowerHACluster P s = Some (s', Inr ())"
  shows "last_seen P ROOT_COMMAND_LSSRC ('' -ls clstrmgrES | sed -n '1p' | awk '{print $3}'' @ [squote]) (\<lambda>l. l = ''ST_STABLE'') s'"
proof -
  from assms obtain s1 nodes where b: "(if nodes = [] then failA ERROR_CLUSTER_QUERY_NODE_FAILED else
      unless_running P ROOT_COMMAND_LSSRC ('' -ls clstrmgrES | sed -n '1p' | awk '{print $3}'' @ [squote]) ''ST_STABLE''
       (thenA (root_or P ROOT_COMMAND_STARTPOWERHA ('' '-N' -cspoc-n '' @ [squote] @ join_sep CHR '','' nodes @ [squote] @ '' '-A' '-b' '-i' '-C yes'' @ [squote])
                   ERROR_CLUSTER_START_SERVICE_FAILED)
       (CheckClusterState P ROOT_COMMAND_LSSRC ('' -ls clstrmgrES | sed -n '1p' | awk '{print $3}'' @ [squote]) ''ST_STABLE''))) s1 = Some (s', Inr ())"
    unfolding StartPowerHACluster_def Let_def bindA_Some by blast
  then have "nodes \<noteq> []" by (rule contrapos_pn) simp
  with b show ?thesis using start_seen by (simp only: if_False) fast
qed

lemma rhcs_seen:
  assumes "StartRHCSCluster H P s = Some (s', Inr ())"
  shows "last_seen P ROOT_COMMAND_RHCS_CLUSTAT (rhcs_param (c_str (fst (he_hostname H)))) rhcs_good s'"
proof -
  let ?h = "c_str (fst (he_hostname H))"
  from assms obtain s1 b where a: "GetRHCSClusterState P ?h s = Some (s1, Inr b)"
    and b: "(if b then retA () else thenA (StartRHCSService P) (WaitRHCSClusterStart P ?h)) s1 = Some (s', Inr ())"
    unfolding StartRHCSCluster_def host_name_def by (auto simp: act_Some split: if_splits)
  show ?thesis
  proof (cases b)
    case True
    then show ?thesis using a b rhcs_state_seen [of P ?h s s1] by (simp add: retA_Some)
  next
    case False
    then show ?thesis using b by (auto simp: thenA_Some WaitRHCSClusterStart_def intro: rhcs_rounds_seen)
  qed
qed

section \<open>Properties\<close>

text \<open>
  C36. A row of the answer of a cluster carries the device groups of all rows before it: the groups of the
  \<open>i\<close>-th row of the script are, in the information of the agent, those of the rows up to the \<open>i\<close>-th.
\<close>
theorem cluster_rows_accumulate:
  assumes "list_all row_ok rs"
  shows "AnalyseClusterInfoScriptRst (map row_line rs) =
    map (\<lambda>i. row_info (concat (map row_devs (take (Suc i) rs))) (rs ! i)) [0..<length rs]"
  unfolding AnalyseClusterInfoScriptRst_def using cluster_rows_lines [OF assms, of "[]"] by simp

text \<open>
  C37. A start of a VCS, PowerHA or RHCS cluster that succeeds has seen it run: the last command that the root
  process executed is the question for the state of the cluster, and its answer is the state that runs.
\<close>
theorem cluster_started_seen:
  assumes "Cluster_StartCluster H P iClusterType strResGrpName s = Some (s', Inr ())"
    and "iClusterType = CLUSTER_VCS \<or> iClusterType = CLUSTER_POWERHA \<or> iClusterType = CLUSTER_RHCS"
    and "started_query iClusterType (c_str (fst (he_hostname H))) = (iCmd, strParam, good)"
  shows "last_seen P iCmd strParam good s'"
proof -
  from assms(2) consider "iClusterType = CLUSTER_VCS" | "iClusterType = CLUSTER_POWERHA" | "iClusterType = CLUSTER_RHCS" by blast
  then show ?thesis
  proof cases
    case 1
    then show ?thesis using assms(1,3) vcs_seen [of H P s s'] by (auto simp: Cluster_StartCluster_def started_query_def)
  next
    case 2
    then show ?thesis using assms(1,3) powerha_seen [of P s s'] by (auto simp: Cluster_StartCluster_def started_query_def)
  next
    case 3
    then show ?thesis using assms(1,3) rhcs_seen [of H P s s'] by (auto simp: Cluster_StartCluster_def started_query_def)
  qed
qed

section \<open>Witnesses\<close>

theorem cluster_rows_accumulate_witness:
  "AnalyseClusterInfoScriptRst [''c:g1:d1+d2:1'', ''c:g2:d3:0''] =
     [row_info [''d1'', ''d2''] (''c'', ''g1'', [''d1'', ''d2''], ''1''), row_info [''d1'', ''d2'', ''d3''] (''c'', ''g2'', [''d3''], ''0'')]"
proof -
  let ?rs = "[(''c'', ''g1'', [''d1'', ''d2''], ''1''), (''c'', ''g2'', [''d3''], ''0'')]"
  have ok: "list_all row_ok ?rs" by (simp add: row_ok_def)
  have l: "map row_line ?rs = [''c:g1:d1+d2:1'', ''c:g2:d3:0'']" by (simp add: row_line_def colons_def)
  have u: "[0..<length ?rs] = [0, 1]" by (simp add: upt_rec)
  show ?thesis using cluster_rows_accumulate [OF ok] unfolding l u by (simp add: row_devs_def)
qed

text \<open>A VCS node that does not run, is started, and runs at the second question.\<close>

definition cluster_shell :: "string \<Rightarrow> file_world \<Rightarrow> file_world \<times> popen_result" where
  "cluster_shell cmd W =
     (let answer = (\<lambda>i l. (W\<lparr>fw_text := (fw_text W)(''/opt/tmp/result_tmp'' @ i \<mapsto> l @ [CHR 0x0A])\<rparr>, Ran [] (Some (Exited 0)))) in
      if str_find ''-u 5'' cmd \<noteq> None then answer ''5'' ''EXITED''
      else if str_find ''-u 7'' cmd \<noteq> None then answer ''7'' ''RUNNING''
      else (W, Ran [] (Some (Exited 0))))"

lemma cluster_started:
  "map_option snd (Cluster_StartCluster (demo_host [] 0) (backup_plug cluster_shell) CLUSTER_VCS ''g'' demo_ps) = Some (Inr ())"
  by code_simp

theorem cluster_started_seen_witness:
  "last_seen (backup_plug cluster_shell) ROOT_COMMAND_HASYS '' -state host'' (\<lambda>l. l = ''RUNNING'')
     (fst (the (Cluster_StartCluster (demo_host [] 0) (backup_plug cluster_shell) CLUSTER_VCS ''g'' demo_ps)))"
proof -
  have h: "c_str (fst (he_hostname (demo_host [] 0))) = ''host''" by code_simp
  have q: "started_query CLUSTER_VCS (c_str (fst (he_hostname (demo_host [] 0)))) = (ROOT_COMMAND_HASYS, '' -state host'', \<lambda>l. l = ''RUNNING'')"
    by (simp add: started_query_def h)
  show ?thesis by (rule cluster_started_seen [OF map_snd_SomeD [OF cluster_started] _ q]) simp
qed

end
