(* ===== verification/MonitorApp.thy ===== *)
theory MonitorApp
  imports HostApp ConfigFile
begin

text \<open>
  The monitor of the agent and of nginx (\<^verbatim>\<open>src/src/tools/monitor/AbnormalHandler.cpp\<close>, Linux): every
  pass it reads its configuration, measures both processes with commands of the shell, starts and restarts
  them, raises and resumes the alarm of the CPU usage, and empties the folder of temporary files. Floating
  point numbers are a parameter; the shell, the SNMP library and the times and sizes of files are those of
  the environment. Refreshing the keys (\<^verbatim>\<open>CallCryptTimer\<close>) and the pause between passes are left out, and
  so is the variant for HP-UX, which is not called on Linux.
\<close>

section \<open>Data\<close>

abbreviation MONITOR_SECTION :: string where "MONITOR_SECTION \<equiv> ''Monitor''"
abbreviation AGENT_EXEC_NAME :: string where "AGENT_EXEC_NAME \<equiv> ''rdagent''"
abbreviation NGINX_EXEC_NAME :: string where "NGINX_EXEC_NAME \<equiv> ''rdnginx''"
abbreviation CFG_NGINX_SECTION :: string where "CFG_NGINX_SECTION \<equiv> ''nginx''"
abbreviation START_SCRIPT :: string where "START_SCRIPT \<equiv> ''agent_start.sh''"
abbreviation STOP_SCRIPT :: string where "STOP_SCRIPT \<equiv> ''agent_stop.sh''"
abbreviation ALARM_ID_CPUUSAGE :: int where "ALARM_ID_CPUUSAGE \<equiv> 0x3230015"
abbreviation ALARM_SEND_FAILED_TIME :: int where "ALARM_SEND_FAILED_TIME \<equiv> 3"
abbreviation MAX_TMP_EXIST_TIME :: int where "MAX_TMP_EXIST_TIME \<equiv> 86400"
abbreviation DEFAULT_XML_RETRY_TIME_VALUE :: int where "DEFAULT_XML_RETRY_TIME_VALUE \<equiv> 3"
abbreviation DEFAULT_XML_INTERVAL_VALUE :: int where "DEFAULT_XML_INTERVAL_VALUE \<equiv> 30"

text \<open>The floating point numbers of the machine: the value of a text, sum, comparisons and what a stream prints.\<close>

record 'f float_ops =
  fl_of :: "string \<Rightarrow> 'f"
  fl_zero :: 'f
  fl_add :: "'f \<Rightarrow> 'f \<Rightarrow> 'f"
  fl_gt :: "'f \<Rightarrow> 'f \<Rightarrow> bool"
  fl_le :: "'f \<Rightarrow> 'f \<Rightarrow> bool"
  fl_show :: "'f \<Rightarrow> string"

text \<open>How often in a row a value was above its limit.\<close>

record over_times =
  iPmSizeOverTimes :: int
  iVmSizeOverTimes :: int
  iHandlerOverTimes :: int
  iThreadOverTimes :: int
  iCpuUsageOverTimes :: int
  iTmpFileSizeOverTimes :: int

definition no_over_times :: over_times where
  "no_over_times = \<lparr>iPmSizeOverTimes = 0, iVmSizeOverTimes = 0, iHandlerOverTimes = 0, iThreadOverTimes = 0,
     iCpuUsageOverTimes = 0, iTmpFileSizeOverTimes = 0\<rparr>"

record 'f monitor_data =
  bExist :: bool
  iHandlerNum :: int
  iThreadNum :: int
  ulPmSize :: u64
  ulVmSize :: u64
  fCpuUsage :: 'f
  uiNginxLogSize :: u32
  ulTmpFileTotalSize :: u64

definition no_monitor_data :: "'f float_ops \<Rightarrow> 'f monitor_data" where
  "no_monitor_data F = \<lparr>bExist = False, iHandlerNum = 0, iThreadNum = 0, ulPmSize = 0, ulVmSize = 0, fCpuUsage = fl_zero F,
     uiNginxLogSize = 0, ulTmpFileTotalSize = 0\<rparr>"

record 'f process_config =
  bMonitored :: bool
  iPmSizeCfg :: int
  iVmSizeCfg :: int
  iHandlerNumCfg :: int
  iThreadNumCfg :: int
  fCpuUsageCfg :: 'f
  iTmpFileTotalSizeCfg :: int
  iNginxLogSizeCfg :: int

record common_config =
  iRetryTime :: int
  iMonitorInterval :: int

text \<open>The flags and counters of the alarm of the CPU usage.\<close>

record cpu_flags =
  m_bAgentCpuAlarmSend :: bool
  m_bAgentCpuAlarmResumed :: bool
  m_bNginxCpuAlarmSend :: bool
  m_bNginxCpuAlarmResumed :: bool
  m_bNeedResumed :: bool
  m_iAgentAlarmSendFailedTimes :: int
  m_iNginxAlarmSendFailedTimes :: int

record ('d, 'n, 'f) monitor_state =
  ms_agent :: over_times
  ms_nginx :: over_times
  ms_agent_cfg :: "'f process_config"
  ms_nginx_cfg :: "'f process_config"
  ms_common :: common_config
  ms_flags :: cpu_flags
  ms_parser :: config_parser
  ms_files :: "int \<times> file_world" \<comment> \<open>\<^verbatim>\<open>CUniqueID\<close> and the files\<close>
  ms_trap :: "('d, 'n) trap_world"

text \<open>The surroundings of a pass.\<close>

record ('w, 'd, 's, 'n, 'f) monitor_env =
  mo_exec :: exec_env
  mo_root :: string
  mo_host :: host_env
  mo_trap :: "('d, 's, 'n) trap_env"
  mo_config :: "'w config_env"
  mo_disk :: 'w
  mo_float :: "'f float_ops"
  mo_stat :: "file_world \<Rightarrow> string \<Rightarrow> (int \<times> int) option" \<comment> \<open>size and time of change\<close>
  mo_now :: int
  mo_pid :: int

section \<open>Configuration\<close>

definition Config_GetValueFloat :: "'f float_ops \<Rightarrow> 'w config_env \<Rightarrow> 'w \<Rightarrow> string \<Rightarrow> string \<Rightarrow> config_parser \<Rightarrow> (config_parser \<times> (int + 'f)) option" where
  "Config_GetValueFloat F E w sec k c =
     map_option (apsnd (map_sum (\<lambda>_. ERROR_COMMON_READ_CONFIG_FAILED) (\<lambda>v. fl_of F (c_str v)))) (Config_GetValueString E w sec k c)"

definition Config_GetValueFloat_2 :: "'f float_ops \<Rightarrow> 'w config_env \<Rightarrow> 'w \<Rightarrow> string \<Rightarrow> string \<Rightarrow> string \<Rightarrow> config_parser \<Rightarrow> (config_parser \<times> (int + 'f)) option" where
  "Config_GetValueFloat_2 F E w p sec k c =
     map_option (apsnd (map_sum (\<lambda>_. ERROR_COMMON_READ_CONFIG_FAILED) (\<lambda>v. fl_of F (c_str v)))) (Config_GetValueString2 E w p sec k c)"

text \<open>A value that cannot be read stays as it was; a null document is not survived.\<close>

definition read_into :: "(config_parser \<Rightarrow> (config_parser \<times> (int + 'a)) option) \<Rightarrow> ('a \<Rightarrow> 'r \<Rightarrow> 'r) \<Rightarrow> config_parser \<times> 'r \<Rightarrow> (config_parser \<times> 'r) option" where
  "read_into get upd cr =
     (case get (fst cr) of
        None \<Rightarrow> None
      | Some (c, Inl _) \<Rightarrow> Some (c, snd cr)
      | Some (c, Inr v) \<Rightarrow> Some (c, upd v (snd cr)))"

fun read_all :: "('r \<Rightarrow> 'r option) list \<Rightarrow> 'r \<Rightarrow> 'r option" where
  "read_all [] r = Some r"
| "read_all (f # fs) r = Option.bind (f r) (read_all fs)"

text \<open>What both processes have in common, with the last value of each.\<close>

definition process_reads :: "('w, 'd, 's, 'n, 'f) monitor_env \<Rightarrow> string
    \<Rightarrow> (config_parser \<times> 'f process_config \<Rightarrow> (config_parser \<times> 'f process_config) option) list" where
  "process_reads E sec =
     (let b = Config_GetValueBool (mo_config E) (mo_disk E) MONITOR_SECTION sec;
          i = Config_GetValueInt32_2 (mo_config E) (mo_disk E) MONITOR_SECTION sec;
          f = Config_GetValueFloat_2 (mo_float E) (mo_config E) (mo_disk E) MONITOR_SECTION sec in
      [read_into b (\<lambda>v. bMonitored_update (\<lambda>_. v)),
       read_into (i ''thread_count'') (\<lambda>v. iThreadNumCfg_update (\<lambda>_. v)),
       read_into (i ''handle_count'') (\<lambda>v. iHandlerNumCfg_update (\<lambda>_. v)),
       read_into (i ''pm_size'') (\<lambda>v. iPmSizeCfg_update (\<lambda>_. v)),
       read_into (i ''vm_size'') (\<lambda>v. iVmSizeCfg_update (\<lambda>_. v)),
       read_into (f ''cpu_usage'') (\<lambda>v. fCpuUsageCfg_update (\<lambda>_. v))])"

definition GetAgentMonitorCfg :: "('w, 'd, 's, 'n, 'f) monitor_env \<Rightarrow> ('d, 'n, 'f) monitor_state \<Rightarrow> ('d, 'n, 'f) monitor_state option" where
  "GetAgentMonitorCfg E s =
     map_option (\<lambda>(c, r). s\<lparr>ms_parser := c, ms_agent_cfg := r\<rparr>)
       (read_all (process_reads E AGENT_EXEC_NAME @
          [read_into (Config_GetValueInt32_2 (mo_config E) (mo_disk E) MONITOR_SECTION AGENT_EXEC_NAME ''tmpfile_size'')
             (\<lambda>v. iTmpFileTotalSizeCfg_update (\<lambda>_. v))]) (ms_parser s, ms_agent_cfg s))"

definition GetNginxMonitorCfg :: "('w, 'd, 's, 'n, 'f) monitor_env \<Rightarrow> ('d, 'n, 'f) monitor_state \<Rightarrow> ('d, 'n, 'f) monitor_state option" where
  "GetNginxMonitorCfg E s =
     map_option (\<lambda>(c, r). s\<lparr>ms_parser := c, ms_nginx_cfg := r\<rparr>)
       (read_all (process_reads E CFG_NGINX_SECTION @
          [read_into (Config_GetValueInt32_2 (mo_config E) (mo_disk E) MONITOR_SECTION CFG_NGINX_SECTION ''nginx_log_size'')
             (\<lambda>v. iNginxLogSizeCfg_update (\<lambda>_. v))]) (ms_parser s, ms_nginx_cfg s))"

text \<open>Without an interval the number of retries is set to the default of the interval.\<close>

definition GetCommonMonitorCfg :: "('w, 'd, 's, 'n, 'f) monitor_env \<Rightarrow> ('d, 'n, 'f) monitor_state \<Rightarrow> ('d, 'n, 'f) monitor_state option" where
  "GetCommonMonitorCfg E s =
     (let get = Config_GetValueInt32 (mo_config E) (mo_disk E) MONITOR_SECTION in
      case get ''retry_time'' (ms_parser s) of
        None \<Rightarrow> None
      | Some (c, r) \<Rightarrow>
          let m = (ms_common s)\<lparr>iRetryTime := (case r of Inl _ \<Rightarrow> DEFAULT_XML_RETRY_TIME_VALUE | Inr v \<Rightarrow> v)\<rparr> in
          case get ''monitor_interval'' c of
            None \<Rightarrow> None
          | Some (c, r) \<Rightarrow>
              Some (s\<lparr>ms_parser := c, ms_common := (case r of Inl _ \<Rightarrow> m\<lparr>iRetryTime := DEFAULT_XML_INTERVAL_VALUE\<rparr> | Inr v \<Rightarrow> m\<lparr>iMonitorInterval := v\<rparr>)\<rparr>))"

section \<open>Measurements\<close>

text \<open>A chain of questions: each needs a first line; an empty answer ends the chain with the code of its command.\<close>

fun measure_all :: "exec_env \<Rightarrow> string \<Rightarrow> (string \<times> (string \<Rightarrow> 'f monitor_data \<Rightarrow> 'f monitor_data)) list \<Rightarrow> 'f monitor_data \<Rightarrow> file_world
    \<Rightarrow> file_world \<times> 'f monitor_data \<times> int" where
  "measure_all X root [] md W = (W, md, MP_SUCCESS)"
| "measure_all X root ((strCmd, upd) # qs) md W =
     (case ExecSystemWithEcho X root strCmd [] True W of
        (W, vecRlt, iRet) \<Rightarrow>
          if iRet \<noteq> MP_SUCCESS \<or> vecRlt = [] then (W, md, iRet)
          else measure_all X root qs (upd (hd vecRlt) md) W)"

definition GetMonitorData :: "('w, 'd, 's, 'n, 'f) monitor_env \<Rightarrow> string \<Rightarrow> 'f monitor_data \<Rightarrow> file_world \<Rightarrow> file_world \<times> 'f monitor_data \<times> int" where
  "GetMonitorData E strProcessID =
     measure_all (mo_exec E) (mo_root E)
       [(''ps -p '' @ strProcessID @ '' -o nlwp | grep -v NLWP'', \<lambda>l. iThreadNum_update (\<lambda>_. atoi (c_str (trim_in_place l)))),
        (''ls /proc/'' @ strProcessID @ ''/fd | wc -l'', \<lambda>l. iHandlerNum_update (\<lambda>_. atoi (c_str l))),
        (''ps auxw | grep -w '' @ [CHR 0x27] @ strProcessID @ [CHR 0x27] @ '' | grep -v 'grep' | awk '{print $6}'' @ [CHR 0x27],
         \<lambda>l. ulPmSize_update (\<lambda>_. word_of_int (atol (c_str l)))),
        (''ps -p '' @ strProcessID @ '' -o vsz | grep -v VSZ'', \<lambda>l. ulVmSize_update (\<lambda>_. word_of_int (atol (c_str l)))),
        (''ps auxw | grep -w '' @ [CHR 0x27] @ strProcessID @ [CHR 0x27] @ '' | grep -v 'grep' | awk '{print $3}'' @ [CHR 0x27],
         \<lambda>l. fCpuUsage_update (\<lambda>_. fl_of (mo_float E) (c_str l)))]"

definition AddMonitorData :: "'f float_ops \<Rightarrow> 'f monitor_data \<Rightarrow> 'f monitor_data \<Rightarrow> 'f monitor_data" where
  "AddMonitorData F a b =
     \<lparr>bExist = (bExist a \<or> bExist b), iHandlerNum = iHandlerNum a + iHandlerNum b, iThreadNum = iThreadNum a + iThreadNum b,
       ulPmSize = ulPmSize a + ulPmSize b, ulVmSize = ulVmSize a + ulVmSize b, fCpuUsage = fl_add F (fCpuUsage a) (fCpuUsage b),
       uiNginxLogSize = (if uiNginxLogSize a = 0 then uiNginxLogSize b else uiNginxLogSize a),
       ulTmpFileTotalSize = (if ulTmpFileTotalSize a = 0 then ulTmpFileTotalSize b else ulTmpFileTotalSize a)\<rparr>"

text \<open>\<^verbatim>\<open>CMpFile::FileSize\<close>: thirty-two bits of the size.\<close>

definition Mp_FileSize :: "('w, 'd, 's, 'n, 'f) monitor_env \<Rightarrow> file_world \<Rightarrow> string \<Rightarrow> u32 option" where
  "Mp_FileSize E W p = map_option (\<lambda>(size, _). word_of_int size) (mo_stat E W (c_str p))"

fun sizes :: "('w, 'd, 's, 'n, 'f) monitor_env \<Rightarrow> file_world \<Rightarrow> string list \<Rightarrow> u64 \<Rightarrow> u64 \<times> int" where
  "sizes E W [] ulSize = (ulSize, MP_SUCCESS)"
| "sizes E W (f # fs) ulSize =
     (case Mp_FileSize E W (GetTmpFilePath (mo_root E) f) of
        None \<Rightarrow> (ulSize, MP_FAILED)
      | Some uiSize \<Rightarrow> sizes E W fs (ulSize + ucast uiSize))"

definition GetTmpFileTotalSize :: "('w, 'd, 's, 'n, 'f) monitor_env \<Rightarrow> file_world \<Rightarrow> u64 \<times> int" where
  "GetTmpFileTotalSize E W =
     (case GetFolderFile (mo_host E) W (GetTmpPath (mo_root E)) [] of
        (vecFileList, iRet) \<Rightarrow> if iRet \<noteq> MP_SUCCESS then (0, iRet) else sizes E W vecFileList 0)"

text \<open>The process whose number stands in a file; a blank finds any line.\<close>

definition pid_of_file :: "('w, 'd, 's, 'n, 'f) monitor_env \<Rightarrow> file_world \<Rightarrow> string \<Rightarrow> string" where
  "pid_of_file E W strPidFilePath =
     (case Mp_ReadFile (xe_files (mo_exec E)) W strPidFilePath [] of
        (vecRlt, iRet) \<Rightarrow> if iRet \<noteq> MP_SUCCESS \<or> vecRlt = [] then '' '' else hd vecRlt)"

definition ps_command :: "string \<Rightarrow> string \<Rightarrow> string \<Rightarrow> string" where
  "ps_command name strPid sep =
     ''ps -aef | grep '' @ [CHR 0x27] @ name @ [CHR 0x27] @ '' |grep '' @ [CHR 0x27] @ strPid @ [CHR 0x27] @ sep
       @ ''grep -v grep | grep -v gdb | grep -v monitor | grep -v vi | grep -v tail | awk '{print $2}'' @ [CHR 0x27]"

text \<open>The log file is made readable for its owner only.\<close>

definition protect_log :: "('w, 'd, 's, 'n, 'f) monitor_env \<Rightarrow> file_world \<Rightarrow> file_world" where
  "protect_log E W =
     (let p = c_str (BlankComma (GetLogFilePath (mo_root E) AGENT_LOG_NAME)) in
      if Mp_FileExist W p \<and> fe_chmod (xe_files (mo_exec E)) p then W\<lparr>fw_mode := (fw_mode W)(p := Some 0x180)\<rparr> else W)"

definition GetAgentMonitorData :: "('w, 'd, 's, 'n, 'f) monitor_env \<Rightarrow> 'f monitor_data \<Rightarrow> file_world \<Rightarrow> file_world \<times> 'f monitor_data \<times> int" where
  "GetAgentMonitorData E md W =
     (let strPid = pid_of_file E W (GetLogFilePath (mo_root E) ''rdagent.pid'') in
      case ExecSystemWithEcho (mo_exec E) (mo_root E) (ps_command AGENT_EXEC_NAME strPid '' | '') [] True W of
        (W, vecRlt, iRet) \<Rightarrow>
          if iRet \<noteq> MP_SUCCESS \<or> vecRlt = [] then (W, md\<lparr>bExist := False\<rparr>, MP_SUCCESS)
          else let W = protect_log E W; md = md\<lparr>bExist := True, ulTmpFileTotalSize := fst (GetTmpFileTotalSize E W)\<rparr>
               in GetMonitorData E (hd vecRlt) md W)"

fun nginx_processes :: "('w, 'd, 's, 'n, 'f) monitor_env \<Rightarrow> string list \<Rightarrow> 'f monitor_data \<Rightarrow> file_world \<Rightarrow> file_world \<times> 'f monitor_data \<times> int" where
  "nginx_processes E [] md W = (W, md, MP_SUCCESS)"
| "nginx_processes E (p # ps) md W =
     (case GetMonitorData E p (no_monitor_data (mo_float E)) W of
        (W, d, iRet) \<Rightarrow>
          if iRet \<noteq> MP_SUCCESS then (W, md, iRet) else nginx_processes E ps (AddMonitorData (mo_float E) md d) W)"

definition GetNginxMonitorData :: "('w, 'd, 's, 'n, 'f) monitor_env \<Rightarrow> 'f monitor_data \<Rightarrow> file_world \<Rightarrow> file_world \<times> 'f monitor_data \<times> int" where
  "GetNginxMonitorData E md W =
     (let logs = GetNginxPath (mo_root E) @ PATH_SEPARATOR @ ''logs'' @ PATH_SEPARATOR;
          md = md\<lparr>uiNginxLogSize := (case Mp_FileSize E W (logs @ ''error.log'') of None \<Rightarrow> uiNginxLogSize md | Some n \<Rightarrow> n) div 1024\<rparr>;
          strPid = pid_of_file E W (logs @ ''nginx.pid'') in
      case ExecSystemWithEcho (mo_exec E) (mo_root E) (ps_command NGINX_EXEC_NAME strPid '' |'') [] True W of
        (W, vecRlt, iRet) \<Rightarrow>
          if iRet \<noteq> MP_SUCCESS \<or> vecRlt = [] then (W, md\<lparr>bExist := False\<rparr>, MP_SUCCESS)
          else nginx_processes E vecRlt (md\<lparr>bExist := True\<rparr>) (protect_log E W))"

section \<open>Limits\<close>

definition check_value :: "bool \<Rightarrow> int \<Rightarrow> int" where
  "check_value over n = (if over then n + 1 else 0)"

text \<open>Sizes of the configuration are megabytes: kilobytes for memory, bytes for the temporary files.\<close>

definition CheckNginxMonitorValue :: "'f float_ops \<Rightarrow> 'f process_config \<Rightarrow> 'f monitor_data \<Rightarrow> over_times \<Rightarrow> over_times" where
  "CheckNginxMonitorValue F cfg md n =
     (let ulTransPmSizeCfg = (word_of_int (iPmSizeCfg cfg) :: u64) * 1024; ulTransVmSizeCfg = (word_of_int (iVmSizeCfg cfg) :: u64) * 1024 in
      n\<lparr>iPmSizeOverTimes := check_value (ulTransPmSizeCfg < ulPmSize md) (iPmSizeOverTimes n),
        iVmSizeOverTimes := check_value (ulTransVmSizeCfg < ulVmSize md) (iVmSizeOverTimes n),
        iHandlerOverTimes := check_value (iHandlerNumCfg cfg < iHandlerNum md) (iHandlerOverTimes n),
        iThreadOverTimes := check_value (iThreadNumCfg cfg < iThreadNum md) (iThreadOverTimes n),
        iCpuUsageOverTimes := check_value (fl_gt F (fCpuUsage md) (fCpuUsageCfg cfg)) (iCpuUsageOverTimes n)\<rparr>)"

definition CheckAgentMonitorValue :: "'f float_ops \<Rightarrow> 'f process_config \<Rightarrow> 'f monitor_data \<Rightarrow> over_times \<Rightarrow> over_times" where
  "CheckAgentMonitorValue F cfg md n =
     (let ulTransPmSizeCfg = (word_of_int (iPmSizeCfg cfg) :: u64) * 1024; ulTransVmSizeCfg = (word_of_int (iVmSizeCfg cfg) :: u64) * 1024;
          ulTmpFileSizeCfg = (word_of_int (iTmpFileTotalSizeCfg cfg) :: u64) * 1024 * 1024 in
      n\<lparr>iPmSizeOverTimes := check_value (ulTransPmSizeCfg < ulPmSize md) (iPmSizeOverTimes n),
        iVmSizeOverTimes := check_value (ulTransVmSizeCfg < ulVmSize md) (iVmSizeOverTimes n),
        iHandlerOverTimes := check_value (iHandlerNumCfg cfg < iHandlerNum md) (iHandlerOverTimes n),
        iThreadOverTimes := check_value (iThreadNumCfg cfg < iThreadNum md) (iThreadOverTimes n),
        iCpuUsageOverTimes := check_value (fl_gt F (fCpuUsage md) (fCpuUsageCfg cfg)) (iCpuUsageOverTimes n),
        iTmpFileSizeOverTimes := check_value (ulTmpFileSizeCfg < ulTmpFileTotalSize md) (iTmpFileSizeOverTimes n)\<rparr>)"

definition too_often :: "common_config \<Rightarrow> over_times \<Rightarrow> bool" where
  "too_often m n \<longleftrightarrow> iPmSizeOverTimes n > iRetryTime m \<or> iVmSizeOverTimes n > iRetryTime m \<or>
     iHandlerOverTimes n > iRetryTime m \<or> iThreadOverTimes n > iRetryTime m"

section \<open>Starting and stopping\<close>

text \<open>A script of the agent for a process, whose signature is checked first.\<close>

definition run_signed :: "('w, 'd, 's, 'n, 'f) monitor_env \<Rightarrow> string \<Rightarrow> string \<Rightarrow> file_world \<Rightarrow> file_world \<times> int" where
  "run_signed E script process W =
     (let X = mo_exec E; iRet = CheckScriptSign (xe_files X) (xe_hmac X) (mo_root E) W script in
      if iRet \<noteq> MP_SUCCESS then (W, iRet)
      else ExecSystemWithoutEcho X (mo_root E) (BlankComma (GetBinFilePath (mo_root E) script) @ '' '' @ process) True W)"

definition StartAgent :: "('w, 'd, 's, 'n, 'f) monitor_env \<Rightarrow> file_world \<Rightarrow> file_world \<times> int" where
  "StartAgent E W = run_signed E START_SCRIPT AGENT_EXEC_NAME W"

definition StartNginx :: "('w, 'd, 's, 'n, 'f) monitor_env \<Rightarrow> file_world \<Rightarrow> file_world \<times> int" where
  "StartNginx E W =
     ExecSystemWithoutEcho (mo_exec E) (mo_root E) (BlankComma (GetBinFilePath (mo_root E) ''agentcli'') @ '' startnginx'') True W"

text \<open>The files of a state change; the code is an answer.\<close>

definition on_files :: "(file_world \<Rightarrow> file_world \<times> int) \<Rightarrow> ('d, 'n, 'f) monitor_state \<Rightarrow> ('d, 'n, 'f) monitor_state \<times> int" where
  "on_files f s = (case f (snd (ms_files s)) of (W, iRet) \<Rightarrow> (s\<lparr>ms_files := (fst (ms_files s), W)\<rparr>, iRet))"

definition RestartAgent :: "('w, 'd, 's, 'n, 'f) monitor_env \<Rightarrow> ('d, 'n, 'f) monitor_state \<Rightarrow> ('d, 'n, 'f) monitor_state \<times> int" where
  "RestartAgent E s =
     (case on_files (run_signed E STOP_SCRIPT AGENT_EXEC_NAME) s of
        (s, iRet) \<Rightarrow>
          if iRet \<noteq> MP_SUCCESS then (s, iRet)
          else case on_files (run_signed E START_SCRIPT AGENT_EXEC_NAME) s of
                 (s, iRet) \<Rightarrow> if iRet \<noteq> MP_SUCCESS then (s, iRet) else (s\<lparr>ms_agent := no_over_times\<rparr>, MP_SUCCESS))"

definition RestartNginx :: "('w, 'd, 's, 'n, 'f) monitor_env \<Rightarrow> ('d, 'n, 'f) monitor_state \<Rightarrow> ('d, 'n, 'f) monitor_state \<times> int" where
  "RestartNginx E s =
     (case on_files (run_signed E STOP_SCRIPT CFG_NGINX_SECTION) s of
        (s, iRet) \<Rightarrow>
          if iRet \<noteq> MP_SUCCESS then (s, iRet)
          else case on_files (StartNginx E) s of
                 (s, iRet) \<Rightarrow> if iRet \<noteq> MP_SUCCESS then (s, iRet) else (s\<lparr>ms_nginx := no_over_times\<rparr>, MP_SUCCESS))"

section \<open>Temporary files\<close>

text \<open>Files of the future and files older than a day go; the code is that of the last file.\<close>

fun delete_old :: "('w, 'd, 's, 'n, 'f) monitor_env \<Rightarrow> string list \<Rightarrow> int \<Rightarrow> file_world \<Rightarrow> file_world \<times> int" where
  "delete_old E [] iRet W = (W, iRet)"
| "delete_old E (f # fs) iRet W =
     (let strFilePath = GetTmpFilePath (mo_root E) f in
      case mo_stat E W (c_str strFilePath) of
        None \<Rightarrow> delete_old E fs MP_FAILED W
      | Some (_, timeLastModified) \<Rightarrow>
          if mo_now E < timeLastModified \<or> mo_now E - timeLastModified > MAX_TMP_EXIST_TIME then
            (case DelFile (xe_files (mo_exec E)) (c_str strFilePath) W of
               (W, iRet1) \<Rightarrow> delete_old E fs (if iRet1 \<noteq> MP_SUCCESS then iRet1 else MP_SUCCESS) W)
          else delete_old E fs MP_SUCCESS W)"

definition DeleteTmpFile :: "('w, 'd, 's, 'n, 'f) monitor_env \<Rightarrow> file_world \<Rightarrow> file_world \<times> int" where
  "DeleteTmpFile E W =
     (case GetFolderFile (mo_host E) W (GetTmpPath (mo_root E)) [] of
        (vecFileList, iRet) \<Rightarrow> if iRet \<noteq> MP_SUCCESS then (W, iRet) else delete_old E vecFileList MP_SUCCESS W)"

section \<open>The alarm of the CPU usage\<close>

definition cpu_alarm :: "('w, 'd, 's, 'n, 'f) monitor_env \<Rightarrow> 'f process_config \<Rightarrow> alarm_param" where
  "cpu_alarm E cfg = \<lparr>ap_iAlarmID = ALARM_ID_CPUUSAGE, ap_strAlarmParam = fl_show (mo_float E) (fCpuUsageCfg cfg)\<rparr>"

definition SendCPUAlarm :: "('w, 'd, 's, 'n, 'f) monitor_env \<Rightarrow> bool \<Rightarrow> ('d, 'n, 'f) monitor_state \<Rightarrow> ('d, 'n, 'f) monitor_state \<times> int" where
  "SendCPUAlarm E agent s =
     (case SendAlarm (mo_trap E) (cpu_alarm E (if agent then ms_agent_cfg s else ms_nginx_cfg s)) (ms_trap s) of
        (t, iRet) \<Rightarrow> (s\<lparr>ms_trap := t\<rparr>, iRet))"

text \<open>The alarm is resumed under the limit of the agent.\<close>

definition ResumeCPUAlarm :: "('w, 'd, 's, 'n, 'f) monitor_env \<Rightarrow> ('d, 'n, 'f) monitor_state \<Rightarrow> ('d, 'n, 'f) monitor_state \<times> int" where
  "ResumeCPUAlarm E s =
     (case ResumeAlarm (mo_trap E) (cpu_alarm E (ms_agent_cfg s)) (ms_trap s) of (t, iRet) \<Rightarrow> (s\<lparr>ms_trap := t\<rparr>, iRet))"

definition flags :: "(cpu_flags \<Rightarrow> cpu_flags) \<Rightarrow> ('d, 'n, 'f) monitor_state \<Rightarrow> ('d, 'n, 'f) monitor_state" where
  "flags f s = s\<lparr>ms_flags := f (ms_flags s)\<rparr>"

definition agent_cpu_zero :: "('d, 'n, 'f) monitor_state \<Rightarrow> ('d, 'n, 'f) monitor_state" where
  "agent_cpu_zero s = s\<lparr>ms_agent := (ms_agent s)\<lparr>iCpuUsageOverTimes := 0\<rparr>\<rparr>"

definition nginx_cpu_zero :: "('d, 'n, 'f) monitor_state \<Rightarrow> ('d, 'n, 'f) monitor_state" where
  "nginx_cpu_zero s = s\<lparr>ms_nginx := (ms_nginx s)\<lparr>iCpuUsageOverTimes := 0\<rparr>\<rparr>"

definition CheckAgentCpuUsage :: "('w, 'd, 's, 'n, 'f) monitor_env \<Rightarrow> 'f \<Rightarrow> ('d, 'n, 'f) monitor_state \<Rightarrow> ('d, 'n, 'f) monitor_state" where
  "CheckAgentCpuUsage E fCpu s =
     (let s = (if iCpuUsageOverTimes (ms_agent s) > iRetryTime (ms_common s) \<and> \<not> m_bAgentCpuAlarmSend (ms_flags s) then
                 (let s = (case SendCPUAlarm E True s of
                     (s, iRet) \<Rightarrow>
                       if iRet \<noteq> MP_SUCCESS
                       then flags (\<lambda>f. f\<lparr>m_iAgentAlarmSendFailedTimes := m_iAgentAlarmSendFailedTimes f + 1\<rparr>) s
                       else flags (\<lambda>f. f\<lparr>m_iAgentAlarmSendFailedTimes := 0, m_bAgentCpuAlarmSend := True, m_bAgentCpuAlarmResumed := False,
                              m_bNeedResumed := True\<rparr>) (agent_cpu_zero s)) in
                  if m_iAgentAlarmSendFailedTimes (ms_flags s) > ALARM_SEND_FAILED_TIME
                  then flags (\<lambda>f. f\<lparr>m_bAgentCpuAlarmSend := True, m_bAgentCpuAlarmResumed := False\<rparr>) (agent_cpu_zero s) else s)
               else s) in
      if fl_le (mo_float E) fCpu (fCpuUsageCfg (ms_agent_cfg s))
      then flags (\<lambda>f. f\<lparr>m_bAgentCpuAlarmResumed := True, m_bNginxCpuAlarmResumed := False\<rparr>) (agent_cpu_zero s) else s)"

text \<open>Only a pass over nginx resumes the alarm, for both processes.\<close>

definition resume_cpu :: "('w, 'd, 's, 'n, 'f) monitor_env \<Rightarrow> ('d, 'n, 'f) monitor_state \<Rightarrow> ('d, 'n, 'f) monitor_state" where
  "resume_cpu E s =
     (let s = (case ResumeCPUAlarm E s of
         (s, iRet) \<Rightarrow>
           if iRet \<noteq> MP_SUCCESS
           then flags (\<lambda>f. f\<lparr>m_iNginxAlarmSendFailedTimes := m_iNginxAlarmSendFailedTimes f + 1\<rparr>) s
           else flags (\<lambda>f. f\<lparr>m_iNginxAlarmSendFailedTimes := 0, m_bNginxCpuAlarmSend := False, m_bAgentCpuAlarmSend := False,
                  m_bNginxCpuAlarmResumed := True, m_bNeedResumed := False\<rparr>) s) in
      if m_iNginxAlarmSendFailedTimes (ms_flags s) > ALARM_SEND_FAILED_TIME
      then flags (\<lambda>f. f\<lparr>m_bNginxCpuAlarmSend := False, m_bNginxCpuAlarmResumed := True, m_bNeedResumed := False\<rparr>) s else s)"

definition CheckNginxCpuUsage :: "('w, 'd, 's, 'n, 'f) monitor_env \<Rightarrow> 'f \<Rightarrow> ('d, 'n, 'f) monitor_state \<Rightarrow> ('d, 'n, 'f) monitor_state" where
  "CheckNginxCpuUsage E fCpu s =
     (let s = (if iCpuUsageOverTimes (ms_nginx s) > iRetryTime (ms_common s) \<and> \<not> m_bNginxCpuAlarmSend (ms_flags s) then
                 (let s = (case SendCPUAlarm E False s of
                     (s, iRet) \<Rightarrow>
                       if iRet \<noteq> MP_SUCCESS
                       then flags (\<lambda>f. f\<lparr>m_iNginxAlarmSendFailedTimes := m_iNginxAlarmSendFailedTimes f + 1\<rparr>) s
                       else flags (\<lambda>f. f\<lparr>m_iNginxAlarmSendFailedTimes := 0, m_bNginxCpuAlarmSend := True, m_bNginxCpuAlarmResumed := False,
                              m_bNeedResumed := True\<rparr>) (nginx_cpu_zero s)) in
                  if m_iNginxAlarmSendFailedTimes (ms_flags s) > ALARM_SEND_FAILED_TIME
                  then flags (\<lambda>f. f\<lparr>m_bNginxCpuAlarmSend := True, m_bNginxCpuAlarmResumed := False\<rparr>) (nginx_cpu_zero s) else s)
               else s) in
      if fl_le (mo_float E) fCpu (fCpuUsageCfg (ms_nginx_cfg s))
      then (let s = nginx_cpu_zero s; f = ms_flags s in
            if \<not> m_bNginxCpuAlarmResumed f \<and> m_bAgentCpuAlarmResumed f \<and> m_bNeedResumed f then resume_cpu E s else s)
      else s)"

section \<open>A pass\<close>

definition measured :: "(file_world \<Rightarrow> file_world \<times> 'f monitor_data \<times> int) \<Rightarrow> ('d, 'n, 'f) monitor_state \<Rightarrow> ('d, 'n, 'f) monitor_state \<times> 'f monitor_data \<times> int" where
  "measured f s = (case f (snd (ms_files s)) of (W, md, iRet) \<Rightarrow> (s\<lparr>ms_files := (fst (ms_files s), W)\<rparr>, md, iRet))"

definition MonitorAgent :: "('w, 'd, 's, 'n, 'f) monitor_env \<Rightarrow> ('d, 'n, 'f) monitor_state \<Rightarrow> ('d, 'n, 'f) monitor_state \<times> int" where
  "MonitorAgent E s =
     (case measured (GetAgentMonitorData E (no_monitor_data (mo_float E))) s of
        (s, md, iRet) \<Rightarrow>
          if iRet \<noteq> MP_SUCCESS then (s, iRet)
          else if \<not> bExist md then on_files (StartAgent E) s
          else
          let s = s\<lparr>ms_agent := CheckAgentMonitorValue (mo_float E) (ms_agent_cfg s) md (ms_agent s)\<rparr> in
          if too_often (ms_common s) (ms_agent s) then RestartAgent E s
          else
          let s = CheckAgentCpuUsage E (fCpuUsage md) s in
          if iTmpFileSizeOverTimes (ms_agent s) > iRetryTime (ms_common s) then on_files (DeleteTmpFile E) s
          else (s, MP_SUCCESS))"

definition RotateNginxLog :: "('w, 'd, 's, 'n, 'f) monitor_env \<Rightarrow> ('d, 'n, 'f) monitor_state \<Rightarrow> ('d, 'n, 'f) monitor_state" where
  "RotateNginxLog E s =
     (case ExecScript (mo_exec E) (mo_root E) ''rotatenginxlog.sh'' [] None True (ms_files s) of (w, _) \<Rightarrow> s\<lparr>ms_files := w\<rparr>)"

definition MonitorNginx :: "('w, 'd, 's, 'n, 'f) monitor_env \<Rightarrow> ('d, 'n, 'f) monitor_state \<Rightarrow> ('d, 'n, 'f) monitor_state \<times> int" where
  "MonitorNginx E s =
     (case measured (GetNginxMonitorData E (no_monitor_data (mo_float E))) s of
        (s, md, iRet) \<Rightarrow>
          if iRet \<noteq> MP_SUCCESS then (s, iRet)
          else if \<not> bExist md then on_files (StartNginx E) s
          else
          let s = s\<lparr>ms_nginx := CheckNginxMonitorValue (mo_float E) (ms_nginx_cfg s) md (ms_nginx s)\<rparr> in
          if too_often (ms_common s) (ms_nginx s) then RestartNginx E s
          else
          let s = CheckNginxCpuUsage E (fCpuUsage md) s in
          (if word_of_int (iNginxLogSizeCfg (ms_nginx_cfg s) * 1024) \<le> uiNginxLogSize md then RotateNginxLog E s else s, MP_SUCCESS))"

text \<open>The number of the monitor in its file; a file without a line is not survived.\<close>

definition keep_pid :: "('w, 'd, 's, 'n, 'f) monitor_env \<Rightarrow> file_world \<Rightarrow> (file_world \<times> int) option" where
  "keep_pid E W =
     (let p = GetLogFilePath (mo_root E) ''monitor.pid''; F = xe_files (mo_exec E) in
      case Mp_ReadFile F W p [] of
        (vecReadPid, iRet) \<Rightarrow>
          if iRet \<noteq> MP_SUCCESS then Some (W, iRet)
          else case vecReadPid of
                 [] \<Rightarrow> None
               | l # _ \<Rightarrow> Some (if mo_pid E \<noteq> atoi (c_str l) then Ipc_WriteFile F p [IntToString (mo_pid E)] W else (W, MP_SUCCESS)))"

definition Handle :: "('w, 'd, 's, 'n, 'f) monitor_env \<Rightarrow> ('d, 'n, 'f) monitor_state \<Rightarrow> (('d, 'n, 'f) monitor_state \<times> int) option" where
  "Handle E s =
     (case keep_pid E (snd (ms_files s)) of
        None \<Rightarrow> None
      | Some (W, iRet) \<Rightarrow>
          let s = s\<lparr>ms_files := (fst (ms_files s), W)\<rparr> in
          case (if bMonitored (ms_agent_cfg s) then MonitorAgent E s else (s, iRet)) of
            (s, iRet) \<Rightarrow>
              Some (if bMonitored (ms_nginx_cfg s)
                    then (case MonitorNginx E s of (s, iRet1) \<Rightarrow> (s, if iRet1 \<noteq> MP_SUCCESS then iRet1 else iRet))
                    else (s, iRet)))"

text \<open>A round of the thread: the configuration and then the pass.\<close>

definition monitor_round :: "('w, 'd, 's, 'n, 'f) monitor_env \<Rightarrow> ('d, 'n, 'f) monitor_state \<Rightarrow> ('d, 'n, 'f) monitor_state option" where
  "monitor_round E s =
     Option.bind (GetAgentMonitorCfg E s) (\<lambda>s.
     Option.bind (GetNginxMonitorCfg E s) (\<lambda>s.
     Option.bind (GetCommonMonitorCfg E s) (\<lambda>s.
     map_option fst (Handle E s))))"

end
