(* ===== verification/MonitorProps.thy ===== *)
theory MonitorProps
  imports MonitorApp AlarmSpec HostProps RootDemo
begin

text \<open>
  Properties of the monitor: the counters count the passes in a row above a limit, an alarm of nginx is not
  resumed under the limit of the agent, and without nginx no alarm is resumed at all.
\<close>

section \<open>What a pass leaves alone\<close>

named_theorems monitor_frame

lemma flags_frame [monitor_frame]:
  "ms_agent_cfg (flags f s) = ms_agent_cfg s" "ms_nginx_cfg (flags f s) = ms_nginx_cfg s" "ms_common (flags f s) = ms_common s"
  "ms_agent (flags f s) = ms_agent s" "ms_nginx (flags f s) = ms_nginx s" "ms_trap (flags f s) = ms_trap s" "ms_files (flags f s) = ms_files s"
  "ms_flags (flags f s) = f (ms_flags s)"
  by (simp_all add: flags_def)

lemma cpu_zero_frame [monitor_frame]:
  "ms_agent_cfg (agent_cpu_zero s) = ms_agent_cfg s" "ms_nginx_cfg (agent_cpu_zero s) = ms_nginx_cfg s"
  "ms_common (agent_cpu_zero s) = ms_common s" "ms_trap (agent_cpu_zero s) = ms_trap s" "ms_flags (agent_cpu_zero s) = ms_flags s"
  "ms_agent_cfg (nginx_cpu_zero s) = ms_agent_cfg s" "ms_nginx_cfg (nginx_cpu_zero s) = ms_nginx_cfg s"
  "ms_common (nginx_cpu_zero s) = ms_common s" "ms_trap (nginx_cpu_zero s) = ms_trap s" "ms_flags (nginx_cpu_zero s) = ms_flags s"
  "ms_agent (nginx_cpu_zero s) = ms_agent s"
  by (simp_all add: agent_cpu_zero_def nginx_cpu_zero_def)

text \<open>The configuration of a state.\<close>

definition cfgs :: "('d, 'n, 'f) monitor_state \<Rightarrow> 'f process_config \<times> 'f process_config \<times> common_config" where
  "cfgs s = (ms_agent_cfg s, ms_nginx_cfg s, ms_common s)"

lemma cfgs_files [simp]: "cfgs (s\<lparr>ms_files := w\<rparr>) = cfgs s" "cfgs (s\<lparr>ms_trap := t\<rparr>) = cfgs s" "cfgs (s\<lparr>ms_agent := a\<rparr>) = cfgs s"
  "cfgs (s\<lparr>ms_nginx := a\<rparr>) = cfgs s" "cfgs (flags f s) = cfgs s" "cfgs (agent_cpu_zero s) = cfgs s" "cfgs (nginx_cpu_zero s) = cfgs s"
  by (simp_all add: cfgs_def monitor_frame)

text \<open>
  What a pass does with the alarms: it sends alarms of the two limits and resumes the one of the agent.
\<close>

inductive trap_run :: "('w, 'd, 's, 'n, 'f) monitor_env \<Rightarrow> 'f process_config \<Rightarrow> 'f process_config \<Rightarrow> ('d, 'n) trap_world \<Rightarrow> ('d, 'n) trap_world \<Rightarrow> bool"
  for E a n where
  none: "trap_run E a n t t"
| sends: "trap_run E a n t t' \<Longrightarrow> cfg = a \<or> cfg = n \<Longrightarrow> trap_run E a n t (fst (SendAlarm (mo_trap E) (cpu_alarm E cfg) t'))"
| resumes: "trap_run E a n t t' \<Longrightarrow> trap_run E a n t (fst (ResumeAlarm (mo_trap E) (cpu_alarm E a) t'))"

lemma trap_run_trans: "trap_run E a n t2 t3 \<Longrightarrow> trap_run E a n t1 t2 \<Longrightarrow> trap_run E a n t1 t3"
  by (induction rule: trap_run.induct) (auto intro: trap_run.intros)

definition pass_keeps :: "('w, 'd, 's, 'n, 'f) monitor_env \<Rightarrow> ('d, 'n, 'f) monitor_state \<Rightarrow> ('d, 'n, 'f) monitor_state \<Rightarrow> bool" where
  "pass_keeps E s s' \<longleftrightarrow> cfgs s' = cfgs s \<and> trap_run E (ms_agent_cfg s) (ms_nginx_cfg s) (ms_trap s) (ms_trap s')"

lemma pass_keeps_refl: "cfgs s' = cfgs s \<Longrightarrow> ms_trap s' = ms_trap s \<Longrightarrow> pass_keeps E s s'"
  by (simp add: pass_keeps_def trap_run.none)

lemma pass_keeps_trans: "pass_keeps E s1 s2 \<Longrightarrow> pass_keeps E s2 s3 \<Longrightarrow> pass_keeps E s1 s3"
  by (auto simp: pass_keeps_def cfgs_def intro: trap_run_trans)

lemma pass_keeps_flags [simp]: "pass_keeps E s (flags f s') = pass_keeps E s s'" "pass_keeps E s (agent_cpu_zero s') = pass_keeps E s s'"
  "pass_keeps E s (nginx_cpu_zero s') = pass_keeps E s s'" "pass_keeps E s (s'\<lparr>ms_agent := a\<rparr>) = pass_keeps E s s'" "pass_keeps E s (s'\<lparr>ms_nginx := a\<rparr>) = pass_keeps E s s'"
  "pass_keeps E s (s'\<lparr>ms_files := w\<rparr>) = pass_keeps E s s'"
  by (simp_all add: pass_keeps_def monitor_frame)

lemma pass_keeps_self [simp]: "pass_keeps E s s"
  by (simp add: pass_keeps_refl)

lemma pass_keeps_send: "SendCPUAlarm E agent s = (s', r) \<Longrightarrow> pass_keeps E s s'"
proof -
  let ?c = "if agent then ms_agent_cfg s else ms_nginx_cfg s"
  assume "SendCPUAlarm E agent s = (s', r)"
  then have "s' = s\<lparr>ms_trap := fst (SendAlarm (mo_trap E) (cpu_alarm E ?c) (ms_trap s))\<rparr>"
    by (auto simp: SendCPUAlarm_def split: prod.splits)
  moreover have "trap_run E (ms_agent_cfg s) (ms_nginx_cfg s) (ms_trap s) (fst (SendAlarm (mo_trap E) (cpu_alarm E ?c) (ms_trap s)))"
    by (rule trap_run.sends [OF trap_run.none]) auto
  ultimately show ?thesis by (simp add: pass_keeps_def)
qed

lemma pass_keeps_resume: "ResumeCPUAlarm E s = (s', r) \<Longrightarrow> pass_keeps E s s'"
proof -
  assume "ResumeCPUAlarm E s = (s', r)"
  then have "s' = s\<lparr>ms_trap := fst (ResumeAlarm (mo_trap E) (cpu_alarm E (ms_agent_cfg s)) (ms_trap s))\<rparr>"
    by (auto simp: ResumeCPUAlarm_def split: prod.splits)
  moreover have "trap_run E (ms_agent_cfg s) (ms_nginx_cfg s) (ms_trap s) (fst (ResumeAlarm (mo_trap E) (cpu_alarm E (ms_agent_cfg s)) (ms_trap s)))"
    by (rule trap_run.resumes [OF trap_run.none])
  ultimately show ?thesis by (simp add: pass_keeps_def)
qed

lemma pass_keeps_agent_cpu: "pass_keeps E s (CheckAgentCpuUsage E fCpu s)"
proof -
  obtain s' r where "SendCPUAlarm E True s = (s', r)" by force
  with pass_keeps_send [OF this] show ?thesis by (simp add: CheckAgentCpuUsage_def Let_def)
qed

lemma pass_keeps_resume_cpu: "pass_keeps E s (resume_cpu E s)"
proof -
  obtain s' r where "ResumeCPUAlarm E s = (s', r)" by force
  with pass_keeps_resume [OF this] show ?thesis by (simp add: resume_cpu_def Let_def)
qed

lemma pass_keeps_nginx_cpu: "pass_keeps E s (CheckNginxCpuUsage E fCpu s)"
proof -
  obtain s' r where s: "SendCPUAlarm E False s = (s', r)" by force
  have k: "pass_keeps E s s'" by (rule pass_keeps_send [OF s])
  have r: "pass_keeps E s (resume_cpu E t)" if "pass_keeps E s t" for t
    using pass_keeps_trans [OF that pass_keeps_resume_cpu] .
  show ?thesis by (simp add: CheckNginxCpuUsage_def Let_def s r k)
qed

lemma pass_keeps_on_files: "on_files f s = (s', r) \<Longrightarrow> pass_keeps E s s'"
  by (auto simp: on_files_def split: prod.splits)

lemma pass_keeps_restart: "RestartAgent E s = (s', r) \<Longrightarrow> pass_keeps E s s'" "RestartNginx E s = (s', r) \<Longrightarrow> pass_keeps E s s'"
  by (auto simp: RestartAgent_def RestartNginx_def on_files_def split: prod.splits if_splits)

lemma pass_keeps_measured: "measured f s = (s', md, r) \<Longrightarrow> pass_keeps E s s'"
  by (auto simp: measured_def split: prod.splits)

lemma pass_keeps_agent:
  assumes "MonitorAgent E s = (s', r)"
  shows "pass_keeps E s s'"
proof -
  obtain s1 md iRet where m: "measured (GetAgentMonitorData E (no_monitor_data (mo_float E))) s = (s1, md, iRet)" by (metis prod_cases3)
  let ?s2 = "s1\<lparr>ms_agent := CheckAgentMonitorValue (mo_float E) (ms_agent_cfg s1) md (ms_agent s1)\<rparr>"
  have k1: "pass_keeps E s s1" by (rule pass_keeps_measured [OF m])
  have k2: "pass_keeps E s (CheckAgentCpuUsage E (fCpuUsage md) ?s2)"
    by (rule pass_keeps_trans [OF _ pass_keeps_agent_cpu]) (simp add: k1)
  have f: "pass_keeps E s t'" if "on_files f t = (t', r)" "pass_keeps E s t" for f t t'
    using pass_keeps_trans [OF that(2) pass_keeps_on_files [OF that(1)]] .
  have g: "pass_keeps E s s'" if "RestartAgent E ?s2 = (s', r)"
    by (rule pass_keeps_trans [OF _ pass_keeps_restart(1) [OF that]]) (simp add: k1)
  show ?thesis using assms k1 k2
    by (auto simp: MonitorAgent_def m Let_def split: if_splits intro: f g)
qed

lemma pass_keeps_nginx:
  assumes "MonitorNginx E s = (s', r)"
  shows "pass_keeps E s s'"
proof -
  obtain s1 md iRet where m: "measured (GetNginxMonitorData E (no_monitor_data (mo_float E))) s = (s1, md, iRet)" by (metis prod_cases3)
  let ?s2 = "s1\<lparr>ms_nginx := CheckNginxMonitorValue (mo_float E) (ms_nginx_cfg s1) md (ms_nginx s1)\<rparr>"
  have k1: "pass_keeps E s s1" by (rule pass_keeps_measured [OF m])
  have k2: "pass_keeps E s (CheckNginxCpuUsage E (fCpuUsage md) ?s2)"
    by (rule pass_keeps_trans [OF _ pass_keeps_nginx_cpu]) (simp add: k1)
  have k3: "pass_keeps E s (RotateNginxLog E t)" if "pass_keeps E s t" for t
    using that by (simp add: RotateNginxLog_def split: prod.split)
  have f: "pass_keeps E s t'" if "on_files f t = (t', r)" "pass_keeps E s t" for f t t'
    using pass_keeps_trans [OF that(2) pass_keeps_on_files [OF that(1)]] .
  have g: "pass_keeps E s s'" if "RestartNginx E ?s2 = (s', r)"
    by (rule pass_keeps_trans [OF _ pass_keeps_restart(2) [OF that]]) (simp add: k1)
  show ?thesis using assms k1 k2
    by (auto simp: MonitorNginx_def m Let_def split: if_splits intro: f g k3)
qed

lemma pass_keeps_handle:
  assumes "Handle E s = Some (s', r)"
  shows "pass_keeps E s s'"
proof -
  obtain W r0 where p: "keep_pid E (snd (ms_files s)) = Some (W, r0)"
    using assms by (cases "keep_pid E (snd (ms_files s))") (auto simp: Handle_def)
  let ?s1 = "s\<lparr>ms_files := (fst (ms_files s), W)\<rparr>"
  obtain s2 r2 where m: "(if bMonitored (ms_agent_cfg ?s1) then MonitorAgent E ?s1 else (?s1, r0)) = (s2, r2)" by force
  have k1: "pass_keeps E s ?s1" by simp
  have k2: "pass_keeps E s s2" using m pass_keeps_trans [OF k1] pass_keeps_agent [of E ?s1 s2 r2] by (auto split: if_splits)
  obtain s3 r3 where n: "MonitorNginx E s2 = (s3, r3)" by force
  have k3: "pass_keeps E s s3" by (rule pass_keeps_trans [OF k2 pass_keeps_nginx [OF n]])
  show ?thesis using assms k2 k3 n by (auto simp: Handle_def p m [simplified] Let_def split: if_splits prod.splits)
qed

section \<open>Alarms over passes\<close>

fun handle_run :: "('w, 'd, 's, 'n, 'f) monitor_env list \<Rightarrow> ('d, 'n, 'f) monitor_state \<Rightarrow> ('d, 'n, 'f) monitor_state option" where
  "handle_run [] s = Some s"
| "handle_run (E # Es) s = (case Handle E s of None \<Rightarrow> None | Some (s, _) \<Rightarrow> handle_run Es s)"

lemma cpu_alarm_int32: "int32 (ap_iAlarmID (cpu_alarm E cfg))"
  by (simp add: cpu_alarm_def int32_def)

lemma trap_run_alarms:
  assumes "trap_run E a n t t'" "alarm_db (te_sql (mo_trap E)) (te_dbpath (mo_trap E))" "tables_inv (tables t)"
  shows "tables_inv (tables t') \<and> set (alarm_keys (tables t)) - {param_key (cpu_alarm E a)} \<subseteq> set (alarm_keys (tables t'))"
  using assms
proof (induction rule: trap_run.induct)
  case none
  then show ?case by auto
next
  case (sends t t' cfg)
  let ?p = "cpu_alarm E cfg"
  obtain t2 r where S: "SendAlarm (mo_trap E) ?p t' = (t2, r)" by force
  from SendAlarm_inv [OF sends(4) _ cpu_alarm_int32 S] sends.IH [OF sends(4,5)]
  have "tables_inv (tables t2)" "set (alarm_keys (tables t')) \<subseteq> set (alarm_keys (tables t2))" by (auto split: if_splits)
  then show ?case using sends.IH [OF sends(4,5)] by (auto simp: S)
next
  case (resumes t t')
  obtain t2 r where S: "ResumeAlarm (mo_trap E) (cpu_alarm E a) t' = (t2, r)" by force
  from ResumeAlarm_inv [OF resumes(3) _ cpu_alarm_int32 S] resumes.IH [OF resumes(3,4)] show ?case by (auto simp: S)
qed

lemma alarm_stays_pass:
  assumes "Handle E s = Some (s', r)" "alarm_db (te_sql (mo_trap E)) (te_dbpath (mo_trap E))" "tables_inv (tables (ms_trap s))"
    and "k \<in> set (alarm_keys (tables (ms_trap s)))" "k \<noteq> param_key (cpu_alarm E (ms_agent_cfg s))"
  shows "tables_inv (tables (ms_trap s')) \<and> k \<in> set (alarm_keys (tables (ms_trap s'))) \<and> ms_agent_cfg s' = ms_agent_cfg s"
  using pass_keeps_handle [OF assms(1)] trap_run_alarms [OF _ assms(2,3)] assms(4,5) by (auto simp: pass_keeps_def cfgs_def)

text \<open>Without nginx.\<close>

lemma sent_agent_cpu:
  assumes "m_bAgentCpuAlarmSend (ms_flags s)"
  shows "ms_trap (CheckAgentCpuUsage E fCpu s) = ms_trap s" "m_bAgentCpuAlarmSend (ms_flags (CheckAgentCpuUsage E fCpu s))"
  using assms by (simp_all add: CheckAgentCpuUsage_def monitor_frame)

lemma on_files_frame: "on_files f s = (s', r) \<Longrightarrow> ms_trap s' = ms_trap s \<and> ms_flags s' = ms_flags s"
  by (auto simp: on_files_def split: prod.splits)

lemma restart_frame: "RestartAgent E s = (s', r) \<Longrightarrow> ms_trap s' = ms_trap s \<and> ms_flags s' = ms_flags s"
  by (auto simp: RestartAgent_def on_files_def split: prod.splits if_splits)

lemma sent_agent:
  assumes "MonitorAgent E s = (s', r)" "m_bAgentCpuAlarmSend (ms_flags s)"
  shows "ms_trap s' = ms_trap s \<and> m_bAgentCpuAlarmSend (ms_flags s')"
proof -
  obtain s1 md iRet where m: "measured (GetAgentMonitorData E (no_monitor_data (mo_float E))) s = (s1, md, iRet)" by (metis prod_cases3)
  have k1: "ms_trap s1 = ms_trap s" "ms_flags s1 = ms_flags s" using m by (auto simp: measured_def split: prod.splits)
  let ?s2 = "s1\<lparr>ms_agent := CheckAgentMonitorValue (mo_float E) (ms_agent_cfg s1) md (ms_agent s1)\<rparr>"
  have k2: "ms_trap (CheckAgentCpuUsage E (fCpuUsage md) ?s2) = ms_trap s" "m_bAgentCpuAlarmSend (ms_flags (CheckAgentCpuUsage E (fCpuUsage md) ?s2))"
    using sent_agent_cpu [of ?s2 E "fCpuUsage md"] k1 assms(2) by simp_all
  show ?thesis using assms k1 k2
    by (auto simp: MonitorAgent_def m Let_def split: if_splits dest!: on_files_frame restart_frame)
qed

lemma sent_pass:
  assumes "Handle E s = Some (s', r)" "m_bAgentCpuAlarmSend (ms_flags s)" "\<not> bMonitored (ms_nginx_cfg s)"
  shows "ms_trap s' = ms_trap s \<and> m_bAgentCpuAlarmSend (ms_flags s') \<and> \<not> bMonitored (ms_nginx_cfg s')"
proof -
  obtain W r0 where p: "keep_pid E (snd (ms_files s)) = Some (W, r0)"
    using assms(1) by (cases "keep_pid E (snd (ms_files s))") (auto simp: Handle_def)
  let ?s1 = "s\<lparr>ms_files := (fst (ms_files s), W)\<rparr>"
  obtain s2 r2 where m: "(if bMonitored (ms_agent_cfg ?s1) then MonitorAgent E ?s1 else (?s1, r0)) = (s2, r2)" by force
  have "ms_trap s2 = ms_trap s \<and> m_bAgentCpuAlarmSend (ms_flags s2)"
    using m sent_agent [of E ?s1 s2 r2] assms(2) by (auto split: if_splits)
  moreover have n: "ms_nginx_cfg s2 = ms_nginx_cfg s"
    using m pass_keeps_agent [of E ?s1 s2 r2] by (auto simp: pass_keeps_def cfgs_def split: if_splits)
  ultimately show ?thesis using assms(1,3) by (auto simp: Handle_def p m [simplified] Let_def)
qed

section \<open>Counters\<close>

definition run_length :: "('a \<Rightarrow> bool) \<Rightarrow> 'a list \<Rightarrow> nat" where
  "run_length over xs = length (takeWhile over (rev xs))"

lemma run_length_snoc [simp]: "run_length over [] = 0" "run_length over (xs @ [x]) = (if over x then Suc (run_length over xs) else 0)"
  by (simp_all add: run_length_def)










section \<open>Properties\<close>


text \<open>
  C39. An alarm that was raised for nginx is never resumed when the limits of agent and nginx print differently:
  it stays in the table of alarms over any passes of the monitor, because a resume names the limit of the
  agent.
\<close>
theorem nginx_alarm_stays:
  assumes "SendCPUAlarm E0 False s0 = (s, MP_SUCCESS)" "tables_inv (tables (ms_trap s0))"
    and "list_all (\<lambda>E. alarm_db (te_sql (mo_trap E)) (te_dbpath (mo_trap E)) \<and>
           param_key (cpu_alarm E (ms_agent_cfg s0)) \<noteq> param_key (cpu_alarm E0 (ms_nginx_cfg s0))) (E0 # Es)"
    and "handle_run Es s = Some s'"
  shows "param_key (cpu_alarm E0 (ms_nginx_cfg s0)) \<in> set (alarm_keys (tables (ms_trap s')))"
proof -
  let ?k = "param_key (cpu_alarm E0 (ms_nginx_cfg s0))"
  obtain t r where S: "SendAlarm (mo_trap E0) (cpu_alarm E0 (ms_nginx_cfg s0)) (ms_trap s0) = (t, r)" by force
  then have s: "s = s0\<lparr>ms_trap := t\<rparr>" "r = MP_SUCCESS" using assms(1) by (simp_all add: SendCPUAlarm_def)
  have D: "alarm_db (te_sql (mo_trap E0)) (te_dbpath (mo_trap E0))" using assms(3) by simp
  from SendAlarm_inv [OF D assms(2) cpu_alarm_int32 S]
  have t: "tables_inv (tables (ms_trap s))" "?k \<in> set (alarm_keys (tables (ms_trap s)))" by (simp_all add: s)
  have "ms_agent_cfg s = ms_agent_cfg s0" by (simp add: s)
  with assms(3,4) t show ?thesis
  proof (induction Es arbitrary: s)
    case (Cons E Es)
    from Cons.prems(2) obtain s2 r2 where h: "Handle E s = Some (s2, r2)" "handle_run Es s2 = Some s'" by (auto split: option.splits)
    have "tables_inv (tables (ms_trap s2)) \<and> ?k \<in> set (alarm_keys (tables (ms_trap s2))) \<and> ms_agent_cfg s2 = ms_agent_cfg s"
      by (rule alarm_stays_pass [OF h(1) _ Cons.prems(3,4)]) (use Cons.prems(1,5) in auto)
    with Cons.IH [of s2] h(2) Cons.prems(1,5) show ?case by simp
  qed simp
qed

text \<open>
  C40. Where nginx is not monitored the alarm of the CPU usage of the agent is raised once and for all: as long
  as the configuration stays, no pass tells the alarm servers anything again, whatever is measured.
\<close>
theorem alarm_stays_without_nginx:
  assumes "handle_run Es s = Some s'" "m_bAgentCpuAlarmSend (ms_flags s)" "\<not> bMonitored (ms_nginx_cfg s)"
  shows "ms_trap s' = ms_trap s"
  using assms
proof (induction Es arbitrary: s)
  case (Cons E Es)
  from Cons.prems(1) obtain s2 r2 where h: "Handle E s = Some (s2, r2)" "handle_run Es s2 = Some s'" by (auto split: option.splits)
  from sent_pass [OF h(1) Cons.prems(2,3)] Cons.IH [OF h(2)] show ?case by simp
qed simp

section \<open>Witnesses\<close>

text \<open>
  A host whose agent and nginx always run as process 7 with 5 threads, 10 handles and 2 megabytes. Floating
  point numbers are integers.
\<close>

definition demo_floats :: "int float_ops" where
  "demo_floats = \<lparr>fl_of = atoi, fl_zero = 0, fl_add = (+), fl_gt = (>), fl_le = (\<le>), fl_show = IntToString\<rparr>"

definition monitor_shell :: "string \<Rightarrow> file_world \<Rightarrow> file_world \<times> popen_result" where
  "monitor_shell cmd W =
     (W, Ran (if str_find ''-aef'' cmd \<noteq> None then ''7'' @ [CHR 0x0A]
              else if str_find ''nlwp'' cmd \<noteq> None then ''5'' @ [CHR 0x0A]
              else if str_find ''wc -l'' cmd \<noteq> None then ''10'' @ [CHR 0x0A]
              else if str_find ''$3'' cmd \<noteq> None then ''99'' @ [CHR 0x0A]
              else ''2048'' @ [CHR 0x0A]) (Some (Exited 0)))"

definition demo_monitor :: "(unit, alarm_tables, string \<times> sql_value list, nat, int) monitor_env" where
  "demo_monitor = \<lparr>mo_exec = (demo_exec 500)\<lparr>xe_shell := monitor_shell\<rparr>, mo_root = ''/opt'', mo_host = demo_host [] 0,
     mo_trap = demo_trap_env demo_file_env demo_file_world,
     mo_config = \<lparr>ce_exists = (\<lambda>_ _. False), ce_mtime = (\<lambda>_ _. None), ce_new = (\<lambda>_. False), ce_load = (\<lambda>_ _. (None, False)), ce_save = (\<lambda>_ _ w. w)\<rparr>,
     mo_disk = (), mo_float = demo_floats, mo_stat = (\<lambda>_ _. Some (0, 0)), mo_now = 0, mo_pid = 1\<rparr>"

definition demo_limits :: "bool \<Rightarrow> int \<Rightarrow> int \<Rightarrow> int process_config" where
  "demo_limits b threads cpu = \<lparr>bMonitored = b, iPmSizeCfg = 100, iVmSizeCfg = 2000, iHandlerNumCfg = 1000, iThreadNumCfg = threads,
     fCpuUsageCfg = cpu, iTmpFileTotalSizeCfg = 20, iNginxLogSizeCfg = 3\<rparr>"

definition demo_state :: "int \<Rightarrow> bool \<Rightarrow> bool \<Rightarrow> (alarm_tables, nat, int) monitor_state" where
  "demo_state threads nginx sent = \<lparr>ms_agent = no_over_times, ms_nginx = no_over_times, ms_agent_cfg = demo_limits True threads 80,
     ms_nginx_cfg = demo_limits nginx 100 60, ms_common = \<lparr>iRetryTime = 1, iMonitorInterval = 30\<rparr>,
     ms_flags = \<lparr>m_bAgentCpuAlarmSend = sent, m_bAgentCpuAlarmResumed = False, m_bNginxCpuAlarmSend = False,
       m_bNginxCpuAlarmResumed = False, m_bNeedResumed = True, m_iAgentAlarmSendFailedTimes = 0, m_iNginxAlarmSendFailedTimes = 0\<rparr>,
     ms_parser = \<lparr>m_strCfgFilePath = [], m_lastTime = 0, m_pDoc = None\<rparr>, ms_files = (1, demo_file_world), ms_trap = demo_trap_world\<rparr>"




lemma snd_eqD: "snd x = b \<Longrightarrow> x = (fst x, b)"
  by (cases x) auto


lemma demo_handled: "handle_run [demo_monitor] (demo_state 10 False True) = Some (the (handle_run [demo_monitor] (demo_state 10 False True)))"
proof -
  have "map_option (\<lambda>_. ()) (handle_run [demo_monitor] (demo_state 10 False True)) = Some ()" by code_simp
  then show ?thesis by (cases "handle_run [demo_monitor] (demo_state 10 False True)") auto
qed

theorem alarm_stays_without_nginx_witness:
  "ms_trap (the (handle_run [demo_monitor] (demo_state 10 False True))) = demo_trap_world"
proof -
  have "m_bAgentCpuAlarmSend (ms_flags (demo_state 10 False True))" "\<not> bMonitored (ms_nginx_cfg (demo_state 10 False True))"
    by (simp_all add: demo_state_def demo_limits_def)
  from alarm_stays_without_nginx [OF demo_handled this] show ?thesis by (simp add: demo_state_def)
qed

lemma demo_raised: "snd (SendCPUAlarm demo_monitor False (demo_state 10 True False)) = MP_SUCCESS"
proof -
  let ?p = "cpu_alarm demo_monitor (ms_nginx_cfg (demo_state 10 True False))"
  have e: "mo_trap demo_monitor = demo_trap_env demo_file_env demo_file_world" "ms_trap (demo_state 10 True False) = demo_trap_world"
    by (simp_all add: demo_monitor_def demo_state_def)
  note ok = demo_tables_inv(1) [unfolded tables_inv_def, THEN conjunct1]
  note d = demo_alarm_db [of demo_file_env demo_file_world]
  have i: "int32 (ap_iAlarmID ?p)" by (rule cpu_alarm_int32)
  have k: "known_alarm ?p (tables demo_trap_world) = None" "\<not> taken (tables demo_trap_world) (next_sn 0) (ap_iAlarmID ?p)"
    by (simp_all add: known_alarm_def taken_def demo_trap_world_def)
  show ?thesis
    using SendAlarm_tables [OF d ok demo_tables_inv(3) i] k
    by (simp add: SendCPUAlarm_def e)
qed

lemma handle_run_one: "keep_pid E (snd (ms_files s)) = Some (W, r) \<Longrightarrow> handle_run [E] s = Some (the (handle_run [E] s))"
  by (simp add: Handle_def Let_def split: prod.split)

lemma demo_resumed:
  "handle_run [demo_monitor] (fst (SendCPUAlarm demo_monitor False (demo_state 10 True False))) =
   Some (the (handle_run [demo_monitor] (fst (SendCPUAlarm demo_monitor False (demo_state 10 True False)))))"
proof (rule handle_run_one)
  have "ms_files (fst (SendCPUAlarm demo_monitor False (demo_state 10 True False))) = (1, demo_file_world)"
    by (simp add: SendCPUAlarm_def demo_state_def split: prod.split)
  then show "keep_pid demo_monitor (snd (ms_files (fst (SendCPUAlarm demo_monitor False (demo_state 10 True False))))) = Some (demo_file_world, MP_FAILED)"
    by (simp add: keep_pid_def Mp_ReadFile_def demo_file_world_def)
qed

lemma demo_keys: "param_key (cpu_alarm demo_monitor (ms_agent_cfg (demo_state 10 True False))) \<noteq> param_key (cpu_alarm demo_monitor (ms_nginx_cfg (demo_state 10 True False)))"
  by code_simp

theorem nginx_alarm_stays_witness:
  "(''60'', ALARM_ID_CPUUSAGE) \<in> set (alarm_keys (tables (ms_trap (the (handle_run [demo_monitor] (fst (SendCPUAlarm demo_monitor False (demo_state 10 True False))))))))"
proof -
  have t: "tables_inv (tables (ms_trap (demo_state 10 True False)))" using demo_tables_inv(1) by (simp add: demo_state_def)
  have k: "param_key (cpu_alarm demo_monitor (ms_nginx_cfg (demo_state 10 True False))) = (''60'', ALARM_ID_CPUUSAGE)" by code_simp
  have d: "alarm_db (te_sql (mo_trap demo_monitor)) (te_dbpath (mo_trap demo_monitor))" by (simp add: demo_monitor_def demo_alarm_db)
  have l: "list_all (\<lambda>E. alarm_db (te_sql (mo_trap E)) (te_dbpath (mo_trap E)) \<and>
      param_key (cpu_alarm E (ms_agent_cfg (demo_state 10 True False))) \<noteq> param_key (cpu_alarm demo_monitor (ms_nginx_cfg (demo_state 10 True False)))) [demo_monitor, demo_monitor]"
    using d demo_keys by simp
  from nginx_alarm_stays [OF snd_eqD [OF demo_raised] t l demo_resumed] show ?thesis unfolding k .
qed

end
