(* ===== verification/Spec2Isabelle.thy ===== *)
theory Spec2Isabelle
  imports DemoAgent Utils OracleProps AlarmSpec ConfigFile DeviceProps ClusterProps MonitorProps
begin

text \<open>
  A verification library for the protection agent of this repository: a service on a host that is backed
  up, which answers REST requests of a management server. The model is the Linux build. All paths below are
  relative to \<^verbatim>\<open>src/src\<close>, headers to \<^verbatim>\<open>src/inc\<close>.

  \<^bold>\<open>How the program works.\<close> nginx passes a request to the agent by FastCGI. The receive thread of
  \<^verbatim>\<open>CCommunication\<close> takes a free handler, reads the request and checks the client
  (\<^verbatim>\<open>CAuthentication\<close>); the dispatch thread gives it to a worker (\<^verbatim>\<open>CTaskDispatchWorker\<close>,
  \<^verbatim>\<open>CTaskPool\<close>, \<^verbatim>\<open>CTaskWorker\<close>), which finds the plugin of the URL and runs its action; the send
  thread returns the answer. A freeze of an application is watched by the freeze monitor, which thaws it
  with internal requests when its client goes away. Plugins do their work through scripts and system
  commands that need root; those run in a process of their own (\<^verbatim>\<open>rootexec\<close>), to which the agent talks
  by a command line and files. A third process, the monitor, starts and restarts agent and nginx.

  \<^bold>\<open>Theories and the code they model.\<close>
  \<^item> \<^theory_text>\<open>Prelude, Strings, Utils, Path, FileSearcher, StdMap, Fifo, ErrorCode\<close>: return codes, searches in vectors, the
    byte strings of \<^verbatim>\<open>common/String.cpp\<close>, the checks of parameters (\<^verbatim>\<open>Utils.cpp\<close>, \<^verbatim>\<open>Ip.cpp\<close>), paths,
    \<^verbatim>\<open>std::map\<close>, queues and the map of error codes.
  \<^item> \<^theory_text>\<open>Json, Urls, Http, Messages\<close>: \<^verbatim>\<open>rest\<close> - access to JSON values, request URLs, FastCGI requests and
    replies, the bodies of messages.
  \<^item> \<^theory_text>\<open>ConfigXml, ConfigFile, Authentication\<close>: the configuration file with reload and save
    (\<^verbatim>\<open>common/ConfigXmlParse.cpp\<close>), the lock-out of clients (\<^verbatim>\<open>agent/Authentication.cpp\<close>).
  \<^item> \<^theory_text>\<open>Db, FreezeTable, FreezeMonitor, FreezeWorld, FreezeRequests, FreezeEntry, FreezeLoop, FreezeSpec,
    FreezeSafe, FreezeRoutes\<close>: SQLite access and the freeze monitor (\<^verbatim>\<open>common/DB.cpp\<close>,
    \<^verbatim>\<open>agent/FTExceptionHandle.cpp\<close>); its state is the list of monitored objects with the heap of FastCGI
    objects and the table they are stored in.
  \<^item> \<^theory_text>\<open>Communication, AgentLoop, AgentFrame, AgentSafe, DemoAgent\<close>: handlers, queues and the threads of
    \<^verbatim>\<open>agent/Communication.cpp\<close>; \<^verbatim>\<open>agent_run\<close> interleaves the steps of all threads freely.
  \<^item> \<^theory_text>\<open>Worker, Dispatch, TaskPool, Plugins, PluginCfg, PluginRoutes\<close>: workers, dispatcher and pool of
    \<^verbatim>\<open>agent\<close>, the plugin manager and service plugins of \<^verbatim>\<open>pluginfx\<close> and \<^verbatim>\<open>plugins\<close>, and the tables of actions.
  \<^item> \<^theory_text>\<open>IpcFile, Sign, SystemExec, RootCommands, Array, RootExec, RootCaller, RootSpec, RootProps, RootDemo\<close>: files,
    signatures of scripts, the shell, SCSI inquiries, and both sides of the root process (\<^verbatim>\<open>common\<close>, \<^verbatim>\<open>array\<close>,
    \<^verbatim>\<open>rootexec\<close>).
  \<^item> \<^theory_text>\<open>PlugAct\<close> is the monad of the actions: the counter of unique numbers, the files and the reply, with a code as
    exception; \<^const>\<open>None\<close> is a run that leaves defined behaviour. \<^theory_text>\<open>ArrayClient, DbApps, SybaseApp, HanaApp, Db2App,
    CacheApp, OracleApp, OraclePlug, HostApp, HostPlug, DeviceApp, LvmApp, FileSysApp, DevicePlug, DeviceSilent, BackupApp,
    ClusterApp\<close> are the applications and devices with the actions of their plugins (\<^verbatim>\<open>apps\<close>, \<^verbatim>\<open>host\<close>, \<^verbatim>\<open>device\<close>, \<^verbatim>\<open>cluster\<close>,
    \<^verbatim>\<open>plugins\<close>); \<^theory_text>\<open>DbProps, OracleProps, HostProps, DeviceProps, BackupProps, ClusterProps\<close> hold their properties.
  \<^item> \<^theory_text>\<open>AlarmDb, AlarmTrap, AlarmProps, AlarmSpec, AlarmStore\<close>: the tables of \<^verbatim>\<open>alarm/Alarm.cpp\<close> and the traps of
    \<^verbatim>\<open>alarm/Trap.cpp\<close>. \<^theory_text>\<open>MonitorApp, MonitorProps\<close>: the monitor (\<^verbatim>\<open>tools/monitor/AbnormalHandler.cpp\<close>).
  \<^item> \<^theory_text>\<open>Demo\<close> holds the concrete libraries on which witnesses run.

  \<^bold>\<open>Conventions.\<close> Definitions keep the names of the code, with the class in front where a name is used twice.
  A vector is a list, a C string a list of bytes (\<^verbatim>\<open>c_str\<close> cuts at a zero), a failure a code or the left of a
  sum. Integers of 32 and 64 bits are words where the code counts with them, and \<^typ>\<open>int\<close> where it compares.
  What is not in the repository is a parameter: SQLite, TinyXML, JsonCpp, FastCGI, the SNMP and hash libraries,
  the shell, and the calls of the operating system. What is assumed of them is a named predicate
  (\<^verbatim>\<open>sqlite_ok\<close>, \<^verbatim>\<open>alarm_db\<close>, \<^verbatim>\<open>rooted\<close>, \<^verbatim>\<open>cfg_ok\<close>) that the witnesses show to hold of a concrete one.

  \<^bold>\<open>Interfaces.\<close> The locales \<^verbatim>\<open>fifo\<close> (queues), \<^verbatim>\<open>dict\<close> (maps), \<^verbatim>\<open>map_store\<close> (tables), \<^verbatim>\<open>plugin_callback\<close> (what the
  plugin manager may ask of the pool) and \<^verbatim>\<open>root_shell\<close> (what the caller needs of the shell) are interpreted on the model's own
  operations.

  \<^bold>\<open>What the lemmas show.\<close> Of each part: an invariant that every operation keeps (clients, monitored objects,
  handlers, plugin handles, alarms, LUN lists); what operations do on every branch; round trips of texts that
  cross a process, a file or a table; refinements of an abstract specification (lock-out policy, the decision
  on a frozen object, alarms as a set, trap servers and frozen applications as maps, a freeze of file systems as all or nothing);
  bounds of buffers and counters; and the behaviours that the code has and hardly means to have.

  \<^bold>\<open>Bounds and fuel.\<close> Two loops may not end and are partial functions into an option: the search for a worker
  (\<^verbatim>\<open>push_loop\<close>, shown to return when a worker stays idle) and the cutting of a URL (\<^verbatim>\<open>cut_loop\<close>). The rounds of
  waiting for a cluster (10), a device or a thread are the numbers of the code. All other recursion is total.

  \<^bold>\<open>Not modelled.\<close> Windows (VSS, SQL Server, Exchange, MSFC clusters), AIX, HP-UX and Solaris, which the Linux build does not
  compile; locks, since each step of a thread is atomic in the model; the writing of logs, which
  no result depends on; the cryptography of \<^verbatim>\<open>kmc\<close> and \<^verbatim>\<open>CryptAlg\<close>, of which only the results are used; the interactive
  tools of the installation (\<^verbatim>\<open>tools/agentcli\<close>, \<^verbatim>\<open>crypto\<close>, \<^verbatim>\<open>xmlcfg\<close> and others), which drive a terminal; and the vendored code
  (\<^verbatim>\<open>securec\<close>, the FastCGI patch).
\<close>

section \<open>Authentication\<close>

text \<open>
  C1. Authentication implements the lock-out policy: with a readable configuration, one call of
  \<^verbatim>\<open>Auth\<close> changes the status of the calling client exactly as the policy says (refused while
  locked, forgotten on success, counted on failure), leaves every other client alone, and returns
  the policy's code.
\<close>
theorem auth_implements_policy:
  assumes "auth_inv st" and "cfg_ok doc"
  shows "status (fst (Auth C doc t1 t2 ip usr pw st)) =
           (status st)(ip := fst (policy t1 t2 (accepts C doc usr pw) (status st ip))) \<and>
         snd (Auth C doc t1 t2 ip usr pw st) = snd (policy t1 t2 (accepts C doc usr pw) (status st ip)) \<and>
         auth_inv (fst (Auth C doc t1 t2 ip usr pw st))"
  using Auth_refines [OF assms] auth_inv_Auth [OF assms(1)] by blast

definition demo_doc :: xml_doc where
  "demo_doc = [(''System'', [(''name'', Some ''rdadmin''), (''hash'', Some ''h''), (''sl'', Some ''s'')])]"

definition demo_crypt :: crypt_api where
  "demo_crypt = \<lparr>GetSha256Hash = (\<lambda>x. Some (if x = ''pws'' then ''h'' else [])), PBKDF2Hash = (\<lambda>p s. Some [])\<rparr>"

definition demo_auth :: auth_state where
  "demo_auth = \<lparr>m_strUsr = [], m_strPwd = [], m_lockedIPList =
     [\<lparr>isLocked = False, failedTimes = 2, lastFailedTime = 100, lockedTime = 0, strClientIP = ''10.0.0.1''\<rparr>]\<rparr>"

lemma demo_auth_ok: "auth_inv demo_auth" "cfg_ok demo_doc"
  by (simp_all add: auth_inv_def demo_auth_def entry_ok_def cfg_ok_def demo_doc_def GetValueString_def)

theorem auth_implements_policy_witness:
  "status (fst (Auth demo_crypt demo_doc 200 200 ''10.0.0.1'' ''rdadmin'' ''no'' demo_auth)) ''10.0.0.1'' = Locked 200 \<and>
   snd (Auth demo_crypt demo_doc 200 200 ''10.0.0.1'' ''rdadmin'' ''no'' demo_auth) = ERROR_COMMON_USER_OR_PASSWD_IS_WRONG"
  using auth_implements_policy [OF demo_auth_ok, of demo_crypt 200 200 "''10.0.0.1''" "''rdadmin''" "''no''"]
  by (simp add: policy_def accepts_def demo_doc_def GetValueString_def Check_def demo_crypt_def
      demo_auth_def status_def client_of_def fail_client_def)

text \<open>
  C2. Lock-out over time: once a client is locked at time \<open>T\<close>, every attempt it makes in the
  following locking period is refused with the code of a locked client, whatever its credentials
  and whatever the other clients do in between, and the lock is not extended.
\<close>
theorem lockout_holds:
  assumes "cfg_ok doc" and "auth_inv st" and "status st ip = Locked T"
    and "\<forall>a\<in>set as. at_ip a = ip \<longrightarrow> at_test a - T < LOCKED_TIME"
  shows "(\<forall>r\<in>set (snd (auth_run C doc as st)). fst r = ip \<longrightarrow> snd r = ERROR_COMMON_CLIENT_IS_LOCKED) \<and>
     status (fst (auth_run C doc as st)) ip = Locked T"
  by (rule auth_run_locked [OF assms])

definition demo_locked :: auth_state where
  "demo_locked = \<lparr>m_strUsr = [], m_strPwd = [], m_lockedIPList =
     [\<lparr>isLocked = True, failedTimes = 3, lastFailedTime = 100, lockedTime = 100, strClientIP = ''10.0.0.1''\<rparr>]\<rparr>"

theorem lockout_holds_witness:
  "status (fst (auth_run demo_crypt demo_doc
      [\<lparr>at_test = 200, at_fail = 200, at_ip = ''10.0.0.2'', at_usr = ''rdadmin'', at_pw = ''no''\<rparr>,
       \<lparr>at_test = 300, at_fail = 300, at_ip = ''10.0.0.1'', at_usr = ''rdadmin'', at_pw = ''pws''\<rparr>] demo_locked))
     ''10.0.0.1'' = Locked 100"
proof -
  have "auth_inv demo_locked" "status demo_locked ''10.0.0.1'' = Locked 100"
    by (simp_all add: auth_inv_def demo_locked_def entry_ok_def status_def client_of_def)
  note locked = lockout_holds [OF demo_auth_ok(2) this, of _ demo_crypt]
  show ?thesis by (rule conjunct2 [OF locked]) simp
qed

text \<open>
  Clients do not influence each other: after any run of attempts the status of a client is the
  one its own attempts lead to, in order, and the list of clients stays well formed.
\<close>
theorem clients_independent:
  assumes "cfg_ok doc" and "auth_inv st"
  shows "status (fst (auth_run C doc as st)) ip =
     fold (attempt_client C doc) (filter (\<lambda>a. at_ip a = ip) as) (status st ip) \<and>
     auth_inv (fst (auth_run C doc as st))"
  using auth_run_status [OF assms] auth_run_inv [OF assms(2)] by simp

section \<open>The freeze monitor\<close>

text \<open>
  C3. Memory safety and unique objects: in any interleaving of the monitor's own passes, received
  and answered requests and the rest of the agent, the monitored objects keep distinct keys, each
  owns a live FastCGI object of its own that is not one of the receive thread's, and no freed or
  null FastCGI object is used by the monitor.
\<close>
theorem monitor_run_safe:
  assumes "monitors_ok w" and "run_ok E es w"
  shows "monitors_ok (ft_run E es w)"
  by (rule ft_run_ok [OF assms])

theorem monitor_run_safe_witness:
  "monitors_ok (ft_run demo_env [Received freeze_request, Pass, Answered freeze_request (demo_answer 0 DNull)] demo_world)"
proof (rule monitor_run_safe [OF demo_world_ok])
  have h: "fcgx_of freeze_request \<in> handlers demo_world"
    by (simp add: freeze_request_def handlers_def demo_world_def fcgx_of_def new_request_def)
  let ?w1 = "ft_step demo_env (Received freeze_request) demo_world"
  have w1: "monitors_ok ?w1 \<and> handlers ?w1 = handlers demo_world"
    by (rule ft_step_ok [OF demo_world_ok]) (simp add: h)
  let ?w2 = "ft_step demo_env Pass ?w1"
  have "monitors_ok ?w2 \<and> handlers ?w2 = handlers ?w1"
    by (rule ft_step_ok) (use w1 in simp_all)
  with w1 h show "run_ok demo_env [Received freeze_request, Pass, Answered freeze_request (demo_answer 0 DNull)] demo_world"
    by simp
qed

text \<open>
  C4. The thaw cycle: an object that is frozen and due is asked for its state; when the answer to
  the monitor's own message says frozen, the monitor sends an unfreeze request; when that is
  answered with success, the object, and only it, leaves the list.
\<close>
theorem due_object_is_thawed:
  assumes "monitors_ok w" and "i < length (m_vecMonitors w)" and "m = m_vecMonitors w ! i"
    and "routed (env_json E) m" and "uiStatus m = MONITOR_STATUS_FREEZED"
    and "decide (unat (env_clock E (w_reads w))) (unat (ulBeginTime m)) (unat (uiLoopTime m)) = Query"
    and "query_param E m = QueryText q" and "w_new w = []"
    and "query_answer (env_json E) answer1 = DB_FREEZE" and "m_lRetCode answer2 = MP_SUCCESS"
  shows "m_vecMonitors (thaw_script E i q answer1 answer2 w) = take i (m_vecMonitors w) @ drop (Suc i) (m_vecMonitors w)"
  by (rule thaw_cycle [OF assms])

theorem due_object_is_thawed_witness:
  "m_vecMonitors (thaw_script demo_env 0 ''instName=orcl&dbName=db1''
     (demo_answer 0 (DObj [(''state'', DInt 0)])) (demo_answer 0 DNull) demo_world) = []"
proof -
  have "routed (env_json demo_env) demo_obj" using demo_obj_routed by (simp add: demo_env_def)
  then have "m_vecMonitors (thaw_script demo_env 0 ''instName=orcl&dbName=db1''
     (demo_answer 0 (DObj [(''state'', DInt 0)])) (demo_answer 0 DNull) demo_world) =
     take 0 (m_vecMonitors demo_world) @ drop (Suc 0) (m_vecMonitors demo_world)"
    by (intro due_object_is_thawed [where m = demo_obj] demo_world_ok)
      (simp_all add: demo_world_def demo_obj_def demo_env_def decide_def query_param_def query_answer_def
        demo_answer_def CResponseMsg_internal_def GetJsonInt32_def dj_api_def dj_member_def)
  then show ?thesis by (simp add: demo_world_def)
qed

text \<open>
  C5. What happens to a frozen object at each pass, in plain seconds: nothing while its time has not
  come, removal from list and database after six hours, and a status query in between, after which
  it waits for the answer. The 64-bit subtraction of the code never wraps.
\<close>
theorem frozen_object_decision:
  assumes "GetTimeSec E w = (w1, now)" and "m = m_vecMonitors w ! i"
  shows "fst (HandleFreezedMonitorObj E i w) =
    (case decide (unat now) (unat (ulBeginTime m)) (unat (uiLoopTime m)) of
       Wait \<Rightarrow> w1
     | Drop \<Rightarrow> drop_obj E i w1
     | Query \<Rightarrow>
         (if snd (PushQueryStatusReq E i w1) = MP_SUCCESS
          then set_obj i (\<lambda>ob. ob\<lparr>uiStatus := MONITOR_STATUS_GETSTATUSING\<rparr>) (fst (PushQueryStatusReq E i w1))
          else fst (PushQueryStatusReq E i w1)))"
  by (rule HandleFreezed_decides [OF assms])

theorem frozen_object_decision_witness:
  "uiStatus (m_vecMonitors (fst (HandleFreezedMonitorObj demo_env 0 demo_world)) ! 0) = MONITOR_STATUS_GETSTATUSING"
proof -
  let ?w1 = "demo_world\<lparr>w_reads := 1\<rparr>"
  have t: "GetTimeSec demo_env demo_world = (?w1, 1000)" by (simp add: GetTimeSec_def demo_env_def demo_world_def)
  have m: "demo_obj = m_vecMonitors demo_world ! 0" by (simp add: demo_world_def)
  have "PushQueryStatusReq demo_env 0 ?w1 =
      (?w1\<lparr>w_comm := PushReqMsgQueue (query_msg (GetQueryStatusUrl (iAppType demo_obj)) ''instName=orcl&dbName=db1'' demo_obj,
         CResponseMsg_internal (env_null demo_env)) (w_comm ?w1)\<rparr>, MP_SUCCESS)"
    by (rule PushQueryStatus_ok)
      (simp_all add: demo_world_def demo_obj_def GetQueryStatusUrl_def query_param_def Let_def)
  with frozen_object_decision [OF t m] show ?thesis
    by (simp add: decide_def demo_obj_def demo_world_def set_obj_def)
qed

text \<open>
  The answer to an unfreeze request: an object that is no longer waiting is left alone; success
  removes it; a failure sends one alarm, makes it frozen again, and doubles its loop time exactly,
  with no overflow, while that is within six hours. So with the default loop time the ninth failure
  is the last: from then on the object is never queried again and is only dropped at the end.
\<close>
theorem unfreeze_answer_effect:
  assumes "i < length (m_vecMonitors w)" and "m = m_vecMonitors w ! i"
  shows "(uiStatus m = MONITOR_STATUS_FREEZED \<longrightarrow> fst (HandleUnFreezingMonitorObj E i ok w) = w) \<and>
     (uiStatus m \<noteq> MONITOR_STATUS_FREEZED \<longrightarrow>
        fst (HandleUnFreezingMonitorObj E i True w) = drop_obj E i w \<and>
        (let w' = fst (HandleUnFreezingMonitorObj E i False w)
         in unat (uiLoopTime (m_vecMonitors w' ! i)) = next_loop (unat (uiLoopTime m)) \<and>
            uiStatus (m_vecMonitors w' ! i) = MONITOR_STATUS_FREEZED \<and>
            ulBeginTime (m_vecMonitors w' ! i) = ulBeginTime m \<and>
            length (w_alarms w') = Suc (length (w_alarms w)) \<and>
            (\<forall>j. j \<noteq> i \<longrightarrow> m_vecMonitors w' ! j = m_vecMonitors w ! j) \<and> w_comm w' = w_comm w)) \<and>
     MAX_MONITOR_TIME < (next_loop ^^ 9) (unat THAW_WAIT_TIME) \<and> (next_loop ^^ 8) (unat THAW_WAIT_TIME) \<le> MAX_MONITOR_TIME \<and>
     (\<forall>loop now b. MAX_MONITOR_TIME \<le> loop \<longrightarrow> decide now b loop \<noteq> Query)"
  using HandleUnFreezing_spec [OF assms, where E = E] nine_failures no_query_above_limit by (simp add: Let_def)

text \<open>
  The answer to a status query: an object that is not waiting is left alone; "not frozen" removes
  it, "frozen" sends an unfreeze request made from its own request and marks it, anything else makes
  it frozen again.
\<close>
theorem status_answer_effect:
  assumes "i < length (m_vecMonitors w)" and "m = m_vecMonitors w ! i" and "uiStatus m \<noteq> MONITOR_STATUS_FREEZED"
    and "iAppType m \<in> set supported" and "w_new w = []"
  shows "fst (HandleQueryStatusMonitorObj E i q w) =
     (if q = DB_UNFREEZE then drop_obj E i w
      else if q = DB_FREEZE then
        set_obj i (\<lambda>ob. ob\<lparr>uiStatus := MONITOR_STATUS_UNFREEZING\<rparr>)
          (w\<lparr>w_comm := PushReqMsgQueue
               (retarget (GetUnFreezeUrl (iAppType m)) REST_URL_METHOD_PUT (pReqMsg m), CResponseMsg_internal (env_null E))
               (w_comm w)\<rparr>)
      else set_obj i (\<lambda>ob. ob\<lparr>uiStatus := MONITOR_STATUS_FREEZED\<rparr>) w)"
  using HandleQueryStatus_spec [OF assms(1,2), where E = E] assms(3,5) bspec [OF supported_urls assms(4)] by simp

text \<open>
  C6. Answers find their object: for an object built from a freeze request, the response to the
  status query and the response to the unfreeze request that the monitor makes from it are handled
  on exactly that object, as long as it is in the list.
\<close>
theorem answers_are_routed:
  assumes "IsFreezeRequest r" and "CreateMonitorObj E r w0 = (w0', Inr m)"
    and "monitors_ok w" and "i < length (m_vecMonitors w)" and "mkey (m_vecMonitors w ! i) = mkey m"
  shows "process_rsp E (query_msg (GetQueryStatusUrl (iAppType m)) q m, rsp) w =
           fst (HandleQueryStatusMonitorObj E i (query_answer (env_json E) rsp) w) \<and>
         process_rsp E (retarget (GetUnFreezeUrl (iAppType m)) REST_URL_METHOD_PUT (pReqMsg m), rsp) w =
           fst (HandleUnFreezingMonitorObj E i (sint (word_of_int (m_lRetCode rsp) :: u32) = MP_SUCCESS) w)"
proof -
  have "distinct (map mkey (m_vecMonitors w))" using assms(3) by (simp add: monitors_ok_def)
  with query_answer_delivered [OF CreateMonitorObj_routed [OF assms(1,2)] _ assms(4,5)]
    unfreeze_answer_delivered [OF CreateMonitorObj_routed [OF assms(1,2)] _ assms(4,5)]
  show ?thesis by simp
qed

theorem answers_are_routed_witness:
  "\<exists>m. snd (CreateMonitorObj demo_env freeze_request demo_world) = Inr m \<and>
     process_rsp demo_env (query_msg (GetQueryStatusUrl (iAppType m)) [] m, demo_answer 1 DNull) demo_world =
       fst (HandleQueryStatusMonitorObj demo_env 0 DB_UNKNOWN demo_world)"
proof -
  have url: "GetProcURL freeze_request = REST_ORACLE_FREEZE"
    by (simp add: freeze_request_def)
  have body: "m_msgBody freeze_request = demo_body" by (simp add: freeze_request_def new_request_def)
  have f: "IsFreezeRequest freeze_request" by (simp add: IsFreezeRequest_def url)
  have t: "GetRequestAppType freeze_request = TYPE_APP_ORACLE"
    unfolding GetRequestAppType_def url by code_simp
  obtain w m where c: "CreateMonitorObj demo_env freeze_request demo_world = (w, Inr m)" "mkey m = mkey demo_obj"
  proof -
    have "CreateMonitorObj demo_env freeze_request demo_world = InitMonitorObj demo_env ''orcl'' ''db1'' freeze_request LOOP_TIME demo_world"
      by (simp add: CreateMonitorObj_def IsDB2OrOracleRequest_def url CreateDBMonitorObj_def GetJsonString_def body
          demo_env_def dj_api_def dj_member_def demo_body_def)
    moreover obtain w m where i: "InitMonitorObj demo_env ''orcl'' ''db1'' freeze_request LOOP_TIME demo_world = (w, Inr m)"
    proof -
      have "w_new demo_world = []" by (simp add: demo_world_def)
      from InitMonitorObj_plenty [OF this] that show thesis by blast
    qed
    ultimately show thesis
      using that InitMonitorObj_fields(1-3) [OF i] by (simp add: mkey_def t demo_obj_def)
  qed
  have i: "0 < length (m_vecMonitors demo_world)" "mkey (m_vecMonitors demo_world ! 0) = mkey m"
    using c(2) by (simp_all add: demo_world_def)
  from answers_are_routed [OF f c(1) demo_world_ok i, of "[]" "demo_answer 1 DNull"] c(1)
  show ?thesis by (simp add: query_answer_def demo_answer_def)
qed



text \<open>
  Instance and database name are a key of the table of frozen objects: storing and removing an
  object never leaves two rows with the same names.
\<close>
theorem freeze_table_key:
  assumes "freeze_db_ok E" and "live (fcgx_of (pReqMsg m)) w" and "distinct (map names (table_rows w))"
  shows "distinct (map names (table_rows (fst (SaveToDB E m w)))) \<and> distinct (map names (table_rows (fst (RemoveFromDB E m w))))"
  using SaveToDB_key [OF assms] RemoveFromDB_key [OF assms(1,3)] by blast

text \<open>
  The key of the table leaves out the application type, which the list uses: an object of
  another type with the same names (the SQL Server and the Exchange monitor always share theirs) is
  reported as stored but is not, and removing one removes the row of the other.
\<close>
theorem freeze_table_collision:
  assumes "freeze_db_ok E" and "live (fcgx_of (pReqMsg m)) w" and "r \<in> set (table_rows w)" and "names r = name_values m"
  shows "table_rows (fst (SaveToDB E m w)) = table_rows w \<and> snd (SaveToDB E m w) = MP_SUCCESS \<and>
    r \<notin> set (table_rows (fst (RemoveFromDB E m w)))"
  using SaveToDB_collision [OF assms] RemoveFromDB_collision [OF assms(1) refl, of m w] assms(4) by auto

text \<open>
  A message the monitor has queued shares the FastCGI object of its monitored object: once the
  object is removed (unfrozen by a user, answered, or given up), the message still in the queue or
  with a worker points to freed memory.
\<close>
theorem queued_message_dangles:
  assumes "monitors_ok w" and "i < length (m_vecMonitors w)" and "m = m_vecMonitors w ! i"
  shows "GetHead gp (w_heap (drop_obj E i w)) name (m_httpReq (query_msg u q m)) = None \<and>
    GetHead gp (w_heap (drop_obj E i w)) name (m_httpReq (retarget u meth (pReqMsg m))) = None"
  using message_dangles [OF assms] by blast

text \<open>
  Handling a freeze request hands the request on as it came when every disk name survives being
  pasted into a JSON text. When the second of two does not, the request goes on to the worker with
  the first disk only.
\<close>
theorem request_body_after_monitoring:
  assumes "IsFSRequest r" and "GetJsonArrayString (env_json E) (m_msgBody r) DISKNAMES [] = (MP_SUCCESS, [d1, d2])"
    and "env_parse E (c_str (disk_json d1)) = Some j"
  shows "snd (MonitorFreezeOper E r w) = (if env_parse E (c_str (disk_json d2)) = None then r\<lparr>m_msgBody := j\<rparr> else r)"
proof (cases "env_parse E (c_str (disk_json d2)) = None")
  case True
  with freeze_oper_request_lost [OF assms True] show ?thesis by (simp add: MonitorFreezeOper_def)
next
  case False
  then have "snd (MonitorFreezeOper E r w) = r"
    unfolding MonitorFreezeOper_def by (intro freeze_oper_request) (simp add: assms(2,3))
  then show ?thesis by (simp only: False if_False)
qed

definition two_disks :: "dj request_msg" where
  "two_disks = (new_request (DObj [(''diskNames'', DArr [DStr ''C'', DStr [CHR 0x22]])]) 3)
     \<lparr>m_url := empty_url\<lparr>m_procURL := REST_DEVICE_FILESYS_FREEZE\<rparr>\<rparr>"

section \<open>URLs\<close>

text \<open>
  C8. Decoding undoes encoding: any text, encoded with a buffer of at least four bytes per item, is
  decoded to itself without an error, whatever follows it.
\<close>
theorem url_round_trip:
  assumes "4 \<le> d"
  shows "\<exists>e. Urlencode2 d s = Some e \<and> Urldecode2 (e @ t) (length e) = (s, int (length s) + 1)"
  using encode_total [OF assms, of s] decode_encode [of d s _ t] by (auto simp: Urldecode2_def)

theorem url_round_trip_witness:
  "\<exists>e. Urlencode2 4 ''a b+c'' = Some e \<and> Urldecode2 (e @ ''&x'') (length e) = (''a b+c'', 6)"
  using url_round_trip [of 4 "''a b+c''" "''&x''"] by simp

text \<open>
  A query string of two pairs with distinct separator-free names and encoded values gives both
  values back (values without a zero byte).
\<close>
theorem query_round_trip:
  assumes "Urlencode2 d v1 = Some e1" and "Urlencode2 d v2 = Some e2" and "NUL \<notin> set v1" and "NUL \<notin> set v2" and "k1 \<noteq> k2"
    and "\<forall>c\<in>set k1 \<union> set k2. c \<noteq> CHR ''='' \<and> c \<noteq> CHR ''&''"
  shows "GetSpecialQueryParam k1 (SetQueryParam (k1 @ ''='' @ e1 @ ''&'' @ k2 @ ''='' @ e2) u) = v1 \<and>
    GetSpecialQueryParam k2 (SetQueryParam (k1 @ ''='' @ e1 @ ''&'' @ k2 @ ''='' @ e2) u) = v2"
proof -
  have "\<forall>c\<in>set k1 \<union> set e1 \<union> set k2 \<union> set e2. c \<noteq> CHR ''='' \<and> c \<noteq> CHR ''&''"
    using assms(6) encode_safe [OF assms(1)] encode_safe [OF assms(2)] by (simp add: ball_Un)
  note q = query_two [OF this refl, of "m_queryParam u"]
  have "GetBetweenValue (e1 @ ''&'' @ k2 @ ''='' @ e2) (length e1) = v1" "GetBetweenValue e2 (length e2) = v2"
    using GetBetweenValue_encoded [OF assms(1,3)] GetBetweenValue_encoded [OF assms(2,4), of "[]"] by simp_all
  with q assms(5) show ?thesis by (simp add: GetSpecialQueryParam_def SetQueryParam_def)
qed

text \<open>
  The monitor builds the parameters of a status query from the bare names and passes them
  through the decoder: a plus sign in an instance name reaches the worker as a space.
\<close>
theorem internal_query_not_encoded:
  assumes "plain_text p" and "plain_text s" and "plain_text db"
  shows "GetSpecialQueryParam INST_NAME (m_url (query_msg url (INST_NAME @ ''='' @ (p @ ''+'' @ s) @ ''&'' @ DBNAME @ ''='' @ db)
      (m\<lparr>iAppType := TYPE_APP_ORACLE\<rparr>))) = p @ '' '' @ s"
proof -
  have safe: "\<forall>c\<in>set INST_NAME \<union> set (p @ ''+'' @ s) \<union> set DBNAME \<union> set db. c \<noteq> CHR ''='' \<and> c \<noteq> CHR ''&''"
    using assms by (simp add: plain_text_def ball_Un)
  have n: "NUL \<notin> set (p @ '' '' @ s)" using assms(1,2) by (auto simp: plain_text_def NUL_literal)
  have dec: "urldecode_loop (p @ ''+'' @ s @ r) (length p + Suc (length s)) = (p @ '' '' @ s, True)" for r
    using assms(1)
  proof (induction p)
    case Nil
    then show ?case
      by (subst urldecode_loop.simps) (simp add: byte_at_def decode_plain [OF assms(2)])
  next
    case (Cons c p)
    then show ?case by (simp add: plain_text_def decode_step_plain)
  qed
  have "GetBetweenValue ((p @ ''+'' @ s) @ r) (length (p @ ''+'' @ s)) = p @ '' '' @ s" for r
    by (rule GetBetweenValue_decoded [OF _ n]) (use dec [of r] in simp)
  with query_two [OF safe refl] show ?thesis
    by (simp add: query_msg_def GetSpecialQueryParam_def SetQueryParam_def Let_def)
qed

text \<open>
  \<^verbatim>\<open>GetCutURL\<close> never returns a segment of a request URL: for every index from 1 on the result
  is empty, since the text is cut in front of the slash that the next search finds again.
\<close>
theorem cut_url_is_empty:
  assumes "m_procURL (SetOriURL s u) \<noteq> []" and "1 \<le> index"
  shows "GetCutURL index (SetOriURL s u) = Some []"
proof -
  have "CHR ''/'' \<in> set (m_procURL (SetOriURL s u))"
    using assms(1) ParseURL_slash [of "u\<lparr>m_oriURL := map c_tolower s\<rparr>"] by (simp add: SetOriURL_def)
  then show ?thesis by (rule GetCutURL_slash [OF _ assms(2)])
qed

section \<open>Queues and handlers\<close>

text \<open>
  C9. The response queue under any sequence of pushes and pops by the monitor: nothing is lost or
  duplicated, the monitor gets its own responses and only those, in the order they arrived, and the
  responses for clients keep their order.
\<close>
theorem internal_responses_fifo:
  assumes "(c', out) = qrun PushRspMsgQueue PopRspInternalMsgQueue ops c"
  shows "mset (m_rspMsgQueue c) + mset (pushed ops) = mset (m_rspMsgQueue c') + mset out \<and>
    filter is_internal (m_rspMsgQueue c) @ filter is_internal (pushed ops) = out @ filter is_internal (m_rspMsgQueue c') \<and>
    filter (\<lambda>m. \<not> is_internal m) (m_rspMsgQueue c') =
      filter (\<lambda>m. \<not> is_internal m) (m_rspMsgQueue c) @ filter (\<lambda>m. \<not> is_internal m) (pushed ops)"
  using int_queue.run_conservation [of c ops] int_queue.run_order [of c ops] int_queue.run_others [of ops c]
  by (simp flip: assms)

definition msg_in :: "dj message_pair" where "msg_in = (demo_req, CResponseMsg_internal DNull)"
definition msg_out :: "dj message_pair" where "msg_out = (demo_req, CResponseMsg DNull 3)"

theorem internal_responses_fifo_witness:
  "snd (qrun PushRspMsgQueue PopRspInternalMsgQueue [Push msg_out, Push msg_in, Pop] (w_comm demo_world)) = [msg_in]"
proof -
  let ?r = "qrun PushRspMsgQueue PopRspInternalMsgQueue [Push msg_out, Push msg_in, Pop] (w_comm demo_world)"
  have "[msg_in] = snd ?r @ filter is_internal (m_rspMsgQueue (fst ?r))"
    using internal_responses_fifo [of "fst ?r" "snd ?r" "[Push msg_out, Push msg_in, Pop]" "w_comm demo_world"]
    by (simp add: msg_in_def msg_out_def CResponseMsg_def CResponseMsg_internal_def demo_world_def)
  moreover have "snd ?r \<noteq> []"
    by (simp add: PushRspMsgQueue_def PopRspInternalMsgQueue_def msg_in_def msg_out_def CResponseMsg_def
        CResponseMsg_internal_def demo_world_def)
  ultimately show ?thesis by (cases "snd ?r") auto
qed

text \<open>
  The same queue as the send thread uses it: it gets the responses for clients and only those,
  in the order they arrived, and leaves the monitor's.
\<close>
theorem client_responses_fifo:
  assumes "(c', out) = qrun PushRspMsgQueue PopRspMsgQueue ops c"
  shows "mset (m_rspMsgQueue c) + mset (pushed ops) = mset (m_rspMsgQueue c') + mset out \<and>
    filter (\<lambda>m. \<not> is_internal m) (m_rspMsgQueue c) @ filter (\<lambda>m. \<not> is_internal m) (pushed ops) =
      out @ filter (\<lambda>m. \<not> is_internal m) (m_rspMsgQueue c') \<and>
    filter is_internal (m_rspMsgQueue c') = filter is_internal (m_rspMsgQueue c) @ filter is_internal (pushed ops)"
  using rsp_queue.run_conservation [of c ops] rsp_queue.run_order [of c ops] rsp_queue.run_others [of ops c]
  by (simp flip: assms)

text \<open>
  The table of preallocated requests hands no object out twice: taking one returns an object
  that was not in use and marks exactly that one, returns none only when all are in use, and
  releasing one frees exactly it.
\<close>
theorem handlers_not_shared:
  assumes "table_ok c"
  shows "(case snd (GetFcgxReq c) of
      None \<Rightarrow> fst (GetFcgxReq c) = c \<and> (\<forall>r\<in>set (m_ReqHandlerTable c). isUsed r)
    | Some a \<Rightarrow> used (fst (GetFcgxReq c)) = add_mset (Some a) (used c) \<and> Some a \<notin># used c) \<and>
    used (ReleaseRequest p c) = used c - {#p#} \<and> table_ok (fst (GetFcgxReq c)) \<and> table_ok (ReleaseRequest p c)"
  using GetFcgxReq_used [OF assms] used_Release [OF assms] assms by simp

text \<open>
  Initialisation: when every allocation succeeds and gives distinct objects, the table has its
  hundred handlers, each with an object of its own, none in use.
\<close>
theorem handlers_initialised:
  assumes "m_ReqHandlerTable c = []" and "snd (InitRequest allocs c) = MP_SUCCESS" and "distinct allocs"
  shows "table_ok (fst (InitRequest allocs c)) \<and> used (fst (InitRequest allocs c)) = {#} \<and>
         length (m_ReqHandlerTable (fst (InitRequest allocs c))) = MAX_REQUEST_HANDLER"
  by (rule InitRequest_ok [OF assms])

lemma alloc_all: "length rs \<le> length as \<Longrightarrow> snd (alloc_handlers rs (map Some as))"
  by (induction rs "map Some as" arbitrary: as rule: alloc_handlers.induct) (auto simp: Let_def case_prod_unfold Suc_le_length_iff)

section \<open>The agent's requests\<close>

text \<open>
  C10. No request is lost, answered twice or left holding its handler: in every interleaving of the
  steps of the receive thread, the send thread, the dispatcher, the workers and the monitor, the
  requests accepted are those answered and those still on their way, and the handlers in use are
  those of the requests on their way, of a connection being accepted and of a reply being released.
\<close>
theorem requests_conserved:
  assumes "agent_ok s" "service_env (ae_lib E)" "list_all event_keeps es"
  shows "ag_accepted (agent_run E es s) = ag_answered (agent_run E es s) + pending (agent_run E es s) \<and>
    used (ag_comm (agent_run E es s)) = held_handlers (agent_run E es s) \<and>
    monitors_ok (ag_world (agent_run E es s)) \<and> mgr_ok (ag_mgr (agent_run E es s))"
  using agent_run_ok [OF assms] by (simp add: agent_ok_def)

theorem requests_conserved_witness:
  "ag_accepted (agent_run demo_agent_env demo_events demo_agent) =
     ag_answered (agent_run demo_agent_env demo_events demo_agent) + pending (agent_run demo_agent_env demo_events demo_agent)"
  using requests_conserved [OF demo_agent_ok _ demo_events_keep, of demo_agent_env] demo_lib_ok
  by (simp add: demo_agent_env_def)

text \<open>
  An agent at rest has answered everything: when after some run nothing is on its way and the
  receive and send threads are between requests, every handler is free and every accepted request
  has been answered as often as it was accepted.
\<close>
theorem agent_at_rest:
  assumes "agent_ok s" "service_env (ae_lib E)" "list_all event_keeps es"
    and "pending (agent_run E es s) = {#}" "ag_rx (agent_run E es s) = RxIdle" "ag_tx (agent_run E es s) = TxIdle"
  shows "used (ag_comm (agent_run E es s)) = {#} \<and> ag_accepted (agent_run E es s) = ag_answered (agent_run E es s)"
  using agent_quiescent [OF agent_run_ok [OF assms(1-3)] assms(4-6)] .

section \<open>The dispatcher\<close>

text \<open>
  C11. Away from the end of the counter's range the dispatcher's search is the plain one: it takes
  the first idle worker in turn after the last one used, looking at each worker once, and reports
  that all are busy when none is idle.
\<close>
theorem dispatcher_takes_turns:
  assumes "0 < cnt" "0 \<le> first" "first + cnt + 1 \<le> MAX_PUSHED_WORKERS_CNT"
  shows "push_loop busy cnt first 0 first = Some (turn_choice busy cnt first)"
  by (rule push_loop_equiv [OF assms])

theorem dispatcher_takes_turns_witness:
  "push_loop (\<lambda>k i. i = 0) 10 20 0 20 = Some (22, Chosen 1)"
  using dispatcher_takes_turns [of 10 20 "\<lambda>k i. i = 0"]
  by (simp add: turn_choice_def upt_conv_Cons)

text \<open>
  The dispatcher's counter never overflows: from any value of its range the search ends with a
  counter in the range, and the worker it chooses exists and was idle when it was looked at.
\<close>
theorem dispatcher_counter_bounds:
  assumes "push_loop busy cnt first k lst = Some r" "0 \<le> lst" "lst \<le> MAX_PUSHED_WORKERS_CNT" "0 < cnt"
  shows "0 \<le> fst r \<and> fst r \<le> MAX_PUSHED_WORKERS_CNT \<and>
    (case snd r of AllBusy \<Rightarrow> fst r = first + cnt + 1 | Chosen i \<Rightarrow> i < nat cnt \<and> (\<exists>k' \<ge> k. \<not> busy k' i))"
  by (rule push_loop_range [OF assms])

lemma demo_push_wrap: "push_loop (\<lambda>k i. False) 10 2147483640 0 2147483640 = Some (0, Chosen 0)"
  by (subst push_loop.simps) (simp add: next_counter_def)

text \<open>
  C12. The search ends, at any counter of the range, as soon as one of the workers stays idle.
\<close>
theorem dispatcher_returns:
  assumes "0 < cnt" "cnt \<le> MAX_PUSHED_WORKERS_CNT" "0 \<le> lst" "lst \<le> MAX_PUSHED_WORKERS_CNT"
    "i < nat cnt" "\<And>k. K \<le> k \<Longrightarrow> \<not> busy k i"
  shows "push_loop busy cnt first 0 lst \<noteq> None"
  by (rule push_loop_returns [where i = i and K = K]) (use assms in auto)

theorem dispatcher_returns_witness: "push_loop (\<lambda>k i. k < 1000 \<or> i \<noteq> 7) 10 2147483635 0 2147483635 \<noteq> None"
  by (rule dispatcher_returns [where i = 7 and K = 1000]) simp_all

text \<open>
  The search does not end when all workers stay busy and the counter is within one round of
  the end of its range: the counter starts again at zero and the test for a full round fails
  for ever, where elsewhere the busy answer is sent.
\<close>
theorem dispatcher_stuck:
  assumes "\<And>k i. busy k i" "0 \<le> first" "first \<le> MAX_PUSHED_WORKERS_CNT" "0 < cnt"
    "first + cnt + 1 > MAX_PUSHED_WORKERS_CNT"
  shows "push_loop busy cnt first 0 first = None"
  by (rule push_loop_stuck [OF assms])

section \<open>Workers and plugins\<close>

text \<open>
  Every failure of a worker reaches the client: a request for a service without a plugin, or
  whose library does not load, is answered with the load error; a request without a registered
  action has the code of a function that does not exist, any other the code of its action; and the
  answer put on the response queue belongs to the request and carries that code when it is not
  success.
\<close>
theorem worker_errors_answered:
  assumes "keeps_request run"
  shows "m_rspMsgQueue (snd (snd (ReqFetch E cb cfg (w\<lparr>m_vecReqQueue := m # q\<rparr>, g, c)))) =
      m_rspMsgQueue c @ (case snd (worker_GetPlugin E cb cfg (GetServiceName (m_url (fst m))) g) of
        None \<Rightarrow> [SetRetCode ERROR_COMMON_PLUGIN_LOAD_FAILED m] | Some p \<Rightarrow> []) \<and>
    snd (Invoke run p m) =
      (case GetAction (GetProcURL (fst m)) (m_strMethod (m_httpReq (fst m))) (plg_actions p) of
        None \<Rightarrow> ERROR_COMMON_FUNC_UNIMPLEMENT | Some a \<Rightarrow> snd (run (ra_action a) m)) \<and>
    (\<exists>r. m_rspMsgQueue (snd (ReqInvoke run (w\<lparr>w_current := Some (m, p)\<rparr>, c))) = m_rspMsgQueue c @ [r] \<and>
      msg_id r = msg_id m \<and>
      m_lRetCode (snd r) = (if snd (Invoke run p m) \<noteq> MP_SUCCESS then snd (Invoke run p m) else m_lRetCode (snd (fst (Invoke run p m)))))"
proof (intro conjI)
  show "m_rspMsgQueue (snd (snd (ReqFetch E cb cfg (w\<lparr>m_vecReqQueue := m # q\<rparr>, g, c)))) =
      m_rspMsgQueue c @ (case snd (worker_GetPlugin E cb cfg (GetServiceName (m_url (fst m))) g) of
        None \<Rightarrow> [SetRetCode ERROR_COMMON_PLUGIN_LOAD_FAILED m] | Some p \<Rightarrow> [])"
    by (cases "worker_GetPlugin E cb cfg (GetServiceName (m_url (fst m))) g")
      (simp add: ReqFetch_def PopRequest_def PushRspMsgQueue_def Let_def split: option.split)
  show "snd (Invoke run p m) =
      (case GetAction (GetProcURL (fst m)) (m_strMethod (m_httpReq (fst m))) (plg_actions p) of
        None \<Rightarrow> ERROR_COMMON_FUNC_UNIMPLEMENT | Some a \<Rightarrow> snd (run (ra_action a) m))"
    by (auto simp: Invoke_def DoAction_def case_prod_unfold Let_def split: option.split)
  from Invoke_failure [of run p m] Invoke_msg_id [OF assms, of p m]
  show "\<exists>r. m_rspMsgQueue (snd (ReqInvoke run (w\<lparr>w_current := Some (m, p)\<rparr>, c))) = m_rspMsgQueue c @ [r] \<and>
      msg_id r = msg_id m \<and>
      m_lRetCode (snd r) = (if snd (Invoke run p m) \<noteq> MP_SUCCESS then snd (Invoke run p m) else m_lRetCode (snd (fst (Invoke run p m))))"
    by (cases "Invoke run p m") (simp add: ReqInvoke_def PushRspMsgQueue_def Let_def)
qed



text \<open>
  Loading is idempotent: once a plugin is loaded, loading it again gives the same plugin and
  changes nothing, and the sequence number moves only when a plugin is really loaded.
\<close>
theorem load_idempotent:
  assumes "service_env E" "mgr_ok g" "LoadPlugin E cb n g = (g', Some p)"
  shows "LoadPlugin E cb n g' = (g', Some p) \<and> mgr_GetPlugin n g' = Some p \<and>
    GetSCN g' = (if GetModule n g = None then GetSCN g + 2 else GetSCN g)"
proof -
  have sorted: "map_sorted (m_Modules g)" using assms(2) by (simp add: mgr_ok_def mods_ok_def)
  from assms(1) show ?thesis
  proof (cases rule: LoadPlugin_cases [where cb = cb and n = n and g = g])
    case (present m)
    then show ?thesis using assms(3) by (simp add: mgr_GetPlugin_def)
  next
    case failed
    then show ?thesis using assms(3) by simp
  next
    case (new m)
    then have g: "GetModule n g' = Some m" "m_Plugin m = Some p"
      using assms(3) by (auto simp: GetModule_def map_of_map_put [OF sorted])
    then show ?thesis using new assms(3) by (auto simp: LoadPlugin_def mgr_GetPlugin_def GetSCN_def)
  qed
qed

definition demo_host_mgr :: plgmgr where
  "demo_host_mgr = fst (LoadPlugin demo_lib (pool_callback (agent_pool demo_agent)) ''libhost'' (ag_mgr demo_agent))"

lemma demo_lib_opens:
  "LoadPlugin (demo_lib\<lparr>le_fs := (\<lambda>f. True)\<rparr>) (pool_callback CTaskPool) ''libhost'' (ag_mgr demo_agent) =
     (fst (LoadPlugin (demo_lib\<lparr>le_fs := (\<lambda>f. True)\<rparr>) (pool_callback CTaskPool) ''libhost'' (ag_mgr demo_agent)),
      Some (CServicePlugin HostPlugin_actions))"
  by (simp add: LoadPlugin_def GetModule_def demo_agent_def new_mgr_def Load_module_def GetModuleVersion_def
      pool_callback_def GetReleaseVersion_def CTaskPool_def Load_version_def CModule_Load_def CModule_def
      SNPRINTF_S_def Search_def IsExists_def FileExist_def demo_lib_def)

text \<open>
  No plugin is ever unloaded: the pool's callback refuses every plugin whose name is the null
  pointer, as that of every plugin of the agent is, so unloading a plugin and unloading the replaced
  modules change nothing.
\<close>
theorem plugins_never_unloaded:
  assumes "nameless (m_Modules g)" "nameless (m_OldModules g)"
  shows "UnloadPlugin (pool_callback p) n g = g \<and> UnloadOldModules (pool_callback p) g = g \<and>
    \<not> CanUnload p (CServicePlugin tbl)"
  by (simp add: UnloadPlugin_nameless [OF assms(1)] UnloadOldModules_nameless [OF assms(2)] CanUnload_nameless
      CServicePlugin_def)

text \<open>
  \<^verbatim>\<open>Upgrade\<close> never returns: the vector of modules it walks starts with 256 null pointers, and the
  first of them is dereferenced.
\<close>
theorem upgrade_dereferences_null: "Upgrade E cb g = None"
  by (simp add: Upgrade_def Let_def numeral_eq_Suc)





section \<open>Bodies and replies\<close>

text \<open>
  What body is accepted: over a connection that delivers a stream of bytes, exactly the bodies
  of at most 206846 bytes whose length is the Content-Length, read modulo two to the 32, are passed
  to the JSON parser, and an empty one gives the null value.
\<close>
theorem body_acceptance:
  assumes "stream_of get rest"
  shows "ReadWait parse container null_value get [] g cl st =
    (if length (rest st) \<le> MAX_BODY \<and> GetContentLen cl = of_nat (length (rest st))
     then (if rest st = [] then Inr null_value
           else case parse (c_str (rest st)) of
                  None \<Rightarrow> Inl ERROR_COMMON_INVALID_PARAM
                | Some j \<Rightarrow> if container j then Inr j else Inl ERROR_COMMON_INVALID_PARAM)
     else Inl MP_FAILED)"
  by (rule ReadWait_result [OF assms])

text \<open>
  C15. No write goes past the block: whatever a connection delivers within the size it was asked
  for, and whichever allocations fail, the bytes read stay inside the allocated block, with room for
  the terminator, and the loop ends.
\<close>
theorem body_in_bounds:
  assumes "bounded_reads get" "read_loop get news st (CMessage_Block ok g MSG_BLK_SIZE) = Some (st', b)"
  shows "block_ok b \<and> m_length b < m_size b \<and> block_ok (AddLength 1 (write_at [NUL] b))"
  using read_loop_ok [OF assms(1) CMessage_Block_ok assms(2)] write_ok [of b "[NUL]"] by auto

lemma demo_read:
  "\<exists>st' b. read_loop stream_get [] ''ab'' (CMessage_Block True [] MSG_BLK_SIZE) = Some (st', b) \<and> m_length b = 2"
  by (subst read_loop.simps) (simp add: make_room_def CMessage_Block_def stream_get_def AddLength_def write_at_def)

theorem body_in_bounds_witness:
  "\<exists>st' b. read_loop stream_get [] ''ab'' (CMessage_Block True [] MSG_BLK_SIZE) = Some (st', b) \<and> m_length b = 2 \<and>
     m_length b < m_size b"
  using demo_read body_in_bounds [OF stream_get_ok(2)] by blast

text \<open>
  The text of a JSON reply: the header lines, a blank line and the body. There is no
  Content-Type line, and the length stands under CONTENT_LENGTH, which is not the name of an HTTP
  header.
\<close>
theorem reply_text:
  assumes "m_httpType m = RSP_JSON_TYPE"
  shows "sent_text (fst (Send_rsp E puts m CHttpResponse)) =
    ''CONTENT_LENGTH: '' @ c_str (IntToString (int (length (se_write E (snd (PackageReponse m)))))) @ CRLF @
    ''Cache-Control: no-cache'' @ CRLF @ ''Content-Encoding: utf-8'' @ CRLF @
    ''Status: '' @ c_str (IntToString (m_iHttpStatus (fst (PackageReponse m)))) @ CRLF @ CRLF @
    c_str (se_write E (snd (PackageReponse m)))"
  using assms
  by (cases "PackageReponse m")
    (simp add: Send_rsp_def SendJson_def CHttpResponse_def SetHead_def WriteS_def put_call_def SendHeads_def Complete_rsp_def
      sent_text_def head_line_def Let_def c_str_def NUL_literal)

section \<open>Configuration, search path and routes\<close>


text \<open>
  Setting the search path from its own text gives the same directories in the same order, for
  directories as \<^verbatim>\<open>AddPath\<close> leaves them, and a search returns the first match, an existing file.
\<close>
theorem search_path_round_trip:
  assumes "list_all normal_dir (m_paths s)"
  shows "m_paths (SetPath (m_strPath (RebuildPathString s)) s') = m_paths s \<and>
    m_strPath (SetPath (m_strPath (RebuildPathString s)) s') = m_strPath (RebuildPathString s)"
  using assms SetPath_GetPath [of s s'] by (simp add: list_all_iff RebuildPathString_eq)

text \<open>
  C17. With the shipped list of plugins, the URL of every action that a Linux plugin registers is
  routed to that action, except the one Oracle registers under the URL of the cluster plugin, which
  gets the cluster's action; and the unfreeze and status requests of the monitor have an action for
  every type of application that a Linux build monitors.
\<close>
theorem actions_are_routed:
  "list_all (\<lambda>(n, tbl). served (shipped_cfg path t) tbl) plugin_tables \<and>
   list_all (\<lambda>a. route (shipped_cfg path t) (''/agent'' @ GetUnFreezeUrl a) REST_URL_METHOD_PUT \<noteq> None \<and>
     route (shipped_cfg path t) (''/agent'' @ GetQueryStatusUrl a) REST_URL_METHOD_GET \<noteq> None) linux_types"
  using served_all monitor_served by blast

end
